(* ===== verification/Prelude.thy ===== *)
theory Prelude
  imports
    Main
    "HOL-Library.Sublist"
    "HOL-Library.List_Lexorder"
    "HOL-Library.Char_ord"
    "HOL-Library.Product_Lexorder"
begin

text \<open>
  Shared vocabulary of the development: results as sums (Rust's \<open>Result\<close>), SQL tables as
  lists of rows with the laws the registry relies on, and the text helpers of Rust's standard
  library that the sources use (ASCII classes, UTF-8 scalars, trimming, decimal formatting).

  Conventions.  A Rust \<open>String\<close>/\<open>&str\<close> is a \<^typ>\<open>string\<close> holding its UTF-8 bytes, so
  \<open>length\<close> is Rust's \<open>len()\<close> and the list order is Rust's (and SQLite's BINARY) byte order.
  \<open>u32\<close>/\<open>u64\<close> values that the code never lets wrap are \<^typ>\<open>nat\<close>; \<open>saturating_sub\<close> is
  subtraction on \<^typ>\<open>nat\<close>.
\<close>

section \<open>Lemma collections\<close>

named_theorems result_simps \<open>rewrite rules of the result monad\<close>
named_theorems table_simps \<open>reading a table after inserts and updates\<close>

section \<open>Results\<close>

definition rbind :: "'e + 'a \<Rightarrow> ('a \<Rightarrow> 'e + 'b) \<Rightarrow> 'e + 'b" where
  "rbind m f = (case m of Inl e \<Rightarrow> Inl e | Inr x \<Rightarrow> f x)"

definition ok_or :: "'a option \<Rightarrow> 'e \<Rightarrow> 'e + 'a" where
  "ok_or m e = (case m of None \<Rightarrow> Inl e | Some x \<Rightarrow> Inr x)"

definition map_err :: "('e \<Rightarrow> 'f) \<Rightarrow> 'e + 'a \<Rightarrow> 'f + 'a" where
  "map_err f m = (case m of Inl e \<Rightarrow> Inl (f e) | Inr x \<Rightarrow> Inr x)"

definition is_ok :: "'e + 'a \<Rightarrow> bool" where
  "is_ok m = (case m of Inl _ \<Rightarrow> False | Inr _ \<Rightarrow> True)"

lemma rbind_simps [simp, result_simps]:
  "rbind (Inl e) f = Inl e"
  "rbind (Inr x) f = f x"
  by (simp_all add: rbind_def)

lemma rbind_eq_Inr [result_simps]:
  "rbind m f = Inr y \<longleftrightarrow> (\<exists>x. m = Inr x \<and> f x = Inr y)"
  by (cases m) auto

lemma rbind_eq_Inl [result_simps]:
  "rbind m f = Inl e \<longleftrightarrow> m = Inl e \<or> (\<exists>x. m = Inr x \<and> f x = Inl e)"
  by (cases m) auto

lemma rbind_InrE [elim!]:
  assumes "rbind m f = Inr y"
  obtains x where "m = Inr x" and "f x = Inr y"
  using assms by (auto simp: rbind_eq_Inr)

lemma rbind_assoc: "rbind (rbind m f) g = rbind m (\<lambda>x. rbind (f x) g)"
  by (cases m) auto

lemma ok_or_simps [simp, result_simps]:
  "ok_or None e = Inl e"
  "ok_or (Some x) e = Inr x"
  by (simp_all add: ok_or_def)

lemma ok_or_eq_Inr [simp, result_simps]: "ok_or m e = Inr x \<longleftrightarrow> m = Some x"
  by (cases m) auto

lemma map_err_simps [simp, result_simps]:
  "map_err f (Inl e) = Inl (f e)"
  "map_err f (Inr x) = Inr x"
  by (simp_all add: map_err_def)

lemma map_err_eq_Inr [simp, result_simps]: "map_err f m = Inr x \<longleftrightarrow> m = Inr x"
  by (cases m) auto

lemma is_ok_simps [simp]: "\<not> is_ok (Inl e)" "is_ok (Inr x)"
  by (simp_all add: is_ok_def)

text \<open>A \<open>for\<close> loop whose body may return an error.\<close>

fun for_each :: "('a \<Rightarrow> 'e + unit) \<Rightarrow> 'a list \<Rightarrow> 'e + unit" where
  "for_each f [] = Inr ()"
| "for_each f (x # xs) = rbind (f x) (\<lambda>_. for_each f xs)"

lemma for_each_eq_Inr: "for_each f xs = Inr u \<longleftrightarrow> (\<forall>x \<in> set xs. f x = Inr ())"
  by (induction xs) (auto simp: rbind_eq_Inr)

text \<open>The loop threading a state, as a sequence of SQL statements in one transaction does.\<close>

fun fold_res :: "('a \<Rightarrow> 's \<Rightarrow> 'e + 's) \<Rightarrow> 'a list \<Rightarrow> 's \<Rightarrow> 'e + 's" where
  "fold_res f [] s = Inr s"
| "fold_res f (x # xs) s = rbind (f x s) (fold_res f xs)"

lemma fold_res_invariant:
  assumes "fold_res f xs s = Inr s'" and "P s"
    and "\<And>x s s'. x \<in> set xs \<Longrightarrow> P s \<Longrightarrow> f x s = Inr s' \<Longrightarrow> P s'"
  shows "P s'"
  using assms
proof (induction xs arbitrary: s)
  case Nil
  then show ?case by simp
next
  case (Cons x xs)
  from Cons.prems(1) obtain t where t: "f x s = Inr t" "fold_res f xs t = Inr s'"
    by auto
  have "P t" using Cons.prems(2,3) t(1) by auto
  from Cons.IH[OF t(2) this] Cons.prems(3) show ?case by auto
qed

section \<open>Tables\<close>

text \<open>
  A SQL table is the list of its rows in insertion order.  \<open>SELECT ... WHERE key=?\<close> is
  \<open>tbl_lookup\<close>, \<open>UPDATE ... WHERE P\<close> is \<open>tbl_modify\<close>, whose number of changed rows is
  \<open>tbl_count\<close>.
\<close>

definition tbl_lookup :: "('r \<Rightarrow> 'k) \<Rightarrow> 'r list \<Rightarrow> 'k \<Rightarrow> 'r option" where
  "tbl_lookup key t k = find (\<lambda>r. key r = k) t"

definition tbl_modify :: "('r \<Rightarrow> bool) \<Rightarrow> ('r \<Rightarrow> 'r) \<Rightarrow> 'r list \<Rightarrow> 'r list" where
  "tbl_modify P f t = map (\<lambda>r. if P r then f r else r) t"

definition tbl_count :: "('r \<Rightarrow> bool) \<Rightarrow> 'r list \<Rightarrow> nat" where
  "tbl_count P t = length (filter P t)"

lemma tbl_lookup_Nil [simp, table_simps]: "tbl_lookup key [] k = None"
  by (simp add: tbl_lookup_def)

lemma tbl_lookup_Cons [table_simps]:
  "tbl_lookup key (r # t) k = (if key r = k then Some r else tbl_lookup key t k)"
  by (simp add: tbl_lookup_def)

lemma tbl_lookup_append [table_simps]:
  "tbl_lookup key (t @ u) k =
     (case tbl_lookup key t k of None \<Rightarrow> tbl_lookup key u k | Some r \<Rightarrow> Some r)"
  by (induction t) (auto simp: tbl_lookup_Cons)

lemma tbl_lookup_SomeD:
  assumes "tbl_lookup key t k = Some r"
  shows "r \<in> set t" and "key r = k"
  using assms by (auto simp: tbl_lookup_def find_Some_iff)

lemma tbl_lookup_None_iff: "tbl_lookup key t k = None \<longleftrightarrow> k \<notin> key ` set t"
  by (auto simp: tbl_lookup_def find_None_iff)

lemma tbl_lookup_mem:
  assumes "distinct (map key t)" and "r \<in> set t"
  shows "tbl_lookup key t (key r) = Some r"
  using assms by (induction t) (auto simp: tbl_lookup_Cons)

lemma tbl_lookup_iff_mem:
  "distinct (map key t) \<Longrightarrow> tbl_lookup key t k = Some r \<longleftrightarrow> r \<in> set t \<and> key r = k"
  using tbl_lookup_mem tbl_lookup_SomeD by fastforce

lemma tbl_modify_Nil [simp]: "tbl_modify P f [] = []"
  by (simp add: tbl_modify_def)

lemma tbl_modify_Cons [simp]:
  "tbl_modify P f (r # t) = (if P r then f r else r) # tbl_modify P f t"
  by (simp add: tbl_modify_def)

lemma length_tbl_modify [simp]: "length (tbl_modify P f t) = length t"
  by (simp add: tbl_modify_def)

lemma set_tbl_modify: "set (tbl_modify P f t) = (\<lambda>r. if P r then f r else r) ` set t"
  by (simp add: tbl_modify_def)

lemma map_tbl_modify [simp]:
  assumes "\<And>r. g (f r) = g r"
  shows "map g (tbl_modify P f t) = map g t"
  using assms by (simp add: tbl_modify_def)

lemma tbl_modify_none: "(\<And>r. r \<in> set t \<Longrightarrow> \<not> P r) \<Longrightarrow> tbl_modify P f t = t"
  by (induction t) auto

lemma tbl_lookup_modify:
  assumes "\<And>r. key (f r) = key r"
  shows "tbl_lookup key (tbl_modify P f t) k =
         map_option (\<lambda>r. if P r then f r else r) (tbl_lookup key t k)"
  using assms by (induction t) (auto simp: tbl_lookup_Cons)

lemma tbl_count_Nil [simp]: "tbl_count P [] = 0"
  by (simp add: tbl_count_def)

lemma tbl_count_Cons [simp]:
  "tbl_count P (r # t) = (if P r then Suc (tbl_count P t) else tbl_count P t)"
  by (simp add: tbl_count_def)

lemma tbl_count_append [simp]: "tbl_count P (t @ u) = tbl_count P t + tbl_count P u"
  by (simp add: tbl_count_def)

lemma tbl_count_none: "(\<And>r. r \<in> set t \<Longrightarrow> \<not> P r) \<Longrightarrow> tbl_count P t = 0"
  by (simp add: tbl_count_def)

lemma tbl_count_mono:
  "(\<And>r. r \<in> set t \<Longrightarrow> P r \<Longrightarrow> Q r) \<Longrightarrow> tbl_count P t \<le> tbl_count Q t"
  by (induction t) (auto intro: le_SucI)

lemma tbl_count_key:
  assumes "distinct (map key t)"
  shows "tbl_count (\<lambda>r. key r = k \<and> Q r) t =
         (case tbl_lookup key t k of None \<Rightarrow> 0 | Some r \<Rightarrow> if Q r then 1 else 0)"
  using assms
proof (induction t)
  case Nil
  then show ?case by simp
next
  case (Cons r t)
  have "key r = k \<Longrightarrow> tbl_lookup key t k = None"
    using Cons.prems by (auto simp: tbl_lookup_None_iff)
  with Cons show ?case by (auto simp: tbl_lookup_Cons)
qed

text \<open>Replacing the row of a key.  On distinct keys every guarded update is one.\<close>

definition tbl_put :: "('r \<Rightarrow> 'k) \<Rightarrow> 'k \<Rightarrow> 'r \<Rightarrow> 'r list \<Rightarrow> 'r list" where
  "tbl_put key k x t = map (\<lambda>r. if key r = k then x else r) t"

lemma tbl_put_same_keys [simp]: "key x = k \<Longrightarrow> map key (tbl_put key k x t) = map key t"
  by (auto simp: tbl_put_def)

lemma length_tbl_put [simp]: "length (tbl_put key k x t) = length t"
  by (simp add: tbl_put_def)

lemma tbl_put_put [simp]: "key x = k \<Longrightarrow> tbl_put key k y (tbl_put key k x t) = tbl_put key k y t"
  by (auto simp: tbl_put_def)

lemma tbl_lookup_put:
  assumes "key x = k"
  shows "tbl_lookup key (tbl_put key k x t) k' =
     (if k' = k then map_option (\<lambda>_. x) (tbl_lookup key t k) else tbl_lookup key t k')"
  using assms by (induction t) (auto simp: tbl_put_def tbl_lookup_Cons)

lemma tbl_put_id:
  assumes "distinct (map key t)" and "tbl_lookup key t k = Some r"
  shows "tbl_put key k r t = t"
  using assms
proof (induction t)
  case (Cons x t)
  then show ?case
    by (cases "key x = k") (auto simp: tbl_put_def tbl_lookup_Cons rev_image_eqI intro!: map_idI)
qed simp

lemma tbl_modify_key:
  assumes "distinct (map key t)" and "tbl_lookup key t k = Some r"
  shows "tbl_modify (\<lambda>x. key x = k \<and> Q x) f t = (if Q r then tbl_put key k (f r) t else t)"
  using assms
proof (induction t)
  case (Cons x t)
  show ?case
  proof (cases "key x = k")
    case True
    with Cons.prems have x: "x = r" and rest: "\<And>y. y \<in> set t \<Longrightarrow> key y \<noteq> k"
      by (auto simp: tbl_lookup_Cons rev_image_eqI)
    have "tbl_modify (\<lambda>x. key x = k \<and> Q x) f t = t" using rest by (simp add: tbl_modify_none)
    moreover have "tbl_put key k (f r) t = t" using rest by (simp add: tbl_put_def map_idI)
    ultimately show ?thesis using True x by (simp add: tbl_put_def)
  next
    case False
    with Cons show ?thesis by (simp add: tbl_lookup_Cons tbl_put_def)
  qed
qed simp

lemma set_tbl_put:
  assumes "distinct (map key t)" and "tbl_lookup key t k = Some r"
  shows "set (tbl_put key k x t) = insert x (set t - {r})"
  using assms
proof (induction t)
  case (Cons y t)
  show ?case
  proof (cases "key y = k")
    case True
    with Cons.prems have "y = r" "\<And>z. z \<in> set t \<Longrightarrow> key z \<noteq> k"
      by (auto simp: tbl_lookup_Cons rev_image_eqI)
    moreover from this have "tbl_put key k x t = t" by (simp add: tbl_put_def map_idI)
    moreover have "r \<notin> set t" using calculation(2) True \<open>y = r\<close> by auto
    ultimately show ?thesis using True by (simp add: tbl_put_def)
  next
    case False
    with Cons have "set (tbl_put key k x t) = insert x (set t - {r})" "y \<noteq> r"
      by (auto simp: tbl_lookup_Cons dest: tbl_lookup_SomeD)
    with False show ?thesis by (auto simp: tbl_put_def)
  qed
qed simp

lemma map_tbl_put:
  assumes "distinct (map key t)" and "tbl_lookup key t k = Some r" and "g x = g r"
  shows "map g (tbl_put key k x t) = map g t"
  using assms
proof (induction t)
  case (Cons y t)
  show ?case
  proof (cases "key y = k")
    case True
    with Cons.prems have "y = r" "\<And>z. z \<in> set t \<Longrightarrow> key z \<noteq> k"
      by (auto simp: tbl_lookup_Cons rev_image_eqI)
    with True Cons.prems(3) show ?thesis by (simp add: tbl_put_def)
  next
    case False
    with Cons show ?thesis by (simp add: tbl_lookup_Cons tbl_put_def)
  qed
qed simp

lemma tbl_count_put:
  assumes "distinct (map key t)" and "tbl_lookup key t k = Some r"
  shows "tbl_count P (tbl_put key k x t) + (if P r then 1 else 0) = tbl_count P t + (if P x then 1 else 0)"
  using assms
proof (induction t)
  case (Cons y t)
  show ?case
  proof (cases "key y = k")
    case True
    with Cons.prems have "y = r" "\<And>z. z \<in> set t \<Longrightarrow> key z \<noteq> k"
      by (auto simp: tbl_lookup_Cons rev_image_eqI)
    moreover from this have "tbl_put key k x t = t" by (simp add: tbl_put_def map_idI)
    ultimately show ?thesis using True by (simp add: tbl_put_def)
  next
    case False
    with Cons have "tbl_count P (tbl_put key k x t) + (if P r then 1 else 0) = tbl_count P t + (if P x then 1 else 0)"
      by (simp add: tbl_lookup_Cons)
    with False show ?thesis by (simp add: tbl_put_def)
  qed
qed simp

text \<open>
  The contract the registry's operations use: a table offers keyed lookup, a guarded update
  and the number of rows the guard selects.  The client lemmas are the compare-and-swap facts
  behind \<open>UPDATE ... WHERE id=?1 AND row_version=?2\<close> followed by \<open>if changed != 1\<close>.
\<close>

locale keyed_rows =
  fixes key :: "'r \<Rightarrow> 'k"
    and lookup :: "'t \<Rightarrow> 'k \<Rightarrow> 'r option"
    and modify :: "('r \<Rightarrow> bool) \<Rightarrow> ('r \<Rightarrow> 'r) \<Rightarrow> 't \<Rightarrow> 't"
    and changed :: "('r \<Rightarrow> bool) \<Rightarrow> 't \<Rightarrow> nat"
    and wf :: "'t \<Rightarrow> bool"
  assumes lookup_key: "lookup t k = Some r \<Longrightarrow> key r = k"
    and lookup_modify: "(\<And>r. key (f r) = key r) \<Longrightarrow>
      lookup (modify P f t) k = map_option (\<lambda>r. if P r then f r else r) (lookup t k)"
    and changed_key: "wf t \<Longrightarrow> changed (\<lambda>r. key r = k \<and> Q r) t =
      (case lookup t k of None \<Rightarrow> 0 | Some r \<Rightarrow> if Q r then 1 else 0)"
    and wf_modify: "(\<And>r. key (f r) = key r) \<Longrightarrow> wf t \<Longrightarrow> wf (modify P f t)"
begin

lemma cas_changed_iff:
  assumes "wf t"
  shows "changed (\<lambda>r. key r = k \<and> Q r) t = 1 \<longleftrightarrow> (\<exists>r. lookup t k = Some r \<and> Q r)"
  using changed_key[OF assms, of k Q] by (auto split: option.splits)

lemma cas_at_most_one:
  assumes "wf t"
  shows "changed (\<lambda>r. key r = k \<and> Q r) t \<le> 1"
  using changed_key[OF assms, of k Q] by (auto split: option.splits)

lemma cas_hit:
  assumes "\<And>r. key (f r) = key r" and "lookup t k = Some r" and "Q r"
  shows "lookup (modify (\<lambda>r. key r = k \<and> Q r) f t) k = Some (f r)"
  using assms lookup_key[OF assms(2)] by (simp add: lookup_modify)

lemma cas_miss:
  assumes "\<And>r. key (f r) = key r" and "lookup t k = Some r" and "\<not> Q r"
  shows "lookup (modify (\<lambda>r. key r = k \<and> Q r) f t) k = Some r"
  using assms by (simp add: lookup_modify)

lemma cas_frame:
  assumes "\<And>r. key (f r) = key r" and "k' \<noteq> k"
  shows "lookup (modify (\<lambda>r. key r = k \<and> Q r) f t) k' = lookup t k'"
proof (cases "lookup t k'")
  case None
  then show ?thesis using assms(1) by (simp add: lookup_modify)
next
  case (Some r)
  then have "key r \<noteq> k" using lookup_key assms(2) by auto
  with Some show ?thesis using assms(1) by (simp add: lookup_modify)
qed

end

text \<open>Lists of rows with pairwise distinct keys satisfy the contract, for any key.\<close>

lemma keyed_rows_list:
  "keyed_rows key (tbl_lookup key) tbl_modify tbl_count (\<lambda>t. distinct (map key t))"
proof
  show "key r = k" if "tbl_lookup key t k = Some r" for t k r
    using that by (rule tbl_lookup_SomeD)
qed (auto simp: tbl_lookup_modify tbl_count_key)

section \<open>Reachability and invariants of operations on a state\<close>

text \<open>
  A component whose state changes by a step relation, and an invariant its steps keep.
  \<open>reachable\<close> is the reflexive-transitive closure from the initial states.
\<close>

inductive reachable_from :: "('s \<Rightarrow> bool) \<Rightarrow> ('s \<Rightarrow> 's \<Rightarrow> bool) \<Rightarrow> 's \<Rightarrow> bool"
  for init :: "'s \<Rightarrow> bool" and step :: "'s \<Rightarrow> 's \<Rightarrow> bool" where
  reach_init: "init s \<Longrightarrow> reachable_from init step s"
| reach_step: "reachable_from init step s \<Longrightarrow> step s t \<Longrightarrow> reachable_from init step t"

locale invariant_system =
  fixes init :: "'s \<Rightarrow> bool" and step :: "'s \<Rightarrow> 's \<Rightarrow> bool" and inv :: "'s \<Rightarrow> bool"
  assumes inv_init: "init s \<Longrightarrow> inv s"
    and inv_step: "inv s \<Longrightarrow> step s t \<Longrightarrow> inv t"
begin

lemma reachable_inv: "reachable_from init step s \<Longrightarrow> inv s"
  by (induction rule: reachable_from.induct) (auto intro: inv_init inv_step)

lemma run_inv: "step\<^sup>*\<^sup>* s t \<Longrightarrow> inv s \<Longrightarrow> inv t"
  by (induction rule: rtranclp_induct) (auto intro: inv_step)

lemma run_rel:
  assumes "step\<^sup>*\<^sup>* s t" and "inv s"
    and refl: "\<And>s. R s s" and trans: "\<And>a b c. R a b \<Longrightarrow> R b c \<Longrightarrow> R a c"
    and mono: "\<And>s t. inv s \<Longrightarrow> step s t \<Longrightarrow> R s t"
  shows "R s t"
  using assms(1)
proof (induction rule: rtranclp_induct)
  case base
  show ?case by (rule refl)
next
  case (step y z)
  then show ?case using trans mono run_inv[OF _ assms(2)] by blast
qed

end

section \<open>Text\<close>

abbreviation byte :: "char \<Rightarrow> nat" where
  "byte \<equiv> of_char"

definition is_ascii_digit :: "char \<Rightarrow> bool" where
  "is_ascii_digit c \<longleftrightarrow> CHR ''0'' \<le> c \<and> c \<le> CHR ''9''"

definition is_ascii_uppercase :: "char \<Rightarrow> bool" where
  "is_ascii_uppercase c \<longleftrightarrow> CHR ''A'' \<le> c \<and> c \<le> CHR ''Z''"

definition is_ascii_lowercase :: "char \<Rightarrow> bool" where
  "is_ascii_lowercase c \<longleftrightarrow> CHR ''a'' \<le> c \<and> c \<le> CHR ''z''"

definition is_ascii_alphabetic :: "char \<Rightarrow> bool" where
  "is_ascii_alphabetic c \<longleftrightarrow> is_ascii_uppercase c \<or> is_ascii_lowercase c"

definition is_ascii_alphanumeric :: "char \<Rightarrow> bool" where
  "is_ascii_alphanumeric c \<longleftrightarrow> is_ascii_alphabetic c \<or> is_ascii_digit c"

definition is_ascii_hexdigit :: "char \<Rightarrow> bool" where
  "is_ascii_hexdigit c \<longleftrightarrow> is_ascii_digit c \<or> (CHR ''A'' \<le> c \<and> c \<le> CHR ''F'')
     \<or> (CHR ''a'' \<le> c \<and> c \<le> CHR ''f'')"

definition to_ascii_lowercase :: "string \<Rightarrow> string" where
  "to_ascii_lowercase s = map (\<lambda>c. if is_ascii_uppercase c then char_of (byte c + 32) else c) s"

definition to_ascii_uppercase :: "string \<Rightarrow> string" where
  "to_ascii_uppercase s = map (\<lambda>c. if is_ascii_lowercase c then char_of (byte c - 32) else c) s"

definition NUL :: char where
  "NUL = CHR 0x00"

definition contains_nul :: "string \<Rightarrow> bool" where
  "contains_nul s \<longleftrightarrow> NUL \<in> set s"

definition starts_with :: "string \<Rightarrow> string \<Rightarrow> bool" where
  "starts_with s p \<longleftrightarrow> prefix p s"

definition ends_with :: "string \<Rightarrow> string \<Rightarrow> bool" where
  "ends_with s p \<longleftrightarrow> suffix p s"

definition strip_prefix :: "string \<Rightarrow> string \<Rightarrow> string option" where
  "strip_prefix p s = (if prefix p s then Some (drop (length p) s) else None)"

definition or_else :: "'a option \<Rightarrow> 'a option \<Rightarrow> 'a option" where
  "or_else a b = (case a of None \<Rightarrow> b | Some x \<Rightarrow> Some x)"

lemma strip_prefix_Some_iff: "strip_prefix p s = Some t \<longleftrightarrow> s = p @ t"
  by (auto simp: strip_prefix_def prefix_def)

lemma starts_with_strip_prefix: "starts_with s p \<longleftrightarrow> strip_prefix p s \<noteq> None"
  by (simp add: starts_with_def strip_prefix_def)

lemma starts_with_append [simp]: "starts_with (p @ s) p"
  by (simp add: starts_with_def)

text \<open>\<open>str::split\<close> with a one-byte separator: always at least one piece.\<close>

fun split_on :: "char \<Rightarrow> string \<Rightarrow> string list" where
  "split_on d [] = [[]]"
| "split_on d (c # cs) =
     (if c = d then [] # split_on d cs
      else case split_on d cs of [] \<Rightarrow> [[c]] | p # ps \<Rightarrow> (c # p) # ps)"

fun join_with :: "string \<Rightarrow> string list \<Rightarrow> string" where
  "join_with d [] = []"
| "join_with d [s] = s"
| "join_with d (s # t # ts) = s @ d @ join_with d (t # ts)"

lemma split_on_not_Nil [simp]: "split_on d s \<noteq> []"
  by (induction s) (auto split: list.splits)

lemma split_on_no_sep: "d \<notin> set s \<Longrightarrow> split_on d s = [s]"
  by (induction s) auto

lemma split_on_sep: "d \<notin> set s \<Longrightarrow> split_on d (s @ d # t) = s # split_on d t"
  by (induction s) auto

lemma split_on_pieces: "p \<in> set (split_on d s) \<Longrightarrow> d \<notin> set p"
  by (induction s arbitrary: p) (auto split: if_splits list.splits)

lemma split_on_join:
  "\<forall>s \<in> set ss. d \<notin> set s \<Longrightarrow> ss \<noteq> [] \<Longrightarrow> split_on d (join_with [d] ss) = ss"
  by (induction "[d]" ss rule: join_with.induct) (auto simp: split_on_no_sep split_on_sep)

lemma join_with_split_on: "join_with [d] (split_on d s) = s"
proof (induction s)
  case Nil
  show ?case by simp
next
  case (Cons c s)
  obtain p ps where ps: "split_on d s = p # ps"
    by (cases "split_on d s") auto
  with Cons show ?case by (cases ps) auto
qed

text \<open>Decimal formatting of an unsigned integer, as \<open>format!("{}", n)\<close> prints it.\<close>

fun show_nat :: "nat \<Rightarrow> string" where
  "show_nat n = (if n < 10 then [char_of (48 + n)] else show_nat (n div 10) @ [char_of (48 + n mod 10)])"

declare show_nat.simps [simp del]

subsection \<open>Unicode scalars of a UTF-8 string\<close>

text \<open>
  \<open>str::chars\<close>.  A \<open>&str\<close> is valid UTF-8, so the last equation, which passes a stray byte
  through as its own value, is never reached on the strings the code holds.
\<close>

fun utf8_chars :: "string \<Rightarrow> nat list" where
  "utf8_chars [] = []"
| "utf8_chars (a # s) =
     (if byte a < 128 then byte a # utf8_chars s
      else case s of
        b # s1 \<Rightarrow>
          if 192 \<le> byte a \<and> byte a < 224
          then ((byte a - 192) * 64 + (byte b - 128)) # utf8_chars s1
          else (case s1 of
             c # s2 \<Rightarrow>
               if 224 \<le> byte a \<and> byte a < 240
               then ((byte a - 224) * 4096 + (byte b - 128) * 64 + (byte c - 128)) # utf8_chars s2
               else (case s2 of
                  d # s3 \<Rightarrow>
                    if 240 \<le> byte a
                    then ((byte a - 240) * 262144 + (byte b - 128) * 4096 + (byte c - 128) * 64
                          + (byte d - 128)) # utf8_chars s3
                    else byte a # utf8_chars s
                | [] \<Rightarrow> byte a # utf8_chars s)
           | [] \<Rightarrow> byte a # utf8_chars s)
      | [] \<Rightarrow> [byte a])"

text \<open>\<open>char::is_whitespace\<close> (Unicode \<open>White_Space\<close>) and \<open>char::is_control\<close> (category Cc).\<close>

definition is_whitespace :: "nat \<Rightarrow> bool" where
  "is_whitespace c \<longleftrightarrow> (9 \<le> c \<and> c \<le> 13) \<or> c = 32 \<or> c = 133 \<or> c = 160 \<or> c = 5760
     \<or> (8192 \<le> c \<and> c \<le> 8202) \<or> c = 8232 \<or> c = 8233 \<or> c = 8239 \<or> c = 8287 \<or> c = 12288"

definition is_control :: "nat \<Rightarrow> bool" where
  "is_control c \<longleftrightarrow> c < 32 \<or> (127 \<le> c \<and> c < 160)"

definition trim_scalars :: "nat list \<Rightarrow> nat list" where
  "trim_scalars cs = rev (dropWhile is_whitespace (rev (dropWhile is_whitespace cs)))"

lemma trim_scalars_id_iff:
  "trim_scalars cs = cs \<longleftrightarrow>
     cs = [] \<or> (\<not> is_whitespace (hd cs) \<and> \<not> is_whitespace (last cs))"
proof (cases "cs = []")
  case True
  then show ?thesis by (simp add: trim_scalars_def)
next
  case False
  have shrink: "length (trim_scalars cs) \<le> length (dropWhile is_whitespace cs)"
    unfolding trim_scalars_def by (metis length_dropWhile_le length_rev)
  show ?thesis
  proof (cases "is_whitespace (hd cs)")
    case True
    then have "length (dropWhile is_whitespace cs) < length cs"
      using False by (cases cs) (auto simp: length_dropWhile_le less_Suc_eq_le)
    with shrink have "trim_scalars cs \<noteq> cs" by auto
    with True False show ?thesis by simp
  next
    case nw: False
    then have d: "dropWhile is_whitespace cs = cs"
      using False by (cases cs) auto
    have "dropWhile is_whitespace (rev cs) = rev cs \<longleftrightarrow> \<not> is_whitespace (last cs)"
      using False by (metis dropWhile_eq_self_iff hd_rev rev_is_Nil_conv)
    with d nw False show ?thesis
      unfolding trim_scalars_def by (metis rev_rev_ident)
  qed
qed

end
