(* ===== verification/Runtime_Error.thy ===== *)
theory Runtime_Error
  imports Prelude
begin

text \<open>
  \<open>runtime/error.rs\<close>: the error values every Runtime operation returns, the mapping of
  SQLite failures to them and the test that decides whether reconciliation must stop.

  \<open>rusqlite\<close> is not part of the repository: a failure it reports is a value of
  \<open>sql_error\<close>, with the text its \<open>Display\<close> prints, and the model's operations receive the
  failures the database may report as arguments.
\<close>

datatype RuntimeErrorCode =
    InvalidRequest
  | RegistryUnavailable
  | RegistryBusy
  | RegistryCorrupt
  | SchemaVersionUnsupported
  | MigrationChecksumMismatch
  | IdempotencyConflict
  | ConcurrencyLimit
  | DeploymentInProgress
  | WorkspaceBusy
  | WorkspaceExists
  | WorkspaceNotFound
  | WorkspacePathNotFound
  | WorkspaceDirty
  | WorkspacePathDenied
  | RevisionNotFound
  | RevisionMismatch
  | WorkspaceStateMismatch
  | MetadataCorrupt
  | JobNotFound
  | AttemptNotFound
  | AttemptStateConflict
  | JobAlreadyResolved
  | ResultIdentityConflict
  | DispatchOutcomeUnknown
  | LaunchIdentityMismatch
  | ProviderStateMismatch
  | ReservationStateConflict
  | ArtifactIdentityConflict
  | ArtifactNotFound
  | ArtifactNotUtf8
  | OutputLimitExceeded
  | ReconciliationRequired
  | OrphanRemediationDenied
  | WorkspaceCapacityExceeded
  | IoError
  | ToolUnavailable
  | ToolFailed

fun error_code_as_str :: "RuntimeErrorCode \<Rightarrow> string" where
  "error_code_as_str InvalidRequest = ''INVALID_REQUEST''"
| "error_code_as_str RegistryUnavailable = ''REGISTRY_UNAVAILABLE''"
| "error_code_as_str RegistryBusy = ''REGISTRY_BUSY''"
| "error_code_as_str RegistryCorrupt = ''REGISTRY_CORRUPT''"
| "error_code_as_str SchemaVersionUnsupported = ''SCHEMA_VERSION_UNSUPPORTED''"
| "error_code_as_str MigrationChecksumMismatch = ''MIGRATION_CHECKSUM_MISMATCH''"
| "error_code_as_str IdempotencyConflict = ''IDEMPOTENCY_CONFLICT''"
| "error_code_as_str ConcurrencyLimit = ''CONCURRENCY_LIMIT''"
| "error_code_as_str DeploymentInProgress = ''DEPLOYMENT_IN_PROGRESS''"
| "error_code_as_str WorkspaceBusy = ''WORKSPACE_BUSY''"
| "error_code_as_str WorkspaceExists = ''WORKSPACE_EXISTS''"
| "error_code_as_str WorkspaceNotFound = ''WORKSPACE_NOT_FOUND''"
| "error_code_as_str WorkspacePathNotFound = ''WORKSPACE_PATH_NOT_FOUND''"
| "error_code_as_str WorkspaceDirty = ''WORKSPACE_DIRTY''"
| "error_code_as_str WorkspacePathDenied = ''WORKSPACE_PATH_DENIED''"
| "error_code_as_str RevisionNotFound = ''REVISION_NOT_FOUND''"
| "error_code_as_str RevisionMismatch = ''REVISION_MISMATCH''"
| "error_code_as_str WorkspaceStateMismatch = ''WORKSPACE_STATE_MISMATCH''"
| "error_code_as_str MetadataCorrupt = ''METADATA_CORRUPT''"
| "error_code_as_str JobNotFound = ''JOB_NOT_FOUND''"
| "error_code_as_str AttemptNotFound = ''ATTEMPT_NOT_FOUND''"
| "error_code_as_str AttemptStateConflict = ''ATTEMPT_STATE_CONFLICT''"
| "error_code_as_str JobAlreadyResolved = ''JOB_ALREADY_RESOLVED''"
| "error_code_as_str ResultIdentityConflict = ''RESULT_IDENTITY_CONFLICT''"
| "error_code_as_str DispatchOutcomeUnknown = ''DISPATCH_OUTCOME_UNKNOWN''"
| "error_code_as_str LaunchIdentityMismatch = ''LAUNCH_IDENTITY_MISMATCH''"
| "error_code_as_str ProviderStateMismatch = ''PROVIDER_STATE_MISMATCH''"
| "error_code_as_str ReservationStateConflict = ''RESERVATION_STATE_CONFLICT''"
| "error_code_as_str ArtifactIdentityConflict = ''ARTIFACT_IDENTITY_CONFLICT''"
| "error_code_as_str ArtifactNotFound = ''ARTIFACT_NOT_FOUND''"
| "error_code_as_str ArtifactNotUtf8 = ''ARTIFACT_NOT_UTF8''"
| "error_code_as_str OutputLimitExceeded = ''OUTPUT_LIMIT_EXCEEDED''"
| "error_code_as_str ReconciliationRequired = ''RECONCILIATION_REQUIRED''"
| "error_code_as_str OrphanRemediationDenied = ''ORPHAN_REMEDIATION_DENIED''"
| "error_code_as_str WorkspaceCapacityExceeded = ''WORKSPACE_CAPACITY_EXCEEDED''"
| "error_code_as_str IoError = ''IO_ERROR''"
| "error_code_as_str ToolUnavailable = ''TOOL_UNAVAILABLE''"
| "error_code_as_str ToolFailed = ''TOOL_FAILED''"

record RuntimeCapacity =
  cap_scope :: string
  cap_active :: nat
  cap_limit :: nat
  cap_workspace_id :: "string option"
  cap_holder_job_ids :: "string list"
  cap_holder_workspace_ids :: "string list"
  cap_holders_truncated :: bool

record RuntimeError =
  err_code :: RuntimeErrorCode
  err_message :: string
  err_field :: "string option"
  err_retryable :: bool
  err_retry_after_ms :: "nat option"
  err_capacity :: "RuntimeCapacity option"
  err_operation_id :: "string option"

type_synonym 'a result = "RuntimeError + 'a"

definition error_new :: "RuntimeErrorCode \<Rightarrow> string \<Rightarrow> string option \<Rightarrow> bool \<Rightarrow> RuntimeError" where
  "error_new code message field retryable =
     \<lparr>err_code = code, err_message = message, err_field = field, err_retryable = retryable,
      err_retry_after_ms = None, err_capacity = None, err_operation_id = None\<rparr>"

definition with_operation_id :: "RuntimeError \<Rightarrow> string \<Rightarrow> RuntimeError" where
  "with_operation_id e operation_id = e\<lparr>err_operation_id := Some operation_id\<rparr>"

definition deployment_in_progress :: RuntimeError where
  "deployment_in_progress =
     (error_new DeploymentInProgress ''Runtime deployment holds the new-admission fence'' None True)
       \<lparr>err_retry_after_ms := Some 1000\<rparr>"

definition error_concurrency :: "string \<Rightarrow> string \<Rightarrow> RuntimeCapacity \<Rightarrow> RuntimeError" where
  "error_concurrency message field capacity =
     \<lparr>err_code = ConcurrencyLimit, err_message = message, err_field = Some field,
      err_retryable = True, err_retry_after_ms = Some 1000, err_capacity = Some capacity,
      err_operation_id = None\<rparr>"

definition error_invalid :: "string \<Rightarrow> string \<Rightarrow> RuntimeError" where
  "error_invalid message field = error_new InvalidRequest message (Some field) False"

definition is_reconciliation_fatal :: "RuntimeError \<Rightarrow> bool" where
  "is_reconciliation_fatal e \<longleftrightarrow>
     err_code e \<in> {RegistryUnavailable, RegistryBusy, SchemaVersionUnsupported, MigrationChecksumMismatch}
     \<or> (err_code e = RegistryCorrupt \<and> err_field e = None)"

text \<open>\<open>#[derive(Debug)]\<close> of the code, and \<open>Display\<close> of an error.\<close>

fun error_code_debug :: "RuntimeErrorCode \<Rightarrow> string" where
  "error_code_debug InvalidRequest = ''InvalidRequest''"
| "error_code_debug RegistryUnavailable = ''RegistryUnavailable''"
| "error_code_debug RegistryBusy = ''RegistryBusy''"
| "error_code_debug RegistryCorrupt = ''RegistryCorrupt''"
| "error_code_debug SchemaVersionUnsupported = ''SchemaVersionUnsupported''"
| "error_code_debug MigrationChecksumMismatch = ''MigrationChecksumMismatch''"
| "error_code_debug IdempotencyConflict = ''IdempotencyConflict''"
| "error_code_debug ConcurrencyLimit = ''ConcurrencyLimit''"
| "error_code_debug DeploymentInProgress = ''DeploymentInProgress''"
| "error_code_debug WorkspaceBusy = ''WorkspaceBusy''"
| "error_code_debug WorkspaceExists = ''WorkspaceExists''"
| "error_code_debug WorkspaceNotFound = ''WorkspaceNotFound''"
| "error_code_debug WorkspacePathNotFound = ''WorkspacePathNotFound''"
| "error_code_debug WorkspaceDirty = ''WorkspaceDirty''"
| "error_code_debug WorkspacePathDenied = ''WorkspacePathDenied''"
| "error_code_debug RevisionNotFound = ''RevisionNotFound''"
| "error_code_debug RevisionMismatch = ''RevisionMismatch''"
| "error_code_debug WorkspaceStateMismatch = ''WorkspaceStateMismatch''"
| "error_code_debug MetadataCorrupt = ''MetadataCorrupt''"
| "error_code_debug JobNotFound = ''JobNotFound''"
| "error_code_debug AttemptNotFound = ''AttemptNotFound''"
| "error_code_debug AttemptStateConflict = ''AttemptStateConflict''"
| "error_code_debug JobAlreadyResolved = ''JobAlreadyResolved''"
| "error_code_debug ResultIdentityConflict = ''ResultIdentityConflict''"
| "error_code_debug DispatchOutcomeUnknown = ''DispatchOutcomeUnknown''"
| "error_code_debug LaunchIdentityMismatch = ''LaunchIdentityMismatch''"
| "error_code_debug ProviderStateMismatch = ''ProviderStateMismatch''"
| "error_code_debug ReservationStateConflict = ''ReservationStateConflict''"
| "error_code_debug ArtifactIdentityConflict = ''ArtifactIdentityConflict''"
| "error_code_debug ArtifactNotFound = ''ArtifactNotFound''"
| "error_code_debug ArtifactNotUtf8 = ''ArtifactNotUtf8''"
| "error_code_debug OutputLimitExceeded = ''OutputLimitExceeded''"
| "error_code_debug ReconciliationRequired = ''ReconciliationRequired''"
| "error_code_debug OrphanRemediationDenied = ''OrphanRemediationDenied''"
| "error_code_debug WorkspaceCapacityExceeded = ''WorkspaceCapacityExceeded''"
| "error_code_debug IoError = ''IoError''"
| "error_code_debug ToolUnavailable = ''ToolUnavailable''"
| "error_code_debug ToolFailed = ''ToolFailed''"

definition error_display :: "RuntimeError \<Rightarrow> string" where
  "error_display e = error_code_debug (err_code e) @ '': '' @ err_message e"

text \<open>What \<open>rusqlite::Error\<close> distinguishes, as far as \<open>from_sql\<close> looks at it.\<close>

datatype sql_error_code =
  DatabaseBusy | DatabaseLocked | DatabaseCorrupt | NotADatabase | OtherSqliteCode

datatype sql_error =
    SqliteFailure sql_error_code string
  | OtherSqlError string

fun sql_error_display :: "sql_error \<Rightarrow> string" where
  "sql_error_display (SqliteFailure c text) = text"
| "sql_error_display (OtherSqlError text) = text"

definition from_sql :: "sql_error \<Rightarrow> string \<Rightarrow> RuntimeError" where
  "from_sql error context =
     (let (code, retryable) = (case error of
          SqliteFailure c _ \<Rightarrow>
            (case c of
               DatabaseBusy \<Rightarrow> (RegistryBusy, True)
             | DatabaseLocked \<Rightarrow> (RegistryBusy, True)
             | DatabaseCorrupt \<Rightarrow> (RegistryCorrupt, False)
             | NotADatabase \<Rightarrow> (RegistryCorrupt, False)
             | OtherSqliteCode \<Rightarrow> (RegistryUnavailable, False))
        | OtherSqlError _ \<Rightarrow> (RegistryUnavailable, False))
      in error_new code (context @ '': '' @ sql_error_display error) None retryable)"

section \<open>Facts about errors\<close>

lemma error_new_sel [simp]:
  "err_code (error_new c m f r) = c" "err_message (error_new c m f r) = m"
  "err_field (error_new c m f r) = f" "err_retryable (error_new c m f r) = r"
  "err_operation_id (error_new c m f r) = None" "err_capacity (error_new c m f r) = None"
  by (simp_all add: error_new_def)

lemma error_invalid_sel [simp]:
  "err_code (error_invalid m f) = InvalidRequest" "err_retryable (error_invalid m f) = False"
  "err_field (error_invalid m f) = Some f"
  by (simp_all add: error_invalid_def)

lemma from_sql_code:
  "err_code (from_sql e ctx) \<in> {RegistryBusy, RegistryCorrupt, RegistryUnavailable}"
  by (auto simp: from_sql_def split: sql_error.splits sql_error_code.splits)

lemma from_sql_fatal: "is_reconciliation_fatal (from_sql e ctx)"
  by (auto simp: from_sql_def is_reconciliation_fatal_def split: sql_error.splits sql_error_code.splits)

lemma from_sql_retryable_iff: "err_retryable (from_sql e ctx) \<longleftrightarrow> err_code (from_sql e ctx) = RegistryBusy"
  by (auto simp: from_sql_def split: sql_error.splits sql_error_code.splits)

end
