(* ===== verification/Unix_Path.thy ===== *)
theory Unix_Path
  imports Prelude
begin

text \<open>
  \<open>std::path\<close> on Unix, as far as the Runtime uses it: components, absoluteness, component-wise
  prefixes, file names, and the text a \<open>PathBuf\<close> built by pushing components prints.
  Windows prefixes do not occur on a Unix target.
\<close>

datatype path_component = RootDir | CurDir | ParentDir | Normal string

abbreviation SLASH :: char where
  "SLASH \<equiv> CHR ''/''"

definition path_is_absolute :: "string \<Rightarrow> bool" where
  "path_is_absolute s \<longleftrightarrow> starts_with s ''/''"

text \<open>A piece between slashes; empty pieces and inner \<open>.\<close> pieces are skipped by \<open>components()\<close>.\<close>

fun piece_component :: "string \<Rightarrow> path_component option" where
  "piece_component p =
     (if p = [] \<or> p = ''.'' then None else if p = ''..'' then Some ParentDir else Some (Normal p))"

definition path_components :: "string \<Rightarrow> path_component list" where
  "path_components s =
     (let pieces = split_on SLASH s;
          body = List.map_filter piece_component pieces
      in if path_is_absolute s then RootDir # body
         else if hd pieces = ''.'' then CurDir # body
         else body)"

definition path_starts_with :: "string \<Rightarrow> string \<Rightarrow> bool" where
  "path_starts_with p base \<longleftrightarrow> prefix (path_components base) (path_components p)"

text \<open>A relative or absolute \<open>PathBuf\<close> made of pushed components, and its text.\<close>

fun component_text :: "path_component \<Rightarrow> string" where
  "component_text RootDir = ''/''"
| "component_text CurDir = ''.''"
| "component_text ParentDir = ''..''"
| "component_text (Normal s) = s"

definition path_text :: "bool \<Rightarrow> path_component list \<Rightarrow> string" where
  "path_text absolute cs =
     (if absolute then ''/'' @ join_with ''/'' (map component_text cs)
      else join_with ''/'' (map component_text cs))"

text \<open>\<open>Path::strip_prefix(base)\<close>: the remaining components as a relative path's text.\<close>

definition path_strip_prefix :: "string \<Rightarrow> string \<Rightarrow> string option" where
  "path_strip_prefix p base =
     (if path_starts_with p base
      then Some (join_with ''/'' (map component_text
             (drop (length (path_components base)) (path_components p))))
      else None)"

text \<open>\<open>Path::file_name\<close>: the last component when it is a normal one.\<close>

definition path_file_name :: "string \<Rightarrow> string option" where
  "path_file_name p =
     (if path_components p = [] then None
      else case last (path_components p) of Normal s \<Rightarrow> Some s | _ \<Rightarrow> None)"

section \<open>Reading back printed paths\<close>

text \<open>A normal component's text is a non-empty piece without slash, other than \<open>.\<close> and \<open>..\<close>.\<close>

definition wf_component :: "path_component \<Rightarrow> bool" where
  "wf_component c \<longleftrightarrow> (case c of
     Normal s \<Rightarrow> s \<noteq> [] \<and> s \<noteq> ''.'' \<and> s \<noteq> ''..'' \<and> SLASH \<notin> set s
   | ParentDir \<Rightarrow> True
   | _ \<Rightarrow> False)"

lemma wf_component_text:
  assumes "wf_component c"
  shows "piece_component (component_text c) = Some c" and "SLASH \<notin> set (component_text c)"
    and "component_text c \<noteq> []" and "component_text c \<noteq> ''.''"
  using assms by (auto simp: wf_component_def split: path_component.splits)

lemma map_filter_component_text:
  "list_all wf_component cs \<Longrightarrow> List.map_filter piece_component (map component_text cs) = cs"
  by (induction cs) (auto simp: map_filter_simps wf_component_text simp del: piece_component.simps)

lemma piece_component_wf:
  assumes "piece_component p = Some c" and "SLASH \<notin> set p"
  shows "wf_component c"
  using assms by (auto simp: wf_component_def split: if_splits)

lemma pieces_wf: "list_all wf_component (List.map_filter piece_component (split_on SLASH s))"
  by (auto simp: list_all_iff map_filter_def simp del: piece_component.simps
      intro!: piece_component_wf[rotated] split_on_pieces[of _ SLASH s])

lemma join_with_Nil_iff: "\<forall>s \<in> set ss. s \<noteq> [] \<Longrightarrow> join_with d ss = [] \<longleftrightarrow> ss = []"
  by (induction d ss rule: join_with.induct) auto

lemma hd_join_with: "ss \<noteq> [] \<Longrightarrow> hd ss \<noteq> [] \<Longrightarrow> hd (join_with d ss) = hd (hd ss)"
  by (induction d ss rule: join_with.induct) auto

lemma path_components_relative_text:
  assumes "list_all wf_component cs"
  shows "path_components (path_text False cs) = cs"
proof (cases "cs = []")
  case True
  then show ?thesis
    by (simp add: path_text_def path_components_def path_is_absolute_def starts_with_def map_filter_simps)
next
  case False
  let ?ss = "map component_text cs"
  have nosep: "\<forall>s \<in> set ?ss. SLASH \<notin> set s" and ne: "\<forall>s \<in> set ?ss. s \<noteq> []"
    using assms by (auto simp: list_all_iff wf_component_text)
  have split: "split_on SLASH (join_with ''/'' ?ss) = ?ss"
    using nosep False by (intro split_on_join) auto
  obtain c cs' where cs: "cs = c # cs'" using False by (cases cs) auto
  have c: "wf_component c" using assms cs by simp
  then obtain x xs where x: "component_text c = x # xs"
    by (metis list.exhaust wf_component_text(3))
  have "hd (join_with ''/'' ?ss) = x" using cs x by (simp add: hd_join_with)
  moreover have "x \<noteq> SLASH" using wf_component_text(2)[OF c] x by auto
  ultimately have rel: "\<not> path_is_absolute (join_with ''/'' ?ss)"
    by (auto simp: path_is_absolute_def starts_with_def prefix_def)
  have "hd ?ss \<noteq> ''.''" using cs c by (simp add: wf_component_text)
  then show ?thesis
    using split rel assms
    by (simp add: path_text_def path_components_def Let_def map_filter_component_text
        del: join_with.simps)
qed

lemma path_components_absolute_text:
  assumes "list_all wf_component cs"
  shows "path_components (path_text True cs) = RootDir # cs"
proof -
  have "List.map_filter piece_component (split_on SLASH (join_with ''/'' (map component_text cs))) = cs"
  proof (cases "cs = []")
    case True
    then show ?thesis by (simp add: map_filter_simps)
  next
    case False
    have "\<forall>s \<in> set (map component_text cs). SLASH \<notin> set s"
      using assms by (auto simp: list_all_iff wf_component_text)
    with False have "split_on SLASH (join_with ''/'' (map component_text cs)) = map component_text cs"
      by (intro split_on_join) auto
    then show ?thesis using assms by (simp add: map_filter_component_text)
  qed
  then show ?thesis
    by (simp add: path_text_def path_components_def Let_def path_is_absolute_def starts_with_def
        map_filter_simps)
qed

lemma path_is_absolute_text:
  assumes "list_all wf_component cs"
  shows "path_is_absolute (path_text absolute cs) \<longleftrightarrow> absolute"
proof (cases absolute)
  case True
  then show ?thesis by (simp add: path_text_def path_is_absolute_def starts_with_def)
next
  case False
  have "path_components (path_text False cs) = cs"
    using assms by (rule path_components_relative_text)
  moreover have "RootDir \<notin> set cs"
    using assms by (auto simp: list_all_iff wf_component_def)
  ultimately have "RootDir \<notin> set (path_components (path_text False cs))" by simp
  then have "\<not> path_is_absolute (path_text False cs)"
    by (rule contrapos_nn) (simp add: path_components_def Let_def)
  with False show ?thesis by simp
qed

lemma path_starts_with_refl [simp]: "path_starts_with p p"
  by (simp add: path_starts_with_def)

lemma path_starts_with_trans:
  "path_starts_with p q \<Longrightarrow> path_starts_with q r \<Longrightarrow> path_starts_with p r"
  unfolding path_starts_with_def by (rule prefix_order.trans)

end
