(* ===== verification/Runtime_Types.thy ===== *)
theory Runtime_Types
  imports Runtime_Error Unix_Path
begin

text \<open>
  \<open>runtime/types.rs\<close>: the enumerations stored in the registry with their database text, the
  Attempt state machine, and the records of Jobs, Attempts, reservations, plans and requests.
  Record fields carry a prefix for their struct (\<open>j_\<close> Job, \<open>a_\<close> Attempt, \<open>r_\<close> reservation,
  \<open>p_\<close> plan, \<open>sr_\<close> submit request, \<open>tc_\<close> terminal commit, ...), since Isabelle record fields
  are global names.
\<close>

section \<open>Stored enumerations\<close>

text \<open>
  The contract of a stored enumeration: reading back the text it is written as gives the value.
  Then the text determines the value, and a text that parses is the text of the result.
\<close>

locale db_codec =
  fixes as_db :: "'a \<Rightarrow> string" and parse :: "string \<Rightarrow> 'a result"
  assumes parse_as_db: "parse (as_db x) = Inr x"
    and as_db_parse: "parse s = Inr x \<Longrightarrow> as_db x = s"
begin

lemma as_db_inject: "as_db x = as_db y \<longleftrightarrow> x = y"
  by (metis parse_as_db sum.inject(2))

lemma parse_eq_iff: "parse s = Inr x \<longleftrightarrow> s = as_db x"
  using parse_as_db as_db_parse by auto

lemma parse_ok_iff: "is_ok (parse s) \<longleftrightarrow> s \<in> range as_db"
  by (cases "parse s") (auto simp: parse_as_db dest: as_db_parse sym)

end

datatype JobDesiredState = Run | DesiredCancelled

fun desired_as_db :: "JobDesiredState \<Rightarrow> string" where
  "desired_as_db Run = ''run''"
| "desired_as_db DesiredCancelled = ''cancelled''"

definition desired_parse :: "string \<Rightarrow> JobDesiredState result" where
  "desired_parse v =
     (if v = ''run'' then Inr Run
      else if v = ''cancelled'' then Inr DesiredCancelled
      else Inl (error_invalid ''unknown desired state'' ''desiredState''))"

datatype JobResolution = ResSucceeded | ResFailed | ResTimedOut | ResCancelled | ResLost | ResOrphaned

fun resolution_as_db :: "JobResolution \<Rightarrow> string" where
  "resolution_as_db ResSucceeded = ''succeeded''"
| "resolution_as_db ResFailed = ''failed''"
| "resolution_as_db ResTimedOut = ''timed_out''"
| "resolution_as_db ResCancelled = ''cancelled''"
| "resolution_as_db ResLost = ''lost''"
| "resolution_as_db ResOrphaned = ''orphaned''"

definition resolution_parse :: "string \<Rightarrow> JobResolution result" where
  "resolution_parse v =
     (if v = ''succeeded'' then Inr ResSucceeded
      else if v = ''failed'' then Inr ResFailed
      else if v = ''timed_out'' then Inr ResTimedOut
      else if v = ''cancelled'' then Inr ResCancelled
      else if v = ''lost'' then Inr ResLost
      else if v = ''orphaned'' then Inr ResOrphaned
      else Inl (error_invalid ''unknown job resolution'' ''resolution''))"

datatype AttemptState =
  Accepted | Starting | Running | Stopping | Recovering
| Succeeded | Failed | TimedOut | Cancelled | Lost | Orphaned

fun state_as_db :: "AttemptState \<Rightarrow> string" where
  "state_as_db Accepted = ''accepted''"
| "state_as_db Starting = ''starting''"
| "state_as_db Running = ''running''"
| "state_as_db Stopping = ''stopping''"
| "state_as_db Recovering = ''recovering''"
| "state_as_db Succeeded = ''succeeded''"
| "state_as_db Failed = ''failed''"
| "state_as_db TimedOut = ''timed_out''"
| "state_as_db Cancelled = ''cancelled''"
| "state_as_db Lost = ''lost''"
| "state_as_db Orphaned = ''orphaned''"

definition state_parse :: "string \<Rightarrow> AttemptState result" where
  "state_parse v =
     (if v = ''accepted'' then Inr Accepted
      else if v = ''starting'' then Inr Starting
      else if v = ''running'' then Inr Running
      else if v = ''stopping'' then Inr Stopping
      else if v = ''recovering'' then Inr Recovering
      else if v = ''succeeded'' then Inr Succeeded
      else if v = ''failed'' then Inr Failed
      else if v = ''timed_out'' then Inr TimedOut
      else if v = ''cancelled'' then Inr Cancelled
      else if v = ''lost'' then Inr Lost
      else if v = ''orphaned'' then Inr Orphaned
      else Inl (error_invalid ''unknown attempt state'' ''state''))"

fun is_terminal :: "AttemptState \<Rightarrow> bool" where
  "is_terminal Succeeded = True"
| "is_terminal Failed = True"
| "is_terminal TimedOut = True"
| "is_terminal Cancelled = True"
| "is_terminal Lost = True"
| "is_terminal Orphaned = True"
| "is_terminal _ = False"

fun can_transition_to :: "AttemptState \<Rightarrow> AttemptState \<Rightarrow> bool" where
  "can_transition_to Accepted next = (next \<in> {Starting, Cancelled, Failed, Lost, Orphaned})"
| "can_transition_to Starting next =
     (next \<in> {Running, Recovering, Succeeded, Failed, TimedOut, Cancelled, Lost, Orphaned})"
| "can_transition_to Running next =
     (next \<in> {Stopping, Recovering, Succeeded, Failed, TimedOut, Cancelled, Lost, Orphaned})"
| "can_transition_to Stopping next =
     (next \<in> {Recovering, Succeeded, Cancelled, Failed, TimedOut, Lost, Orphaned})"
| "can_transition_to Recovering next =
     (next \<in> {Starting, Running, Stopping, Succeeded, Failed, TimedOut, Cancelled, Lost, Orphaned})"
| "can_transition_to _ next = False"

datatype AttemptTerminationIntent = Natural | StopRequested | DeadlineExceeded

fun intent_as_db :: "AttemptTerminationIntent \<Rightarrow> string" where
  "intent_as_db Natural = ''natural''"
| "intent_as_db StopRequested = ''stop_requested''"
| "intent_as_db DeadlineExceeded = ''deadline_exceeded''"

definition intent_parse :: "string \<Rightarrow> AttemptTerminationIntent result" where
  "intent_parse v =
     (if v = ''natural'' then Inr Natural
      else if v = ''stop_requested'' then Inr StopRequested
      else if v = ''deadline_exceeded'' then Inr DeadlineExceeded
      else Inl (error_invalid ''unknown termination intent'' ''terminationIntent''))"

datatype ReservationState = Active | HeldOrphaned | Released

fun reservation_as_db :: "ReservationState \<Rightarrow> string" where
  "reservation_as_db Active = ''active''"
| "reservation_as_db HeldOrphaned = ''held_orphaned''"
| "reservation_as_db Released = ''released''"

definition reservation_parse :: "string \<Rightarrow> ReservationState result" where
  "reservation_parse v =
     (if v = ''active'' then Inr Active
      else if v = ''held_orphaned'' then Inr HeldOrphaned
      else if v = ''released'' then Inr Released
      else Inl (error_invalid ''unknown reservation state'' ''reservationState''))"

interpretation desired_codec: db_codec desired_as_db desired_parse
proof
  show "desired_parse (desired_as_db x) = Inr x" for x
    by (cases x) (simp_all add: desired_parse_def)
  show "desired_as_db x = s" if "desired_parse s = Inr x" for s x
    using that by (auto simp: desired_parse_def split: if_splits)
qed

interpretation resolution_codec: db_codec resolution_as_db resolution_parse
proof
  show "resolution_parse (resolution_as_db x) = Inr x" for x
    by (cases x) (simp_all add: resolution_parse_def)
  show "resolution_as_db x = s" if "resolution_parse s = Inr x" for s x
    using that by (auto simp: resolution_parse_def split: if_splits)
qed

interpretation state_codec: db_codec state_as_db state_parse
proof
  show "state_parse (state_as_db x) = Inr x" for x
    by (cases x) (simp_all add: state_parse_def)
  show "state_as_db x = s" if "state_parse s = Inr x" for s x
    using that by (auto simp: state_parse_def split: if_splits)
qed

interpretation intent_codec: db_codec intent_as_db intent_parse
proof
  show "intent_parse (intent_as_db x) = Inr x" for x
    by (cases x) (simp_all add: intent_parse_def)
  show "intent_as_db x = s" if "intent_parse s = Inr x" for s x
    using that by (auto simp: intent_parse_def split: if_splits)
qed

interpretation reservation_codec: db_codec reservation_as_db reservation_parse
proof
  show "reservation_parse (reservation_as_db x) = Inr x" for x
    by (cases x) (simp_all add: reservation_parse_def)
  show "reservation_as_db x = s" if "reservation_parse s = Inr x" for s x
    using that by (auto simp: reservation_parse_def split: if_splits)
qed

section \<open>Execution targets, profiles and authorities\<close>

datatype ExecutionProfile = TrustedLocal | ContainedLocal

fun profile_as_str :: "ExecutionProfile \<Rightarrow> string" where
  "profile_as_str TrustedLocal = ''trusted_local''"
| "profile_as_str ContainedLocal = ''contained_local''"

datatype ExecutionTarget = LocalLinux | WindowsNative

fun target_as_str :: "ExecutionTarget \<Rightarrow> string" where
  "target_as_str LocalLinux = ''local_linux''"
| "target_as_str WindowsNative = ''windows_native''"

definition target_is_default :: "ExecutionTarget \<Rightarrow> bool" where
  "target_is_default t \<longleftrightarrow> t = LocalLinux"

datatype WindowsAuthority = Limited | Elevated | ActiveUser

fun authority_as_str :: "WindowsAuthority \<Rightarrow> string" where
  "authority_as_str Limited = ''limited''"
| "authority_as_str Elevated = ''elevated''"
| "authority_as_str ActiveUser = ''active_user''"

datatype WindowsTokenClass = TokenLimited | TokenElevated | TokenActiveUser

record WindowsExecutionContext =
  wc_token_class :: WindowsTokenClass
  wc_token_user_sid :: string
  wc_session_id :: "nat option"
  wc_environment_source :: string
  wc_privileged_broker_digest :: "string option"

record ForeignReference =
  fr_namespace :: string
  fr_reference_type :: string
  fr_id :: string
  fr_generation :: "string option"
  fr_digest :: "string option"

record HostDependencyBinding =
  hd_path :: string
  hd_expected_digest :: string

record CredentialBindingRequest =
  cb_authority :: string
  cb_credential :: string

record InputBindingRequest =
  ib_authority :: string
  ib_relative_object :: string
  ib_expected_digest :: string
  ib_presentation_relative_path :: string

datatype ExecutionProviderContract = LocalLinuxRunnerV1 | WindowsNativeLauncherV1

record ExecutionProviderSnapshot =
  eps_contract :: ExecutionProviderContract
  eps_executable_digest :: string
  eps_wsl_distribution :: "string option"

datatype RuntimeReleaseContract = RuntimeReleaseV1

record RuntimeReleaseRequest =
  rrq_schema_version :: nat
  rrq_client_request_id :: string
  rrq_principal :: string
  rrq_workspace_id :: string
  rrq_commit :: string
  rrq_candidate_manifest_digest :: string
  rrq_expected_tool_count :: nat

record RuntimeReleaseEffectBinding =
  rel_contract :: RuntimeReleaseContract
  rel_effect_id :: string
  rel_request_digest :: string
  rel_workspace_id :: string
  rel_commit :: string
  rel_candidate_manifest_digest :: string
  rel_expected_tool_count :: nat
  rel_receipt_path :: string

datatype InputAccessMode = ReadOnly

record EffectiveInputBinding =
  ei_authority :: string
  ei_relative_object :: string
  ei_digest :: string
  ei_byte_length :: nat
  ei_presentation_relative_path :: string
  ei_access :: InputAccessMode

record ExecutionBudget =
  b_memory_max_bytes :: "nat option"
  b_tasks_max :: "nat option"
  b_cpu_quota_percent :: "nat option"

definition budget_is_empty :: "ExecutionBudget \<Rightarrow> bool" where
  "budget_is_empty b \<longleftrightarrow>
     b_memory_max_bytes b = None \<and> b_tasks_max b = None \<and> b_cpu_quota_percent b = None"

section \<open>Plans and requests\<close>

text \<open>A \<open>BTreeMap<String, String>\<close> is the list of its entries in key order.\<close>

type_synonym env_map = "(string \<times> string) list"

record UniversalExecutionStep =
  us_id :: string
  us_executable :: string
  us_args :: "string list"
  us_cwd_relative :: string
  us_env :: env_map
  us_timeout_ms :: nat
  us_continue_on_error :: bool

record ExecutionStepProposal =
  sp_id :: string
  sp_executable :: string
  sp_args :: "string list"
  sp_cwd_relative :: string
  sp_env :: env_map
  sp_timeout_ms :: "nat option"
  sp_continue_on_error :: bool

record RuntimeExecutionStep =
  st_id :: string
  st_executable :: string
  st_executable_digest :: string
  st_args :: "string list"
  st_cwd :: string
  st_env :: env_map
  st_timeout_ms :: nat
  st_continue_on_error :: bool

record RuntimeExecutionPlan =
  p_schema_version :: nat
  p_workspace_id :: string
  p_workspace_path :: string
  p_source_revision :: string
  p_workspace_source_digest :: "string option"
  p_workspace_git_common_dir :: "string option"
  p_executable :: string
  p_executable_digest :: string
  p_args :: "string list"
  p_cwd :: string
  p_env :: env_map
  p_timeout_ms :: nat
  p_stdout_limit_bytes :: nat
  p_stderr_limit_bytes :: nat
  p_steps :: "RuntimeExecutionStep list"
  p_budget :: ExecutionBudget
  p_execution_profile :: ExecutionProfile
  p_execution_target :: ExecutionTarget
  p_windows_authority :: WindowsAuthority
  p_windows_execution_context :: "WindowsExecutionContext option"
  p_foreign_references :: "ForeignReference list"
  p_input_set_id :: "string option"
  p_effective_inputs :: "EffectiveInputBinding list"
  p_credential_set_id :: "string option"
  p_principal :: string

record SubmitRequest =
  sr_schema_version :: nat
  sr_client_request_id :: string
  sr_request_identity_digest :: "string option"
  sr_execution_provider :: "ExecutionProviderSnapshot option"
  sr_runtime_release_effect :: "RuntimeReleaseEffectBinding option"
  sr_host_dependencies :: "HostDependencyBinding list"
  sr_plan :: RuntimeExecutionPlan
  sr_global_limit :: nat

record ExecutionProposal =
  x_workspace_id :: string
  x_executable :: string
  x_args :: "string list"
  x_cwd_relative :: string
  x_env :: env_map
  x_timeout_ms :: "nat option"
  x_stdout_limit_bytes :: "nat option"
  x_stderr_limit_bytes :: "nat option"
  x_steps :: "ExecutionStepProposal list"
  x_budget :: ExecutionBudget
  x_execution_profile :: ExecutionProfile
  x_execution_target :: ExecutionTarget
  x_windows_authority :: WindowsAuthority
  x_foreign_references :: "ForeignReference list"
  x_host_dependencies :: "HostDependencyBinding list"

record JobRunProposal =
  jp_schema_version :: nat
  jp_client_request_id :: string
  jp_principal :: string
  jp_global_limit :: nat
  jp_execution :: ExecutionProposal
  jp_wait_ms :: nat
  jp_stdout_tail_bytes :: nat
  jp_stderr_tail_bytes :: nat

record UniversalExecutionRequest =
  u_workspace_id :: string
  u_executable :: string
  u_args :: "string list"
  u_cwd_relative :: string
  u_env :: env_map
  u_timeout_ms :: nat
  u_stdout_limit_bytes :: nat
  u_stderr_limit_bytes :: nat
  u_steps :: "UniversalExecutionStep list"
  u_budget :: ExecutionBudget
  u_execution_profile :: ExecutionProfile
  u_execution_target :: ExecutionTarget
  u_windows_authority :: WindowsAuthority
  u_foreign_references :: "ForeignReference list"
  u_host_dependencies :: "HostDependencyBinding list"

record JobRunRequest =
  jr_schema_version :: nat
  jr_client_request_id :: string
  jr_principal :: string
  jr_global_limit :: nat
  jr_execution :: UniversalExecutionRequest
  jr_wait_ms :: nat
  jr_stdout_tail_bytes :: nat
  jr_stderr_tail_bytes :: nat

section \<open>Registry records\<close>

record RuntimeJobRecord =
  j_job_id :: string
  j_principal :: string
  j_client_request_id :: string
  j_request_digest :: string
  j_operation_digest :: string
  j_workspace_id :: string
  j_workspace_snapshot_json :: string
  j_execution_plan_json :: string
  j_execution_plan_digest :: string
  j_created_at_ms :: nat
  j_desired_state :: JobDesiredState
  j_resolution :: "JobResolution option"
  j_current_attempt_id :: "string option"
  j_row_version :: nat

record AttemptRecord =
  a_attempt_id :: string
  a_job_id :: string
  a_attempt_number :: nat
  a_state :: AttemptState
  a_termination_intent :: AttemptTerminationIntent
  a_launch_token_digest :: string
  a_bundle_path :: string
  a_bundle_digest :: "string option"
  a_boot_id :: "string option"
  a_unit_name :: string
  a_invocation_id :: "string option"
  a_control_group :: "string option"
  a_main_pid :: "nat option"
  a_process_start_identity :: "string option"
  a_runner_start_digest :: "string option"
  a_result_digest :: "string option"
  a_exit_code :: "int option"
  a_infrastructure_error_digest :: "string option"
  a_created_at_ms :: nat
  a_started_at_ms :: "nat option"
  a_finished_at_ms :: "nat option"
  a_row_version :: nat

record ReservationRecord =
  r_reservation_id :: string
  r_attempt_id :: string
  r_global_limit :: nat
  r_state :: ReservationState
  r_acquired_at_ms :: nat
  r_released_at_ms :: "nat option"
  r_release_reason :: "string option"

record CreatedAdmission =
  ca_job :: RuntimeJobRecord
  ca_attempt :: AttemptRecord
  ca_reservation :: ReservationRecord
  ca_launch_token :: string

datatype AdmissionOutcome = Created CreatedAdmission | Existing RuntimeJobRecord

record ArtifactRegistration =
  ar_artifact_id :: string
  ar_kind :: string
  ar_relative_path :: string
  ar_digest :: string
  ar_media_type :: string
  ar_byte_length :: nat
  ar_truncated :: bool

record ArtifactDescriptor =
  ad_artifact_id :: string
  ad_kind :: string
  ad_digest :: string
  ad_retained_bytes :: nat
  ad_dropped_bytes :: "nat option"
  ad_truncated :: bool

record RuntimeArtifactRecord =
  art_artifact_id :: string
  art_job_id :: string
  art_attempt_id :: string
  art_kind :: string
  art_relative_path :: string
  art_digest :: string
  art_media_type :: string
  art_byte_length :: nat
  art_truncated :: bool
  art_created_at_ms :: nat

record TerminalCommit =
  tc_attempt_id :: string
  tc_expected_row_version :: nat
  tc_state :: AttemptState
  tc_result_digest :: string
  tc_exit_code :: "int option"
  tc_infrastructure_error_digest :: "string option"
  tc_finished_at_ms :: nat
  tc_artifacts :: "ArtifactRegistration list"
  tc_reason_code :: string

datatype RuntimeDeliveryDisposition = InProgress | Committed | DeliveryReconciliationRequired | Unknown

record JobProjection =
  jpr_job_id :: string
  jpr_operation_digest :: string
  jpr_status :: string
  jpr_desired_state :: JobDesiredState
  jpr_attempt_id :: "string option"
  jpr_attempt_state :: "AttemptState option"
  jpr_termination_intent :: "AttemptTerminationIntent option"
  jpr_exit_code :: "int option"
  jpr_execution_terminal :: bool
  jpr_execution_disposition :: "JobResolution option"
  jpr_execution_reason_code :: "string option"
  jpr_delivery_disposition :: RuntimeDeliveryDisposition
  jpr_recovery_required :: bool
  jpr_semantic_completion_evaluated :: bool
  jpr_result_available :: bool
  jpr_artifacts_available :: bool
  jpr_artifacts :: "ArtifactDescriptor list"
  jpr_poll_after_ms :: "nat option"

record RuntimeJobListCursor =
  jc_created_at_ms :: nat
  jc_job_id :: string

record RuntimeJobListRequest =
  jlr_limit :: nat
  jlr_cursor :: "RuntimeJobListCursor option"
  jlr_client_request_id :: "string option"
  jlr_workspace_id :: "string option"

record RuntimeInvariantViolation =
  v_code :: string
  v_job_id :: "string option"
  v_attempt_id :: "string option"
  v_detail :: string

record RunnerIdentity =
  ri_boot_id :: string
  ri_unit_name :: string
  ri_invocation_id :: string
  ri_control_group :: string
  ri_main_pid :: nat
  ri_process_start_identity :: string
  ri_runner_start_digest :: string
  ri_observed_at_ms :: nat

section \<open>Identifiers\<close>

definition RUNTIME_SCHEMA_VERSION :: nat where
  "RUNTIME_SCHEMA_VERSION = 1"

definition MAX_RUNTIME_LIST_LIMIT :: nat where
  "MAX_RUNTIME_LIST_LIMIT = 100"

definition LOGICAL_ID_MIN_LENGTH :: nat where
  "LOGICAL_ID_MIN_LENGTH = 1"

definition LOGICAL_ID_MAX_LENGTH :: nat where
  "LOGICAL_ID_MAX_LENGTH = 256"

definition validate_logical_id :: "string \<Rightarrow> string \<Rightarrow> unit result" where
  "validate_logical_id value field =
     (let scalars = utf8_chars value; scalar_length = length scalars
      in if \<not> (LOGICAL_ID_MIN_LENGTH \<le> scalar_length \<and> scalar_length \<le> LOGICAL_ID_MAX_LENGTH)
            \<or> scalars \<noteq> trim_scalars scalars
            \<or> list_ex is_control scalars
         then Inl (error_invalid
           (field @ '' must contain 1..='' @ show_nat LOGICAL_ID_MAX_LENGTH
             @ '' Unicode characters, be trimmed, and be control-free'') field)
         else Inr ())"

definition validate_client_request_id :: "string \<Rightarrow> string \<Rightarrow> unit result" where
  "validate_client_request_id value field = validate_logical_id value field"

section \<open>The Attempt state machine\<close>

lemma terminal_states: "is_terminal s \<longleftrightarrow> s \<in> {Succeeded, Failed, TimedOut, Cancelled, Lost, Orphaned}"
  by (cases s) auto

lemma terminal_no_transition: "is_terminal s \<Longrightarrow> \<not> can_transition_to s t"
  by (cases s) auto

lemma nonterminal_reaches_terminal:
  "\<not> is_terminal s \<Longrightarrow> t \<in> {Cancelled, Failed, Lost, Orphaned} \<Longrightarrow> can_transition_to s t"
  by (cases s) auto

end
