(* ===== verification/Supervisor.thy ===== *)
theory Supervisor
  imports Runtime_Types
begin

text \<open>
  \<open>runtime/supervisor.rs\<close>: how a persisted supervisor identity and a fresh observation of the
  host decide what became of an Attempt after the Runtime lost sight of it.
\<close>

record SupervisorIdentity =
  si_boot_id :: string
  si_unit_name :: string
  si_invocation_id :: string
  si_control_group :: string
  si_main_pid :: nat
  si_main_process_start_identity :: string

datatype SupervisorUnitState = UnitRunning | UnitTerminal | UnitNotFound

record SupervisorObservation =
  so_boot_id :: string
  so_unit_state :: SupervisorUnitState
  so_invocation_id :: "string option"
  so_control_group :: "string option"
  so_main_pid :: "nat option"
  so_main_process_start_identity :: "string option"
  so_recorded_pid_alive :: bool
  so_recorded_pid_start_identity :: "string option"
  so_result :: "string option"
  so_exec_main_code :: "int option"
  so_exec_main_status :: "int option"

datatype SupervisorRecoveryDisposition =
  RecRunning | RecTerminal AttemptState | RecLost | RecOrphaned string

datatype TerminationIntent = TINatural | TIStopRequested | TIDeadlineExceeded

datatype AttemptSupervisorOwner =
  WindowsLauncherV1 (launcher_process_id: nat) (launcher_process_creation_time_file_time: nat)
    (launcher_image_digest: string) (job_name: string) (start_evidence_digest: string)

definition contract_name :: "AttemptSupervisorOwner \<Rightarrow> string" where
  "contract_name owner = (case owner of WindowsLauncherV1 _ _ _ _ _ \<Rightarrow> ''windows_launcher_v1'')"

record WindowsLauncherOwnerObservation =
  wo_process_alive :: bool
  wo_process_creation_time_file_time :: "nat option"

definition is_sha256_digest :: "string \<Rightarrow> bool" where
  "is_sha256_digest v \<longleftrightarrow>
     length v = 71 \<and> starts_with v ''sha256:'' \<and> list_all is_ascii_hexdigit (drop 7 v)"

definition validate_attempt_supervisor_owner :: "AttemptSupervisorOwner \<Rightarrow> unit result" where
  "validate_attempt_supervisor_owner owner =
     (case owner of WindowsLauncherV1 pid creation img name evidence \<Rightarrow>
        if pid = 0 \<or> creation = 0 \<or> name = [] \<or> \<not> starts_with name ''Ordivon.''
           \<or> \<not> is_sha256_digest img \<or> \<not> is_sha256_digest evidence
        then Inl (error_new RegistryCorrupt
               ''persisted Windows launcher owner identity is incomplete''
               (Some ''attemptSupervisorOwner'') False)
        else Inr ())"

definition classify_windows_launcher_recovery ::
  "AttemptSupervisorOwner \<Rightarrow> WindowsLauncherOwnerObservation \<Rightarrow> TerminationIntent
   \<Rightarrow> SupervisorRecoveryDisposition result" where
  "classify_windows_launcher_recovery expected observation termination_intent =
     rbind (validate_attempt_supervisor_owner expected) (\<lambda>_.
     if wo_process_alive observation then
       (if wo_process_creation_time_file_time observation
            \<noteq> Some (launcher_process_creation_time_file_time expected)
        then Inr (RecOrphaned ''launcher process creation identity does not match persisted owner'')
        else Inr RecRunning)
     else Inr (RecTerminal (case termination_intent of
            TIStopRequested \<Rightarrow> Cancelled
          | TIDeadlineExceeded \<Rightarrow> TimedOut
          | TINatural \<Rightarrow> Failed)))"

definition classify_terminal_state ::
  "TerminationIntent \<Rightarrow> string option \<Rightarrow> int option \<Rightarrow> int option \<Rightarrow> AttemptState" where
  "classify_terminal_state intent result exec_main_code exec_main_status =
     (case intent of
        TIStopRequested \<Rightarrow> Cancelled
      | TIDeadlineExceeded \<Rightarrow> TimedOut
      | TINatural \<Rightarrow>
          if result = Some ''success'' \<or> (exec_main_code = Some 1 \<and> exec_main_status = Some 0)
          then Succeeded else Failed)"

definition validate_identity :: "SupervisorIdentity \<Rightarrow> unit result" where
  "validate_identity identity =
     (if si_boot_id identity = [] \<or> si_invocation_id identity = []
         \<or> si_main_process_start_identity identity = [] \<or> si_main_pid identity = 0
         \<or> \<not> ends_with (si_unit_name identity) ''.service''
         \<or> \<not> starts_with (si_control_group identity) ''/''
      then Inl (error_new RegistryCorrupt ''persisted supervisor identity is incomplete''
             (Some ''supervisorIdentity'') False)
      else Inr ())"

definition terminal_identity_mismatch ::
  "SupervisorIdentity \<Rightarrow> SupervisorObservation \<Rightarrow> string option" where
  "terminal_identity_mismatch expected observed =
     (if so_invocation_id observed \<noteq> Some (si_invocation_id expected)
      then Some ''invocationId does not match persisted supervisor identity''
      else if (case so_control_group observed of None \<Rightarrow> False
               | Some actual \<Rightarrow> actual \<noteq> si_control_group expected)
      then Some ''controlGroup does not match persisted supervisor identity''
      else None)"

fun first_field_mismatch :: "(string \<times> string option \<times> string) list \<Rightarrow> string option" where
  "first_field_mismatch [] = None"
| "first_field_mismatch ((field, actual, expected_value) # rest) =
     (if actual \<noteq> Some expected_value
      then Some (field @ '' does not match persisted supervisor identity'')
      else first_field_mismatch rest)"

definition running_identity_mismatch ::
  "SupervisorIdentity \<Rightarrow> SupervisorObservation \<Rightarrow> string option" where
  "running_identity_mismatch expected observed =
     (case first_field_mismatch
        [(''invocationId'', so_invocation_id observed, si_invocation_id expected),
         (''controlGroup'', so_control_group observed, si_control_group expected),
         (''mainProcessStartIdentity'', so_main_process_start_identity observed,
            si_main_process_start_identity expected)] of
        Some reason \<Rightarrow> Some reason
      | None \<Rightarrow>
          if so_main_pid observed \<noteq> Some (si_main_pid expected)
          then Some ''mainPid does not match persisted supervisor identity''
          else None)"

definition classify_supervisor_recovery ::
  "SupervisorIdentity \<Rightarrow> SupervisorObservation \<Rightarrow> TerminationIntent
   \<Rightarrow> SupervisorRecoveryDisposition result" where
  "classify_supervisor_recovery expected observation termination_intent =
     rbind (validate_identity expected) (\<lambda>_.
     if so_boot_id observation \<noteq> si_boot_id expected then Inr RecLost
     else case so_unit_state observation of
       UnitRunning \<Rightarrow>
         (case running_identity_mismatch expected observation of
            Some reason \<Rightarrow> Inr (RecOrphaned reason)
          | None \<Rightarrow> Inr RecRunning)
     | UnitTerminal \<Rightarrow>
         (case terminal_identity_mismatch expected observation of
            Some reason \<Rightarrow> Inr (RecOrphaned reason)
          | None \<Rightarrow> Inr (RecTerminal (classify_terminal_state termination_intent
              (so_result observation) (so_exec_main_code observation)
              (so_exec_main_status observation))))
     | UnitNotFound \<Rightarrow>
         if so_recorded_pid_alive observation
            \<and> so_recorded_pid_start_identity observation = Some (si_main_process_start_identity expected)
         then Inr (RecOrphaned ''recorded process identity is alive but supervisor unit is missing'')
         else Inr (case termination_intent of
              TIStopRequested \<Rightarrow> RecTerminal Cancelled
            | TIDeadlineExceeded \<Rightarrow> RecTerminal TimedOut
            | TINatural \<Rightarrow> RecLost))"

section \<open>What a classification tells\<close>

text \<open>The process whose identity was persisted is the one the observation shows running.\<close>

definition observed_running_same :: "SupervisorIdentity \<Rightarrow> SupervisorObservation \<Rightarrow> bool" where
  "observed_running_same e obs \<longleftrightarrow>
     so_boot_id obs = si_boot_id e \<and> so_unit_state obs = UnitRunning
     \<and> so_invocation_id obs = Some (si_invocation_id e)
     \<and> so_control_group obs = Some (si_control_group e)
     \<and> so_main_pid obs = Some (si_main_pid e)
     \<and> so_main_process_start_identity obs = Some (si_main_process_start_identity e)"

lemma running_identity_mismatch_None_iff:
  "running_identity_mismatch e obs = None \<longleftrightarrow>
     so_invocation_id obs = Some (si_invocation_id e) \<and> so_control_group obs = Some (si_control_group e)
     \<and> so_main_process_start_identity obs = Some (si_main_process_start_identity e)
     \<and> so_main_pid obs = Some (si_main_pid e)"
  by (auto simp: running_identity_mismatch_def)

text \<open>
  C38.  With a well-formed persisted identity the classification always answers, and it answers
  \<open>Running\<close> exactly when the boot, unit, invocation, control group, process id and process start
  identity all match what was persisted: a process that merely reuses the pid is never taken over.
\<close>

theorem classify_running_iff_same_process:
  assumes "validate_identity e = Inr ()"
  shows "(\<exists>d. classify_supervisor_recovery e obs intent = Inr d)
     \<and> (classify_supervisor_recovery e obs intent = Inr RecRunning \<longleftrightarrow> observed_running_same e obs)"
proof (cases "so_unit_state obs")
  case UnitRunning
  then show ?thesis
    using assms running_identity_mismatch_None_iff[of e obs]
    by (cases "running_identity_mismatch e obs")
      (auto simp: classify_supervisor_recovery_def observed_running_same_def)
next
  case UnitTerminal
  then show ?thesis
    using assms by (cases "terminal_identity_mismatch e obs")
      (auto simp: classify_supervisor_recovery_def observed_running_same_def)
next
  case UnitNotFound
  then show ?thesis
    using assms by (cases intent)
      (auto simp: classify_supervisor_recovery_def observed_running_same_def)
qed

definition example_identity :: SupervisorIdentity where
  "example_identity = \<lparr>si_boot_id = ''boot-a'', si_unit_name = ''ordivon-job-01.service'',
     si_invocation_id = ''invocation-a'', si_control_group = ''/system.slice/ordivon-job-01.service'',
     si_main_pid = 42, si_main_process_start_identity = ''9001''\<rparr>"

definition example_running_observation :: SupervisorObservation where
  "example_running_observation = \<lparr>so_boot_id = ''boot-a'', so_unit_state = UnitRunning,
     so_invocation_id = Some ''invocation-a'',
     so_control_group = Some ''/system.slice/ordivon-job-01.service'', so_main_pid = Some 42,
     so_main_process_start_identity = Some ''9001'', so_recorded_pid_alive = True,
     so_recorded_pid_start_identity = Some ''9001'', so_result = None, so_exec_main_code = None,
     so_exec_main_status = None\<rparr>"

lemma example_identity_valid: "validate_identity example_identity = Inr ()"
  by (simp add: validate_identity_def example_identity_def ends_with_def starts_with_def suffix_def)

theorem classify_running_iff_same_process_witness:
  "validate_identity example_identity = Inr ()
   \<and> classify_supervisor_recovery example_identity example_running_observation TINatural = Inr RecRunning
   \<and> classify_supervisor_recovery example_identity
       (example_running_observation\<lparr>so_main_process_start_identity := Some ''9002''\<rparr>) TINatural
     \<noteq> Inr RecRunning"
  using classify_running_iff_same_process[OF example_identity_valid, of example_running_observation TINatural]
    classify_running_iff_same_process[OF example_identity_valid,
      of "example_running_observation\<lparr>so_main_process_start_identity := Some ''9002''\<rparr>" TINatural]
    example_identity_valid
  by (simp add: observed_running_same_def example_identity_def example_running_observation_def)

text \<open>
  A terminal outcome is never invented: when no stop and no deadline was requested, an
  Attempt is classified as finished (\<open>Succeeded\<close> or \<open>Failed\<close>) only from a terminal unit of the
  same boot and invocation, as \<open>Succeeded\<close> only on recorded success evidence, and after a reboot
  or a vanished unit the answer is \<open>Lost\<close> or \<open>Orphaned\<close>.
\<close>

theorem classify_natural_terminal_needs_evidence:
  assumes "classify_supervisor_recovery e obs TINatural = Inr (RecTerminal s)"
  shows "so_boot_id obs = si_boot_id e \<and> so_unit_state obs = UnitTerminal
     \<and> so_invocation_id obs = Some (si_invocation_id e)
     \<and> s \<in> {Succeeded, Failed}
     \<and> (s = Succeeded \<longleftrightarrow> so_result obs = Some ''success''
          \<or> (so_exec_main_code obs = Some 1 \<and> so_exec_main_status obs = Some 0))"
  using assms
  by (auto simp: classify_supervisor_recovery_def terminal_identity_mismatch_def
      classify_terminal_state_def rbind_eq_Inr
      split: SupervisorUnitState.splits option.splits if_splits)

end
