(* ===== verification/Host.thy ===== *)
theory Host
  imports Supervisor
begin

text \<open>
  The code the Runtime calls and does not contain: SHA-256 with hexadecimal printing (\<open>sha2\<close>,
  \<open>hex\<close>), JSON printing and reading of its structs (\<open>serde_json\<close> with derived \<open>serde\<close> traits),
  Unicode lower-casing and the \<open>sysconf\<close> limits of the kernel.  They are the fields of a record
  that the definitions take as an argument.  A printer is total because \<open>serde_json::to_string\<close>
  cannot fail on these structs (no map with non-string keys, no failing \<open>Serialize\<close>); a reader
  returns the parser's message or the value.

  The identity structs of \<open>runtime/types.rs\<close>, which exist only to be printed and hashed, are
  here too.
\<close>

datatype json =
    JNull
  | JBool bool
  | JNumber int
  | JString string
  | JArray "json list"
  | JObject "(string \<times> json) list"

fun json_get :: "json \<Rightarrow> string \<Rightarrow> json option" where
  "json_get (JObject kvs) k = map_of kvs k"
| "json_get _ k = None"

section \<open>Identity structs\<close>

record RuntimeReleaseRequestIdentity =
  ri_schema_version :: nat
  ri_principal :: string
  ri_workspace_id :: string
  ri_commit :: string
  ri_candidate_manifest_digest :: string
  ri_expected_tool_count :: nat

record OperationRequestIdentity =
  oi_schema_version :: nat
  oi_principal :: string
  oi_workspace_id :: string
  oi_executable :: string
  oi_args :: "string list"
  oi_cwd_relative :: string
  oi_env :: env_map
  oi_timeout_ms :: nat
  oi_stdout_limit_bytes :: nat
  oi_stderr_limit_bytes :: nat
  oi_steps :: "UniversalExecutionStep list"
  oi_budget :: ExecutionBudget
  oi_execution_profile :: ExecutionProfile
  oi_execution_target :: ExecutionTarget
  oi_windows_authority :: "WindowsAuthority option"
  oi_foreign_references :: "ForeignReference list"
  oi_host_dependencies :: "HostDependencyBinding list"

record ProposalRequestIdentity =
  pi_schema_version :: nat
  pi_principal :: string
  pi_workspace_id :: string
  pi_executable :: string
  pi_args :: "string list"
  pi_cwd_relative :: string
  pi_env :: env_map
  pi_timeout_ms :: "nat option"
  pi_stdout_limit_bytes :: "nat option"
  pi_stderr_limit_bytes :: "nat option"
  pi_steps :: "ExecutionStepProposal list"
  pi_budget :: ExecutionBudget
  pi_execution_profile :: ExecutionProfile
  pi_execution_target :: ExecutionTarget
  pi_windows_authority :: "WindowsAuthority option"
  pi_foreign_references :: "ForeignReference list"
  pi_host_dependencies :: "HostDependencyBinding list"

record InputBindingIdentity =
  ii_authority :: string
  ii_relative_object :: string
  ii_expected_digest :: string
  ii_presentation_relative_path :: string

record CredentialBindingIdentity =
  ci_authority :: string
  ci_credential :: string

record InputBoundProposalIdentity =
  ip_proposal :: ProposalRequestIdentity
  ip_inputs :: "InputBindingIdentity list"

record CredentialBoundProposalIdentity =
  cp_proposal :: ProposalRequestIdentity
  cp_credentials :: "CredentialBindingIdentity list"

section \<open>The host\<close>

record host =
  h_sha256_hex :: "string \<Rightarrow> string"
  h_json_print :: "json \<Rightarrow> string"
  h_json_parse :: "string \<Rightarrow> string + json"
  h_plan_print :: "RuntimeExecutionPlan \<Rightarrow> string"
  h_plan_parse :: "string \<Rightarrow> string + RuntimeExecutionPlan"
  h_provider_print :: "ExecutionProviderSnapshot \<Rightarrow> string"
  h_provider_parse :: "string \<Rightarrow> string + ExecutionProviderSnapshot"
  h_host_dependencies_print :: "HostDependencyBinding list \<Rightarrow> string"
  h_host_dependencies_parse :: "string \<Rightarrow> string + HostDependencyBinding list"
  h_release_print :: "RuntimeReleaseEffectBinding \<Rightarrow> string"
  h_owner_print :: "AttemptSupervisorOwner \<Rightarrow> string"
  h_owner_parse :: "string \<Rightarrow> string + AttemptSupervisorOwner"
  h_submit_print :: "SubmitRequest \<Rightarrow> string"
  h_operation_identity_print :: "OperationRequestIdentity \<Rightarrow> string"
  h_proposal_identity_print :: "ProposalRequestIdentity \<Rightarrow> string"
  h_input_identity_print :: "InputBoundProposalIdentity \<Rightarrow> string"
  h_credential_identity_print :: "CredentialBoundProposalIdentity \<Rightarrow> string"
  h_release_identity_print :: "RuntimeReleaseRequestIdentity \<Rightarrow> string"
  h_to_lowercase :: "string \<Rightarrow> string"
  h_page_size :: int
  h_arg_max :: int

definition sha256_bytes :: "host \<Rightarrow> string \<Rightarrow> string" where
  "sha256_bytes h bytes = ''sha256:'' @ h_sha256_hex h bytes"

text \<open>Documented behaviour of the hash printer: 64 lowercase hexadecimal digits.\<close>

definition sha256_hex_shape :: "host \<Rightarrow> bool" where
  "sha256_hex_shape h \<longleftrightarrow> (\<forall>bytes. length (h_sha256_hex h bytes) = 64
     \<and> list_all (\<lambda>c. is_ascii_digit c \<or> (CHR ''a'' \<le> c \<and> c \<le> CHR ''f'')) (h_sha256_hex h bytes))"

text \<open>Documented behaviour of \<open>serde_json\<close>: what it prints it reads back.\<close>

definition json_reads_back :: "host \<Rightarrow> bool" where
  "json_reads_back h \<longleftrightarrow>
     (\<forall>kvs. distinct (map fst kvs) \<longrightarrow>
        (\<exists>w. h_json_parse h (h_json_print h (JObject kvs)) = Inr w \<and> json_get w = json_get (JObject kvs)))
     \<and> (\<forall>p. h_plan_parse h (h_plan_print h p) = Inr p)
     \<and> (\<forall>p. h_provider_parse h (h_provider_print h p) = Inr p)
     \<and> (\<forall>d. h_host_dependencies_parse h (h_host_dependencies_print h d) = Inr d)
     \<and> (\<forall>w. h_owner_parse h (h_owner_print h w) = Inr w)"

end
