(* ===== verification/Request_Identity.thy ===== *)
theory Request_Identity
  imports Host "HOL-Library.Multiset"
begin

text \<open>
  \<open>runtime/types.rs\<close>: the identity of a request, the digest under which a client's
  \<open>clientRequestId\<close> is bound.  Paths are normalised textually, order-free lists are sorted, and
  each kind of request has its own prefix.
\<close>

definition REQUEST_IDENTITY_PREFIX :: string where
  "REQUEST_IDENTITY_PREFIX = ''runtime-request-v1:''"

definition PROPOSAL_IDENTITY_PREFIX :: string where
  "PROPOSAL_IDENTITY_PREFIX = ''runtime-request-v2:''"

definition INPUT_BOUND_IDENTITY_PREFIX :: string where
  "INPUT_BOUND_IDENTITY_PREFIX = ''runtime-request-input-v1:''"

definition INPUT_BOUND_PROPOSAL_IDENTITY_PREFIX :: string where
  "INPUT_BOUND_PROPOSAL_IDENTITY_PREFIX = ''runtime-request-input-v2:''"

definition CREDENTIAL_BOUND_PROPOSAL_IDENTITY_PREFIX :: string where
  "CREDENTIAL_BOUND_PROPOSAL_IDENTITY_PREFIX = ''runtime-request-credential-v1:''"

definition RUNTIME_RELEASE_IDENTITY_PREFIX :: string where
  "RUNTIME_RELEASE_IDENTITY_PREFIX = ''runtime-release-v1:''"

section \<open>Path normalisation\<close>

text \<open>
  The loop body of \<open>normalize_path_text\<close>; the \<open>PathBuf\<close> under construction is the list of the
  components pushed after the optional root, last one first.
\<close>

fun normalize_push :: "bool \<Rightarrow> path_component \<Rightarrow> path_component list \<Rightarrow> path_component list" where
  "normalize_push absolute RootDir acc = acc"
| "normalize_push absolute CurDir acc = acc"
| "normalize_push absolute ParentDir acc =
     (case acc of
        Normal _ # rest \<Rightarrow> rest
      | _ \<Rightarrow> if absolute then acc else ParentDir # acc)"
| "normalize_push absolute (Normal part) acc = Normal part # acc"

definition normalize_components :: "bool \<Rightarrow> path_component list \<Rightarrow> path_component list" where
  "normalize_components absolute cs = rev (fold (normalize_push absolute) cs [])"

definition normalize_path_text :: "string \<Rightarrow> string" where
  "normalize_path_text value =
     (let absolute = path_is_absolute value
      in path_text absolute (normalize_components absolute (path_components value)))"

definition normalize_relative_path_text :: "string \<Rightarrow> string" where
  "normalize_relative_path_text value =
     (let normalized = normalize_path_text value
      in if normalized = [] then ''.'' else normalized)"

section \<open>Identities\<close>

fun identity_windows_authority :: "ExecutionTarget \<Rightarrow> WindowsAuthority \<Rightarrow> WindowsAuthority option" where
  "identity_windows_authority WindowsNative Limited = None"
| "identity_windows_authority WindowsNative authority = Some authority"
| "identity_windows_authority LocalLinux _ = None"

definition host_dependency_identities :: "HostDependencyBinding list \<Rightarrow> HostDependencyBinding list" where
  "host_dependency_identities deps = sort_key (\<lambda>d. (hd_path d, hd_expected_digest d)) deps"

definition input_binding_identities :: "InputBindingRequest list \<Rightarrow> InputBindingIdentity list" where
  "input_binding_identities inputs =
     sort_key (\<lambda>i. (ii_presentation_relative_path i, ii_authority i, ii_relative_object i,
                    ii_expected_digest i))
       (map (\<lambda>input. \<lparr>ii_authority = ib_authority input,
                      ii_relative_object = ib_relative_object input,
                      ii_expected_digest = to_ascii_lowercase (ib_expected_digest input),
                      ii_presentation_relative_path = ib_presentation_relative_path input\<rparr>) inputs)"

definition credential_binding_identities ::
  "CredentialBindingRequest list \<Rightarrow> CredentialBindingIdentity list" where
  "credential_binding_identities credentials =
     sort_key (\<lambda>c. (ci_authority c, ci_credential c))
       (map (\<lambda>c. \<lparr>ci_authority = cb_authority c, ci_credential = cb_credential c\<rparr>) credentials)"

definition step_proposal_identity :: "ExecutionStepProposal \<Rightarrow> ExecutionStepProposal" where
  "step_proposal_identity step =
     \<lparr>sp_id = sp_id step, sp_executable = normalize_path_text (sp_executable step),
      sp_args = sp_args step, sp_cwd_relative = normalize_relative_path_text (sp_cwd_relative step),
      sp_env = sp_env step, sp_timeout_ms = sp_timeout_ms step,
      sp_continue_on_error = sp_continue_on_error step\<rparr>"

definition proposal_request_identity :: "JobRunProposal \<Rightarrow> ProposalRequestIdentity" where
  "proposal_request_identity proposal =
     (let x = jp_execution proposal in
      \<lparr>pi_schema_version = jp_schema_version proposal,
       pi_principal = jp_principal proposal,
       pi_workspace_id = x_workspace_id x,
       pi_executable = normalize_path_text (x_executable x),
       pi_args = x_args x,
       pi_cwd_relative = normalize_relative_path_text (x_cwd_relative x),
       pi_env = x_env x,
       pi_timeout_ms = x_timeout_ms x,
       pi_stdout_limit_bytes = x_stdout_limit_bytes x,
       pi_stderr_limit_bytes = x_stderr_limit_bytes x,
       pi_steps = map step_proposal_identity (x_steps x),
       pi_budget = x_budget x,
       pi_execution_profile = x_execution_profile x,
       pi_execution_target = x_execution_target x,
       pi_windows_authority = identity_windows_authority (x_execution_target x) (x_windows_authority x),
       pi_foreign_references = x_foreign_references x,
       pi_host_dependencies = host_dependency_identities (x_host_dependencies x)\<rparr>)"

definition operation_request_identity_digest_from_parts ::
  "host \<Rightarrow> OperationRequestIdentity \<Rightarrow> string" where
  "operation_request_identity_digest_from_parts h identity =
     REQUEST_IDENTITY_PREFIX @ sha256_bytes h (h_operation_identity_print h identity)"

text \<open>The loop over the steps, which returns early at the first omitted timeout.\<close>

fun legacy_steps :: "ExecutionStepProposal list \<Rightarrow> UniversalExecutionStep list option" where
  "legacy_steps [] = Some []"
| "legacy_steps (step # rest) =
     (case sp_timeout_ms step of
        None \<Rightarrow> None
      | Some step_timeout_ms \<Rightarrow>
          map_option (\<lambda>steps.
            \<lparr>us_id = sp_id step, us_executable = normalize_path_text (sp_executable step),
             us_args = sp_args step,
             us_cwd_relative = normalize_relative_path_text (sp_cwd_relative step),
             us_env = sp_env step, us_timeout_ms = step_timeout_ms,
             us_continue_on_error = sp_continue_on_error step\<rparr> # steps) (legacy_steps rest))"

definition legacy_request_identity_digest_from_proposal ::
  "host \<Rightarrow> JobRunProposal \<Rightarrow> string option" where
  "legacy_request_identity_digest_from_proposal h proposal =
     (let x = jp_execution proposal in
      case x_timeout_ms x of None \<Rightarrow> None | Some timeout_ms \<Rightarrow>
      case x_stdout_limit_bytes x of None \<Rightarrow> None | Some stdout_limit_bytes \<Rightarrow>
      case x_stderr_limit_bytes x of None \<Rightarrow> None | Some stderr_limit_bytes \<Rightarrow>
      case legacy_steps (x_steps x) of None \<Rightarrow> None | Some steps \<Rightarrow>
      Some (operation_request_identity_digest_from_parts h
        \<lparr>oi_schema_version = jp_schema_version proposal,
         oi_principal = jp_principal proposal,
         oi_workspace_id = x_workspace_id x,
         oi_executable = normalize_path_text (x_executable x),
         oi_args = x_args x,
         oi_cwd_relative = normalize_relative_path_text (x_cwd_relative x),
         oi_env = x_env x,
         oi_timeout_ms = timeout_ms,
         oi_stdout_limit_bytes = stdout_limit_bytes,
         oi_stderr_limit_bytes = stderr_limit_bytes,
         oi_steps = steps,
         oi_budget = x_budget x,
         oi_execution_profile = x_execution_profile x,
         oi_execution_target = x_execution_target x,
         oi_windows_authority =
           identity_windows_authority (x_execution_target x) (x_windows_authority x),
         oi_foreign_references = x_foreign_references x,
         oi_host_dependencies = host_dependency_identities (x_host_dependencies x)\<rparr>))"

definition proposal_request_identity_digest :: "host \<Rightarrow> JobRunProposal \<Rightarrow> string" where
  "proposal_request_identity_digest h proposal =
     PROPOSAL_IDENTITY_PREFIX @
     sha256_bytes h (h_proposal_identity_print h (proposal_request_identity proposal))"

definition input_bound_proposal_request_identity_digest ::
  "host \<Rightarrow> JobRunProposal \<Rightarrow> InputBindingRequest list \<Rightarrow> string" where
  "input_bound_proposal_request_identity_digest h proposal inputs =
     INPUT_BOUND_PROPOSAL_IDENTITY_PREFIX @
     sha256_bytes h (h_input_identity_print h
       \<lparr>ip_proposal = proposal_request_identity proposal,
        ip_inputs = input_binding_identities inputs\<rparr>)"

definition credential_bound_proposal_request_identity_digest ::
  "host \<Rightarrow> JobRunProposal \<Rightarrow> CredentialBindingRequest list \<Rightarrow> string" where
  "credential_bound_proposal_request_identity_digest h proposal credentials =
     CREDENTIAL_BOUND_PROPOSAL_IDENTITY_PREFIX @
     sha256_bytes h (h_credential_identity_print h
       \<lparr>cp_proposal = proposal_request_identity proposal,
        cp_credentials = credential_binding_identities credentials\<rparr>)"

definition runtime_release_request_identity_digest :: "host \<Rightarrow> RuntimeReleaseRequest \<Rightarrow> string" where
  "runtime_release_request_identity_digest h request =
     RUNTIME_RELEASE_IDENTITY_PREFIX @
     sha256_bytes h (h_release_identity_print h
       \<lparr>ri_schema_version = rrq_schema_version request, ri_principal = rrq_principal request,
        ri_workspace_id = rrq_workspace_id request, ri_commit = rrq_commit request,
        ri_candidate_manifest_digest = rrq_candidate_manifest_digest request,
        ri_expected_tool_count = rrq_expected_tool_count request\<rparr>)"

text \<open>\<open>trim_start_matches("sha256:")\<close> removes the prefix as often as it occurs.\<close>

function trim_start_matches :: "string \<Rightarrow> string \<Rightarrow> string" where
  "trim_start_matches p s =
     (if p \<noteq> [] \<and> prefix p s then trim_start_matches p (drop (length p) s) else s)"
  by pat_completeness auto
termination
  by (relation "measure (\<lambda>(p, s). length s)") (auto simp: prefix_def)

declare trim_start_matches.simps [simp del]

definition runtime_release_effect_id :: "host \<Rightarrow> RuntimeReleaseRequest \<Rightarrow> string" where
  "runtime_release_effect_id h request =
     trim_start_matches ''sha256:''
       (sha256_bytes h (''runtime-release-effect-v1'' @ [NUL] @ rrq_principal request
          @ [NUL] @ rrq_client_request_id request))"

definition plan_step_identity :: "RuntimeExecutionPlan \<Rightarrow> RuntimeExecutionStep \<Rightarrow> UniversalExecutionStep" where
  "plan_step_identity plan step =
     \<lparr>us_id = st_id step, us_executable = normalize_path_text (st_executable step),
      us_args = st_args step,
      us_cwd_relative = (case path_strip_prefix (st_cwd step) (p_workspace_path plan) of
          Some path \<Rightarrow> normalize_relative_path_text path
        | None \<Rightarrow> st_cwd step),
      us_env = st_env step, us_timeout_ms = st_timeout_ms step,
      us_continue_on_error = st_continue_on_error step\<rparr>"

definition operation_request_identity_digest_from_plan ::
  "host \<Rightarrow> RuntimeExecutionPlan \<Rightarrow> string result" where
  "operation_request_identity_digest_from_plan h plan =
     rbind (ok_or (path_strip_prefix (p_cwd plan) (p_workspace_path plan))
       (error_new RegistryCorrupt ''stored execution cwd is outside its Workspace''
          (Some ''executionPlan'') False)) (\<lambda>cwd.
     Inr (operation_request_identity_digest_from_parts h
        \<lparr>oi_schema_version = p_schema_version plan,
         oi_principal = p_principal plan,
         oi_workspace_id = p_workspace_id plan,
         oi_executable = normalize_path_text (p_executable plan),
         oi_args = p_args plan,
         oi_cwd_relative = normalize_relative_path_text cwd,
         oi_env = p_env plan,
         oi_timeout_ms = p_timeout_ms plan,
         oi_stdout_limit_bytes = p_stdout_limit_bytes plan,
         oi_stderr_limit_bytes = p_stderr_limit_bytes plan,
         oi_steps = map (plan_step_identity plan) (p_steps plan),
         oi_budget = p_budget plan,
         oi_execution_profile = p_execution_profile plan,
         oi_execution_target = p_execution_target plan,
         oi_windows_authority =
           identity_windows_authority (p_execution_target plan) (p_windows_authority plan),
         oi_foreign_references = p_foreign_references plan,
         oi_host_dependencies = []\<rparr>))"

section \<open>Normalisation is canonical\<close>

text \<open>
  The accumulator holds normal components on top of leading \<open>..\<close> components, and no \<open>..\<close> at all
  under a root.
\<close>

definition normal_shape :: "bool \<Rightarrow> path_component list \<Rightarrow> bool" where
  "normal_shape absolute cs \<longleftrightarrow>
     (\<exists>n ns. cs = replicate n ParentDir @ map Normal ns \<and> (absolute \<longrightarrow> n = 0))"

lemma normal_shapeI: "(absolute \<Longrightarrow> n = 0) \<Longrightarrow> normal_shape absolute (replicate n ParentDir @ map Normal ns)"
  by (auto simp: normal_shape_def)

lemma normal_shapeE:
  assumes "normal_shape absolute cs"
  obtains n ns where "cs = replicate n ParentDir @ map Normal ns" and "absolute \<Longrightarrow> n = 0"
  using assms by (auto simp: normal_shape_def)

lemma normalize_push_shape:
  assumes "normal_shape absolute (rev acc)"
  shows "normal_shape absolute (rev (normalize_push absolute c acc))"
proof -
  from assms obtain n ns where "rev acc = replicate n ParentDir @ map Normal ns" and n: "absolute \<Longrightarrow> n = 0"
    by (rule normal_shapeE) auto
  then have acc: "acc = rev (map Normal ns) @ replicate n ParentDir"
    by (metis rev_append rev_replicate rev_rev_ident)
  show ?thesis
  proof (cases c)
    case (Normal part)
    then have "rev (normalize_push absolute c acc) = replicate n ParentDir @ map Normal (ns @ [part])"
      using acc by simp
    then show ?thesis using n normal_shapeI by metis
  next
    case ParentDir
    show ?thesis
    proof (cases ns rule: rev_cases)
      case Nil
      have "rev (normalize_push absolute c acc)
              = replicate (if absolute then n else Suc n) ParentDir @ map Normal []"
        using acc n Nil ParentDir by (cases n) (auto simp: replicate_append_same)
      then show ?thesis using n normal_shapeI[of absolute _ "[]"] by (metis (full_types))
    next
      case (snoc ms m)
      then have "rev (normalize_push absolute c acc) = replicate n ParentDir @ map Normal ms"
        using acc ParentDir by simp
      then show ?thesis using n normal_shapeI by metis
    qed
  qed (use assms in simp_all)
qed

lemma normalize_components_shape: "normal_shape absolute (normalize_components absolute cs)"
proof -
  have "normal_shape absolute (rev (fold (normalize_push absolute) cs acc))"
    if "normal_shape absolute (rev acc)" for acc
    using that by (induction cs arbitrary: acc) (auto intro: normalize_push_shape)
  then show ?thesis
    unfolding normalize_components_def using normal_shapeI[of absolute 0 "[]"] by simp
qed

lemma fold_push_Normal:
  "fold (normalize_push absolute) (map Normal ns) acc = rev (map Normal ns) @ acc"
  by (induction ns arbitrary: acc) auto

lemma fold_push_ParentDir:
  "fold (normalize_push False) (replicate n ParentDir) (replicate k ParentDir)
     = replicate (n + k) ParentDir"
proof (induction n arbitrary: k)
  case (Suc n)
  have "normalize_push False ParentDir (replicate k ParentDir) = replicate (Suc k) ParentDir"
    by (cases k) auto
  then show ?case using Suc[of "Suc k"] by simp
qed simp

lemma normalize_components_of_shape:
  assumes "normal_shape absolute cs"
  shows "normalize_components absolute cs = cs"
proof -
  from assms obtain n ns where cs: "cs = replicate n ParentDir @ map Normal ns" and n: "absolute \<Longrightarrow> n = 0"
    by (rule normal_shapeE) auto
  have "fold (normalize_push absolute) (replicate n ParentDir) [] = replicate n ParentDir"
    using fold_push_ParentDir[of n 0] n by (cases absolute) auto
  then show ?thesis
    by (simp add: normalize_components_def cs fold_push_Normal rev_map)
qed

lemma normalize_components_RootDir [simp]:
  "normalize_components absolute (RootDir # cs) = normalize_components absolute cs"
  by (simp add: normalize_components_def)

lemma normalize_components_subset:
  "set (normalize_components absolute cs) \<subseteq> set cs \<inter> range Normal \<union> {ParentDir}"
proof -
  have push: "set (normalize_push absolute c acc) \<subseteq> set acc \<union> ({c} \<inter> range Normal) \<union> {ParentDir}" for c acc
    by (cases c) (auto split: list.splits path_component.splits)
  have "set (fold (normalize_push absolute) cs acc) \<subseteq> set acc \<union> (set cs \<inter> range Normal) \<union> {ParentDir}" for acc
    by (induction cs arbitrary: acc) (use push in fastforce)+
  from this[of "[]"] show ?thesis by (simp add: normalize_components_def)
qed

lemma path_components_wf: "c \<in> set (path_components s) \<Longrightarrow> c \<in> range Normal \<Longrightarrow> wf_component c"
  using pieces_wf[of s] by (auto simp: path_components_def Let_def list_all_iff split: if_splits)

lemma normalize_components_wf: "list_all wf_component (normalize_components absolute (path_components s))"
proof -
  have "wf_component c" if "c \<in> set (normalize_components absolute (path_components s))" for c
    using subsetD[OF normalize_components_subset that] path_components_wf[of c s]
    by (auto simp: wf_component_def)
  then show ?thesis by (auto simp: list_all_iff)
qed

lemma path_components_normalize:
  "path_components (normalize_path_text s) =
     (if path_is_absolute s then RootDir # normalize_components True (path_components s)
      else normalize_components False (path_components s))"
  using normalize_components_wf
  by (simp add: normalize_path_text_def Let_def path_components_absolute_text
      path_components_relative_text)

lemma path_is_absolute_normalize: "path_is_absolute (normalize_path_text s) = path_is_absolute s"
  using normalize_components_wf by (simp add: normalize_path_text_def Let_def path_is_absolute_text)

text \<open>
  Path normalisation is canonical: it is idempotent, keeps absoluteness, and an absolute
  path loses every \<open>..\<close>, so two spellings that normalise alike get one request identity and
  re-normalising a stored path never changes the identity.
\<close>

theorem normalize_path_text_canonical:
  "normalize_path_text (normalize_path_text s) = normalize_path_text s
   \<and> path_is_absolute (normalize_path_text s) = path_is_absolute s
   \<and> (path_is_absolute s \<longrightarrow> ParentDir \<notin> set (path_components (normalize_path_text s)))"
proof (intro conjI impI)
  show "path_is_absolute (normalize_path_text s) = path_is_absolute s"
    by (rule path_is_absolute_normalize)
  show "normalize_path_text (normalize_path_text s) = normalize_path_text s"
  proof -
    have "normalize_path_text (normalize_path_text s) =
        path_text (path_is_absolute s)
          (normalize_components (path_is_absolute s) (path_components (normalize_path_text s)))"
      by (simp add: normalize_path_text_def[of "normalize_path_text s"] Let_def
          path_is_absolute_normalize)
    also have "\<dots> = normalize_path_text s"
      unfolding path_components_normalize
      using normalize_components_of_shape[OF normalize_components_shape]
      by (simp add: normalize_path_text_def[of s] Let_def)
    finally show ?thesis .
  qed
  assume abs: "path_is_absolute s"
  have "ParentDir \<notin> set (normalize_components True (path_components s))"
    using normalize_components_shape[of True "path_components s"] by (auto elim!: normal_shapeE)
  with abs show "ParentDir \<notin> set (path_components (normalize_path_text s))"
    by (simp add: path_components_normalize)
qed

theorem normalize_path_text_canonical_witness:
  "path_is_absolute ''/usr/../bin//./sh'' \<and> normalize_path_text ''/usr/../bin//./sh'' = ''/bin/sh''
   \<and> ParentDir \<notin> set (path_components (normalize_path_text ''/usr/../bin//./sh''))"
proof -
  have abs: "path_is_absolute ''/usr/../bin//./sh''"
    by (simp add: path_is_absolute_def starts_with_def)
  have "normalize_path_text ''/usr/../bin//./sh'' = ''/bin/sh''" by code_simp
  with abs normalize_path_text_canonical[of "''/usr/../bin//./sh''"] show ?thesis by blast
qed

section \<open>Order-free identities\<close>

lemma sort_key_mset_cong:
  assumes "mset xs = mset ys" and "inj f"
  shows "sort_key f xs = sort_key f ys"
  using assms by (intro sort_key_inj_key_eq) (auto intro: inj_on_subset)

lemma inj_input_key:
  "inj (\<lambda>i :: InputBindingIdentity. (ii_presentation_relative_path i, ii_authority i,
         ii_relative_object i, ii_expected_digest i))"
  by (auto intro!: injI)

lemma inj_credential_key: "inj (\<lambda>c :: CredentialBindingIdentity. (ci_authority c, ci_credential c))"
  by (auto intro!: injI)

lemma to_ascii_lowercase_idem: "to_ascii_lowercase (to_ascii_lowercase s) = to_ascii_lowercase s"
proof -
  have "\<not> is_ascii_uppercase (char_of (byte c + 32))" if "is_ascii_uppercase c" for c
    using that
    by (auto simp: is_ascii_uppercase_def less_eq_char_def of_char_of)
  then show ?thesis by (auto simp: to_ascii_lowercase_def)
qed

text \<open>
  The identity of an input-bound or credential-bound request does not depend on the order in
  which the caller lists inputs or credentials, nor on the letter case of an input digest: a retry
  that permutes them is recognised as the same request.
\<close>

theorem bound_identity_order_free:
  assumes "mset inputs = mset inputs'" and "mset credentials = mset credentials'"
  shows "input_bound_proposal_request_identity_digest h proposal inputs
           = input_bound_proposal_request_identity_digest h proposal
               (map (\<lambda>i. i\<lparr>ib_expected_digest := to_ascii_lowercase (ib_expected_digest i)\<rparr>) inputs')
         \<and> credential_bound_proposal_request_identity_digest h proposal credentials
           = credential_bound_proposal_request_identity_digest h proposal credentials'"
proof -
  have "input_binding_identities inputs = input_binding_identities
      (map (\<lambda>i. i\<lparr>ib_expected_digest := to_ascii_lowercase (ib_expected_digest i)\<rparr>) inputs')"
    using assms(1) unfolding input_binding_identities_def
    by (intro sort_key_mset_cong inj_input_key)
      (simp add: comp_def to_ascii_lowercase_idem mset_map)
  moreover have "credential_binding_identities credentials = credential_binding_identities credentials'"
    using assms(2) unfolding credential_binding_identities_def
    by (intro sort_key_mset_cong inj_credential_key) (simp add: mset_map)
  ultimately show ?thesis
    by (simp add: input_bound_proposal_request_identity_digest_def
        credential_bound_proposal_request_identity_digest_def)
qed

definition example_input :: "string \<Rightarrow> InputBindingRequest" where
  "example_input path = \<lparr>ib_authority = ''models'', ib_relative_object = ''a.bin'',
     ib_expected_digest = ''sha256:AB'', ib_presentation_relative_path = path\<rparr>"

theorem bound_identity_order_free_witness:
  "\<forall>h proposal. mset [example_input ''x'', example_input ''y''] = mset [example_input ''y'', example_input ''x'']
   \<and> input_bound_proposal_request_identity_digest h proposal [example_input ''x'', example_input ''y'']
     = input_bound_proposal_request_identity_digest h proposal
         (map (\<lambda>i. i\<lparr>ib_expected_digest := to_ascii_lowercase (ib_expected_digest i)\<rparr>)
            [example_input ''y'', example_input ''x''])"
  using bound_identity_order_free[of "[example_input ''x'', example_input ''y'']"
      "[example_input ''y'', example_input ''x'']" "[]" "[]"]
  by simp

end
