(* ===== verification/Exec_Payload.thy ===== *)
theory Exec_Payload
  imports Host
begin

text \<open>
  Admission bounds on what a Job executes: \<open>universal/fsutil.rs\<close> (identifiers, relative paths,
  argv and environment against the Linux \<open>execve\<close> limits) and the validators of
  \<open>runtime/windows.rs\<close> (command-line length as the Windows launcher will quote it, environment
  entries, presentation paths).  The launcher's own quoting, \<open>QuoteWindowsArgument\<close> in
  \<open>platform/windows/Ordivon.WindowsJobLauncher.cs\<close>, is the reference for the length computation.

  A \<open>usize\<close> is a \<^typ>\<open>nat\<close> whose checked operations fail at \<open>2^64\<close>.
\<close>

section \<open>Checked arithmetic\<close>

definition USIZE_BOUND :: nat where
  "USIZE_BOUND = 2 ^ 64"

definition checked_add :: "nat \<Rightarrow> nat \<Rightarrow> nat option" where
  "checked_add a b = (if a + b < USIZE_BOUND then Some (a + b) else None)"

definition checked_mul :: "nat \<Rightarrow> nat \<Rightarrow> nat option" where
  "checked_mul a b = (if a * b < USIZE_BOUND then Some (a * b) else None)"

definition checked_sub :: "nat \<Rightarrow> nat \<Rightarrow> nat option" where
  "checked_sub a b = (if b \<le> a then Some (a - b) else None)"

definition saturating_add :: "nat \<Rightarrow> nat \<Rightarrow> nat" where
  "saturating_add a b = min (a + b) (USIZE_BOUND - 1)"

definition usize_try_from :: "int \<Rightarrow> nat option" where
  "usize_try_from i = (if 0 \<le> i \<and> i < int USIZE_BOUND then Some (nat i) else None)"

section \<open>Linux\<close>

datatype UniversalExecErrorCode =
    UInvalidRequest | UWorkspaceExists | UWorkspaceNotFound | UWorkspacePathNotFound | UWorkspaceDirty
  | UWorkspacePathDenied | URevisionNotFound | URevisionMismatch | UWorkspaceStateMismatch
  | UInputStateMismatch | UHostDependencyRuntimeDrift | UExecutableRuntimeDrift
  | UWorkspaceMutationIncomplete | UArtifactNotFound | UArtifactNotUtf8 | UOutputLimitExceeded
  | UToolUnavailable | UToolFailed | UIoError | UWorkspaceCapacityExceeded | UMetadataCorrupt

record UniversalExecError =
  ue_code :: UniversalExecErrorCode
  ue_message :: string
  ue_field :: "string option"
  ue_retryable :: bool

definition universal_error_new ::
  "UniversalExecErrorCode \<Rightarrow> string \<Rightarrow> string option \<Rightarrow> bool \<Rightarrow> UniversalExecError" where
  "universal_error_new code message field retryable =
     \<lparr>ue_code = code, ue_message = message, ue_field = field, ue_retryable = retryable\<rparr>"

definition universal_invalid :: "string \<Rightarrow> string \<Rightarrow> UniversalExecError" where
  "universal_invalid message field = universal_error_new UInvalidRequest message (Some field) False"

definition WORKSPACE_ID_MAX_LENGTH :: nat where
  "WORKSPACE_ID_MAX_LENGTH = 96"

text \<open>Every multi-byte scalar fails the ASCII tests, as do its bytes, so the tests read bytes.\<close>

definition validate_id :: "string \<Rightarrow> string \<Rightarrow> UniversalExecError + unit" where
  "validate_id value field =
     (let valid_first = (case value of [] \<Rightarrow> False | c # _ \<Rightarrow> is_ascii_alphanumeric c)
      in if \<not> valid_first \<or> length value > WORKSPACE_ID_MAX_LENGTH
            \<or> \<not> list_all (\<lambda>c. is_ascii_alphanumeric c \<or> c \<in> {CHR ''.'', CHR ''_'', CHR ''-''}) (tl value)
         then Inl (universal_invalid (field @ '' must match [A-Za-z0-9][A-Za-z0-9._-]{0,95}'') field)
         else Inr ())"

definition validate_relative_path :: "string \<Rightarrow> string \<Rightarrow> UniversalExecError + string" where
  "validate_relative_path value field =
     (if value = [] \<or> path_is_absolute value \<or> contains_nul value
      then Inl (universal_invalid (field @ '' must be a non-empty relative path'') field)
      else if list_ex (\<lambda>c. c \<in> {ParentDir, RootDir}) (path_components value)
      then Inl (universal_error_new UWorkspacePathDenied (field @ '' cannot escape the workspace'')
             (Some field) False)
      else Inr value)"

definition linux_exec_string_limit_bytes :: "host \<Rightarrow> UniversalExecError + nat" where
  "linux_exec_string_limit_bytes h =
     (if h_page_size h \<le> 0
      then Inl (universal_invalid ''cannot determine Linux execve per-string limit'' ''execution'')
      else ok_or (Option.bind (usize_try_from (h_page_size h)) (\<lambda>page_size.
                  Option.bind (checked_mul page_size 32) (\<lambda>bytes. checked_sub bytes 1)))
             (universal_invalid ''Linux execve per-string limit is not representable'' ''execution''))"

definition linux_exec_payload_limit_bytes :: "host \<Rightarrow> UniversalExecError + nat" where
  "linux_exec_payload_limit_bytes h =
     (if h_arg_max h \<le> 0
      then Inl (universal_invalid ''cannot determine Linux execve argv/environment limit'' ''execution'')
      else ok_or (usize_try_from (h_arg_max h))
             (universal_invalid ''Linux execve argv/environment limit is not representable'' ''execution''))"

definition validate_args :: "host \<Rightarrow> string list \<Rightarrow> UniversalExecError + unit" where
  "validate_args h args =
     rbind (linux_exec_string_limit_bytes h) (\<lambda>max_string_bytes.
     if list_ex (\<lambda>arg. length arg > max_string_bytes \<or> contains_nul arg) args
     then Inl (universal_invalid
            (''args contains a value that exceeds the Linux execve per-string limit of ''
             @ show_nat max_string_bytes @ '' bytes or contains NUL'') ''args'')
     else Inr ())"

definition valid_env_name :: "string \<Rightarrow> bool" where
  "valid_env_name name =
     (case name of [] \<Rightarrow> False
      | first # rest \<Rightarrow> (first = CHR ''_'' \<or> is_ascii_alphabetic first)
          \<and> list_all (\<lambda>c. c = CHR ''_'' \<or> is_ascii_alphanumeric c) rest)"

definition validate_env :: "env_map \<Rightarrow> UniversalExecError + unit" where
  "validate_env env =
     for_each (\<lambda>(name, value).
       if \<not> valid_env_name name \<or> contains_nul value
       then Inl (universal_invalid (''invalid environment entry '' @ name) ''env'')
       else Inr ()) env"

fun arg_string_bytes :: "string list \<Rightarrow> nat \<Rightarrow> nat option" where
  "arg_string_bytes [] acc = Some acc"
| "arg_string_bytes (arg # args) acc =
     Option.bind (checked_add acc (length arg)) (\<lambda>value.
     Option.bind (checked_add value 1) (arg_string_bytes args))"

fun env_string_bytes :: "env_map \<Rightarrow> nat \<Rightarrow> nat option" where
  "env_string_bytes [] acc = Some acc"
| "env_string_bytes ((name, value) # env) acc =
     Option.bind (checked_add acc (length name)) (\<lambda>t1.
     Option.bind (checked_add t1 1) (\<lambda>t2.
     Option.bind (checked_add t2 (length value)) (\<lambda>t3.
     Option.bind (checked_add t3 1) (env_string_bytes env))))"

text \<open>\<open>size_of::<usize>()\<close> is 8 on the 64-bit targets the Runtime builds for.\<close>

definition payload_required_bytes :: "string list \<Rightarrow> env_map \<Rightarrow> string \<Rightarrow> UniversalExecError + nat" where
  "payload_required_bytes args env field =
     rbind (ok_or (arg_string_bytes args 0)
              (universal_invalid ''execve payload size overflow'' field)) (\<lambda>arg_bytes.
     rbind (ok_or (env_string_bytes env arg_bytes)
              (universal_invalid ''execve payload size overflow'' field)) (\<lambda>string_bytes.
     rbind (ok_or (Option.bind (checked_add (length args) (length env)) (\<lambda>count. checked_add count 2))
              (universal_invalid ''execve pointer count overflow'' field)) (\<lambda>pointer_count.
     rbind (ok_or (checked_mul pointer_count 8)
              (universal_invalid ''execve pointer size overflow'' field)) (\<lambda>pointer_bytes.
     ok_or (checked_add string_bytes pointer_bytes)
       (universal_invalid ''execve payload size overflow'' field)))))"

definition validate_exec_payload ::
  "host \<Rightarrow> string list \<Rightarrow> env_map \<Rightarrow> string \<Rightarrow> UniversalExecError + unit" where
  "validate_exec_payload h args env field =
     rbind (validate_args h args) (\<lambda>_.
     rbind (validate_env env) (\<lambda>_.
     rbind (linux_exec_string_limit_bytes h) (\<lambda>max_string_bytes.
     if list_ex (\<lambda>(name, value).
          saturating_add (saturating_add (length name) 1) (length value) > max_string_bytes) env
     then Inl (universal_invalid
            (''env contains an entry that exceeds the Linux execve per-string limit of ''
             @ show_nat max_string_bytes @ '' bytes'') ''env'')
     else
     rbind (payload_required_bytes args env field) (\<lambda>required_bytes.
     rbind (linux_exec_payload_limit_bytes h) (\<lambda>max_bytes.
     if required_bytes > max_bytes
     then Inl (universal_invalid
            (''argv and environment require '' @ show_nat required_bytes
             @ '' bytes, exceeding the host Linux execve limit of '' @ show_nat max_bytes
             @ '' bytes'') field)
     else Inr ())))))"

section \<open>Windows\<close>

definition BACKSLASH :: nat where
  "BACKSLASH = 92"

definition QUOTE :: nat where
  "QUOTE = 34"

definition len_utf16 :: "nat \<Rightarrow> nat" where
  "len_utf16 c = (if c < 65536 then 1 else 2)"

definition utf16_len :: "string \<Rightarrow> nat" where
  "utf16_len s = sum_list (map len_utf16 (utf8_chars s))"

definition windows_overflow :: "string \<Rightarrow> RuntimeError" where
  "windows_overflow field = error_invalid ''Windows command-line length overflow'' field"

text \<open>The loop of \<open>checked_windows_quoted_argument_utf16_len\<close>; \<open>None\<close> is its overflow.\<close>

fun quoted_length_loop :: "nat list \<Rightarrow> nat \<Rightarrow> nat \<Rightarrow> nat option" where
  "quoted_length_loop [] len backslashes =
     Option.bind (checked_mul backslashes 2) (\<lambda>twice. checked_add len twice)"
| "quoted_length_loop (c # cs) len backslashes =
     (if c = BACKSLASH
      then Option.bind (checked_add backslashes 1) (\<lambda>b. quoted_length_loop cs len b)
      else if c = QUOTE
      then Option.bind (checked_mul backslashes 2) (\<lambda>twice.
           Option.bind (checked_add twice 2) (\<lambda>more.
           Option.bind (checked_add len more) (\<lambda>len'. quoted_length_loop cs len' 0)))
      else Option.bind (checked_add len backslashes) (\<lambda>value.
           Option.bind (checked_add value (len_utf16 c)) (\<lambda>len'. quoted_length_loop cs len' 0)))"

definition checked_windows_quoted_argument_utf16_len :: "string \<Rightarrow> string \<Rightarrow> nat result" where
  "checked_windows_quoted_argument_utf16_len value field =
     (if contains_nul value
      then Inl (error_invalid ''Windows command-line value contains NUL'' field)
      else if \<not> (value = [] \<or> list_ex (\<lambda>c. is_whitespace c \<or> c = QUOTE) (utf8_chars value))
      then Inr (utf16_len value)
      else ok_or (quoted_length_loop (utf8_chars value) 2 0) (windows_overflow field))"

definition WINDOWS_CREATE_PROCESS_COMMAND_LINE_LIMIT_UTF16 :: nat where
  "WINDOWS_CREATE_PROCESS_COMMAND_LINE_LIMIT_UTF16 = 32767"

definition WINDOWS_ENVIRONMENT_VARIABLE_LIMIT_UTF16 :: nat where
  "WINDOWS_ENVIRONMENT_VARIABLE_LIMIT_UTF16 = 32767"

fun command_line_utf16 :: "string \<Rightarrow> string list \<Rightarrow> nat \<Rightarrow> nat result" where
  "command_line_utf16 field [] acc = Inr acc"
| "command_line_utf16 field (arg # args) acc =
     rbind (ok_or (Option.bind (checked_add acc 1) (\<lambda>value.
              case checked_windows_quoted_argument_utf16_len arg field of
                Inl _ \<Rightarrow> None | Inr arg_len \<Rightarrow> checked_add value arg_len))
            (windows_overflow field)) (command_line_utf16 field args)"

definition validate_windows_exec_payload ::
  "string \<Rightarrow> string list \<Rightarrow> env_map \<Rightarrow> string \<Rightarrow> unit result" where
  "validate_windows_exec_payload executable args env field =
     rbind (map_err (\<lambda>e. error_invalid (ue_message e) (case ue_field e of None \<Rightarrow> field | Some f \<Rightarrow> f))
              (validate_env env)) (\<lambda>_.
     rbind (checked_windows_quoted_argument_utf16_len executable field) (\<lambda>start.
     rbind (command_line_utf16 field args start) (\<lambda>acc.
     rbind (ok_or (checked_add acc 1) (windows_overflow field)) (\<lambda>command_line_with_nul.
     if command_line_with_nul > WINDOWS_CREATE_PROCESS_COMMAND_LINE_LIMIT_UTF16
     then Inl (error_invalid
            (''Windows command line requires '' @ show_nat command_line_with_nul
             @ '' UTF-16 code units including NUL, exceeding the CreateProcessW limit of ''
             @ show_nat WINDOWS_CREATE_PROCESS_COMMAND_LINE_LIMIT_UTF16) field)
     else for_each (\<lambda>(name, value).
       rbind (ok_or (Option.bind (checked_add (utf16_len name) 1) (\<lambda>l.
                     Option.bind (checked_add l (utf16_len value)) (\<lambda>l. checked_add l 1)))
              (error_invalid ''Windows environment entry length overflow'' field)) (\<lambda>entry_utf16.
       if entry_utf16 > WINDOWS_ENVIRONMENT_VARIABLE_LIMIT_UTF16
       then Inl (error_invalid
              (''Windows environment entry '' @ name @ '' requires '' @ show_nat entry_utf16
               @ '' UTF-16 code units including separator/NUL, exceeding the per-variable limit of ''
               @ show_nat WINDOWS_ENVIRONMENT_VARIABLE_LIMIT_UTF16) field)
       else Inr ())) env))))"

definition eq_ignore_ascii_case :: "string \<Rightarrow> string \<Rightarrow> bool" where
  "eq_ignore_ascii_case a b \<longleftrightarrow> to_ascii_lowercase a = to_ascii_lowercase b"

text \<open>A \<open>BTreeMap\<close> insertion into the list of entries in key order.\<close>

fun env_insert :: "string \<Rightarrow> string \<Rightarrow> env_map \<Rightarrow> env_map" where
  "env_insert k v [] = [(k, v)]"
| "env_insert k v ((k', v') # m) =
     (if k < k' then (k, v) # (k', v') # m
      else if k = k' then (k, v) # m
      else (k', v') # env_insert k v m)"

fun check_overlay_names :: "string list \<Rightarrow> string list \<Rightarrow> unit result" where
  "check_overlay_names seen [] = Inr ()"
| "check_overlay_names seen (name # names) =
     (if name = [] \<or> CHR ''='' \<in> set name \<or> contains_nul name
      then Inl (error_invalid ''invalid Windows environment variable name'' ''execution.env'')
      else if list_ex (\<lambda>existing. eq_ignore_ascii_case existing name) seen
      then Inl (error_invalid ''Windows environment variable names must be unique case-insensitively''
             ''execution.env'')
      else check_overlay_names (seen @ [name]) names)"

fun overlay_entries :: "env_map \<Rightarrow> env_map \<Rightarrow> env_map" where
  "overlay_entries result [] = result"
| "overlay_entries result ((name, value) # overlay) =
     (let removed = (case find (\<lambda>existing. eq_ignore_ascii_case existing name) (map fst result) of
            None \<Rightarrow> result | Some existing \<Rightarrow> filter (\<lambda>e. fst e \<noteq> existing) result)
      in overlay_entries (env_insert name value removed) overlay)"

definition merge_windows_environment :: "env_map \<Rightarrow> env_map \<Rightarrow> env_map result" where
  "merge_windows_environment baseline overlay =
     rbind (check_overlay_names [] (map fst overlay)) (\<lambda>_. Inr (overlay_entries baseline overlay))"

definition windows_component_invalid :: "string \<Rightarrow> bool" where
  "windows_component_invalid component \<longleftrightarrow>
     component = [] \<or> ends_with component '' '' \<or> ends_with component ''.''
     \<or> list_ex (\<lambda>ch. ch < 32 \<or> ch \<in> {60, 62, 58, 34, 124, 63, 42}) (utf8_chars component)"

definition windows_component_reserved :: "string \<Rightarrow> bool" where
  "windows_component_reserved component =
     (let stem = to_ascii_uppercase (hd (split_on (CHR ''.'') component))
      in stem \<in> {''CON'', ''PRN'', ''AUX'', ''NUL''}
         \<or> (length stem = 4 \<and> (starts_with stem ''COM'' \<or> starts_with stem ''LPT'')
            \<and> is_ascii_digit (stem ! 3) \<and> stem ! 3 \<noteq> CHR ''0''))"

definition presentation_field :: "nat \<Rightarrow> string" where
  "presentation_field index = ''inputs['' @ show_nat index @ ''].presentationRelativePath''"

definition validate_windows_input_relative_path :: "string \<Rightarrow> nat \<Rightarrow> unit result" where
  "validate_windows_input_relative_path path index =
     (let field = presentation_field index in
      if CHR 0x5C \<in> set path
      then Inl (error_invalid
             ''Windows immutable input presentation paths must use '/' separators only'' field)
      else for_each (\<lambda>component.
        if windows_component_invalid component
        then Inl (error_invalid
               ''Windows immutable input presentation path contains an invalid component'' field)
        else if windows_component_reserved component
        then Inl (error_invalid
               ''Windows immutable input presentation path uses a reserved device name'' field)
        else Inr ()) (split_on (CHR ''/'') path))"

definition folded_overlap :: "string \<Rightarrow> string \<Rightarrow> bool" where
  "folded_overlap folded existing \<longleftrightarrow>
     folded = existing
     \<or> (case strip_prefix existing folded of None \<Rightarrow> False | Some rest \<Rightarrow> starts_with rest ''/'')
     \<or> (case strip_prefix folded existing of None \<Rightarrow> False | Some rest \<Rightarrow> starts_with rest ''/'')"

fun windows_paths_loop :: "host \<Rightarrow> nat \<Rightarrow> string list \<Rightarrow> string list \<Rightarrow> unit result" where
  "windows_paths_loop h index normalized [] = Inr ()"
| "windows_paths_loop h index normalized (path # paths) =
     rbind (validate_windows_input_relative_path path index) (\<lambda>_.
     let folded = join_with ''/'' (map (h_to_lowercase h) (split_on (CHR ''/'') path)) in
     if list_ex (folded_overlap folded) normalized
     then Inl (error_invalid
            ''Windows immutable input presentation paths must not alias or overlap case-insensitively''
            (presentation_field index))
     else windows_paths_loop h (index + 1) (normalized @ [folded]) paths)"

definition validate_windows_input_relative_paths :: "host \<Rightarrow> string list \<Rightarrow> unit result" where
  "validate_windows_input_relative_paths h paths = windows_paths_loop h 0 [] paths"

section \<open>The Linux payload bound is exact\<close>

definition payload_string_bytes :: "string list \<Rightarrow> env_map \<Rightarrow> nat" where
  "payload_string_bytes args env =
     (\<Sum>arg \<leftarrow> args. length arg + 1) + (\<Sum>(name, value) \<leftarrow> env. length name + length value + 2)"

lemma checked_add_eq_Some: "checked_add a b = Some c \<longleftrightarrow> c = a + b \<and> a + b < USIZE_BOUND"
  by (auto simp: checked_add_def)

lemma checked_mul_eq_Some: "checked_mul a b = Some c \<longleftrightarrow> c = a * b \<and> a * b < USIZE_BOUND"
  by (auto simp: checked_mul_def)

lemmas checked_simps = checked_add_eq_Some checked_mul_eq_Some bind_eq_Some_conv

lemma arg_string_bytes_eq:
  "acc < USIZE_BOUND \<Longrightarrow> arg_string_bytes args acc = Some n \<longleftrightarrow>
     n = acc + (\<Sum>arg \<leftarrow> args. length arg + 1) \<and> n < USIZE_BOUND"
  by (induction args arbitrary: acc) (auto simp: checked_simps)

lemma env_string_bytes_eq:
  "acc < USIZE_BOUND \<Longrightarrow> env_string_bytes env acc = Some n \<longleftrightarrow>
     n = acc + (\<Sum>(name, value) \<leftarrow> env. length name + length value + 2) \<and> n < USIZE_BOUND"
  by (induction env arbitrary: acc) (auto simp: checked_simps)

lemma string_limit_eq:
  "linux_exec_string_limit_bytes h = Inr n \<longleftrightarrow>
     0 < h_page_size h \<and> nat (h_page_size h) * 32 < USIZE_BOUND \<and> n = nat (h_page_size h) * 32 - 1"
  by (auto simp: linux_exec_string_limit_bytes_def usize_try_from_def checked_sub_def checked_simps
      USIZE_BOUND_def split: if_splits)

lemma payload_limit_eq:
  "linux_exec_payload_limit_bytes h = Inr n \<longleftrightarrow>
     0 < h_arg_max h \<and> nat (h_arg_max h) < USIZE_BOUND \<and> n = nat (h_arg_max h)"
  by (auto simp: linux_exec_payload_limit_bytes_def usize_try_from_def split: if_splits)

lemma validate_env_eq_Inr:
  "validate_env env = Inr () \<longleftrightarrow>
     (\<forall>(name, value) \<in> set env. valid_env_name name \<and> \<not> contains_nul value)"
  by (auto simp: validate_env_def for_each_eq_Inr split: if_splits)

lemma payload_required_eq:
  "payload_required_bytes args env field = Inr n \<longleftrightarrow>
     n = payload_string_bytes args env + 8 * (length args + length env + 2) \<and> n < USIZE_BOUND"
proof -
  have b0: "0 < USIZE_BOUND" by (simp add: USIZE_BOUND_def)
  show ?thesis
    unfolding payload_required_bytes_def rbind_eq_Inr ok_or_eq_Inr arg_string_bytes_eq[OF b0]
      payload_string_bytes_def
    by (auto simp: env_string_bytes_eq checked_simps)
qed

lemma saturating_gt:
  "m < USIZE_BOUND - 1 \<Longrightarrow> saturating_add (saturating_add a 1) b > m \<longleftrightarrow> a + 1 + b > m"
  by (auto simp: saturating_add_def min_def)


definition example_host :: host where
  "example_host = \<lparr>h_sha256_hex = (\<lambda>bytes. replicate 64 (CHR ''0'')),
     h_json_print = (\<lambda>v. []), h_json_parse = (\<lambda>s. Inl []), h_plan_print = (\<lambda>p. []),
     h_plan_parse = (\<lambda>s. Inl []), h_provider_print = (\<lambda>p. []), h_provider_parse = (\<lambda>s. Inl []),
     h_host_dependencies_print = (\<lambda>d. []), h_host_dependencies_parse = (\<lambda>s. Inl []),
     h_release_print = (\<lambda>r. []), h_owner_print = (\<lambda>w. []), h_owner_parse = (\<lambda>s. Inl []),
     h_submit_print = (\<lambda>r. []), h_operation_identity_print = (\<lambda>i. []),
     h_proposal_identity_print = (\<lambda>i. []), h_input_identity_print = (\<lambda>i. []),
     h_credential_identity_print = (\<lambda>i. []), h_release_identity_print = (\<lambda>i. []),
     h_to_lowercase = to_ascii_lowercase, h_page_size = 4096, h_arg_max = 2097152\<rparr>"


section \<open>The Windows length is the length the launcher will produce\<close>

text \<open>
  \<open>QuoteWindowsArgument\<close> of the C# launcher, on UTF-16 code units.  \<open>Char.IsWhiteSpace\<close> and
  \<open>char::is_whitespace\<close> name the same code points, all below the surrogates.
\<close>

definition utf16_units :: "nat \<Rightarrow> nat list" where
  "utf16_units c = (if c < 65536 then [c]
     else [55296 + (c - 65536) div 1024, 56320 + (c - 65536) mod 1024])"

definition encode_utf16 :: "string \<Rightarrow> nat list" where
  "encode_utf16 s = concat (map utf16_units (utf8_chars s))"

fun quote_loop :: "nat list \<Rightarrow> nat \<Rightarrow> nat list" where
  "quote_loop [] backslashes = replicate (backslashes * 2) BACKSLASH @ [QUOTE]"
| "quote_loop (c # cs) backslashes =
     (if c = BACKSLASH then quote_loop cs (backslashes + 1)
      else if c = QUOTE
      then replicate (backslashes * 2 + 1) BACKSLASH @ [QUOTE] @ quote_loop cs 0
      else replicate backslashes BACKSLASH @ [c] @ quote_loop cs 0)"

definition QuoteWindowsArgument :: "nat list \<Rightarrow> nat list" where
  "QuoteWindowsArgument value =
     (if \<not> (value = [] \<or> list_ex (\<lambda>c. is_whitespace c \<or> c = QUOTE) value) then value
      else [QUOTE] @ quote_loop value 0)"

definition is_scalar :: "nat \<Rightarrow> bool" where
  "is_scalar c \<longleftrightarrow> c < 1114112"

lemma length_utf16_units [simp]: "length (utf16_units c) = len_utf16 c"
  by (simp add: utf16_units_def len_utf16_def)

lemma utf16_units_cases:
  assumes "is_scalar c"
  obtains "c < 65536" "utf16_units c = [c]"
  | u v where "\<not> c < 65536" "utf16_units c = [u, v]" "55296 \<le> u" "u < 57344" "55296 \<le> v" "v < 57344"
proof (cases "c < 65536")
  case True
  then show ?thesis using that(1) by (simp add: utf16_units_def)
next
  case False
  have "(c - 65536) div 1024 < 1024" using assms by (simp add: is_scalar_def)
  moreover have "(c - 65536) mod 1024 < 1024" by simp
  ultimately show ?thesis
    using False that(2)[of "55296 + (c - 65536) div 1024" "56320 + (c - 65536) mod 1024"]
    by (simp add: utf16_units_def del: mod_less_divisor)
qed

lemma surrogate_plain: "55296 \<le> u \<Longrightarrow> u < 57344 \<Longrightarrow> u \<noteq> BACKSLASH \<and> u \<noteq> QUOTE \<and> \<not> is_whitespace u"
  by (auto simp: BACKSLASH_def QUOTE_def is_whitespace_def)

lemma quote_loop_longer: "b < length (quote_loop cs b)"
proof (induction cs arbitrary: b)
  case (Cons c cs)
  show ?case using Cons.IH[of "b + 1"] by simp
qed simp

lemma length_quote_loop:
  assumes "list_all is_scalar cs"
  shows "length (quote_loop (concat (map utf16_units cs)) b) < USIZE_BOUND - len \<Longrightarrow>
     quoted_length_loop cs (Suc len) b =
       Some (len + length (quote_loop (concat (map utf16_units cs)) b))"
  using assms
proof (induction cs arbitrary: len b)
  case Nil
  then show ?case by (simp add: checked_add_def checked_mul_def)
next
  case (Cons c cs)
  have sc: "is_scalar c" and scs: "list_all is_scalar cs" using Cons.prems by auto
  let ?q = "\<lambda>b. length (quote_loop (concat (map utf16_units cs)) b)"
  have nz: "0 < ?q 0" by (rule quote_loop_longer)
  have IH: "?q b' < USIZE_BOUND - len' \<Longrightarrow> quoted_length_loop cs (Suc len') b' = Some (len' + ?q b')"
    for len' b' using Cons.IH scs by blast
  show ?case
    using sc
  proof (cases rule: utf16_units_cases)
    case 1
    consider "c = BACKSLASH" | "c = QUOTE" "c \<noteq> BACKSLASH" | "c \<noteq> BACKSLASH" "c \<noteq> QUOTE" by blast
    then show ?thesis
    proof cases
      case 1
      with \<open>utf16_units c = [c]\<close> Cons.prems(1) have q: "?q (Suc b) < USIZE_BOUND - len" by simp
      have "Suc b < ?q (Suc b)" by (rule quote_loop_longer)
      with IH[OF q] q 1 \<open>utf16_units c = [c]\<close> show ?thesis by (auto simp: checked_add_def)
    next
      case 2
      with \<open>utf16_units c = [c]\<close> Cons.prems(1) have q: "?q 0 < USIZE_BOUND - (len + 2 * b + 2)" by simp
      have "len + 2 * b + 3 < USIZE_BOUND" using nz q by linarith
      with IH[OF q] q 2 \<open>utf16_units c = [c]\<close> show ?thesis
        by (simp add: checked_add_def checked_mul_def mult.commute)
    next
      case 3
      with \<open>utf16_units c = [c]\<close> Cons.prems(1) have q: "?q 0 < USIZE_BOUND - (len + b + 1)" by simp
      have "len + b + 2 < USIZE_BOUND" using nz q by linarith
      with IH[OF q] q 3 \<open>utf16_units c = [c]\<close> \<open>c < 65536\<close> show ?thesis
        by (simp add: checked_add_def len_utf16_def)
    qed
  next
    case (2 u v)
    then have c: "c \<noteq> BACKSLASH" "c \<noteq> QUOTE" by (auto simp: BACKSLASH_def QUOTE_def)
    have q: "?q 0 < USIZE_BOUND - (len + b + 2)"
      using 2 Cons.prems(1) surrogate_plain[of u] surrogate_plain[of v] by simp
    have "len + b + 3 < USIZE_BOUND" using nz q by linarith
    with IH[OF q] q 2 c surrogate_plain[of u] surrogate_plain[of v] show ?thesis
      by (simp add: checked_add_def len_utf16_def)
  qed
qed

lemma plain_units:
  assumes "list_all is_scalar cs"
  shows "list_ex (\<lambda>c. is_whitespace c \<or> c = QUOTE) (concat (map utf16_units cs)) \<longleftrightarrow>
     list_ex (\<lambda>c. is_whitespace c \<or> c = QUOTE) cs"
  using assms
proof (induction cs)
  case (Cons c cs)
  have "is_scalar c" using Cons.prems by simp
  then show ?case
  proof (cases rule: utf16_units_cases)
    case 1
    then show ?thesis using Cons by simp
  next
    case (2 u v)
    then have "\<not> is_whitespace c" "c \<noteq> QUOTE" by (auto simp: is_whitespace_def QUOTE_def)
    then show ?thesis using 2 Cons surrogate_plain[of u] surrogate_plain[of v] by simp
  qed
qed simp

lemma utf8_chars_Nil_iff [simp]: "utf8_chars s = [] \<longleftrightarrow> s = []"
  by (cases s) (auto split: list.splits)

lemma length_encode_utf16: "length (encode_utf16 s) = utf16_len s"
  by (simp add: encode_utf16_def utf16_len_def length_concat comp_def)

lemma encode_utf16_Nil_iff: "encode_utf16 s = [] \<longleftrightarrow> s = []"
proof -
  have "utf16_units c \<noteq> []" for c by (simp add: utf16_units_def)
  then have "concat (map utf16_units cs) = [] \<longleftrightarrow> cs = []" for cs by (cases cs) auto
  then show ?thesis by (simp add: encode_utf16_def)
qed



section \<open>The merged Windows environment\<close>

abbreviation folded_names :: "env_map \<Rightarrow> string list" where
  "folded_names m \<equiv> map (\<lambda>e. to_ascii_lowercase (fst e)) m"

lemma set_env_insert: "k \<notin> fst ` set m \<Longrightarrow> set (env_insert k v m) = insert (k, v) (set m)"
  by (induction k v m rule: env_insert.induct) auto

lemma distinct_env_insert:
  assumes "distinct (folded_names m)" and "to_ascii_lowercase k \<notin> set (folded_names m)"
  shows "distinct (folded_names (env_insert k v m))"
  using assms
proof (induction m)
  case (Cons e m)
  obtain k' v' where e: "e = (k', v')" by fastforce
  have "k \<notin> fst ` set m" using Cons.prems by auto
  with Cons e show ?case by (auto simp: set_env_insert)
qed simp

lemma filter_folded:
  assumes "distinct (folded_names m)"
  shows "(case find (\<lambda>existing. eq_ignore_ascii_case existing name) (map fst m) of
            None \<Rightarrow> m | Some existing \<Rightarrow> filter (\<lambda>e. fst e \<noteq> existing) m)
     = filter (\<lambda>e. to_ascii_lowercase (fst e) \<noteq> to_ascii_lowercase name) m"
proof (cases "find (\<lambda>existing. eq_ignore_ascii_case existing name) (map fst m)")
  case None
  then have "\<forall>e \<in> set m. to_ascii_lowercase (fst e) \<noteq> to_ascii_lowercase name"
    by (auto simp: find_None_iff eq_ignore_ascii_case_def)
  then have "filter (\<lambda>e. to_ascii_lowercase (fst e) \<noteq> to_ascii_lowercase name) m = m"
    by (simp add: filter_id_conv)
  with None show ?thesis by simp
next
  case (Some existing)
  then have "existing \<in> set (map fst m)" and "eq_ignore_ascii_case existing name"
    unfolding find_Some_iff by (metis nth_mem)+
  then have ex: "existing \<in> fst ` set m" "to_ascii_lowercase existing = to_ascii_lowercase name"
    by (simp_all add: eq_ignore_ascii_case_def)
  have "fst e \<noteq> existing \<longleftrightarrow> to_ascii_lowercase (fst e) \<noteq> to_ascii_lowercase name" if "e \<in> set m" for e
    using ex that assms by (auto simp: distinct_map inj_on_def)
  then have "filter (\<lambda>e. fst e \<noteq> existing) m
     = filter (\<lambda>e. to_ascii_lowercase (fst e) \<noteq> to_ascii_lowercase name) m"
    by (rule filter_cong[OF refl])
  with Some show ?thesis by simp
qed

lemma check_overlay_names_Inr:
  "check_overlay_names seen names = Inr () \<Longrightarrow>
     distinct (map to_ascii_lowercase names)
     \<and> to_ascii_lowercase ` set seen \<inter> to_ascii_lowercase ` set names = {}
     \<and> (\<forall>name \<in> set names. name \<noteq> [] \<and> CHR ''='' \<notin> set name \<and> \<not> contains_nul name)"
proof (induction seen names rule: check_overlay_names.induct)
  case (2 seen name names)
  have ok: "\<not> (name = [] \<or> CHR ''='' \<in> set name \<or> contains_nul name)"
    using 2(2) by (simp split: if_splits)
  have new: "\<not> list_ex (\<lambda>existing. eq_ignore_ascii_case existing name) seen"
    using 2(2) ok by (simp split: if_splits)
  have "check_overlay_names (seen @ [name]) names = Inr ()"
    using 2(2) ok new by simp
  note 2(1)[OF ok new this]
  with ok new show ?case by (auto simp: list_ex_iff eq_ignore_ascii_case_def)
qed simp

lemma overlay_entries_spec:
  assumes "distinct (folded_names result)" and "distinct (folded_names overlay)"
  shows "distinct (folded_names (overlay_entries result overlay))
     \<and> set (overlay_entries result overlay) = set overlay
         \<union> {e \<in> set result. to_ascii_lowercase (fst e) \<notin> set (folded_names overlay)}"
  using assms
proof (induction result overlay rule: overlay_entries.induct)
  case (2 result name val overlay)
  define kept where "kept = filter (\<lambda>e. to_ascii_lowercase (fst e) \<noteq> to_ascii_lowercase name) result"
  let ?next = "env_insert name val kept"
  have step: "overlay_entries result ((name, val) # overlay) = overlay_entries ?next overlay"
    by (simp add: filter_folded[OF 2(2)] kept_def)
  have fresh: "to_ascii_lowercase name \<notin> set (folded_names kept)" by (auto simp: kept_def)
  then have "name \<notin> fst ` set kept" by force
  then have set_next: "set ?next = insert (name, val) (set kept)" by (rule set_env_insert)
  have "distinct (folded_names kept)" using 2(2) by (auto simp: kept_def distinct_map_filter)
  then have d: "distinct (folded_names ?next)" using fresh by (rule distinct_env_insert)
  have IH: "distinct (folded_names (overlay_entries ?next overlay))
     \<and> set (overlay_entries ?next overlay) = set overlay
         \<union> {e \<in> set ?next. to_ascii_lowercase (fst e) \<notin> set (folded_names overlay)}"
    using 2(1)[OF filter_folded[OF 2(2), of name, folded kept_def, symmetric]] d 2(3) by simp
  have "to_ascii_lowercase name \<notin> set (folded_names overlay)" using 2(3) by simp
  then have "insert (name, val) (set kept) \<inter> {e. to_ascii_lowercase (fst e) \<notin> set (folded_names overlay)}
     = insert (name, val) {e \<in> set result. to_ascii_lowercase (fst e) \<notin> set (folded_names ((name, val) # overlay))}"
    by (auto simp: kept_def)
  with IH show ?case unfolding step set_next Collect_conj_eq Collect_mem_eq by simp
qed simp

text \<open>
  Merging a Windows environment: when the baseline has no two names that differ only in case,
  the result has none either, every overlay entry is in it, and exactly the baseline entries no
  overlay name shadows case-insensitively are kept.
\<close>

theorem merge_windows_environment_spec:
  assumes "merge_windows_environment baseline overlay = Inr merged"
    and "distinct (folded_names baseline)"
  shows "distinct (folded_names merged)
     \<and> set merged = set overlay
         \<union> {e \<in> set baseline. to_ascii_lowercase (fst e) \<notin> set (folded_names overlay)}"
proof -
  from assms(1) have "check_overlay_names [] (map fst overlay) = Inr ()"
    and merged: "merged = overlay_entries baseline overlay"
    by (auto simp: merge_windows_environment_def)
  then have "distinct (folded_names overlay)"
    using check_overlay_names_Inr by (fastforce simp: comp_def)
  then show ?thesis unfolding merged by (rule overlay_entries_spec[OF assms(2)])
qed

theorem merge_windows_environment_spec_witness:
  "\<exists>merged. merge_windows_environment [(''Path'', ''C:''), (''SystemRoot'', ''D:'')] [(''PATH'', ''E:'')]
       = Inr merged
     \<and> set merged = {(''PATH'', ''E:''), (''SystemRoot'', ''D:'')}"
proof -
  let ?b = "[(''Path'', ''C:''), (''SystemRoot'', ''D:'')]" and ?o = "[(''PATH'', ''E:'')]"
  have "check_overlay_names [] (map fst ?o) = Inr ()"
    by (simp add: contains_nul_def NUL_def)
  then obtain m where m: "merge_windows_environment ?b ?o = Inr m"
    by (auto simp: merge_windows_environment_def)
  have fold: "to_ascii_lowercase ''PATH'' = ''path''" "to_ascii_lowercase ''Path'' = ''path''"
    "to_ascii_lowercase ''SystemRoot'' = ''systemroot''"
    by code_simp+
  have "distinct (folded_names ?b)" by (simp add: fold)
  from merge_windows_environment_spec[OF m this] have "set m = {(''PATH'', ''E:''), (''SystemRoot'', ''D:'')}"
    by (simp add: fold Collect_conv_if conj_disj_distribR Collect_disj_eq insert_commute)
  with m show ?thesis by blast
qed

end
