(* ===== verification/Registry_Validation.thy ===== *)
theory Registry_Validation
  imports Request_Identity Exec_Payload
begin

text \<open>
  The validators of \<open>runtime/registry.rs\<close>: identifiers, digests, request identities, provider
  snapshots, Host Dependencies, Runtime Release bindings, Runner identities, Artifact
  registrations, and \<open>validate_submit\<close>, which every admission passes first.  \<open>validate_submit\<close>
  is one function in the source; here each of its paragraphs is a definition, and
  \<open>validate_submit\<close> runs them in the source's order.
\<close>

section \<open>Identifiers and digests\<close>

definition validate_identifier :: "string \<Rightarrow> string \<Rightarrow> unit result" where
  "validate_identifier val field =
     (if trim_scalars (utf8_chars val) = [] \<or> length val > 256 \<or> contains_nul val
         \<or> list_ex is_control (utf8_chars val)
      then Inl (error_invalid (field @ '' must be non-empty, bounded, and control-free'') field)
      else Inr ())"

definition valid_sha256_text :: "string \<Rightarrow> bool" where
  "valid_sha256_text val =
     (case strip_prefix ''sha256:'' val of None \<Rightarrow> False
      | Some hex \<Rightarrow> length hex = 64 \<and> list_all is_ascii_hexdigit hex)"

definition validate_digest :: "string \<Rightarrow> string \<Rightarrow> unit result" where
  "validate_digest val field =
     (if \<not> valid_sha256_text val
      then Inl (error_invalid (field @ '' must be a SHA-256 digest'') field)
      else Inr ())"

definition identity_prefixes :: "string list" where
  "identity_prefixes =
     [REQUEST_IDENTITY_PREFIX, PROPOSAL_IDENTITY_PREFIX, INPUT_BOUND_IDENTITY_PREFIX,
      INPUT_BOUND_PROPOSAL_IDENTITY_PREFIX, CREDENTIAL_BOUND_PROPOSAL_IDENTITY_PREFIX,
      RUNTIME_RELEASE_IDENTITY_PREFIX]"

definition validate_request_identity_digest :: "string \<Rightarrow> unit result" where
  "validate_request_identity_digest val =
     rbind (ok_or (foldl (\<lambda>found p. or_else found (strip_prefix p val)) None identity_prefixes)
              (error_invalid ''unsupported request identity digest'' ''requestIdentityDigest''))
       (\<lambda>digest. validate_digest digest ''requestIdentityDigest'')"

definition job_request_identity_digest :: "host \<Rightarrow> RuntimeJobRecord \<Rightarrow> string result" where
  "job_request_identity_digest h job =
     (if list_ex (starts_with (j_request_digest job)) identity_prefixes
      then rbind (validate_request_identity_digest (j_request_digest job)) (\<lambda>_.
             Inr (j_request_digest job))
      else (case h_plan_parse h (j_execution_plan_json job) of
              Inl message \<Rightarrow> Inl (error_new RegistryCorrupt
                (''stored execution plan is invalid: '' @ message) (Some ''executionPlan'') False)
            | Inr plan \<Rightarrow> operation_request_identity_digest_from_plan h plan))"

section \<open>Bindings\<close>

definition validate_execution_provider_snapshot ::
  "ExecutionProviderSnapshot \<Rightarrow> string \<Rightarrow> unit result" where
  "validate_execution_provider_snapshot snapshot field =
     rbind (validate_digest (eps_executable_digest snapshot) (field @ ''.executableDigest'')) (\<lambda>_.
     case eps_contract snapshot of
       LocalLinuxRunnerV1 \<Rightarrow>
         if eps_wsl_distribution snapshot \<noteq> None
         then Inl (error_invalid ''local Linux execution provider cannot carry a WSL distribution''
                (field @ ''.wslDistribution''))
         else Inr ()
     | WindowsNativeLauncherV1 \<Rightarrow>
         (case eps_wsl_distribution snapshot of
            None \<Rightarrow> Inr ()
          | Some distribution \<Rightarrow>
              if distribution = []
                 \<or> \<not> list_all (\<lambda>c. is_ascii_alphanumeric c \<or> c \<in> {CHR ''-'', CHR ''_'', CHR ''.''})
                       distribution
              then Inl (error_invalid ''Windows execution provider has an invalid WSL distribution''
                     (field @ ''.wslDistribution''))
              else Inr ()))"

fun host_dependency_loop ::
  "string \<Rightarrow> nat \<Rightarrow> string option \<Rightarrow> HostDependencyBinding list \<Rightarrow> unit result" where
  "host_dependency_loop field index previous_path [] = Inr ()"
| "host_dependency_loop field index previous_path (binding # bindings) =
     (let binding_field = field @ ''['' @ show_nat index @ '']'' in
      if \<not> path_is_absolute (hd_path binding) \<or> contains_nul (hd_path binding)
      then Inl (error_invalid ''Host Dependency path must be absolute and NUL-free''
             (binding_field @ ''.path''))
      else rbind (validate_digest (hd_expected_digest binding) (binding_field @ ''.expectedDigest'')) (\<lambda>_.
        if (case previous_path of None \<Rightarrow> False | Some previous \<Rightarrow> previous \<ge> hd_path binding)
        then Inl (error_invalid ''Host Dependencies must be sorted by unique path'' field)
        else host_dependency_loop field (index + 1) (Some (hd_path binding)) bindings))"

definition validate_host_dependency_bindings :: "HostDependencyBinding list \<Rightarrow> string \<Rightarrow> unit result" where
  "validate_host_dependency_bindings bindings field = host_dependency_loop field 0 None bindings"

definition lowercase_hex :: "string \<Rightarrow> bool" where
  "lowercase_hex s \<longleftrightarrow> list_all (\<lambda>c. is_ascii_hexdigit c \<and> \<not> is_ascii_uppercase c) s"

definition provider_contract_is :: "SubmitRequest \<Rightarrow> ExecutionProviderContract \<Rightarrow> bool" where
  "provider_contract_is request contract \<longleftrightarrow>
     map_option eps_contract (sr_execution_provider request) = Some contract"

definition validate_release_fields ::
  "RuntimeReleaseEffectBinding \<Rightarrow> SubmitRequest \<Rightarrow> unit result" where
  "validate_release_fields release request =
     (if rel_contract release \<noteq> RuntimeReleaseV1
      then Inl (error_invalid ''unsupported Runtime Release contract'' ''runtimeReleaseEffect.contract'')
      else if length (rel_effect_id release) \<noteq> 64 \<or> \<not> lowercase_hex (rel_effect_id release)
      then Inl (error_invalid ''Runtime Release effectId must be 64 lowercase hexadecimal characters''
             ''runtimeReleaseEffect.effectId'')
      else if \<not> starts_with (rel_request_digest release) RUNTIME_RELEASE_IDENTITY_PREFIX
      then Inl (error_invalid ''Runtime Release request digest has the wrong contract prefix''
             ''runtimeReleaseEffect.requestDigest'')
      else rbind (validate_request_identity_digest (rel_request_digest release)) (\<lambda>_.
        if sr_request_identity_digest request \<noteq> Some (rel_request_digest release)
        then Inl (error_invalid ''Runtime Release side truth must match the committed request identity''
               ''runtimeReleaseEffect.requestDigest'')
        else if rel_workspace_id release \<noteq> p_workspace_id (sr_plan request)
        then Inl (error_invalid ''Runtime Release workspace does not match the execution plan''
               ''runtimeReleaseEffect.workspaceId'')
        else if length (rel_commit release) \<noteq> 40 \<or> \<not> lowercase_hex (rel_commit release)
        then Inl (error_invalid ''Runtime Release commit must be exactly 40 lowercase hexadecimal characters''
               ''runtimeReleaseEffect.commit'')
        else rbind (validate_digest (rel_candidate_manifest_digest release)
                      ''runtimeReleaseEffect.candidateManifestDigest'') (\<lambda>_.
          if \<not> path_is_absolute (rel_receipt_path release) \<or> contains_nul (rel_receipt_path release)
          then Inl (error_invalid ''Runtime Release receipt path must be absolute and NUL-free''
                 ''runtimeReleaseEffect.receiptPath'')
          else if p_execution_profile (sr_plan request) \<noteq> TrustedLocal
          then Inl (error_invalid ''Runtime Release v1 requires trusted_local execution''
                 ''runtimeReleaseEffect.contract'')
          else Inr ())))"

definition validate_release_target :: "SubmitRequest \<Rightarrow> unit result" where
  "validate_release_target request =
     (let plan = sr_plan request in
      case p_execution_target plan of
        LocalLinux \<Rightarrow>
          if p_windows_authority plan \<noteq> Limited \<or> p_windows_execution_context plan \<noteq> None
          then Inl (error_invalid ''local Linux Runtime Release cannot carry Windows elevated authority''
                 ''plan.windowsAuthority'')
          else if \<not> provider_contract_is request LocalLinuxRunnerV1
          then Inl (error_invalid ''local Linux Runtime Release requires a committed local Linux Runner''
                 ''executionProvider'')
          else Inr ()
      | WindowsNative \<Rightarrow>
          if p_windows_authority plan \<noteq> Elevated
          then Inl (error_invalid ''native Windows Runtime Release requires elevated authority''
                 ''plan.windowsAuthority'')
          else if \<not> provider_contract_is request WindowsNativeLauncherV1
          then Inl (error_invalid ''native Windows Runtime Release requires a committed Windows launcher''
                 ''executionProvider'')
          else rbind (ok_or (p_windows_execution_context plan)
                 (error_invalid ''native Windows Runtime Release requires frozen elevated execution context''
                    ''plan.windowsExecutionContext'')) (\<lambda>context.
            if wc_token_class context \<noteq> TokenElevated
               \<or> wc_environment_source context \<noteq> ''windows_privileged_broker_profile_allowlist_v1''
            then Inl (error_invalid ''native Windows Runtime Release requires privileged broker execution context''
                   ''plan.windowsExecutionContext'')
            else rbind (ok_or (wc_privileged_broker_digest context)
                   (error_invalid ''native Windows Runtime Release requires a frozen privileged broker digest''
                      ''plan.windowsExecutionContext.privilegedBrokerDigest'')) (\<lambda>broker_digest.
              validate_digest broker_digest ''plan.windowsExecutionContext.privilegedBrokerDigest'')))"

definition validate_runtime_release_effect_binding ::
  "RuntimeReleaseEffectBinding \<Rightarrow> SubmitRequest \<Rightarrow> unit result" where
  "validate_runtime_release_effect_binding release request =
     rbind (validate_release_fields release request) (\<lambda>_. validate_release_target request)"

section \<open>Submit requests\<close>

definition validate_plan_budget :: "ExecutionBudget \<Rightarrow> unit result" where
  "validate_plan_budget budget =
     (if b_memory_max_bytes budget = Some 0
      then Inl (error_invalid ''plan memoryMaxBytes must be positive'' ''plan.budget.memoryMaxBytes'')
      else if b_tasks_max budget = Some 0
      then Inl (error_invalid ''plan tasksMax must be positive'' ''plan.budget.tasksMax'')
      else if b_cpu_quota_percent budget = Some 0
      then Inl (error_invalid ''plan cpuQuotaPercent must be positive'' ''plan.budget.cpuQuotaPercent'')
      else Inr ())"

definition validate_exec_payload_for_plan ::
  "host \<Rightarrow> ExecutionTarget \<Rightarrow> string \<Rightarrow> string list \<Rightarrow> env_map \<Rightarrow> string \<Rightarrow> unit result" where
  "validate_exec_payload_for_plan h target executable args env field =
     (case target of
        LocalLinux \<Rightarrow>
          map_err (\<lambda>error.
            let error_field = (case ue_field error of None \<Rightarrow> field | Some f \<Rightarrow> f)
            in if ue_code error = UToolUnavailable
               then error_new ToolUnavailable (ue_message error) (Some error_field) False
               else error_invalid (ue_message error) error_field)
            (validate_exec_payload h args env field)
      | WindowsNative \<Rightarrow> validate_windows_exec_payload executable args env field)"

definition submit_identity_checks :: "SubmitRequest \<Rightarrow> unit result" where
  "submit_identity_checks request =
     (if sr_schema_version request \<noteq> RUNTIME_SCHEMA_VERSION
         \<or> p_schema_version (sr_plan request) \<noteq> RUNTIME_SCHEMA_VERSION
      then Inl (error_invalid ''unsupported runtime schema version'' ''schemaVersion'')
      else rbind (validate_client_request_id (sr_client_request_id request) ''clientRequestId'') (\<lambda>_.
        rbind (case sr_request_identity_digest request of
                 None \<Rightarrow> Inr () | Some digest \<Rightarrow> validate_request_identity_digest digest) (\<lambda>_.
        rbind (validate_identifier (p_principal (sr_plan request)) ''plan.principal'') (\<lambda>_.
        rbind (validate_identifier (p_workspace_id (sr_plan request)) ''plan.workspaceId'') (\<lambda>_.
        if sr_global_limit request = 0
        then Inl (error_invalid ''globalLimit must be positive'' ''globalLimit'')
        else Inr ())))))"

fun target_matches :: "ExecutionTarget \<Rightarrow> ExecutionProviderContract \<Rightarrow> bool" where
  "target_matches LocalLinux LocalLinuxRunnerV1 = True"
| "target_matches WindowsNative WindowsNativeLauncherV1 = True"
| "target_matches _ _ = False"

definition submit_provider_check :: "SubmitRequest \<Rightarrow> unit result" where
  "submit_provider_check request =
     (case sr_execution_provider request of
        None \<Rightarrow> Inr ()
      | Some provider \<Rightarrow>
          rbind (validate_execution_provider_snapshot provider ''executionProvider'') (\<lambda>_.
          if \<not> target_matches (p_execution_target (sr_plan request)) (eps_contract provider)
          then Inl (error_invalid ''execution provider contract does not match execution target''
                 ''executionProvider.contract'')
          else Inr ()))"

definition submit_host_dependency_check :: "SubmitRequest \<Rightarrow> unit result" where
  "submit_host_dependency_check request =
     rbind (validate_host_dependency_bindings (sr_host_dependencies request) ''hostDependencies'') (\<lambda>_.
     if sr_host_dependencies request = [] then Inr ()
     else if p_execution_target (sr_plan request) \<noteq> LocalLinux
             \<or> p_execution_profile (sr_plan request) \<noteq> TrustedLocal
     then Inl (error_invalid ''Host Dependencies require trusted_local local_linux execution''
            ''hostDependencies'')
     else if sr_runtime_release_effect request \<noteq> None
     then Inl (error_invalid ''Host Dependencies cannot be attached to Runtime Release Jobs''
            ''hostDependencies'')
     else if \<not> provider_contract_is request LocalLinuxRunnerV1
     then Inl (error_invalid ''Host Dependencies require a committed local Linux Runner''
            ''executionProvider'')
     else Inr ())"

definition submit_release_check :: "SubmitRequest \<Rightarrow> unit result" where
  "submit_release_check request =
     (case sr_runtime_release_effect request of
        Some release \<Rightarrow> validate_runtime_release_effect_binding release request
      | None \<Rightarrow>
          if (case sr_request_identity_digest request of
                None \<Rightarrow> False | Some digest \<Rightarrow> starts_with digest RUNTIME_RELEASE_IDENTITY_PREFIX)
          then Inl (error_invalid ''Runtime Release request identity requires Runtime Release side truth''
                 ''runtimeReleaseEffect'')
          else Inr ())"

definition submit_path_checks :: "RuntimeExecutionPlan \<Rightarrow> unit result" where
  "submit_path_checks plan =
     rbind (for_each (\<lambda>(path, field).
         if \<not> path_is_absolute path \<or> contains_nul path
         then Inl (error_invalid (field @ '' must be an absolute NUL-free path'') field)
         else Inr ())
       [(p_workspace_path plan, ''plan.workspacePath''), (p_executable plan, ''plan.executable''),
        (p_cwd plan, ''plan.cwd'')]) (\<lambda>_.
     if \<not> path_starts_with (p_cwd plan) (p_workspace_path plan)
     then Inl (error_invalid ''plan.cwd must remain inside workspacePath'' ''plan.cwd'')
     else rbind (validate_digest (p_executable_digest plan) ''plan.executableDigest'') (\<lambda>_.
       case p_workspace_source_digest plan of
         None \<Rightarrow> Inr ()
       | Some digest \<Rightarrow> validate_digest digest ''plan.workspaceSourceDigest''))"

definition submit_input_set_check :: "RuntimeExecutionPlan \<Rightarrow> unit result" where
  "submit_input_set_check plan =
     (case (p_input_set_id plan, p_effective_inputs plan = []) of
        (None, True) \<Rightarrow> Inr ()
      | (Some input_set_id, False) \<Rightarrow>
          if length input_set_id \<noteq> 64 \<or> \<not> list_all is_ascii_hexdigit input_set_id
             \<or> list_ex is_ascii_uppercase input_set_id
          then Inl (error_invalid ''plan.inputSetId must be lowercase 32-byte SHA-256 hex''
                 ''plan.inputSetId'')
          else (case p_execution_target plan of
              LocalLinux \<Rightarrow> Inr ()
            | WindowsNative \<Rightarrow>
                if p_execution_profile plan \<noteq> TrustedLocal
                then Inl (error_invalid ''windows_native effective inputs require trusted_local execution''
                       ''plan.executionProfile'')
                else if p_windows_authority plan \<noteq> Limited
                then Inl (error_invalid ''windows_native effective inputs require limited authority''
                       ''plan.windowsAuthority'')
                else Inr ())
      | (Some _, True) \<Rightarrow>
          Inl (error_invalid ''plan.inputSetId requires effectiveInputs'' ''plan.inputSetId'')
      | (None, False) \<Rightarrow>
          Inl (error_invalid ''effectiveInputs require plan.inputSetId'' ''plan.inputSetId''))"

definition input_field :: "nat \<Rightarrow> string \<Rightarrow> string" where
  "input_field index name = ''plan.effectiveInputs['' @ show_nat index @ ''].'' @ name"

definition only_normal_components :: "string \<Rightarrow> bool" where
  "only_normal_components path \<longleftrightarrow>
     \<not> path_is_absolute path \<and> path \<noteq> []
     \<and> list_all (\<lambda>c. case c of Normal _ \<Rightarrow> True | _ \<Rightarrow> False) (path_components path)"

definition presentation_overlap :: "string \<Rightarrow> string \<Rightarrow> bool" where
  "presentation_overlap presentation existing \<longleftrightarrow>
     path_components presentation = path_components existing
     \<or> path_starts_with presentation existing \<or> path_starts_with existing presentation"

definition validate_effective_input ::
  "RuntimeExecutionPlan \<Rightarrow> nat \<Rightarrow> string list \<Rightarrow> EffectiveInputBinding \<Rightarrow> unit result" where
  "validate_effective_input plan index input_paths input =
     rbind (validate_identifier (ei_authority input) (input_field index ''authority'')) (\<lambda>_.
     rbind (validate_digest (ei_digest input) (input_field index ''digest'')) (\<lambda>_.
     rbind (for_each (\<lambda>(path, field).
         if \<not> only_normal_components path
         then Inl (error_invalid ''effective input paths must contain only normal relative components'' field)
         else Inr ())
       [(ei_relative_object input, input_field index ''relativeObject''),
        (ei_presentation_relative_path input, input_field index ''presentationRelativePath'')]) (\<lambda>_.
     rbind (if p_execution_target plan = WindowsNative
            then validate_windows_input_relative_path (ei_presentation_relative_path input) index
            else Inr ()) (\<lambda>_.
     if list_ex (presentation_overlap (ei_presentation_relative_path input)) input_paths
     then Inl (error_invalid ''effective input presentation paths must not overlap''
            (input_field index ''presentationRelativePath''))
     else Inr ()))))"

fun effective_inputs_loop ::
  "RuntimeExecutionPlan \<Rightarrow> nat \<Rightarrow> string list \<Rightarrow> EffectiveInputBinding list \<Rightarrow> unit result" where
  "effective_inputs_loop plan index input_paths [] = Inr ()"
| "effective_inputs_loop plan index input_paths (input # inputs) =
     rbind (validate_effective_input plan index input_paths input) (\<lambda>_.
       effective_inputs_loop plan (index + 1)
         (input_paths @ [ei_presentation_relative_path input]) inputs)"

definition submit_inputs_check :: "host \<Rightarrow> RuntimeExecutionPlan \<Rightarrow> unit result" where
  "submit_inputs_check h plan =
     rbind (submit_input_set_check plan) (\<lambda>_.
     rbind (if p_execution_target plan = WindowsNative
            then validate_windows_input_relative_paths h
                   (map ei_presentation_relative_path (p_effective_inputs plan))
            else Inr ()) (\<lambda>_.
     effective_inputs_loop plan 0 [] (p_effective_inputs plan)))"

fun submit_steps_loop :: "host \<Rightarrow> ExecutionTarget \<Rightarrow> nat \<Rightarrow> RuntimeExecutionStep list \<Rightarrow> unit result" where
  "submit_steps_loop h target index [] = Inr ()"
| "submit_steps_loop h target index (step # steps) =
     rbind (validate_exec_payload_for_plan h target (st_executable step) (st_args step) (st_env step)
              (''plan.steps['' @ show_nat index @ '']'')) (\<lambda>_.
       submit_steps_loop h target (index + 1) steps)"

definition submit_limit_checks :: "host \<Rightarrow> RuntimeExecutionPlan \<Rightarrow> unit result" where
  "submit_limit_checks h plan =
     (if p_source_revision plan = [] \<or> length (p_source_revision plan) > 256
      then Inl (error_invalid ''sourceRevision must be non-empty and bounded'' ''plan.sourceRevision'')
      else if p_timeout_ms plan = 0 \<or> p_stdout_limit_bytes plan = 0 \<or> p_stderr_limit_bytes plan = 0
      then Inl (error_invalid ''runtime and output limits must be positive'' ''plan'')
      else rbind (validate_plan_budget (p_budget plan)) (\<lambda>_.
        rbind (validate_exec_payload_for_plan h (p_execution_target plan) (p_executable plan)
                 (p_args plan) (p_env plan) ''plan'') (\<lambda>_.
        submit_steps_loop h (p_execution_target plan) 0 (p_steps plan))))"

definition validate_submit :: "host \<Rightarrow> SubmitRequest \<Rightarrow> unit result" where
  "validate_submit h request =
     rbind (submit_identity_checks request) (\<lambda>_.
     rbind (submit_provider_check request) (\<lambda>_.
     rbind (submit_host_dependency_check request) (\<lambda>_.
     rbind (submit_release_check request) (\<lambda>_.
     rbind (submit_path_checks (sr_plan request)) (\<lambda>_.
     rbind (submit_inputs_check h (sr_plan request)) (\<lambda>_.
     submit_limit_checks h (sr_plan request)))))))"

section \<open>Runner identities and Artifacts\<close>

definition attempt_runner_identity_matches :: "AttemptRecord \<Rightarrow> RunnerIdentity \<Rightarrow> bool" where
  "attempt_runner_identity_matches attempt identity \<longleftrightarrow>
     a_unit_name attempt = ri_unit_name identity
     \<and> a_boot_id attempt = Some (ri_boot_id identity)
     \<and> a_invocation_id attempt = Some (ri_invocation_id identity)
     \<and> a_control_group attempt = Some (ri_control_group identity)
     \<and> a_main_pid attempt = Some (ri_main_pid identity)
     \<and> a_process_start_identity attempt = Some (ri_process_start_identity identity)
     \<and> a_runner_start_digest attempt = Some (ri_runner_start_digest identity)"

definition validate_runner_identity :: "RunnerIdentity \<Rightarrow> unit result" where
  "validate_runner_identity identity =
     rbind (for_each (\<lambda>(val, field). validate_identifier val field)
       [(ri_boot_id identity, ''bootId''), (ri_unit_name identity, ''unitName''),
        (ri_invocation_id identity, ''invocationId''),
        (ri_process_start_identity identity, ''processStartIdentity'')]) (\<lambda>_.
     if \<not> ends_with (ri_unit_name identity) ''.service'' \<or> ri_main_pid identity = 0
     then Inl (error_invalid ''invalid Runner unit or PID'' ''runnerIdentity'')
     else if \<not> path_is_absolute (ri_control_group identity)
     then Inl (error_invalid ''controlGroup must be absolute'' ''controlGroup'')
     else validate_digest (ri_runner_start_digest identity) ''runnerStartDigest'')"

definition validate_artifact_registration :: "ArtifactRegistration \<Rightarrow> unit result" where
  "validate_artifact_registration artifact =
     rbind (validate_identifier (ar_artifact_id artifact) ''artifactId'') (\<lambda>_.
     rbind (validate_identifier (ar_kind artifact) ''artifact.kind'') (\<lambda>_.
     rbind (validate_digest (ar_digest artifact) ''artifact.digest'') (\<lambda>_.
     if ar_relative_path artifact = [] \<or> path_is_absolute (ar_relative_path artifact)
        \<or> list_ex (\<lambda>segment. segment = ''..'') (split_on (CHR ''/'') (ar_relative_path artifact))
     then Inl (error_invalid ''Artifact path must be a bounded relative path'' ''artifact.relativePath'')
     else if ar_media_type artifact = [] \<or> length (ar_media_type artifact) > 256
     then Inl (error_invalid ''Artifact mediaType must be non-empty and bounded'' ''artifact.mediaType'')
     else Inr ())))"

end
