(* ===== verification/Registry_State.thy ===== *)
theory Registry_State
  imports Registry_Validation
begin

text \<open>
  The Registry's database and the statements every operation is made of: the tables of
  \<open>migrations/runtime/*.sql\<close> with their constraints and triggers, the loaders and helpers of
  \<open>runtime/registry.rs\<close>, the Job projection, and the invariant inspection.

  A row holds its stored enumerations as values: the schema's \<open>CHECK\<close> sets are the ranges of the
  \<open>as_db\<close> functions and \<open>parse\<close> inverts them (theory \<open>Runtime_Types\<close>), so decoding a row cannot
  fail (\<open>into_job_record_raw\<close> and \<open>into_attempt_record_raw\<close> below).  What SQLite itself may do wrong is the
  argument \<open>sql_env\<close>: refuse to open or to begin, fail at commit with the writes durable or not,
  or fail on the reads after a commit.  A failing statement inside a transaction leaves the
  database as it was, because dropping the \<open>Transaction\<close> rolls it back; the model keeps the
  failures its tables decide (constraints, triggers) and folds the others into \<open>te_begin\<close>.
\<close>

section \<open>Tables\<close>

record recovery_columns =
  rc_required :: bool
  rc_reason_code :: string
  rc_evidence_digest :: string
  rc_observed_at_ms :: nat

text \<open>
  Migration 0005 adds four nullable columns to \<open>attempts\<close>, and its triggers make them all null or
  all present: one optional value.  It also adds \<open>state_observed_at_ms\<close> to the reservations, which
  its triggers make mandatory.
\<close>

record attempt_row = AttemptRecord +
  a_recovery :: "recovery_columns option"

record reservation_row = ReservationRecord +
  r_state_observed_at_ms :: nat

record idempotency_key =
  ik_principal :: string
  ik_client_request_id :: string
  ik_operation_digest :: string
  ik_job_id :: string
  ik_created_at_ms :: nat

record job_event =
  ev_event_id :: string
  ev_job_id :: string
  ev_attempt_id :: "string option"
  ev_sequence :: nat
  ev_type :: string
  ev_origin :: string
  ev_previous_state :: "AttemptState option"
  ev_new_state :: "AttemptState option"
  ev_reason_code :: string
  ev_detail_json :: string
  ev_detail_digest :: string
  ev_observed_at_ms :: nat

record side_row =
  sd_job_id :: string
  sd_json :: string
  sd_digest :: string

record release_row =
  rw_job_id :: string
  rw_effect_id :: string
  rw_contract :: string
  rw_request_digest :: string
  rw_workspace_id :: string
  rw_commit_revision :: string
  rw_candidate_manifest_digest :: string
  rw_expected_tool_count :: nat
  rw_receipt_path :: string
  rw_binding_digest :: string

record owner_row =
  ow_attempt_id :: string
  ow_json :: string
  ow_digest :: string

record registry =
  jobs :: "RuntimeJobRecord list"
  attempts :: "attempt_row list"
  reservations :: "reservation_row list"
  idempotency_keys :: "idempotency_key list"
  job_events :: "job_event list"
  artifacts :: "RuntimeArtifactRecord list"
  execution_providers :: "side_row list"
  host_dependency_rows :: "side_row list"
  release_rows :: "release_row list"
  supervisor_owners :: "owner_row list"

definition empty_registry :: registry where
  "empty_registry = \<lparr>jobs = [], attempts = [], reservations = [], idempotency_keys = [],
     job_events = [], artifacts = [], execution_providers = [], host_dependency_rows = [],
     release_rows = [], supervisor_owners = []\<rparr>"

section \<open>Raw rows\<close>

text \<open>\<open>RawJob\<close> and \<open>RawAttempt\<close>: a row as SQLite returns it, enumerations still text.\<close>

record raw_job_enums =
  raw_desired_state :: string
  raw_resolution :: "string option"

record raw_attempt_enums =
  raw_state :: string
  raw_termination_intent :: string

fun transpose_result :: "'a result option \<Rightarrow> 'a option result" where
  "transpose_result None = Inr None"
| "transpose_result (Some (Inl e)) = Inl e"
| "transpose_result (Some (Inr x)) = Inr (Some x)"

definition raw_job_from_row :: "RuntimeJobRecord \<Rightarrow> raw_job_enums" where
  "raw_job_from_row j = \<lparr>raw_desired_state = desired_as_db (j_desired_state j),
     raw_resolution = map_option resolution_as_db (j_resolution j)\<rparr>"

definition into_job_record_raw :: "RuntimeJobRecord \<Rightarrow> raw_job_enums \<Rightarrow> RuntimeJobRecord result" where
  "into_job_record_raw columns raw =
     rbind (desired_parse (raw_desired_state raw)) (\<lambda>desired_state.
     rbind (transpose_result (map_option resolution_parse (raw_resolution raw))) (\<lambda>resolution.
     Inr (columns\<lparr>j_desired_state := desired_state, j_resolution := resolution\<rparr>)))"

definition raw_attempt_from_row :: "AttemptRecord \<Rightarrow> raw_attempt_enums" where
  "raw_attempt_from_row a = \<lparr>raw_state = state_as_db (a_state a),
     raw_termination_intent = intent_as_db (a_termination_intent a)\<rparr>"

definition into_attempt_record_raw :: "AttemptRecord \<Rightarrow> raw_attempt_enums \<Rightarrow> AttemptRecord result" where
  "into_attempt_record_raw columns raw =
     rbind (state_parse (raw_state raw)) (\<lambda>state.
     rbind (intent_parse (raw_termination_intent raw)) (\<lambda>termination_intent.
     Inr (columns\<lparr>a_state := state, a_termination_intent := termination_intent\<rparr>)))"

lemma into_record_roundtrip:
  "into_job_record_raw j (raw_job_from_row j) = Inr j"
  "into_attempt_record_raw a (raw_attempt_from_row a) = Inr a"
  by (cases "j_resolution j")
    (simp_all add: into_job_record_raw_def raw_job_from_row_def into_attempt_record_raw_def
      raw_attempt_from_row_def desired_codec.parse_as_db resolution_codec.parse_as_db
      state_codec.parse_as_db intent_codec.parse_as_db)

section \<open>The database connection\<close>

datatype commit_outcome =
    CommitDone
  | CommitFailed bool sql_error  \<comment> \<open>back in autocommit; the flag tells whether the writes are durable\<close>
  | CommitOpen sql_error         \<comment> \<open>the transaction is still open, so nothing is durable\<close>

record sql_env =
  te_open :: "nat \<Rightarrow> sql_error option"
  te_begin :: "sql_error option"
  te_commit :: commit_outcome
  te_reload :: "sql_error option"
  te_uuid :: "nat \<Rightarrow> string"

definition safe_same_request_sql_error :: "sql_error \<Rightarrow> string \<Rightarrow> RuntimeError" where
  "safe_same_request_sql_error error context =
     (let mapped = from_sql error context
      in if err_code mapped \<in> {RegistryUnavailable, RegistryBusy}
         then mapped\<lparr>err_retryable := True\<rparr> else mapped)"

definition open_connection :: "sql_env \<Rightarrow> unit result" where
  "open_connection env =
     for_each (\<lambda>(i, context). case te_open env i of
         None \<Rightarrow> Inr ()
       | Some e \<Rightarrow> Inl (safe_same_request_sql_error e context))
       [(0, ''cannot open runtime registry''),
        (1, ''cannot set registry busy timeout''),
        (2, ''cannot enable foreign keys''),
        (3, ''cannot disable trusted schema''),
        (4, ''cannot set synchronous mode'')]"

definition immediate :: "sql_env \<Rightarrow> string \<Rightarrow> unit result" where
  "immediate env context =
     (case te_begin env of
        None \<Rightarrow> Inr ()
      | Some e \<Rightarrow> Inl (safe_same_request_sql_error e (''cannot begin '' @ context)))"

text \<open>
  A transaction body ends by returning without a commit, or by committing with the context its
  \<open>map_err\<close> uses and a payload for the code after the commit.
\<close>

datatype ('a, 'b) tx_end = Return 'a | Commit string 'b registry

definition in_transaction ::
  "sql_env \<Rightarrow> registry \<Rightarrow> (registry \<Rightarrow> ('a, 'b) tx_end result) \<Rightarrow> (registry \<Rightarrow> 'b \<Rightarrow> 'a result)
   \<Rightarrow> (string \<Rightarrow> 'b \<Rightarrow> bool \<Rightarrow> sql_error \<Rightarrow> registry \<Rightarrow> 'a result) \<Rightarrow> 'a result \<times> registry" where
  "in_transaction env db body after failed =
     (case body db of
        Inl e \<Rightarrow> (Inl e, db)
      | Inr (Return x) \<Rightarrow> (Inr x, db)
      | Inr (Commit commit_context y db') \<Rightarrow>
          (case te_commit env of
             CommitDone \<Rightarrow> (after db' y, db')
           | CommitFailed durable e \<Rightarrow>
               (let now = (if durable then db' else db)
                in (failed commit_context y True e now, now))
           | CommitOpen e \<Rightarrow> (failed commit_context y False e db, db)))"

text \<open>\<open>transaction.commit().map_err(|error| RuntimeError::from_sql(error, context))\<close>\<close>

definition commit_map_err :: "string \<Rightarrow> 'b \<Rightarrow> bool \<Rightarrow> sql_error \<Rightarrow> registry \<Rightarrow> 'a result" where
  "commit_map_err commit_context y autocommit e now = Inl (from_sql e commit_context)"

text \<open>Open a connection, begin an immediate transaction, run the body, commit.\<close>

definition transact ::
  "sql_env \<Rightarrow> string \<Rightarrow> registry \<Rightarrow> (registry \<Rightarrow> ('a, 'b) tx_end result)
   \<Rightarrow> (registry \<Rightarrow> 'b \<Rightarrow> 'a result)
   \<Rightarrow> (string \<Rightarrow> 'b \<Rightarrow> bool \<Rightarrow> sql_error \<Rightarrow> registry \<Rightarrow> 'a result) \<Rightarrow> 'a result \<times> registry" where
  "transact env context db body after failed =
     (case open_connection env of Inl e \<Rightarrow> (Inl e, db) | Inr _ \<Rightarrow>
      case immediate env context of Inl e \<Rightarrow> (Inl e, db) | Inr _ \<Rightarrow>
      in_transaction env db body after failed)"

section \<open>Constraints and triggers\<close>

definition sql_constraint :: "string \<Rightarrow> sql_error" where
  "sql_constraint text = SqliteFailure OtherSqliteCode text"

text \<open>Trigger \<open>attempts_terminal_no_reopen\<close> in its last form (migration 0004).\<close>

definition attempt_reopen_denied :: "AttemptState \<Rightarrow> AttemptState \<Rightarrow> bool" where
  "attempt_reopen_denied old new \<longleftrightarrow>
     is_terminal old \<and> new \<noteq> old
     \<and> \<not> ((old \<in> {Lost, Orphaned} \<and> new \<in> {Succeeded, Failed, TimedOut, Cancelled})
          \<or> (old = Orphaned \<and> new = Lost))"

text \<open>Trigger \<open>jobs_resolution_immutable\<close> in its last form (migration 0004).\<close>

definition resolution_change_denied :: "JobResolution option \<Rightarrow> JobResolution option \<Rightarrow> bool" where
  "resolution_change_denied old new \<longleftrightarrow>
     old \<noteq> None \<and> new \<noteq> old
     \<and> \<not> ((old \<in> {Some ResLost, Some ResOrphaned}
           \<and> new \<in> {Some ResSucceeded, Some ResFailed, Some ResTimedOut, Some ResCancelled})
          \<or> (old = Some ResOrphaned \<and> new = Some ResLost))"

definition update_attempts ::
  "(attempt_row \<Rightarrow> bool) \<Rightarrow> (attempt_row \<Rightarrow> attempt_row) \<Rightarrow> string \<Rightarrow> registry \<Rightarrow> (nat \<times> registry) result" where
  "update_attempts P f context db =
     (if list_ex (\<lambda>a. P a \<and> attempt_reopen_denied (a_state a) (a_state (f a))) (attempts db)
      then Inl (from_sql (sql_constraint ''terminal attempt cannot reopen'') context)
      else if list_ex (\<lambda>a. P a \<and> a_main_pid (f a) = Some 0) (attempts db)
      then Inl (from_sql (sql_constraint ''CHECK constraint failed: main_pid'') context)
      else Inr (tbl_count P (attempts db), db\<lparr>attempts := tbl_modify P f (attempts db)\<rparr>))"

definition update_jobs ::
  "(RuntimeJobRecord \<Rightarrow> bool) \<Rightarrow> (RuntimeJobRecord \<Rightarrow> RuntimeJobRecord) \<Rightarrow> string \<Rightarrow> registry
   \<Rightarrow> (nat \<times> registry) result" where
  "update_jobs P f context db =
     (if list_ex (\<lambda>j. P j \<and> resolution_change_denied (j_resolution j) (j_resolution (f j))) (jobs db)
      then Inl (from_sql (sql_constraint ''job resolution is immutable'') context)
      else Inr (tbl_count P (jobs db), db\<lparr>jobs := tbl_modify P f (jobs db)\<rparr>))"

definition update_reservations ::
  "(reservation_row \<Rightarrow> bool) \<Rightarrow> (reservation_row \<Rightarrow> reservation_row) \<Rightarrow> string \<Rightarrow> registry
   \<Rightarrow> (nat \<times> registry) result" where
  "update_reservations P f context db =
     (if list_ex (\<lambda>r. P r \<and> (r_state (f r) = Released) \<noteq> (r_released_at_ms (f r) \<noteq> None)) (reservations db)
      then Inl (from_sql (sql_constraint ''CHECK constraint failed: concurrency_reservations'') context)
      else Inr (tbl_count P (reservations db),
                db\<lparr>reservations := tbl_modify P f (reservations db)\<rparr>))"

text \<open>
  Inserts check primary keys, unique columns and the immediate foreign keys.
\<close>

definition insert_job :: "RuntimeJobRecord \<Rightarrow> string \<Rightarrow> registry \<Rightarrow> registry result" where
  "insert_job j context db =
     (if list_ex (\<lambda>i. j_job_id i = j_job_id j
          \<or> (j_principal i = j_principal j \<and> j_client_request_id i = j_client_request_id j)) (jobs db)
      then Inl (from_sql (sql_constraint ''UNIQUE constraint failed: jobs'') context)
      else Inr (db\<lparr>jobs := jobs db @ [j]\<rparr>))"

definition insert_attempt :: "attempt_row \<Rightarrow> string \<Rightarrow> registry \<Rightarrow> registry result" where
  "insert_attempt a context db =
     (if list_ex (\<lambda>b. a_attempt_id b = a_attempt_id a \<or> a_unit_name b = a_unit_name a
          \<or> (a_job_id b = a_job_id a \<and> a_attempt_number b = a_attempt_number a)) (attempts db)
      then Inl (from_sql (sql_constraint ''UNIQUE constraint failed: attempts'') context)
      else if \<not> list_ex (\<lambda>j. j_job_id j = a_job_id a) (jobs db)
      then Inl (from_sql (sql_constraint ''FOREIGN KEY constraint failed'') context)
      else Inr (db\<lparr>attempts := attempts db @ [a]\<rparr>))"

definition insert_idempotency_key :: "idempotency_key \<Rightarrow> string \<Rightarrow> registry \<Rightarrow> registry result" where
  "insert_idempotency_key k context db =
     (if list_ex (\<lambda>i. ik_job_id i = ik_job_id k
          \<or> (ik_principal i = ik_principal k \<and> ik_client_request_id i = ik_client_request_id k))
          (idempotency_keys db)
      then Inl (from_sql (sql_constraint ''UNIQUE constraint failed: idempotency_keys'') context)
      else Inr (db\<lparr>idempotency_keys := idempotency_keys db @ [k]\<rparr>))"

definition insert_reservation :: "reservation_row \<Rightarrow> string \<Rightarrow> registry \<Rightarrow> registry result" where
  "insert_reservation r context db =
     (if list_ex (\<lambda>q. r_reservation_id q = r_reservation_id r \<or> r_attempt_id q = r_attempt_id r)
          (reservations db)
      then Inl (from_sql (sql_constraint ''UNIQUE constraint failed: concurrency_reservations'') context)
      else if r_global_limit r = 0 \<or> (r_state r = Released) \<noteq> (r_released_at_ms r \<noteq> None)
      then Inl (from_sql (sql_constraint ''CHECK constraint failed: concurrency_reservations'') context)
      else if \<not> list_ex (\<lambda>a. a_attempt_id a = r_attempt_id r) (attempts db)
      then Inl (from_sql (sql_constraint ''FOREIGN KEY constraint failed'') context)
      else Inr (db\<lparr>reservations := reservations db @ [r]\<rparr>))"

definition insert_event :: "job_event \<Rightarrow> string \<Rightarrow> registry \<Rightarrow> registry result" where
  "insert_event e context db =
     (if list_ex (\<lambda>f. ev_event_id f = ev_event_id e
          \<or> (ev_job_id f = ev_job_id e \<and> ev_sequence f = ev_sequence e)) (job_events db)
      then Inl (from_sql (sql_constraint ''UNIQUE constraint failed: job_events'') context)
      else if \<not> list_ex (\<lambda>j. j_job_id j = ev_job_id e) (jobs db)
           \<or> (case ev_attempt_id e of None \<Rightarrow> False
              | Some attempt_id \<Rightarrow> \<not> list_ex (\<lambda>a. a_attempt_id a = attempt_id) (attempts db))
      then Inl (from_sql (sql_constraint ''FOREIGN KEY constraint failed'') context)
      else Inr (db\<lparr>job_events := job_events db @ [e]\<rparr>))"

text \<open>Artifact inserts report their failure text to the caller, which wraps it.\<close>

definition insert_artifact :: "RuntimeArtifactRecord \<Rightarrow> registry \<Rightarrow> sql_error + registry" where
  "insert_artifact a db =
     (if list_ex (\<lambda>b. art_artifact_id b = art_artifact_id a
          \<or> (art_attempt_id b = art_attempt_id a \<and> art_kind b = art_kind a
             \<and> art_relative_path b = art_relative_path a)) (artifacts db)
      then Inl (sql_constraint ''UNIQUE constraint failed: artifacts'')
      else if \<not> list_ex (\<lambda>j. j_job_id j = art_job_id a) (jobs db)
           \<or> \<not> list_ex (\<lambda>b. a_attempt_id b = art_attempt_id a) (attempts db)
      then Inl (sql_constraint ''FOREIGN KEY constraint failed'')
      else Inr (db\<lparr>artifacts := artifacts db @ [a]\<rparr>))"

section \<open>Loading rows\<close>

definition load_job :: "registry \<Rightarrow> string \<Rightarrow> RuntimeJobRecord result" where
  "load_job db job_id =
     ok_or (tbl_lookup j_job_id (jobs db) job_id)
       (error_new JobNotFound ''Job not found'' (Some ''jobId'') False)"

definition attempt_record :: "attempt_row \<Rightarrow> AttemptRecord" where
  "attempt_record a = AttemptRecord.truncate a"

definition load_attempt :: "registry \<Rightarrow> string \<Rightarrow> AttemptRecord result" where
  "load_attempt db attempt_id =
     ok_or (map_option attempt_record (tbl_lookup a_attempt_id (attempts db) attempt_id))
       (error_new AttemptNotFound ''Attempt not found'' (Some ''attemptId'') False)"

definition reservation_record :: "reservation_row \<Rightarrow> ReservationRecord" where
  "reservation_record r = ReservationRecord.truncate r"

definition load_reservation :: "registry \<Rightarrow> string \<Rightarrow> ReservationRecord result" where
  "load_reservation db attempt_id =
     ok_or (map_option reservation_record (tbl_lookup r_attempt_id (reservations db) attempt_id))
       (error_new ReservationStateConflict ''Attempt has no reservation'' (Some ''attemptId'') False)"

text \<open>\<open>SELECT ... FROM attempts WHERE job_id=?1 ORDER BY attempt_number DESC LIMIT 1\<close>\<close>

fun latest_by_number :: "attempt_row list \<Rightarrow> attempt_row option" where
  "latest_by_number [] = None"
| "latest_by_number (a # as) =
     (case latest_by_number as of
        None \<Rightarrow> Some a
      | Some b \<Rightarrow> if a_attempt_number a < a_attempt_number b then Some b else Some a)"

definition latest_attempt_id :: "registry \<Rightarrow> string \<Rightarrow> string option" where
  "latest_attempt_id db job_id =
     map_option a_attempt_id (latest_by_number (filter (\<lambda>a. a_job_id a = job_id) (attempts db)))"

section \<open>Events\<close>

definition next_event_sequence :: "registry \<Rightarrow> string \<Rightarrow> nat" where
  "next_event_sequence db job_id =
     foldr max (map ev_sequence (filter (\<lambda>e. ev_job_id e = job_id) (job_events db))) 0 + 1"

text \<open>\<open>k\<close> numbers the events of one transaction, each with its own \<open>Uuid::now_v7()\<close>.\<close>

definition append_event ::
  "host \<Rightarrow> sql_env \<Rightarrow> nat \<Rightarrow> string \<Rightarrow> string option \<Rightarrow> string \<Rightarrow> string
   \<Rightarrow> AttemptState option \<Rightarrow> AttemptState option \<Rightarrow> string \<Rightarrow> json \<Rightarrow> nat \<Rightarrow> registry \<Rightarrow> registry result" where
  "append_event h env k job_id attempt_id event_type origin previous_state new_state reason_code
       detail observed_at_ms db =
     (let detail_json = h_json_print h detail in
      insert_event
        \<lparr>ev_event_id = ''event-'' @ te_uuid env k, ev_job_id = job_id, ev_attempt_id = attempt_id,
         ev_sequence = next_event_sequence db job_id, ev_type = event_type, ev_origin = origin,
         ev_previous_state = previous_state, ev_new_state = new_state, ev_reason_code = reason_code,
         ev_detail_json = detail_json, ev_detail_digest = sha256_bytes h detail_json,
         ev_observed_at_ms = observed_at_ms\<rparr> ''cannot append Job event'' db)"

section \<open>Reservations\<close>

definition holds_capacity :: "ReservationState \<Rightarrow> bool" where
  "holds_capacity s \<longleftrightarrow> s \<in> {Active, HeldOrphaned}"

definition release_reservation :: "string \<Rightarrow> nat \<Rightarrow> string \<Rightarrow> registry \<Rightarrow> registry result" where
  "release_reservation attempt_id released_at_ms reason db =
     rbind (update_reservations
       (\<lambda>r. r_attempt_id r = attempt_id \<and> holds_capacity (r_state r))
       (\<lambda>r. r\<lparr>r_state := Released, r_released_at_ms := Some released_at_ms,
              r_release_reason := Some reason, r_state_observed_at_ms := released_at_ms\<rparr>)
       ''cannot release reservation'' db) (\<lambda>(changed, db').
     if changed = 0 then
       (case tbl_lookup r_attempt_id (reservations db) attempt_id of
          None \<Rightarrow> Inl (error_new ReservationStateConflict ''reservation is missing''
                    (Some ''attemptId'') False)
        | Some r \<Rightarrow>
            if reservation_as_db (r_state r) \<noteq> ''released''
            then Inl (error_new ReservationStateConflict
                   (''reservation cannot be released from '' @ reservation_as_db (r_state r))
                   (Some ''attemptId'') False)
            else Inr db')
     else Inr db')"

definition hold_orphaned_reservation :: "string \<Rightarrow> nat \<Rightarrow> string \<Rightarrow> registry \<Rightarrow> registry result" where
  "hold_orphaned_reservation attempt_id observed_at_ms reason db =
     rbind (update_reservations
       (\<lambda>r. r_attempt_id r = attempt_id \<and> holds_capacity (r_state r))
       (\<lambda>r. r\<lparr>r_state := HeldOrphaned, r_released_at_ms := None,
              r_release_reason := Some reason, r_state_observed_at_ms := observed_at_ms\<rparr>)
       ''cannot hold orphaned reservation'' db) (\<lambda>(changed, db').
     if changed \<noteq> 1 then Inl (error_new ReservationStateConflict
            ''orphaned Attempt has no active reservation'' (Some ''attemptId'') False)
     else Inr db')"

fun resolution_for_state :: "AttemptState \<Rightarrow> JobResolution result" where
  "resolution_for_state Succeeded = Inr ResSucceeded"
| "resolution_for_state Failed = Inr ResFailed"
| "resolution_for_state TimedOut = Inr ResTimedOut"
| "resolution_for_state Cancelled = Inr ResCancelled"
| "resolution_for_state Lost = Inr ResLost"
| "resolution_for_state Orphaned = Inr ResOrphaned"
| "resolution_for_state _ = Inl (error_invalid ''Attempt state is not terminal'' ''state'')"

definition terminal_reservation_target ::
  "AttemptRecord \<Rightarrow> RuntimeJobRecord \<Rightarrow> ReservationState result" where
  "terminal_reservation_target attempt job =
     (if \<not> is_terminal (a_state attempt)
      then Inl (error_new ReconciliationRequired
             ''Attempt is not terminal while repairing terminal reservation'' (Some ''attemptId'') False)
      else rbind (resolution_for_state (a_state attempt)) (\<lambda>expected_resolution.
        if \<not> (a_result_digest attempt \<noteq> None \<and> a_finished_at_ms attempt \<noteq> None
               \<and> j_resolution job = Some expected_resolution \<and> j_current_attempt_id job = None)
        then Inl (error_new ReconciliationRequired
               ''terminal Attempt lacks complete result, Job resolution, or current-Attempt evidence''
               (Some ''attemptId'') False)
        else if a_state attempt = Orphaned then Inr HeldOrphaned else Inr Released))"

section \<open>Inspection of the invariants\<close>

fun resolution_state :: "JobResolution \<Rightarrow> AttemptState" where
  "resolution_state ResSucceeded = Succeeded"
| "resolution_state ResFailed = Failed"
| "resolution_state ResTimedOut = TimedOut"
| "resolution_state ResCancelled = Cancelled"
| "resolution_state ResLost = Lost"
| "resolution_state ResOrphaned = Orphaned"

definition violation :: "string \<Rightarrow> string \<Rightarrow> string option \<times> string option \<Rightarrow> RuntimeInvariantViolation" where
  "violation code detail ids =
     \<lparr>v_code = code, v_job_id = fst ids, v_attempt_id = snd ids, v_detail = detail\<rparr>"

text \<open>Its seven queries, in the source's order; a join lists the pairs that satisfy \<open>ON\<close>.\<close>

definition q_unresolved_without_current :: "registry \<Rightarrow> (string option \<times> string option) list" where
  "q_unresolved_without_current db =
     [(Some (j_job_id j), None). j \<leftarrow> jobs db,
        j_resolution j = None \<and> j_current_attempt_id j = None]"

definition q_resolved_with_current :: "registry \<Rightarrow> (string option \<times> string option) list" where
  "q_resolved_with_current db =
     [(Some (j_job_id j), j_current_attempt_id j). j \<leftarrow> jobs db,
        j_resolution j \<noteq> None \<and> j_current_attempt_id j \<noteq> None]"

definition q_unresolved_terminal :: "registry \<Rightarrow> (string option \<times> string option) list" where
  "q_unresolved_terminal db =
     [(Some (j_job_id j), Some (a_attempt_id a)). j \<leftarrow> jobs db, a \<leftarrow> attempts db,
        Some (a_attempt_id a) = j_current_attempt_id j \<and> j_resolution j = None
        \<and> is_terminal (a_state a)]"

definition q_resolution_mismatch :: "registry \<Rightarrow> (string option \<times> string option) list" where
  "q_resolution_mismatch db =
     [(Some (j_job_id j), Some (a_attempt_id a)). j \<leftarrow> jobs db, a \<leftarrow> attempts db,
        a_job_id a = j_job_id j
        \<and> \<not> list_ex (\<lambda>newer. a_job_id newer = a_job_id a
                             \<and> a_attempt_number newer > a_attempt_number a) (attempts db)
        \<and> (case j_resolution j of None \<Rightarrow> False | Some r \<Rightarrow> a_state a \<noteq> resolution_state r)]"

definition q_terminal_holds :: "registry \<Rightarrow> (string option \<times> string option) list" where
  "q_terminal_holds db =
     [(Some (a_job_id a), Some (a_attempt_id a)). a \<leftarrow> attempts db, r \<leftarrow> reservations db,
        r_attempt_id r = a_attempt_id a
        \<and> a_state a \<in> {Succeeded, Failed, TimedOut, Cancelled, Lost} \<and> r_state r \<noteq> Released]"

definition q_orphan_not_held :: "registry \<Rightarrow> (string option \<times> string option) list" where
  "q_orphan_not_held db =
     [(Some (a_job_id a), Some (a_attempt_id a)). a \<leftarrow> attempts db, r \<leftarrow> reservations db,
        r_attempt_id r = a_attempt_id a \<and> a_state a = Orphaned \<and> r_state r \<noteq> HeldOrphaned]"

definition q_missing_evidence :: "registry \<Rightarrow> (string option \<times> string option) list" where
  "q_missing_evidence db =
     [(Some (a_job_id a), Some (a_attempt_id a)). a \<leftarrow> attempts db,
        is_terminal (a_state a) \<and> (a_result_digest a = None \<or> a_finished_at_ms a = None)]"

definition inspect_runtime_invariants :: "registry \<Rightarrow> RuntimeInvariantViolation list" where
  "inspect_runtime_invariants db =
     map (violation ''UNRESOLVED_JOB_WITHOUT_CURRENT_ATTEMPT''
            ''unresolved Job must reference its current Attempt'') (q_unresolved_without_current db)
   @ map (violation ''RESOLVED_JOB_WITH_CURRENT_ATTEMPT''
            ''resolved Job must not retain current_attempt_id'') (q_resolved_with_current db)
   @ map (violation ''UNRESOLVED_JOB_POINTS_TO_TERMINAL_ATTEMPT''
            ''unresolved Job must not reference a terminal Attempt'') (q_unresolved_terminal db)
   @ map (violation ''JOB_RESOLUTION_ATTEMPT_STATE_MISMATCH''
            ''resolved Job must agree with its latest terminal Attempt'') (q_resolution_mismatch db)
   @ map (violation ''TERMINAL_ATTEMPT_HOLDS_RESERVATION''
            ''non-orphan terminal Attempt must release its reservation'') (q_terminal_holds db)
   @ map (violation ''ORPHAN_RESERVATION_NOT_HELD''
            ''orphaned Attempt must hold its reservation'') (q_orphan_not_held db)
   @ map (violation ''TERMINAL_ATTEMPT_MISSING_EVIDENCE''
            ''terminal Attempt must retain result digest and finish time'') (q_missing_evidence db)"

section \<open>Job projection\<close>

definition is_resolution_event :: "job_event \<Rightarrow> bool" where
  "is_resolution_event e \<longleftrightarrow>
     ev_type e \<in> {''JOB_TERMINAL'', ''JOB_RESOLUTION_CORRECTED'', ''JOB_RESOLUTION_ADMIN_CORRECTED''}
     \<or> (ev_type e = ''STOP_REQUESTED'' \<and> ev_new_state e = Some Cancelled)"

fun latest_by_sequence :: "job_event list \<Rightarrow> job_event option" where
  "latest_by_sequence [] = None"
| "latest_by_sequence (e # es) =
     (case latest_by_sequence es of
        None \<Rightarrow> Some e
      | Some f \<Rightarrow> if ev_sequence e < ev_sequence f then Some f else Some e)"

definition job_execution_reason_code :: "registry \<Rightarrow> string \<Rightarrow> bool \<Rightarrow> string option" where
  "job_execution_reason_code db job_id resolved =
     (if \<not> resolved then None
      else map_option ev_reason_code (latest_by_sequence
             (filter (\<lambda>e. ev_job_id e = job_id \<and> is_resolution_event e) (job_events db))))"

definition attempt_recovery_condition_active :: "registry \<Rightarrow> string \<Rightarrow> bool" where
  "attempt_recovery_condition_active db attempt_id =
     (case tbl_lookup a_attempt_id (attempts db) attempt_id of
        None \<Rightarrow> False
      | Some a \<Rightarrow> (case a_recovery a of None \<Rightarrow> False | Some rc \<Rightarrow> rc_required rc))"

definition project_job ::
  "RuntimeJobRecord \<Rightarrow> AttemptRecord option \<Rightarrow> bool \<Rightarrow> bool \<Rightarrow> string option \<Rightarrow> JobProjection" where
  "project_job job attempt recovery_condition_active artifacts_available execution_reason_code =
     (let status = (case j_resolution job of
            Some resolution \<Rightarrow> resolution_as_db resolution
          | None \<Rightarrow> (case attempt of
              Some a \<Rightarrow>
                if a_state a \<in> {Accepted, Starting} then ''queued''
                else if a_state a \<in> {Running, Stopping, Recovering} then ''working''
                else state_as_db (a_state a)
            | None \<Rightarrow> ''unknown''));
          recovery_required = (recovery_condition_active
            \<or> (case attempt of None \<Rightarrow> False | Some a \<Rightarrow> a_state a \<in> {Recovering, Orphaned}));
          delivery_disposition =
            (if recovery_required then DeliveryReconciliationRequired
             else case j_resolution job of
               None \<Rightarrow> InProgress
             | Some ResOrphaned \<Rightarrow> DeliveryReconciliationRequired
             | Some ResLost \<Rightarrow> Unknown
             | Some _ \<Rightarrow> Committed);
          poll_after_ms =
            (if delivery_disposition \<in> {InProgress, DeliveryReconciliationRequired}
             then Some 250 else None)
      in \<lparr>jpr_job_id = j_job_id job, jpr_operation_digest = j_operation_digest job,
          jpr_status = status, jpr_desired_state = j_desired_state job,
          jpr_attempt_id = map_option a_attempt_id attempt,
          jpr_attempt_state = map_option a_state attempt,
          jpr_termination_intent = map_option a_termination_intent attempt,
          jpr_exit_code = Option.bind attempt a_exit_code,
          jpr_execution_terminal = (j_resolution job \<noteq> None),
          jpr_execution_disposition = j_resolution job,
          jpr_execution_reason_code = execution_reason_code,
          jpr_delivery_disposition = delivery_disposition,
          jpr_recovery_required = recovery_required,
          jpr_semantic_completion_evaluated = False,
          jpr_result_available = (j_resolution job \<noteq> None),
          jpr_artifacts_available = artifacts_available,
          jpr_artifacts = [],
          jpr_poll_after_ms = poll_after_ms\<rparr>)"

record JobSnapshot =
  js_job :: RuntimeJobRecord
  js_attempt :: "AttemptRecord option"
  js_projection :: JobProjection

definition snapshot_attempt :: "registry \<Rightarrow> RuntimeJobRecord \<Rightarrow> AttemptRecord option result" where
  "snapshot_attempt db job =
     (case j_current_attempt_id job of
        Some attempt_id \<Rightarrow> rbind (load_attempt db attempt_id) (\<lambda>a. Inr (Some a))
      | None \<Rightarrow>
          (case latest_attempt_id db (j_job_id job) of
             None \<Rightarrow> Inr None
           | Some attempt_id \<Rightarrow> rbind (load_attempt db attempt_id) (\<lambda>a. Inr (Some a))))"

definition load_job_snapshot_in :: "registry \<Rightarrow> string \<Rightarrow> JobSnapshot result" where
  "load_job_snapshot_in db job_id =
     rbind (load_job db job_id) (\<lambda>job.
     rbind (snapshot_attempt db job) (\<lambda>attempt.
     Inr \<lparr>js_job = job, js_attempt = attempt,
          js_projection = project_job job attempt
            (case attempt of None \<Rightarrow> False
             | Some a \<Rightarrow> attempt_recovery_condition_active db (a_attempt_id a))
            (list_ex (\<lambda>art. art_job_id art = j_job_id job) (artifacts db))
            (job_execution_reason_code db (j_job_id job) (j_resolution job \<noteq> None))\<rparr>))"

text \<open>Reads on the connection after a commit; \<open>te_reload\<close> is the failure they may meet.\<close>

definition reload_attempt :: "sql_env \<Rightarrow> registry \<Rightarrow> string \<Rightarrow> AttemptRecord result" where
  "reload_attempt env db attempt_id =
     (case te_reload env of
        Some e \<Rightarrow> Inl (from_sql e ''cannot load Attempt'')
      | None \<Rightarrow> load_attempt db attempt_id)"

definition load_job_snapshot :: "sql_env \<Rightarrow> registry \<Rightarrow> string \<Rightarrow> JobSnapshot result" where
  "load_job_snapshot env db job_id =
     (case te_reload env of
        Some e \<Rightarrow> Inl (from_sql e ''cannot begin Job projection read snapshot'')
      | None \<Rightarrow> load_job_snapshot_in db job_id)"

definition unknown_commit_outcome :: "string \<Rightarrow> RuntimeError \<Rightarrow> RuntimeError option \<Rightarrow> RuntimeError" where
  "unknown_commit_outcome context commit_error reconcile =
     (let suffix = (case reconcile of None \<Rightarrow> []
          | Some e \<Rightarrow> ''; reconciliation failed: '' @ error_code_as_str (err_code e) @ '': '' @ err_message e)
      in error_new DispatchOutcomeUnknown (context @ '': '' @ err_message commit_error @ suffix) None True)"

definition committed_reconciliation :: "string \<Rightarrow> string \<Rightarrow> RuntimeError" where
  "committed_reconciliation job_id context =
     with_operation_id (error_new ReconciliationRequired context None True) job_id"

definition state_conflict :: "string \<Rightarrow> RuntimeError" where
  "state_conflict message = error_new AttemptStateConflict message (Some ''attemptId'') False"

definition idempotency_conflict :: RuntimeError where
  "idempotency_conflict = error_new IdempotencyConflict
     ''clientRequestId is already bound to a different operation request'' (Some ''clientRequestId'') False"

section \<open>Transactions\<close>

text \<open>Whatever SQLite does, an operation leaves the database as it was or as its body wrote it.\<close>

lemma in_transaction_db:
  "snd (in_transaction env db body after failed) = db
   \<or> (\<exists>ctx y. body db = Inr (Commit ctx y (snd (in_transaction env db body after failed))))"
  by (auto simp: in_transaction_def Let_def split: sum.splits tx_end.splits commit_outcome.splits)

lemma transact_db:
  "snd (transact env context db body after failed) = db
   \<or> (\<exists>ctx y. body db = Inr (Commit ctx y (snd (transact env context db body after failed))))"
  using in_transaction_db[of env db body after failed]
  by (auto simp: transact_def split: sum.splits)

lemma in_transaction_Inr:
  assumes "in_transaction env db body after failed = (Inr x, db')"
  shows "(body db = Inr (Return x) \<and> db' = db)
   \<or> (\<exists>ctx y new. body db = Inr (Commit ctx y new)
       \<and> ((te_commit env = CommitDone \<and> after new y = Inr x \<and> db' = new)
          \<or> (\<exists>durable e. te_commit env = CommitFailed durable e \<and> failed ctx y True e db' = Inr x
               \<and> db' = (if durable then new else db))
          \<or> (\<exists>e. te_commit env = CommitOpen e \<and> failed ctx y False e db' = Inr x \<and> db' = db)))"
proof (cases "body db")
  case (Inl e)
  then show ?thesis using assms by (simp add: in_transaction_def)
next
  case (Inr r)
  show ?thesis
  proof (cases r)
    case (Return z)
    then show ?thesis using assms Inr by (simp add: in_transaction_def)
  next
    case (Commit ctx y new)
    then show ?thesis
      using assms Inr by (cases "te_commit env") (auto simp: in_transaction_def Let_def)
  qed
qed

lemma transact_Inr:
  assumes "transact env context db body after failed = (Inr x, db')"
  shows "in_transaction env db body after failed = (Inr x, db')"
  using assms by (auto simp: transact_def split: sum.splits)

section \<open>Tables satisfy the keyed-row contract\<close>

interpretation job_rows: keyed_rows j_job_id "tbl_lookup j_job_id" tbl_modify tbl_count
    "\<lambda>t. distinct (map j_job_id t)"
  by (rule keyed_rows_list)

interpretation attempt_rows: keyed_rows "a_attempt_id :: attempt_row \<Rightarrow> string" "tbl_lookup a_attempt_id"
    tbl_modify tbl_count "\<lambda>t. distinct (map a_attempt_id t)"
  by (rule keyed_rows_list)

interpretation reservation_rows: keyed_rows "r_attempt_id :: reservation_row \<Rightarrow> string"
    "tbl_lookup r_attempt_id" tbl_modify tbl_count "\<lambda>t. distinct (map r_attempt_id t)"
  by (rule keyed_rows_list)

lemma attempt_record_sel [simp]:
  "a_attempt_id (attempt_record a) = a_attempt_id a" "a_job_id (attempt_record a) = a_job_id a"
  "a_attempt_number (attempt_record a) = a_attempt_number a" "a_state (attempt_record a) = a_state a"
  "a_termination_intent (attempt_record a) = a_termination_intent a"
  "a_bundle_digest (attempt_record a) = a_bundle_digest a" "a_unit_name (attempt_record a) = a_unit_name a"
  "a_boot_id (attempt_record a) = a_boot_id a" "a_invocation_id (attempt_record a) = a_invocation_id a"
  "a_control_group (attempt_record a) = a_control_group a" "a_main_pid (attempt_record a) = a_main_pid a"
  "a_process_start_identity (attempt_record a) = a_process_start_identity a"
  "a_runner_start_digest (attempt_record a) = a_runner_start_digest a"
  "a_result_digest (attempt_record a) = a_result_digest a" "a_exit_code (attempt_record a) = a_exit_code a"
  "a_started_at_ms (attempt_record a) = a_started_at_ms a"
  "a_finished_at_ms (attempt_record a) = a_finished_at_ms a"
  "a_row_version (attempt_record a) = a_row_version a"
  by (simp_all add: attempt_record_def AttemptRecord.truncate_def)

lemma reservation_record_sel [simp]:
  "r_attempt_id (reservation_record r) = r_attempt_id r" "r_state (reservation_record r) = r_state r"
  "r_reservation_id (reservation_record r) = r_reservation_id r"
  "r_released_at_ms (reservation_record r) = r_released_at_ms r"
  by (simp_all add: reservation_record_def ReservationRecord.truncate_def)

lemma load_job_eq_Inr: "load_job db i = Inr j \<longleftrightarrow> tbl_lookup j_job_id (jobs db) i = Some j"
  by (simp add: load_job_def)

lemma load_attempt_eq_Inr:
  "load_attempt db i = Inr a \<longleftrightarrow>
     (\<exists>row. tbl_lookup a_attempt_id (attempts db) i = Some row \<and> a = attempt_record row)"
  by (auto simp: load_attempt_def)

lemma load_reservation_eq_Inr:
  "load_reservation db i = Inr r \<longleftrightarrow>
     (\<exists>row. tbl_lookup r_attempt_id (reservations db) i = Some row \<and> r = reservation_record row)"
  by (auto simp: load_reservation_def)

lemma resolution_for_state_terminal:
  "is_terminal s \<longleftrightarrow> (\<exists>r. resolution_for_state s = Inr r)"
  "resolution_for_state s = Inr r \<longleftrightarrow> s = resolution_state r"
  by (cases s; cases r; simp)+

end
