(* ===== verification/Registry_Lifecycle.thy ===== *)
theory Registry_Lifecycle
  imports Registry_State
begin

text \<open>
  \<open>runtime/registry/lifecycle.rs\<close>: the transactions that move one Attempt from acceptance to a
  terminal state.  Each operation is a transaction body (suffix \<open>_tx\<close>), a function of the database
  it reads inside the transaction, and the operation itself, which opens the connection, begins,
  runs the body, commits and reads back, or reconciles a commit whose outcome SQLite did not report.
\<close>

section \<open>Details of events\<close>

definition json_exit_code :: "int option \<Rightarrow> json" where
  "json_exit_code c = (case c of None \<Rightarrow> JNull | Some n \<Rightarrow> JNumber n)"

definition json_option_string :: "string option \<Rightarrow> json" where
  "json_option_string s = (case s of None \<Rightarrow> JNull | Some t \<Rightarrow> JString t)"

text \<open>\<open>format!("{:?}", state)\<close>\<close>

fun state_debug :: "AttemptState \<Rightarrow> string" where
  "state_debug Accepted = ''Accepted''"
| "state_debug Starting = ''Starting''"
| "state_debug Running = ''Running''"
| "state_debug Stopping = ''Stopping''"
| "state_debug Recovering = ''Recovering''"
| "state_debug Succeeded = ''Succeeded''"
| "state_debug Failed = ''Failed''"
| "state_debug TimedOut = ''TimedOut''"
| "state_debug Cancelled = ''Cancelled''"
| "state_debug Lost = ''Lost''"
| "state_debug Orphaned = ''Orphaned''"

section \<open>Dispatch\<close>

definition mark_bundle_ready_tx ::
  "host \<Rightarrow> sql_env \<Rightarrow> string \<Rightarrow> nat \<Rightarrow> string \<Rightarrow> nat \<Rightarrow> registry \<Rightarrow> (AttemptRecord, unit) tx_end result" where
  "mark_bundle_ready_tx h env attempt_id expected_row_version bundle_digest observed_at_ms db =
     rbind (load_attempt db attempt_id) (\<lambda>attempt.
     if a_state attempt \<noteq> Accepted \<or> a_row_version attempt \<noteq> expected_row_version
     then Inl (state_conflict ''Attempt is not the expected accepted version'')
     else rbind (update_attempts
            (\<lambda>a. a_attempt_id a = attempt_id
                 \<and> (a_state a = Accepted \<and> a_row_version a = expected_row_version))
            (\<lambda>a. a\<lparr>a_bundle_digest := Some bundle_digest, a_row_version := a_row_version a + 1\<rparr>)
            ''cannot bind bundle identity'' db) (\<lambda>(changed, db1).
       if changed \<noteq> 1 then Inl (state_conflict ''Attempt changed while binding bundle'')
       else rbind (append_event h env 0 (a_job_id attempt) (Some attempt_id) ''BUNDLE_READY''
              ''SYSTEM_OBSERVED'' (Some Accepted) (Some Accepted) ''BUNDLE_COMMITTED''
              (JObject [(''bundleDigest'', JString bundle_digest)]) observed_at_ms db1) (\<lambda>db2.
         Inr (Commit ''cannot commit bundle identity'' () db2))))"

definition mark_bundle_ready ::
  "host \<Rightarrow> sql_env \<Rightarrow> registry \<Rightarrow> string \<Rightarrow> nat \<Rightarrow> string \<Rightarrow> nat \<Rightarrow> AttemptRecord result \<times> registry" where
  "mark_bundle_ready h env db attempt_id expected_row_version bundle_digest observed_at_ms =
     (case validate_digest bundle_digest ''bundleDigest'' of
        Inl e \<Rightarrow> (Inl e, db)
      | Inr _ \<Rightarrow> transact env ''bundle-ready transaction'' db
          (mark_bundle_ready_tx h env attempt_id expected_row_version bundle_digest observed_at_ms)
          (\<lambda>now _. reload_attempt env now attempt_id) commit_map_err)"

definition mark_dispatch_issued_tx ::
  "host \<Rightarrow> sql_env \<Rightarrow> string \<Rightarrow> nat \<Rightarrow> nat \<Rightarrow> registry \<Rightarrow> (AttemptRecord, unit) tx_end result" where
  "mark_dispatch_issued_tx h env attempt_id expected_row_version observed_at_ms db =
     rbind (load_attempt db attempt_id) (\<lambda>attempt.
     if a_state attempt \<noteq> Accepted \<or> a_row_version attempt \<noteq> expected_row_version
        \<or> a_bundle_digest attempt = None
     then Inl (state_conflict ''Attempt must be accepted with a committed bundle'')
     else rbind (update_attempts
            (\<lambda>a. a_attempt_id a = attempt_id
                 \<and> (a_state a = Accepted \<and> a_row_version a = expected_row_version
                    \<and> a_bundle_digest a \<noteq> None))
            (\<lambda>a. a\<lparr>a_state := Starting, a_row_version := a_row_version a + 1\<rparr>)
            ''cannot persist dispatch intent'' db) (\<lambda>(changed, db1).
       if changed \<noteq> 1 then Inl (state_conflict ''Attempt changed before dispatch intent'')
       else rbind (append_event h env 0 (a_job_id attempt) (Some attempt_id) ''DISPATCH_ISSUED''
              ''SYSTEM_DERIVED'' (Some Accepted) (Some Starting) ''AT_MOST_ONCE_BOUNDARY_COMMITTED''
              (JObject [(''bundleDigest'', JString (case a_bundle_digest attempt of None \<Rightarrow> [] | Some d \<Rightarrow> d))])
              observed_at_ms db1) (\<lambda>db2.
         Inr (Commit ''cannot commit dispatch intent'' () db2))))"

definition mark_dispatch_issued ::
  "host \<Rightarrow> sql_env \<Rightarrow> registry \<Rightarrow> string \<Rightarrow> nat \<Rightarrow> nat \<Rightarrow> AttemptRecord result \<times> registry" where
  "mark_dispatch_issued h env db attempt_id expected_row_version observed_at_ms =
     transact env ''dispatch-intent transaction'' db
       (mark_dispatch_issued_tx h env attempt_id expected_row_version observed_at_ms)
       (\<lambda>now _. reload_attempt env now attempt_id) commit_map_err"

section \<open>Binding the process\<close>

definition coalesce :: "'a option \<Rightarrow> 'a \<Rightarrow> 'a option" where
  "coalesce m d = Some (case m of None \<Rightarrow> d | Some x \<Rightarrow> x)"

definition bind_running_tx ::
  "host \<Rightarrow> sql_env \<Rightarrow> string \<Rightarrow> nat \<Rightarrow> RunnerIdentity \<Rightarrow> registry \<Rightarrow> (AttemptRecord, unit) tx_end result" where
  "bind_running_tx h env attempt_id expected_row_version identity db =
     rbind (load_attempt db attempt_id) (\<lambda>attempt.
     if attempt_runner_identity_matches attempt identity then Inr (Return attempt)
     else if a_state attempt \<notin> {Starting, Recovering} \<or> a_row_version attempt \<noteq> expected_row_version
             \<or> a_unit_name attempt \<noteq> ri_unit_name identity
     then Inl (state_conflict ''Attempt is not bindable to this Runner identity'')
     else rbind (update_attempts
            (\<lambda>a. a_attempt_id a = attempt_id
                 \<and> (a_row_version a = expected_row_version \<and> a_state a \<in> {Starting, Recovering}))
            (\<lambda>a. a\<lparr>a_state := Running, a_boot_id := Some (ri_boot_id identity),
                   a_invocation_id := Some (ri_invocation_id identity),
                   a_control_group := Some (ri_control_group identity),
                   a_main_pid := Some (ri_main_pid identity),
                   a_process_start_identity := Some (ri_process_start_identity identity),
                   a_runner_start_digest := Some (ri_runner_start_digest identity),
                   a_started_at_ms := coalesce (a_started_at_ms a) (ri_observed_at_ms identity),
                   a_row_version := a_row_version a + 1\<rparr>)
            ''cannot bind Runner identity'' db) (\<lambda>(changed, db1).
       if changed \<noteq> 1 then Inl (state_conflict ''Attempt changed while binding Runner'')
       else rbind (append_event h env 0 (a_job_id attempt) (Some attempt_id) ''RUNNER_BOUND''
              ''SYSTEM_OBSERVED'' (Some (a_state attempt)) (Some Running) ''RUNNER_IDENTITY_MATCHED''
              (JObject [(''bootId'', JString (ri_boot_id identity)),
                        (''unitName'', JString (ri_unit_name identity)),
                        (''invocationId'', JString (ri_invocation_id identity)),
                        (''controlGroup'', JString (ri_control_group identity)),
                        (''mainPid'', JNumber (int (ri_main_pid identity))),
                        (''processStartIdentity'', JString (ri_process_start_identity identity))])
              (ri_observed_at_ms identity) db1) (\<lambda>db2.
         Inr (Commit ''cannot commit Runner identity'' () db2))))"

definition bind_running ::
  "host \<Rightarrow> sql_env \<Rightarrow> registry \<Rightarrow> string \<Rightarrow> nat \<Rightarrow> RunnerIdentity \<Rightarrow> AttemptRecord result \<times> registry" where
  "bind_running h env db attempt_id expected_row_version identity =
     (case validate_runner_identity identity of
        Inl e \<Rightarrow> (Inl e, db)
      | Inr _ \<Rightarrow> transact env ''runner-bind transaction'' db
          (bind_running_tx h env attempt_id expected_row_version identity)
          (\<lambda>now _. reload_attempt env now attempt_id) commit_map_err)"

definition owner_corrupt :: "string \<Rightarrow> RuntimeError" where
  "owner_corrupt message = error_new RegistryCorrupt message (Some ''attemptSupervisorOwner'') False"

definition attempt_supervisor_owner ::
  "host \<Rightarrow> sql_env \<Rightarrow> registry \<Rightarrow> string \<Rightarrow> AttemptSupervisorOwner option result" where
  "attempt_supervisor_owner h env db attempt_id =
     rbind (open_connection env) (\<lambda>_.
     case tbl_lookup ow_attempt_id (supervisor_owners db) attempt_id of
       None \<Rightarrow> Inr None
     | Some row \<Rightarrow>
         if sha256_bytes h (ow_json row) \<noteq> ow_digest row
         then Inl (owner_corrupt ''stored Attempt Supervisor Owner digest does not match side truth'')
         else (case h_owner_parse h (ow_json row) of
                 Inl message \<Rightarrow> Inl (owner_corrupt (''stored Attempt Supervisor Owner is invalid: '' @ message))
               | Inr owner \<Rightarrow> rbind (validate_attempt_supervisor_owner owner) (\<lambda>_. Inr (Some owner))))"

definition insert_supervisor_owner :: "owner_row \<Rightarrow> string \<Rightarrow> registry \<Rightarrow> registry result" where
  "insert_supervisor_owner w context db =
     (if list_ex (\<lambda>v. ow_attempt_id v = ow_attempt_id w) (supervisor_owners db)
      then Inl (from_sql (sql_constraint ''UNIQUE constraint failed: attempt_supervisor_owners'') context)
      else if \<not> list_ex (\<lambda>a. a_attempt_id a = ow_attempt_id w) (attempts db)
      then Inl (from_sql (sql_constraint ''FOREIGN KEY constraint failed'') context)
      else Inr (db\<lparr>supervisor_owners := supervisor_owners db @ [w]\<rparr>))"

text \<open>The branch of \<open>bind_supervisor_owner\<close> on an Attempt that already has an owner row.\<close>

definition existing_owner ::
  "host \<Rightarrow> AttemptRecord \<Rightarrow> owner_row \<Rightarrow> string \<Rightarrow> string \<Rightarrow> (AttemptRecord, unit) tx_end result" where
  "existing_owner h attempt row owner_digest start_evidence =
     (if sha256_bytes h (ow_json row) \<noteq> ow_digest row
      then Inl (owner_corrupt ''stored Attempt Supervisor Owner digest does not match side truth'')
      else if ow_digest row = owner_digest \<and> a_state attempt \<in> {Running, Stopping}
              \<and> a_runner_start_digest attempt = Some start_evidence
      then Inr (Return attempt)
      else Inl (state_conflict ''Attempt is already bound to a different Supervisor Owner''))"

definition bind_supervisor_owner_tx ::
  "host \<Rightarrow> sql_env \<Rightarrow> string \<Rightarrow> nat \<Rightarrow> AttemptSupervisorOwner \<Rightarrow> nat \<Rightarrow> registry
   \<Rightarrow> (AttemptRecord, unit) tx_end result" where
  "bind_supervisor_owner_tx h env attempt_id expected_row_version owner observed_at_ms db =
     (let owner_json = h_owner_print h owner;
          owner_digest = sha256_bytes h owner_json;
          start_evidence = start_evidence_digest owner
      in rbind (load_attempt db attempt_id) (\<lambda>attempt.
         case tbl_lookup ow_attempt_id (supervisor_owners db) attempt_id of
           Some row \<Rightarrow> existing_owner h attempt row owner_digest start_evidence
         | None \<Rightarrow>
             if a_state attempt \<notin> {Starting, Recovering, Stopping}
                \<or> a_row_version attempt \<noteq> expected_row_version
             then Inl (state_conflict ''Attempt is not bindable to this Supervisor Owner'')
             else rbind (insert_supervisor_owner
                    \<lparr>ow_attempt_id = attempt_id, ow_json = owner_json, ow_digest = owner_digest\<rparr>
                    ''cannot persist Attempt Supervisor Owner'' db) (\<lambda>db1.
               rbind (update_attempts
                    (\<lambda>a. a_attempt_id a = attempt_id
                         \<and> (a_row_version a = expected_row_version
                            \<and> a_state a \<in> {Starting, Recovering, Stopping}))
                    (\<lambda>a. a\<lparr>a_state := (if a_state a = Stopping then Stopping else Running),
                           a_runner_start_digest := Some start_evidence,
                           a_started_at_ms := coalesce (a_started_at_ms a) observed_at_ms,
                           a_row_version := a_row_version a + 1\<rparr>)
                    ''cannot bind Attempt Supervisor Owner'' db1) (\<lambda>(changed, db2).
                 if changed \<noteq> 1
                 then Inl (state_conflict ''Attempt changed while binding Supervisor Owner'')
                 else rbind (append_event h env 0 (a_job_id attempt) (Some attempt_id) ''RUNNER_BOUND''
                        ''SYSTEM_OBSERVED'' (Some (a_state attempt))
                        (Some (if a_state attempt = Stopping then Stopping else Running))
                        ''SUPERVISOR_OWNER_MATCHED''
                        (JObject [(''ownerContract'', JString (contract_name owner)),
                                  (''ownerDigest'', JString owner_digest)])
                        observed_at_ms db2) (\<lambda>db3.
                   Inr (Commit ''cannot commit Attempt Supervisor Owner'' () db3))))))"

definition bind_supervisor_owner ::
  "host \<Rightarrow> sql_env \<Rightarrow> registry \<Rightarrow> string \<Rightarrow> nat \<Rightarrow> AttemptSupervisorOwner \<Rightarrow> nat
   \<Rightarrow> AttemptRecord result \<times> registry" where
  "bind_supervisor_owner h env db attempt_id expected_row_version owner observed_at_ms =
     (case validate_attempt_supervisor_owner owner of
        Inl e \<Rightarrow> (Inl e, db)
      | Inr _ \<Rightarrow> transact env ''supervisor-owner bind transaction'' db
          (bind_supervisor_owner_tx h env attempt_id expected_row_version owner observed_at_ms)
          (\<lambda>now _. reload_attempt env now attempt_id) commit_map_err)"

section \<open>Deadline\<close>

definition request_deadline_termination_tx ::
  "host \<Rightarrow> sql_env \<Rightarrow> string \<Rightarrow> nat \<Rightarrow> registry \<Rightarrow> (AttemptRecord, unit) tx_end result" where
  "request_deadline_termination_tx h env attempt_id observed_at_ms db =
     rbind (load_attempt db attempt_id) (\<lambda>attempt.
     rbind (load_job db (a_job_id attempt)) (\<lambda>job.
     if is_terminal (a_state attempt)
        \<or> a_termination_intent attempt = DeadlineExceeded
        \<or> a_termination_intent attempt = StopRequested
        \<or> j_desired_state job = DesiredCancelled
     then Inr (Commit ''cannot close deadline-intent replay'' () db)
     else if j_resolution job \<noteq> None
     then Inl (error_new ReconciliationRequired ''unresolved Attempt belongs to a resolved Job''
            (Some ''attemptId'') False)
     else if a_state attempt \<notin> {Starting, Running, Recovering, Stopping}
     then Inl (error_new AttemptStateConflict
            ''deadline termination requires a dispatched nonterminal Attempt'' (Some ''attemptId'') False)
     else rbind (update_attempts
            (\<lambda>a. a_attempt_id a = attempt_id
                 \<and> (a_row_version a = a_row_version attempt
                    \<and> a_state a \<in> {Starting, Running, Recovering, Stopping}
                    \<and> a_termination_intent a = Natural))
            (\<lambda>a. a\<lparr>a_state := Stopping, a_termination_intent := DeadlineExceeded,
                   a_row_version := a_row_version a + 1\<rparr>)
            ''cannot persist Attempt deadline intent'' db) (\<lambda>(changed, db1).
       if changed \<noteq> 1
       then Inl (state_conflict ''Attempt changed while committing outer deadline intent'')
       else rbind (append_event h env 0 (a_job_id attempt) (Some attempt_id) ''DEADLINE_EXCEEDED''
              ''SYSTEM_DERIVED'' (Some (a_state attempt)) (Some Stopping)
              ''OUTER_DEADLINE_INTENT_COMMITTED'' (JObject []) observed_at_ms db1) (\<lambda>db2.
         Inr (Commit ''cannot commit Attempt deadline intent'' () db2)))))"

definition request_deadline_termination ::
  "host \<Rightarrow> sql_env \<Rightarrow> registry \<Rightarrow> string \<Rightarrow> nat \<Rightarrow> AttemptRecord result \<times> registry" where
  "request_deadline_termination h env db attempt_id observed_at_ms =
     transact env ''deadline-intent transaction'' db
       (request_deadline_termination_tx h env attempt_id observed_at_ms)
       (\<lambda>now _. reload_attempt env now attempt_id) commit_map_err"

section \<open>Cancellation\<close>

text \<open>
  The payload of the commit tells whether a failure is reconciled; the replay on a Job with another
  resolution only closes its transaction.
\<close>

definition cancel_orphaned_tx ::
  "host \<Rightarrow> sql_env \<Rightarrow> RuntimeJobRecord \<Rightarrow> nat \<Rightarrow> registry \<Rightarrow> (JobProjection, bool) tx_end result" where
  "cancel_orphaned_tx h env job observed_at_ms db =
     (let job_id = j_job_id job in
      rbind (ok_or (latest_attempt_id db job_id)
               (error_new RegistryCorrupt ''orphaned Job has no Attempt'' (Some ''jobId'') False)) (\<lambda>attempt_id.
      rbind (load_attempt db attempt_id) (\<lambda>attempt.
      rbind (load_reservation db attempt_id) (\<lambda>reservation.
      if a_state attempt \<noteq> Orphaned \<or> r_state reservation \<noteq> HeldOrphaned
      then Inl (error_new ReconciliationRequired
             ''orphaned Job is not backed by a held orphaned Attempt'' (Some ''jobId'') False)
      else
        let intent_changed = (j_desired_state job \<noteq> DesiredCancelled
                              \<or> a_termination_intent attempt \<noteq> StopRequested) in
        rbind (update_jobs
          (\<lambda>j. j_job_id j = job_id \<and> (j_resolution j = Some ResOrphaned \<and> j_desired_state j \<noteq> DesiredCancelled))
          (\<lambda>j. j\<lparr>j_desired_state := DesiredCancelled, j_row_version := j_row_version j + 1\<rparr>)
          ''cannot persist orphan cancel intent'' db) (\<lambda>(_, db1).
        rbind (update_attempts
          (\<lambda>a. a_attempt_id a = attempt_id \<and> (a_state a = Orphaned \<and> a_termination_intent a \<noteq> StopRequested))
          (\<lambda>a. a\<lparr>a_termination_intent := StopRequested, a_row_version := a_row_version a + 1\<rparr>)
          ''cannot persist orphan stop intent'' db1) (\<lambda>(_, db2).
        rbind (if intent_changed
               then append_event h env 0 job_id (Some attempt_id) ''STOP_REQUESTED'' ''SYSTEM_DERIVED''
                      (Some Orphaned) (Some Orphaned) ''ORPHAN_CANCEL_INTENT_COMMITTED'' (JObject [])
                      observed_at_ms db2
               else Inr db2) (\<lambda>db3.
        Inr (Commit ''cannot commit orphan cancel intent'' True db3))))))))"

definition cancel_before_dispatch ::
  "host \<Rightarrow> sql_env \<Rightarrow> string \<Rightarrow> string \<Rightarrow> nat \<Rightarrow> registry \<Rightarrow> registry result" where
  "cancel_before_dispatch h env job_id attempt_id observed_at_ms db =
     (let result_digest = sha256_bytes h
            (''runtime-cancel-before-dispatch'' @ [NUL] @ job_id @ [NUL] @ attempt_id) in
      rbind (update_attempts
        (\<lambda>a. a_attempt_id a = attempt_id \<and> a_state a = Accepted)
        (\<lambda>a. a\<lparr>a_state := Cancelled, a_termination_intent := StopRequested,
               a_result_digest := Some result_digest, a_finished_at_ms := Some observed_at_ms,
               a_row_version := a_row_version a + 1\<rparr>)
        ''cannot cancel accepted Attempt'' db) (\<lambda>(_, db1).
      rbind (release_reservation attempt_id observed_at_ms ''CANCELLED_BEFORE_DISPATCH'' db1) (\<lambda>db2.
      rbind (update_jobs
        (\<lambda>j. j_job_id j = job_id \<and> j_resolution j = None)
        (\<lambda>j. j\<lparr>j_resolution := Some ResCancelled, j_current_attempt_id := None,
               j_row_version := j_row_version j + 1\<rparr>)
        ''cannot resolve cancelled Job'' db2) (\<lambda>(_, db3).
      append_event h env 0 job_id (Some attempt_id) ''STOP_REQUESTED'' ''SYSTEM_DERIVED''
        (Some Accepted) (Some Cancelled) ''CANCELLED_BEFORE_DISPATCH'' (JObject []) observed_at_ms db3))))"

definition cancel_after_dispatch ::
  "host \<Rightarrow> sql_env \<Rightarrow> string \<Rightarrow> AttemptRecord \<Rightarrow> nat \<Rightarrow> registry \<Rightarrow> registry result" where
  "cancel_after_dispatch h env job_id attempt observed_at_ms db =
     (let attempt_id = a_attempt_id attempt in
      rbind (update_attempts
        (\<lambda>a. a_attempt_id a = attempt_id \<and> a_state a \<in> {Starting, Running, Recovering})
        (\<lambda>a. a\<lparr>a_state := Stopping, a_termination_intent := StopRequested,
               a_row_version := a_row_version a + 1\<rparr>)
        ''cannot move Attempt to stopping'' db) (\<lambda>(_, db1).
      append_event h env 0 job_id (Some attempt_id) ''STOP_REQUESTED'' ''SYSTEM_DERIVED''
        (Some (a_state attempt)) (Some Stopping) ''CANCEL_INTENT_COMMITTED'' (JObject [])
        observed_at_ms db1))"

definition request_cancel_tx ::
  "host \<Rightarrow> sql_env \<Rightarrow> string \<Rightarrow> nat \<Rightarrow> registry \<Rightarrow> (JobProjection, bool) tx_end result" where
  "request_cancel_tx h env job_id observed_at_ms db =
     rbind (load_job db job_id) (\<lambda>job.
     if j_resolution job \<noteq> None then
       (if j_resolution job = Some ResOrphaned
        then cancel_orphaned_tx h env job observed_at_ms db
        else Inr (Commit ''cannot close terminal cancel replay'' False db))
     else
       rbind (ok_or (j_current_attempt_id job)
                (error_new RegistryCorrupt ''unresolved Job has no current Attempt''
                   (Some ''currentAttemptId'') False)) (\<lambda>attempt_id.
       rbind (load_attempt db attempt_id) (\<lambda>attempt.
       if is_terminal (a_state attempt)
       then Inl (error_new ReconciliationRequired ''Attempt is terminal but Job is unresolved''
              (Some ''jobId'') False)
       else
         rbind (update_jobs (\<lambda>j. j_job_id j = job_id \<and> j_resolution j = None)
                  (\<lambda>j. j\<lparr>j_desired_state := DesiredCancelled, j_row_version := j_row_version j + 1\<rparr>)
                  ''cannot persist cancel intent'' db) (\<lambda>(_, db1).
         rbind (if a_state attempt = Accepted
                then cancel_before_dispatch h env job_id attempt_id observed_at_ms db1
                else if a_state attempt \<noteq> Stopping
                then cancel_after_dispatch h env job_id attempt observed_at_ms db1
                else Inr db1) (\<lambda>db2.
         Inr (Commit ''cannot commit cancel intent'' True db2))))))"

definition project_snapshot :: "sql_env \<Rightarrow> registry \<Rightarrow> string \<Rightarrow> JobProjection result" where
  "project_snapshot env now job_id = rbind (load_job_snapshot env now job_id) (\<lambda>s. Inr (js_projection s))"

definition reconcile_cancel_commit_failure ::
  "sql_env \<Rightarrow> string \<Rightarrow> string \<Rightarrow> bool \<Rightarrow> sql_error \<Rightarrow> registry \<Rightarrow> JobProjection result" where
  "reconcile_cancel_commit_failure env job_id context autocommit error now =
     (let commit_error = from_sql error context in
      if \<not> autocommit
      then Inl (unknown_commit_outcome
             ''cancel-intent commit outcome remains inside an open SQLite transaction'' commit_error None)
      else (case load_job_snapshot env now job_id of
          Inr snapshot \<Rightarrow>
            if j_resolution (js_job snapshot) \<noteq> None then Inr (js_projection snapshot)
            else if j_desired_state (js_job snapshot) = DesiredCancelled
                    \<and> (case js_attempt snapshot of None \<Rightarrow> False
                       | Some a \<Rightarrow> a_termination_intent a = StopRequested)
            then Inr (js_projection snapshot)
            else if j_desired_state (js_job snapshot) = Run
                    \<and> (case js_attempt snapshot of None \<Rightarrow> False
                       | Some a \<Rightarrow> a_termination_intent a = Natural)
            then Inl (commit_error\<lparr>err_retryable := True\<rparr>)
            else Inl (committed_reconciliation (j_job_id (js_job snapshot))
                   ''cancel-intent commit raced with another durable Job/Attempt transition'')
        | Inl reconcile_error \<Rightarrow>
            Inl (unknown_commit_outcome ''cancel-intent commit outcome cannot be proven''
              commit_error (Some reconcile_error))))"

definition request_cancel ::
  "host \<Rightarrow> sql_env \<Rightarrow> registry \<Rightarrow> string \<Rightarrow> nat \<Rightarrow> JobProjection result \<times> registry" where
  "request_cancel h env db job_id observed_at_ms =
     transact env ''cancel-intent transaction'' db
       (request_cancel_tx h env job_id observed_at_ms)
       (\<lambda>now _. project_snapshot env now job_id)
       (\<lambda>context reconciled autocommit error now.
          if reconciled then reconcile_cancel_commit_failure env job_id context autocommit error now
          else Inl (from_sql error context))"

section \<open>Terminal commit\<close>

definition artifact_record :: "AttemptRecord \<Rightarrow> nat \<Rightarrow> ArtifactRegistration \<Rightarrow> RuntimeArtifactRecord" where
  "artifact_record attempt created_at_ms artifact =
     \<lparr>art_artifact_id = ar_artifact_id artifact, art_job_id = a_job_id attempt,
      art_attempt_id = a_attempt_id attempt, art_kind = ar_kind artifact,
      art_relative_path = ar_relative_path artifact, art_digest = ar_digest artifact,
      art_media_type = ar_media_type artifact, art_byte_length = ar_byte_length artifact,
      art_truncated = ar_truncated artifact, art_created_at_ms = created_at_ms\<rparr>"

definition register_artifact ::
  "string \<Rightarrow> AttemptRecord \<Rightarrow> nat \<Rightarrow> ArtifactRegistration \<Rightarrow> registry \<Rightarrow> registry result" where
  "register_artifact label attempt finished_at_ms artifact db =
     map_err (\<lambda>error. error_new ArtifactIdentityConflict
         (label @ ar_artifact_id artifact @ '': '' @ sql_error_display error) (Some ''artifacts'') False)
       (insert_artifact (artifact_record attempt finished_at_ms artifact) db)"

text \<open>The update of the Attempt row shared by the three terminal writes.\<close>

definition terminal_row :: "TerminalCommit \<Rightarrow> attempt_row \<Rightarrow> attempt_row" where
  "terminal_row request a =
     a\<lparr>a_state := tc_state request, a_result_digest := Some (tc_result_digest request),
       a_exit_code := tc_exit_code request,
       a_infrastructure_error_digest := tc_infrastructure_error_digest request,
       a_finished_at_ms := Some (tc_finished_at_ms request), a_row_version := a_row_version a + 1\<rparr>"

text \<open>
  The writes that make an Attempt terminal and resolve its Job, after the guards: Attempt,
  Artifacts, reservation, Job, two events.
\<close>

definition write_terminal ::
  "host \<Rightarrow> sql_env \<Rightarrow> TerminalCommit \<Rightarrow> AttemptRecord \<Rightarrow> registry \<Rightarrow> registry result" where
  "write_terminal h env request attempt db =
     rbind (update_attempts
       (\<lambda>a. a_attempt_id a = tc_attempt_id request
            \<and> (a_row_version a = tc_expected_row_version request \<and> \<not> is_terminal (a_state a)))
       (terminal_row request)
       ''cannot commit terminal Attempt'' db) (\<lambda>(changed, db1).
     if changed \<noteq> 1 then Inl (state_conflict ''Attempt changed during terminal commit'')
     else
     rbind (fold_res (register_artifact ''cannot register Artifact '' attempt (tc_finished_at_ms request))
              (tc_artifacts request) db1) (\<lambda>db2.
     rbind (if tc_state request = Orphaned
            then hold_orphaned_reservation (a_attempt_id attempt) (tc_finished_at_ms request)
                   (tc_reason_code request) db2
            else release_reservation (a_attempt_id attempt) (tc_finished_at_ms request)
                   (tc_reason_code request) db2) (\<lambda>db3.
     rbind (resolution_for_state (tc_state request)) (\<lambda>resolution.
     rbind (update_jobs (\<lambda>j. j_job_id j = a_job_id attempt \<and> j_resolution j = None)
              (\<lambda>j. j\<lparr>j_resolution := Some resolution, j_current_attempt_id := None,
                     j_row_version := j_row_version j + 1\<rparr>)
              ''cannot resolve Job'' db3) (\<lambda>(_, db4).
     rbind (append_event h env 0 (a_job_id attempt) (Some (a_attempt_id attempt)) ''PROCESS_EXITED''
              ''SYSTEM_OBSERVED'' (Some (a_state attempt)) (Some (tc_state request))
              (tc_reason_code request)
              (JObject [(''resultDigest'', JString (tc_result_digest request)),
                        (''exitCode'', json_exit_code (tc_exit_code request))])
              (tc_finished_at_ms request) db4) (\<lambda>db5.
     append_event h env 1 (a_job_id attempt) (Some (a_attempt_id attempt)) ''JOB_TERMINAL''
       ''SYSTEM_DERIVED'' (Some (a_state attempt)) (Some (tc_state request)) (tc_reason_code request)
       (JObject [(''resolution'', JString (resolution_as_db resolution))])
       (tc_finished_at_ms request) db5))))))"

text \<open>The payload is the Job id and whether a failed commit is reconciled.\<close>

definition commit_terminal_tx ::
  "host \<Rightarrow> sql_env \<Rightarrow> TerminalCommit \<Rightarrow> registry \<Rightarrow> (JobProjection, string \<times> bool) tx_end result" where
  "commit_terminal_tx h env request db =
     rbind (load_attempt db (tc_attempt_id request)) (\<lambda>attempt.
     rbind (load_job db (a_job_id attempt)) (\<lambda>job.
     if is_terminal (a_state attempt) then
       (if a_result_digest attempt = Some (tc_result_digest request) \<and> a_state attempt = tc_state request
        then Inr (Commit ''cannot close terminal replay'' (j_job_id job, False) db)
        else Inl (error_new ResultIdentityConflict ''Attempt already has a different terminal result''
               (Some ''resultDigest'') False))
     else if a_row_version attempt \<noteq> tc_expected_row_version request
     then Inl (state_conflict ''Attempt row version changed before terminal commit'')
     else if \<not> can_transition_to (a_state attempt) (tc_state request)
     then Inl (state_conflict (''invalid Attempt transition '' @ state_debug (a_state attempt)
            @ '' -> '' @ state_debug (tc_state request)))
     else if j_resolution job \<noteq> None
     then Inl (error_new JobAlreadyResolved ''Job is already resolved'' (Some ''jobId'') False)
     else rbind (write_terminal h env request attempt db) (\<lambda>db'.
       Inr (Commit ''cannot commit terminal transaction'' (a_job_id attempt, True) db'))))"

definition reconcile_terminal_commit_failure ::
  "sql_env \<Rightarrow> TerminalCommit \<Rightarrow> string \<Rightarrow> bool \<Rightarrow> sql_error \<Rightarrow> registry \<Rightarrow> JobProjection result" where
  "reconcile_terminal_commit_failure env request context autocommit error now =
     (let commit_error = from_sql error context in
      if \<not> autocommit
      then Inl (unknown_commit_outcome
             ''terminal commit outcome remains inside an open SQLite transaction'' commit_error None)
      else (case reload_attempt env now (tc_attempt_id request) of
          Inr current \<Rightarrow>
            if a_state current = tc_state request
               \<and> a_result_digest current = Some (tc_result_digest request)
            then (case load_job_snapshot env now (a_job_id current) of
                Inr snapshot \<Rightarrow> Inr (js_projection snapshot)
              | Inl reconcile_error \<Rightarrow> Inl (committed_reconciliation (a_job_id current)
                  (''terminal result committed but Job projection requires reconciliation: ''
                   @ err_message reconcile_error)))
            else if \<not> is_terminal (a_state current)
                    \<and> a_row_version current = tc_expected_row_version request
            then Inl (commit_error\<lparr>err_retryable := True\<rparr>)
            else Inl (committed_reconciliation (a_job_id current)
                   ''terminal commit raced with another durable Attempt transition'')
        | Inl reconcile_error \<Rightarrow>
            Inl (unknown_commit_outcome ''terminal commit outcome cannot be proven''
              commit_error (Some reconcile_error))))"

definition commit_terminal ::
  "host \<Rightarrow> sql_env \<Rightarrow> registry \<Rightarrow> TerminalCommit \<Rightarrow> JobProjection result \<times> registry" where
  "commit_terminal h env db request =
     (if \<not> is_terminal (tc_state request)
      then (Inl (error_invalid ''terminal commit requires a terminal Attempt state'' ''state''), db)
      else case rbind (validate_digest (tc_result_digest request) ''resultDigest'')
             (\<lambda>_. for_each validate_artifact_registration (tc_artifacts request)) of
        Inl e \<Rightarrow> (Inl e, db)
      | Inr _ \<Rightarrow> transact env ''terminal transaction'' db (commit_terminal_tx h env request)
          (\<lambda>now y. project_snapshot env now (fst y))
          (\<lambda>context y autocommit error now.
             if snd y then reconcile_terminal_commit_failure env request context autocommit error now
             else Inl (from_sql error context)))"

end
