(* ===== verification/Registry_Statements.thy ===== *)
theory Registry_Statements
  imports Registry_Lifecycle
begin

text \<open>
  What the registry's statements and helpers do to a database whose tables have distinct keys:
  each \<open>UPDATE ... WHERE id=?\<close> replaces one row or none, an appended event gets the next sequence
  number of its Job, releasing or holding a reservation rewrites that one row, and registering
  Artifacts only appends to their table.
\<close>

definition keys_ok :: "registry \<Rightarrow> bool" where
  "keys_ok db \<longleftrightarrow> distinct (map j_job_id (jobs db)) \<and> distinct (map a_attempt_id (attempts db))
     \<and> distinct (map r_attempt_id (reservations db))"

lemma keys_okD:
  assumes "keys_ok db"
  shows "distinct (map j_job_id (jobs db))" "distinct (map a_attempt_id (attempts db))"
    "distinct (map r_attempt_id (reservations db))"
  using assms by (auto simp: keys_ok_def)

section \<open>Updates\<close>

lemma rbind_pairE:
  assumes "rbind m (\<lambda>(x, z). f x z) = Inr y"
  obtains x z where "m = Inr (x, z)" and "f x z = Inr y"
  using assms by (cases m) auto

lemma guard_Inr: "(if b then Inl e else m) = Inr x \<Longrightarrow> \<not> b \<and> m = Inr x"
  by (simp split: if_splits)

lemma update_attempts_key:
  assumes "update_attempts (\<lambda>x. a_attempt_id x = k \<and> Q x) f ctx db = Inr (n, db')"
    and "distinct (map a_attempt_id (attempts db))"
    and "tbl_lookup a_attempt_id (attempts db) k = Some a"
  shows "n = (if Q a then 1 else 0)"
    and "db' = db\<lparr>attempts := (if Q a then tbl_put a_attempt_id k (f a) (attempts db) else attempts db)\<rparr>"
proof -
  from assms(1) have n: "n = tbl_count (\<lambda>x. a_attempt_id x = k \<and> Q x) (attempts db)"
    and db': "db' = db\<lparr>attempts := tbl_modify (\<lambda>x. a_attempt_id x = k \<and> Q x) f (attempts db)\<rparr>"
    unfolding update_attempts_def by (auto split: if_splits)
  show "n = (if Q a then 1 else 0)"
    using n attempt_rows.changed_key[OF assms(2), of k Q] assms(3) by simp
  show "db' = db\<lparr>attempts := (if Q a then tbl_put a_attempt_id k (f a) (attempts db) else attempts db)\<rparr>"
    using db' tbl_modify_key[OF assms(2,3)] by simp
qed

lemma update_attempts_one:
  assumes "update_attempts (\<lambda>x. a_attempt_id x = k) f ctx db = Inr (n, db')"
    and "distinct (map a_attempt_id (attempts db))"
    and "tbl_lookup a_attempt_id (attempts db) k = Some a"
  shows "db' = db\<lparr>attempts := tbl_put a_attempt_id k (f a) (attempts db)\<rparr>"
  using update_attempts_key(2)[of k "\<lambda>_. True", simplified, OF assms] .

lemma update_jobs_key:
  assumes "update_jobs (\<lambda>x. j_job_id x = k \<and> Q x) f ctx db = Inr (n, db')"
    and "distinct (map j_job_id (jobs db))"
    and "tbl_lookup j_job_id (jobs db) k = Some j"
  shows "n = (if Q j then 1 else 0)"
    and "db' = db\<lparr>jobs := (if Q j then tbl_put j_job_id k (f j) (jobs db) else jobs db)\<rparr>"
proof -
  from assms(1) have n: "n = tbl_count (\<lambda>x. j_job_id x = k \<and> Q x) (jobs db)"
    and db': "db' = db\<lparr>jobs := tbl_modify (\<lambda>x. j_job_id x = k \<and> Q x) f (jobs db)\<rparr>"
    unfolding update_jobs_def by (auto split: if_splits)
  show "n = (if Q j then 1 else 0)"
    using n job_rows.changed_key[OF assms(2), of k Q] assms(3) by simp
  show "db' = db\<lparr>jobs := (if Q j then tbl_put j_job_id k (f j) (jobs db) else jobs db)\<rparr>"
    using db' tbl_modify_key[OF assms(2,3)] by simp
qed

lemma update_reservations_key:
  assumes "update_reservations (\<lambda>x. r_attempt_id x = k \<and> Q x) f ctx db = Inr (n, db')"
    and "distinct (map r_attempt_id (reservations db))"
    and "tbl_lookup r_attempt_id (reservations db) k = Some r"
  shows "n = (if Q r then 1 else 0)"
    and "db' = db\<lparr>reservations := (if Q r then tbl_put r_attempt_id k (f r) (reservations db) else reservations db)\<rparr>"
proof -
  from assms(1) have n: "n = tbl_count (\<lambda>x. r_attempt_id x = k \<and> Q x) (reservations db)"
    and db': "db' = db\<lparr>reservations := tbl_modify (\<lambda>x. r_attempt_id x = k \<and> Q x) f (reservations db)\<rparr>"
    unfolding update_reservations_def by (auto split: if_splits)
  show "n = (if Q r then 1 else 0)"
    using n reservation_rows.changed_key[OF assms(2), of k Q] assms(3) by simp
  show "db' = db\<lparr>reservations := (if Q r then tbl_put r_attempt_id k (f r) (reservations db) else reservations db)\<rparr>"
    using db' tbl_modify_key[OF assms(2,3)] by simp
qed

section \<open>Reservations\<close>

text \<open>
  Either helper leaves the reservation of the Attempt in the target state, changing nothing else
  of the database and no row but that one.
\<close>

lemma release_reservation_Inr:
  assumes "release_reservation k at reason db = Inr db'"
    and "distinct (map r_attempt_id (reservations db))"
    and "tbl_lookup r_attempt_id (reservations db) k = Some r"
  obtains r' where "db' = db\<lparr>reservations := tbl_put r_attempt_id k r' (reservations db)\<rparr>"
    and "r_attempt_id r' = k" and "r_state r' = Released"
    and "r_state r = Released \<longrightarrow> r' = r" and "r_reservation_id r' = r_reservation_id r"
proof -
  let ?f = "\<lambda>r :: reservation_row. r\<lparr>r_state := Released, r_released_at_ms := Some at,
      r_release_reason := Some reason, r_state_observed_at_ms := at\<rparr>"
  from assms(1) obtain n db1 where u: "update_reservations
       (\<lambda>r. r_attempt_id r = k \<and> holds_capacity (r_state r)) ?f ''cannot release reservation'' db = Inr (n, db1)"
    and rest: "(if n = 0 then
       (case tbl_lookup r_attempt_id (reservations db) k of
          None \<Rightarrow> Inl (error_new ReservationStateConflict ''reservation is missing'' (Some ''attemptId'') False)
        | Some r \<Rightarrow>
            if reservation_as_db (r_state r) \<noteq> ''released''
            then Inl (error_new ReservationStateConflict
                   (''reservation cannot be released from '' @ reservation_as_db (r_state r))
                   (Some ''attemptId'') False)
            else Inr db1)
      else Inr db1) = Inr db'"
    unfolding release_reservation_def by (rule rbind_pairE)
  note key = update_reservations_key[OF u assms(2,3)]
  have db1: "db1 = db'" using rest by (auto split: if_splits option.splits)
  have rk: "r_attempt_id r = k" using assms(3) by (rule tbl_lookup_SomeD)
  show ?thesis
  proof (cases "holds_capacity (r_state r)")
    case True
    have "r_state r \<noteq> Released" using True by (auto simp: holds_capacity_def)
    with True key(2) db1 rk that[of "?f r"] show ?thesis by simp
  next
    case False
    then have "r_state r = Released" by (cases "r_state r") (auto simp: holds_capacity_def)
    with False key(2) db1 rk that[of r] tbl_put_id[OF assms(2,3)] show ?thesis by simp
  qed
qed

lemma hold_orphaned_reservation_Inr:
  assumes "hold_orphaned_reservation k at reason db = Inr db'"
    and "distinct (map r_attempt_id (reservations db))"
    and "tbl_lookup r_attempt_id (reservations db) k = Some r"
  obtains r' where "db' = db\<lparr>reservations := tbl_put r_attempt_id k r' (reservations db)\<rparr>"
    and "r_attempt_id r' = k" and "r_state r' = HeldOrphaned" and "holds_capacity (r_state r)"
    and "r_reservation_id r' = r_reservation_id r"
proof -
  let ?f = "\<lambda>r :: reservation_row. r\<lparr>r_state := HeldOrphaned, r_released_at_ms := None,
      r_release_reason := Some reason, r_state_observed_at_ms := at\<rparr>"
  from assms(1) obtain n db1 where u: "update_reservations
       (\<lambda>r. r_attempt_id r = k \<and> holds_capacity (r_state r)) ?f ''cannot hold orphaned reservation'' db
       = Inr (n, db1)" and "(if n \<noteq> 1 then Inl (error_new ReservationStateConflict
            ''orphaned Attempt has no active reservation'' (Some ''attemptId'') False)
     else Inr db1) = Inr db'"
    unfolding hold_orphaned_reservation_def by (rule rbind_pairE)
  from guard_Inr[OF this(2)] have n: "n = 1" and db1: "db1 = db'" by auto
  note key = update_reservations_key[OF u assms(2,3)]
  have h: "holds_capacity (r_state r)"
    by (rule ccontr) (use key(1) n in simp)
  have rk: "r_attempt_id r = k" using assms(3) by (rule tbl_lookup_SomeD)
  show ?thesis
  proof (rule that[of "?f r"])
    show "db' = db\<lparr>reservations := tbl_put r_attempt_id k (?f r) (reservations db)\<rparr>"
      using h key(2) db1 by simp
  qed (use h rk in simp_all)
qed

section \<open>Events\<close>

definition next_sequence :: "job_event list \<Rightarrow> string \<Rightarrow> nat" where
  "next_sequence log job_id = foldr max (map ev_sequence (filter (\<lambda>e. ev_job_id e = job_id) log)) 0 + 1"

lemma next_event_sequence_log: "next_event_sequence db job_id = next_sequence (job_events db) job_id"
  by (simp add: next_event_sequence_def next_sequence_def)

text \<open>Events appended one after the other, all of one Attempt.\<close>

fun appended :: "job_event list \<Rightarrow> string \<Rightarrow> string \<Rightarrow> job_event list \<Rightarrow> bool" where
  "appended log job_id attempt_id [] = True"
| "appended log job_id attempt_id (e # es) \<longleftrightarrow>
     ev_job_id e = job_id \<and> ev_attempt_id e = Some attempt_id
     \<and> ev_sequence e = next_sequence log job_id
     \<and> ev_event_id e \<notin> ev_event_id ` set log
     \<and> appended (log @ [e]) job_id attempt_id es"

lemma append_event_Inr:
  assumes "append_event h env k job_id (Some attempt_id) type origin prev new reason detail at db = Inr db'"
  obtains e where "db' = db\<lparr>job_events := job_events db @ [e]\<rparr>" and "ev_type e = type"
    and "appended (job_events db) job_id attempt_id [e]" and "ev_new_state e = new"
    and "ev_previous_state e = prev" and "ev_reason_code e = reason" and "ev_observed_at_ms e = at"
proof -
  let ?e = "\<lparr>ev_event_id = ''event-'' @ te_uuid env k, ev_job_id = job_id, ev_attempt_id = Some attempt_id,
         ev_sequence = next_event_sequence db job_id, ev_type = type, ev_origin = origin,
         ev_previous_state = prev, ev_new_state = new, ev_reason_code = reason,
         ev_detail_json = h_json_print h detail, ev_detail_digest = sha256_bytes h (h_json_print h detail),
         ev_observed_at_ms = at\<rparr>"
  have i: "insert_event ?e ''cannot append Job event'' db = Inr db'"
    using assms unfolding append_event_def Let_def .
  then have fresh: "ev_event_id ?e \<notin> ev_event_id ` set (job_events db)"
    and db': "db' = db\<lparr>job_events := job_events db @ [?e]\<rparr>"
    unfolding insert_event_def by (auto simp: list_ex_iff split: if_splits)
  then show ?thesis using that[of ?e] by (simp add: next_event_sequence_log)
qed

section \<open>Artifacts\<close>

lemma register_artifacts_Inr:
  assumes "fold_res (register_artifact label attempt at) arts db = Inr db'"
  shows "db' = db\<lparr>artifacts := artifacts db @ map (artifact_record attempt at) arts\<rparr>"
  using assms
proof (induction arts arbitrary: db)
  case (Cons x arts)
  from Cons.prems obtain db1 where one: "register_artifact label attempt at x db = Inr db1"
    and rest: "fold_res (register_artifact label attempt at) arts db1 = Inr db'" by auto
  from one have "db1 = db\<lparr>artifacts := artifacts db @ [artifact_record attempt at x]\<rparr>"
    unfolding register_artifact_def insert_artifact_def by (auto split: if_splits)
  with Cons.IH[OF rest] show ?case by simp
qed simp

end
