(* ===== verification/Registry_Recovery.thy ===== *)
theory Registry_Recovery
  imports Registry_Lifecycle
begin

text \<open>
  \<open>runtime/registry/recovery.rs\<close> and \<open>reconciliation.rs\<close>, with the administrative repair
  transactions of \<open>registry.rs\<close>: the operations that correct a Job already resolved as lost or
  orphaned, converge a reservation with its terminal Attempt, and record or clear the recovery
  condition of an Attempt.
\<close>

section \<open>Scans\<close>

definition recovery_active :: "attempt_row \<Rightarrow> bool" where
  "recovery_active a = (case a_recovery a of None \<Rightarrow> False | Some rc \<Rightarrow> rc_required rc)"

definition held_orphaned :: "registry \<Rightarrow> attempt_row \<Rightarrow> bool" where
  "held_orphaned db a \<longleftrightarrow> a_state a = Orphaned
     \<and> (case tbl_lookup r_attempt_id (reservations db) (a_attempt_id a) of
          None \<Rightarrow> False | Some r \<Rightarrow> r_state r = HeldOrphaned)"

definition maintenance_class :: "registry \<Rightarrow> attempt_row \<Rightarrow> nat" where
  "maintenance_class db a = (if recovery_active a then 0 else if held_orphaned db a then 1 else 2)"

definition list_maintenance_attempts_bounded ::
  "sql_env \<Rightarrow> registry \<Rightarrow> nat \<Rightarrow> AttemptRecord list result" where
  "list_maintenance_attempts_bounded env db limit =
     (if limit = 0 then Inl (error_invalid ''limit must be positive'' ''limit'')
      else rbind (open_connection env) (\<lambda>_.
        Inr (map attempt_record (take limit (sort_key
          (\<lambda>a. (maintenance_class db a, a_created_at_ms a, a_attempt_id a))
          (filter (\<lambda>a. \<not> is_terminal (a_state a) \<or> held_orphaned db a \<or> recovery_active a)
             (attempts db)))))))"

definition list_held_orphaned_attempts :: "sql_env \<Rightarrow> registry \<Rightarrow> AttemptRecord list result" where
  "list_held_orphaned_attempts env db =
     rbind (open_connection env) (\<lambda>_.
       Inr (map attempt_record (sort_key (\<lambda>a. (a_created_at_ms a, a_attempt_id a))
              (filter (held_orphaned db) (attempts db)))))"

section \<open>Recovering an orphaned Job\<close>

definition write_recovered ::
  "host \<Rightarrow> sql_env \<Rightarrow> TerminalCommit \<Rightarrow> AttemptRecord \<Rightarrow> registry \<Rightarrow> registry result" where
  "write_recovered h env request attempt db =
     rbind (update_attempts
       (\<lambda>a. a_attempt_id a = tc_attempt_id request
            \<and> (a_row_version a = tc_expected_row_version request \<and> a_state a = Orphaned))
       (terminal_row request) ''cannot recover orphaned Attempt'' db) (\<lambda>(changed, db1).
     if changed \<noteq> 1 then Inl (state_conflict ''Attempt changed during orphan recovery'')
     else
     rbind (fold_res (register_artifact ''cannot register recovered Artifact '' attempt
              (tc_finished_at_ms request)) (tc_artifacts request) db1) (\<lambda>db2.
     rbind (release_reservation (a_attempt_id attempt) (tc_finished_at_ms request)
              (tc_reason_code request) db2) (\<lambda>db3.
     rbind (resolution_for_state (tc_state request)) (\<lambda>resolution.
     rbind (update_jobs (\<lambda>j. j_job_id j = a_job_id attempt \<and> j_resolution j = Some ResOrphaned)
              (\<lambda>j. j\<lparr>j_resolution := Some resolution, j_row_version := j_row_version j + 1\<rparr>)
              ''cannot correct orphaned Job resolution'' db3) (\<lambda>(_, db4).
     rbind (append_event h env 0 (a_job_id attempt) (Some (a_attempt_id attempt))
              ''RUNNER_RESULT_RECOVERED'' ''SYSTEM_OBSERVED'' (Some Orphaned) (Some (tc_state request))
              (tc_reason_code request)
              (JObject [(''resultDigest'', JString (tc_result_digest request)),
                        (''exitCode'', json_exit_code (tc_exit_code request))])
              (tc_finished_at_ms request) db4) (\<lambda>db5.
     append_event h env 1 (a_job_id attempt) (Some (a_attempt_id attempt)) ''JOB_RESOLUTION_CORRECTED''
       ''SYSTEM_DERIVED'' (Some Orphaned) (Some (tc_state request)) (tc_reason_code request)
       (JObject [(''resolution'', JString (resolution_as_db resolution))])
       (tc_finished_at_ms request) db5))))))"

definition recover_orphaned_terminal_tx ::
  "host \<Rightarrow> sql_env \<Rightarrow> TerminalCommit \<Rightarrow> registry \<Rightarrow> (JobProjection, string) tx_end result" where
  "recover_orphaned_terminal_tx h env request db =
     rbind (load_attempt db (tc_attempt_id request)) (\<lambda>attempt.
     rbind (load_job db (a_job_id attempt)) (\<lambda>job.
     rbind (load_reservation db (a_attempt_id attempt)) (\<lambda>reservation.
     if a_state attempt \<noteq> Orphaned \<or> j_resolution job \<noteq> Some ResOrphaned
        \<or> r_state reservation \<noteq> HeldOrphaned
     then Inl (error_new OrphanRemediationDenied
            ''Attempt, Job, or reservation changed before Runner-result recovery''
            (Some ''attemptId'') False)
     else if a_row_version attempt \<noteq> tc_expected_row_version request
     then Inl (state_conflict ''Attempt row version changed before orphan recovery'')
     else rbind (write_recovered h env request attempt db) (\<lambda>db'.
       Inr (Commit ''cannot commit orphan recovery'' (a_job_id attempt) db')))))"

definition recover_orphaned_terminal ::
  "host \<Rightarrow> sql_env \<Rightarrow> registry \<Rightarrow> TerminalCommit \<Rightarrow> JobProjection result \<times> registry" where
  "recover_orphaned_terminal h env db request =
     (if tc_state request \<notin> {Succeeded, Failed, TimedOut, Cancelled, Lost}
      then (Inl (error_invalid ''orphan recovery requires a conclusive terminal state'' ''state''), db)
      else case rbind (validate_digest (tc_result_digest request) ''resultDigest'')
             (\<lambda>_. for_each validate_artifact_registration (tc_artifacts request)) of
        Inl e \<Rightarrow> (Inl e, db)
      | Inr _ \<Rightarrow> transact env ''orphan recovery transaction'' db
          (recover_orphaned_terminal_tx h env request)
          (\<lambda>now job_id. project_snapshot env now job_id) commit_map_err)"

section \<open>Administrative repair\<close>

record AdminRepairAudit =
  au_report_fingerprint :: string
  au_case_fingerprint :: string
  au_snapshot_path :: string
  au_snapshot_digest :: string
  au_principal :: string
  au_action :: string
  au_observed_at_ms :: nat
  au_expected_job_row_version :: nat
  au_expected_current_attempt_id :: "string option"
  au_expected_reservation_state :: ReservationState

datatype AdminRepairOperation =
    RepairTerminal TerminalCommit AdminRepairAudit
  | RepairReservation string nat AdminRepairAudit

definition audit_detail :: "AdminRepairAudit \<Rightarrow> (string \<times> json) list" where
  "audit_detail audit =
     [(''action'', JString (au_action audit)), (''principal'', JString (au_principal audit)),
      (''reportFingerprint'', JString (au_report_fingerprint audit)),
      (''caseFingerprint'', JString (au_case_fingerprint audit)),
      (''snapshotPath'', JString (au_snapshot_path audit)),
      (''snapshotDigest'', JString (au_snapshot_digest audit))]"

definition plan_stale :: RuntimeError where
  "plan_stale = error_new ReconciliationRequired
     ''Runtime state changed after the Doctor plan was created'' (Some ''caseFingerprint'') False"

text \<open>\<open>k\<close> is the number of events the batch has appended before.\<close>

definition write_repaired_terminal ::
  "host \<Rightarrow> sql_env \<Rightarrow> nat \<Rightarrow> TerminalCommit \<Rightarrow> AdminRepairAudit \<Rightarrow> AttemptRecord \<Rightarrow> registry \<Rightarrow> registry result" where
  "write_repaired_terminal h env k request audit attempt db =
     rbind (update_attempts
       (\<lambda>a. a_attempt_id a = tc_attempt_id request
            \<and> (a_row_version a = tc_expected_row_version request \<and> a_state a = a_state attempt))
       (terminal_row request) ''cannot repair terminal Attempt'' db) (\<lambda>(changed, db1).
     if changed \<noteq> 1 then Inl (state_conflict ''Attempt changed during administrative repair'')
     else
     rbind (fold_res (register_artifact ''cannot register administrative repair Artifact '' attempt
              (tc_finished_at_ms request)) (tc_artifacts request) db1) (\<lambda>db2.
     rbind (update_attempts (\<lambda>a. a_attempt_id a = a_attempt_id attempt)
              (\<lambda>a. a\<lparr>a_recovery := Some \<lparr>rc_required = False, rc_reason_code = ''ADMIN_REPAIR_COMPLETED'',
                       rc_evidence_digest = au_case_fingerprint audit,
                       rc_observed_at_ms = au_observed_at_ms audit\<rparr>\<rparr>)
              ''cannot record administrative recovery convergence'' db2) (\<lambda>(_, db3).
     rbind (release_reservation (a_attempt_id attempt) (au_observed_at_ms audit)
              ''ADMIN_RUNTIME_REPAIR'' db3) (\<lambda>db4.
     rbind (resolution_for_state (tc_state request)) (\<lambda>resolution.
     rbind (update_jobs
              (\<lambda>j. j_job_id j = a_job_id attempt \<and> j_row_version j = au_expected_job_row_version audit)
              (\<lambda>j. j\<lparr>j_resolution := Some resolution, j_current_attempt_id := None,
                     j_row_version := j_row_version j + 1\<rparr>)
              ''cannot repair Job terminal state'' db4) (\<lambda>(job_changed, db5).
     if job_changed \<noteq> 1 then Inl (state_conflict ''Job changed during administrative repair'')
     else
     let detail = JObject (audit_detail audit
           @ [(''resultDigest'', JString (tc_result_digest request)),
              (''exitCode'', json_exit_code (tc_exit_code request))]) in
     rbind (append_event h env k (a_job_id attempt) (Some (a_attempt_id attempt)) ''ADMIN_TERMINAL_REPAIR''
              ''SYSTEM_OBSERVED'' (Some (a_state attempt)) (Some (tc_state request))
              (tc_reason_code request) detail (au_observed_at_ms audit) db5) (\<lambda>db6.
     append_event h env (k + 1) (a_job_id attempt) (Some (a_attempt_id attempt))
       ''JOB_RESOLUTION_ADMIN_CORRECTED'' ''SYSTEM_DERIVED'' (Some (a_state attempt))
       (Some (tc_state request)) (tc_reason_code request) detail (au_observed_at_ms audit) db6)))))))"

definition repair_terminal_admin_transaction ::
  "host \<Rightarrow> sql_env \<Rightarrow> nat \<Rightarrow> TerminalCommit \<Rightarrow> AdminRepairAudit \<Rightarrow> registry \<Rightarrow> registry result" where
  "repair_terminal_admin_transaction h env k request audit db =
     rbind (validate_digest (tc_result_digest request) ''resultDigest'') (\<lambda>_.
     rbind (for_each validate_artifact_registration (tc_artifacts request)) (\<lambda>_.
     rbind (load_attempt db (tc_attempt_id request)) (\<lambda>attempt.
     rbind (load_job db (a_job_id attempt)) (\<lambda>job.
     rbind (load_reservation db (a_attempt_id attempt)) (\<lambda>reservation.
     let runner_terminal = (tc_state request \<in> {Succeeded, Failed, TimedOut, Cancelled});
         allowed = ((a_state attempt \<in> {Lost, Orphaned} \<and> runner_terminal)
                    \<or> (a_state attempt = Lost \<and> tc_state request = Lost)) in
     if \<not> allowed
     then Inl (error_new OrphanRemediationDenied
            ''administrative repair cannot rewrite this terminal state'' (Some ''attemptId'') False)
     else rbind (resolution_for_state (a_state attempt)) (\<lambda>source_resolution.
       if a_row_version attempt \<noteq> tc_expected_row_version request
          \<or> j_row_version job \<noteq> au_expected_job_row_version audit
          \<or> j_resolution job \<noteq> Some source_resolution
          \<or> j_current_attempt_id job \<noteq> au_expected_current_attempt_id audit
          \<or> r_state reservation \<noteq> au_expected_reservation_state audit
       then Inl plan_stale
       else write_repaired_terminal h env k request audit attempt db))))))"

definition repair_terminal_reservation_admin_transaction ::
  "host \<Rightarrow> sql_env \<Rightarrow> nat \<Rightarrow> string \<Rightarrow> nat \<Rightarrow> AdminRepairAudit \<Rightarrow> registry \<Rightarrow> registry result" where
  "repair_terminal_reservation_admin_transaction h env k attempt_id expected_attempt_row_version audit db =
     rbind (load_attempt db attempt_id) (\<lambda>attempt.
     rbind (load_job db (a_job_id attempt)) (\<lambda>job.
     rbind (load_reservation db attempt_id) (\<lambda>reservation.
     if a_row_version attempt \<noteq> expected_attempt_row_version
        \<or> j_row_version job \<noteq> au_expected_job_row_version audit
        \<or> j_current_attempt_id job \<noteq> au_expected_current_attempt_id audit
        \<or> r_state reservation \<noteq> au_expected_reservation_state audit
     then Inl plan_stale
     else rbind (terminal_reservation_target attempt job) (\<lambda>target.
       if target = r_state reservation then Inr db
       else rbind (if target = HeldOrphaned
              then hold_orphaned_reservation attempt_id (au_observed_at_ms audit) ''ADMIN_RUNTIME_REPAIR'' db
              else release_reservation attempt_id (au_observed_at_ms audit) ''ADMIN_RUNTIME_REPAIR'' db) (\<lambda>db1.
         append_event h env k (a_job_id attempt) (Some attempt_id) ''ADMIN_RESERVATION_REPAIR''
           ''SYSTEM_OBSERVED'' (Some (a_state attempt)) (Some (a_state attempt)) ''ADMIN_RUNTIME_REPAIR''
           (JObject (audit_detail audit
             @ [(''previousReservationState'', JString (reservation_as_db (r_state reservation))),
                (''newReservationState'', JString (reservation_as_db target))]))
           (au_observed_at_ms audit) db1)))))"

definition repair_operation ::
  "host \<Rightarrow> sql_env \<Rightarrow> nat \<times> AdminRepairOperation \<Rightarrow> registry \<Rightarrow> registry result" where
  "repair_operation h env op db =
     (case snd op of
        RepairTerminal terminal audit \<Rightarrow>
          repair_terminal_admin_transaction h env (2 * fst op) terminal audit db
      | RepairReservation attempt_id expected audit \<Rightarrow>
          repair_terminal_reservation_admin_transaction h env (2 * fst op) attempt_id expected audit db)"

definition repair_admin_batch_tx ::
  "host \<Rightarrow> sql_env \<Rightarrow> AdminRepairOperation list \<Rightarrow> registry \<Rightarrow> (unit, unit) tx_end result" where
  "repair_admin_batch_tx h env operations db =
     rbind (fold_res (repair_operation h env) (enumerate 0 operations) db) (\<lambda>db'.
     let remaining = inspect_runtime_invariants db' in
     if remaining \<noteq> []
     then Inl (error_new ReconciliationRequired
            (''administrative Runtime repair would leave '' @ show_nat (length remaining)
             @ '' invariant violations'') (Some ''violations'') False)
     else Inr (Commit ''cannot commit administrative Runtime repair batch'' () db'))"

definition repair_admin_batch ::
  "host \<Rightarrow> sql_env \<Rightarrow> registry \<Rightarrow> AdminRepairOperation list \<Rightarrow> unit result \<times> registry" where
  "repair_admin_batch h env db operations =
     transact env ''administrative Runtime repair batch'' db (repair_admin_batch_tx h env operations)
       (\<lambda>now _. Inr ()) commit_map_err"

section \<open>Converging a terminal reservation\<close>

definition converge_target ::
  "registry \<Rightarrow> string \<Rightarrow> (AttemptRecord \<times> ReservationRecord \<times> ReservationState) result" where
  "converge_target db attempt_id =
     rbind (load_attempt db attempt_id) (\<lambda>attempt.
     rbind (load_job db (a_job_id attempt)) (\<lambda>job.
     rbind (load_reservation db attempt_id) (\<lambda>reservation.
     rbind (terminal_reservation_target attempt job) (\<lambda>target.
     Inr (attempt, reservation, target)))))"

definition converge_terminal_reservation_tx ::
  "host \<Rightarrow> sql_env \<Rightarrow> string \<Rightarrow> nat \<Rightarrow> registry \<Rightarrow> (bool, bool) tx_end result" where
  "converge_terminal_reservation_tx h env attempt_id observed_at_ms db =
     rbind (converge_target db attempt_id) (\<lambda>(attempt, reservation, target).
     if r_state reservation = target
     then Inr (Commit ''cannot close converged terminal reservation'' False db)
     else rbind (if target = HeldOrphaned
            then hold_orphaned_reservation attempt_id observed_at_ms
                   ''TERMINAL_ORPHAN_RESERVATION_CONVERGED'' db
            else release_reservation attempt_id observed_at_ms
                   ''TERMINAL_RESERVATION_CONVERGED'' db) (\<lambda>db1.
       rbind (append_event h env 0 (a_job_id attempt) (Some attempt_id) ''TERMINAL_RESERVATION_CONVERGED''
                ''SYSTEM_DERIVED'' (Some (a_state attempt)) (Some (a_state attempt))
                ''TERMINAL_RESERVATION_CONVERGED''
                (JObject [(''previousReservationState'', JString (reservation_as_db (r_state reservation))),
                          (''newReservationState'', JString (reservation_as_db target))])
                observed_at_ms db1) (\<lambda>db2.
       Inr (Commit ''cannot commit terminal reservation convergence'' True db2))))"

text \<open>It reads once before it begins, and returns when nothing is to be done.\<close>

definition converge_terminal_reservation ::
  "host \<Rightarrow> sql_env \<Rightarrow> registry \<Rightarrow> string \<Rightarrow> nat \<Rightarrow> bool result \<times> registry" where
  "converge_terminal_reservation h env db attempt_id observed_at_ms =
     (case rbind (open_connection env) (\<lambda>_. converge_target db attempt_id) of
        Inl e \<Rightarrow> (Inl e, db)
      | Inr (attempt, reservation, target) \<Rightarrow>
          if r_state reservation = target then (Inr False, db)
          else (case immediate env ''terminal reservation convergence'' of
              Inl e \<Rightarrow> (Inl e, db)
            | Inr _ \<Rightarrow> in_transaction env db
                (converge_terminal_reservation_tx h env attempt_id observed_at_ms)
                (\<lambda>now changed. Inr changed) commit_map_err))"

section \<open>The recovery condition\<close>

definition failure_evidence :: "host \<Rightarrow> string \<Rightarrow> RuntimeError \<Rightarrow> string" where
  "failure_evidence h attempt_id error =
     sha256_bytes h (''runtime-reconciliation-failure'' @ [NUL] @ attempt_id @ [NUL]
       @ error_code_as_str (err_code error) @ [NUL] @ err_message error)"

definition record_reconciliation_failure_tx ::
  "host \<Rightarrow> sql_env \<Rightarrow> string \<Rightarrow> RuntimeError \<Rightarrow> nat \<Rightarrow> registry \<Rightarrow> (unit, unit) tx_end result" where
  "record_reconciliation_failure_tx h env attempt_id error observed_at_ms db =
     rbind (load_attempt db attempt_id) (\<lambda>current.
     rbind (update_attempts (\<lambda>a. a_attempt_id a = a_attempt_id current)
              (\<lambda>a. a\<lparr>a_recovery := Some \<lparr>rc_required = True,
                       rc_reason_code = error_code_as_str (err_code error),
                       rc_evidence_digest = failure_evidence h attempt_id error,
                       rc_observed_at_ms = observed_at_ms\<rparr>\<rparr>)
              ''cannot record recovery state'' db) (\<lambda>(_, db1).
     rbind (append_event h env 0 (a_job_id current) (Some (a_attempt_id current)) ''RECONCILIATION_FAILED''
              ''SYSTEM_OBSERVED'' (Some (a_state current)) None (error_code_as_str (err_code error))
              (JObject [(''message'', JString (err_message error)),
                        (''field'', json_option_string (err_field error)),
                        (''retryable'', JBool (err_retryable error))])
              observed_at_ms db1) (\<lambda>db2.
     Inr (Commit ''cannot commit reconciliation failure'' () db2))))"

definition record_reconciliation_failure ::
  "host \<Rightarrow> sql_env \<Rightarrow> registry \<Rightarrow> AttemptRecord \<Rightarrow> RuntimeError \<Rightarrow> nat \<Rightarrow> unit result \<times> registry" where
  "record_reconciliation_failure h env db attempt error observed_at_ms =
     (case open_connection env of Inl e \<Rightarrow> (Inl e, db) | Inr _ \<Rightarrow>
      let existing = Option.bind (tbl_lookup a_attempt_id (attempts db) (a_attempt_id attempt)) a_recovery
      in if (case existing of None \<Rightarrow> False | Some rc \<Rightarrow>
               rc_required rc \<and> rc_reason_code rc = error_code_as_str (err_code error)
               \<and> rc_evidence_digest rc = failure_evidence h (a_attempt_id attempt) error)
         then (Inr (), db)
         else (case immediate env ''reconciliation failure transaction'' of
             Inl e \<Rightarrow> (Inl e, db)
           | Inr _ \<Rightarrow> in_transaction env db
               (record_reconciliation_failure_tx h env (a_attempt_id attempt) error observed_at_ms)
               (\<lambda>now _. Inr ()) commit_map_err))"

definition clear_reconciliation_failure_tx ::
  "host \<Rightarrow> sql_env \<Rightarrow> string \<Rightarrow> nat \<Rightarrow> registry \<Rightarrow> (unit, unit) tx_end result" where
  "clear_reconciliation_failure_tx h env attempt_id observed_at_ms db =
     rbind (load_attempt db attempt_id) (\<lambda>current.
     rbind (update_attempts (\<lambda>a. a_attempt_id a = attempt_id \<and> recovery_active a)
              (\<lambda>a. a\<lparr>a_recovery := Some \<lparr>rc_required = False, rc_reason_code = ''RECONCILIATION_CONVERGED'',
                       rc_evidence_digest = sha256_bytes h (''runtime-reconciliation-converged'' @ [NUL]
                         @ attempt_id @ [NUL] @ show_nat observed_at_ms),
                       rc_observed_at_ms = observed_at_ms\<rparr>\<rparr>)
              ''cannot clear recovery condition'' db) (\<lambda>(changed, db1).
     rbind (if changed > 0
            then append_event h env 0 (a_job_id current) (Some (a_attempt_id current))
                   ''RECONCILIATION_CONVERGED'' ''SYSTEM_OBSERVED'' (Some (a_state current))
                   (Some (a_state current)) ''RECONCILIATION_CONVERGED'' (JObject []) observed_at_ms db1
            else Inr db1) (\<lambda>db2.
     Inr (Commit ''cannot commit reconciliation success'' () db2))))"

definition clear_reconciliation_failure ::
  "host \<Rightarrow> sql_env \<Rightarrow> registry \<Rightarrow> string \<Rightarrow> nat \<Rightarrow> unit result \<times> registry" where
  "clear_reconciliation_failure h env db attempt_id observed_at_ms =
     (case open_connection env of Inl e \<Rightarrow> (Inl e, db) | Inr _ \<Rightarrow>
      if \<not> attempt_recovery_condition_active db attempt_id then (Inr (), db)
      else (case immediate env ''reconciliation success transaction'' of
          Inl e \<Rightarrow> (Inl e, db)
        | Inr _ \<Rightarrow> in_transaction env db
            (clear_reconciliation_failure_tx h env attempt_id observed_at_ms)
            (\<lambda>now _. Inr ()) commit_map_err))"

end
