(* ===== verification/Registry_Admission.thy ===== *)
theory Registry_Admission
  imports Registry_State
begin

text \<open>
  \<open>runtime/registry/admission.rs\<close>: finding the Job an idempotency key names, the deployment fence,
  and \<open>submit_preallocated\<close>.  The submit transaction is split where the source has its paragraphs:
  what is computed before the transaction (\<open>prepare_admission\<close>), the replay branch, the capacity
  checks, the inserts, and the reconciliation of a failed commit.

  The wall clock and the state of the fence file are arguments.
\<close>

section \<open>Configuration, clock and fence\<close>

record RegistryConfig =
  rc_db_path :: string
  rc_store_root :: string
  rc_busy_timeout_ms :: nat

definition registry_config_validate :: "RegistryConfig \<Rightarrow> unit result" where
  "registry_config_validate cfg =
     (if \<not> path_is_absolute (rc_db_path cfg)
      then Inl (error_invalid ''database path must be absolute'' ''dbPath'')
      else if \<not> path_is_absolute (rc_store_root cfg)
      then Inl (error_invalid ''store root must be absolute'' ''storeRoot'')
      else if rc_busy_timeout_ms cfg = 0
      then Inl (error_invalid ''busy timeout must be positive'' ''busyTimeoutMs'')
      else Inr ())"

text \<open>\<open>Path::join\<close>\<close>

definition path_join :: "string \<Rightarrow> string \<Rightarrow> string" where
  "path_join base p =
     (if path_is_absolute p then p
      else if base = [] \<or> ends_with base ''/'' then base @ p else base @ ''/'' @ p)"

definition attempts_root :: "RegistryConfig \<Rightarrow> string" where
  "attempts_root cfg = path_join (rc_store_root cfg) ''attempts''"

definition attempt_path :: "RegistryConfig \<Rightarrow> string \<Rightarrow> string" where
  "attempt_path cfg attempt_id = path_join (attempts_root cfg) attempt_id"

definition admission_fence_path :: "RegistryConfig \<Rightarrow> string" where
  "admission_fence_path cfg = path_join (rc_store_root cfg) ''admission.lock''"

text \<open>\<open>SystemTime::now().duration_since(UNIX_EPOCH)\<close>: the error text, or milliseconds as \<open>u128\<close>.\<close>

definition now_ms :: "string + nat \<Rightarrow> nat result" where
  "now_ms clock =
     (case clock of
        Inl message \<Rightarrow> Inl (error_new RegistryUnavailable
          (''system clock precedes Unix epoch: '' @ message) None False)
      | Inr millis \<Rightarrow>
          if millis < 2 ^ 64 then Inr millis
          else Inl (error_new RegistryUnavailable ''current time does not fit u64 milliseconds'' None False))"

datatype fence_state = FenceShared | FenceWouldBlock | FenceOpenFailed string | FenceLockFailed string

definition acquire_admission_fence :: "RegistryConfig \<Rightarrow> fence_state \<Rightarrow> unit result" where
  "acquire_admission_fence cfg fence =
     (let path = admission_fence_path cfg in
      case fence of
        FenceOpenFailed error \<Rightarrow> Inl (error_new RegistryUnavailable
          (''cannot open admission fence '' @ path @ '': '' @ error) None True)
      | FenceShared \<Rightarrow> Inr ()
      | FenceWouldBlock \<Rightarrow> Inl deployment_in_progress
      | FenceLockFailed error \<Rightarrow> Inl (error_new RegistryUnavailable
          (''cannot acquire admission fence '' @ path @ '': '' @ error) None True))"

section \<open>Looking up an idempotency key\<close>

definition find_key :: "registry \<Rightarrow> string \<Rightarrow> string \<Rightarrow> idempotency_key option" where
  "find_key db principal_id client_request_id =
     find (\<lambda>k. ik_principal k = principal_id \<and> ik_client_request_id k = client_request_id) (idempotency_keys db)"

definition find_idempotent_job ::
  "host \<Rightarrow> sql_env \<Rightarrow> registry \<Rightarrow> string \<Rightarrow> string \<Rightarrow> string \<Rightarrow> string option
   \<Rightarrow> RuntimeJobRecord option result" where
  "find_idempotent_job h env db principal_id client_request_id request_identity_digest compatible =
     rbind (validate_identifier principal_id ''principal'') (\<lambda>_.
     rbind (validate_client_request_id client_request_id ''clientRequestId'') (\<lambda>_.
     rbind (validate_request_identity_digest request_identity_digest) (\<lambda>_.
     rbind (case compatible of None \<Rightarrow> Inr () | Some digest \<Rightarrow> validate_request_identity_digest digest) (\<lambda>_.
     rbind (open_connection env) (\<lambda>_.
     case find_key db principal_id client_request_id of
       None \<Rightarrow> Inr None
     | Some key \<Rightarrow>
         rbind (load_job db (ik_job_id key)) (\<lambda>job.
         rbind (job_request_identity_digest h job) (\<lambda>stored_identity.
         if stored_identity \<noteq> request_identity_digest \<and> compatible \<noteq> Some stored_identity
         then Inl idempotency_conflict
         else Inr (Some job))))))))"

section \<open>Capacity\<close>

definition WORKSPACE_EXECUTION_LIMIT :: nat where
  "WORKSPACE_EXECUTION_LIMIT = 1"

text \<open>The join of capacity-holding reservations with their Attempts and Jobs.\<close>

definition capacity_rows :: "registry \<Rightarrow> (reservation_row \<times> RuntimeJobRecord) list" where
  "capacity_rows db =
     [(r, j). r \<leftarrow> reservations db, holds_capacity (r_state r),
              a \<leftarrow> attempts db, a_attempt_id a = r_attempt_id r,
              j \<leftarrow> jobs db, j_job_id j = a_job_id a]"

definition workspace_active :: "registry \<Rightarrow> string \<Rightarrow> nat" where
  "workspace_active db workspace_id =
     length (filter (\<lambda>(r, j). j_workspace_id j = workspace_id) (capacity_rows db))"

definition global_active :: "registry \<Rightarrow> nat" where
  "global_active db = tbl_count (\<lambda>r. holds_capacity (r_state r)) (reservations db)"

fun distinct_first :: "'a list \<Rightarrow> 'a list \<Rightarrow> 'a list" where
  "distinct_first seen [] = []"
| "distinct_first seen (x # xs) =
     (if x \<in> set seen then distinct_first seen xs else x # distinct_first (x # seen) xs)"

definition capacity_holders :: "registry \<Rightarrow> string option \<Rightarrow> nat \<Rightarrow> string list \<times> string list" where
  "capacity_holders db workspace_id limit =
     (let rows = filter (\<lambda>(r, j). case workspace_id of None \<Rightarrow> True | Some w \<Rightarrow> j_workspace_id j = w)
                   (capacity_rows db);
          ordered = sort_key (\<lambda>(r, j). (r_acquired_at_ms r, j_job_id j)) rows;
          selected = take limit (distinct_first [] (map (\<lambda>(r, j). (j_job_id j, j_workspace_id j)) ordered))
      in (map fst selected, distinct_first [] (map snd selected)))"

definition check_workspace_capacity :: "registry \<Rightarrow> string \<Rightarrow> unit result" where
  "check_workspace_capacity db workspace_id =
     (let active = workspace_active db workspace_id in
      if active \<ge> WORKSPACE_EXECUTION_LIMIT
      then (let (holder_job_ids, holder_workspace_ids) =
                  capacity_holders db (Some workspace_id) WORKSPACE_EXECUTION_LIMIT
            in Inl (error_concurrency
              (''workspace execution concurrency limit reached (active='' @ show_nat active
               @ '', limit='' @ show_nat WORKSPACE_EXECUTION_LIMIT @ '')'') ''workspaceId''
              \<lparr>cap_scope = ''workspace'', cap_active = active, cap_limit = WORKSPACE_EXECUTION_LIMIT,
               cap_workspace_id = Some workspace_id, cap_holder_job_ids = holder_job_ids,
               cap_holder_workspace_ids = holder_workspace_ids,
               cap_holders_truncated = (active > WORKSPACE_EXECUTION_LIMIT)\<rparr>))
      else Inr ())"

definition check_global_capacity :: "registry \<Rightarrow> nat \<Rightarrow> unit result" where
  "check_global_capacity db global_limit =
     (let active = global_active db in
      if active \<ge> global_limit
      then (let holder_limit = min global_limit 16;
                (holder_job_ids, holder_workspace_ids) = capacity_holders db None holder_limit
            in Inl (error_concurrency
              (''global execution concurrency limit reached (active='' @ show_nat active
               @ '', limit='' @ show_nat global_limit @ '')'') ''globalLimit''
              \<lparr>cap_scope = ''global'', cap_active = active, cap_limit = global_limit,
               cap_workspace_id = None, cap_holder_job_ids = holder_job_ids,
               cap_holder_workspace_ids = holder_workspace_ids,
               cap_holders_truncated = (active > holder_limit)\<rparr>))
      else Inr ())"

section \<open>Before the transaction\<close>

record PreallocatedAdmissionIds =
  ids_job_id :: string
  ids_attempt_id :: string
  ids_reservation_id :: string

definition preallocate_admission_ids :: "(nat \<Rightarrow> string) \<Rightarrow> PreallocatedAdmissionIds" where
  "preallocate_admission_ids uuid =
     \<lparr>ids_job_id = ''job-'' @ uuid 0, ids_attempt_id = ''attempt-'' @ uuid 1,
      ids_reservation_id = ''reservation-'' @ uuid 2\<rparr>"

definition nul_join :: "string list \<Rightarrow> string" where
  "nul_join parts = join_with [NUL] parts"

definition operation_digest_for ::
  "host \<Rightarrow> string \<Rightarrow> string \<Rightarrow> string option \<Rightarrow> string option \<Rightarrow> string option \<Rightarrow> string result" where
  "operation_digest_for h request_digest plan_digest provider host_deps release =
     (case (provider, host_deps, release) of
        (Some provider_digest, Some host_digest, None) \<Rightarrow> Inr (sha256_bytes h (nul_join
          [''runtime-operation-v6'', request_digest, plan_digest, provider_digest, host_digest]))
      | (Some provider_digest, None, Some release_digest) \<Rightarrow> Inr (sha256_bytes h (nul_join
          [''runtime-operation-v5'', request_digest, plan_digest, provider_digest, release_digest]))
      | (Some provider_digest, None, None) \<Rightarrow> Inr (sha256_bytes h (nul_join
          [''runtime-operation-v4'', request_digest, plan_digest, provider_digest]))
      | (None, None, None) \<Rightarrow> Inr (sha256_bytes h (nul_join
          [''runtime-operation-v3'', request_digest, plan_digest]))
      | (Some _, Some _, Some _) \<Rightarrow> Inl (error_invalid
          ''Runtime Release effect and Host Dependencies cannot share one Job'' ''hostDependencies'')
      | (None, Some _, _) \<Rightarrow> Inl (error_invalid
          ''Host Dependencies require a committed execution provider'' ''executionProvider'')
      | (None, None, Some _) \<Rightarrow> Inl (error_invalid
          ''Runtime Release effect requires a committed execution provider'' ''executionProvider''))"

definition json_field :: "string \<Rightarrow> string option \<Rightarrow> (string \<times> json) list" where
  "json_field key digest = (case digest of None \<Rightarrow> [] | Some d \<Rightarrow> [(key, JString d)])"

definition workspace_snapshot ::
  "RuntimeExecutionPlan \<Rightarrow> string option \<Rightarrow> string option \<Rightarrow> string option \<Rightarrow> json" where
  "workspace_snapshot plan provider_digest host_digest release_digest =
     JObject ([(''workspaceId'', JString (p_workspace_id plan)),
               (''workspacePath'', JString (p_workspace_path plan)),
               (''sourceRevision'', JString (p_source_revision plan)),
               (''workspaceSourceDigest'',
                 (case p_workspace_source_digest plan of None \<Rightarrow> JNull | Some d \<Rightarrow> JString d))]
       @ json_field ''executionProviderDigest'' provider_digest
       @ json_field ''hostDependenciesDigest'' host_digest
       @ json_field ''runtimeReleaseEffectDigest'' release_digest)"

record prepared_admission =
  pa_job :: RuntimeJobRecord
  pa_attempt :: AttemptRecord
  pa_reservation :: ReservationRecord
  pa_launch_token :: string
  pa_provider :: "side_row option"
  pa_host_dependencies :: "side_row option"
  pa_release :: "release_row option"

definition side_row_of :: "host \<Rightarrow> string \<Rightarrow> string option \<Rightarrow> side_row option" where
  "side_row_of h job_id text =
     map_option (\<lambda>t. \<lparr>sd_job_id = job_id, sd_json = t, sd_digest = sha256_bytes h t\<rparr>) text"

definition release_row_of ::
  "host \<Rightarrow> string \<Rightarrow> RuntimeReleaseEffectBinding option \<Rightarrow> release_row option" where
  "release_row_of h job_id release =
     map_option (\<lambda>r. \<lparr>rw_job_id = job_id, rw_effect_id = rel_effect_id r,
        rw_contract = ''runtime_release_v1'', rw_request_digest = rel_request_digest r,
        rw_workspace_id = rel_workspace_id r, rw_commit_revision = rel_commit r,
        rw_candidate_manifest_digest = rel_candidate_manifest_digest r,
        rw_expected_tool_count = rel_expected_tool_count r, rw_receipt_path = rel_receipt_path r,
        rw_binding_digest = sha256_bytes h (h_release_print h r)\<rparr>) release"

definition new_job ::
  "host \<Rightarrow> SubmitRequest \<Rightarrow> PreallocatedAdmissionIds \<Rightarrow> nat \<Rightarrow> string \<Rightarrow> string \<Rightarrow> json \<Rightarrow> RuntimeJobRecord" where
  "new_job h request ids created_at_ms request_digest operation_digest snapshot =
     \<lparr>j_job_id = ids_job_id ids, j_principal = p_principal (sr_plan request),
      j_client_request_id = sr_client_request_id request, j_request_digest = request_digest,
      j_operation_digest = operation_digest, j_workspace_id = p_workspace_id (sr_plan request),
      j_workspace_snapshot_json = h_json_print h snapshot,
      j_execution_plan_json = h_plan_print h (sr_plan request),
      j_execution_plan_digest = sha256_bytes h (h_plan_print h (sr_plan request)),
      j_created_at_ms = created_at_ms, j_desired_state = Run, j_resolution = None,
      j_current_attempt_id = Some (ids_attempt_id ids), j_row_version = 0\<rparr>"

definition new_attempt ::
  "host \<Rightarrow> RegistryConfig \<Rightarrow> PreallocatedAdmissionIds \<Rightarrow> nat \<Rightarrow> string \<Rightarrow> AttemptRecord" where
  "new_attempt h cfg ids created_at_ms launch_token =
     \<lparr>a_attempt_id = ids_attempt_id ids, a_job_id = ids_job_id ids, a_attempt_number = 1,
      a_state = Accepted, a_termination_intent = Natural,
      a_launch_token_digest = sha256_bytes h launch_token,
      a_bundle_path = attempt_path cfg (ids_attempt_id ids), a_bundle_digest = None, a_boot_id = None,
      a_unit_name = ''ordivon-'' @ ids_attempt_id ids @ ''.service'', a_invocation_id = None,
      a_control_group = None, a_main_pid = None, a_process_start_identity = None,
      a_runner_start_digest = None, a_result_digest = None, a_exit_code = None,
      a_infrastructure_error_digest = None, a_created_at_ms = created_at_ms, a_started_at_ms = None,
      a_finished_at_ms = None, a_row_version = 0\<rparr>"

definition new_reservation :: "SubmitRequest \<Rightarrow> PreallocatedAdmissionIds \<Rightarrow> nat \<Rightarrow> ReservationRecord" where
  "new_reservation request ids created_at_ms =
     \<lparr>r_reservation_id = ids_reservation_id ids, r_attempt_id = ids_attempt_id ids,
      r_global_limit = sr_global_limit request, r_state = Active, r_acquired_at_ms = created_at_ms,
      r_released_at_ms = None, r_release_reason = None\<rparr>"

definition prepare_admission ::
  "host \<Rightarrow> RegistryConfig \<Rightarrow> SubmitRequest \<Rightarrow> PreallocatedAdmissionIds \<Rightarrow> nat \<Rightarrow> prepared_admission result" where
  "prepare_admission h cfg request ids created_at_ms =
     (let job_id = ids_job_id ids;
          provider = side_row_of h job_id (map_option (h_provider_print h) (sr_execution_provider request));
          host_deps = side_row_of h job_id
            (if sr_host_dependencies request = [] then None
             else Some (h_host_dependencies_print h (sr_host_dependencies request)));
          release = release_row_of h job_id (sr_runtime_release_effect request);
          request_digest = (case sr_request_identity_digest request of
              Some digest \<Rightarrow> digest | None \<Rightarrow> sha256_bytes h (h_submit_print h request));
          plan_digest = sha256_bytes h (h_plan_print h (sr_plan request));
          snapshot = workspace_snapshot (sr_plan request) (map_option sd_digest provider)
            (map_option sd_digest host_deps) (map_option rw_binding_digest release)
      in rbind (operation_digest_for h request_digest plan_digest (map_option sd_digest provider)
                  (map_option sd_digest host_deps) (map_option rw_binding_digest release)) (\<lambda>operation_digest.
         let launch_token = sha256_bytes h
               (nul_join [''runtime-launch-v1'', ids_attempt_id ids, operation_digest])
         in Inr \<lparr>pa_job = new_job h request ids created_at_ms request_digest operation_digest snapshot,
                 pa_attempt = new_attempt h cfg ids created_at_ms launch_token,
                 pa_reservation = new_reservation request ids created_at_ms,
                 pa_launch_token = launch_token, pa_provider = provider,
                 pa_host_dependencies = host_deps, pa_release = release\<rparr>))"

section \<open>The transaction\<close>

definition insert_side_row :: "side_row list \<Rightarrow> side_row \<Rightarrow> string \<Rightarrow> registry \<Rightarrow> side_row list result" where
  "insert_side_row rows row context db =
     (if list_ex (\<lambda>s. sd_job_id s = sd_job_id row) rows
      then Inl (from_sql (sql_constraint ''UNIQUE constraint failed'') context)
      else if \<not> list_ex (\<lambda>j. j_job_id j = sd_job_id row) (jobs db)
      then Inl (from_sql (sql_constraint ''FOREIGN KEY constraint failed'') context)
      else Inr (rows @ [row]))"

definition insert_provider :: "side_row option \<Rightarrow> registry \<Rightarrow> registry result" where
  "insert_provider row db =
     (case row of None \<Rightarrow> Inr db
      | Some p \<Rightarrow> rbind (insert_side_row (execution_providers db) p ''cannot bind Job execution provider'' db)
          (\<lambda>rows. Inr (db\<lparr>execution_providers := rows\<rparr>)))"

definition insert_host_dependencies :: "side_row option \<Rightarrow> registry \<Rightarrow> registry result" where
  "insert_host_dependencies row db =
     (case row of None \<Rightarrow> Inr db
      | Some d \<Rightarrow> rbind (insert_side_row (host_dependency_rows db) d ''cannot bind Job Host Dependencies'' db)
          (\<lambda>rows. Inr (db\<lparr>host_dependency_rows := rows\<rparr>)))"

definition insert_release :: "release_row option \<Rightarrow> registry \<Rightarrow> registry result" where
  "insert_release row db =
     (case row of None \<Rightarrow> Inr db
      | Some r \<Rightarrow>
          if list_ex (\<lambda>s. rw_job_id s = rw_job_id r \<or> rw_effect_id s = rw_effect_id r) (release_rows db)
          then Inl (from_sql (sql_constraint ''UNIQUE constraint failed'')
                 ''cannot bind Job Runtime Release effect'')
          else if \<not> list_ex (\<lambda>j. j_job_id j = rw_job_id r) (jobs db)
          then Inl (from_sql (sql_constraint ''FOREIGN KEY constraint failed'')
                 ''cannot bind Job Runtime Release effect'')
          else Inr (db\<lparr>release_rows := release_rows db @ [r]\<rparr>))"

definition attempt_row_of :: "AttemptRecord \<Rightarrow> attempt_row" where
  "attempt_row_of a = AttemptRecord.extend a \<lparr>a_recovery = None\<rparr>"

definition reservation_row_of :: "ReservationRecord \<Rightarrow> reservation_row" where
  "reservation_row_of r = ReservationRecord.extend r \<lparr>r_state_observed_at_ms = r_acquired_at_ms r\<rparr>"

definition idempotency_row :: "RuntimeJobRecord \<Rightarrow> idempotency_key" where
  "idempotency_row job =
     \<lparr>ik_principal = j_principal job, ik_client_request_id = j_client_request_id job,
      ik_operation_digest = j_operation_digest job, ik_job_id = j_job_id job,
      ik_created_at_ms = j_created_at_ms job\<rparr>"

definition insert_admission_rows :: "prepared_admission \<Rightarrow> registry \<Rightarrow> registry result" where
  "insert_admission_rows pa db =
     rbind (insert_job (pa_job pa) ''cannot insert Job'' db) (\<lambda>db1.
     rbind (insert_provider (pa_provider pa) db1) (\<lambda>db2.
     rbind (insert_host_dependencies (pa_host_dependencies pa) db2) (\<lambda>db3.
     rbind (insert_release (pa_release pa) db3) (\<lambda>db4.
     rbind (insert_attempt (attempt_row_of (pa_attempt pa)) ''cannot insert Attempt'' db4) (\<lambda>db5.
     rbind (insert_idempotency_key (idempotency_row (pa_job pa)) ''cannot insert idempotency key'' db5) (\<lambda>db6.
     insert_reservation (reservation_row_of (pa_reservation pa)) ''cannot reserve execution capacity'' db6))))))"

definition append_admission_events ::
  "host \<Rightarrow> sql_env \<Rightarrow> RuntimeJobRecord \<Rightarrow> string \<Rightarrow> registry \<Rightarrow> registry result" where
  "append_admission_events h env job attempt_id db =
     rbind (append_event h env 0 (j_job_id job) (Some attempt_id) ''REQUEST_RECEIVED'' ''SYSTEM_DERIVED''
              None None ''REQUEST_ACCEPTED''
              (JObject [(''requestDigest'', JString (j_request_digest job))])
              (j_created_at_ms job) db) (\<lambda>db1.
     rbind (append_event h env 1 (j_job_id job) (Some attempt_id) ''JOB_RECORD_CREATED'' ''SYSTEM_DERIVED''
              None None ''JOB_CREATED''
              (JObject [(''operationDigest'', JString (j_operation_digest job))])
              (j_created_at_ms job) db1) (\<lambda>db2.
     append_event h env 2 (j_job_id job) (Some attempt_id) ''ATTEMPT_CREATED'' ''SYSTEM_DERIVED''
       None (Some Accepted) ''ATTEMPT_ACCEPTED'' (JObject [(''attemptNumber'', JNumber 1)])
       (j_created_at_ms job) db2))"

text \<open>The branch on an idempotency key that is already bound.\<close>

definition replay_admission ::
  "host \<Rightarrow> SubmitRequest \<Rightarrow> string \<Rightarrow> idempotency_key \<Rightarrow> registry \<Rightarrow> RuntimeJobRecord result" where
  "replay_admission h request operation_digest key db =
     rbind (load_job db (ik_job_id key)) (\<lambda>existing.
     rbind (case sr_request_identity_digest request of
              Some request_identity_digest \<Rightarrow>
                rbind (job_request_identity_digest h existing) (\<lambda>stored.
                  Inr (stored = request_identity_digest))
            | None \<Rightarrow> Inr (ik_operation_digest key = operation_digest)) (\<lambda>matches.
     if \<not> matches then Inl idempotency_conflict else Inr existing))"

text \<open>The payload of the commit is the outcome to answer, with a flag for a new admission.\<close>

definition submit_tx ::
  "host \<Rightarrow> sql_env \<Rightarrow> RegistryConfig \<Rightarrow> fence_state \<Rightarrow> SubmitRequest \<Rightarrow> prepared_admission \<Rightarrow> registry
   \<Rightarrow> (AdmissionOutcome, AdmissionOutcome \<times> bool) tx_end result" where
  "submit_tx h env cfg fence request pa db =
     (case find_key db (p_principal (sr_plan request)) (sr_client_request_id request) of
        Some key \<Rightarrow>
          rbind (replay_admission h request (j_operation_digest (pa_job pa)) key db) (\<lambda>existing.
            Inr (Commit ''cannot close replay transaction'' (Existing existing, False) db))
      | None \<Rightarrow>
          rbind (acquire_admission_fence cfg fence) (\<lambda>_.
          rbind (check_workspace_capacity db (p_workspace_id (sr_plan request))) (\<lambda>_.
          rbind (check_global_capacity db (sr_global_limit request)) (\<lambda>_.
          rbind (insert_admission_rows pa db) (\<lambda>db1.
          rbind (append_admission_events h env (pa_job pa) (a_attempt_id (pa_attempt pa)) db1) (\<lambda>db2.
          Inr (Commit ''cannot commit admission''
                 (Created \<lparr>ca_job = pa_job pa, ca_attempt = pa_attempt pa,
                           ca_reservation = pa_reservation pa, ca_launch_token = pa_launch_token pa\<rparr>,
                  True) db2)))))))"

definition reconcile_admission_commit_failure ::
  "sql_env \<Rightarrow> SubmitRequest \<Rightarrow> string \<Rightarrow> string \<Rightarrow> bool \<Rightarrow> sql_error \<Rightarrow> registry \<Rightarrow> AdmissionOutcome result" where
  "reconcile_admission_commit_failure env request operation_digest context autocommit error now =
     (let commit_error = from_sql error context in
      if \<not> autocommit
      then Inl (unknown_commit_outcome
             ''admission commit outcome remains inside an open SQLite transaction'' commit_error None)
      else case te_reload env of
          Some e \<Rightarrow> Inl (unknown_commit_outcome ''admission commit outcome cannot be proven'' commit_error
            (Some (from_sql e ''cannot reconcile admission after commit failure'')))
        | None \<Rightarrow>
            (case find_key now (p_principal (sr_plan request)) (sr_client_request_id request) of
               Some key \<Rightarrow>
                 if ik_operation_digest key \<noteq> operation_digest then Inl idempotency_conflict
                 else (case load_job now (ik_job_id key) of
                     Inr existing \<Rightarrow> Inr (Existing existing)
                   | Inl reconcile_error \<Rightarrow> Inl (committed_reconciliation (ik_job_id key)
                       (''admission committed but Job projection requires reconciliation: ''
                        @ err_message reconcile_error)))
             | None \<Rightarrow> Inl (commit_error\<lparr>err_retryable := True\<rparr>)))"

definition begin_admission :: "sql_env \<Rightarrow> unit result" where
  "begin_admission env =
     (case te_begin env of None \<Rightarrow> Inr ()
      | Some e \<Rightarrow> Inl (from_sql e ''cannot begin admission transaction''))"

definition submit_preallocated ::
  "host \<Rightarrow> sql_env \<Rightarrow> RegistryConfig \<Rightarrow> string + nat \<Rightarrow> fence_state \<Rightarrow> registry \<Rightarrow> SubmitRequest
   \<Rightarrow> PreallocatedAdmissionIds \<Rightarrow> AdmissionOutcome result \<times> registry" where
  "submit_preallocated h env cfg clock fence db request ids =
     (case rbind (validate_submit h request) (\<lambda>_.
           rbind (now_ms clock) (\<lambda>created_at_ms.
           rbind (prepare_admission h cfg request ids created_at_ms) (\<lambda>pa.
           rbind (open_connection env) (\<lambda>_.
           rbind (begin_admission env) (\<lambda>_. Inr pa))))) of
        Inl e \<Rightarrow> (Inl e, db)
      | Inr pa \<Rightarrow>
          in_transaction env db (submit_tx h env cfg fence request pa)
            (\<lambda>now y. Inr (fst y))
            (\<lambda>context y autocommit error now.
               if snd y
               then reconcile_admission_commit_failure env request (j_operation_digest (pa_job pa))
                      context autocommit error now
               else Inl (from_sql error context)))"

definition submit ::
  "host \<Rightarrow> sql_env \<Rightarrow> RegistryConfig \<Rightarrow> string + nat \<Rightarrow> fence_state \<Rightarrow> (nat \<Rightarrow> string) \<Rightarrow> registry
   \<Rightarrow> SubmitRequest \<Rightarrow> AdmissionOutcome result \<times> registry" where
  "submit h env cfg clock fence uuid db request =
     submit_preallocated h env cfg clock fence db request (preallocate_admission_ids uuid)"

end
