(* ===== verification/Job_Machine.thy ===== *)
theory Job_Machine
  imports Registry_State
begin

text \<open>
  The abstract machine one Job follows: its resolution and desired state, the state of its single
  Attempt, which evidence that Attempt carries, and its capacity reservation.  The steps carry the
  types of the events they log.  Theory \<open>Registry_Refinement\<close> shows that every transaction of the
  registry is a step of this machine on exactly one Job; here are the machine, the well-formedness
  of its states and what its runs cannot do.
\<close>

section \<open>States\<close>

record job_view =
  jv_desired :: JobDesiredState
  jv_resolution :: "JobResolution option"
  jv_current :: "bool option"   \<comment> \<open>\<open>Some True\<close>: \<open>current_attempt_id\<close> names the Attempt\<close>
  jv_state :: AttemptState
  jv_intent :: AttemptTerminationIntent
  jv_bundle :: bool
  jv_bound :: bool
  jv_result :: bool
  jv_reservation :: ReservationState

definition view_of :: "RuntimeJobRecord \<Rightarrow> attempt_row \<Rightarrow> reservation_row \<Rightarrow> job_view" where
  "view_of j a r =
     \<lparr>jv_desired = j_desired_state j, jv_resolution = j_resolution j,
      jv_current = map_option (\<lambda>i. i = a_attempt_id a) (j_current_attempt_id j),
      jv_state = a_state a, jv_intent = a_termination_intent a,
      jv_bundle = (a_bundle_digest a \<noteq> None),
      jv_bound = (a_runner_start_digest a \<noteq> None \<and> a_started_at_ms a \<noteq> None),
      jv_result = (a_result_digest a \<noteq> None \<and> a_finished_at_ms a \<noteq> None),
      jv_reservation = r_state r\<rparr>"

definition initial_view :: job_view where
  "initial_view =
     \<lparr>jv_desired = Run, jv_resolution = None, jv_current = Some True, jv_state = Accepted,
      jv_intent = Natural, jv_bundle = False, jv_bound = False, jv_result = False,
      jv_reservation = Active\<rparr>"

definition terminal_reservation :: "AttemptState \<Rightarrow> ReservationState" where
  "terminal_reservation s = (if s = Orphaned then HeldOrphaned else Released)"

section \<open>Steps\<close>

inductive job_step :: "job_view \<Rightarrow> string list \<Rightarrow> job_view \<Rightarrow> bool" where
  js_stutter: "job_step v [] v"
| js_bundle_ready:
    "jv_state v = Accepted \<Longrightarrow> job_step v [''BUNDLE_READY''] (v\<lparr>jv_bundle := True\<rparr>)"
| js_dispatch:
    "jv_state v = Accepted \<Longrightarrow> jv_bundle v \<Longrightarrow>
     job_step v [''DISPATCH_ISSUED''] (v\<lparr>jv_state := Starting\<rparr>)"
| js_bind:
    "jv_state v \<in> {Starting, Recovering} \<Longrightarrow>
     job_step v [''RUNNER_BOUND''] (v\<lparr>jv_state := Running, jv_bound := True\<rparr>)"
| js_bind_stopping:
    "jv_state v = Stopping \<Longrightarrow> job_step v [''RUNNER_BOUND''] (v\<lparr>jv_bound := True\<rparr>)"
| js_deadline:
    "jv_resolution v = None \<Longrightarrow> jv_desired v = Run \<Longrightarrow> jv_intent v = Natural \<Longrightarrow>
     jv_state v \<in> {Starting, Running, Recovering, Stopping} \<Longrightarrow>
     job_step v [''DEADLINE_EXCEEDED''] (v\<lparr>jv_state := Stopping, jv_intent := DeadlineExceeded\<rparr>)"
| js_cancel_accepted:
    "jv_resolution v = None \<Longrightarrow> jv_state v = Accepted \<Longrightarrow>
     job_step v [''STOP_REQUESTED'']
       (v\<lparr>jv_desired := DesiredCancelled, jv_resolution := Some ResCancelled, jv_current := None,
          jv_state := Cancelled, jv_intent := StopRequested, jv_result := True,
          jv_reservation := Released\<rparr>)"
| js_cancel_dispatched:
    "jv_resolution v = None \<Longrightarrow> jv_state v \<in> {Starting, Running, Recovering} \<Longrightarrow>
     job_step v [''STOP_REQUESTED'']
       (v\<lparr>jv_desired := DesiredCancelled, jv_state := Stopping, jv_intent := StopRequested\<rparr>)"
| js_cancel_stopping:
    "jv_resolution v = None \<Longrightarrow> jv_state v = Stopping \<Longrightarrow>
     job_step v [] (v\<lparr>jv_desired := DesiredCancelled\<rparr>)"
| js_cancel_orphaned:
    "jv_resolution v = Some ResOrphaned \<Longrightarrow> jv_state v = Orphaned \<Longrightarrow> evs \<in> {[], [''STOP_REQUESTED'']} \<Longrightarrow>
     job_step v evs (v\<lparr>jv_desired := DesiredCancelled, jv_intent := StopRequested\<rparr>)"
| js_terminal:
    "jv_resolution v = None \<Longrightarrow> can_transition_to (jv_state v) s \<Longrightarrow> s = resolution_state res \<Longrightarrow>
     job_step v [''PROCESS_EXITED'', ''JOB_TERMINAL'']
       (v\<lparr>jv_resolution := Some res, jv_current := None, jv_state := s, jv_result := True,
          jv_reservation := terminal_reservation s\<rparr>)"
| js_recover:
    "jv_resolution v = Some ResOrphaned \<Longrightarrow> jv_state v = Orphaned \<Longrightarrow> jv_reservation v = HeldOrphaned \<Longrightarrow>
     s = resolution_state res \<Longrightarrow> res \<noteq> ResOrphaned \<Longrightarrow>
     job_step v [''RUNNER_RESULT_RECOVERED'', ''JOB_RESOLUTION_CORRECTED'']
       (v\<lparr>jv_resolution := Some res, jv_state := s, jv_result := True, jv_reservation := Released\<rparr>)"
| js_repair:
    "jv_state v \<in> {Lost, Orphaned} \<Longrightarrow> s = resolution_state res \<Longrightarrow> res \<noteq> ResOrphaned \<Longrightarrow>
     res = ResLost \<longrightarrow> jv_state v = Lost \<Longrightarrow> jv_resolution v = Some old \<Longrightarrow> resolution_state old = jv_state v \<Longrightarrow>
     job_step v [''ADMIN_TERMINAL_REPAIR'', ''JOB_RESOLUTION_ADMIN_CORRECTED'']
       (v\<lparr>jv_resolution := Some res, jv_current := None, jv_state := s, jv_result := True,
          jv_reservation := Released\<rparr>)"
| js_converge:
    "is_terminal (jv_state v) \<Longrightarrow> jv_resolution v = Some old \<Longrightarrow> resolution_state old = jv_state v \<Longrightarrow>
     ev \<in> {''TERMINAL_RESERVATION_CONVERGED'', ''ADMIN_RESERVATION_REPAIR''} \<Longrightarrow>
     job_step v [ev] (v\<lparr>jv_reservation := terminal_reservation (jv_state v)\<rparr>)"
| js_condition:
    "ev \<in> {''RECONCILIATION_FAILED'', ''RECONCILIATION_CONVERGED''} \<Longrightarrow> job_step v [ev] v"

inductive_cases job_stepE: "job_step v evs w"

section \<open>Well-formed states\<close>

definition resolution_agrees :: "job_view \<Rightarrow> bool" where
  "resolution_agrees v =
     (case jv_resolution v of
        None \<Rightarrow> jv_current v = Some True \<and> \<not> is_terminal (jv_state v) \<and> jv_reservation v = Active
      | Some res \<Rightarrow> jv_current v = None \<and> jv_state v = resolution_state res \<and> jv_result v
          \<and> jv_reservation v = terminal_reservation (jv_state v))"

definition progress_agrees :: "job_view \<Rightarrow> bool" where
  "progress_agrees v \<longleftrightarrow>
     jv_state v \<noteq> Recovering
     \<and> (jv_state v \<in> {Starting, Running, Stopping} \<longrightarrow> jv_bundle v)
     \<and> (jv_state v \<in> {Accepted, Starting, Running} \<longrightarrow> jv_intent v = Natural \<and> jv_desired v = Run)
     \<and> (jv_state v = Stopping \<longrightarrow> jv_intent v \<noteq> Natural)
     \<and> (jv_state v = Running \<longrightarrow> jv_bound v)"

definition wf_view :: "job_view \<Rightarrow> bool" where
  "wf_view v \<longleftrightarrow> resolution_agrees v \<and> progress_agrees v"

lemma wf_initial_view: "wf_view initial_view"
  by (simp add: wf_view_def resolution_agrees_def progress_agrees_def initial_view_def)

lemma resolution_state_terminal [simp]: "is_terminal (resolution_state res)"
  by (cases res) auto

lemma resolution_state_not [simp]:
  "resolution_state res \<noteq> Accepted" "resolution_state res \<noteq> Starting" "resolution_state res \<noteq> Running"
  "resolution_state res \<noteq> Stopping" "resolution_state res \<noteq> Recovering"
  by (cases res; simp)+

lemma resolution_state_inject [simp]: "resolution_state r = resolution_state s \<longleftrightarrow> r = s"
  by (cases r; cases s) auto

lemma resolution_state_orphaned [simp]: "resolution_state res = Orphaned \<longleftrightarrow> res = ResOrphaned"
  "resolution_state res = Lost \<longleftrightarrow> res = ResLost"
  by (cases res; simp)+

lemma job_step_wf:
  assumes "job_step v evs w" and "wf_view v"
  shows "wf_view w"
  using assms
  by (cases rule: job_step.cases)
    (auto simp: wf_view_def resolution_agrees_def progress_agrees_def terminal_reservation_def
      split: option.splits)

section \<open>What runs of the machine cannot do\<close>

text \<open>
  Only an accepted Attempt is dispatched, afterwards it is not accepted any more, and a state after
  dispatch is entered only by a dispatch.
\<close>

definition dispatched :: "AttemptState \<Rightarrow> bool" where
  "dispatched s \<longleftrightarrow> s \<in> {Starting, Running, Stopping, Recovering}"

lemma job_step_dispatch:
  assumes "job_step v evs w"
  shows "''DISPATCH_ISSUED'' \<in> set evs \<Longrightarrow>
      jv_state v = Accepted \<and> jv_state w = Starting \<and> length (filter (\<lambda>e. e = ''DISPATCH_ISSUED'') evs) = 1"
    and "jv_state w = Accepted \<Longrightarrow> jv_state v = Accepted"
    and "dispatched (jv_state w) \<Longrightarrow> dispatched (jv_state v) \<or> ''DISPATCH_ISSUED'' \<in> set evs"
  using assms by (cases rule: job_step.cases; auto simp: dispatched_def; fail)+

text \<open>An Attempt that is to be stopped is never again left to end by itself.\<close>

lemma job_step_intent: "job_step v evs w \<Longrightarrow> jv_intent v \<noteq> Natural \<Longrightarrow> jv_intent w \<noteq> Natural"
  by (cases rule: job_step.cases) auto

text \<open>A conclusive resolution stays; an inconclusive one only becomes conclusive or \<open>Lost\<close>.\<close>

definition conclusive :: "JobResolution \<Rightarrow> bool" where
  "conclusive res \<longleftrightarrow> res \<in> {ResSucceeded, ResFailed, ResTimedOut, ResCancelled}"

fun resolution_rank :: "JobResolution option \<Rightarrow> nat" where
  "resolution_rank None = 0"
| "resolution_rank (Some ResOrphaned) = 1"
| "resolution_rank (Some ResLost) = 2"
| "resolution_rank (Some _) = 3"

lemma job_step_resolution:
  assumes "job_step v evs w" and "wf_view v"
  shows "jv_resolution w = jv_resolution v \<or> resolution_rank (jv_resolution v) < resolution_rank (jv_resolution w)"
  using assms
proof (cases rule: job_step.cases)
  case (js_terminal s res)
  then show ?thesis by (cases res) auto
next
  case (js_recover s res)
  then show ?thesis by (cases res) auto
next
  case (js_repair s res old)
  then show ?thesis by (cases res; cases old) (auto simp: wf_view_def resolution_agrees_def)
qed auto

text \<open>A cancelled wish is never withdrawn.\<close>

lemma job_step_desired: "job_step v evs w \<Longrightarrow> jv_desired v = DesiredCancelled \<Longrightarrow> jv_desired w = DesiredCancelled"
  by (cases rule: job_step.cases) auto

end
