(* ===== verification/Registry_Refinement.thy ===== *)
theory Registry_Refinement
  imports Registry_Statements Registry_Recovery Registry_Admission Job_Machine
begin

text \<open>
  The registry implements the Job machine.  A database satisfies \<open>reg_inv\<close> when its tables have
  distinct keys, every Job has exactly one Attempt and every Attempt exactly one reservation, and
  each such triple is a well-formed state of the machine.  Every committed transaction of the
  lifecycle and recovery operations is one step of the machine on one Job, leaving all other Jobs
  and all identity columns as they were and appending to the event log (\<open>job_transition\<close>); every
  committed admission adds one Job in the machine's initial state (\<open>admission\<close>).
\<close>

section \<open>The invariant\<close>

definition linked :: "registry \<Rightarrow> RuntimeJobRecord \<Rightarrow> attempt_row \<Rightarrow> reservation_row \<Rightarrow> bool" where
  "linked db j a r \<longleftrightarrow> j \<in> set (jobs db) \<and> a \<in> set (attempts db) \<and> r \<in> set (reservations db)
     \<and> a_job_id a = j_job_id j \<and> r_attempt_id r = a_attempt_id a"

definition reg_inv :: "registry \<Rightarrow> bool" where
  "reg_inv db \<longleftrightarrow> keys_ok db \<and> distinct (map a_job_id (attempts db))
     \<and> a_job_id ` set (attempts db) = j_job_id ` set (jobs db)
     \<and> r_attempt_id ` set (reservations db) = a_attempt_id ` set (attempts db)
     \<and> (\<forall>j \<in> set (jobs db). \<forall>a \<in> set (attempts db). \<forall>r \<in> set (reservations db).
          a_job_id a = j_job_id j \<and> r_attempt_id r = a_attempt_id a \<longrightarrow> wf_view (view_of j a r))"

lemma reg_inv_empty: "reg_inv empty_registry"
  by (simp add: reg_inv_def keys_ok_def empty_registry_def)

lemma reg_inv_keys:
  assumes "reg_inv db"
  shows "distinct (map j_job_id (jobs db))" "distinct (map a_attempt_id (attempts db))"
    "distinct (map r_attempt_id (reservations db))" "distinct (map a_job_id (attempts db))"
  using assms by (auto simp: reg_inv_def keys_ok_def)

lemma linked_wf: "reg_inv db \<Longrightarrow> linked db j a r \<Longrightarrow> wf_view (view_of j a r)"
  by (auto simp: reg_inv_def linked_def)

lemma linked_lookup:
  assumes "reg_inv db" and "linked db j a r"
  shows "tbl_lookup j_job_id (jobs db) (j_job_id j) = Some j"
    "tbl_lookup a_attempt_id (attempts db) (a_attempt_id a) = Some a"
    "tbl_lookup r_attempt_id (reservations db) (a_attempt_id a) = Some r"
  using assms reg_inv_keys[OF assms(1)] unfolding linked_def
  by (auto simp: tbl_lookup_iff_mem)

lemma linked_put_id:
  assumes "reg_inv db" and "linked db j a r"
  shows "tbl_put j_job_id (j_job_id j) j (jobs db) = jobs db"
    "tbl_put a_attempt_id (a_attempt_id a) a (attempts db) = attempts db"
    "tbl_put r_attempt_id (a_attempt_id a) r (reservations db) = reservations db"
  using linked_lookup[OF assms] reg_inv_keys[OF assms(1)] by (auto intro: tbl_put_id)

lemma attempt_linked:
  assumes "reg_inv db" and "tbl_lookup a_attempt_id (attempts db) k = Some a"
  obtains j r where "linked db j a r" and "a_attempt_id a = k"
proof -
  have a: "a \<in> set (attempts db)" "a_attempt_id a = k" using tbl_lookup_SomeD[OF assms(2)] by auto
  have "a_job_id a \<in> j_job_id ` set (jobs db)" "a_attempt_id a \<in> r_attempt_id ` set (reservations db)"
    using a(1) assms(1) by (auto simp: reg_inv_def)
  then obtain j r where "j \<in> set (jobs db)" "r \<in> set (reservations db)"
    "a_job_id a = j_job_id j" "r_attempt_id r = a_attempt_id a" by force
  with a show ?thesis using that[of j r] by (simp add: linked_def)
qed

lemma job_linked:
  assumes "reg_inv db" and "tbl_lookup j_job_id (jobs db) k = Some j"
  obtains a r where "linked db j a r" and "j_job_id j = k"
proof -
  have j: "j \<in> set (jobs db)" "j_job_id j = k" using tbl_lookup_SomeD[OF assms(2)] by auto
  then have "j_job_id j \<in> a_job_id ` set (attempts db)" using assms(1) by (auto simp: reg_inv_def)
  then obtain a where a: "a \<in> set (attempts db)" "a_job_id a = j_job_id j" by force
  then have "a_attempt_id a \<in> r_attempt_id ` set (reservations db)" using assms(1) by (auto simp: reg_inv_def)
  then obtain r where "r \<in> set (reservations db)" "r_attempt_id r = a_attempt_id a" by force
  with a j show ?thesis using that[of a r] by (simp add: linked_def)
qed

lemma linked_unique:
  assumes "reg_inv db" and "linked db j a r" and "linked db j' a' r'" and "j_job_id j' = j_job_id j"
  shows "j' = j \<and> a' = a \<and> r' = r"
proof -
  have j: "j' = j" using assms(4) linked_lookup(1)[OF assms(1)] assms(2,3) by (metis option.inject)
  have "a_job_id a' = a_job_id a" using assms(2-4) by (auto simp: linked_def)
  moreover have "inj_on a_job_id (set (attempts db))"
    using reg_inv_keys(4)[OF assms(1)] by (simp add: distinct_map)
  ultimately have a: "a' = a" using assms(2,3) unfolding linked_def by (blast dest: inj_onD)
  then have "r' = r" using linked_lookup(3)[OF assms(1)] assms(2,3) by (metis option.inject)
  with j a show ?thesis by simp
qed

section \<open>One Job moves\<close>

text \<open>Columns no operation rewrites.\<close>

definition job_identity ::
  "RuntimeJobRecord \<Rightarrow> (string \<times> string \<times> string \<times> string) \<times> (string \<times> string \<times> string \<times> string \<times> string \<times> nat)" where
  "job_identity j =
     ((j_job_id j, j_principal j, j_client_request_id j, j_request_digest j),
      (j_operation_digest j, j_workspace_id j, j_workspace_snapshot_json j, j_execution_plan_json j,
       j_execution_plan_digest j, j_created_at_ms j))"

definition attempt_identity :: "attempt_row \<Rightarrow> string \<times> string \<times> nat \<times> string \<times> string \<times> string \<times> nat" where
  "attempt_identity a = (a_attempt_id a, a_job_id a, a_attempt_number a, a_launch_token_digest a,
     a_bundle_path a, a_unit_name a, a_created_at_ms a)"

definition effect ::
  "registry \<Rightarrow> RuntimeJobRecord \<Rightarrow> attempt_row \<Rightarrow> reservation_row \<Rightarrow> job_event list
   \<Rightarrow> RuntimeJobRecord \<Rightarrow> attempt_row \<Rightarrow> reservation_row \<Rightarrow> registry \<Rightarrow> bool" where
  "effect db j a r evs j' a' r' db' \<longleftrightarrow>
     linked db j a r
     \<and> job_identity j' = job_identity j \<and> attempt_identity a' = attempt_identity a
     \<and> r_attempt_id r' = r_attempt_id r \<and> r_reservation_id r' = r_reservation_id r
     \<and> jobs db' = tbl_put j_job_id (j_job_id j) j' (jobs db)
     \<and> attempts db' = tbl_put a_attempt_id (a_attempt_id a) a' (attempts db)
     \<and> reservations db' = tbl_put r_attempt_id (a_attempt_id a) r' (reservations db)
     \<and> job_events db' = job_events db @ evs
     \<and> appended (job_events db) (j_job_id j) (a_attempt_id a) evs
     \<and> prefix (artifacts db) (artifacts db') \<and> prefix (supervisor_owners db) (supervisor_owners db')
     \<and> idempotency_keys db' = idempotency_keys db
     \<and> execution_providers db' = execution_providers db
     \<and> host_dependency_rows db' = host_dependency_rows db
     \<and> release_rows db' = release_rows db"

definition job_transition :: "registry \<Rightarrow> registry \<Rightarrow> bool" where
  "job_transition db db' \<longleftrightarrow>
     (\<exists>j a r evs j' a' r'. effect db j a r evs j' a' r' db'
        \<and> job_step (view_of j a r) (map ev_type evs) (view_of j' a' r'))"

lemma job_transitionI:
  "effect db j a r evs j' a' r' db' \<Longrightarrow>
   job_step (view_of j a r) (map ev_type evs) (view_of j' a' r') \<Longrightarrow> job_transition db db'"
  unfolding job_transition_def by blast

lemma identity_keys:
  "job_identity j' = job_identity j \<Longrightarrow> j_job_id j' = j_job_id j"
  "attempt_identity a' = attempt_identity a \<Longrightarrow> a_attempt_id a' = a_attempt_id a"
  "attempt_identity a' = attempt_identity a \<Longrightarrow> a_job_id a' = a_job_id a"
  by (simp_all add: job_identity_def attempt_identity_def)

lemma effectD:
  assumes "effect db j a r evs j' a' r' db'"
  shows "linked db j a r" "j_job_id j' = j_job_id j" "a_attempt_id a' = a_attempt_id a"
    "a_job_id a' = a_job_id a" "r_attempt_id r' = a_attempt_id a"
    "jobs db' = tbl_put j_job_id (j_job_id j) j' (jobs db)"
    "attempts db' = tbl_put a_attempt_id (a_attempt_id a) a' (attempts db)"
    "reservations db' = tbl_put r_attempt_id (a_attempt_id a) r' (reservations db)"
    "job_events db' = job_events db @ evs"
    "appended (job_events db) (j_job_id j) (a_attempt_id a) evs"
proof -
  have e: "linked db j a r" "job_identity j' = job_identity j" "attempt_identity a' = attempt_identity a"
    "r_attempt_id r' = r_attempt_id r" "jobs db' = tbl_put j_job_id (j_job_id j) j' (jobs db)"
    "attempts db' = tbl_put a_attempt_id (a_attempt_id a) a' (attempts db)"
    "reservations db' = tbl_put r_attempt_id (a_attempt_id a) r' (reservations db)"
    "job_events db' = job_events db @ evs"
    "appended (job_events db) (j_job_id j) (a_attempt_id a) evs"
    using assms unfolding effect_def by blast+
  show "linked db j a r" "j_job_id j' = j_job_id j" "a_attempt_id a' = a_attempt_id a"
    "a_job_id a' = a_job_id a"
    using e identity_keys(1)[OF e(2)] identity_keys(2,3)[OF e(3)] by blast+
  show "r_attempt_id r' = a_attempt_id a" using e(1,4) by (simp add: linked_def)
qed (use assms in \<open>unfold effect_def, blast+\<close>)

lemma effect_keys:
  assumes inv: "reg_inv db" and eff: "effect db j a r evs j' a' r' db'"
  shows "map j_job_id (jobs db') = map j_job_id (jobs db)"
    "map a_attempt_id (attempts db') = map a_attempt_id (attempts db)"
    "map a_job_id (attempts db') = map a_job_id (attempts db)"
    "map r_attempt_id (reservations db') = map r_attempt_id (reservations db)"
proof -
  note e = effectD[OF eff] and l = linked_lookup[OF inv effectD(1)[OF eff]]
  have rid: "r_attempt_id r = a_attempt_id a" using e(1) by (simp add: linked_def)
  show "map j_job_id (jobs db') = map j_job_id (jobs db)" using e(2,6) by simp
  show "map a_attempt_id (attempts db') = map a_attempt_id (attempts db)" using e(3,7) by simp
  show "map a_job_id (attempts db') = map a_job_id (attempts db)"
    using e(4,7) l(2) reg_inv_keys(2)[OF inv] by (simp add: map_tbl_put)
  show "map r_attempt_id (reservations db') = map r_attempt_id (reservations db)" using e(5,8) by simp
qed

lemma effect_sets:
  assumes inv: "reg_inv db" and eff: "effect db j a r evs j' a' r' db'"
  shows "set (jobs db') = insert j' (set (jobs db) - {j})"
    "set (attempts db') = insert a' (set (attempts db) - {a})"
    "set (reservations db') = insert r' (set (reservations db) - {r})"
  using effectD(6-8)[OF eff] linked_lookup[OF inv effectD(1)[OF eff]] reg_inv_keys[OF inv]
  by (simp_all add: set_tbl_put)

text \<open>The triples of the new database: the moved one, and the others unchanged.\<close>

lemma effect_linked:
  assumes inv: "reg_inv db" and eff: "effect db j a r evs j' a' r' db'" and lk: "linked db' j1 a1 r1"
  shows "(j1 = j' \<and> a1 = a' \<and> r1 = r') \<or> (linked db j1 a1 r1 \<and> j_job_id j1 \<noteq> j_job_id j)"
proof -
  note e = effectD[OF eff] and s = effect_sets[OF inv eff]
  have aj: "a_job_id a = j_job_id j" using e(1) by (simp add: linked_def)
  have inj: "inj_on j_job_id (set (jobs db))" "inj_on a_job_id (set (attempts db))"
    "inj_on a_attempt_id (set (attempts db))" "inj_on r_attempt_id (set (reservations db))"
    using reg_inv_keys[OF inv] by (auto simp: distinct_map)
  have mem: "j \<in> set (jobs db)" "a \<in> set (attempts db)" "r \<in> set (reservations db)"
    "r_attempt_id r = a_attempt_id a" using e(1) by (auto simp: linked_def)
  have lk': "j1 \<in> set (jobs db')" "a1 \<in> set (attempts db')" "r1 \<in> set (reservations db')"
    "a_job_id a1 = j_job_id j1" "r_attempt_id r1 = a_attempt_id a1" using lk by (auto simp: linked_def)
  have a1: "a1 = a' \<or> (a1 \<in> set (attempts db) \<and> a_job_id a1 \<noteq> j_job_id j \<and> a_attempt_id a1 \<noteq> a_attempt_id a)"
  proof (rule disjCI)
    assume "\<not> (a1 \<in> set (attempts db) \<and> a_job_id a1 \<noteq> j_job_id j \<and> a_attempt_id a1 \<noteq> a_attempt_id a)"
    moreover have "a1 = a' \<or> (a1 \<in> set (attempts db) \<and> a1 \<noteq> a)" using lk'(2) s(2) by blast
    ultimately show "a1 = a'" using inj(2,3) mem(2) aj by (metis inj_onD)
  qed
  show ?thesis
  proof (cases "a1 = a'")
    case True
    then have "j_job_id j1 = j_job_id j" using lk'(4) e(4) aj by simp
    then have "j1 = j'" using lk'(1) s(1) inj(1) mem(1) by (blast dest: inj_onD)
    moreover have "r_attempt_id r1 = r_attempt_id r" using True lk'(5) e(3) mem(4) by simp
    then have "r1 = r'" using lk'(3) s(3) inj(4) mem(3) by (blast dest: inj_onD)
    ultimately show ?thesis using True by simp
  next
    case False
    with a1 have old: "a1 \<in> set (attempts db)" "a_job_id a1 \<noteq> j_job_id j" "a_attempt_id a1 \<noteq> a_attempt_id a"
      by auto
    then have "j1 \<noteq> j'" using lk'(4) e(2) by auto
    moreover have "r1 \<noteq> r'" using lk'(5) e(5) old(3) by auto
    ultimately have "j1 \<in> set (jobs db)" "r1 \<in> set (reservations db)" using lk'(1,3) s(1,3) by blast+
    then show ?thesis using lk'(4,5) old by (simp add: linked_def)
  qed
qed

lemma effect_reg_inv:
  assumes inv: "reg_inv db" and eff: "effect db j a r evs j' a' r' db'" and wf: "wf_view (view_of j' a' r')"
  shows "reg_inv db'"
proof -
  note k = effect_keys[OF inv eff]
  have i: "j_job_id ` set (jobs db') = j_job_id ` set (jobs db)"
    "a_job_id ` set (attempts db') = a_job_id ` set (attempts db)"
    "a_attempt_id ` set (attempts db') = a_attempt_id ` set (attempts db)"
    "r_attempt_id ` set (reservations db') = r_attempt_id ` set (reservations db)"
    using k[THEN arg_cong[where f = set]] by simp_all
  have "wf_view (view_of j1 a1 r1)" if "linked db' j1 a1 r1" for j1 a1 r1
    using effect_linked[OF inv eff that] wf linked_wf[OF inv] by auto
  then have "\<forall>j1 \<in> set (jobs db'). \<forall>a1 \<in> set (attempts db'). \<forall>r1 \<in> set (reservations db').
      a_job_id a1 = j_job_id j1 \<and> r_attempt_id r1 = a_attempt_id a1 \<longrightarrow> wf_view (view_of j1 a1 r1)"
    by (simp add: linked_def)
  then show ?thesis using inv i k unfolding reg_inv_def keys_ok_def by simp
qed

lemma job_transition_reg_inv:
  assumes "reg_inv db" and "job_transition db db'"
  shows "reg_inv db'"
proof -
  obtain j a r evs j' a' r' where eff: "effect db j a r evs j' a' r' db'"
    and step: "job_step (view_of j a r) (map ev_type evs) (view_of j' a' r')"
    using assms(2) unfolding job_transition_def by blast
  have "wf_view (view_of j a r)" by (rule linked_wf[OF assms(1) effectD(1)[OF eff]])
  with step have "wf_view (view_of j' a' r')" by (rule job_step_wf)
  with eff show ?thesis by (rule effect_reg_inv[OF assms(1)])
qed

section \<open>Each transaction is a step\<close>

text \<open>The frame of an effect: what most transactions leave alone.\<close>

lemma effectI:
  assumes "linked db j a r"
    and "jobs db' = tbl_put j_job_id (j_job_id j) j' (jobs db)"
    and "attempts db' = tbl_put a_attempt_id (a_attempt_id a) a' (attempts db)"
    and "reservations db' = tbl_put r_attempt_id (a_attempt_id a) r' (reservations db)"
    and "job_identity j' = job_identity j" and "attempt_identity a' = attempt_identity a"
    and "r_attempt_id r' = r_attempt_id r" and "r_reservation_id r' = r_reservation_id r"
    and "job_events db' = job_events db @ evs"
    and "appended (job_events db) (j_job_id j) (a_attempt_id a) evs"
    and "prefix (artifacts db) (artifacts db')" and "prefix (supervisor_owners db) (supervisor_owners db')"
    and "idempotency_keys db' = idempotency_keys db" and "execution_providers db' = execution_providers db"
    and "host_dependency_rows db' = host_dependency_rows db" and "release_rows db' = release_rows db"
  shows "effect db j a r evs j' a' r' db'"
  unfolding effect_def by (intro conjI assms)

lemma stutter_transition:
  assumes "reg_inv db" and "linked db j a r"
  shows "job_transition db db"
proof (rule job_transitionI)
  show "effect db j a r [] j a r db"
    using linked_put_id[OF assms] by (intro effectI assms(2)) simp_all
  show "job_step (view_of j a r) (map ev_type []) (view_of j a r)" by (simp add: js_stutter)
qed

text \<open>Compare-and-swap one Attempt row, log one event: the shape of most transactions.\<close>

lemma if_one: "n = (if b then (1::nat) else 0) \<Longrightarrow> \<not> n \<noteq> 1 \<Longrightarrow> b"
  by (cases b) simp_all

lemma cas_event_step:
  assumes inv: "reg_inv db" and lk: "linked db j a r"
    and tx: "rbind (update_attempts (\<lambda>x. a_attempt_id x = a_attempt_id a \<and> Q x) f ctx db) (\<lambda>(changed, db1).
       if changed \<noteq> 1 then Inl err
       else rbind (append_event h env n (j_job_id j) (Some (a_attempt_id a)) ty origin prev new reason detail at db1)
         (\<lambda>db2. Inr (Commit ctx2 z db2))) = Inr (Commit c y db')"
    and id: "attempt_identity (f a) = attempt_identity a"
    and step: "Q a \<Longrightarrow> job_step (view_of j a r) [ty] (view_of j (f a) r)"
  shows "job_transition db db'"
  using tx
  apply (elim rbind_pairE)
  apply (drule guard_Inr, elim conjE rbind_InrE)
  subgoal premises prems for changed db1 db2
  proof -
    note key = update_attempts_key[OF prems(1) reg_inv_keys(2)[OF inv] linked_lookup(2)[OF inv lk]]
    have q: "Q a" by (rule if_one[OF key(1) prems(2)])
    obtain e where e: "db2 = db1\<lparr>job_events := job_events db1 @ [e]\<rparr>" "ev_type e = ty"
        "appended (job_events db1) (j_job_id j) (a_attempt_id a) [e]"
      by (rule append_event_Inr[OF prems(3)])
    have db1: "db1 = db\<lparr>attempts := tbl_put a_attempt_id (a_attempt_id a) (f a) (attempts db)\<rparr>"
      using key(2) q by simp
    have db': "db' = db2" using prems(4) by simp
    show ?thesis
    proof (rule job_transitionI)
      show "effect db j a r [e] j (f a) r db'"
        using e(1,3) db1 db' id linked_put_id[OF inv lk] by (intro effectI lk) simp_all
      show "job_step (view_of j a r) (map ev_type [e]) (view_of j (f a) r)"
        using step[OF q] e(2) by simp
    qed
  qed
  done

lemma loaded_attempt:
  assumes "reg_inv db" and "load_attempt db k = Inr rec"
  obtains j a r where "linked db j a r" and "a_attempt_id a = k" and "rec = attempt_record a"
    and "tbl_lookup a_attempt_id (attempts db) k = Some a"
  using assms attempt_linked unfolding load_attempt_eq_Inr by metis

lemma loaded_job:
  assumes "reg_inv db" and "linked db j a r" and "load_job db (a_job_id a) = Inr job"
  shows "job = j"
  using assms linked_lookup(1)[OF assms(1,2)] by (auto simp: load_job_eq_Inr linked_def)

lemma loaded_reservation:
  assumes "reg_inv db" and "linked db j a r" and "load_reservation db (a_attempt_id a) = Inr rec"
  shows "rec = reservation_record r"
  using assms linked_lookup(3)[OF assms(1,2)] by (auto simp: load_reservation_eq_Inr)

lemma linked_ids: "linked db j a r \<Longrightarrow> a_job_id a = j_job_id j \<and> r_attempt_id r = a_attempt_id a"
  by (simp add: linked_def)

lemma job_step_eq: "job_step v evs w \<Longrightarrow> w = w' \<Longrightarrow> job_step v evs w'"
  by simp

lemma mark_bundle_ready_step:
  assumes inv: "reg_inv db"
    and tx: "mark_bundle_ready_tx h env k ver digest at db = Inr (Commit c y db')"
  shows "job_transition db db'"
  using tx unfolding mark_bundle_ready_tx_def
  apply (elim rbind_InrE)
  apply (drule guard_Inr, elim conjE)
  subgoal premises prems for rec
  proof -
    obtain j a r where lk: "linked db j a r" and k: "a_attempt_id a = k" and rec: "rec = attempt_record a"
      by (rule loaded_attempt[OF inv prems(1)])
    have aj: "a_job_id rec = j_job_id j" using rec linked_ids[OF lk] by simp
    show ?thesis
      apply (rule cas_event_step[OF inv lk prems(3)[folded k, unfolded aj]])
       apply (simp add: attempt_identity_def)
      apply (rule job_step_eq[OF js_bundle_ready]; simp add: view_of_def)
      done
  qed
  done

lemma mark_dispatch_issued_step:
  assumes inv: "reg_inv db"
    and tx: "mark_dispatch_issued_tx h env k ver at db = Inr (Commit c y db')"
  shows "job_transition db db'"
  using tx unfolding mark_dispatch_issued_tx_def
  apply (elim rbind_InrE)
  apply (drule guard_Inr, elim conjE)
  subgoal premises prems for rec
  proof -
    obtain j a r where lk: "linked db j a r" and k: "a_attempt_id a = k" and rec: "rec = attempt_record a"
      by (rule loaded_attempt[OF inv prems(1)])
    have aj: "a_job_id rec = j_job_id j" using rec linked_ids[OF lk] by simp
    show ?thesis
      apply (rule cas_event_step[OF inv lk prems(3)[folded k, unfolded aj]])
       apply (simp add: attempt_identity_def)
      apply (rule job_step_eq[OF js_dispatch]; simp add: view_of_def)
      done
  qed
  done

lemma bind_running_step:
  assumes inv: "reg_inv db"
    and tx: "bind_running_tx h env k ver identity db = Inr (Commit c y db')"
  shows "job_transition db db'"
  using tx unfolding bind_running_tx_def
  apply (elim rbind_InrE)
  apply (split if_split_asm, simp only: sum.inject tx_end.distinct)
  apply (drule guard_Inr, elim conjE)
  subgoal premises prems for rec
  proof -
    obtain j a r where lk: "linked db j a r" and k: "a_attempt_id a = k" and rec: "rec = attempt_record a"
      by (rule loaded_attempt[OF inv prems(1)])
    have aj: "a_job_id rec = j_job_id j" using rec linked_ids[OF lk] by simp
    show ?thesis
      apply (rule cas_event_step[OF inv lk prems(4)[folded k, unfolded aj]])
       apply (simp add: attempt_identity_def)
      apply (rule job_step_eq[OF js_bind]; simp add: view_of_def coalesce_def)
      done
  qed
  done

lemma owners_reg_inv: "reg_inv (db\<lparr>supervisor_owners := ws\<rparr>) = reg_inv db"
  by (simp add: reg_inv_def keys_ok_def)

lemma owners_transition:
  assumes "job_transition (db\<lparr>supervisor_owners := supervisor_owners db @ ws\<rparr>) db'"
  shows "job_transition db db'"
proof -
  have "effect db j a r evs j' a' r' db'"
    if "effect (db\<lparr>supervisor_owners := supervisor_owners db @ ws\<rparr>) j a r evs j' a' r' db'" for j a r evs j' a' r'
    using that unfolding effect_def linked_def by (auto dest: append_prefixD)
  then show ?thesis using assms unfolding job_transition_def by blast
qed

lemma bind_supervisor_owner_step:
  assumes inv: "reg_inv db"
    and tx: "bind_supervisor_owner_tx h env k ver owner at db = Inr (Commit c y db')"
  shows "job_transition db db'"
  using tx unfolding bind_supervisor_owner_tx_def Let_def
  apply (elim rbind_InrE)
  apply (split option.split_asm)
   apply (drule guard_Inr, elim conjE, erule rbind_InrE)
  subgoal premises prems for rec db1
  proof -
    obtain j a r where lk: "linked db j a r" and k: "a_attempt_id a = k" and rec: "rec = attempt_record a"
      by (rule loaded_attempt[OF inv prems(1)])
    have aj: "a_job_id rec = j_job_id j" using rec linked_ids[OF lk] by simp
    obtain w where db1: "db1 = db\<lparr>supervisor_owners := supervisor_owners db @ [w]\<rparr>"
      using prems(4) unfolding insert_supervisor_owner_def by (auto split: if_splits)
    have inv1: "reg_inv db1" using inv by (simp add: db1 owners_reg_inv)
    have lk1: "linked db1 j a r" using lk by (simp add: db1 linked_def)
    have ev: "(if a_state rec = Stopping then Stopping else Running)
        = (if a_state a = Stopping then Stopping else Running)" using rec by simp
    have "job_transition db1 db'"
      apply (rule cas_event_step[OF inv1 lk1 prems(5)[folded k, unfolded aj ev]])
       apply (simp add: attempt_identity_def)
      apply (cases "a_state a = Stopping")
       apply (rule job_step_eq[OF js_bind_stopping]; simp add: view_of_def coalesce_def)
      apply (rule job_step_eq[OF js_bind]; simp add: view_of_def coalesce_def)
      done
    then show ?thesis unfolding db1 by (rule owners_transition)
  qed
  apply (simp add: existing_owner_def split: if_splits)
  done

lemma request_deadline_termination_step:
  assumes inv: "reg_inv db"
    and tx: "request_deadline_termination_tx h env k at db = Inr (Commit c y db')"
  shows "job_transition db db'"
  using tx unfolding request_deadline_termination_tx_def
  apply (elim rbind_InrE)
  subgoal premises prems for rec job
  proof -
    obtain j a r where lk: "linked db j a r" and k: "a_attempt_id a = k" and rec: "rec = attempt_record a"
      by (rule loaded_attempt[OF inv prems(1)])
    have aj: "a_job_id rec = j_job_id j" using rec linked_ids[OF lk] by simp
    have job: "job = j" using loaded_job[OF inv lk] prems(2) rec by simp
    show ?thesis
    proof (cases "is_terminal (a_state rec) \<or> a_termination_intent rec = DeadlineExceeded
        \<or> a_termination_intent rec = StopRequested \<or> j_desired_state job = DesiredCancelled")
      case True
      with prems(3) have "db' = db" by simp
      with stutter_transition[OF inv lk] show ?thesis by simp
    next
      case False
      note p = prems(3)[unfolded if_not_P[OF False], THEN guard_Inr, THEN conjunct2, THEN guard_Inr]
      note q = prems(3)[unfolded if_not_P[OF False], THEN guard_Inr, THEN conjunct1]
      have run: "j_desired_state j = Run" using False job by (cases "j_desired_state j") auto
      have none: "j_resolution j = None" using q job by simp
      show ?thesis
        apply (rule cas_event_step[OF inv lk p[THEN conjunct2, folded k, unfolded aj]])
         apply (simp add: attempt_identity_def)
        apply (rule job_step_eq[OF js_deadline]; simp add: view_of_def run none)
        done
    qed
  qed
  done

section \<open>Cancellation is a step\<close>

lemma filter_key_unique:
  "distinct (map key t) \<Longrightarrow> x \<in> set t \<Longrightarrow> filter (\<lambda>y. key y = key x) t = [x]"
  by (induction t) (auto simp: filter_empty_conv rev_image_eqI)

lemma linked_latest_attempt:
  assumes "reg_inv db" and "linked db j a r"
  shows "latest_attempt_id db (j_job_id j) = Some (a_attempt_id a)"
proof -
  have "filter (\<lambda>x. a_job_id x = j_job_id j) (attempts db) = [a]"
    using filter_key_unique[OF reg_inv_keys(4)[OF assms(1)], of a] assms(2) by (simp add: linked_def)
  then show ?thesis by (simp add: latest_attempt_id_def)
qed

lemma cancel_orphaned_step:
  assumes inv: "reg_inv db" and lk: "linked db j a r" and res: "j_resolution j = Some ResOrphaned"
    and tx: "cancel_orphaned_tx h env j at db = Inr (Commit c y db')"
  shows "job_transition db db'"
  using tx unfolding cancel_orphaned_tx_def Let_def ok_or_simps linked_latest_attempt[OF inv lk] rbind_simps
  apply -
  apply (erule rbind_InrE, erule rbind_InrE)
  apply (drule guard_Inr, elim conjE)
  apply (erule rbind_pairE, erule rbind_pairE, erule rbind_InrE)
  subgoal premises prems for rec rsv n1 db1 n2 db2 db3
  proof -
    let ?Qj = "j_resolution j = Some ResOrphaned \<and> j_desired_state j \<noteq> DesiredCancelled"
    let ?j = "if ?Qj then j\<lparr>j_desired_state := DesiredCancelled, j_row_version := j_row_version j + 1\<rparr> else j"
    let ?Qa = "a_state a = Orphaned \<and> a_termination_intent a \<noteq> StopRequested"
    let ?a = "if ?Qa then a\<lparr>a_termination_intent := StopRequested, a_row_version := a_row_version a + 1\<rparr> else a"
    note l = linked_lookup[OF inv lk] and k = reg_inv_keys[OF inv] and pid = linked_put_id[OF inv lk]
    have orphaned: "a_state a = Orphaned" using prems(1,3) l(2) by (auto simp: load_attempt_eq_Inr)
    have db1: "db1 = db\<lparr>jobs := tbl_put j_job_id (j_job_id j) ?j (jobs db)\<rparr>"
      using update_jobs_key(2)[OF prems(4) k(1) l(1)] pid(1) by simp
    have d: "distinct (map a_attempt_id (attempts db1))"
      "tbl_lookup a_attempt_id (attempts db1) (a_attempt_id a) = Some a" using k(2) l(2) db1 by simp_all
    have db2: "db2 = db\<lparr>jobs := tbl_put j_job_id (j_job_id j) ?j (jobs db),
        attempts := tbl_put a_attempt_id (a_attempt_id a) ?a (attempts db)\<rparr>"
      using update_attempts_key(2)[OF prems(5) d] pid(2) db1 by simp
    obtain evs where evs: "db3 = db2\<lparr>job_events := job_events db2 @ evs\<rparr>"
        "appended (job_events db2) (j_job_id j) (a_attempt_id a) evs" "map ev_type evs \<in> {[], [''STOP_REQUESTED'']}"
    proof (cases "j_desired_state j \<noteq> DesiredCancelled \<or> a_termination_intent rec \<noteq> StopRequested")
      case True
      note ap = prems(6)[unfolded if_P[OF True]]
      obtain e where "db3 = db2\<lparr>job_events := job_events db2 @ [e]\<rparr>" "ev_type e = ''STOP_REQUESTED''"
          "appended (job_events db2) (j_job_id j) (a_attempt_id a) [e]"
        by (rule append_event_Inr[OF ap])
      then show ?thesis using that[of "[e]"] by simp
    next
      case False
      then show ?thesis using prems(6) that[of "[]"] by simp
    qed
    have db': "db' = db3" using prems(7) by simp
    show ?thesis
    proof (rule job_transitionI)
      show "effect db j a r evs ?j ?a r db'"
        using evs(1,2) db2 db' pid(3)
        by (intro effectI lk) (simp_all add: job_identity_def attempt_identity_def)
      show "job_step (view_of j a r) (map ev_type evs) (view_of ?j ?a r)"
      proof (rule job_step_eq[OF js_cancel_orphaned])
        show "(view_of j a r)\<lparr>jv_desired := DesiredCancelled, jv_intent := StopRequested\<rparr> = view_of ?j ?a r"
          using res orphaned by (simp add: view_of_def)
      qed (use res orphaned evs(3) in \<open>simp_all add: view_of_def\<close>)
    qed
  qed
  done

lemma cancel_before_dispatch_Inr:
  assumes inv: "reg_inv db" and lk: "linked db j a r" and acc: "a_state a = Accepted"
    and none: "j_resolution j = None"
    and tx: "cancel_before_dispatch h env (j_job_id j) (a_attempt_id a) at
      (db\<lparr>jobs := tbl_put j_job_id (j_job_id j) j1 (jobs db)\<rparr>) = Inr db'"
    and j1: "j1 = j\<lparr>j_desired_state := DesiredCancelled, j_row_version := j_row_version j + 1\<rparr>"
  shows "job_transition db db'"
  using tx unfolding cancel_before_dispatch_def Let_def
  apply -
  apply (erule rbind_pairE, erule rbind_InrE, erule rbind_pairE)
  subgoal premises prems for n1 db1 db2 n3 db3
  proof -
    note l = linked_lookup[OF inv lk] and k = reg_inv_keys[OF inv]
    let ?a = "a\<lparr>a_state := Cancelled, a_termination_intent := StopRequested,
       a_result_digest := Some (sha256_bytes h
         (''runtime-cancel-before-dispatch'' @ [NUL] @ j_job_id j @ [NUL] @ a_attempt_id a)),
       a_finished_at_ms := Some at, a_row_version := a_row_version a + 1\<rparr>"
    let ?j = "j1\<lparr>j_resolution := Some ResCancelled, j_current_attempt_id := None,
       j_row_version := j_row_version j1 + 1\<rparr>"
    have jid: "j_job_id j1 = j_job_id j" using j1 by simp
    have db1: "db1 = db\<lparr>jobs := tbl_put j_job_id (j_job_id j) j1 (jobs db),
        attempts := tbl_put a_attempt_id (a_attempt_id a) ?a (attempts db)\<rparr>"
      using update_attempts_key(2)[OF prems(1)] k(2) l(2) acc by simp
    have d: "distinct (map r_attempt_id (reservations db1))"
      "tbl_lookup r_attempt_id (reservations db1) (a_attempt_id a) = Some r" using k(3) l(3) db1 by simp_all
    obtain r' where r': "db2 = db1\<lparr>reservations := tbl_put r_attempt_id (a_attempt_id a) r' (reservations db1)\<rparr>"
        "r_attempt_id r' = a_attempt_id a" "r_state r' = Released" "r_reservation_id r' = r_reservation_id r"
      by (rule release_reservation_Inr[OF prems(2) d])
    have d2: "distinct (map j_job_id (jobs db2))" "tbl_lookup j_job_id (jobs db2) (j_job_id j) = Some j1"
      using k(1) l(1) db1 r'(1) jid by (simp_all add: tbl_lookup_put)
    have db3: "db3 = db2\<lparr>jobs := tbl_put j_job_id (j_job_id j) ?j (jobs db2)\<rparr>"
      using update_jobs_key(2)[OF prems(3) d2] none j1 by simp
    obtain e where e: "db' = db3\<lparr>job_events := job_events db3 @ [e]\<rparr>" "ev_type e = ''STOP_REQUESTED''"
        "appended (job_events db3) (j_job_id j) (a_attempt_id a) [e]"
      by (rule append_event_Inr[OF prems(4)])
    show ?thesis
    proof (rule job_transitionI)
      show "effect db j a r [e] ?j ?a r' db'"
        using e(1,3) db3 r'(1,2,4) db1 linked_ids[OF lk] jid
        by (intro effectI lk) (simp_all add: job_identity_def attempt_identity_def j1)
      show "job_step (view_of j a r) (map ev_type [e]) (view_of ?j ?a r')"
      proof (simp only: list.map e(2), rule job_step_eq[OF js_cancel_accepted])
        show "(view_of j a r)\<lparr>jv_desired := DesiredCancelled, jv_resolution := Some ResCancelled,
            jv_current := None, jv_state := Cancelled, jv_intent := StopRequested, jv_result := True,
            jv_reservation := Released\<rparr> = view_of ?j ?a r'"
          using r'(3) j1 by (simp add: view_of_def)
      qed (use acc none in \<open>simp_all add: view_of_def\<close>)
    qed
  qed
  done

lemma cancel_after_dispatch_Inr:
  assumes inv: "reg_inv db" and lk: "linked db j a r" and st: "a_state a \<in> {Starting, Running, Recovering}"
    and none: "j_resolution j = None"
    and tx: "cancel_after_dispatch h env (j_job_id j) (attempt_record a) at
      (db\<lparr>jobs := tbl_put j_job_id (j_job_id j) j1 (jobs db)\<rparr>) = Inr db'"
    and j1: "j1 = j\<lparr>j_desired_state := DesiredCancelled, j_row_version := j_row_version j + 1\<rparr>"
  shows "job_transition db db'"
  using tx unfolding cancel_after_dispatch_def Let_def attempt_record_sel
  apply -
  apply (erule rbind_pairE)
  subgoal premises prems for n1 db1
  proof -
    note l = linked_lookup[OF inv lk] and k = reg_inv_keys[OF inv]
    let ?a = "a\<lparr>a_state := Stopping, a_termination_intent := StopRequested, a_row_version := a_row_version a + 1\<rparr>"
    have db1: "db1 = db\<lparr>jobs := tbl_put j_job_id (j_job_id j) j1 (jobs db),
        attempts := tbl_put a_attempt_id (a_attempt_id a) ?a (attempts db)\<rparr>"
      using update_attempts_key(2)[OF prems(1)] k(2) l(2) st by simp
    obtain e where e: "db' = db1\<lparr>job_events := job_events db1 @ [e]\<rparr>" "ev_type e = ''STOP_REQUESTED''"
        "appended (job_events db1) (j_job_id j) (a_attempt_id a) [e]"
      by (rule append_event_Inr[OF prems(2)])
    show ?thesis
    proof (rule job_transitionI)
      show "effect db j a r [e] j1 ?a r db'"
        using e(1,3) db1 linked_put_id(3)[OF inv lk]
        by (intro effectI lk) (simp_all add: job_identity_def attempt_identity_def j1)
      show "job_step (view_of j a r) (map ev_type [e]) (view_of j1 ?a r)"
        unfolding list.map e(2)
        by (rule job_step_eq[OF js_cancel_dispatched]) (use st none in \<open>simp_all add: view_of_def j1\<close>)
    qed
  qed
  done

lemma request_cancel_step:
  assumes inv: "reg_inv db" and tx: "request_cancel_tx h env job_id at db = Inr (Commit c y db')"
  shows "job_transition db db'"
  using tx unfolding request_cancel_tx_def
  apply -
  apply (erule rbind_InrE)
  subgoal premises prems for job
  proof -
    obtain a r where lk: "linked db job a r" and jid: "j_job_id job = job_id"
      using job_linked[OF inv] prems(1) unfolding load_job_eq_Inr by metis
    note l = linked_lookup[OF inv lk] and k = reg_inv_keys[OF inv]
    show ?thesis
    proof (cases "j_resolution job \<noteq> None")
      case True
      note p = prems(2)[unfolded if_P[OF True]]
      show ?thesis
      proof (cases "j_resolution job = Some ResOrphaned")
        case True
        then show ?thesis using p cancel_orphaned_step[OF inv lk True] by simp
      next
        case False
        with p have "db' = db" by simp
        then show ?thesis using stutter_transition[OF inv lk] by simp
      qed
    next
      case False
      then have none: "j_resolution job = None" by simp
      have cur: "j_current_attempt_id job = Some (a_attempt_id a)"
        using linked_wf[OF inv lk] none by (simp add: wf_view_def resolution_agrees_def view_of_def)
      have ld: "load_attempt db (a_attempt_id a) = Inr (attempt_record a)"
        using l(2) by (simp add: load_attempt_eq_Inr)
      note p = prems(2)[unfolded if_not_P[OF False] cur ok_or_simps rbind_simps ld, THEN guard_Inr]
      let ?j1 = "job\<lparr>j_desired_state := DesiredCancelled, j_row_version := j_row_version job + 1\<rparr>"
      from p[THEN conjunct2] show ?thesis
        apply -
        apply (erule rbind_pairE, erule rbind_InrE)
        subgoal premises q for n1 db1 db2
        proof -
          have db1: "db1 = db\<lparr>jobs := tbl_put j_job_id (j_job_id job) ?j1 (jobs db)\<rparr>"
            using update_jobs_key(2)[OF q(1)[folded jid] k(1) l(1)] none by simp
          have db': "db2 = db'" using q(3) by simp
          consider "a_state a = Accepted" | "a_state a \<in> {Starting, Running, Recovering}" | "a_state a = Stopping"
            using p[THEN conjunct1] by (cases "a_state a") auto
          then show ?thesis
          proof cases
            case 1
            then show ?thesis using q(2) db' db1
              by (intro cancel_before_dispatch_Inr[OF inv lk 1 none _ refl]) (simp add: jid)
          next
            case 2
            then have n: "a_state (attempt_record a) \<noteq> Accepted" "a_state (attempt_record a) \<noteq> Stopping" by auto
            show ?thesis using q(2) db' db1 n
              by (intro cancel_after_dispatch_Inr[OF inv lk 2 none _ refl]) (simp add: jid)
          next
            case 3
            have e: "db' = db1" using q(2) db' 3 by simp
            show ?thesis
            proof (rule job_transitionI)
              show "effect db job a r [] ?j1 a r db'"
                using e db1 linked_put_id(2,3)[OF inv lk]
                by (intro effectI lk) (simp_all add: job_identity_def)
              show "job_step (view_of job a r) (map ev_type []) (view_of ?j1 a r)"
                unfolding list.map
                by (rule job_step_eq[OF js_cancel_stopping]) (use 3 none in \<open>simp_all add: view_of_def\<close>)
            qed
          qed
        qed
        done
    qed
  qed
  done

section \<open>Terminal writes are steps\<close>

lemma terminal_row_identity [simp]: "attempt_identity (terminal_row request a) = attempt_identity a"
  by (simp add: attempt_identity_def terminal_row_def)

text \<open>Two events of one transaction.\<close>

lemma append_two_events:
  assumes "rbind (append_event h env k1 job_id (Some aid) t1 o1 p1 n1 rs1 d1 at1 db) (\<lambda>db1.
      append_event h env k2 job_id (Some aid) t2 o2 p2 n2 rs2 d2 at2 db1) = Inr db'"
  obtains evs where "db' = db\<lparr>job_events := job_events db @ evs\<rparr>" and "map ev_type evs = [t1, t2]"
    and "appended (job_events db) job_id aid evs"
proof -
  from assms obtain db1 where a1: "append_event h env k1 job_id (Some aid) t1 o1 p1 n1 rs1 d1 at1 db = Inr db1"
    and a2: "append_event h env k2 job_id (Some aid) t2 o2 p2 n2 rs2 d2 at2 db1 = Inr db'"
    by (rule rbind_InrE)
  obtain e1 where e1: "db1 = db\<lparr>job_events := job_events db @ [e1]\<rparr>" "ev_type e1 = t1"
      "appended (job_events db) job_id aid [e1]" by (rule append_event_Inr[OF a1])
  obtain e2 where e2: "db' = db1\<lparr>job_events := job_events db1 @ [e2]\<rparr>" "ev_type e2 = t2"
      "appended (job_events db1) job_id aid [e2]" by (rule append_event_Inr[OF a2])
  show ?thesis using e1 e2 by (intro that[of "[e1, e2]"]) simp_all
qed

text \<open>The end of a terminal write: the Job row, then the two events.\<close>

lemma finish_terminal:
  assumes inv: "reg_inv db" and lk: "linked db j a r"
    and db3: "db3 = db\<lparr>attempts := tbl_put a_attempt_id (a_attempt_id a) a' (attempts db),
        artifacts := artifacts db @ arts,
        reservations := tbl_put r_attempt_id (a_attempt_id a) r' (reservations db)\<rparr>"
    and up: "update_jobs (\<lambda>x. j_job_id x = j_job_id j \<and> Q x) f ctx db3 = Inr (n, db4)" and q: "Q j"
    and ev: "rbind (append_event h env k1 (j_job_id j) (Some (a_attempt_id a)) t1 o1 p1 n1 rs1 d1 at1 db4)
        (\<lambda>db5. append_event h env k2 (j_job_id j) (Some (a_attempt_id a)) t2 o2 p2 n2 rs2 d2 at2 db5) = Inr db'"
    and ids: "attempt_identity a' = attempt_identity a" "r_attempt_id r' = a_attempt_id a"
      "r_reservation_id r' = r_reservation_id r" "job_identity (f j) = job_identity j"
    and step: "job_step (view_of j a r) [t1, t2] (view_of (f j) a' r')"
  shows "job_transition db db'"
proof -
  note l = linked_lookup[OF inv lk] and k = reg_inv_keys[OF inv]
  have "distinct (map j_job_id (jobs db3))" "tbl_lookup j_job_id (jobs db3) (j_job_id j) = Some j"
    using k(1) l(1) by (simp_all add: db3)
  note db4 = update_jobs_key(2)[OF up this]
  obtain evs where evs: "db' = db4\<lparr>job_events := job_events db4 @ evs\<rparr>" "map ev_type evs = [t1, t2]"
      "appended (job_events db4) (j_job_id j) (a_attempt_id a) evs"
    by (rule append_two_events[OF ev])
  show ?thesis
  proof (rule job_transitionI)
    show "effect db j a r evs (f j) a' r' db'"
      using evs(1,3) db4 q db3 ids linked_ids[OF lk] by (intro effectI lk) simp_all
    show "job_step (view_of j a r) (map ev_type evs) (view_of (f j) a' r')"
      using step evs(2) by simp
  qed
qed

lemma write_terminal_step:
  assumes inv: "reg_inv db" and lk: "linked db j a r" and none: "j_resolution j = None"
    and id: "a_attempt_id a = tc_attempt_id request"
    and can: "can_transition_to (a_state a) (tc_state request)"
    and tx: "write_terminal h env request (attempt_record a) db = Inr db'"
  shows "job_transition db db'"
  using tx unfolding write_terminal_def attempt_record_sel
  apply -
  apply (erule rbind_pairE)
  apply (drule guard_Inr, elim conjE)
  apply (erule rbind_InrE, erule rbind_InrE, erule rbind_InrE, erule rbind_pairE)
  subgoal premises prems for n1 db1 db2 db3 res n4 db4
  proof -
    note l = linked_lookup[OF inv lk] and k = reg_inv_keys[OF inv]
    have aj: "a_job_id a = j_job_id j" using linked_ids[OF lk] by simp
    note key = update_attempts_key[OF prems(1)[folded id] k(2) l(2)]
    have q: "a_row_version a = tc_expected_row_version request \<and> \<not> is_terminal (a_state a)"
      by (rule if_one[OF key(1) prems(2)])
    have db1: "db1 = db\<lparr>attempts := tbl_put a_attempt_id (a_attempt_id a) (terminal_row request a) (attempts db)\<rparr>"
      using key(2) q by simp
    define arts where "arts = map (artifact_record (attempt_record a) (tc_finished_at_ms request)) (tc_artifacts request)"
    have db2: "db2 = db1\<lparr>artifacts := artifacts db1 @ arts\<rparr>"
      using register_artifacts_Inr[OF prems(3)] unfolding arts_def .
    have d: "distinct (map r_attempt_id (reservations db2))"
      "tbl_lookup r_attempt_id (reservations db2) (a_attempt_id a) = Some r" using k(3) l(3) db1 db2 by simp_all
    obtain r' where r': "db3 = db2\<lparr>reservations := tbl_put r_attempt_id (a_attempt_id a) r' (reservations db2)\<rparr>"
        "r_attempt_id r' = a_attempt_id a" "r_reservation_id r' = r_reservation_id r"
        "r_state r' = terminal_reservation (tc_state request)"
    proof (cases "tc_state request = Orphaned")
      case True
      note p = prems(4)[unfolded if_P[OF True]]
      show ?thesis by (rule hold_orphaned_reservation_Inr[OF p d])
          (use True in \<open>intro that; simp add: terminal_reservation_def\<close>)
    next
      case False
      note p = prems(4)[unfolded if_not_P[OF False]]
      show ?thesis by (rule release_reservation_Inr[OF p d])
          (use False in \<open>intro that; simp add: terminal_reservation_def\<close>)
    qed
    have res: "tc_state request = resolution_state res"
      using prems(5) by (simp add: resolution_for_state_terminal(2))
    have db3: "db3 = db\<lparr>attempts := tbl_put a_attempt_id (a_attempt_id a) (terminal_row request a) (attempts db),
        artifacts := artifacts db @ arts,
        reservations := tbl_put r_attempt_id (a_attempt_id a) r' (reservations db)\<rparr>"
      using r'(1) db2 db1 by simp
    show ?thesis
      apply (rule finish_terminal[OF inv lk db3 prems(6)[unfolded aj] none prems(7)[unfolded aj]])
          apply (simp_all add: r' job_identity_def)
      apply (rule job_step_eq[OF js_terminal[where s = "tc_state request" and res = res]])
         apply (use none can res r'(4) in \<open>simp_all add: view_of_def terminal_row_def\<close>)
      done
  qed
  done

lemma commit_terminal_step:
  assumes inv: "reg_inv db" and tx: "commit_terminal_tx h env request db = Inr (Commit c y db')"
  shows "job_transition db db'"
  using tx unfolding commit_terminal_tx_def
  apply -
  apply (erule rbind_InrE, erule rbind_InrE)
  subgoal premises prems for rec job
  proof -
    obtain j a r where lk: "linked db j a r" and k: "a_attempt_id a = tc_attempt_id request"
      and rec: "rec = attempt_record a" by (rule loaded_attempt[OF inv prems(1)])
    have job: "job = j" using loaded_job[OF inv lk] prems(2) rec by simp
    show ?thesis
    proof (cases "is_terminal (a_state rec)")
      case True
      have "db' = db" using prems(3)[unfolded if_P[OF True]] by (simp split: if_splits)
      then show ?thesis using stutter_transition[OF inv lk] by simp
    next
      case False
      note g = prems(3)[unfolded if_not_P[OF False], THEN guard_Inr, THEN conjunct2, THEN guard_Inr]
      note g' = g[THEN conjunct2, THEN guard_Inr]
      have can: "can_transition_to (a_state a) (tc_state request)" using g[THEN conjunct1] rec by simp
      have none: "j_resolution j = None" using g'[THEN conjunct1] job by simp
      have "write_terminal h env request rec db = Inr db'"
        by (rule rbind_InrE[OF g'[THEN conjunct2]]) simp
      then show ?thesis using write_terminal_step[OF inv lk none k can] rec by simp
    qed
  qed
  done

section \<open>Recovery and repair are steps\<close>

lemma write_recovered_step:
  assumes inv: "reg_inv db" and lk: "linked db j a r" and res0: "j_resolution j = Some ResOrphaned"
    and held: "r_state r = HeldOrphaned" and id: "a_attempt_id a = tc_attempt_id request"
    and st: "tc_state request \<in> {Succeeded, Failed, TimedOut, Cancelled, Lost}"
    and tx: "write_recovered h env request (attempt_record a) db = Inr db'"
  shows "job_transition db db'"
  using tx unfolding write_recovered_def attempt_record_sel
  apply -
  apply (erule rbind_pairE)
  apply (drule guard_Inr, elim conjE)
  apply (erule rbind_InrE, erule rbind_InrE, erule rbind_InrE, erule rbind_pairE)
  subgoal premises prems for n1 db1 db2 db3 res n4 db4
  proof -
    note l = linked_lookup[OF inv lk] and k = reg_inv_keys[OF inv]
    have aj: "a_job_id a = j_job_id j" using linked_ids[OF lk] by simp
    note key = update_attempts_key[OF prems(1)[folded id] k(2) l(2)]
    have q: "a_row_version a = tc_expected_row_version request \<and> a_state a = Orphaned"
      by (rule if_one[OF key(1) prems(2)])
    have db1: "db1 = db\<lparr>attempts := tbl_put a_attempt_id (a_attempt_id a) (terminal_row request a) (attempts db)\<rparr>"
      using key(2) q by simp
    define arts where "arts = map (artifact_record (attempt_record a) (tc_finished_at_ms request)) (tc_artifacts request)"
    have db2: "db2 = db1\<lparr>artifacts := artifacts db1 @ arts\<rparr>"
      using register_artifacts_Inr[OF prems(3)] unfolding arts_def .
    have d: "distinct (map r_attempt_id (reservations db2))"
      "tbl_lookup r_attempt_id (reservations db2) (a_attempt_id a) = Some r" using k(3) l(3) db1 db2 by simp_all
    obtain r' where r': "db3 = db2\<lparr>reservations := tbl_put r_attempt_id (a_attempt_id a) r' (reservations db2)\<rparr>"
        "r_attempt_id r' = a_attempt_id a" "r_state r' = Released" "r_reservation_id r' = r_reservation_id r"
      by (rule release_reservation_Inr[OF prems(4) d])
    have res: "tc_state request = resolution_state res"
      using prems(5) by (simp add: resolution_for_state_terminal(2))
    then have "res \<noteq> ResOrphaned" using st by auto
    have db3: "db3 = db\<lparr>attempts := tbl_put a_attempt_id (a_attempt_id a) (terminal_row request a) (attempts db),
        artifacts := artifacts db @ arts,
        reservations := tbl_put r_attempt_id (a_attempt_id a) r' (reservations db)\<rparr>"
      using r'(1) db2 db1 by simp
    show ?thesis
      apply (rule finish_terminal[OF inv lk db3 prems(6)[unfolded aj] res0 prems(7)[unfolded aj]])
          apply (simp_all add: r' job_identity_def)
      apply (rule job_step_eq[OF js_recover[where s = "tc_state request" and res = res]])
           apply (use res0 held q res r'(3) \<open>res \<noteq> ResOrphaned\<close> in \<open>simp_all add: view_of_def terminal_row_def\<close>)
      done
  qed
  done

lemma recover_orphaned_terminal_step:
  assumes inv: "reg_inv db" and st: "tc_state request \<in> {Succeeded, Failed, TimedOut, Cancelled, Lost}"
    and tx: "recover_orphaned_terminal_tx h env request db = Inr (Commit c y db')"
  shows "job_transition db db'"
  using tx unfolding recover_orphaned_terminal_tx_def
  apply -
  apply (erule rbind_InrE, erule rbind_InrE, erule rbind_InrE)
  apply (drule guard_Inr, elim conjE, drule guard_Inr, elim conjE, erule rbind_InrE)
  subgoal premises prems for rec job rsv db1
  proof -
    obtain j a r where lk: "linked db j a r" and k: "a_attempt_id a = tc_attempt_id request"
      and rec: "rec = attempt_record a" by (rule loaded_attempt[OF inv prems(1)])
    have job: "job = j" using loaded_job[OF inv lk] prems(2) rec by simp
    have rsv: "rsv = reservation_record r" using loaded_reservation[OF inv lk] prems(3) rec by simp
    have g: "j_resolution j = Some ResOrphaned" "r_state r = HeldOrphaned" using prems(4) job rsv by simp_all
    have db': "db1 = db'" using prems(7) by simp
    show ?thesis using write_recovered_step[OF inv lk g k st] prems(6) rec db' by simp
  qed
  done

lemma write_repaired_terminal_step:
  assumes inv: "reg_inv db" and lk: "linked db j a r" and id: "a_attempt_id a = tc_attempt_id request"
    and allowed: "(a_state a \<in> {Lost, Orphaned} \<and> tc_state request \<in> {Succeeded, Failed, TimedOut, Cancelled})
      \<or> (a_state a = Lost \<and> tc_state request = Lost)"
    and old: "j_resolution j = Some old" "a_state a = resolution_state old"
    and ver: "j_row_version j = au_expected_job_row_version audit"
    and tx: "write_repaired_terminal h env n request audit (attempt_record a) db = Inr db'"
  shows "job_transition db db'"
  using tx unfolding write_repaired_terminal_def attempt_record_sel Let_def
  apply -
  apply (erule rbind_pairE)
  apply (drule guard_Inr, elim conjE)
  apply (erule rbind_InrE, erule rbind_pairE, erule rbind_InrE, erule rbind_InrE, erule rbind_pairE)
  apply (drule guard_Inr, elim conjE)
  subgoal premises prems for n1 db1 db2 n3 db3 db4 res n5 db5
  proof -
    note l = linked_lookup[OF inv lk] and k = reg_inv_keys[OF inv]
    have aj: "a_job_id a = j_job_id j" using linked_ids[OF lk] by simp
    note key = update_attempts_key[OF prems(1)[folded id] k(2) l(2)]
    have q: "a_row_version a = tc_expected_row_version request \<and> a_state a = a_state a"
      by (rule if_one[OF key(1) prems(2)])
    have db1: "db1 = db\<lparr>attempts := tbl_put a_attempt_id (a_attempt_id a) (terminal_row request a) (attempts db)\<rparr>"
      using key(2) q by simp
    define arts where "arts = map (artifact_record (attempt_record a) (tc_finished_at_ms request)) (tc_artifacts request)"
    have db2: "db2 = db1\<lparr>artifacts := artifacts db1 @ arts\<rparr>"
      using register_artifacts_Inr[OF prems(3)] unfolding arts_def .
    have tid: "a_attempt_id (terminal_row request a) = a_attempt_id a" by (simp add: terminal_row_def)
    have d2: "distinct (map a_attempt_id (attempts db2))"
      "tbl_lookup a_attempt_id (attempts db2) (a_attempt_id a) = Some (terminal_row request a)"
      using k(2) l(2) db1 db2 tid by (simp_all add: tbl_lookup_put)
    define a' where "a' = (terminal_row request a)\<lparr>a_recovery := Some \<lparr>rc_required = False,
        rc_reason_code = ''ADMIN_REPAIR_COMPLETED'', rc_evidence_digest = au_case_fingerprint audit,
        rc_observed_at_ms = au_observed_at_ms audit\<rparr>\<rparr>"
    have db3: "db3 = db2\<lparr>attempts := tbl_put a_attempt_id (a_attempt_id a) a' (attempts db)\<rparr>"
      using update_attempts_one[OF prems(4) d2] db2 db1 tid unfolding a'_def by simp
    have d: "distinct (map r_attempt_id (reservations db3))"
      "tbl_lookup r_attempt_id (reservations db3) (a_attempt_id a) = Some r" using k(3) l(3) db1 db2 db3 by simp_all
    obtain r' where r': "db4 = db3\<lparr>reservations := tbl_put r_attempt_id (a_attempt_id a) r' (reservations db3)\<rparr>"
        "r_attempt_id r' = a_attempt_id a" "r_state r' = Released" "r_reservation_id r' = r_reservation_id r"
      by (rule release_reservation_Inr[OF prems(5) d])
    have res: "tc_state request = resolution_state res"
      using prems(6) by (simp add: resolution_for_state_terminal(2))
    have r2: "res \<noteq> ResOrphaned" "res = ResLost \<longrightarrow> a_state a = Lost" using allowed res by auto
    have db4: "db4 = db\<lparr>attempts := tbl_put a_attempt_id (a_attempt_id a) a' (attempts db),
        artifacts := artifacts db @ arts,
        reservations := tbl_put r_attempt_id (a_attempt_id a) r' (reservations db)\<rparr>"
      using r'(1) db3 db2 db1 by simp
    have st: "a_state a \<in> {Lost, Orphaned}" using allowed by blast
    show ?thesis
      apply (rule finish_terminal[OF inv lk db4 prems(7)[unfolded aj] ver prems(9)[unfolded aj]])
          apply (simp add: a'_def attempt_identity_def terminal_row_def)
         apply (simp_all add: r' job_identity_def)
      apply (rule job_step_eq[OF js_repair[where s = "tc_state request" and res = res and old = old]])
            apply (use st r2 old res r'(3) in \<open>simp_all add: view_of_def a'_def terminal_row_def\<close>)
      done
  qed
  done

lemma repair_terminal_step:
  assumes inv: "reg_inv db" and tx: "repair_terminal_admin_transaction h env n request audit db = Inr db'"
  shows "job_transition db db'"
  using tx unfolding repair_terminal_admin_transaction_def Let_def
  apply -
  apply (erule rbind_InrE, erule rbind_InrE, erule rbind_InrE, erule rbind_InrE, erule rbind_InrE)
  apply (drule guard_Inr, elim conjE, erule rbind_InrE, drule guard_Inr, elim conjE)
  subgoal premises prems for u v rec job rsv old
  proof -
    obtain j a r where lk: "linked db j a r" and k: "a_attempt_id a = tc_attempt_id request"
      and rec: "rec = attempt_record a" by (rule loaded_attempt[OF inv prems(3)])
    have job: "job = j" using loaded_job[OF inv lk] prems(4) rec by simp
    have g: "j_resolution j = Some old" "j_row_version j = au_expected_job_row_version audit"
      using prems(8) job by simp_all
    have st: "a_state a = resolution_state old" using prems(7) rec by (simp add: resolution_for_state_terminal(2))
    have al: "(a_state a \<in> {Lost, Orphaned} \<and> tc_state request \<in> {Succeeded, Failed, TimedOut, Cancelled})
      \<or> (a_state a = Lost \<and> tc_state request = Lost)" using prems(6) rec by simp
    show ?thesis using write_repaired_terminal_step[OF inv lk k al g(1) st g(2)] prems(9) rec by simp
  qed
  done

text \<open>Moving a reservation to what its terminal Attempt requires, with one event.\<close>

lemma converge_write_step:
  assumes inv: "reg_inv db" and lk: "linked db j a r"
    and target: "terminal_reservation_target (attempt_record a) j = Inr target"
    and ty: "ty \<in> {''TERMINAL_RESERVATION_CONVERGED'', ''ADMIN_RESERVATION_REPAIR''}"
    and mv: "(if target = HeldOrphaned then hold_orphaned_reservation (a_attempt_id a) at1 why1 db
        else release_reservation (a_attempt_id a) at2 why2 db) = Inr db1"
    and ev: "append_event h env n (j_job_id j) (Some (a_attempt_id a)) ty origin prev new reason detail at db1 = Inr db'"
  shows "job_transition db db'"
proof -
  note l = linked_lookup[OF inv lk] and k = reg_inv_keys[OF inv]
  have t: "is_terminal (a_state a)" "target = terminal_reservation (a_state a)"
    and old: "\<exists>old. j_resolution j = Some old \<and> a_state a = resolution_state old"
    using target by (auto simp: terminal_reservation_target_def terminal_reservation_def
        resolution_for_state_terminal(2) rbind_eq_Inr split: if_splits)
  obtain r' where r': "db1 = db\<lparr>reservations := tbl_put r_attempt_id (a_attempt_id a) r' (reservations db)\<rparr>"
      "r_attempt_id r' = a_attempt_id a" "r_reservation_id r' = r_reservation_id r" "r_state r' = target"
  proof (cases "target = HeldOrphaned")
    case True
    show ?thesis by (rule hold_orphaned_reservation_Inr[OF mv[unfolded if_P[OF True]] k(3) l(3)])
        (use True in \<open>intro that; simp\<close>)
  next
    case False
    then have "target = Released" using t(2) by (simp add: terminal_reservation_def split: if_splits)
    show ?thesis by (rule release_reservation_Inr[OF mv[unfolded if_not_P[OF False]] k(3) l(3)])
        (use \<open>target = Released\<close> in \<open>intro that; simp\<close>)
  qed
  obtain e where e: "db' = db1\<lparr>job_events := job_events db1 @ [e]\<rparr>" "ev_type e = ty"
      "appended (job_events db1) (j_job_id j) (a_attempt_id a) [e]" by (rule append_event_Inr[OF ev])
  obtain res where res: "j_resolution j = Some res" "a_state a = resolution_state res" using old by blast
  show ?thesis
  proof (rule job_transitionI)
    show "effect db j a r [e] j a r' db'"
      using e(1,3) r' linked_put_id(1,2)[OF inv lk] linked_ids[OF lk] by (intro effectI lk) simp_all
    show "job_step (view_of j a r) (map ev_type [e]) (view_of j a r')"
      unfolding list.map e(2)
      by (rule job_step_eq[OF js_converge[where old = res]])
        (use t res ty r'(4) in \<open>simp_all add: view_of_def\<close>)
  qed
qed

lemma repair_reservation_step:
  assumes inv: "reg_inv db"
    and tx: "repair_terminal_reservation_admin_transaction h env n k ver audit db = Inr db'"
  shows "job_transition db db'"
  using tx unfolding repair_terminal_reservation_admin_transaction_def
  apply -
  apply (erule rbind_InrE, erule rbind_InrE, erule rbind_InrE)
  apply (drule guard_Inr, elim conjE, erule rbind_InrE)
  subgoal premises prems for rec job rsv target
  proof -
    obtain j a r where lk: "linked db j a r" and k: "a_attempt_id a = k" and rec: "rec = attempt_record a"
      by (rule loaded_attempt[OF inv prems(1)])
    have job: "job = j" using loaded_job[OF inv lk] prems(2) rec by simp
    have aj: "a_job_id rec = j_job_id j" using rec linked_ids[OF lk] by simp
    have tg: "terminal_reservation_target (attempt_record a) j = Inr target" using prems(5) rec job by simp
    show ?thesis
    proof (cases "target = r_state rsv")
      case True
      then have "db' = db" using prems(6) by simp
      then show ?thesis using stutter_transition[OF inv lk] by simp
    next
      case False
      show ?thesis
        apply (rule rbind_InrE[OF prems(6)[unfolded if_not_P[OF False]]])
        subgoal premises q
          by (rule converge_write_step[OF inv lk tg _ q(1)[folded k] q(2)[folded k, unfolded aj]]) simp
        done
    qed
  qed
  done

lemma converge_terminal_reservation_step:
  assumes inv: "reg_inv db"
    and tx: "converge_terminal_reservation_tx h env k at db = Inr (Commit c y db')"
  shows "job_transition db db'"
  using tx unfolding converge_terminal_reservation_tx_def converge_target_def rbind_assoc rbind_simps prod.case
  apply -
  apply (erule rbind_InrE, erule rbind_InrE, erule rbind_InrE, erule rbind_InrE)
  subgoal premises prems for rec job rsv target
  proof -
    obtain j a r where lk: "linked db j a r" and k: "a_attempt_id a = k" and rec: "rec = attempt_record a"
      by (rule loaded_attempt[OF inv prems(1)])
    have job: "job = j" using loaded_job[OF inv lk] prems(2) rec by simp
    have aj: "a_job_id rec = j_job_id j" using rec linked_ids[OF lk] by simp
    have tg: "terminal_reservation_target (attempt_record a) j = Inr target" using prems(4) rec job by simp
    show ?thesis
    proof (cases "r_state rsv = target")
      case True
      then have "db' = db" using prems(5) by simp
      then show ?thesis using stutter_transition[OF inv lk] by simp
    next
      case False
      show ?thesis
        apply (rule rbind_InrE[OF prems(5)[unfolded if_not_P[OF False]]])
        apply (erule rbind_InrE)
        subgoal premises q for db1 db2
        proof -
          have db': "db2 = db'" using q(3) by simp
          show ?thesis
            by (rule converge_write_step[OF inv lk tg _ q(1)[folded k] q(2)[folded k, unfolded aj db']]) simp
        qed
        done
    qed
  qed
  done

section \<open>The recovery condition\<close>

lemma condition_effect:
  assumes inv: "reg_inv db" and lk: "linked db j a r"
    and db1: "db1 = db\<lparr>attempts := tbl_put a_attempt_id (a_attempt_id a) (a\<lparr>a_recovery := rc\<rparr>) (attempts db)\<rparr>"
    and ty: "ty \<in> {''RECONCILIATION_FAILED'', ''RECONCILIATION_CONVERGED''}"
    and ev: "append_event h env n (j_job_id j) (Some (a_attempt_id a)) ty origin prev new reason detail at db1 = Inr db'"
  shows "job_transition db db'"
proof -
  obtain e where e: "db' = db1\<lparr>job_events := job_events db1 @ [e]\<rparr>" "ev_type e = ty"
      "appended (job_events db1) (j_job_id j) (a_attempt_id a) [e]" by (rule append_event_Inr[OF ev])
  show ?thesis
  proof (rule job_transitionI)
    show "effect db j a r [e] j (a\<lparr>a_recovery := rc\<rparr>) r db'"
      using e(1,3) db1 linked_put_id(1,3)[OF inv lk] by (intro effectI lk) (simp_all add: attempt_identity_def)
    have "view_of j (a\<lparr>a_recovery := rc\<rparr>) r = view_of j a r" by (simp add: view_of_def)
    then show "job_step (view_of j a r) (map ev_type [e]) (view_of j (a\<lparr>a_recovery := rc\<rparr>) r)"
      using js_condition[OF ty] e(2) by simp
  qed
qed

lemma record_reconciliation_failure_step:
  assumes inv: "reg_inv db"
    and tx: "record_reconciliation_failure_tx h env k err at db = Inr (Commit c y db')"
  shows "job_transition db db'"
  using tx unfolding record_reconciliation_failure_tx_def
  apply -
  apply (erule rbind_InrE, erule rbind_pairE, erule rbind_InrE)
  subgoal premises prems for rec n1 db1 db2
  proof -
    obtain j a r where lk: "linked db j a r" and k: "a_attempt_id a = k" and rec: "rec = attempt_record a"
      by (rule loaded_attempt[OF inv prems(1)])
    have ids: "a_job_id rec = j_job_id j" "a_attempt_id rec = a_attempt_id a" using rec linked_ids[OF lk] by simp_all
    have db': "db2 = db'" using prems(4) by simp
    note db1 = update_attempts_one[OF prems(2)[unfolded ids] reg_inv_keys(2)[OF inv] linked_lookup(2)[OF inv lk]]
    show ?thesis by (rule condition_effect[OF inv lk db1 _ prems(3)[unfolded ids db']]) simp
  qed
  done

lemma clear_reconciliation_failure_step:
  assumes inv: "reg_inv db"
    and tx: "clear_reconciliation_failure_tx h env k at db = Inr (Commit c y db')"
  shows "job_transition db db'"
  using tx unfolding clear_reconciliation_failure_tx_def
  apply -
  apply (erule rbind_InrE, erule rbind_pairE, erule rbind_InrE)
  subgoal premises prems for rec n1 db1 db2
  proof -
    obtain j a r where lk: "linked db j a r" and k: "a_attempt_id a = k" and rec: "rec = attempt_record a"
      by (rule loaded_attempt[OF inv prems(1)])
    have ids: "a_job_id rec = j_job_id j" "a_attempt_id rec = a_attempt_id a" using rec linked_ids[OF lk] by simp_all
    have db': "db2 = db'" using prems(4) by simp
    note key = update_attempts_key[OF prems(2)[folded k] reg_inv_keys(2)[OF inv] linked_lookup(2)[OF inv lk]]
    show ?thesis
    proof (cases "recovery_active a")
      case True
      have n: "n1 > 0" using key(1) True by simp
      note db1 = key(2)[unfolded if_P[OF True]]
      show ?thesis by (rule condition_effect[OF inv lk db1 _ prems(3)[unfolded if_P[OF n] ids db']]) simp
    next
      case False
      then have "db1 = db" "\<not> n1 > 0" using key by simp_all
      then have "db' = db" using prems(3) db' by simp
      then show ?thesis using stutter_transition[OF inv lk] by simp
    qed
  qed
  done

end
