(* ===== verification/Registry_Invariant.thy ===== *)
theory Registry_Invariant
  imports Registry_Refinement
begin

text \<open>
  Admission keeps the invariant, the step relation of the whole registry, and its invariants: the
  consistency of every Job (\<open>reg_inv\<close>), one capacity holder per workspace, one idempotency key per
  Job and the event log numbered per Job without gaps.
\<close>

section \<open>Admission\<close>

definition admission :: "registry \<Rightarrow> prepared_admission \<Rightarrow> job_event list \<Rightarrow> registry \<Rightarrow> bool" where
  "admission db pa evs db' \<longleftrightarrow>
     j_job_id (pa_job pa) \<notin> j_job_id ` set (jobs db)
     \<and> (\<forall>j \<in> set (jobs db). j_principal j \<noteq> j_principal (pa_job pa)
          \<or> j_client_request_id j \<noteq> j_client_request_id (pa_job pa))
     \<and> a_attempt_id (pa_attempt pa) \<notin> a_attempt_id ` set (attempts db)
     \<and> a_attempt_id (pa_attempt pa) \<notin> r_attempt_id ` set (reservations db)
     \<and> jobs db' = jobs db @ [pa_job pa]
     \<and> attempts db' = attempts db @ [attempt_row_of (pa_attempt pa)]
     \<and> reservations db' = reservations db @ [reservation_row_of (pa_reservation pa)]
     \<and> idempotency_keys db' = idempotency_keys db @ [idempotency_row (pa_job pa)]
     \<and> j_job_id (pa_job pa) \<notin> ik_job_id ` set (idempotency_keys db)
     \<and> job_events db' = job_events db @ evs
     \<and> appended (job_events db) (j_job_id (pa_job pa)) (a_attempt_id (pa_attempt pa)) evs
     \<and> map ev_type evs = [''REQUEST_RECEIVED'', ''JOB_RECORD_CREATED'', ''ATTEMPT_CREATED'']
     \<and> artifacts db' = artifacts db \<and> supervisor_owners db' = supervisor_owners db
     \<and> execution_providers db' = execution_providers db
         @ (case pa_provider pa of None \<Rightarrow> [] | Some p \<Rightarrow> [p])
     \<and> host_dependency_rows db' = host_dependency_rows db
         @ (case pa_host_dependencies pa of None \<Rightarrow> [] | Some d \<Rightarrow> [d])
     \<and> release_rows db' = release_rows db @ (case pa_release pa of None \<Rightarrow> [] | Some r \<Rightarrow> [r])"

lemma attempt_row_of_sel [simp]:
  "a_attempt_id (attempt_row_of a) = a_attempt_id a" "a_job_id (attempt_row_of a) = a_job_id a"
  "a_state (attempt_row_of a) = a_state a" "a_termination_intent (attempt_row_of a) = a_termination_intent a"
  "a_bundle_digest (attempt_row_of a) = a_bundle_digest a"
  "a_runner_start_digest (attempt_row_of a) = a_runner_start_digest a"
  "a_started_at_ms (attempt_row_of a) = a_started_at_ms a"
  "a_result_digest (attempt_row_of a) = a_result_digest a"
  "a_finished_at_ms (attempt_row_of a) = a_finished_at_ms a"
  "a_recovery (attempt_row_of a) = None" "a_unit_name (attempt_row_of a) = a_unit_name a"
  by (simp_all add: attempt_row_of_def AttemptRecord.defs)

lemma reservation_row_of_sel [simp]:
  "r_attempt_id (reservation_row_of r) = r_attempt_id r" "r_state (reservation_row_of r) = r_state r"
  "r_reservation_id (reservation_row_of r) = r_reservation_id r"
  by (simp_all add: reservation_row_of_def ReservationRecord.defs)

lemma insert_side_row_Inr:
  "insert_side_row rows row ctx db = Inr rows' \<Longrightarrow> rows' = rows @ [row]"
  unfolding insert_side_row_def by (simp split: if_splits)

lemma insert_provider_Inr:
  "insert_provider p db = Inr db' \<Longrightarrow>
   db' = db\<lparr>execution_providers := execution_providers db @ (case p of None \<Rightarrow> [] | Some x \<Rightarrow> [x])\<rparr>"
  unfolding insert_provider_def by (auto split: option.splits dest: insert_side_row_Inr)

lemma insert_host_dependencies_Inr:
  "insert_host_dependencies p db = Inr db' \<Longrightarrow>
   db' = db\<lparr>host_dependency_rows := host_dependency_rows db @ (case p of None \<Rightarrow> [] | Some x \<Rightarrow> [x])\<rparr>"
  unfolding insert_host_dependencies_def by (auto split: option.splits dest: insert_side_row_Inr)

lemma insert_release_Inr:
  "insert_release p db = Inr db' \<Longrightarrow>
   db' = db\<lparr>release_rows := release_rows db @ (case p of None \<Rightarrow> [] | Some x \<Rightarrow> [x])\<rparr>"
  unfolding insert_release_def by (auto split: option.splits if_splits)

lemma insert_job_Inr:
  "insert_job j ctx db = Inr db' \<Longrightarrow> db' = db\<lparr>jobs := jobs db @ [j]\<rparr>
     \<and> j_job_id j \<notin> j_job_id ` set (jobs db)
     \<and> (\<forall>i \<in> set (jobs db). j_principal i \<noteq> j_principal j \<or> j_client_request_id i \<noteq> j_client_request_id j)"
  unfolding insert_job_def by (auto simp: list_ex_iff split: if_splits)

lemma insert_attempt_Inr:
  "insert_attempt a ctx db = Inr db' \<Longrightarrow> db' = db\<lparr>attempts := attempts db @ [a]\<rparr>
     \<and> a_attempt_id a \<notin> a_attempt_id ` set (attempts db)"
  unfolding insert_attempt_def by (auto simp: list_ex_iff split: if_splits)

lemma insert_idempotency_key_Inr:
  "insert_idempotency_key k ctx db = Inr db' \<Longrightarrow> db' = db\<lparr>idempotency_keys := idempotency_keys db @ [k]\<rparr>
     \<and> ik_job_id k \<notin> ik_job_id ` set (idempotency_keys db)"
  unfolding insert_idempotency_key_def by (auto simp: list_ex_iff split: if_splits)

lemma insert_reservation_Inr:
  "insert_reservation r ctx db = Inr db' \<Longrightarrow> db' = db\<lparr>reservations := reservations db @ [r]\<rparr>
     \<and> r_attempt_id r \<notin> r_attempt_id ` set (reservations db)"
  unfolding insert_reservation_def by (auto simp: list_ex_iff split: if_splits)

lemma append_admission_events_Inr:
  assumes "append_admission_events h env job aid db = Inr db'"
  obtains evs where "db' = db\<lparr>job_events := job_events db @ evs\<rparr>"
    and "appended (job_events db) (j_job_id job) aid evs"
    and "map ev_type evs = [''REQUEST_RECEIVED'', ''JOB_RECORD_CREATED'', ''ATTEMPT_CREATED'']"
  using assms unfolding append_admission_events_def
  apply -
  apply (erule rbind_InrE)
  subgoal premises prems for db1
  proof -
    obtain e where e: "db1 = db\<lparr>job_events := job_events db @ [e]\<rparr>" "ev_type e = ''REQUEST_RECEIVED''"
        "appended (job_events db) (j_job_id job) aid [e]" by (rule append_event_Inr[OF prems(2)])
    obtain evs where evs: "db' = db1\<lparr>job_events := job_events db1 @ evs\<rparr>"
        "map ev_type evs = [''JOB_RECORD_CREATED'', ''ATTEMPT_CREATED'']"
        "appended (job_events db1) (j_job_id job) aid evs" by (rule append_two_events[OF prems(3)])
    show ?thesis using e evs by (intro prems(1)[of "e # evs"]) simp_all
  qed
  done

lemma prepare_admission_ids:
  assumes "prepare_admission h cfg request ids at = Inr pa"
  shows "pa_job pa = new_job h request ids at (j_request_digest (pa_job pa)) (j_operation_digest (pa_job pa))
      (workspace_snapshot (sr_plan request) (map_option sd_digest (pa_provider pa))
        (map_option sd_digest (pa_host_dependencies pa)) (map_option rw_binding_digest (pa_release pa)))"
    and "pa_attempt pa = new_attempt h cfg ids at (pa_launch_token pa)"
    and "pa_reservation pa = new_reservation request ids at"
  using assms unfolding prepare_admission_def Let_def by (auto simp: new_job_def)

lemma prepared_view:
  assumes "prepare_admission h cfg request ids at = Inr pa"
  shows "view_of (pa_job pa) (attempt_row_of (pa_attempt pa)) (reservation_row_of (pa_reservation pa)) = initial_view"
    and "a_job_id (pa_attempt pa) = j_job_id (pa_job pa)"
    and "r_attempt_id (pa_reservation pa) = a_attempt_id (pa_attempt pa)"
    and "j_workspace_id (pa_job pa) = p_workspace_id (sr_plan request)"
    and "j_principal (pa_job pa) = p_principal (sr_plan request)"
    and "j_client_request_id (pa_job pa) = sr_client_request_id request"
    and "j_job_id (pa_job pa) = ids_job_id ids"
    and "r_state (pa_reservation pa) = Active"
proof -
  note p = prepare_admission_ids[OF assms]
  have j: "j_job_id (pa_job pa) = ids_job_id ids" "j_workspace_id (pa_job pa) = p_workspace_id (sr_plan request)"
    "j_principal (pa_job pa) = p_principal (sr_plan request)" "j_resolution (pa_job pa) = None"
    "j_client_request_id (pa_job pa) = sr_client_request_id request" "j_desired_state (pa_job pa) = Run"
    "j_current_attempt_id (pa_job pa) = Some (ids_attempt_id ids)"
    by (subst p(1), simp add: new_job_def)+
  show "view_of (pa_job pa) (attempt_row_of (pa_attempt pa)) (reservation_row_of (pa_reservation pa)) = initial_view"
    using j p(2,3) by (simp add: view_of_def initial_view_def new_attempt_def new_reservation_def)
  show "a_job_id (pa_attempt pa) = j_job_id (pa_job pa)" using j p(2) by (simp add: new_attempt_def)
  show "r_attempt_id (pa_reservation pa) = a_attempt_id (pa_attempt pa)" "r_state (pa_reservation pa) = Active"
    using p(2,3) by (simp_all add: new_attempt_def new_reservation_def)
qed (use assms in \<open>auto simp: prepare_admission_def Let_def new_job_def\<close>)

lemma submit_tx_Inr:
  assumes prep: "prepare_admission h cfg request ids at = Inr pa"
    and tx: "submit_tx h env cfg fence request pa db = Inr (Commit c y db')"
  shows "(\<exists>key existing. find_key db (p_principal (sr_plan request)) (sr_client_request_id request) = Some key
            \<and> replay_admission h request (j_operation_digest (pa_job pa)) key db = Inr existing
            \<and> y = (Existing existing, False) \<and> db' = db)
     \<or> (\<exists>evs. find_key db (p_principal (sr_plan request)) (sr_client_request_id request) = None
            \<and> acquire_admission_fence cfg fence = Inr ()
            \<and> check_workspace_capacity db (p_workspace_id (sr_plan request)) = Inr ()
            \<and> check_global_capacity db (sr_global_limit request) = Inr ()
            \<and> y = (Created \<lparr>ca_job = pa_job pa, ca_attempt = pa_attempt pa,
                   ca_reservation = pa_reservation pa, ca_launch_token = pa_launch_token pa\<rparr>, True)
            \<and> admission db pa evs db')"
proof (cases "find_key db (p_principal (sr_plan request)) (sr_client_request_id request)")
  case (Some key)
  show ?thesis
    using tx unfolding submit_tx_def Some option.case
    by (elim rbind_InrE) (simp add: Some)
next
  case None
  show ?thesis
    using tx unfolding submit_tx_def None option.case insert_admission_rows_def rbind_assoc
    apply -
    apply (erule rbind_InrE, erule rbind_InrE, erule rbind_InrE, erule rbind_InrE, erule rbind_InrE)
    apply (erule rbind_InrE, erule rbind_InrE, erule rbind_InrE, erule rbind_InrE, erule rbind_InrE, erule rbind_InrE)
    subgoal premises prems for u1 u2 u3 db1 db2 db3 db4 db5 db6 db7 db8
    proof -
      note i1 = insert_job_Inr[OF prems(4)] and i2 = insert_provider_Inr[OF prems(5)]
      note i3 = insert_host_dependencies_Inr[OF prems(6)] and i4 = insert_release_Inr[OF prems(7)]
      note i5 = insert_attempt_Inr[OF prems(8)] and i6 = insert_idempotency_key_Inr[OF prems(9)]
      note i7 = insert_reservation_Inr[OF prems(10)] and v = prepared_view[OF prep]
      obtain evs where evs: "db8 = db7\<lparr>job_events := job_events db7 @ evs\<rparr>"
          "appended (job_events db7) (j_job_id (pa_job pa)) (a_attempt_id (pa_attempt pa)) evs"
          "map ev_type evs = [''REQUEST_RECEIVED'', ''JOB_RECORD_CREATED'', ''ATTEMPT_CREATED'']"
        by (rule append_admission_events_Inr[OF prems(11)])
      have y: "y = (Created \<lparr>ca_job = pa_job pa, ca_attempt = pa_attempt pa,
                   ca_reservation = pa_reservation pa, ca_launch_token = pa_launch_token pa\<rparr>, True)"
        "db' = db8" using prems(12) by simp_all
      have "admission db pa evs db'"
        unfolding admission_def using i1 i2 i3 i4 i5 i6 i7 evs y(2) v(3)
        by (simp add: idempotency_row_def)
      then show ?thesis using prems(1-3) y(1) None by auto
    qed
    done
qed

lemma admission_reg_inv:
  assumes inv: "reg_inv db" and prep: "prepare_admission h cfg request ids at = Inr pa"
    and adm: "admission db pa evs db'"
  shows "reg_inv db'"
proof -
  note v = prepared_view[OF prep]
  have t: "jobs db' = jobs db @ [pa_job pa]" "attempts db' = attempts db @ [attempt_row_of (pa_attempt pa)]"
    "reservations db' = reservations db @ [reservation_row_of (pa_reservation pa)]"
    and f: "j_job_id (pa_job pa) \<notin> j_job_id ` set (jobs db)"
      "a_attempt_id (pa_attempt pa) \<notin> a_attempt_id ` set (attempts db)"
      "a_attempt_id (pa_attempt pa) \<notin> r_attempt_id ` set (reservations db)"
    using adm unfolding admission_def by simp_all
  have keys: "keys_ok db" and sets: "a_job_id ` set (attempts db) = j_job_id ` set (jobs db)"
    "r_attempt_id ` set (reservations db) = a_attempt_id ` set (attempts db)"
    using inv unfolding reg_inv_def by simp_all
  have "wf_view (view_of j a r)"
    if "j \<in> set (jobs db')" "a \<in> set (attempts db')" "r \<in> set (reservations db')"
      "a_job_id a = j_job_id j" "r_attempt_id r = a_attempt_id a" for j a r
  proof (cases "a = attempt_row_of (pa_attempt pa)")
    case True
    then have "j = pa_job pa" using that(1,4) t(1) f(1) v(2) by (auto simp: image_iff)
    moreover have "r = reservation_row_of (pa_reservation pa)" using that(3,5) True t(3) f(3) by (auto simp: image_iff)
    ultimately show ?thesis using True v(1) wf_initial_view by simp
  next
    case False
    then have a: "a \<in> set (attempts db)" using that(2) t(2) by simp
    then have "a_job_id a \<noteq> j_job_id (pa_job pa)" "a_attempt_id a \<noteq> a_attempt_id (pa_attempt pa)"
      using f(1,2) sets(1) by (metis imageI)+
    then have "j \<in> set (jobs db)" "r \<in> set (reservations db)" using that t v(3) by auto
    with a that(4,5) show ?thesis using linked_wf[OF inv] by (simp add: linked_def)
  qed
  moreover have "keys_ok db'" using keys f v(3) t by (simp add: keys_ok_def)
  moreover have "distinct (map a_job_id (attempts db'))"
    using reg_inv_keys(4)[OF inv] t(2) v(2) f(1) sets(1) by simp
  moreover have "a_job_id ` set (attempts db') = j_job_id ` set (jobs db')"
    "r_attempt_id ` set (reservations db') = a_attempt_id ` set (attempts db')"
    using sets t v(2,3) by simp_all
  ultimately show ?thesis unfolding reg_inv_def by blast
qed

section \<open>Steps of the registry\<close>

text \<open>
  One operation of the Registry, called with any arguments by any process, under any behaviour of
  SQLite, clock and fence.  Operations of several processes interleave at this grain because each
  runs one immediate transaction.
\<close>

inductive registry_step :: "host \<Rightarrow> RegistryConfig \<Rightarrow> registry \<Rightarrow> registry \<Rightarrow> bool" for h cfg where
  rs_submit: "registry_step h cfg db (snd (submit_preallocated h env cfg clock fence db request ids))"
| rs_bundle_ready: "registry_step h cfg db (snd (mark_bundle_ready h env db k ver digest at))"
| rs_dispatch: "registry_step h cfg db (snd (mark_dispatch_issued h env db k ver at))"
| rs_bind_running: "registry_step h cfg db (snd (bind_running h env db k ver identity))"
| rs_bind_owner: "registry_step h cfg db (snd (bind_supervisor_owner h env db k ver owner at))"
| rs_deadline: "registry_step h cfg db (snd (request_deadline_termination h env db k at))"
| rs_cancel: "registry_step h cfg db (snd (request_cancel h env db job_id at))"
| rs_terminal: "registry_step h cfg db (snd (commit_terminal h env db commit))"
| rs_recover: "registry_step h cfg db (snd (recover_orphaned_terminal h env db commit))"
| rs_repair: "registry_step h cfg db (snd (repair_admin_batch h env db operations))"
| rs_converge: "registry_step h cfg db (snd (converge_terminal_reservation h env db k at))"
| rs_record_failure: "registry_step h cfg db (snd (record_reconciliation_failure h env db attempt error at))"
| rs_clear_failure: "registry_step h cfg db (snd (clear_reconciliation_failure h env db k at))"

definition admits :: "host \<Rightarrow> RegistryConfig \<Rightarrow> registry \<Rightarrow> registry \<Rightarrow> bool" where
  "admits h cfg db db' \<longleftrightarrow>
     (\<exists>request ids at pa evs. prepare_admission h cfg request ids at = Inr pa
        \<and> find_key db (p_principal (sr_plan request)) (sr_client_request_id request) = None
        \<and> check_workspace_capacity db (p_workspace_id (sr_plan request)) = Inr ()
        \<and> check_global_capacity db (sr_global_limit request) = Inr ()
        \<and> admission db pa evs db')"

lemma submit_step:
  assumes "db' = snd (submit_preallocated h env cfg clock fence db request ids)"
  shows "db' = db \<or> admits h cfg db db'"
proof (cases "rbind (validate_submit h request) (\<lambda>_.
           rbind (now_ms clock) (\<lambda>created_at_ms.
           rbind (prepare_admission h cfg request ids created_at_ms) (\<lambda>pa.
           rbind (open_connection env) (\<lambda>_.
           rbind (begin_admission env) (\<lambda>_. Inr pa)))))")
  case (Inl e)
  then show ?thesis using assms unfolding submit_preallocated_def by simp
next
  case (Inr pa)
  then obtain at where prep: "prepare_admission h cfg request ids at = Inr pa"
    by (elim rbind_InrE) simp
  have db': "db' = snd (in_transaction env db (submit_tx h env cfg fence request pa)
            (\<lambda>now y. Inr (fst y))
            (\<lambda>context y autocommit error now.
               if snd y
               then reconcile_admission_commit_failure env request (j_operation_digest (pa_job pa))
                      context autocommit error now
               else Inl (from_sql error context)))"
    using assms Inr unfolding submit_preallocated_def by simp
  have "db' = db \<or> (\<exists>c y. submit_tx h env cfg fence request pa db = Inr (Commit c y db'))"
    unfolding db' by (rule in_transaction_db)
  then show ?thesis
  proof (elim disjE exE)
    fix c y assume "submit_tx h env cfg fence request pa db = Inr (Commit c y db')"
    from submit_tx_Inr[OF prep this] show ?thesis
    proof (elim disjE exE conjE)
      fix evs assume "find_key db (p_principal (sr_plan request)) (sr_client_request_id request) = None"
        "check_workspace_capacity db (p_workspace_id (sr_plan request)) = Inr ()"
        "check_global_capacity db (sr_global_limit request) = Inr ()" "admission db pa evs db'"
      then show ?thesis using prep unfolding admits_def by blast
    qed simp
  qed simp
qed

text \<open>An operation that is one transaction: it establishes what its body's commits establish.\<close>

lemma in_transaction_R:
  assumes "R db" and "\<And>c y db'. body db = Inr (Commit c y db') \<Longrightarrow> R db'"
  shows "R (snd (in_transaction env db body after failed))"
  using in_transaction_db[of env db body after failed] assms by metis

lemma transact_R:
  assumes "R db" and "\<And>c y db'. body db = Inr (Commit c y db') \<Longrightarrow> R db'"
  shows "R (snd (transact env ctx db body after failed))"
  using transact_db[of env ctx db body after failed] assms by metis

lemma checked_R:
  assumes "R db" and "\<And>u. R (snd (X u))"
  shows "R (snd (case check of Inl e \<Rightarrow> (Inl e, db) | Inr u \<Rightarrow> X u))"
  using assms by (cases check) simp_all

lemma if_R:
  assumes "b \<Longrightarrow> R (snd x)" and "\<not> b \<Longrightarrow> R (snd y)"
  shows "R (snd (if b then x else y))"
  using assms by simp

lemma repair_batch_steps:
  assumes inv: "reg_inv db" and tx: "repair_admin_batch_tx h env operations db = Inr (Commit c y db')"
  shows "job_transition\<^sup>*\<^sup>* db db'"
proof -
  let ?P = "\<lambda>s. reg_inv s \<and> job_transition\<^sup>*\<^sup>* db s"
  obtain db1 where f: "fold_res (repair_operation h env) (enumerate 0 operations) db = Inr db1"
    and db1: "db1 = db'"
    using tx unfolding repair_admin_batch_tx_def Let_def
    apply -
    apply (erule rbind_InrE, drule guard_Inr, elim conjE)
    subgoal premises prems using prems(1)[OF prems(2)] prems(4) by simp
    done
  have "?P db1"
  proof (rule fold_res_invariant[OF f])
    show "?P db" using inv by simp
    fix op s s' assume P: "?P s" and op: "repair_operation h env op s = Inr s'"
    have "job_transition s s'"
    proof (cases "snd op")
      case (RepairTerminal terminal audit)
      then show ?thesis using op P repair_terminal_step unfolding repair_operation_def by simp
    next
      case (RepairReservation attempt_id expected audit)
      then show ?thesis using op P repair_reservation_step unfolding repair_operation_def by simp
    qed
    then show "?P s'" using P job_transition_reg_inv by (meson rtranclp.rtrancl_into_rtrancl)
  qed
  then show ?thesis using db1 by simp
qed

lemma registry_step_refines:
  assumes inv: "reg_inv db" and step: "registry_step h cfg db db'"
  shows "admits h cfg db db' \<or> job_transition\<^sup>*\<^sup>* db db'"
proof -
  let ?R = "job_transition\<^sup>*\<^sup>* db"
  have refl: "?R db" by simp
  note check = checked_R[where R = ?R, OF refl] and tx = transact_R[where R = ?R, OF refl]
    and itx = in_transaction_R[where R = ?R, OF refl] and cond = if_R[where R = ?R]
  from step show ?thesis
  proof cases
    case (rs_submit env clock fence request ids)
    from submit_step[OF rs_submit] show ?thesis by auto
  next
    case (rs_bundle_ready env k ver digest at)
    have "?R db'" unfolding rs_bundle_ready mark_bundle_ready_def
      by (rule check, rule tx, rule r_into_rtranclp, rule mark_bundle_ready_step[OF inv])
    then show ?thesis ..
  next
    case (rs_dispatch env k ver at)
    have "?R db'" unfolding rs_dispatch mark_dispatch_issued_def
      by (rule tx) (rule r_into_rtranclp, rule mark_dispatch_issued_step[OF inv])
    then show ?thesis ..
  next
    case (rs_bind_running env k ver identity)
    have "?R db'" unfolding rs_bind_running bind_running_def
      by (rule check, rule tx, rule r_into_rtranclp, rule bind_running_step[OF inv])
    then show ?thesis ..
  next
    case (rs_bind_owner env k ver owner at)
    have "?R db'" unfolding rs_bind_owner bind_supervisor_owner_def
      by (rule check, rule tx, rule r_into_rtranclp, rule bind_supervisor_owner_step[OF inv])
    then show ?thesis ..
  next
    case (rs_deadline env k at)
    have "?R db'" unfolding rs_deadline request_deadline_termination_def
      by (rule tx) (rule r_into_rtranclp, rule request_deadline_termination_step[OF inv])
    then show ?thesis ..
  next
    case (rs_cancel env job_id at)
    have "?R db'" unfolding rs_cancel request_cancel_def
      by (rule tx) (rule r_into_rtranclp, rule request_cancel_step[OF inv])
    then show ?thesis ..
  next
    case (rs_terminal env commit)
    have "?R db'" unfolding rs_terminal commit_terminal_def
      by (rule cond, simp, rule check, rule tx, rule r_into_rtranclp,
          rule commit_terminal_step[OF inv])
    then show ?thesis ..
  next
    case (rs_recover env commit)
    have "?R db'"
    proof (cases "tc_state commit \<in> {Succeeded, Failed, TimedOut, Cancelled, Lost}")
      case True
      then have n: "\<not> tc_state commit \<notin> {Succeeded, Failed, TimedOut, Cancelled, Lost}" by simp
      show ?thesis unfolding rs_recover recover_orphaned_terminal_def if_not_P[OF n]
        by (rule check, rule tx, rule r_into_rtranclp,
            rule recover_orphaned_terminal_step[OF inv True])
    qed (simp add: rs_recover recover_orphaned_terminal_def)
    then show ?thesis ..
  next
    case (rs_repair env operations)
    have "?R db'" unfolding rs_repair repair_admin_batch_def
      by (rule tx) (rule repair_batch_steps[OF inv])
    then show ?thesis ..
  next
    case (rs_converge env k at)
    have "?R db'" unfolding rs_converge converge_terminal_reservation_def
      by (rule check, unfold split_beta, rule cond, simp, rule check,
          rule itx, rule r_into_rtranclp, rule converge_terminal_reservation_step[OF inv])
    then show ?thesis ..
  next
    case (rs_record_failure env attempt error at)
    have "?R db'" unfolding rs_record_failure record_reconciliation_failure_def Let_def
      by (rule check, rule cond, simp, rule check,
          rule itx, rule r_into_rtranclp, rule record_reconciliation_failure_step[OF inv])
    then show ?thesis ..
  next
    case (rs_clear_failure env k at)
    have "?R db'" unfolding rs_clear_failure clear_reconciliation_failure_def
      by (rule check, rule cond, simp, rule check,
          rule itx, rule r_into_rtranclp, rule clear_reconciliation_failure_step[OF inv])
    then show ?thesis ..
  qed
qed

end
