(* ===== verification/Registry_Safety.thy ===== *)
theory Registry_Safety
  imports Registry_Invariant
begin

text \<open>
  The invariants of the registry's step relation beyond the consistency of each Job, its runs as an
  interpretation of \<open>invariant_system\<close>, and the safety properties of every reachable database.
\<close>

section \<open>Proving invariants\<close>

lemma transitionE:
  assumes "job_transition db db'"
  obtains j a r evs j' a' r' where "effect db j a r evs j' a' r' db'"
    and "job_step (view_of j a r) (map ev_type evs) (view_of j' a' r')"
  using assms unfolding job_transition_def by blast

lemma admitsE:
  assumes "admits h cfg db db'"
  obtains request ids at pa evs where "prepare_admission h cfg request ids at = Inr pa"
    and "find_key db (p_principal (sr_plan request)) (sr_client_request_id request) = None"
    and "check_workspace_capacity db (p_workspace_id (sr_plan request)) = Inr ()"
    and "check_global_capacity db (sr_global_limit request) = Inr ()"
    and "admission db pa evs db'"
  using assms unfolding admits_def by blast

section \<open>The event log\<close>

definition log_numbered :: "job_event list \<Rightarrow> bool" where
  "log_numbered log \<longleftrightarrow> (\<forall>job_id.
     map ev_sequence (filter (\<lambda>e. ev_job_id e = job_id) log)
       = [1..<Suc (length (filter (\<lambda>e. ev_job_id e = job_id) log))])"

lemma foldr_max_upt: "foldr max [1..<Suc n] b = max n b"
  by (induction n arbitrary: b) (auto simp: max_def)

lemma next_sequence_numbered:
  assumes "log_numbered log"
  shows "next_sequence log job_id = Suc (length (filter (\<lambda>e. ev_job_id e = job_id) log))"
  using assms foldr_max_upt[of "length (filter (\<lambda>e. ev_job_id e = job_id) log)" 0]
  unfolding log_numbered_def next_sequence_def by simp

lemma log_numbered_append:
  assumes "log_numbered log" and "appended log job_id aid evs"
  shows "log_numbered (log @ evs)"
  using assms
proof (induction evs arbitrary: log)
  case (Cons e evs)
  have "log_numbered (log @ [e])"
    using Cons.prems next_sequence_numbered[OF Cons.prems(1)] unfolding log_numbered_def by simp
  then show ?case using Cons.IH[of "log @ [e]"] Cons.prems(2) by simp
qed simp

lemma appended_ids:
  "appended log job_id aid evs \<Longrightarrow> e \<in> set evs \<Longrightarrow> ev_job_id e = job_id \<and> ev_attempt_id e = Some aid"
  by (induction evs arbitrary: log) auto

lemma appended_fresh:
  "appended log job_id aid evs \<Longrightarrow> distinct (map ev_event_id log) \<Longrightarrow> distinct (map ev_event_id (log @ evs))"
proof (induction evs arbitrary: log)
  case (Cons e evs)
  then show ?case using Cons.IH[of "log @ [e]"] by simp
qed simp

section \<open>Dispatch\<close>

definition dispatch_count :: "job_event list \<Rightarrow> string \<Rightarrow> nat" where
  "dispatch_count log aid =
     length (filter (\<lambda>e. ev_type e = ''DISPATCH_ISSUED'' \<and> ev_attempt_id e = Some aid) log)"

definition dispatch_ok :: "registry \<Rightarrow> bool" where
  "dispatch_ok db \<longleftrightarrow>
     (\<forall>e \<in> set (job_events db). \<exists>a \<in> set (attempts db).
        ev_attempt_id e = Some (a_attempt_id a) \<and> ev_job_id e = a_job_id a)
     \<and> (\<forall>a \<in> set (attempts db).
          dispatch_count (job_events db) (a_attempt_id a) \<le> (if a_state a = Accepted then 0 else 1)
          \<and> (dispatched (a_state a) \<longrightarrow> dispatch_count (job_events db) (a_attempt_id a) = 1))"

lemma dispatch_count_append:
  assumes "appended log job_id aid evs"
  shows "dispatch_count (log @ evs) k = dispatch_count log k
     + (if k = aid then length (filter (\<lambda>t. t = ''DISPATCH_ISSUED'') (map ev_type evs)) else 0)"
proof -
  have "filter (\<lambda>e. ev_type e = ''DISPATCH_ISSUED'' \<and> ev_attempt_id e = Some k) evs =
      (if k = aid then filter (\<lambda>e. ev_type e = ''DISPATCH_ISSUED'') evs else [])"
    using appended_ids[OF assms] by (auto simp: filter_empty_conv intro: filter_cong)
  then show ?thesis by (simp add: dispatch_count_def filter_map comp_def)
qed

lemma job_transition_dispatch_ok:
  assumes inv: "reg_inv db" and ok: "dispatch_ok db" and tr: "job_transition db db'"
  shows "dispatch_ok db'"
proof -
  obtain j a r evs j' a' r' where eff: "effect db j a r evs j' a' r' db'"
    and step: "job_step (view_of j a r) (map ev_type evs) (view_of j' a' r')" by (rule transitionE[OF tr])
  note e = effectD[OF eff] and s = effect_sets[OF inv eff]
  have a: "a \<in> set (attempts db)" "a_job_id a = j_job_id j" using e(1) by (auto simp: linked_def)
  let ?d = "length (filter (\<lambda>t. t = ''DISPATCH_ISSUED'') (map ev_type evs))"
  have cnt: "dispatch_count (job_events db') k = dispatch_count (job_events db) k
      + (if k = a_attempt_id a then ?d else 0)" for k
    using dispatch_count_append[OF e(10)] e(9) by simp
  have d: "(?d = 0 \<and> (dispatched (a_state a') \<longrightarrow> dispatched (a_state a)))
      \<or> (?d = 1 \<and> a_state a = Accepted \<and> a_state a' = Starting)"
  proof (cases "''DISPATCH_ISSUED'' \<in> set (map ev_type evs)")
    case True
    then show ?thesis using job_step_dispatch(1)[OF step] by (simp add: view_of_def)
  next
    case False
    then have "filter (\<lambda>t. t = ''DISPATCH_ISSUED'') (map ev_type evs) = []"
      unfolding filter_empty_conv by blast
    then have "?d = 0" by (simp only: list.size(3))
    moreover have "dispatched (jv_state (view_of j' a' r')) \<longrightarrow> dispatched (jv_state (view_of j a r))"
      using job_step_dispatch(3)[OF step] False by blast
    then have "dispatched (a_state a') \<longrightarrow> dispatched (a_state a)" by (simp add: view_of_def)
    ultimately show ?thesis by blast
  qed
  have acc: "a_state a' = Accepted \<Longrightarrow> a_state a = Accepted"
    using job_step_dispatch(2)[OF step] by (simp add: view_of_def)
  show ?thesis
    unfolding dispatch_ok_def
  proof (intro conjI ballI)
    fix ev assume "ev \<in> set (job_events db')"
    then consider "ev \<in> set (job_events db)" | "ev \<in> set evs" using e(9) by auto
    then show "\<exists>a \<in> set (attempts db'). ev_attempt_id ev = Some (a_attempt_id a) \<and> ev_job_id ev = a_job_id a"
    proof cases
      case 1
      then obtain b where b: "b \<in> set (attempts db)" "ev_attempt_id ev = Some (a_attempt_id b)" "ev_job_id ev = a_job_id b"
        using ok unfolding dispatch_ok_def by blast
      then show ?thesis using e(3,4) s(2) by (cases "b = a") auto
    next
      case 2
      then show ?thesis using appended_ids[OF e(10)] e(3,4) s(2) a(2) by auto
    qed
  next
    fix b assume "b \<in> set (attempts db')"
    then consider "b = a'" | "b \<in> set (attempts db)" "b \<noteq> a" using s(2) by auto
    then have "dispatch_count (job_events db') (a_attempt_id b) \<le> (if a_state b = Accepted then 0 else 1)
        \<and> (dispatched (a_state b) \<longrightarrow> dispatch_count (job_events db') (a_attempt_id b) = 1)"
    proof cases
      case 1
      have "dispatch_count (job_events db) (a_attempt_id a) \<le> (if a_state a = Accepted then 0 else 1)"
        "dispatched (a_state a) \<longrightarrow> dispatch_count (job_events db) (a_attempt_id a) = 1"
        using ok a(1) unfolding dispatch_ok_def by blast+
      then show ?thesis using cnt[of "a_attempt_id a"] d acc 1 e(3) by (elim disjE) (auto split: if_splits)
    next
      case 2
      then have "a_attempt_id b \<noteq> a_attempt_id a"
        using reg_inv_keys(2)[OF inv] a(1) by (auto simp: distinct_map dest: inj_onD)
      then show ?thesis using cnt[of "a_attempt_id b"] ok 2(1) unfolding dispatch_ok_def by simp
    qed
    then show "dispatch_count (job_events db') (a_attempt_id b) \<le> (if a_state b = Accepted then 0 else 1)"
      "dispatched (a_state b) \<longrightarrow> dispatch_count (job_events db') (a_attempt_id b) = 1" by blast+
  qed
qed

lemma prepared_attempt: "prepare_admission h cfg request ids at = Inr pa \<Longrightarrow> a_state (pa_attempt pa) = Accepted"
  using prepare_admission_ids(2) by (metis AttemptRecord.select_convs(4) new_attempt_def)

lemma admits_dispatch_ok:
  assumes "dispatch_ok db" and "admits h cfg db db'"
  shows "dispatch_ok db'"
proof -
  obtain request ids at pa evs where prep: "prepare_admission h cfg request ids at = Inr pa"
    and adm: "admission db pa evs db'" by (rule admitsE[OF assms(2)])
  let ?a = "a_attempt_id (pa_attempt pa)"
  have t: "attempts db' = attempts db @ [attempt_row_of (pa_attempt pa)]" "job_events db' = job_events db @ evs"
    and ap: "appended (job_events db) (j_job_id (pa_job pa)) ?a evs"
    and ty: "map ev_type evs = [''REQUEST_RECEIVED'', ''JOB_RECORD_CREATED'', ''ATTEMPT_CREATED'']"
    and fresh: "?a \<notin> a_attempt_id ` set (attempts db)"
    using adm unfolding admission_def by simp_all
  have cnt: "dispatch_count (job_events db') k = dispatch_count (job_events db) k" for k
    using dispatch_count_append[OF ap] t(2) ty by simp
  have zero: "dispatch_count (job_events db) ?a = 0"
  proof -
    have "ev_attempt_id e \<noteq> Some ?a" if "e \<in> set (job_events db)" for e
      using that assms(1) fresh unfolding dispatch_ok_def by (metis imageI option.inject)
    then show ?thesis unfolding dispatch_count_def length_0_conv filter_empty_conv by blast
  qed
  have v: "a_job_id (pa_attempt pa) = j_job_id (pa_job pa)" by (rule prepared_view(2)[OF prep])
  show ?thesis
    using assms(1) cnt zero appended_ids[OF ap] t v prepared_attempt[OF prep] unfolding dispatch_ok_def
    by (auto simp: dispatched_def)
qed

section \<open>Workspace capacity\<close>

definition workspace_of :: "registry \<Rightarrow> string \<Rightarrow> string option" where
  "workspace_of db aid = map_option j_workspace_id
     (Option.bind (tbl_lookup a_attempt_id (attempts db) aid) (\<lambda>a. tbl_lookup j_job_id (jobs db) (a_job_id a)))"

lemma concat_map_if: "concat (map (\<lambda>x. if P x then g x else []) t) = concat (map g (filter P t))"
  by (induction t) auto

lemma reservation_linked:
  assumes "reg_inv db" and "r \<in> set (reservations db)"
  obtains j a where "linked db j a r"
proof -
  have s: "a_job_id ` set (attempts db) = j_job_id ` set (jobs db)"
    "r_attempt_id ` set (reservations db) = a_attempt_id ` set (attempts db)"
    using assms(1) unfolding reg_inv_def by simp_all
  obtain a where a: "a \<in> set (attempts db)" "a_attempt_id a = r_attempt_id r"
    using assms(2) s(2) by (metis imageE imageI)
  obtain j where "j \<in> set (jobs db)" "j_job_id j = a_job_id a"
    using a(1) s(1) by (metis imageE imageI)
  with a assms(2) show ?thesis by (intro that[of j a]) (simp add: linked_def)
qed

lemma linked_workspace:
  assumes "reg_inv db" and "linked db j a r"
  shows "workspace_of db (r_attempt_id r) = Some (j_workspace_id j)"
  using linked_lookup[OF assms] linked_ids[OF assms(2)] by (simp add: workspace_of_def)

definition capacity_row :: "registry \<Rightarrow> reservation_row \<Rightarrow> (reservation_row \<times> RuntimeJobRecord) list" where
  "capacity_row db r = concat (map (\<lambda>a. if a_attempt_id a = r_attempt_id r
      then concat (map (\<lambda>j. if j_job_id j = a_job_id a then [(r, j)] else []) (jobs db)) else []) (attempts db))"

lemma capacity_row_linked:
  assumes inv: "reg_inv db" and lk: "linked db j a r"
  shows "capacity_row db r = [(r, j)]"
proof -
  have "filter (\<lambda>x. a_attempt_id x = r_attempt_id r) (attempts db) = [a]"
    using filter_key_unique[OF reg_inv_keys(2)[OF inv], of a] lk by (simp add: linked_def)
  moreover have "filter (\<lambda>x. j_job_id x = a_job_id a) (jobs db) = [j]"
    using filter_key_unique[OF reg_inv_keys(1)[OF inv], of j] lk by (simp add: linked_def)
  ultimately show ?thesis by (simp add: capacity_row_def concat_map_if)
qed

lemma workspace_active_count:
  assumes inv: "reg_inv db"
  shows "workspace_active db w =
     tbl_count (\<lambda>r. holds_capacity (r_state r) \<and> workspace_of db (r_attempt_id r) = Some w) (reservations db)"
proof -
  let ?Q = "\<lambda>(r, j). j_workspace_id j = w"
  have one: "length (filter ?Q (capacity_row db r)) = (if workspace_of db (r_attempt_id r) = Some w then 1 else 0)"
    if r: "r \<in> set (reservations db)" for r
  proof -
    obtain j a where lk: "linked db j a r" by (rule reservation_linked[OF inv r])
    show ?thesis by (simp add: capacity_row_linked[OF inv lk] linked_workspace[OF inv lk])
  qed
  have none: "filter ?Q (capacity_row db r) = []"
    if "r \<in> set (reservations db)" "workspace_of db (r_attempt_id r) \<noteq> Some w" for r
    using one[OF that(1)] that(2) by simp
  have "length (filter ?Q (concat (map (\<lambda>r. if holds_capacity (r_state r) then capacity_row db r else []) rs)))
      = tbl_count (\<lambda>r. holds_capacity (r_state r) \<and> workspace_of db (r_attempt_id r) = Some w) rs"
    if "set rs \<subseteq> set (reservations db)" for rs
    using that by (induction rs) (auto simp: one none)
  from this[OF subset_refl] show ?thesis
    unfolding workspace_active_def capacity_rows_def capacity_row_def by simp
qed

lemma job_step_capacity:
  assumes "job_step v evs w" and "wf_view v" and "holds_capacity (jv_reservation w)"
  shows "holds_capacity (jv_reservation v)"
  using assms
  by (cases rule: job_step.cases)
    (auto simp: wf_view_def resolution_agrees_def holds_capacity_def terminal_reservation_def
      split: if_splits)

lemma effect_workspace_of:
  assumes inv: "reg_inv db" and eff: "effect db j a r evs j' a' r' db'"
  shows "workspace_of db' = workspace_of db"
proof
  fix k
  note e = effectD[OF eff] and l = linked_lookup[OF inv effectD(1)[OF eff]]
  have w: "j_workspace_id j' = j_workspace_id j"
    using eff unfolding effect_def job_identity_def by simp
  have at: "tbl_lookup a_attempt_id (attempts db') k =
      (if k = a_attempt_id a then Some a' else tbl_lookup a_attempt_id (attempts db) k)"
    using e(3,7) l(2) by (simp add: tbl_lookup_put)
  have jt: "tbl_lookup j_job_id (jobs db') i =
      (if i = j_job_id j then Some j' else tbl_lookup j_job_id (jobs db) i)" for i
    using e(2,6) l(1) by (simp add: tbl_lookup_put)
  have aj: "a_job_id a = j_job_id j" using e(1) by (simp add: linked_def)
  have same: "map_option j_workspace_id (tbl_lookup j_job_id (jobs db') i) =
      map_option j_workspace_id (tbl_lookup j_job_id (jobs db) i)" for i
    using jt l(1) w by simp
  show "workspace_of db' k = workspace_of db k"
    unfolding workspace_of_def at using same e(4) l(2)
    by (cases "k = a_attempt_id a"; cases "tbl_lookup a_attempt_id (attempts db) k") simp_all
qed

definition workspace_ok :: "registry \<Rightarrow> bool" where
  "workspace_ok db \<longleftrightarrow> (\<forall>w. workspace_active db w \<le> WORKSPACE_EXECUTION_LIMIT)"

lemma job_transition_active:
  assumes inv: "reg_inv db" and tr: "job_transition db db'"
  shows "workspace_active db' w \<le> workspace_active db w" "global_active db' \<le> global_active db"
proof -
  obtain j a r evs j' a' r' where eff: "effect db j a r evs j' a' r' db'"
    and step: "job_step (view_of j a r) (map ev_type evs) (view_of j' a' r')" by (rule transitionE[OF tr])
  note e = effectD[OF eff] and l = linked_lookup[OF inv effectD(1)[OF eff]]
  have inv': "reg_inv db'" by (rule job_transition_reg_inv[OF inv tr])
  have cap: "holds_capacity (r_state r') \<Longrightarrow> holds_capacity (r_state r)"
    using job_step_capacity[OF step linked_wf[OF inv e(1)]] by (simp add: view_of_def)
  have rid: "r_attempt_id r = a_attempt_id a" using e(1) by (simp add: linked_def)
  let ?P = "\<lambda>r. holds_capacity (r_state r) \<and> workspace_of db (r_attempt_id r) = Some w"
  have "tbl_count ?P (reservations db') + (if ?P r then 1 else 0) = tbl_count ?P (reservations db) + (if ?P r' then 1 else 0)"
    using tbl_count_put[OF reg_inv_keys(3)[OF inv] l(3), of ?P r'] e(8) by simp
  moreover have "?P r' \<Longrightarrow> ?P r" using cap e(5) rid by simp
  ultimately have "tbl_count ?P (reservations db') \<le> tbl_count ?P (reservations db)"
    by (cases "?P r"; cases "?P r'") simp_all
  then show "workspace_active db' w \<le> workspace_active db w"
    using workspace_active_count[OF inv] workspace_active_count[OF inv'] effect_workspace_of[OF inv eff] by simp
  let ?G = "\<lambda>r. holds_capacity (r_state r)"
  have "tbl_count ?G (reservations db') + (if ?G r then 1 else 0) = tbl_count ?G (reservations db) + (if ?G r' then 1 else 0)"
    using tbl_count_put[OF reg_inv_keys(3)[OF inv] l(3), of ?G r'] e(8) by simp
  with cap show "global_active db' \<le> global_active db"
    unfolding global_active_def by (cases "?G r"; cases "?G r'") simp_all
qed

lemma admission_workspace:
  assumes inv: "reg_inv db" and prep: "prepare_admission h cfg request ids at = Inr pa"
    and adm: "admission db pa evs db'"
  shows "workspace_active db' w =
    workspace_active db w + (if w = p_workspace_id (sr_plan request) then 1 else 0)"
    and "global_active db' = Suc (global_active db)"
proof -
  note v = prepared_view[OF prep]
  have t: "jobs db' = jobs db @ [pa_job pa]" "attempts db' = attempts db @ [attempt_row_of (pa_attempt pa)]"
    "reservations db' = reservations db @ [reservation_row_of (pa_reservation pa)]"
    and f: "j_job_id (pa_job pa) \<notin> j_job_id ` set (jobs db)"
      "a_attempt_id (pa_attempt pa) \<notin> a_attempt_id ` set (attempts db)"
    using adm unfolding admission_def by simp_all
  have inv': "reg_inv db'" by (rule admission_reg_inv[OF inv prep adm])
  let ?new = "reservation_row_of (pa_reservation pa)"
  have new: "linked db' (pa_job pa) (attempt_row_of (pa_attempt pa)) ?new"
    using t v(2,3) by (simp add: linked_def)
  have old: "workspace_of db' (r_attempt_id r) = workspace_of db (r_attempt_id r)"
    if r: "r \<in> set (reservations db)" for r
  proof -
    obtain j a where lk: "linked db j a r" by (rule reservation_linked[OF inv r])
    then have "linked db' j a r" using t by (simp add: linked_def)
    then show ?thesis using linked_workspace[OF inv' ] linked_workspace[OF inv lk] by metis
  qed
  have "tbl_count (\<lambda>r. holds_capacity (r_state r) \<and> workspace_of db' (r_attempt_id r) = Some w) (reservations db) =
      tbl_count (\<lambda>r. holds_capacity (r_state r) \<and> workspace_of db (r_attempt_id r) = Some w) (reservations db)"
    using old by (simp add: tbl_count_def cong: filter_cong)
  moreover have "workspace_of db' (r_attempt_id ?new) = Some (p_workspace_id (sr_plan request))"
    using linked_workspace[OF inv' new] v(4) by metis
  ultimately show "workspace_active db' w = workspace_active db w + (if w = p_workspace_id (sr_plan request) then 1 else 0)"
    using workspace_active_count[OF inv] workspace_active_count[OF inv'] t(3) v(8)
    by (simp add: holds_capacity_def)
  show "global_active db' = Suc (global_active db)"
    using t(3) v(8) by (simp add: global_active_def holds_capacity_def)
qed

lemma check_workspace_capacity_Inr:
  "check_workspace_capacity db w = Inr () \<longleftrightarrow> workspace_active db w < WORKSPACE_EXECUTION_LIMIT"
  unfolding check_workspace_capacity_def Let_def by (simp add: split_beta)

lemma check_global_capacity_Inr:
  "check_global_capacity db n = Inr () \<longleftrightarrow> global_active db < n"
  unfolding check_global_capacity_def Let_def by (simp add: split_beta)

lemma admits_workspace_ok:
  assumes "reg_inv db" and "workspace_ok db" and "admits h cfg db db'"
  shows "workspace_ok db'"
proof -
  obtain request ids at pa evs where prep: "prepare_admission h cfg request ids at = Inr pa"
    and chk: "check_workspace_capacity db (p_workspace_id (sr_plan request)) = Inr ()"
    and adm: "admission db pa evs db'" by (rule admitsE[OF assms(3)])
  have "workspace_active db (p_workspace_id (sr_plan request)) < WORKSPACE_EXECUTION_LIMIT"
    using chk check_workspace_capacity_Inr by simp
  then show ?thesis
    using assms(2) admission_workspace(1)[OF assms(1) prep adm] unfolding workspace_ok_def by simp
qed

section \<open>Idempotency keys\<close>

definition key_of_job :: "RuntimeJobRecord \<Rightarrow> string \<times> string \<times> string \<times> string \<times> nat" where
  "key_of_job j = (j_principal j, j_client_request_id j, j_operation_digest j, j_job_id j, j_created_at_ms j)"

definition key_tuple :: "idempotency_key \<Rightarrow> string \<times> string \<times> string \<times> string \<times> nat" where
  "key_tuple k = (ik_principal k, ik_client_request_id k, ik_operation_digest k, ik_job_id k, ik_created_at_ms k)"

definition keys_match :: "registry \<Rightarrow> bool" where
  "keys_match db \<longleftrightarrow> map key_tuple (idempotency_keys db) = map key_of_job (jobs db)
     \<and> distinct (map (\<lambda>k. (ik_principal k, ik_client_request_id k)) (idempotency_keys db))"

lemma job_transition_keys_match:
  assumes inv: "reg_inv db" and km: "keys_match db" and tr: "job_transition db db'"
  shows "keys_match db'"
proof -
  obtain j a r evs j' a' r' where eff: "effect db j a r evs j' a' r' db'" by (rule transitionE[OF tr])
  have "key_of_job j' = key_of_job j" and keys: "idempotency_keys db' = idempotency_keys db"
    using eff unfolding effect_def job_identity_def key_of_job_def by simp_all
  then have "map key_of_job (jobs db') = map key_of_job (jobs db)"
    using effectD(6)[OF eff] linked_lookup(1)[OF inv effectD(1)[OF eff]] reg_inv_keys(1)[OF inv]
    by (simp add: map_tbl_put)
  with km keys show ?thesis unfolding keys_match_def by simp
qed

lemma find_key_None:
  "find_key db p c = None \<longleftrightarrow> (p, c) \<notin> set (map (\<lambda>k. (ik_principal k, ik_client_request_id k)) (idempotency_keys db))"
  unfolding find_key_def find_None_iff by (auto simp: image_iff)

lemma admits_keys_match:
  assumes "keys_match db" and "admits h cfg db db'"
  shows "keys_match db'"
proof -
  obtain request ids at pa evs where prep: "prepare_admission h cfg request ids at = Inr pa"
    and none: "find_key db (p_principal (sr_plan request)) (sr_client_request_id request) = None"
    and adm: "admission db pa evs db'" by (rule admitsE[OF assms(2)])
  have t: "jobs db' = jobs db @ [pa_job pa]"
    "idempotency_keys db' = idempotency_keys db @ [idempotency_row (pa_job pa)]"
    using adm unfolding admission_def by simp_all
  show ?thesis
    using assms(1) none prepared_view(5,6)[OF prep] unfolding keys_match_def find_key_None t
    by (simp add: key_tuple_def key_of_job_def idempotency_row_def)
qed

section \<open>The invariant of the registry\<close>

definition full_inv :: "registry \<Rightarrow> bool" where
  "full_inv db \<longleftrightarrow> reg_inv db \<and> log_numbered (job_events db) \<and> distinct (map ev_event_id (job_events db))
     \<and> dispatch_ok db \<and> workspace_ok db \<and> keys_match db"

lemma full_invD:
  assumes "full_inv db"
  shows "reg_inv db" "log_numbered (job_events db)" "distinct (map ev_event_id (job_events db))"
    "dispatch_ok db" "workspace_ok db" "keys_match db"
  using assms unfolding full_inv_def by blast+

lemma full_inv_empty: "full_inv empty_registry"
proof -
  have "workspace_ok empty_registry" "dispatch_ok empty_registry" "keys_match empty_registry"
    by (simp_all add: workspace_ok_def workspace_active_def capacity_rows_def dispatch_ok_def
        keys_match_def empty_registry_def)
  then show ?thesis
    using reg_inv_empty unfolding full_inv_def by (simp add: log_numbered_def empty_registry_def)
qed

lemma transition_full_inv:
  assumes "full_inv db" and tr: "job_transition db db'"
  shows "full_inv db'"
proof -
  note f = full_invD[OF assms(1)]
  obtain j a r evs j' a' r' where eff: "effect db j a r evs j' a' r' db'" by (rule transitionE[OF tr])
  note e = effectD(9,10)[OF eff]
  have "log_numbered (job_events db')" "distinct (map ev_event_id (job_events db'))"
    unfolding e(1) using log_numbered_append[OF f(2) e(2)] appended_fresh[OF e(2) f(3)] by auto
  moreover have "workspace_ok db'"
    using f(5) job_transition_active(1)[OF f(1) tr] unfolding workspace_ok_def by (meson order_trans)
  ultimately show ?thesis
    unfolding full_inv_def using job_transition_reg_inv[OF f(1) tr]
      job_transition_dispatch_ok[OF f(1,4) tr] job_transition_keys_match[OF f(1,6) tr] by blast
qed

lemma admits_full_inv:
  assumes "full_inv db" and ad: "admits h cfg db db'"
  shows "full_inv db'"
proof -
  note f = full_invD[OF assms(1)]
  obtain request ids at pa evs where prep: "prepare_admission h cfg request ids at = Inr pa"
    and adm: "admission db pa evs db'" by (rule admitsE[OF ad])
  have e: "job_events db' = job_events db @ evs"
    "appended (job_events db) (j_job_id (pa_job pa)) (a_attempt_id (pa_attempt pa)) evs"
    using adm unfolding admission_def by blast+
  have "log_numbered (job_events db')" "distinct (map ev_event_id (job_events db'))"
    unfolding e(1) using log_numbered_append[OF f(2) e(2)] appended_fresh[OF e(2) f(3)] by auto
  then show ?thesis
    unfolding full_inv_def using admission_reg_inv[OF f(1) prep adm]
      admits_dispatch_ok[OF f(4) ad] admits_workspace_ok[OF f(1,5) ad] admits_keys_match[OF f(6) ad] by blast
qed

interpretation registry_runs: invariant_system "\<lambda>s. s = empty_registry" "registry_step h cfg" full_inv for h cfg
proof
  show "full_inv s" if "s = empty_registry" for s using that full_inv_empty by simp
next
  fix s t assume inv: "full_inv s" and step: "registry_step h cfg s t"
  from registry_step_refines[OF full_invD(1)[OF inv] step] show "full_inv t"
  proof
    assume "admits h cfg s t"
    then show ?thesis by (rule admits_full_inv[OF inv])
  next
    assume "job_transition\<^sup>*\<^sup>* s t"
    then show ?thesis by (induction rule: rtranclp_induct) (use inv transition_full_inv in blast)+
  qed
qed

section \<open>How runs change the registry\<close>

text \<open>One Job between two databases: its identity columns stay, its resolution is set once and then
  only sharpened, a cancelled wish is never withdrawn.\<close>

definition job_advances :: "RuntimeJobRecord \<Rightarrow> RuntimeJobRecord \<Rightarrow> bool" where
  "job_advances j j' \<longleftrightarrow> job_identity j' = job_identity j
     \<and> (j_resolution j' = j_resolution j \<or> resolution_rank (j_resolution j) < resolution_rank (j_resolution j'))
     \<and> (j_desired_state j = DesiredCancelled \<longrightarrow> j_desired_state j' = DesiredCancelled)"

text \<open>One Attempt: its identity columns stay, once it left \<open>Accepted\<close> it does not return there, and once
  it is to be stopped it stays so.\<close>

definition attempt_advances :: "attempt_row \<Rightarrow> attempt_row \<Rightarrow> bool" where
  "attempt_advances a a' \<longleftrightarrow> attempt_identity a' = attempt_identity a
     \<and> (a_state a' = Accepted \<longrightarrow> a_state a = Accepted)
     \<and> (a_termination_intent a \<noteq> Natural \<longrightarrow> a_termination_intent a' \<noteq> Natural)"

definition advances :: "registry \<Rightarrow> registry \<Rightarrow> bool" where
  "advances db db' \<longleftrightarrow>
     prefix (job_events db) (job_events db') \<and> prefix (idempotency_keys db) (idempotency_keys db')
     \<and> prefix (artifacts db) (artifacts db') \<and> prefix (supervisor_owners db) (supervisor_owners db')
     \<and> prefix (execution_providers db) (execution_providers db')
     \<and> prefix (host_dependency_rows db) (host_dependency_rows db')
     \<and> prefix (release_rows db) (release_rows db')
     \<and> (\<forall>j \<in> set (jobs db). \<exists>j' \<in> set (jobs db'). job_advances j j')
     \<and> (\<forall>a \<in> set (attempts db). \<exists>a' \<in> set (attempts db'). attempt_advances a a'
           \<and> (a_state a \<noteq> Accepted \<longrightarrow>
                dispatch_count (job_events db') (a_attempt_id a) = dispatch_count (job_events db) (a_attempt_id a)))"

lemma job_advances_refl [simp]: "job_advances j j"
  by (simp add: job_advances_def)

lemma job_advances_trans: "job_advances i j \<Longrightarrow> job_advances j k \<Longrightarrow> job_advances i k"
  unfolding job_advances_def by (metis order_less_trans)

lemma attempt_advances_refl [simp]: "attempt_advances a a"
  by (simp add: attempt_advances_def)

lemma attempt_advances_trans: "attempt_advances a b \<Longrightarrow> attempt_advances b c \<Longrightarrow> attempt_advances a c"
  unfolding attempt_advances_def by metis

lemma attempt_advancesD:
  "attempt_advances a b \<Longrightarrow> a_attempt_id b = a_attempt_id a"
  "attempt_advances a b \<Longrightarrow> a_state a \<noteq> Accepted \<Longrightarrow> a_state b \<noteq> Accepted"
  unfolding attempt_advances_def by (auto dest: identity_keys)

lemma advances_refl: "advances db db"
  unfolding advances_def by (auto intro: job_advances_refl attempt_advances_refl)

lemma advances_trans:
  assumes "advances s t" and "advances t u"
  shows "advances s u"
proof -
  have "\<exists>j' \<in> set (jobs u). job_advances j j'" if "j \<in> set (jobs s)" for j
    using that assms job_advances_trans unfolding advances_def by meson
  moreover have "\<exists>c \<in> set (attempts u). attempt_advances a c \<and> (a_state a \<noteq> Accepted \<longrightarrow>
      dispatch_count (job_events u) (a_attempt_id a) = dispatch_count (job_events s) (a_attempt_id a))"
    if a: "a \<in> set (attempts s)" for a
  proof -
    obtain b where b: "b \<in> set (attempts t)" "attempt_advances a b" "a_state a \<noteq> Accepted \<longrightarrow>
        dispatch_count (job_events t) (a_attempt_id a) = dispatch_count (job_events s) (a_attempt_id a)"
      using a assms(1) unfolding advances_def by blast
    obtain c where c: "c \<in> set (attempts u)" "attempt_advances b c" "a_state b \<noteq> Accepted \<longrightarrow>
        dispatch_count (job_events u) (a_attempt_id b) = dispatch_count (job_events t) (a_attempt_id b)"
      using b(1) assms(2) unfolding advances_def by blast
    show ?thesis using attempt_advances_trans[OF b(2) c(2)] b(3) c(1,3) attempt_advancesD[OF b(2)] by metis
  qed
  ultimately show ?thesis
    using assms unfolding advances_def by (meson prefix_order.order_trans)
qed

lemma transition_advances:
  assumes inv: "reg_inv db" and tr: "job_transition db db'"
  shows "advances db db'"
proof -
  obtain j a r evs j' a' r' where eff: "effect db j a r evs j' a' r' db'"
    and step: "job_step (view_of j a r) (map ev_type evs) (view_of j' a' r')" by (rule transitionE[OF tr])
  note e = effectD[OF eff] and s = effect_sets[OF inv eff]
  have wf: "wf_view (view_of j a r)" by (rule linked_wf[OF inv e(1)])
  have id: "job_identity j' = job_identity j" "attempt_identity a' = attempt_identity a"
    using eff unfolding effect_def by blast+
  have j: "job_advances j j'"
    using id(1) job_step_resolution[OF step wf] job_step_desired[OF step]
    by (simp add: job_advances_def view_of_def)
  have a: "attempt_advances a a'"
    using id(2) job_step_dispatch(2)[OF step] job_step_intent[OF step] by (simp add: attempt_advances_def view_of_def)
  have cnt: "dispatch_count (job_events db') (a_attempt_id b) = dispatch_count (job_events db) (a_attempt_id b)"
    if b: "b \<in> set (attempts db)" "a_state b \<noteq> Accepted" for b
  proof (cases "a_attempt_id b = a_attempt_id a")
    case True
    then have "b = a" using b(1) e(1) reg_inv_keys(2)[OF inv]
      by (auto simp: linked_def distinct_map dest: inj_onD)
    then have "jv_state (view_of j a r) \<noteq> Accepted" using b(2) by (simp add: view_of_def)
    then have "''DISPATCH_ISSUED'' \<notin> set (map ev_type evs)" using job_step_dispatch(1)[OF step] by blast
    then have "filter (\<lambda>t. t = ''DISPATCH_ISSUED'') (map ev_type evs) = []"
      unfolding filter_empty_conv by blast
    then show ?thesis
      unfolding e(9) dispatch_count_append[OF e(10)] by (simp only: list.size(3) if_cancel add_0_right)
  next
    case False
    then show ?thesis using dispatch_count_append[OF e(10), of "a_attempt_id b"] e(9) by simp
  qed
  have "\<forall>i \<in> set (jobs db). \<exists>i' \<in> set (jobs db'). job_advances i i'"
    unfolding s(1) using j by (metis DiffI insert_iff job_advances_refl singletonD)
  moreover have "\<forall>b \<in> set (attempts db). \<exists>b' \<in> set (attempts db'). attempt_advances b b' \<and> (a_state b \<noteq> Accepted \<longrightarrow>
      dispatch_count (job_events db') (a_attempt_id b) = dispatch_count (job_events db) (a_attempt_id b))"
    unfolding s(2) using a cnt by (metis DiffI insert_iff attempt_advances_refl singletonD)
  ultimately show ?thesis using eff unfolding advances_def effect_def by simp
qed

lemma admits_advances:
  assumes "admits h cfg db db'"
  shows "advances db db'"
proof -
  obtain request ids at pa evs where adm: "admission db pa evs db'" by (rule admitsE[OF assms])
  have ap: "appended (job_events db) (j_job_id (pa_job pa)) (a_attempt_id (pa_attempt pa)) evs"
    and ty: "map ev_type evs = [''REQUEST_RECEIVED'', ''JOB_RECORD_CREATED'', ''ATTEMPT_CREATED'']"
    and ev: "job_events db' = job_events db @ evs"
    using adm unfolding admission_def by blast+
  have cnt: "dispatch_count (job_events db') k = dispatch_count (job_events db) k" for k
    unfolding ev using dispatch_count_append[OF ap] ty by simp
  have "\<forall>i \<in> set (jobs db). \<exists>i' \<in> set (jobs db'). job_advances i i'"
    "\<forall>b \<in> set (attempts db). \<exists>b' \<in> set (attempts db'). attempt_advances b b' \<and> (a_state b \<noteq> Accepted \<longrightarrow>
      dispatch_count (job_events db') (a_attempt_id b) = dispatch_count (job_events db) (a_attempt_id b))"
    using adm cnt unfolding admission_def by (auto intro: job_advances_refl attempt_advances_refl)
  then show ?thesis using adm unfolding advances_def admission_def by simp
qed

lemma registry_step_advances:
  assumes inv: "full_inv db" and step: "registry_step h cfg db db'"
  shows "advances db db'"
  using registry_step_refines[OF full_invD(1)[OF inv] step]
proof
  assume "job_transition\<^sup>*\<^sup>* db db'"
  then have "full_inv db' \<and> advances db db'"
  proof (induction rule: rtranclp_induct)
    case base
    show ?case using inv advances_refl by simp
  next
    case (step s t)
    then show ?case
      using transition_full_inv transition_advances[OF full_invD(1)] advances_trans by blast
  qed
  then show ?thesis ..
qed (rule admits_advances)

lemma run_advances:
  assumes "full_inv db" and "(registry_step h cfg)\<^sup>*\<^sup>* db db'"
  shows "advances db db'"
  using assms(2,1) advances_refl advances_trans registry_step_advances
  by (rule registry_runs.run_rel)

end
