(* ===== verification/Registry_Guarantees.thy ===== *)
theory Registry_Guarantees
  imports Registry_Safety
begin

text \<open>
  What every reachable registry database guarantees, and what no run can undo.  A database is
  reachable when some sequence of Registry operations, with any arguments, any clock and any
  behaviour of SQLite, leads to it from the empty one.
\<close>

section \<open>Reachable databases and runs\<close>

definition reachable_registry :: "host \<Rightarrow> RegistryConfig \<Rightarrow> registry \<Rightarrow> bool" where
  "reachable_registry h cfg = reachable_from (\<lambda>s. s = empty_registry) (registry_step h cfg)"

definition registry_run :: "host \<Rightarrow> RegistryConfig \<Rightarrow> registry \<Rightarrow> registry \<Rightarrow> bool" where
  "registry_run h cfg = (registry_step h cfg)\<^sup>*\<^sup>*"

lemma reachable_full_inv: "reachable_registry h cfg db \<Longrightarrow> full_inv db"
  unfolding reachable_registry_def by (rule registry_runs.reachable_inv)

lemma reachable_run: "reachable_registry h cfg db \<Longrightarrow> registry_run h cfg db db' \<Longrightarrow> reachable_registry h cfg db'"
  unfolding registry_run_def reachable_registry_def
  by (rotate_tac, induction rule: rtranclp_induct) (auto intro: reach_step)

lemma reachable_advances: "reachable_registry h cfg db \<Longrightarrow> registry_run h cfg db db' \<Longrightarrow> advances db db'"
  unfolding registry_run_def by (rule run_advances[OF reachable_full_inv])

lemma reachable_linked:
  assumes "reachable_registry h cfg db" and "j \<in> set (jobs db)"
  obtains a r where "linked db j a r" and "wf_view (view_of j a r)"
proof -
  have inv: "reg_inv db" by (rule full_invD(1)[OF reachable_full_inv[OF assms(1)]])
  then have "tbl_lookup j_job_id (jobs db) (j_job_id j) = Some j"
    using assms(2) reg_inv_keys(1) by (simp add: tbl_lookup_iff_mem)
  with inv show ?thesis using job_linked that linked_wf by metis
qed

section \<open>Consistency\<close>

lemma wf_view_cases:
  assumes "wf_view (view_of j a r)"
  shows "j_resolution j = None \<Longrightarrow> j_current_attempt_id j = Some (a_attempt_id a) \<and> \<not> is_terminal (a_state a)"
    and "j_resolution j = Some res \<Longrightarrow> j_current_attempt_id j = None \<and> a_state a = resolution_state res"
    and "is_terminal (a_state a) \<Longrightarrow> r_state r = terminal_reservation (a_state a)
      \<and> a_result_digest a \<noteq> None \<and> a_finished_at_ms a \<noteq> None"
  using assms
  by (auto simp: wf_view_def resolution_agrees_def view_of_def split: option.splits)

text \<open>The facts of one Job that the queries of the inspection ask for, from \<open>reg_inv\<close>.\<close>

lemma job_consistent:
  assumes inv: "reg_inv db" and j: "j \<in> set (jobs db)"
  shows "j_resolution j = None \<longleftrightarrow> j_current_attempt_id j \<noteq> None"
proof -
  have "tbl_lookup j_job_id (jobs db) (j_job_id j) = Some j"
    using j reg_inv_keys(1)[OF inv] by (simp add: tbl_lookup_iff_mem)
  then obtain a r where lk: "linked db j a r" using job_linked[OF inv] by metis
  show ?thesis using wf_view_cases(1,2)[OF linked_wf[OF inv lk]] by (cases "j_resolution j") auto
qed

lemma attempt_row_linked:
  assumes inv: "reg_inv db" and a: "a \<in> set (attempts db)"
  obtains j r where "linked db j a r"
proof -
  have "tbl_lookup a_attempt_id (attempts db) (a_attempt_id a) = Some a"
    using a reg_inv_keys(2)[OF inv] by (simp add: tbl_lookup_iff_mem)
  then show ?thesis using attempt_linked[OF inv] that by metis
qed

lemma attempt_consistent:
  assumes inv: "reg_inv db" and a: "a \<in> set (attempts db)"
  shows "is_terminal (a_state a) \<Longrightarrow> a_result_digest a \<noteq> None \<and> a_finished_at_ms a \<noteq> None"
    and "r \<in> set (reservations db) \<Longrightarrow> r_attempt_id r = a_attempt_id a \<Longrightarrow> is_terminal (a_state a)
      \<Longrightarrow> r_state r = terminal_reservation (a_state a)"
    and "j \<in> set (jobs db) \<Longrightarrow> a_job_id a = j_job_id j \<Longrightarrow>
      (j_resolution j = None \<longrightarrow> \<not> is_terminal (a_state a))
      \<and> (\<forall>res. j_resolution j = Some res \<longrightarrow> a_state a = resolution_state res)"
proof -
  obtain j' r' where lk: "linked db j' a r'" by (rule attempt_row_linked[OF assms])
  note wf = wf_view_cases[OF linked_wf[OF inv lk]]
  show "is_terminal (a_state a) \<Longrightarrow> a_result_digest a \<noteq> None \<and> a_finished_at_ms a \<noteq> None"
    using wf(3) by blast
  show "r \<in> set (reservations db) \<Longrightarrow> r_attempt_id r = a_attempt_id a \<Longrightarrow> is_terminal (a_state a)
      \<Longrightarrow> r_state r = terminal_reservation (a_state a)"
    using wf(3) lk reg_inv_keys(3)[OF inv] by (metis distinct_map inj_onD linked_def)
  show "(j_resolution j = None \<longrightarrow> \<not> is_terminal (a_state a))
      \<and> (\<forall>res. j_resolution j = Some res \<longrightarrow> a_state a = resolution_state res)"
    if "j \<in> set (jobs db)" "a_job_id a = j_job_id j"
  proof -
    have "j' = j" using that lk reg_inv_keys(1)[OF inv] by (metis distinct_map inj_onD linked_def)
    then show ?thesis using wf(1,2) by blast
  qed
qed

lemma current_attempt_own:
  assumes inv: "reg_inv db" and "j \<in> set (jobs db)" and "a \<in> set (attempts db)"
    and cur: "j_current_attempt_id j = Some (a_attempt_id a)"
  shows "a_job_id a = j_job_id j"
proof -
  have "tbl_lookup j_job_id (jobs db) (j_job_id j) = Some j"
    using assms(2) reg_inv_keys(1)[OF inv] by (simp add: tbl_lookup_iff_mem)
  then obtain b r where lk: "linked db j b r" using job_linked[OF inv] by metis
  have "a_attempt_id b = a_attempt_id a"
    using wf_view_cases(1)[OF linked_wf[OF inv lk]] job_consistent[OF inv assms(2)] cur by simp
  then show ?thesis using lk assms(3) reg_inv_keys(2)[OF inv] by (metis distinct_map inj_onD linked_def)
qed

lemma inspection_queries_empty:
  assumes inv: "reg_inv db"
  shows "q_unresolved_without_current db = []" "q_resolved_with_current db = []"
    "q_unresolved_terminal db = []" "q_resolution_mismatch db = []" "q_terminal_holds db = []"
    "q_orphan_not_held db = []" "q_missing_evidence db = []"
proof -
  show "q_unresolved_without_current db = []" "q_resolved_with_current db = []"
    unfolding q_unresolved_without_current_def q_resolved_with_current_def
    using job_consistent[OF inv] by fastforce+
  show "q_unresolved_terminal db = []" "q_resolution_mismatch db = []"
    unfolding q_unresolved_terminal_def q_resolution_mismatch_def
    using attempt_consistent(3)[OF inv] current_attempt_own[OF inv] by (auto split: option.splits)
  show "q_terminal_holds db = []" "q_orphan_not_held db = []"
    unfolding q_terminal_holds_def q_orphan_not_held_def
    using attempt_consistent(2)[OF inv] by (auto simp: terminal_reservation_def)
  show "q_missing_evidence db = []"
    unfolding q_missing_evidence_def using attempt_consistent(1)[OF inv] by fastforce
qed

text \<open>
  C7. A reachable database passes its own inspection: none of the seven invariant queries returns a
  row, whatever operations ran, in whatever order, and however their commits failed.
\<close>

theorem reachable_inspection_clean:
  assumes "reachable_registry h cfg db"
  shows "inspect_runtime_invariants db = []"
  unfolding inspect_runtime_invariants_def
  by (simp add: inspection_queries_empty[OF full_invD(1)[OF reachable_full_inv[OF assms]]])

section \<open>At-most-once dispatch\<close>

lemma dispatch_ok_bound:
  assumes "dispatch_ok db"
  shows "dispatch_count (job_events db) attempt_id \<le> 1"
proof (cases "\<exists>a \<in> set (attempts db). a_attempt_id a = attempt_id")
  case True
  then obtain a where "a \<in> set (attempts db)" and a: "a_attempt_id a = attempt_id" by blast
  then have "dispatch_count (job_events db) (a_attempt_id a) \<le> (if a_state a = Accepted then 0 else 1)"
    using assms unfolding dispatch_ok_def by blast
  then show ?thesis unfolding a by (simp split: if_splits)
next
  case False
  then have "\<And>e. e \<in> set (job_events db) \<Longrightarrow> ev_attempt_id e \<noteq> Some attempt_id"
    using assms unfolding dispatch_ok_def by force
  then have "filter (\<lambda>e. ev_type e = ''DISPATCH_ISSUED'' \<and> ev_attempt_id e = Some attempt_id) (job_events db) = []"
    unfolding filter_empty_conv by blast
  then show ?thesis unfolding dispatch_count_def by (simp only: list.size(3))
qed

text \<open>
  C2. The at-most-once boundary: no reachable event log holds two DISPATCH_ISSUED events of the same
  Attempt.
\<close>

theorem at_most_one_dispatch:
  assumes "reachable_registry h cfg db"
  shows "dispatch_count (job_events db) attempt_id \<le> 1"
  by (rule dispatch_ok_bound[OF full_invD(4)[OF reachable_full_inv[OF assms]]])

text \<open>
  No process state without a durable dispatch: an Attempt that is starting, running or stopping
  has exactly one DISPATCH_ISSUED event and a committed bundle.
\<close>

theorem process_states_were_dispatched:
  assumes "reachable_registry h cfg db" and "a \<in> set (attempts db)"
    and "a_state a \<in> {Starting, Running, Stopping}"
  shows "dispatch_count (job_events db) (a_attempt_id a) = 1 \<and> a_bundle_digest a \<noteq> None"
proof
  note inv = reachable_full_inv[OF assms(1)]
  show "dispatch_count (job_events db) (a_attempt_id a) = 1"
    using full_invD(4)[OF inv] assms(2,3) unfolding dispatch_ok_def dispatched_def by blast
  obtain j r where lk: "linked db j a r" by (rule attempt_row_linked[OF full_invD(1)[OF inv] assms(2)])
  show "a_bundle_digest a \<noteq> None"
    using linked_wf[OF full_invD(1)[OF inv] lk] assms(3)
    by (auto simp: wf_view_def progress_agrees_def view_of_def)
qed

section \<open>What runs cannot undo\<close>

lemma run_lookup_job:
  assumes "reachable_registry h cfg db" and "registry_run h cfg db db'"
    and "tbl_lookup j_job_id (jobs db) job_id = Some j"
  obtains j' where "tbl_lookup j_job_id (jobs db') job_id = Some j'" and "job_advances j j'"
proof -
  have "j \<in> set (jobs db)" and k: "j_job_id j = job_id" using tbl_lookup_SomeD[OF assms(3)] by auto
  then obtain j' where j': "j' \<in> set (jobs db')" "job_advances j j'"
    using reachable_advances[OF assms(1,2)] unfolding advances_def by blast
  have "distinct (map j_job_id (jobs db'))"
    by (rule reg_inv_keys(1)[OF full_invD(1)[OF reachable_full_inv[OF reachable_run[OF assms(1,2)]]]])
  moreover have "j_job_id j' = job_id"
    using j'(2) k identity_keys(1) unfolding job_advances_def by metis
  ultimately show ?thesis using j' that by (auto simp: tbl_lookup_iff_mem)
qed

text \<open>
  C8. A Job's resolution is final.  Along every run from a reachable database a Job keeps its identity
  columns and its resolution either stays as it is or moves up the order unresolved, orphaned, lost,
  conclusive; so a conclusive resolution never changes again.
\<close>

theorem resolution_only_sharpens:
  assumes "reachable_registry h cfg db" and "registry_run h cfg db db'"
    and "tbl_lookup j_job_id (jobs db) job_id = Some j"
  shows "\<exists>j'. tbl_lookup j_job_id (jobs db') job_id = Some j' \<and> job_identity j' = job_identity j
     \<and> resolution_rank (j_resolution j) \<le> resolution_rank (j_resolution j')
     \<and> (\<forall>res. j_resolution j = Some res \<and> conclusive res \<longrightarrow> j_resolution j' = Some res)"
proof -
  obtain j' where j': "tbl_lookup j_job_id (jobs db') job_id = Some j'" "job_advances j j'"
    by (rule run_lookup_job[OF assms])
  have "j_resolution j' = Some res" if "j_resolution j = Some res" "conclusive res" for res
  proof -
    have "resolution_rank (Some res) = 3" using that(2) by (auto simp: conclusive_def)
    moreover have "resolution_rank x \<le> 3" for x by (cases x rule: resolution_rank.cases) auto
    ultimately show ?thesis using j'(2) that(1) unfolding job_advances_def by (metis leD)
  qed
  then show ?thesis using j' unfolding job_advances_def by (metis order_le_less)
qed

text \<open>
  C17. Cancellation is sticky: once a Job is to be cancelled it stays so, and no later operation
  dispatches any Attempt of it.
\<close>

theorem cancelled_never_dispatched:
  assumes "reachable_registry h cfg db" and "registry_run h cfg db db'"
    and "tbl_lookup j_job_id (jobs db) job_id = Some j" and "j_desired_state j = DesiredCancelled"
    and "a \<in> set (attempts db)" and "a_job_id a = job_id"
  shows "(\<exists>j'. tbl_lookup j_job_id (jobs db') job_id = Some j' \<and> j_desired_state j' = DesiredCancelled)
     \<and> dispatch_count (job_events db') (a_attempt_id a) = dispatch_count (job_events db) (a_attempt_id a)"
proof
  show "\<exists>j'. tbl_lookup j_job_id (jobs db') job_id = Some j' \<and> j_desired_state j' = DesiredCancelled"
    using run_lookup_job[OF assms(1-3)] assms(4) unfolding job_advances_def by metis
  note inv = full_invD(1)[OF reachable_full_inv[OF assms(1)]]
  obtain i r where lk: "linked db i a r" by (rule attempt_row_linked[OF inv assms(5)])
  then have "tbl_lookup j_job_id (jobs db) job_id = Some i"
    using linked_lookup(1)[OF inv] assms(6) by (auto simp: linked_def)
  then have "i = j" using assms(3) by simp
  then have "a_state a \<noteq> Accepted"
    using linked_wf[OF inv lk] assms(4) by (auto simp: wf_view_def progress_agrees_def view_of_def)
  then show "dispatch_count (job_events db') (a_attempt_id a) = dispatch_count (job_events db) (a_attempt_id a)"
    using reachable_advances[OF assms(1,2)] assms(5) unfolding advances_def by blast
qed

text \<open>
  C18. The event log is append-only along every run, and in a reachable database the events of each
  Job are numbered 1, 2, ... without gaps, in log order, with pairwise different event ids.
\<close>

theorem event_log_append_only:
  assumes "reachable_registry h cfg db" and "registry_run h cfg db db'"
  shows "prefix (job_events db) (job_events db')
     \<and> map ev_sequence (filter (\<lambda>e. ev_job_id e = job_id) (job_events db'))
         = [1..<Suc (length (filter (\<lambda>e. ev_job_id e = job_id) (job_events db')))]
     \<and> distinct (map ev_event_id (job_events db'))"
  using reachable_advances[OF assms] full_invD(2,3)[OF reachable_full_inv[OF reachable_run[OF assms]]]
  unfolding advances_def log_numbered_def by blast

section \<open>Capacity\<close>

text \<open>
  C12. At most one execution per workspace: in a reachable database no workspace has two reservations
  that hold capacity, orphaned executions included.
\<close>

theorem one_execution_per_workspace:
  assumes "reachable_registry h cfg db"
  shows "workspace_active db workspace_id \<le> WORKSPACE_EXECUTION_LIMIT"
  using full_invD(5)[OF reachable_full_inv[OF assms]] unfolding workspace_ok_def by blast

end
