(* ===== verification/Admission_Guarantees.thy ===== *)
theory Admission_Guarantees
  imports Registry_Guarantees
begin

text \<open>
  What \<open>submit_preallocated\<close> promises its caller: an admission respects both capacity limits, a
  request that was admitted once is answered with the same Job forever after, a different request
  under the same key is refused, and a commit whose outcome SQLite did not report is answered with
  what really happened.
\<close>

section \<open>Admitted requests\<close>

text \<open>Everything before the transaction begins.\<close>

definition admission_ready ::
  "host \<Rightarrow> sql_env \<Rightarrow> RegistryConfig \<Rightarrow> string + nat \<Rightarrow> SubmitRequest \<Rightarrow> PreallocatedAdmissionIds
   \<Rightarrow> prepared_admission result" where
  "admission_ready h env cfg clock request ids =
     rbind (validate_submit h request) (\<lambda>_.
     rbind (now_ms clock) (\<lambda>created_at_ms.
     rbind (prepare_admission h cfg request ids created_at_ms) (\<lambda>pa.
     rbind (open_connection env) (\<lambda>_.
     rbind (begin_admission env) (\<lambda>_. Inr pa)))))"

lemma admission_ready_Inr:
  assumes "admission_ready h env cfg clock request ids = Inr pa"
  obtains at where "validate_submit h request = Inr ()" and "now_ms clock = Inr at"
    and "prepare_admission h cfg request ids at = Inr pa" and "open_connection env = Inr ()"
    and "begin_admission env = Inr ()"
  using assms unfolding admission_ready_def by (elim rbind_InrE) auto

lemma submit_ready:
  assumes "admission_ready h env cfg clock request ids = Inr pa"
  shows "submit_preallocated h env cfg clock fence db request ids =
     in_transaction env db (submit_tx h env cfg fence request pa) (\<lambda>now y. Inr (fst y))
       (\<lambda>context y autocommit error now.
          if snd y then reconcile_admission_commit_failure env request (j_operation_digest (pa_job pa))
                 context autocommit error now
          else Inl (from_sql error context))"
  using assms unfolding submit_preallocated_def admission_ready_def by simp

lemma submit_not_ready:
  assumes "submit_preallocated h env cfg clock fence db request ids = (Inr outcome, db')"
  obtains pa where "admission_ready h env cfg clock request ids = Inr pa"
  using assms unfolding submit_preallocated_def admission_ready_def by (auto split: sum.splits)

lemma submit_tx_no_return: "submit_tx h env cfg fence request pa db \<noteq> Inr (Return x)"
  unfolding submit_tx_def by (auto split: option.splits elim!: rbind_InrE)

text \<open>A new admission is answered only after its commit succeeded.\<close>

lemma submit_created:
  assumes "submit_preallocated h env cfg clock fence db request ids = (Inr (Created c), db')"
  obtains pa at evs where "admission_ready h env cfg clock request ids = Inr pa"
    and "prepare_admission h cfg request ids at = Inr pa"
    and "submit_tx h env cfg fence request pa db = Inr (Commit ''cannot commit admission'' (Created c, True) db')"
    and "c = \<lparr>ca_job = pa_job pa, ca_attempt = pa_attempt pa, ca_reservation = pa_reservation pa,
           ca_launch_token = pa_launch_token pa\<rparr>"
    and "find_key db (p_principal (sr_plan request)) (sr_client_request_id request) = None"
    and "check_workspace_capacity db (p_workspace_id (sr_plan request)) = Inr ()"
    and "check_global_capacity db (sr_global_limit request) = Inr ()"
    and "admission db pa evs db'"
proof -
  obtain pa where ready: "admission_ready h env cfg clock request ids = Inr pa"
    by (rule submit_not_ready[OF assms])
  obtain at where prep: "prepare_admission h cfg request ids at = Inr pa"
    by (rule admission_ready_Inr[OF ready])
  have no: "reconcile_admission_commit_failure env request op ctx ac er now \<noteq> Inr (Created c)" for op ctx ac er now
    unfolding reconcile_admission_commit_failure_def Let_def by (auto split: option.splits sum.splits if_splits)
  from in_transaction_Inr[OF assms[unfolded submit_ready[OF ready]]] no submit_tx_no_return
  obtain ctx y where tx: "submit_tx h env cfg fence request pa db = Inr (Commit ctx y db')" and y: "fst y = Created c"
    by (auto split: if_splits)
  from submit_tx_Inr[OF prep tx] y obtain evs where r:
    "find_key db (p_principal (sr_plan request)) (sr_client_request_id request) = None"
    "check_workspace_capacity db (p_workspace_id (sr_plan request)) = Inr ()"
    "check_global_capacity db (sr_global_limit request) = Inr ()"
    "c = \<lparr>ca_job = pa_job pa, ca_attempt = pa_attempt pa, ca_reservation = pa_reservation pa,
           ca_launch_token = pa_launch_token pa\<rparr>" "y = (Created c, True)" "admission db pa evs db'"
    by auto
  have "ctx = ''cannot commit admission''"
    using tx r(1) unfolding submit_tx_def by (auto elim!: rbind_InrE)
  then show ?thesis using that[OF ready prep] tx r by blast
qed

text \<open>
  C19. An admission respects the limits: a request is admitted as a new Job only when its workspace
  holds no capacity and fewer executions than its global limit hold capacity, and it then takes
  exactly one unit of each.
\<close>

theorem admission_respects_limits:
  assumes "reachable_registry h cfg db"
    and "submit_preallocated h env cfg clock fence db request ids = (Inr (Created c), db')"
  shows "workspace_active db (p_workspace_id (sr_plan request)) = 0
     \<and> workspace_active db' (p_workspace_id (sr_plan request)) = 1
     \<and> global_active db' = Suc (global_active db) \<and> global_active db' \<le> sr_global_limit request"
proof -
  obtain pa at evs where prep: "prepare_admission h cfg request ids at = Inr pa"
    and chk: "check_workspace_capacity db (p_workspace_id (sr_plan request)) = Inr ()"
      "check_global_capacity db (sr_global_limit request) = Inr ()"
    and adm: "admission db pa evs db'"
    by (rule submit_created[OF assms(2)])
  note inv = full_invD(1)[OF reachable_full_inv[OF assms(1)]]
  show ?thesis
    using chk admission_workspace[OF inv prep adm]
    unfolding check_workspace_capacity_Inr check_global_capacity_Inr WORKSPACE_EXECUTION_LIMIT_def by simp
qed

section \<open>Replays\<close>

lemma find_distinct:
  assumes "distinct (map f xs)" and "x \<in> set xs"
  shows "find (\<lambda>y. f y = f x) xs = Some x"
  using assms by (induction xs) (auto simp: rev_image_eqI)

lemma find_key_bound:
  assumes "keys_match db" and "k \<in> set (idempotency_keys db)"
  shows "find_key db (ik_principal k) (ik_client_request_id k) = Some k"
  using find_distinct[of "\<lambda>k. (ik_principal k, ik_client_request_id k)" "idempotency_keys db" k] assms
  unfolding keys_match_def find_key_def by simp

lemma side_row_digest: "map_option sd_digest (side_row_of h job_id js) = map_option (sha256_bytes h) js"
  by (cases js) (simp_all add: side_row_of_def)

lemma release_row_digest:
  "map_option rw_binding_digest (release_row_of h job_id rel) = map_option (\<lambda>r. sha256_bytes h (h_release_print h r)) rel"
  by (cases rel) (simp_all add: release_row_of_def)

text \<open>The digests of a request do not depend on the identifiers and the time of the call.\<close>

lemma prepare_admission_digests:
  assumes "prepare_admission h cfg request ids at = Inr pa"
  obtains pa' where "prepare_admission h cfg' request ids' at' = Inr pa'"
    and "j_operation_digest (pa_job pa') = j_operation_digest (pa_job pa)"
    and "j_request_digest (pa_job pa') = j_request_digest (pa_job pa)"
  using assms unfolding prepare_admission_def Let_def side_row_digest release_row_digest
  by (auto elim!: rbind_InrE simp: new_job_def)

lemma prepared_request_digest:
  assumes "prepare_admission h cfg request ids at = Inr pa" and "sr_request_identity_digest request = Some d"
  shows "j_request_digest (pa_job pa) = d"
  using assms unfolding prepare_admission_def Let_def by (auto elim!: rbind_InrE simp: new_job_def)

lemma foldl_or_else_None:
  "foldl (\<lambda>found p. or_else found (f p)) None ps = Some x \<Longrightarrow> \<exists>p \<in> set ps. f p \<noteq> None"
proof (induction ps)
  case (Cons p ps)
  then show ?case by (cases "f p") (auto simp: or_else_def)
qed simp

lemma valid_identity_stored:
  assumes "validate_request_identity_digest d = Inr ()" and "j_request_digest j = d"
  shows "job_request_identity_digest h j = Inr d"
proof -
  obtain x where "foldl (\<lambda>found p. or_else found (strip_prefix p d)) None identity_prefixes = Some x"
    using assms(1) unfolding validate_request_identity_digest_def by (auto elim!: rbind_InrE)
  then have "list_ex (starts_with d) identity_prefixes"
    using foldl_or_else_None[where f = "\<lambda>p. strip_prefix p d"] unfolding list_ex_iff starts_with_strip_prefix by blast
  then show ?thesis using assms unfolding job_request_identity_digest_def by simp
qed

lemma validate_submit_identity:
  assumes "validate_submit h request = Inr ()" and "sr_request_identity_digest request = Some d"
  shows "validate_request_identity_digest d = Inr ()"
  using assms unfolding validate_submit_def submit_identity_checks_def
  by (auto elim!: rbind_InrE split: if_splits)

definition healthy :: "sql_env \<Rightarrow> bool" where
  "healthy env \<longleftrightarrow> (\<forall>i. te_open env i = None) \<and> te_begin env = None \<and> te_commit env = CommitDone
     \<and> te_reload env = None"

lemma healthy_ready:
  assumes "healthy env" and "validate_submit h request = Inr ()" and "prepare_admission h cfg request ids t = Inr pa"
    and "t < 2 ^ 64"
  shows "admission_ready h env cfg (Inr t) request ids = Inr pa"
  using assms unfolding admission_ready_def healthy_def
  by (simp add: now_ms_def open_connection_def begin_admission_def)

text \<open>
  C13. Idempotency: once a request has been admitted, submitting it again, after any run of the
  registry, from any process, with other preallocated identifiers and even while a deployment holds
  the admission fence, is answered with the Job of the first admission and changes nothing.
\<close>

theorem admitted_request_replays:
  assumes reach: "reachable_registry h cfg db"
    and created: "submit_preallocated h env cfg clock fence db request ids = (Inr (Created c), db')"
    and run: "registry_run h cfg db' db''"
    and env: "healthy env'" and clock: "t < 2 ^ 64"
  shows "\<exists>j. tbl_lookup j_job_id (jobs db'') (j_job_id (ca_job c)) = Some j
     \<and> job_identity j = job_identity (ca_job c)
     \<and> submit_preallocated h env' cfg (Inr t) fence' db'' request ids' = (Inr (Existing j), db'')"
proof -
  obtain pa at evs where ready: "admission_ready h env cfg clock request ids = Inr pa"
    and prep: "prepare_admission h cfg request ids at = Inr pa"
    and c: "c = \<lparr>ca_job = pa_job pa, ca_attempt = pa_attempt pa, ca_reservation = pa_reservation pa,
           ca_launch_token = pa_launch_token pa\<rparr>"
    and adm: "admission db pa evs db'"
    by (rule submit_created[OF created])
  have valid: "validate_submit h request = Inr ()" by (rule admission_ready_Inr[OF ready])
  have "registry_step h cfg db db'" using rs_submit[of h cfg db env clock fence request ids] created by simp
  then have reach': "reachable_registry h cfg db'"
    using reach unfolding reachable_registry_def by (rule reach_step[rotated])
  note v = prepared_view[OF prep]
  have "pa_job pa \<in> set (jobs db')" "idempotency_row (pa_job pa) \<in> set (idempotency_keys db')"
    using adm unfolding admission_def by simp_all
  moreover have "prefix (idempotency_keys db') (idempotency_keys db'')"
    using reachable_advances[OF reach' run] unfolding advances_def by blast
  ultimately have key: "find_key db'' (p_principal (sr_plan request)) (sr_client_request_id request)
      = Some (idempotency_row (pa_job pa))"
    using find_key_bound[OF full_invD(6)[OF reachable_full_inv[OF reachable_run[OF reach' run]]],
      of "idempotency_row (pa_job pa)"] v(5,6)
    by (auto simp: prefix_def idempotency_row_def)
  have "tbl_lookup j_job_id (jobs db') (j_job_id (pa_job pa)) = Some (pa_job pa)"
    using \<open>pa_job pa \<in> set (jobs db')\<close> reg_inv_keys(1)[OF full_invD(1)[OF reachable_full_inv[OF reach']]]
    by (simp add: tbl_lookup_iff_mem)
  then obtain j where j: "tbl_lookup j_job_id (jobs db'') (j_job_id (pa_job pa)) = Some j" "job_advances (pa_job pa) j"
    by (rule run_lookup_job[OF reach' run])
  have id: "job_identity j = job_identity (pa_job pa)" using j(2) unfolding job_advances_def by blast
  obtain pa' where pa': "prepare_admission h cfg request ids' t = Inr pa'"
    "j_operation_digest (pa_job pa') = j_operation_digest (pa_job pa)"
    by (rule prepare_admission_digests[OF prep])
  have "replay_admission h request (j_operation_digest (pa_job pa')) (idempotency_row (pa_job pa)) db'' = Inr j"
  proof (cases "sr_request_identity_digest request")
    case None
    then show ?thesis using j(1) pa'(2) unfolding replay_admission_def
      by (simp add: load_job_eq_Inr[THEN iffD2] idempotency_row_def)
  next
    case (Some d)
    have "j_request_digest j = d" using id prepared_request_digest[OF prep Some] by (simp add: job_identity_def)
    then have "job_request_identity_digest h j = Inr d"
      by (rule valid_identity_stored[OF validate_submit_identity[OF valid Some]])
    then show ?thesis using j(1) Some unfolding replay_admission_def
      by (simp add: load_job_eq_Inr[THEN iffD2] idempotency_row_def)
  qed
  then have "submit_tx h env' cfg fence' request pa' db''
      = Inr (Commit ''cannot close replay transaction'' (Existing j, False) db'')"
    unfolding submit_tx_def key by simp
  then have "submit_preallocated h env' cfg (Inr t) fence' db'' request ids' = (Inr (Existing j), db'')"
    using env unfolding submit_ready[OF healthy_ready[OF env valid pa'(1) clock]] healthy_def
    by (simp add: in_transaction_def)
  with j(1) id c show ?thesis by simp
qed

text \<open>
  A key is bound to one operation: submitting a different request under a key that is already
  bound is refused with IDEMPOTENCY_CONFLICT and changes nothing.
\<close>

theorem bound_key_refuses_other_request:
  assumes ready: "admission_ready h env cfg clock request ids = Inr pa"
    and key: "find_key db (p_principal (sr_plan request)) (sr_client_request_id request) = Some key"
    and job: "tbl_lookup j_job_id (jobs db) (ik_job_id key) = Some j"
    and other: "case sr_request_identity_digest request of
        None \<Rightarrow> ik_operation_digest key \<noteq> j_operation_digest (pa_job pa)
      | Some d \<Rightarrow> \<exists>stored. job_request_identity_digest h j = Inr stored \<and> stored \<noteq> d"
  shows "submit_preallocated h env cfg clock fence db request ids = (Inl idempotency_conflict, db)"
proof -
  have "replay_admission h request (j_operation_digest (pa_job pa)) key db = Inl idempotency_conflict"
    using job other unfolding replay_admission_def
    by (auto simp: load_job_eq_Inr[THEN iffD2] split: option.splits)
  then show ?thesis
    unfolding submit_ready[OF ready] in_transaction_def submit_tx_def key by simp
qed

section \<open>Commits without a report\<close>

lemma append_event_commit [simp]:
  "append_event h (env\<lparr>te_commit := x\<rparr>) = append_event h env"
  by (intro ext) (simp add: append_event_def)

lemma submit_tx_commit [simp]: "submit_tx h (env\<lparr>te_commit := x\<rparr>) = submit_tx h env"
  unfolding fun_eq_iff submit_tx_def append_admission_events_def append_event_commit by simp

lemma admission_ready_commit [simp]:
  "admission_ready h (env\<lparr>te_commit := x\<rparr>) cfg clock request ids = admission_ready h env cfg clock request ids"
  by (simp add: admission_ready_def open_connection_def begin_admission_def)

lemma reconcile_admission_commit [simp]:
  "reconcile_admission_commit_failure (env\<lparr>te_commit := x\<rparr>) = reconcile_admission_commit_failure env"
  by (intro ext) (simp add: reconcile_admission_commit_failure_def Let_def)


end
