(* ===== verification/Lifecycle_Guarantees.thy ===== *)
theory Lifecycle_Guarantees
  imports Admission_Guarantees
begin

text \<open>
  What the lifecycle operations promise their callers: an acknowledged terminal commit is durable
  and final, replays of it are recognised, a commit without a report is answered truthfully, an
  acknowledged cancellation takes effect, a deadline never overrides a stop request, binding a
  process is idempotent, and a Job can always be projected.
\<close>

section \<open>Frames\<close>

lemma release_reservation_attempts: "release_reservation k at reason db = Inr db' \<Longrightarrow> attempts db' = attempts db"
  unfolding release_reservation_def update_reservations_def
  by (auto elim!: rbind_InrE split: if_splits option.splits)

lemma hold_orphaned_reservation_attempts:
  "hold_orphaned_reservation k at reason db = Inr db' \<Longrightarrow> attempts db' = attempts db"
  unfolding hold_orphaned_reservation_def update_reservations_def
  by (auto elim!: rbind_InrE split: if_splits)

lemma update_jobs_attempts: "update_jobs P f ctx db = Inr (n, db') \<Longrightarrow> attempts db' = attempts db"
  unfolding update_jobs_def by (auto split: if_splits)

lemma append_event_attempts:
  "append_event h env k job_id aid ty origin prev new reason detail at db = Inr db' \<Longrightarrow>
     attempts db' = attempts db \<and> jobs db' = jobs db"
  unfolding append_event_def insert_event_def Let_def by (auto split: if_splits)

section \<open>Projections\<close>


lemma linked_latest:
  assumes inv: "reg_inv db" and lk: "linked db j a r"
  shows "latest_attempt_id db (j_job_id j) = Some (a_attempt_id a)"
proof -
  have "filter (\<lambda>x. a_job_id x = a_job_id a) (attempts db) = [a]"
    using filter_key_unique[OF reg_inv_keys(4)[OF inv], of a] lk by (simp add: linked_def)
  then show ?thesis using lk unfolding latest_attempt_id_def linked_def by simp
qed

lemma linked_snapshot:
  assumes inv: "reg_inv db" and lk: "linked db j a r"
  shows "snapshot_attempt db j = Inr (Some (attempt_record a))"
proof (cases "j_resolution j")
  case None
  then have "j_current_attempt_id j = Some (a_attempt_id a)"
    using wf_view_cases(1)[OF linked_wf[OF inv lk]] by simp
  then show ?thesis using linked_lookup(2)[OF inv lk] by (simp add: snapshot_attempt_def load_attempt_def)
next
  case (Some res)
  then have "j_current_attempt_id j = None" using wf_view_cases(2)[OF linked_wf[OF inv lk]] by simp
  then show ?thesis
    using linked_lookup(2)[OF inv lk] linked_latest[OF assms] by (simp add: snapshot_attempt_def load_attempt_def)
qed

text \<open>
  C22. Every Job of a reachable database can be projected, and the projection is truthful: it reports
  a result exactly when the Job is resolved; an unresolved Job is queued before its process is bound
  and working afterwards; delivery is committed exactly for conclusive resolutions without an active
  recovery condition; and the client is told to poll again exactly while delivery is in progress or
  needs reconciliation.
\<close>

theorem projection_truthful:
  assumes "reachable_registry h cfg db" and "tbl_lookup j_job_id (jobs db) job_id = Some j"
  shows "\<exists>a p. a \<in> set (attempts db) \<and> a_job_id a = job_id
     \<and> map_sum id js_projection (load_job_snapshot_in db job_id) = Inr p
     \<and> jpr_attempt_state p = Some (a_state a)
     \<and> (jpr_result_available p \<longleftrightarrow> j_resolution j \<noteq> None)
     \<and> (j_resolution j = None \<longrightarrow> jpr_status p = (if a_state a \<in> {Accepted, Starting} then ''queued'' else ''working''))
     \<and> (\<forall>res. j_resolution j = Some res \<longrightarrow> jpr_status p = resolution_as_db res)
     \<and> (jpr_delivery_disposition p = Committed \<longleftrightarrow>
          (\<exists>res. j_resolution j = Some res \<and> conclusive res)
          \<and> \<not> attempt_recovery_condition_active db (a_attempt_id a))
     \<and> (jpr_poll_after_ms p = None \<longleftrightarrow> jpr_delivery_disposition p \<in> {Committed, Unknown})"
proof -
  note inv = full_invD(1)[OF reachable_full_inv[OF assms(1)]]
  obtain a r where lk: "linked db j a r" and jid: "j_job_id j = job_id" by (rule job_linked[OF inv assms(2)])
  note wf = linked_wf[OF inv lk]
  let ?p = "project_job j (Some (attempt_record a)) (attempt_recovery_condition_active db (a_attempt_id a))
      (list_ex (\<lambda>art. art_job_id art = j_job_id j) (artifacts db))
      (job_execution_reason_code db (j_job_id j) (j_resolution j \<noteq> None))"
  have p: "map_sum id js_projection (load_job_snapshot_in db job_id) = Inr ?p"
    using assms(2) linked_snapshot[OF inv lk]
    by (simp add: load_job_snapshot_in_def load_job_def)
  have st: "a_state a \<noteq> Recovering" using wf by (simp add: wf_view_def progress_agrees_def view_of_def)
  show ?thesis
  proof (intro exI conjI)
    show "a \<in> set (attempts db)" "a_job_id a = job_id" using lk jid by (auto simp: linked_def)
    show "map_sum id js_projection (load_job_snapshot_in db job_id) = Inr ?p" by (rule p)
    show "jpr_attempt_state ?p = Some (a_state a)" "jpr_result_available ?p \<longleftrightarrow> j_resolution j \<noteq> None"
      by (simp_all add: project_job_def Let_def)
    show "j_resolution j = None \<longrightarrow> jpr_status ?p = (if a_state a \<in> {Accepted, Starting} then ''queued'' else ''working'')"
      using wf_view_cases(1)[OF wf] st by (cases "a_state a") (auto simp: project_job_def Let_def)
    show "\<forall>res. j_resolution j = Some res \<longrightarrow> jpr_status ?p = resolution_as_db res"
      by (simp add: project_job_def Let_def)
    show "jpr_delivery_disposition ?p = Committed \<longleftrightarrow> (\<exists>res. j_resolution j = Some res \<and> conclusive res)
          \<and> \<not> attempt_recovery_condition_active db (a_attempt_id a)"
    proof (cases "j_resolution j")
      case (Some res)
      then show ?thesis using wf_view_cases(2)[OF wf Some]
        by (cases res) (simp_all add: project_job_def Let_def conclusive_def)
    qed (use st in \<open>simp add: project_job_def Let_def\<close>)
    show "jpr_poll_after_ms ?p = None \<longleftrightarrow> jpr_delivery_disposition ?p \<in> {Committed, Unknown}"
      by (cases "jpr_delivery_disposition ?p") (auto simp: project_job_def Let_def)
  qed
qed

section \<open>Terminal commits\<close>

lemma write_terminal_attempt:
  assumes inv: "reg_inv db" and lk: "linked db j a r" and id: "a_attempt_id a = tc_attempt_id request"
    and tx: "write_terminal h env request (attempt_record a) db = Inr db'"
  shows "tbl_lookup a_attempt_id (attempts db') (a_attempt_id a) = Some (terminal_row request a)"
  using tx unfolding write_terminal_def attempt_record_sel
  apply -
  apply (erule rbind_pairE)
  apply (drule guard_Inr, elim conjE)
  apply (erule rbind_InrE, erule rbind_InrE, erule rbind_InrE, erule rbind_pairE, erule rbind_InrE)
  subgoal premises prems for n1 db1 db2 db3 res n4 db4 db5
  proof -
    note l = linked_lookup[OF inv lk] and k = reg_inv_keys[OF inv]
    note key = update_attempts_key[OF prems(1)[folded id] k(2) l(2)]
    have q: "a_row_version a = tc_expected_row_version request \<and> \<not> is_terminal (a_state a)"
      by (rule if_one[OF key(1) prems(2)])
    have "attempts db1 = tbl_put a_attempt_id (a_attempt_id a) (terminal_row request a) (attempts db)"
      using key(2) q by simp
    moreover have "attempts db2 = attempts db1" using register_artifacts_Inr[OF prems(3)] by simp
    moreover have "attempts db3 = attempts db2"
      using prems(4) release_reservation_attempts hold_orphaned_reservation_attempts by (metis (full_types))
    moreover have "attempts db4 = attempts db3" by (rule update_jobs_attempts[OF prems(6)])
    moreover have "attempts db5 = attempts db4" "attempts db' = attempts db5"
      using append_event_attempts[OF prems(7)] append_event_attempts[OF prems(8)] by blast+
    ultimately show ?thesis using l(2) by (simp add: tbl_lookup_put terminal_row_def)
  qed
  done

text \<open>The two ways the transaction of \<open>commit_terminal\<close> ends in a commit.\<close>

lemma commit_terminal_tx_Inr:
  assumes inv: "reg_inv db" and tx: "commit_terminal_tx h env request db = Inr (Commit c y new)"
  obtains (replay) j a r where "linked db j a r" and "a_attempt_id a = tc_attempt_id request"
      and "is_terminal (a_state a)" and "a_state a = tc_state request"
      and "a_result_digest a = Some (tc_result_digest request)" and "y = (j_job_id j, False)" and "new = db"
    | (written) j a r where "linked db j a r" and "a_attempt_id a = tc_attempt_id request"
      and "\<not> is_terminal (a_state a)" and "a_row_version a = tc_expected_row_version request"
      and "tbl_lookup a_attempt_id (attempts new) (tc_attempt_id request) = Some (terminal_row request a)"
      and "y = (j_job_id j, True)" and "c = ''cannot commit terminal transaction''"
  using tx unfolding commit_terminal_tx_def
  apply -
  apply (erule rbind_InrE, erule rbind_InrE)
  subgoal premises prems for rec job
  proof -
    obtain j a r where lk: "linked db j a r" and k: "a_attempt_id a = tc_attempt_id request"
      and rec: "rec = attempt_record a" by (rule loaded_attempt[OF inv prems(3)])
    have job: "job = j" using loaded_job[OF inv lk] prems(4) rec by simp
    have aj: "a_job_id a = j_job_id j" using lk by (simp add: linked_def)
    show ?thesis
    proof (cases "is_terminal (a_state rec)")
      case True
      note t = prems(5)[unfolded if_P[OF True]]
      show ?thesis
        using prems(1)[OF lk k] True rec job t by (simp split: if_splits)
    next
      case False
      note g0 = prems(5)[unfolded if_not_P[OF False], THEN guard_Inr]
      note g = g0[THEN conjunct2, THEN guard_Inr]
      note g' = g[THEN conjunct2, THEN guard_Inr]
      have w: "write_terminal h env request rec db = Inr new"
        by (rule rbind_InrE[OF g'[THEN conjunct2]]) simp
      have c: "c = ''cannot commit terminal transaction''" "y = (j_job_id j, True)"
        using g'[THEN conjunct2] w aj rec by simp_all
      show ?thesis
        using prems(2)[OF lk k] False g0[THEN conjunct1] write_terminal_attempt[OF inv lk k] w rec c k by simp
    qed
  qed
  done

lemma commit_terminal_tx_no_return: "commit_terminal_tx h env request db \<noteq> Inr (Return x)"
  unfolding commit_terminal_tx_def by (auto split: if_splits elim!: rbind_InrE)

text \<open>An acknowledged terminal commit left its result in the Attempt row, however the commit went.\<close>

lemma commit_terminal_row:
  assumes inv: "reg_inv db" and ok: "commit_terminal h env db request = (Inr p, db')"
  obtains a where "tbl_lookup a_attempt_id (attempts db') (tc_attempt_id request) = Some a"
    and "a_state a = tc_state request" and "a_result_digest a = Some (tc_result_digest request)"
    and "is_terminal (tc_state request)"
proof -
  have t: "is_terminal (tc_state request)"
    and run: "transact env ''terminal transaction'' db (commit_terminal_tx h env request)
          (\<lambda>now y. project_snapshot env now (fst y))
          (\<lambda>context y autocommit error now.
             if snd y then reconcile_terminal_commit_failure env request context autocommit error now
             else Inl (from_sql error context)) = (Inr p, db')"
    using ok unfolding commit_terminal_def by (auto split: if_splits sum.splits)
  have "\<exists>a. tbl_lookup a_attempt_id (attempts db') (tc_attempt_id request) = Some a
      \<and> a_state a = tc_state request \<and> a_result_digest a = Some (tc_result_digest request)"
    using in_transaction_Inr[OF transact_Inr[OF run]]
  proof (elim disjE exE conjE)
    fix ctx y new assume tx: "commit_terminal_tx h env request db = Inr (Commit ctx y new)" and db': "db' = new"
    from inv tx show ?thesis
    proof (cases rule: commit_terminal_tx_Inr)
      case (replay j a r)
      then show ?thesis using linked_lookup(2)[OF inv replay(1)] db' by auto
    next
      case (written j a r)
      then show ?thesis using db' by (simp add: terminal_row_def)
    qed
  next
    fix ctx y new durable e
    assume "(if snd y then reconcile_terminal_commit_failure env request ctx True e db'
             else Inl (from_sql e ctx)) = Inr p"
    then show ?thesis
      unfolding reconcile_terminal_commit_failure_def Let_def reload_attempt_def
      by (auto simp: load_attempt_eq_Inr split: if_splits sum.splits option.splits)
  next
    fix ctx y e
    assume "(if snd y then reconcile_terminal_commit_failure env request ctx False e db'
             else Inl (from_sql e ctx)) = Inr p"
    then show ?thesis unfolding reconcile_terminal_commit_failure_def Let_def by (simp split: if_splits)
  qed (simp add: commit_terminal_tx_no_return)
  with t that show ?thesis by blast
qed

text \<open>
  C14. An acknowledged terminal commit is durable and complete: the database then holds the Attempt in
  the requested state with the requested result digest, its Job resolved accordingly and its
  reservation released, or held when the Attempt is orphaned; also when SQLite failed to report the
  commit and the acknowledgement comes from the reconciliation.
\<close>

theorem terminal_commit_durable:
  assumes "reachable_registry h cfg db" and "commit_terminal h env db request = (Inr p, db')"
  shows "\<exists>j a r. linked db' j a r \<and> a_attempt_id a = tc_attempt_id request
     \<and> a_state a = tc_state request \<and> a_result_digest a = Some (tc_result_digest request)
     \<and> map_option resolution_state (j_resolution j) = Some (tc_state request)
     \<and> r_state r = (if tc_state request = Orphaned then HeldOrphaned else Released)"
proof -
  note inv = full_invD(1)[OF reachable_full_inv[OF assms(1)]]
  obtain a where a: "tbl_lookup a_attempt_id (attempts db') (tc_attempt_id request) = Some a"
    "a_state a = tc_state request" "a_result_digest a = Some (tc_result_digest request)" "is_terminal (tc_state request)"
    by (rule commit_terminal_row[OF inv assms(2)])
  have "registry_step h cfg db db'" using rs_terminal[of h cfg db env request] assms(2) by simp
  then have inv': "reg_inv db'" using registry_runs.inv_step[OF reachable_full_inv[OF assms(1)]] full_invD(1) by blast
  obtain j r where lk: "linked db' j a r" "a_attempt_id a = tc_attempt_id request"
    by (rule attempt_linked[OF inv' a(1)])
  note wf = wf_view_cases[OF linked_wf[OF inv' lk(1)]]
  have "map_option resolution_state (j_resolution j) = Some (tc_state request)"
    using wf(1,2) a(2,4) by (cases "j_resolution j") auto
  moreover have "r_state r = (if tc_state request = Orphaned then HeldOrphaned else Released)"
    using wf(3) a(2,4) by (simp add: terminal_reservation_def)
  ultimately show ?thesis using lk a by blast
qed

lemma healthy_transact:
  assumes "healthy env"
  shows "transact env context db body after failed = in_transaction env db body after failed"
  using assms unfolding healthy_def by (simp add: transact_def open_connection_def immediate_def)

lemma healthy_project:
  assumes "reg_inv db" and "linked db j a r" and "te_reload env = None"
  shows "\<exists>p. project_snapshot env db (j_job_id j) = Inr p"
  using assms(3) linked_snapshot[OF assms(1,2)] linked_lookup(1)[OF assms(1,2)]
  by (simp add: project_snapshot_def load_job_snapshot_def load_job_snapshot_in_def load_job_def)

text \<open>The check before the transaction.\<close>

definition terminal_request_ok :: "TerminalCommit \<Rightarrow> bool" where
  "terminal_request_ok request \<longleftrightarrow> is_terminal (tc_state request)
     \<and> rbind (validate_digest (tc_result_digest request) ''resultDigest'')
         (\<lambda>_. for_each validate_artifact_registration (tc_artifacts request)) = Inr ()"

text \<open>
  C15. A terminal result is final and replays are recognised: after an acknowledged terminal commit,
  committing the same result again, whatever row version is expected, succeeds and changes nothing;
  committing any other result for that Attempt is refused with RESULT_IDENTITY_CONFLICT and changes
  nothing.
\<close>

theorem terminal_commit_replay:
  assumes reach: "reachable_registry h cfg db" and ok: "commit_terminal h env db request = (Inr p, db')"
    and env: "healthy env'" and again: "terminal_request_ok request'"
    and same: "tc_attempt_id request' = tc_attempt_id request"
  shows "if tc_state request' = tc_state request \<and> tc_result_digest request' = tc_result_digest request
    then \<exists>p'. commit_terminal h env' db' request' = (Inr p', db')
    else commit_terminal h env' db' request' = (Inl (error_new ResultIdentityConflict
           ''Attempt already has a different terminal result'' (Some ''resultDigest'') False), db')"
proof -
  note inv = full_invD(1)[OF reachable_full_inv[OF reach]]
  obtain a where a: "tbl_lookup a_attempt_id (attempts db') (tc_attempt_id request) = Some a"
    "a_state a = tc_state request" "a_result_digest a = Some (tc_result_digest request)" "is_terminal (tc_state request)"
    by (rule commit_terminal_row[OF inv ok])
  have "registry_step h cfg db db'" using rs_terminal[of h cfg db env request] ok by simp
  then have inv': "reg_inv db'" using registry_runs.inv_step[OF reachable_full_inv[OF reach]] full_invD(1) by blast
  obtain j r where lk: "linked db' j a r" by (rule attempt_linked[OF inv' a(1)])
  have load: "load_attempt db' (tc_attempt_id request') = Inr (attempt_record a)"
    "load_job db' (a_job_id (attempt_record a)) = Inr j"
    using a(1) same lk linked_lookup(1)[OF inv' lk] by (auto simp: load_attempt_def load_job_eq_Inr linked_def)
  have run: "commit_terminal h env' db' request' =
      in_transaction env' db' (commit_terminal_tx h env' request') (\<lambda>now y. project_snapshot env' now (fst y))
          (\<lambda>context y autocommit error now.
             if snd y then reconcile_terminal_commit_failure env' request' context autocommit error now
             else Inl (from_sql error context))"
    using again unfolding commit_terminal_def terminal_request_ok_def healthy_transact[OF env] by simp
  show ?thesis
  proof (cases "tc_state request' = tc_state request \<and> tc_result_digest request' = tc_result_digest request")
    case True
    obtain p' where p': "project_snapshot env' db' (j_job_id j) = Inr p'"
      using healthy_project[OF inv' lk] env unfolding healthy_def by blast
    have "commit_terminal_tx h env' request' db' = Inr (Commit ''cannot close terminal replay'' (j_job_id j, False) db')"
      using True load a unfolding commit_terminal_tx_def by simp
    then have "commit_terminal h env' db' request' = (Inr p', db')"
      using env p' unfolding run in_transaction_def healthy_def by simp
    then show ?thesis using True by simp
  next
    case False
    have "commit_terminal_tx h env' request' db' = Inl (error_new ResultIdentityConflict
           ''Attempt already has a different terminal result'' (Some ''resultDigest'') False)"
      using False load a unfolding commit_terminal_tx_def by auto
    then show ?thesis unfolding if_not_P[OF False] run in_transaction_def by simp
  qed
qed

lemma env_commit_frame [simp]:
  "open_connection (env\<lparr>te_commit := x\<rparr>) = open_connection env"
  "immediate (env\<lparr>te_commit := x\<rparr>) = immediate env"
  "reload_attempt (env\<lparr>te_commit := x\<rparr>) = reload_attempt env"
  "load_job_snapshot (env\<lparr>te_commit := x\<rparr>) = load_job_snapshot env"
  "project_snapshot (env\<lparr>te_commit := x\<rparr>) = project_snapshot env"
  by (auto simp: fun_eq_iff open_connection_def immediate_def reload_attempt_def load_job_snapshot_def
      project_snapshot_def)

lemma commit_terminal_tx_commit [simp]: "commit_terminal_tx h (env\<lparr>te_commit := x\<rparr>) = commit_terminal_tx h env"
  unfolding fun_eq_iff commit_terminal_tx_def write_terminal_def append_event_commit by simp

lemma reconcile_terminal_commit [simp]:
  "reconcile_terminal_commit_failure (env\<lparr>te_commit := x\<rparr>) = reconcile_terminal_commit_failure env"
  unfolding fun_eq_iff reconcile_terminal_commit_failure_def env_commit_frame by simp

text \<open>
  Exactness of the terminal commit's reconciliation.  Take a terminal commit that writes and is
  acknowledged.  If instead its commit reports an error and the connection can be read again, the
  caller is told the truth: the same projection when the writes are durable, a retryable error with
  nothing written when they are not, and an unknown outcome while the transaction is still open.
\<close>

theorem terminal_commit_fault_exact:
  assumes reach: "reachable_registry h cfg db" and reload: "te_reload env = None"
    and ok: "commit_terminal h (env\<lparr>te_commit := CommitDone\<rparr>) db request = (Inr p, new)"
    and writes: "tbl_lookup a_attempt_id (attempts db) (tc_attempt_id request) = Some a" "\<not> is_terminal (a_state a)"
  shows "commit_terminal h (env\<lparr>te_commit := CommitFailed True e\<rparr>) db request = (Inr p, new)
    \<and> commit_terminal h (env\<lparr>te_commit := CommitFailed False e\<rparr>) db request
        = (Inl ((from_sql e ''cannot commit terminal transaction'')\<lparr>err_retryable := True\<rparr>), db)
    \<and> commit_terminal h (env\<lparr>te_commit := CommitOpen e\<rparr>) db request
        = (Inl (unknown_commit_outcome ''terminal commit outcome remains inside an open SQLite transaction''
             (from_sql e ''cannot commit terminal transaction'') None), db)"
proof -
  note inv = full_invD(1)[OF reachable_full_inv[OF reach]]
  define run where "run = (\<lambda>x. in_transaction (env\<lparr>te_commit := x\<rparr>) db (commit_terminal_tx h env request)
     (\<lambda>now y. project_snapshot env now (fst y))
     (\<lambda>context y autocommit error now.
        if snd y then reconcile_terminal_commit_failure env request context autocommit error now
        else Inl (from_sql error context)))"
  have t: "is_terminal (tc_state request)"
    and checks: "rbind (validate_digest (tc_result_digest request) ''resultDigest'')
             (\<lambda>_. for_each validate_artifact_registration (tc_artifacts request)) = Inr ()"
    and opened: "open_connection env = Inr ()" "immediate env ''terminal transaction'' = Inr ()"
    using ok unfolding commit_terminal_def transact_def by (auto split: if_splits sum.splits)
  have run: "commit_terminal h (env\<lparr>te_commit := x\<rparr>) db request = run x" for x
    unfolding run_def commit_terminal_def transact_def checks reconcile_terminal_commit using t opened by simp
  have fin: "run CommitDone = (Inr p, new)" using ok unfolding run .
  obtain c y where tx: "commit_terminal_tx h env request db = Inr (Commit c y new)"
    and p: "project_snapshot env new (fst y) = Inr p"
    using in_transaction_Inr[OF fin[unfolded run_def]] commit_terminal_tx_no_return by auto
  from inv tx show ?thesis
  proof (cases rule: commit_terminal_tx_Inr)
    case (replay j b r)
    then show ?thesis using writes linked_lookup(2)[OF inv replay(1)] by simp
  next
    case (written j b r)
    have b: "b = a" using written(1,2) writes(1) linked_lookup(2)[OF inv written(1)] by simp
    have aj: "a_job_id a = j_job_id j" using written(1) b by (simp add: linked_def)
    have new: "reload_attempt env new (tc_attempt_id request) = Inr (attempt_record (terminal_row request a))"
      and old: "reload_attempt env db (tc_attempt_id request) = Inr (attempt_record a)"
      using written(5) writes(1) b reload by (simp_all add: reload_attempt_def load_attempt_def)
    obtain s where snap: "load_job_snapshot env new (j_job_id j) = Inr s" "js_projection s = p"
      using p written(6) unfolding project_snapshot_def by (auto elim!: rbind_InrE)
    have ne: "a_state a \<noteq> tc_state request" using t writes(2) by auto
    show ?thesis
      unfolding run unfolding run_def in_transaction_def tx
      using written(4,6,7) b new old snap aj ne writes(2)
      by (simp add: reconcile_terminal_commit_failure_def Let_def terminal_row_def)
  qed
qed

section \<open>Cancellation\<close>

lemma update_jobs_lookup:
  assumes "update_jobs P f ctx db = Inr (n, db')" and "\<And>j. j_job_id (f j) = j_job_id j"
    and "tbl_lookup j_job_id (jobs db) k = Some j"
  shows "tbl_lookup j_job_id (jobs db') k = Some (if P j then f j else j)"
  using assms job_rows.lookup_modify[of f P "jobs db" k] unfolding update_jobs_def by (auto split: if_splits)

lemma update_attempts_jobs: "update_attempts P f ctx db = Inr (n, db') \<Longrightarrow> jobs db' = jobs db"
  unfolding update_attempts_def by (auto split: if_splits)

lemma release_reservation_jobs: "release_reservation k at reason db = Inr db' \<Longrightarrow> jobs db' = jobs db"
  unfolding release_reservation_def update_reservations_def
  by (auto elim!: rbind_InrE split: if_splits option.splits)

lemma cancel_orphaned_job:
  assumes tx: "cancel_orphaned_tx h env j at db = Inr (Commit c y new)"
    and lk: "tbl_lookup j_job_id (jobs db) (j_job_id j) = Some j" and orphaned: "j_resolution j = Some ResOrphaned"
  shows "y \<and> c = ''cannot commit orphan cancel intent''
     \<and> (\<exists>j'. tbl_lookup j_job_id (jobs new) (j_job_id j) = Some j' \<and> j_desired_state j' = DesiredCancelled)"
  using tx unfolding cancel_orphaned_tx_def Let_def
  apply -
  apply (erule rbind_InrE, erule rbind_InrE, erule rbind_InrE)
  apply (drule guard_Inr, elim conjE)
  apply (erule rbind_pairE, erule rbind_pairE, erule rbind_InrE)
  subgoal premises prems for aid attempt reservation n1 db1 n2 db2 db3
  proof -
    have db1: "tbl_lookup j_job_id (jobs db1) (j_job_id j) = Some
       (if j_desired_state j \<noteq> DesiredCancelled then j\<lparr>j_desired_state := DesiredCancelled, j_row_version := j_row_version j + 1\<rparr> else j)"
      using update_jobs_lookup[OF prems(5) _ lk] orphaned by simp
    have "jobs db2 = jobs db1" by (rule update_attempts_jobs[OF prems(6)])
    moreover have "jobs db3 = jobs db2"
      using prems(7) append_event_attempts by (metis Inr_inject)
    ultimately show ?thesis using db1 prems(8) by auto
  qed
  done

text \<open>Cancelling an unresolved Job, before or after its dispatch.\<close>

lemma cancel_before_dispatch_job:
  assumes "cancel_before_dispatch h env k aid at db = Inr db'"
    and "tbl_lookup j_job_id (jobs db) k = Some j" and "j_resolution j = None"
  shows "\<exists>j'. tbl_lookup j_job_id (jobs db') k = Some j' \<and> j_desired_state j' = j_desired_state j
     \<and> j_resolution j' = Some ResCancelled"
  using assms(1) unfolding cancel_before_dispatch_def Let_def
  apply -
  apply (erule rbind_pairE, erule rbind_InrE, erule rbind_pairE)
  subgoal premises prems for n1 db1 db2 n3 db3
  proof -
    have "jobs db2 = jobs db"
      using update_attempts_jobs[OF prems(1)] release_reservation_jobs[OF prems(2)] by simp
    then have "tbl_lookup j_job_id (jobs db3) k = Some
       (j\<lparr>j_resolution := Some ResCancelled, j_current_attempt_id := None, j_row_version := j_row_version j + 1\<rparr>)"
      using update_jobs_lookup[OF prems(3), of k j] assms(2,3) tbl_lookup_SomeD[OF assms(2)] by simp
    then show ?thesis using append_event_attempts[OF prems(4)] by simp
  qed
  done

lemma cancel_after_dispatch_rows:
  assumes "cancel_after_dispatch h env k (attempt_record a) at db = Inr db'" and "a_state a \<in> {Starting, Running, Recovering}"
    and "tbl_lookup a_attempt_id (attempts db) (a_attempt_id a) = Some a"
  shows "jobs db' = jobs db \<and> (\<exists>b. tbl_lookup a_attempt_id (attempts db') (a_attempt_id a) = Some b
     \<and> a_termination_intent b = StopRequested)"
  using assms(1) unfolding cancel_after_dispatch_def Let_def attempt_record_sel
  apply -
  apply (erule rbind_pairE)
  subgoal premises prems for n1 db1
  proof -
    let ?f = "\<lambda>a :: attempt_row. a\<lparr>a_state := Stopping, a_termination_intent := StopRequested, a_row_version := a_row_version a + 1\<rparr>"
    have "attempts db1 = tbl_modify (\<lambda>x. a_attempt_id x = a_attempt_id a \<and> a_state x \<in> {Starting, Running, Recovering}) ?f (attempts db)"
      using prems(1) unfolding update_attempts_def by (auto split: if_splits)
    then have "tbl_lookup a_attempt_id (attempts db1) (a_attempt_id a) = Some (?f a)"
      using attempt_rows.lookup_modify[of ?f] assms(2,3) by simp
    then show ?thesis
      using update_attempts_jobs[OF prems(1)] append_event_attempts[OF prems(2)] by simp
  qed
  done

lemma request_cancel_tx_Inr:
  assumes inv: "reg_inv db" and lk: "linked db j a r" and tx: "request_cancel_tx h env (j_job_id j) at db = Inr (Commit c y new)"
  obtains (closed) "j_resolution j \<notin> {None, Some ResOrphaned}" and "new = db"
    | (orphaned) j' where "j_resolution j = Some ResOrphaned" and "y" and "c = ''cannot commit orphan cancel intent''"
      and "tbl_lookup j_job_id (jobs new) (j_job_id j) = Some j'" and "j_desired_state j' = DesiredCancelled"
    | (live) j' where "j_resolution j = None" and "y" and "c = ''cannot commit cancel intent''"
      and "tbl_lookup j_job_id (jobs new) (j_job_id j) = Some j'" and "j_desired_state j' = DesiredCancelled"
      and "a_state a \<noteq> Stopping \<Longrightarrow> j_resolution j' \<noteq> None \<or>
        (\<exists>b. tbl_lookup a_attempt_id (attempts new) (a_attempt_id a) = Some b \<and> a_termination_intent b = StopRequested)"
proof -
  note l = linked_lookup[OF inv lk] and wf = linked_wf[OF inv lk]
  have load: "load_job db (j_job_id j) = Inr j" using l(1) by (simp add: load_job_eq_Inr)
  show ?thesis
  proof (cases "j_resolution j")
    case (Some res)
    then show ?thesis
    proof (cases "res = ResOrphaned")
      case True
      then have "cancel_orphaned_tx h env j at db = Inr (Commit c y new)"
        using tx load Some unfolding request_cancel_tx_def by simp
      from cancel_orphaned_job[OF this l(1)] orphaned show ?thesis using Some True by blast
    next
      case False
      then have "new = db" using tx load Some unfolding request_cancel_tx_def by simp
      then show ?thesis using closed Some False by simp
    qed
  next
    case None
    then have cur: "j_current_attempt_id j = Some (a_attempt_id a)" and nt: "\<not> is_terminal (a_state a)"
      using wf_view_cases(1)[OF wf] by auto
    have at: "load_attempt db (a_attempt_id a) = Inr (attempt_record a)" using l(2) by (simp add: load_attempt_def)
    from tx load None cur at nt obtain n db1 db2 where
      up: "update_jobs (\<lambda>x. j_job_id x = j_job_id j \<and> j_resolution x = None)
        (\<lambda>x. x\<lparr>j_desired_state := DesiredCancelled, j_row_version := j_row_version x + 1\<rparr>)
        ''cannot persist cancel intent'' db = Inr (n, db1)"
      and rest: "(if a_state a = Accepted then cancel_before_dispatch h env (j_job_id j) (a_attempt_id a) at db1
         else if a_state a \<noteq> Stopping then cancel_after_dispatch h env (j_job_id j) (attempt_record a) at db1
         else Inr db1) = Inr db2" and fin: "new = db2" "y" "c = ''cannot commit cancel intent''"
      unfolding request_cancel_tx_def by (auto elim!: rbind_InrE cong: if_cong)
    let ?j1 = "j\<lparr>j_desired_state := DesiredCancelled, j_row_version := j_row_version j + 1\<rparr>"
    have j1: "tbl_lookup j_job_id (jobs db1) (j_job_id j) = Some ?j1"
      using update_jobs_lookup[OF up _ l(1)] None by simp
    have at1: "attempts db1 = attempts db" by (rule update_jobs_attempts[OF up])
    consider "a_state a = Accepted" | "a_state a \<in> {Starting, Running, Recovering}" | "a_state a = Stopping"
      using nt by (cases "a_state a") auto
    then show ?thesis
    proof cases
      case 1
      then have "cancel_before_dispatch h env (j_job_id j) (a_attempt_id a) at db1 = Inr db2" using rest by simp
      from cancel_before_dispatch_job[OF this j1] None obtain j' where
        "tbl_lookup j_job_id (jobs db2) (j_job_id j) = Some j'" "j_desired_state j' = DesiredCancelled"
        "j_resolution j' = Some ResCancelled" by auto
      then show ?thesis using live[of j'] None fin by simp
    next
      case 2
      then have "cancel_after_dispatch h env (j_job_id j) (attempt_record a) at db1 = Inr db2"
        using rest by (auto split: if_splits)
      from cancel_after_dispatch_rows[OF this 2] l(2) at1 show ?thesis using live[of ?j1] None fin j1 by simp
    next
      case 3
      then show ?thesis using live[of ?j1] None fin rest j1 by simp
    qed
  qed
qed

lemma request_cancel_tx_no_return: "request_cancel_tx h env job_id at db \<noteq> Inr (Return x)"
  unfolding request_cancel_tx_def cancel_orphaned_tx_def Let_def by (auto split: if_splits elim!: rbind_InrE)

lemma request_cancel_tx_linked:
  assumes inv: "reg_inv db" and tx: "request_cancel_tx h env job_id at db = Inr (Commit c y new)"
  obtains j a r where "linked db j a r" and "j_job_id j = job_id"
proof -
  obtain j where "tbl_lookup j_job_id (jobs db) job_id = Some j"
    using tx unfolding request_cancel_tx_def by (elim rbind_InrE) (simp add: load_job_eq_Inr)
  then show ?thesis using job_linked[OF inv] that by blast
qed


lemma request_cancel_tx_commit [simp]: "request_cancel_tx h (env\<lparr>te_commit := x\<rparr>) = request_cancel_tx h env"
  unfolding fun_eq_iff request_cancel_tx_def cancel_orphaned_tx_def cancel_before_dispatch_def
    cancel_after_dispatch_def append_event_commit by simp

lemma reconcile_cancel_commit [simp]:
  "reconcile_cancel_commit_failure (env\<lparr>te_commit := x\<rparr>) = reconcile_cancel_commit_failure env"
  unfolding fun_eq_iff reconcile_cancel_commit_failure_def env_commit_frame by simp

lemma linked_load_snapshot:
  assumes "reg_inv db" and "linked db j a r" and "te_reload env = None"
  obtains s where "load_job_snapshot env db (j_job_id j) = Inr s" and "js_job s = j"
    and "js_attempt s = Some (attempt_record a)" and "jpr_desired_state (js_projection s) = j_desired_state j"
  using assms(3) linked_snapshot[OF assms(1,2)] linked_lookup(1)[OF assms(1,2)]
  by (simp add: load_job_snapshot_def load_job_snapshot_in_def load_job_def project_job_def Let_def)

text \<open>A cancellation that a failed commit interrupts: what the caller is told.\<close>

lemma cancel_interrupted:
  assumes reach: "reachable_registry h cfg db" and reload: "te_reload env = None"
    and ok: "request_cancel h (env\<lparr>te_commit := CommitDone\<rparr>) db job_id at = (Inr p, new)"
  obtains c y j a r where "request_cancel_tx h env job_id at db = Inr (Commit c y new)"
    and "linked db j a r" and "j_job_id j = job_id"
    and "\<forall>durable e. y \<longrightarrow> request_cancel h (env\<lparr>te_commit := CommitFailed durable e\<rparr>) db job_id at
          = (reconcile_cancel_commit_failure env job_id c True e (if durable then new else db), if durable then new else db)"
proof -
  note inv = full_invD(1)[OF reachable_full_inv[OF reach]]
  have opened: "open_connection env = Inr ()" "immediate env ''cancel-intent transaction'' = Inr ()"
    using ok unfolding request_cancel_def transact_def by (auto split: sum.splits)
  obtain c y where tx: "request_cancel_tx h env job_id at db = Inr (Commit c y new)"
    using in_transaction_Inr[OF transact_Inr[OF ok[unfolded request_cancel_def]]] request_cancel_tx_no_return
    by auto
  obtain j a r where lk: "linked db j a r" "j_job_id j = job_id" by (rule request_cancel_tx_linked[OF inv tx])
  have "request_cancel h (env\<lparr>te_commit := CommitFailed durable e\<rparr>) db job_id at
      = (reconcile_cancel_commit_failure env job_id c True e (if durable then new else db), if durable then new else db)"
    if "y" for durable e
    unfolding request_cancel_def transact_def in_transaction_def using opened tx that by (simp add: Let_def)
  then show ?thesis using that tx lk by blast
qed

lemma step_same_attempt:
  assumes reach: "reachable_registry h cfg db" and step: "registry_step h cfg db new"
    and "linked db j a r" and "linked new j' a' r'" and "j_job_id j' = j_job_id j"
  shows "a_attempt_id a' = a_attempt_id a"
proof -
  note inv = reachable_full_inv[OF reach]
  have inv': "reg_inv new" using registry_runs.inv_step[OF inv step] full_invD(1) by blast
  have "a \<in> set (attempts db)" using assms(3) by (simp add: linked_def)
  then obtain b where b: "b \<in> set (attempts new)" "attempt_advances a b"
    using registry_step_advances[OF inv step] unfolding advances_def by blast
  have ids: "a_attempt_id b = a_attempt_id a" "a_job_id b = a_job_id a"
    using b(2) identity_keys(2,3) unfolding attempt_advances_def by blast+
  have "a_job_id b = a_job_id a'" "a' \<in> set (attempts new)"
    using ids(2) assms(3-5) by (simp_all add: linked_def)
  then have "b = a'" using b(1) reg_inv_keys(4)[OF inv'] unfolding distinct_map by (blast dest: inj_onD)
  with ids(1) show ?thesis by simp
qed

text \<open>
  Exactness of the reconciliation of a cancellation: for an unresolved Job whose Attempt is not
  stopping yet, an unreported commit of the cancellation is answered with a projection when it is
  durable, and with a retryable error and nothing written when it is not.
\<close>

theorem cancel_commit_fault_exact:
  assumes reach: "reachable_registry h cfg db" and reload: "te_reload env = None"
    and ok: "request_cancel h (env\<lparr>te_commit := CommitDone\<rparr>) db job_id at = (Inr p, new)"
    and live: "linked db j a r" "j_job_id j = job_id" "j_resolution j = None" "a_state a \<noteq> Stopping"
  shows "(\<exists>p'. request_cancel h (env\<lparr>te_commit := CommitFailed True e\<rparr>) db job_id at = (Inr p', new))
    \<and> request_cancel h (env\<lparr>te_commit := CommitFailed False e\<rparr>) db job_id at
        = (Inl ((from_sql e ''cannot commit cancel intent'')\<lparr>err_retryable := True\<rparr>), db)"
proof -
  note inv = full_invD(1)[OF reachable_full_inv[OF reach]]
  obtain c y where tx: "request_cancel_tx h env job_id at db = Inr (Commit c y new)"
    and run: "\<forall>durable e. y \<longrightarrow> request_cancel h (env\<lparr>te_commit := CommitFailed durable e\<rparr>) db job_id at
          = (reconcile_cancel_commit_failure env job_id c True e (if durable then new else db), if durable then new else db)"
    by (rule cancel_interrupted[OF reach reload ok])
  have "registry_step h cfg db new" using rs_cancel[of h cfg db "env\<lparr>te_commit := CommitDone\<rparr>" job_id at] ok by simp
  then have inv': "reg_inv new" using registry_runs.inv_step[OF reachable_full_inv[OF reach]] full_invD(1) by blast
  show ?thesis
    using inv live(1) tx[folded live(2)]
  proof (cases rule: request_cancel_tx_Inr)
    case (live j')
    obtain a' r' where lk': "linked new j' a' r'" "j_job_id j' = j_job_id j" by (rule job_linked[OF inv' live(4)])
    obtain s' where s': "load_job_snapshot env new (j_job_id j') = Inr s'" "js_job s' = j'"
      "js_attempt s' = Some (attempt_record a')" by (rule linked_load_snapshot[OF inv' lk'(1) reload])
    obtain s where s: "load_job_snapshot env db (j_job_id j) = Inr s" "js_job s = j"
      "js_attempt s = Some (attempt_record a)" by (rule linked_load_snapshot[OF inv assms(4) reload])
    have old: "j_desired_state j = Run" "a_termination_intent a = Natural"
      using linked_wf[OF inv assms(4)] assms(6,7)
      by (cases "a_state a"; auto simp: wf_view_def progress_agrees_def resolution_agrees_def view_of_def)+
    have "a_attempt_id a' = a_attempt_id a"
      by (rule step_same_attempt[OF reach \<open>registry_step h cfg db new\<close> assms(4) lk'])
    then have new: "j_resolution j' \<noteq> None \<or> a_termination_intent a' = StopRequested"
      using live(6)[OF assms(7)] linked_lookup(2)[OF inv' lk'(1)] by auto
    show ?thesis
      using run[rule_format, OF live(2)] s s' old new live(3,5) assms(5,6) lk'(2)
      by (auto simp: reconcile_cancel_commit_failure_def Let_def)
  qed (use assms(6) in auto)
qed

text \<open>
  C21. A cancellation of an orphaned Job can be acknowledged and lost: when its commit fails without
  being durable, the reconciliation finds a resolved Job and answers with its projection, although
  nothing was written and the Job is still wanted to run.
\<close>

theorem orphan_cancel_lost_but_acknowledged:
  assumes reach: "reachable_registry h cfg db" and reload: "te_reload env = None"
    and ok: "request_cancel h (env\<lparr>te_commit := CommitDone\<rparr>) db job_id at = (Inr p, new)"
    and orphaned: "tbl_lookup j_job_id (jobs db) job_id = Some j" "j_resolution j = Some ResOrphaned"
      "j_desired_state j = Run"
  shows "\<exists>p'. request_cancel h (env\<lparr>te_commit := CommitFailed False e\<rparr>) db job_id at = (Inr p', db)
     \<and> jpr_desired_state p' = Run \<and> jpr_desired_state p = DesiredCancelled"
proof -
  note inv = full_invD(1)[OF reachable_full_inv[OF reach]]
  obtain c y i a r where tx: "request_cancel_tx h env job_id at db = Inr (Commit c y new)"
    and lk: "linked db i a r" "j_job_id i = job_id"
    and run: "\<forall>durable e. y \<longrightarrow> request_cancel h (env\<lparr>te_commit := CommitFailed durable e\<rparr>) db job_id at
          = (reconcile_cancel_commit_failure env job_id c True e (if durable then new else db), if durable then new else db)"
    by (rule cancel_interrupted[OF reach reload ok])
  have i: "i = j" using linked_lookup(1)[OF inv lk(1)] lk(2) orphaned(1) by simp
  have "registry_step h cfg db new" using rs_cancel[of h cfg db "env\<lparr>te_commit := CommitDone\<rparr>" job_id at] ok by simp
  then have inv': "reg_inv new" using registry_runs.inv_step[OF reachable_full_inv[OF reach]] full_invD(1) by blast
  obtain s where s: "load_job_snapshot env db (j_job_id i) = Inr s" "js_job s = i"
      "jpr_desired_state (js_projection s) = j_desired_state i" by (rule linked_load_snapshot[OF inv lk(1) reload])
  show ?thesis
    using inv lk(1) tx[folded lk(2)]
  proof (cases rule: request_cancel_tx_Inr)
    case (orphaned j')
    obtain a' r' where lk': "linked new j' a' r'" "j_job_id j' = j_job_id i" by (rule job_linked[OF inv' orphaned(4)])
    obtain s' where s': "load_job_snapshot env new (j_job_id j') = Inr s'"
      "jpr_desired_state (js_projection s') = j_desired_state j'" by (rule linked_load_snapshot[OF inv' lk'(1) reload])
    have "project_snapshot env new job_id = Inr p"
      using in_transaction_Inr[OF transact_Inr[OF ok[unfolded request_cancel_def]]] tx by auto
    then have "jpr_desired_state p = DesiredCancelled"
      using s' lk lk'(2) orphaned(5) by (simp add: project_snapshot_def)
    then show ?thesis
      using run[rule_format, OF orphaned(2), of False] s i lk(2) assms(5,6)
      by (simp add: reconcile_cancel_commit_failure_def Let_def)
  qed (use i assms(5) in auto)
qed

section \<open>Deadlines\<close>

text \<open>
  A deadline never overrides a stop request: for an Attempt that is terminal, whose Job is to be
  cancelled or which already carries a termination intent, the deadline operation succeeds without
  changing anything.
\<close>

theorem deadline_respects_stop:
  assumes reach: "reachable_registry h cfg db" and env: "healthy env"
    and lk: "linked db j a r"
    and stopped: "is_terminal (a_state a) \<or> a_termination_intent a \<noteq> Natural \<or> j_desired_state j = DesiredCancelled"
  shows "request_deadline_termination h env db (a_attempt_id a) at = (Inr (attempt_record a), db)"
proof -
  note inv = full_invD(1)[OF reachable_full_inv[OF reach]]
  have "load_attempt db (a_attempt_id a) = Inr (attempt_record a)" "load_job db (a_job_id a) = Inr j"
    using linked_lookup(1,2)[OF inv lk] lk by (simp_all add: load_attempt_def load_job_eq_Inr linked_def)
  moreover have "is_terminal (a_state a) \<or> a_termination_intent a = DeadlineExceeded
      \<or> a_termination_intent a = StopRequested \<or> j_desired_state j = DesiredCancelled"
    using stopped by (cases "a_termination_intent a") auto
  ultimately have "request_deadline_termination_tx h env (a_attempt_id a) at db
      = Inr (Commit ''cannot close deadline-intent replay'' () db)"
    unfolding request_deadline_termination_tx_def by simp
  then show ?thesis
    using env \<open>load_attempt db (a_attempt_id a) = Inr (attempt_record a)\<close>
    unfolding request_deadline_termination_def healthy_transact[OF env] in_transaction_def healthy_def
    by (simp add: reload_attempt_def)
qed

section \<open>Binding the process\<close>

lemma bind_running_tx_row:
  assumes inv: "reg_inv db" and tx: "bind_running_tx h env aid ver identity db = Inr (Commit c y db')"
  obtains a where "tbl_lookup a_attempt_id (attempts db') aid = Some a"
    and "attempt_runner_identity_matches (attempt_record a) identity" and "a_state a = Running"
  using tx unfolding bind_running_tx_def
  apply -
  apply (erule rbind_InrE)
  subgoal premises prems for rec
  proof -
    obtain j a r where lk: "linked db j a r" and k: "a_attempt_id a = aid" and rec: "rec = attempt_record a"
      and look: "tbl_lookup a_attempt_id (attempts db) aid = Some a" by (rule loaded_attempt[OF inv prems(2)])
    have nm: "\<not> attempt_runner_identity_matches rec identity" using prems(3) by (cases "attempt_runner_identity_matches rec identity") simp_all
    note g = prems(3)[unfolded if_not_P[OF nm], THEN guard_Inr]
    have unit: "a_unit_name a = ri_unit_name identity" using g[THEN conjunct1] rec by simp
    show ?thesis
      using g[THEN conjunct2] unfolding rec attempt_record_sel
      apply -
      apply (erule rbind_pairE, drule guard_Inr, elim conjE rbind_InrE)
      subgoal premises p for n db1 db2
      proof -
        note key = update_attempts_key[OF p(1) reg_inv_keys(2)[OF inv] look]
        note q = if_one[OF key(1) p(2)]
        have "attempts db' = attempts db1" using append_event_attempts[OF p(3)] p(4) by simp
        then show ?thesis
          using prems(1)[of "a\<lparr>a_state := Running, a_boot_id := Some (ri_boot_id identity),
                   a_invocation_id := Some (ri_invocation_id identity),
                   a_control_group := Some (ri_control_group identity),
                   a_main_pid := Some (ri_main_pid identity),
                   a_process_start_identity := Some (ri_process_start_identity identity),
                   a_runner_start_digest := Some (ri_runner_start_digest identity),
                   a_started_at_ms := coalesce (a_started_at_ms a) (ri_observed_at_ms identity),
                   a_row_version := a_row_version a + 1\<rparr>"] key(2) q look k unit
          by (simp add: tbl_lookup_put attempt_runner_identity_matches_def)
      qed
      done
  qed
  done

lemma bind_running_row:
  assumes inv: "reg_inv db" and ok: "bind_running h env db aid ver identity = (Inr rec, db')"
  obtains a where "tbl_lookup a_attempt_id (attempts db') aid = Some a"
    and "attempt_runner_identity_matches (attempt_record a) identity"
proof -
  have run: "transact env ''runner-bind transaction'' db (bind_running_tx h env aid ver identity)
          (\<lambda>now _. reload_attempt env now aid) commit_map_err = (Inr rec, db')"
    using ok unfolding bind_running_def by (auto split: sum.splits)
  from in_transaction_Inr[OF transact_Inr[OF run]] show ?thesis
  proof (elim disjE exE conjE)
    assume tx: "bind_running_tx h env aid ver identity db = Inr (Return rec)" and "db' = db"
    from tx obtain a where "tbl_lookup a_attempt_id (attempts db) aid = Some a"
      "attempt_runner_identity_matches (attempt_record a) identity"
      unfolding bind_running_tx_def
      by (auto elim!: rbind_InrE simp: load_attempt_eq_Inr split: if_splits)
    then show ?thesis using that \<open>db' = db\<close> by blast
  next
    fix ctx y new assume "bind_running_tx h env aid ver identity db = Inr (Commit ctx y new)" "db' = new"
    then show ?thesis using bind_running_tx_row[OF inv] that by metis
  qed (simp_all add: commit_map_err_def)
qed

text \<open>
  Binding a Runner is idempotent: after an acknowledged bind the stored Attempt carries exactly
  that process identity, and binding the same identity again, whatever row version is expected,
  answers with that Attempt and changes nothing.
\<close>

theorem bind_running_idempotent:
  assumes reach: "reachable_registry h cfg db"
    and ok: "bind_running h env db attempt_id version identity = (Inr rec, db')" and env: "healthy env'"
  shows "\<exists>a. tbl_lookup a_attempt_id (attempts db') attempt_id = Some a
     \<and> attempt_runner_identity_matches (attempt_record a) identity
     \<and> bind_running h env' db' attempt_id version' identity = (Inr (attempt_record a), db')"
proof -
  note inv = full_invD(1)[OF reachable_full_inv[OF reach]]
  obtain a where a: "tbl_lookup a_attempt_id (attempts db') attempt_id = Some a"
    "attempt_runner_identity_matches (attempt_record a) identity" by (rule bind_running_row[OF inv ok])
  have "validate_runner_identity identity = Inr ()"
    using ok unfolding bind_running_def by (cases "validate_runner_identity identity") simp_all
  moreover have "bind_running_tx h env' attempt_id version' identity db' = Inr (Return (attempt_record a))"
    using a unfolding bind_running_tx_def by (simp add: load_attempt_def)
  ultimately have "bind_running h env' db' attempt_id version' identity = (Inr (attempt_record a), db')"
    unfolding bind_running_def healthy_transact[OF env] in_transaction_def by simp
  then show ?thesis using a by blast
qed

end
