(* ===== verification/Recovery_Guarantees.thy ===== *)
theory Recovery_Guarantees
  imports Lifecycle_Guarantees
begin

text \<open>
  What recovery, administrative repair and maintenance promise: an orphan is corrected only from the
  state the caller saw and durably, a repair batch commits a clean database or nothing, converging a
  reservation finds nothing to do in a reachable database, the maintenance scan misses no Attempt
  that needs attention, and the recovery condition is set and cleared as recorded.
\<close>

section \<open>Recovering an orphan\<close>

lemma write_recovered_attempt:
  assumes inv: "reg_inv db" and lk: "linked db j a r" and id: "a_attempt_id a = tc_attempt_id request"
    and tx: "write_recovered h env request (attempt_record a) db = Inr db'"
  shows "tbl_lookup a_attempt_id (attempts db') (a_attempt_id a) = Some (terminal_row request a)"
  using tx unfolding write_recovered_def attempt_record_sel
  apply -
  apply (erule rbind_pairE)
  apply (drule guard_Inr, elim conjE)
  apply (erule rbind_InrE, erule rbind_InrE, erule rbind_InrE, erule rbind_pairE, erule rbind_InrE)
  subgoal premises prems for n1 db1 db2 db3 res n4 db4 db5
  proof -
    note l = linked_lookup[OF inv lk] and k = reg_inv_keys[OF inv]
    note key = update_attempts_key[OF prems(1)[folded id] k(2) l(2)]
    have "attempts db1 = tbl_put a_attempt_id (a_attempt_id a) (terminal_row request a) (attempts db)"
      using key(2) if_one[OF key(1) prems(2)] by simp
    moreover have "attempts db2 = attempts db1" using register_artifacts_Inr[OF prems(3)] by simp
    moreover have "attempts db3 = attempts db2" by (rule release_reservation_attempts[OF prems(4)])
    moreover have "attempts db4 = attempts db3" by (rule update_jobs_attempts[OF prems(6)])
    moreover have "attempts db5 = attempts db4" "attempts db' = attempts db5"
      using append_event_attempts[OF prems(7)] append_event_attempts[OF prems(8)] by blast+
    ultimately show ?thesis using l(2) by (simp add: tbl_lookup_put terminal_row_def)
  qed
  done

lemma recover_tx_Inr:
  assumes inv: "reg_inv db" and tx: "recover_orphaned_terminal_tx h env request db = Inr (Commit c y db')"
  obtains j a r where "linked db j a r" and "a_attempt_id a = tc_attempt_id request"
    and "a_state a = Orphaned" and "a_row_version a = tc_expected_row_version request"
    and "tbl_lookup a_attempt_id (attempts db') (tc_attempt_id request) = Some (terminal_row request a)"
  using tx unfolding recover_orphaned_terminal_tx_def
  apply -
  apply (erule rbind_InrE, erule rbind_InrE, erule rbind_InrE)
  apply (drule guard_Inr, elim conjE, drule guard_Inr, elim conjE, erule rbind_InrE)
  subgoal premises prems for rec job res db1
  proof -
    obtain j a r where lk: "linked db j a r" and k: "a_attempt_id a = tc_attempt_id request"
      and rec: "rec = attempt_record a" by (rule loaded_attempt[OF inv prems(2)])
    show ?thesis
      using prems(1)[OF lk k] prems(5-8) rec write_recovered_attempt[OF inv lk k] k by simp
  qed
  done

text \<open>
  C33. An acknowledged orphan recovery replaced an orphaned Attempt, at the row version the caller
  named, by the recovered result: the Job is resolved by it and the held capacity is released.
\<close>

theorem orphan_recovery_durable:
  assumes reach: "reachable_registry h cfg db"
    and ok: "recover_orphaned_terminal h env db request = (Inr p, db')"
  shows "(\<exists>j a r. linked db j a r \<and> a_attempt_id a = tc_attempt_id request \<and> a_state a = Orphaned
       \<and> j_resolution j = Some ResOrphaned \<and> a_row_version a = tc_expected_row_version request)
     \<and> (\<exists>j a r. linked db' j a r \<and> a_attempt_id a = tc_attempt_id request \<and> a_state a = tc_state request
       \<and> a_result_digest a = Some (tc_result_digest request)
       \<and> map_option resolution_state (j_resolution j) = Some (tc_state request)
       \<and> conclusive (the (j_resolution j)) = (tc_state request \<noteq> Lost) \<and> r_state r = Released)"
proof -
  note inv = full_invD(1)[OF reachable_full_inv[OF reach]]
  have t: "tc_state request \<in> {Succeeded, Failed, TimedOut, Cancelled, Lost}"
    and run: "transact env ''orphan recovery transaction'' db (recover_orphaned_terminal_tx h env request)
          (\<lambda>now job_id. project_snapshot env now job_id) commit_map_err = (Inr p, db')"
    using ok unfolding recover_orphaned_terminal_def by (auto split: if_splits sum.splits)
  have no_return: "recover_orphaned_terminal_tx h env request db \<noteq> Inr (Return x)" for x
    unfolding recover_orphaned_terminal_tx_def by (auto split: if_splits elim!: rbind_InrE)
  obtain c y where tx: "recover_orphaned_terminal_tx h env request db = Inr (Commit c y db')"
    using in_transaction_Inr[OF transact_Inr[OF run]] no_return by (auto simp: commit_map_err_def)
  obtain j a r where old: "linked db j a r" "a_attempt_id a = tc_attempt_id request" "a_state a = Orphaned"
    "a_row_version a = tc_expected_row_version request"
    and new: "tbl_lookup a_attempt_id (attempts db') (tc_attempt_id request) = Some (terminal_row request a)"
    by (rule recover_tx_Inr[OF inv tx])
  have jr: "j_resolution j = Some ResOrphaned"
    using wf_view_cases(1,2)[OF linked_wf[OF inv old(1)]] old(3) resolution_state_orphaned(1)
    by (cases "j_resolution j") (auto dest: sym)
  have "registry_step h cfg db db'" using rs_recover[of h cfg db env request] ok by simp
  then have inv': "reg_inv db'" using registry_runs.inv_step[OF reachable_full_inv[OF reach]] full_invD(1) by blast
  obtain j' r' where lk': "linked db' j' (terminal_row request a) r'" by (rule attempt_linked[OF inv' new])
  note wf = wf_view_cases[OF linked_wf[OF inv' lk']]
  have st: "a_state (terminal_row request a) = tc_state request" "a_attempt_id (terminal_row request a) = tc_attempt_id request"
    "a_result_digest (terminal_row request a) = Some (tc_result_digest request)"
    using old(2) by (simp_all add: terminal_row_def)
  obtain res where res: "j_resolution j' = Some res" "tc_state request = resolution_state res"
    using wf(1,2) st(1) t by (cases "j_resolution j'") auto
  then have "conclusive res = (tc_state request \<noteq> Lost)" using t by (cases res) (auto simp: conclusive_def)
  moreover have "r_state r' = Released" using wf(3) st(1) t by (auto simp: terminal_reservation_def)
  ultimately show ?thesis using old jr lk' st res by (metis option.map_sel option.sel option.simps(9))
qed

section \<open>Administrative repair\<close>

lemma repair_batch_tx_clean:
  "repair_admin_batch_tx h env operations db = Inr (Commit c y db') \<Longrightarrow> inspect_runtime_invariants db' = []"
  unfolding repair_admin_batch_tx_def Let_def by (auto elim!: rbind_InrE split: if_splits)

text \<open>
  A repair batch commits a clean database or nothing at all.  From any database, also one that
  violates the invariants: if the batch is acknowledged, or if it changed anything, the inspection
  of the resulting database is empty; a refused batch whose commit did not fail left the database
  untouched.
\<close>

lemma repair_batch_all_or_nothing:
  assumes "repair_admin_batch h env db operations = (answer, db')"
  shows "(answer = Inr () \<or> db' \<noteq> db \<longrightarrow> inspect_runtime_invariants db' = [])
     \<and> (answer \<noteq> Inr () \<and> te_commit env = CommitDone \<longrightarrow> db' = db)"
proof -
  let ?tx = "repair_admin_batch_tx h env operations"
  have run: "transact env ''administrative Runtime repair batch'' db ?tx (\<lambda>now _. Inr ()) commit_map_err = (answer, db')"
    using assms unfolding repair_admin_batch_def .
  have no_return: "?tx db \<noteq> Inr (Return x)" for x
    unfolding repair_admin_batch_tx_def Let_def by (auto split: if_splits elim!: rbind_InrE)
  have "db' = db \<or> (\<exists>c y. ?tx db = Inr (Commit c y db'))"
    using transact_db[of env "''administrative Runtime repair batch''" db ?tx "\<lambda>now _. Inr ()" commit_map_err] run by simp
  moreover have "\<exists>c y. ?tx db = Inr (Commit c y db')" if "answer = Inr ()"
    using in_transaction_Inr[OF transact_Inr[OF run[unfolded that]]] no_return by (auto simp: commit_map_err_def)
  moreover have "db' = db" if "answer \<noteq> Inr ()" "te_commit env = CommitDone"
    using run that no_return unfolding transact_def in_transaction_def
    by (auto split: sum.splits tx_end.splits)
  ultimately show ?thesis using repair_batch_tx_clean by blast
qed

section \<open>Converging reservations\<close>

text \<open>
  In a reachable database there is nothing to converge: the operation answers that nothing
  changed for every terminal Attempt, refuses a live one, and never writes.
\<close>

theorem converge_finds_nothing:
  assumes reach: "reachable_registry h cfg db" and lk: "linked db j a r" and env: "open_connection env = Inr ()"
  shows "converge_terminal_reservation h env db (a_attempt_id a) at =
     (if is_terminal (a_state a) then Inr False
      else Inl (error_new ReconciliationRequired
             ''Attempt is not terminal while repairing terminal reservation'' (Some ''attemptId'') False), db)"
proof -
  note inv = full_invD(1)[OF reachable_full_inv[OF reach]]
  note wf = wf_view_cases[OF linked_wf[OF inv lk]] and l = linked_lookup[OF inv lk]
  have aj: "a_job_id a = j_job_id j" using lk by (simp add: linked_def)
  have load: "load_attempt db (a_attempt_id a) = Inr (attempt_record a)" "load_job db (a_job_id a) = Inr j"
    "load_reservation db (a_attempt_id a) = Inr (reservation_record r)"
    using l aj by (simp_all add: load_attempt_def load_job_eq_Inr load_reservation_def)
  have target: "terminal_reservation_target (attempt_record a) j = Inr (r_state r)" if t: "is_terminal (a_state a)"
  proof -
    obtain res where "j_resolution j = Some res" using wf(1) t by (cases "j_resolution j") auto
    moreover have "resolution_for_state (resolution_state res) = Inr res" for res
      by (simp add: resolution_for_state_terminal(2))
    ultimately show ?thesis using wf(2,3) t
      by (auto simp: terminal_reservation_target_def terminal_reservation_def)
  qed
  have live: "terminal_reservation_target (attempt_record a) j = Inl (error_new ReconciliationRequired
             ''Attempt is not terminal while repairing terminal reservation'' (Some ''attemptId'') False)"
    if "\<not> is_terminal (a_state a)"
    using that by (simp add: terminal_reservation_target_def)
  show ?thesis
    unfolding converge_terminal_reservation_def converge_target_def env
    by (cases "is_terminal (a_state a)") (simp_all add: load target live)
qed

section \<open>Maintenance\<close>

lemma reachable_held:
  assumes "reachable_registry h cfg db" and "a \<in> set (attempts db)"
  shows "held_orphaned db a \<longleftrightarrow> a_state a = Orphaned"
proof -
  note inv = full_invD(1)[OF reachable_full_inv[OF assms(1)]]
  obtain j r where lk: "linked db j a r" by (rule attempt_row_linked[OF inv assms(2)])
  show ?thesis
    using linked_lookup(3)[OF inv lk] wf_view_cases(3)[OF linked_wf[OF inv lk]]
    by (auto simp: held_orphaned_def terminal_reservation_def)
qed

text \<open>
  C34. The maintenance scan is bounded and complete: it returns at most \<open>limit\<close> Attempts, each of them
  live, orphaned or with an active recovery condition, those with a recovery condition first, then
  the orphaned ones; and when no more than \<open>limit\<close> Attempts qualify it returns all of them.
\<close>

theorem maintenance_scan_complete:
  assumes reach: "reachable_registry h cfg db" and scan: "list_maintenance_attempts_bounded env db limit = Inr found"
  shows "\<exists>rows. found = map attempt_record rows \<and> length rows \<le> limit \<and> distinct (map a_attempt_id rows)
     \<and> sorted (map (maintenance_class db) rows)
     \<and> set rows \<subseteq> {a \<in> set (attempts db). \<not> is_terminal (a_state a) \<or> a_state a = Orphaned \<or> recovery_active a}
     \<and> (tbl_count (\<lambda>a. \<not> is_terminal (a_state a) \<or> a_state a = Orphaned \<or> recovery_active a) (attempts db) \<le> limit
        \<longrightarrow> set rows = {a \<in> set (attempts db). \<not> is_terminal (a_state a) \<or> a_state a = Orphaned \<or> recovery_active a})"
proof -
  define P where "P = (\<lambda>a :: attempt_row. \<not> is_terminal (a_state a) \<or> a_state a = Orphaned \<or> recovery_active a)"
  define key where "key = (\<lambda>a :: attempt_row. (maintenance_class db a, a_created_at_ms a, a_attempt_id a))"
  define all where "all = sort_key key (filter P (attempts db))"
  have "filter (\<lambda>a. \<not> is_terminal (a_state a) \<or> held_orphaned db a \<or> recovery_active a) (attempts db) = filter P (attempts db)"
    using reachable_held[OF reach] unfolding P_def by (intro filter_cong) auto
  then have found: "found = map attempt_record (take limit all)"
    using scan unfolding list_maintenance_attempts_bounded_def all_def key_def
    by (auto split: if_splits elim!: rbind_InrE)
  have inv: "distinct (map a_attempt_id (attempts db))"
    by (rule reg_inv_keys(2)[OF full_invD(1)[OF reachable_full_inv[OF reach]]])
  have "distinct (map a_attempt_id all)"
    using inv by (simp add: all_def distinct_map distinct_filter inj_on_def)
  then have dist: "distinct (map a_attempt_id (take limit all))"
    by (metis distinct_take take_map)
  have "sorted (map key all)" unfolding all_def by simp
  then have "sorted (map (maintenance_class db) all)"
    unfolding sorted_map by (rule sorted_wrt_mono_rel[rotated]) (auto simp: key_def)
  then have srt: "sorted (map (maintenance_class db) (take limit all))" by (metis sorted_wrt_take take_map)
  have sub: "set (take limit all) \<subseteq> {a \<in> set (attempts db). P a}"
    using set_take_subset[of limit all] by (auto simp: all_def)
  have full: "set (take limit all) = {a \<in> set (attempts db). P a}" if "tbl_count P (attempts db) \<le> limit"
    using that by (auto simp: all_def tbl_count_def)
  show ?thesis
    using found dist srt sub full unfolding P_def by (intro exI[of _ "take limit all"]) auto
qed

section \<open>The recovery condition\<close>

lemma record_tx_row:
  assumes inv: "reg_inv db" and tx: "record_reconciliation_failure_tx h env aid error at db = Inr (Commit c y db')"
  obtains a where "tbl_lookup a_attempt_id (attempts db') aid = Some a"
    and "a_recovery a = Some \<lparr>rc_required = True, rc_reason_code = error_code_as_str (err_code error),
           rc_evidence_digest = failure_evidence h aid error, rc_observed_at_ms = at\<rparr>"
  using tx unfolding record_reconciliation_failure_tx_def
  apply -
  apply (erule rbind_InrE, erule rbind_pairE, erule rbind_InrE)
  subgoal premises prems for rec n db1 db2
  proof -
    obtain j a r where k: "a_attempt_id a = aid" and rec: "rec = attempt_record a"
      and look: "tbl_lookup a_attempt_id (attempts db) aid = Some a" by (rule loaded_attempt[OF inv prems(2)])
    have "a_attempt_id rec = aid" using rec k by simp
    note one = update_attempts_one[OF prems(3)[unfolded this] reg_inv_keys(2)[OF inv] look]
    have "attempts db' = attempts db1" using append_event_attempts[OF prems(4)] prems(5) by simp
    then have "tbl_lookup a_attempt_id (attempts db') aid = Some (a\<lparr>a_recovery := Some \<lparr>rc_required = True,
        rc_reason_code = error_code_as_str (err_code error), rc_evidence_digest = failure_evidence h aid error,
        rc_observed_at_ms = at\<rparr>\<rparr>)"
      using one look k by (simp add: tbl_lookup_put)
    then show ?thesis by (rule prems(1)) simp
  qed
  done

lemma clear_tx_row:
  assumes inv: "reg_inv db" and tx: "clear_reconciliation_failure_tx h env aid at db = Inr (Commit c y db')"
  shows "\<not> attempt_recovery_condition_active db' aid"
  using tx unfolding clear_reconciliation_failure_tx_def
  apply -
  apply (erule rbind_InrE, erule rbind_pairE, erule rbind_InrE)
  subgoal premises prems for rec n db1 db2
  proof -
    obtain j a r where k: "a_attempt_id a = aid" and look: "tbl_lookup a_attempt_id (attempts db) aid = Some a"
      by (rule loaded_attempt[OF inv prems(1)])
    note key = update_attempts_key(2)[OF prems(2) reg_inv_keys(2)[OF inv] look]
    have "attempts db' = attempts db1" using prems(3,4) append_event_attempts by (auto split: if_splits)
    then show ?thesis using key look k
      by (cases "a_recovery a") (auto simp: tbl_lookup_put attempt_recovery_condition_active_def recovery_active_def)
  qed
  done

text \<open>
  The recovery condition follows what is recorded: after an acknowledged record the condition of
  the Attempt is active, recording the same failure again changes nothing (no second event), and an
  acknowledged clear deactivates it.
\<close>

theorem recovery_condition_follows_record:
  assumes reach: "reachable_registry h cfg db" and env: "healthy env'"
    and recorded: "record_reconciliation_failure h env db attempt error at = (Inr (), db')"
  shows "attempt_recovery_condition_active db' (a_attempt_id attempt)
     \<and> record_reconciliation_failure h env' db' attempt error at' = (Inr (), db')
     \<and> (\<forall>db''. clear_reconciliation_failure h env' db' (a_attempt_id attempt) at' = (Inr (), db'')
          \<longrightarrow> \<not> attempt_recovery_condition_active db'' (a_attempt_id attempt))"
proof -
  let ?k = "a_attempt_id attempt"
  note inv = full_invD(1)[OF reachable_full_inv[OF reach]]
  have "registry_step h cfg db db'" using rs_record_failure[of h cfg db env attempt error at] recorded by simp
  then have inv': "reg_inv db'" using registry_runs.inv_step[OF reachable_full_inv[OF reach]] full_invD(1) by blast
  have no_return: "record_reconciliation_failure_tx h env ?k error at db \<noteq> Inr (Return x)" for x
    unfolding record_reconciliation_failure_tx_def by (auto elim!: rbind_InrE)
  have "\<exists>a rc. tbl_lookup a_attempt_id (attempts db') ?k = Some a \<and> a_recovery a = Some rc \<and> rc_required rc
      \<and> rc_reason_code rc = error_code_as_str (err_code error) \<and> rc_evidence_digest rc = failure_evidence h ?k error"
  proof (cases "db' = db \<and> (case Option.bind (tbl_lookup a_attempt_id (attempts db) ?k) a_recovery of None \<Rightarrow> False | Some rc \<Rightarrow>
               rc_required rc \<and> rc_reason_code rc = error_code_as_str (err_code error)
               \<and> rc_evidence_digest rc = failure_evidence h ?k error)")
    case True
    then show ?thesis by (auto split: option.splits bind_splits)
  next
    case False
    then have "in_transaction env db (record_reconciliation_failure_tx h env ?k error at) (\<lambda>now _. Inr ()) commit_map_err
        = (Inr (), db')"
      using recorded unfolding record_reconciliation_failure_def Let_def by (auto split: sum.splits if_splits)
    from in_transaction_Inr[OF this] no_return obtain c y
      where tx: "record_reconciliation_failure_tx h env ?k error at db = Inr (Commit c y db')"
      by (auto simp: commit_map_err_def)
    show ?thesis by (rule record_tx_row[OF inv tx]) auto
  qed
  then obtain a rc where a: "tbl_lookup a_attempt_id (attempts db') ?k = Some a" "a_recovery a = Some rc" "rc_required rc"
    "rc_reason_code rc = error_code_as_str (err_code error)" "rc_evidence_digest rc = failure_evidence h ?k error" by blast
  have opened: "open_connection env' = Inr ()" using env by (simp add: healthy_def open_connection_def)
  have active: "attempt_recovery_condition_active db' ?k" using a by (simp add: attempt_recovery_condition_active_def)
  have "record_reconciliation_failure h env' db' attempt error at' = (Inr (), db')"
    unfolding record_reconciliation_failure_def opened using a by simp
  moreover have "\<not> attempt_recovery_condition_active db'' ?k"
    if c: "clear_reconciliation_failure h env' db' ?k at' = (Inr (), db'')" for db''
  proof -
    have "in_transaction env' db' (clear_reconciliation_failure_tx h env' ?k at') (\<lambda>now _. Inr ()) commit_map_err = (Inr (), db'')"
      using c active opened unfolding clear_reconciliation_failure_def by (auto split: sum.splits)
    moreover have "clear_reconciliation_failure_tx h env' ?k at' db' \<noteq> Inr (Return x)" for x
      unfolding clear_reconciliation_failure_tx_def by (auto elim!: rbind_InrE)
    ultimately obtain ctx y where "clear_reconciliation_failure_tx h env' ?k at' db' = Inr (Commit ctx y db'')"
      using in_transaction_Inr by (fastforce simp: commit_map_err_def)
    then show ?thesis by (rule clear_tx_row[OF inv'])
  qed
  ultimately show ?thesis using active by blast
qed

end
