(* ===== verification/Validation_Guarantees.thy ===== *)
theory Validation_Guarantees
  imports Registry_Admission
begin

text \<open>
  What a request that passes \<open>validate_submit\<close> satisfies: the facts the runner and the rest of
  admission rely on without checking them again.
\<close>

lemma for_each_Inr: "for_each f xs = Inr () \<Longrightarrow> x \<in> set xs \<Longrightarrow> f x = Inr ()"
  by (induction xs) (auto elim!: rbind_InrE)

lemma validate_submit_parts:
  assumes "validate_submit h request = Inr ()"
  shows "submit_identity_checks request = Inr ()" "submit_provider_check request = Inr ()"
    "submit_host_dependency_check request = Inr ()" "submit_release_check request = Inr ()"
    "submit_path_checks (sr_plan request) = Inr ()" "submit_inputs_check h (sr_plan request) = Inr ()"
    "submit_limit_checks h (sr_plan request) = Inr ()"
  using assms unfolding validate_submit_def by (auto elim!: rbind_InrE)

section \<open>Paths and limits\<close>


section \<open>Immutable inputs\<close>

lemma effective_inputs_loop_sound:
  assumes "effective_inputs_loop plan index seen inputs = Inr ()"
  shows "(\<forall>i \<in> set inputs. only_normal_components (ei_presentation_relative_path i)
            \<and> only_normal_components (ei_relative_object i) \<and> valid_sha256_text (ei_digest i)
            \<and> (\<forall>p \<in> set seen. \<not> presentation_overlap (ei_presentation_relative_path i) p))
     \<and> sorted_wrt (\<lambda>a b. \<not> presentation_overlap b a) (map ei_presentation_relative_path inputs)"
  using assms
proof (induction plan index seen inputs rule: effective_inputs_loop.induct)
  case (2 plan index seen input inputs)
  have one: "validate_effective_input plan index seen input = Inr ()"
    and rest: "effective_inputs_loop plan (index + 1) (seen @ [ei_presentation_relative_path input]) inputs = Inr ()"
    using 2(2) by (auto elim!: rbind_InrE)
  have "only_normal_components (ei_presentation_relative_path input)" "only_normal_components (ei_relative_object input)"
    "valid_sha256_text (ei_digest input)"
    "\<forall>p \<in> set seen. \<not> presentation_overlap (ei_presentation_relative_path input) p"
    using one unfolding validate_effective_input_def
    by (auto elim!: rbind_InrE simp: validate_digest_def list_ex_iff split: if_splits)
  with 2(1)[OF rest] show ?case by auto
qed simp

lemma presentation_overlap_sym: "presentation_overlap a b \<Longrightarrow> presentation_overlap b a"
  by (auto simp: presentation_overlap_def)

text \<open>
  The immutable inputs of an accepted request cannot shadow each other: every input has a digest
  and relative paths of normal components only, and no two presentation paths are equal or contain
  one another.
\<close>

theorem accepted_inputs_disjoint:
  assumes "validate_submit h request = Inr ()"
    and "inputs = p_effective_inputs (sr_plan request)" and "m < length inputs" and "n < length inputs"
    and "m \<noteq> n"
  shows "only_normal_components (ei_presentation_relative_path (inputs ! m))
     \<and> only_normal_components (ei_relative_object (inputs ! m)) \<and> valid_sha256_text (ei_digest (inputs ! m))
     \<and> \<not> presentation_overlap (ei_presentation_relative_path (inputs ! m)) (ei_presentation_relative_path (inputs ! n))"
proof -
  have "effective_inputs_loop (sr_plan request) 0 [] inputs = Inr ()"
    using validate_submit_parts(6)[OF assms(1)] assms(2) unfolding submit_inputs_check_def
    by (auto elim!: rbind_InrE)
  note s = effective_inputs_loop_sound[OF this]
  have "\<not> presentation_overlap (map ei_presentation_relative_path inputs ! b) (map ei_presentation_relative_path inputs ! a)"
    if "a < b" "b < length inputs" for a b
    using s that sorted_wrt_nth_less[of _ "map ei_presentation_relative_path inputs" a b] by auto
  then have "\<not> presentation_overlap (ei_presentation_relative_path (inputs ! m)) (ei_presentation_relative_path (inputs ! n))"
    using assms(3-5) presentation_overlap_sym by (cases "m < n") (auto simp: not_less)
  then show ?thesis using s assms(3) nth_mem by blast
qed

section \<open>Host Dependencies\<close>

lemma host_dependency_loop_sound:
  assumes "host_dependency_loop field index previous bindings = Inr ()"
  shows "(\<forall>b \<in> set bindings. path_is_absolute (hd_path b) \<and> \<not> contains_nul (hd_path b)
            \<and> valid_sha256_text (hd_expected_digest b) \<and> (\<forall>p. previous = Some p \<longrightarrow> p < hd_path b))
     \<and> sorted_wrt (<) (map hd_path bindings)"
  using assms
proof (induction bindings arbitrary: index previous)
  case (Cons b bindings)
  have here: "path_is_absolute (hd_path b)" "\<not> contains_nul (hd_path b)" "valid_sha256_text (hd_expected_digest b)"
    "\<forall>p. previous = Some p \<longrightarrow> p < hd_path b"
    and rest: "host_dependency_loop field (index + 1) (Some (hd_path b)) bindings = Inr ()"
    using Cons.prems by (auto simp: Let_def validate_digest_def elim!: rbind_InrE split: if_splits option.splits)
  from Cons.IH[OF rest] here show ?case by (auto dest: order_less_trans)
qed simp

text \<open>
  The Host Dependencies of an accepted request are listed once each, in strictly increasing path
  order, absolute and bound to a SHA-256 digest; and only a trusted local Linux execution by a
  committed local Runner, which is not a Runtime Release, may carry any.
\<close>

theorem accepted_host_dependencies:
  assumes "validate_submit h request = Inr ()"
  shows "sorted_wrt (<) (map hd_path (sr_host_dependencies request))
     \<and> (\<forall>b \<in> set (sr_host_dependencies request). path_is_absolute (hd_path b) \<and> valid_sha256_text (hd_expected_digest b))
     \<and> (sr_host_dependencies request \<noteq> [] \<longrightarrow>
          p_execution_target (sr_plan request) = LocalLinux \<and> p_execution_profile (sr_plan request) = TrustedLocal
          \<and> sr_runtime_release_effect request = None \<and> provider_contract_is request LocalLinuxRunnerV1)"
proof -
  have "host_dependency_loop ''hostDependencies'' 0 None (sr_host_dependencies request) = Inr ()"
    and rest: "sr_host_dependencies request \<noteq> [] \<longrightarrow>
          p_execution_target (sr_plan request) = LocalLinux \<and> p_execution_profile (sr_plan request) = TrustedLocal
          \<and> sr_runtime_release_effect request = None \<and> provider_contract_is request LocalLinuxRunnerV1"
    using validate_submit_parts(3)[OF assms]
    unfolding submit_host_dependency_check_def validate_host_dependency_bindings_def
    by (auto elim!: rbind_InrE split: if_splits)
  from host_dependency_loop_sound[OF this(1)] rest show ?thesis by blast
qed

section \<open>Preparation\<close>

text \<open>
  Nothing can go wrong between validation and the transaction: for an accepted request the
  operation digest is defined, so preparing the admission succeeds, and its branches that reject a
  combination of bindings are unreachable.
\<close>

theorem accepted_request_prepares:
  assumes "validate_submit h request = Inr ()"
  shows "\<exists>pa. prepare_admission h cfg request ids at = Inr pa"
proof -
  note v = validate_submit_parts[OF assms]
  have deps: "sr_host_dependencies request \<noteq> [] \<longrightarrow>
      sr_runtime_release_effect request = None \<and> sr_execution_provider request \<noteq> None"
    using v(3) unfolding submit_host_dependency_check_def provider_contract_is_def
    by (auto elim!: rbind_InrE split: if_splits)
  have rel: "sr_runtime_release_effect request \<noteq> None \<longrightarrow> sr_execution_provider request \<noteq> None"
    using v(4) unfolding submit_release_check_def validate_runtime_release_effect_binding_def
      validate_release_target_def provider_contract_is_def
    by (auto elim!: rbind_InrE simp: Let_def split: option.splits ExecutionTarget.splits if_splits)
  have "\<exists>d. operation_digest_for h rd pd (map_option sd_digest (side_row_of h job (map_option (h_provider_print h) (sr_execution_provider request))))
      (map_option sd_digest (side_row_of h job (if sr_host_dependencies request = [] then None
         else Some (h_host_dependencies_print h (sr_host_dependencies request)))))
      (map_option rw_binding_digest (release_row_of h job (sr_runtime_release_effect request))) = Inr d" for rd pd job
    using deps rel
    by (cases "sr_execution_provider request"; cases "sr_runtime_release_effect request"; cases "sr_host_dependencies request = []")
      (simp_all add: operation_digest_for_def side_row_of_def release_row_of_def)
  then show ?thesis unfolding prepare_admission_def Let_def by (simp add: rbind_eq_Inr)
qed

end
