(* ===== verification/Registry_Query.thy ===== *)
theory Registry_Query
  imports Registry_Admission
begin

text \<open>
  The read operations of the registry (\<open>runtime/registry/query.rs\<close>): single rows, the bindings a Job
  was admitted with, each checked against the digests the Job commits to, the Jobs and Attempts of a
  Workspace, and the paged Job list.  They read one database and change nothing.
\<close>

section \<open>Single rows\<close>

definition get_job :: "sql_env \<Rightarrow> registry \<Rightarrow> string \<Rightarrow> RuntimeJobRecord result" where
  "get_job env db job_id = rbind (open_connection env) (\<lambda>_. load_job db job_id)"

definition get_attempt :: "sql_env \<Rightarrow> registry \<Rightarrow> string \<Rightarrow> AttemptRecord result" where
  "get_attempt env db attempt_id = rbind (open_connection env) (\<lambda>_. load_attempt db attempt_id)"

definition get_reservation :: "sql_env \<Rightarrow> registry \<Rightarrow> string \<Rightarrow> ReservationRecord result" where
  "get_reservation env db attempt_id = rbind (open_connection env) (\<lambda>_. load_reservation db attempt_id)"

definition get_latest_attempt :: "sql_env \<Rightarrow> registry \<Rightarrow> string \<Rightarrow> AttemptRecord option result" where
  "get_latest_attempt env db job_id =
     rbind (open_connection env) (\<lambda>_.
     transpose_result (map_option (load_attempt db) (latest_attempt_id db job_id)))"

definition get_artifact :: "sql_env \<Rightarrow> registry \<Rightarrow> string \<Rightarrow> string \<Rightarrow> RuntimeArtifactRecord result" where
  "get_artifact env db job_id artifact_id =
     rbind (open_connection env) (\<lambda>_.
     ok_or (find (\<lambda>a. art_job_id a = job_id \<and> art_artifact_id a = artifact_id) (artifacts db))
       (error_new ArtifactIdentityConflict ''Artifact not found for Job'' (Some ''artifactId'') False))"

definition job_snapshot :: "sql_env \<Rightarrow> registry \<Rightarrow> string \<Rightarrow> JobSnapshot result" where
  "job_snapshot env db job_id = rbind (open_connection env) (\<lambda>_. load_job_snapshot env db job_id)"

definition list_artifacts :: "sql_env \<Rightarrow> registry \<Rightarrow> string \<Rightarrow> RuntimeArtifactRecord list result" where
  "list_artifacts env db job_id =
     rbind (open_connection env) (\<lambda>_.
     Inr (sort_key (\<lambda>a. (art_created_at_ms a, art_artifact_id a))
            (filter (\<lambda>a. art_job_id a = job_id) (artifacts db))))"

definition registry_corrupt :: "string \<Rightarrow> string \<Rightarrow> RuntimeError" where
  "registry_corrupt message field = error_new RegistryCorrupt message (Some field) False"

definition parse_execution_plan :: "host \<Rightarrow> RuntimeJobRecord \<Rightarrow> RuntimeExecutionPlan result" where
  "parse_execution_plan h job =
     map_err (\<lambda>error. registry_corrupt (''stored execution plan is invalid: '' @ error) ''executionPlan'')
       (h_plan_parse h (j_execution_plan_json job))"

definition execution_plan :: "host \<Rightarrow> sql_env \<Rightarrow> registry \<Rightarrow> string \<Rightarrow> RuntimeExecutionPlan result" where
  "execution_plan h env db job_id = rbind (get_job env db job_id) (parse_execution_plan h)"

section \<open>Committed bindings\<close>

definition stored_workspace_snapshot :: "host \<Rightarrow> RuntimeJobRecord \<Rightarrow> json result" where
  "stored_workspace_snapshot h job =
     map_err (\<lambda>error. registry_corrupt (''stored Workspace snapshot is invalid: '' @ error) ''workspaceSnapshot'')
       (h_json_parse h (j_workspace_snapshot_json job))"

text \<open>The digest under \<open>key\<close> of the Job's Workspace snapshot, which commits to a binding called \<open>label\<close>.\<close>

definition committed_digest :: "json \<Rightarrow> string \<Rightarrow> string \<Rightarrow> string option result" where
  "committed_digest snapshot key label =
     (case json_get snapshot key of
        None \<Rightarrow> Inr None
      | Some (JString digest) \<Rightarrow>
          if \<not> is_ok (validate_digest digest key)
          then Inl (registry_corrupt (''stored '' @ label @ '' commitment digest is invalid'')
                 (''workspaceSnapshot.'' @ key))
          else Inr (Some digest)
      | Some _ \<Rightarrow> Inl (registry_corrupt (''stored '' @ label @ '' commitment digest is not text'')
             (''workspaceSnapshot.'' @ key)))"

text \<open>The commitment against the stored row: both absent, or both present with the same digest.\<close>

definition matched_row ::
  "string \<Rightarrow> string \<Rightarrow> string \<Rightarrow> ('r \<Rightarrow> string) \<Rightarrow> string option \<Rightarrow> 'r option \<Rightarrow> 'r option result" where
  "matched_row label missing field digest_of committed row =
     (case (committed, row) of
        (None, None) \<Rightarrow> Inr None
      | (None, Some _) \<Rightarrow>
          Inl (registry_corrupt (label @ '' row exists without a committed Job marker'') field)
      | (Some _, None) \<Rightarrow> Inl (registry_corrupt (''committed '' @ missing @ '' row is missing'') field)
      | (Some c, Some r) \<Rightarrow>
          if c = digest_of r then Inr (Some r)
          else Inl (registry_corrupt (label @ '' row digest does not match the Job commitment'') field))"

definition host_dependency_row :: "registry \<Rightarrow> string \<Rightarrow> json \<Rightarrow> side_row option result" where
  "host_dependency_row db job_id snapshot =
     rbind (committed_digest snapshot ''hostDependenciesDigest'' ''Host Dependency'') (\<lambda>committed.
     matched_row ''Host Dependency'' ''Host Dependency'' ''hostDependencies'' sd_digest committed
       (tbl_lookup sd_job_id (host_dependency_rows db) job_id))"

definition release_effect_row :: "registry \<Rightarrow> string \<Rightarrow> json \<Rightarrow> release_row option result" where
  "release_effect_row db job_id snapshot =
     rbind (committed_digest snapshot ''runtimeReleaseEffectDigest'' ''Runtime Release'') (\<lambda>committed.
     matched_row ''Runtime Release'' ''Runtime Release'' ''runtimeReleaseEffect'' rw_binding_digest committed
       (tbl_lookup rw_job_id (release_rows db) job_id))"

text \<open>The operation digest a Job with an execution provider must have.\<close>

definition expected_operation_digest ::
  "host \<Rightarrow> RuntimeJobRecord \<Rightarrow> string \<Rightarrow> string option \<Rightarrow> string option \<Rightarrow> string result" where
  "expected_operation_digest h job provider_digest host_digest release_digest =
     (case (host_digest, release_digest) of
        (Some host_digest, None) \<Rightarrow> Inr (sha256_bytes h (nul_join [''runtime-operation-v6'',
          j_request_digest job, j_execution_plan_digest job, provider_digest, host_digest]))
      | (None, Some release_digest) \<Rightarrow> Inr (sha256_bytes h (nul_join [''runtime-operation-v5'',
          j_request_digest job, j_execution_plan_digest job, provider_digest, release_digest]))
      | (None, None) \<Rightarrow> Inr (sha256_bytes h (nul_join [''runtime-operation-v4'',
          j_request_digest job, j_execution_plan_digest job, provider_digest]))
      | (Some _, Some _) \<Rightarrow> Inl (registry_corrupt
          ''Job cannot bind both Host Dependencies and Runtime Release side truth'' ''hostDependencies''))"

definition parse_provider :: "host \<Rightarrow> string \<Rightarrow> ExecutionProviderSnapshot result" where
  "parse_provider h text =
     rbind (map_err (\<lambda>error. registry_corrupt
                (''stored execution provider snapshot is invalid: '' @ error) ''executionProvider'')
              (h_provider_parse h text)) (\<lambda>snapshot.
     rbind (map_err (\<lambda>error. registry_corrupt
                (''stored execution provider snapshot violates its contract: '' @ error_display error) ''executionProvider'')
              (validate_execution_provider_snapshot snapshot ''executionProvider'')) (\<lambda>_.
     Inr snapshot))"

definition execution_provider ::
  "host \<Rightarrow> sql_env \<Rightarrow> registry \<Rightarrow> string \<Rightarrow> ExecutionProviderSnapshot option result" where
  "execution_provider h env db job_id =
     rbind (open_connection env) (\<lambda>_.
     rbind (load_job db job_id) (\<lambda>job.
     rbind (stored_workspace_snapshot h job) (\<lambda>snapshot.
     rbind (committed_digest snapshot ''executionProviderDigest'' ''execution provider'') (\<lambda>committed.
     rbind (host_dependency_row db job_id snapshot) (\<lambda>host_row.
     rbind (release_effect_row db job_id snapshot) (\<lambda>release_row.
     rbind (matched_row ''execution provider'' ''Job execution provider'' ''executionProvider'' sd_digest committed
              (tbl_lookup sd_job_id (execution_providers db) job_id)) (\<lambda>row.
     case row of
       None \<Rightarrow> Inr None
     | Some provider_row \<Rightarrow>
         rbind (expected_operation_digest h job (sd_digest provider_row) (map_option sd_digest host_row)
                  (map_option rw_binding_digest release_row)) (\<lambda>expected.
         if j_operation_digest job \<noteq> expected
         then Inl (registry_corrupt
                ''execution provider commitment does not match the Job operation identity'' ''executionProvider'')
         else if sha256_bytes h (sd_json provider_row) \<noteq> sd_digest provider_row
         then Inl (registry_corrupt
                ''stored execution provider snapshot digest does not match its bytes'' ''executionProvider'')
         else rbind (parse_provider h (sd_json provider_row)) (\<lambda>provider. Inr (Some provider))))))))))"

definition host_dependencies :: "host \<Rightarrow> sql_env \<Rightarrow> registry \<Rightarrow> string \<Rightarrow> HostDependencyBinding list result" where
  "host_dependencies h env db job_id =
     rbind (open_connection env) (\<lambda>_.
     rbind (load_job db job_id) (\<lambda>job.
     rbind (stored_workspace_snapshot h job) (\<lambda>snapshot.
     rbind (host_dependency_row db job_id snapshot) (\<lambda>row.
     case row of
       None \<Rightarrow> Inr []
     | Some host_row \<Rightarrow>
         if sha256_bytes h (sd_json host_row) \<noteq> sd_digest host_row
         then Inl (registry_corrupt ''stored Host Dependency digest does not match its bytes'' ''hostDependencies'')
         else rbind (map_err (\<lambda>error. registry_corrupt
                (''stored Host Dependency bindings are invalid: '' @ error) ''hostDependencies'')
              (h_host_dependencies_parse h (sd_json host_row))) (\<lambda>bindings.
           rbind (map_err (\<lambda>error. registry_corrupt
                (''stored Host Dependency bindings violate their contract: '' @ error_display error) ''hostDependencies'')
              (validate_host_dependency_bindings bindings ''hostDependencies'')) (\<lambda>_.
           Inr bindings))))))"

definition release_binding_of_row :: "release_row \<Rightarrow> RuntimeReleaseEffectBinding" where
  "release_binding_of_row r =
     \<lparr>rel_contract = RuntimeReleaseV1, rel_effect_id = rw_effect_id r, rel_request_digest = rw_request_digest r,
      rel_workspace_id = rw_workspace_id r, rel_commit = rw_commit_revision r,
      rel_candidate_manifest_digest = rw_candidate_manifest_digest r,
      rel_expected_tool_count = rw_expected_tool_count r, rel_receipt_path = rw_receipt_path r\<rparr>"

definition runtime_release_effect_for_job ::
  "host \<Rightarrow> sql_env \<Rightarrow> registry \<Rightarrow> string \<Rightarrow> RuntimeReleaseEffectBinding option result" where
  "runtime_release_effect_for_job h env db job_id =
     rbind (open_connection env) (\<lambda>_.
     rbind (load_job db job_id) (\<lambda>job.
     rbind (stored_workspace_snapshot h job) (\<lambda>snapshot.
     rbind (release_effect_row db job_id snapshot) (\<lambda>row.
     case row of
       None \<Rightarrow> Inr None
     | Some r \<Rightarrow>
         if rw_contract r \<noteq> ''runtime_release_v1''
         then Inl (registry_corrupt ''stored Runtime Release contract is unsupported'' ''runtimeReleaseEffect.contract'')
         else if sha256_bytes h (h_release_print h (release_binding_of_row r)) \<noteq> rw_binding_digest r
         then Inl (registry_corrupt ''stored Runtime Release effect digest does not match side truth''
                ''runtimeReleaseEffect'')
         else Inr (Some (release_binding_of_row r))))))"

definition find_runtime_release_effect ::
  "host \<Rightarrow> sql_env \<Rightarrow> registry \<Rightarrow> string \<Rightarrow> string
   \<Rightarrow> (RuntimeJobRecord \<times> RuntimeReleaseEffectBinding) option result" where
  "find_runtime_release_effect h env db owner client_request_id =
     rbind (validate_identifier owner ''principal'') (\<lambda>_.
     rbind (validate_client_request_id client_request_id ''clientRequestId'') (\<lambda>_.
     rbind (open_connection env) (\<lambda>_.
     case find (\<lambda>j. j_principal j = owner \<and> j_client_request_id j = client_request_id
                   \<and> list_ex (\<lambda>r. rw_job_id r = j_job_id j) (release_rows db)) (jobs db) of
       None \<Rightarrow> Inr None
     | Some found \<Rightarrow>
         rbind (load_job db (j_job_id found)) (\<lambda>job.
         rbind (runtime_release_effect_for_job h env db (j_job_id found)) (\<lambda>effect.
         rbind (ok_or effect (registry_corrupt ''Runtime Release Job lost its side truth'' ''runtimeReleaseEffect''))
           (\<lambda>release. Inr (Some (job, release))))))))"

section \<open>The Jobs and Attempts of a Workspace\<close>

text \<open>\<open>ORDER BY created_at_ms DESC, job_id DESC\<close>\<close>

definition job_key :: "RuntimeJobRecord \<Rightarrow> nat \<times> string" where
  "job_key j = (j_created_at_ms j, j_job_id j)"

definition newest_first :: "RuntimeJobRecord list \<Rightarrow> RuntimeJobRecord list" where
  "newest_first js = rev (sort_key job_key js)"

definition job_holds_capacity :: "registry \<Rightarrow> RuntimeJobRecord \<Rightarrow> bool" where
  "job_holds_capacity db j \<longleftrightarrow>
     list_ex (\<lambda>a. a_job_id a = j_job_id j
       \<and> list_ex (\<lambda>r. r_attempt_id r = a_attempt_id a \<and> holds_capacity (r_state r)) (reservations db)) (attempts db)"

definition active_job_ids_for_workspace :: "sql_env \<Rightarrow> registry \<Rightarrow> string \<Rightarrow> string list result" where
  "active_job_ids_for_workspace env db workspace_id =
     rbind (open_connection env) (\<lambda>_.
     Inr (map j_job_id (newest_first (filter (\<lambda>j. j_workspace_id j = workspace_id
            \<and> (j_resolution j = None \<or> job_holds_capacity db j)) (jobs db)))))"

definition list_workspace_reconciliation_attempts ::
  "sql_env \<Rightarrow> registry \<Rightarrow> string \<Rightarrow> nat \<Rightarrow> AttemptRecord list result" where
  "list_workspace_reconciliation_attempts env db workspace_id limit =
     (if limit = 0 then Inl (error_invalid ''limit must be positive'' ''limit'')
      else rbind (open_connection env) (\<lambda>_.
        Inr (map attempt_record (take limit (rev (sort_key (\<lambda>a. (a_created_at_ms a, a_attempt_id a))
          (filter (\<lambda>a. list_ex (\<lambda>j. j_job_id j = a_job_id a \<and> j_workspace_id j = workspace_id
              \<and> list_ex (\<lambda>r. r_attempt_id r = a_attempt_id a
                   \<and> (j_current_attempt_id j = Some (a_attempt_id a) \<or> holds_capacity (r_state r))) (reservations db))
              (jobs db)) (attempts db))))))))"

section \<open>The Job list\<close>

record RuntimeJobSummary =
  sm_job_id :: string
  sm_operation_digest :: string
  sm_status :: string
  sm_desired_state :: JobDesiredState
  sm_attempt_id :: "string option"
  sm_attempt_state :: "AttemptState option"
  sm_termination_intent :: "AttemptTerminationIntent option"
  sm_exit_code :: "int option"
  sm_execution_terminal :: bool
  sm_execution_disposition :: "JobResolution option"
  sm_execution_reason_code :: "string option"
  sm_delivery_disposition :: RuntimeDeliveryDisposition
  sm_recovery_required :: bool
  sm_semantic_completion_evaluated :: bool
  sm_client_request_id :: string
  sm_workspace_id :: string
  sm_source_revision :: string
  sm_executable_name :: string
  sm_cwd_relative :: string
  sm_created_at_ms :: nat
  sm_started_at_ms :: "nat option"
  sm_finished_at_ms :: "nat option"
  sm_duration_ms :: nat
  sm_result_available :: bool
  sm_artifacts_available :: bool
  sm_artifact_count :: nat
  sm_poll_after_ms :: "nat option"

record RuntimeJobListResult =
  jl_jobs :: "RuntimeJobSummary list"
  jl_next_cursor :: "RuntimeJobListCursor option"

definition before_cursor :: "RuntimeJobListCursor \<Rightarrow> RuntimeJobRecord \<Rightarrow> bool" where
  "before_cursor cursor j \<longleftrightarrow> j_created_at_ms j < jc_created_at_ms cursor
     \<or> (j_created_at_ms j = jc_created_at_ms cursor \<and> j_job_id j < jc_job_id cursor)"

text \<open>The eight statements of the \<open>match\<close>: one conjunct for each part of the request that is present.\<close>

definition list_filter :: "RuntimeJobListRequest \<Rightarrow> RuntimeJobRecord \<Rightarrow> bool" where
  "list_filter request j \<longleftrightarrow>
     (case jlr_client_request_id request of None \<Rightarrow> True | Some c \<Rightarrow> j_client_request_id j = c)
     \<and> (case jlr_workspace_id request of None \<Rightarrow> True | Some w \<Rightarrow> j_workspace_id j = w)"

definition select_jobs :: "registry \<Rightarrow> RuntimeJobListRequest \<Rightarrow> RuntimeJobRecord list" where
  "select_jobs db request =
     take (jlr_limit request + 1) (newest_first (filter (\<lambda>j. list_filter request j
       \<and> (case jlr_cursor request of None \<Rightarrow> True | Some cursor \<Rightarrow> before_cursor cursor j)) (jobs db)))"

definition piece_skipped :: "string \<Rightarrow> bool" where
  "piece_skipped p \<longleftrightarrow> p = [] \<or> p = ''.''"

fun drop_components :: "nat \<Rightarrow> string list \<Rightarrow> string list" where
  "drop_components 0 ps = ps"
| "drop_components (Suc k) [] = []"
| "drop_components (Suc k) (p # ps) = (if piece_skipped p then drop_components (Suc k) ps else drop_components k ps)"

definition trim_pieces :: "string list \<Rightarrow> string list" where
  "trim_pieces ps = rev (dropWhile piece_skipped (rev (dropWhile piece_skipped ps)))"

text \<open>
  \<open>Path::strip_prefix(base)\<close> as text, for an absolute \<open>base\<close>: what is left of the original text
  after the components of \<open>base\<close>, without the separators and dots at its ends.
\<close>

definition strip_prefix_text :: "string \<Rightarrow> string \<Rightarrow> string option" where
  "strip_prefix_text p base =
     (if path_starts_with p base
      then Some (join_with ''/'' (trim_pieces
             (drop_components (length (path_components base) - 1) (tl (split_on SLASH p)))))
      else None)"

definition cwd_relative :: "RuntimeExecutionPlan \<Rightarrow> string" where
  "cwd_relative plan =
     (case strip_prefix_text (p_cwd plan) (p_workspace_path plan) of
        None \<Rightarrow> ''.''
      | Some path \<Rightarrow> if path = [] then ''.'' else path)"

definition executable_name :: "RuntimeExecutionPlan \<Rightarrow> string" where
  "executable_name plan = (case path_file_name (p_executable plan) of None \<Rightarrow> p_executable plan | Some name \<Rightarrow> name)"

definition count_artifacts :: "registry \<Rightarrow> string \<Rightarrow> nat result" where
  "count_artifacts db job_id =
     (let n = tbl_count (\<lambda>a. art_job_id a = job_id) (artifacts db) in
      if n < 2 ^ 32 then Inr n
      else Inl (from_sql (OtherSqlError (''Integer '' @ show_nat n @ '' out of range at index 0''))
             ''cannot count Job Artifacts''))"

definition job_summary :: "host \<Rightarrow> registry \<Rightarrow> nat \<Rightarrow> RuntimeJobRecord \<Rightarrow> RuntimeJobSummary result" where
  "job_summary h db observed_at_ms job =
     rbind (snapshot_attempt db job) (\<lambda>attempt.
     rbind (count_artifacts db (j_job_id job)) (\<lambda>artifact_count.
     let projection = project_job job attempt
           (case attempt of None \<Rightarrow> False | Some a \<Rightarrow> attempt_recovery_condition_active db (a_attempt_id a))
           (artifact_count > 0)
           (job_execution_reason_code db (j_job_id job) (j_resolution job \<noteq> None))
     in rbind (parse_execution_plan h job) (\<lambda>plan.
     let started_at_ms = Option.bind attempt a_started_at_ms;
         finished_at_ms = Option.bind attempt a_finished_at_ms;
         duration_start = (case started_at_ms of None \<Rightarrow> j_created_at_ms job | Some t \<Rightarrow> t);
         duration_end = (case finished_at_ms of None \<Rightarrow> observed_at_ms | Some t \<Rightarrow> t)
     in Inr \<lparr>sm_job_id = j_job_id job, sm_operation_digest = j_operation_digest job,
         sm_status = jpr_status projection, sm_desired_state = jpr_desired_state projection,
         sm_attempt_id = jpr_attempt_id projection, sm_attempt_state = jpr_attempt_state projection,
         sm_termination_intent = jpr_termination_intent projection, sm_exit_code = jpr_exit_code projection,
         sm_execution_terminal = jpr_execution_terminal projection,
         sm_execution_disposition = jpr_execution_disposition projection,
         sm_execution_reason_code = jpr_execution_reason_code projection,
         sm_delivery_disposition = jpr_delivery_disposition projection,
         sm_recovery_required = jpr_recovery_required projection,
         sm_semantic_completion_evaluated = jpr_semantic_completion_evaluated projection,
         sm_client_request_id = j_client_request_id job, sm_workspace_id = j_workspace_id job,
         sm_source_revision = p_source_revision plan, sm_executable_name = executable_name plan,
         sm_cwd_relative = cwd_relative plan, sm_created_at_ms = j_created_at_ms job,
         sm_started_at_ms = started_at_ms, sm_finished_at_ms = finished_at_ms,
         sm_duration_ms = duration_end - duration_start,
         sm_result_available = jpr_result_available projection,
         sm_artifacts_available = jpr_artifacts_available projection,
         sm_artifact_count = artifact_count, sm_poll_after_ms = jpr_poll_after_ms projection\<rparr>)))"

fun job_summaries :: "host \<Rightarrow> registry \<Rightarrow> nat \<Rightarrow> RuntimeJobRecord list \<Rightarrow> RuntimeJobSummary list result" where
  "job_summaries h db at [] = Inr []"
| "job_summaries h db at (job # rest) =
     rbind (job_summary h db at job) (\<lambda>summary.
     rbind (job_summaries h db at rest) (\<lambda>summaries. Inr (summary # summaries)))"

definition validate_list_request :: "RuntimeJobListRequest \<Rightarrow> unit result" where
  "validate_list_request request =
     (if jlr_limit request = 0 \<or> jlr_limit request > MAX_RUNTIME_LIST_LIMIT
      then Inl (error_invalid (''limit must be in 1..='' @ show_nat MAX_RUNTIME_LIST_LIMIT) ''limit'')
      else rbind (case jlr_client_request_id request of None \<Rightarrow> Inr ()
                  | Some client_request_id \<Rightarrow> validate_client_request_id client_request_id ''clientRequestId'') (\<lambda>_.
        case jlr_workspace_id request of None \<Rightarrow> Inr ()
        | Some workspace_id \<Rightarrow> validate_identifier workspace_id ''workspaceId''))"

definition close_read_snapshot :: "sql_env \<Rightarrow> 'a \<Rightarrow> 'a result" where
  "close_read_snapshot env x =
     (case te_commit env of
        CommitDone \<Rightarrow> Inr x
      | CommitFailed _ e \<Rightarrow> Inl (from_sql e ''cannot close Job list read snapshot'')
      | CommitOpen e \<Rightarrow> Inl (from_sql e ''cannot close Job list read snapshot''))"

definition next_cursor_of :: "nat \<Rightarrow> RuntimeJobRecord list \<Rightarrow> RuntimeJobListCursor option" where
  "next_cursor_of limit js =
     (if length js > limit
      then map_option (\<lambda>j. \<lparr>jc_created_at_ms = j_created_at_ms j, jc_job_id = j_job_id j\<rparr>)
             (if take limit js = [] then None else Some (last (take limit js)))
      else None)"

definition list_jobs ::
  "host \<Rightarrow> sql_env \<Rightarrow> string + nat \<Rightarrow> registry \<Rightarrow> RuntimeJobListRequest \<Rightarrow> RuntimeJobListResult result" where
  "list_jobs h env clock db request =
     rbind (validate_list_request request) (\<lambda>_.
     rbind (open_connection env) (\<lambda>_.
     rbind (case te_begin env of None \<Rightarrow> Inr () | Some e \<Rightarrow> Inl (from_sql e ''cannot begin Job list read snapshot'')) (\<lambda>_.
     let fetched = select_jobs db request;
         page = take (jlr_limit request) fetched;
         next_cursor = next_cursor_of (jlr_limit request) fetched
     in rbind (now_ms clock) (\<lambda>observed_at_ms.
        rbind (job_summaries h db observed_at_ms page) (\<lambda>summaries.
        close_read_snapshot env \<lparr>jl_jobs = summaries, jl_next_cursor = next_cursor\<rparr>)))))"

end
