(* ===== verification/Query_Guarantees.thy ===== *)
theory Query_Guarantees
  imports Lifecycle_Guarantees Validation_Guarantees Registry_Query
begin

text \<open>
  What the read operations promise: a Job reads back as the request it was admitted with, after any
  run of the registry; the Job list, read page by page, shows every matching Job exactly once; and a
  Workspace has at most one active Job.
\<close>

section \<open>The bindings of a Job\<close>

definition bindings_of :: "registry \<Rightarrow> string \<Rightarrow> side_row option \<times> side_row option \<times> release_row option" where
  "bindings_of db job_id =
     (tbl_lookup sd_job_id (execution_providers db) job_id,
      tbl_lookup sd_job_id (host_dependency_rows db) job_id,
      tbl_lookup rw_job_id (release_rows db) job_id)"

text \<open>Every binding row belongs to a Job.\<close>

definition rows_owned :: "registry \<Rightarrow> bool" where
  "rows_owned db \<longleftrightarrow>
     sd_job_id ` set (execution_providers db) \<subseteq> j_job_id ` set (jobs db)
     \<and> sd_job_id ` set (host_dependency_rows db) \<subseteq> j_job_id ` set (jobs db)
     \<and> rw_job_id ` set (release_rows db) \<subseteq> j_job_id ` set (jobs db)"

lemma effect_rows:
  assumes "effect db j a r evs j' a' r' db'"
  shows "execution_providers db' = execution_providers db" "host_dependency_rows db' = host_dependency_rows db"
    "release_rows db' = release_rows db" "job_identity j' = job_identity j"
  using assms by (simp_all only: effect_def)

lemma transition_bindings: "job_transition db db' \<Longrightarrow> bindings_of db' k = bindings_of db k"
  by (elim transitionE) (simp add: bindings_of_def effect_rows)

lemma identity_plan: "job_identity j' = job_identity j \<Longrightarrow> j_execution_plan_json j' = j_execution_plan_json j"
  by (simp add: job_identity_def)

lemma transition_rows_owned:
  assumes inv: "reg_inv db" and tr: "job_transition db db'" and owned: "rows_owned db"
  shows "rows_owned db'"
proof -
  obtain j a r evs j' a' r' where eff: "effect db j a r evs j' a' r' db'" by (rule transitionE[OF tr])
  note rows = effect_rows[OF eff] and e = effectD[OF eff]
  have s: "set (jobs db') = insert j' (set (jobs db) - {j})" by (rule effect_sets(1)[OF inv eff])
  have j: "j \<in> set (jobs db)" using e(1) by (simp add: linked_def)
  then have ids: "j_job_id ` set (jobs db') = j_job_id ` set (jobs db)" unfolding s using e(2) by (auto simp: image_iff)
  then show ?thesis using owned rows ids unfolding rows_owned_def by simp
qed

lemma prepared_rows:
  assumes "prepare_admission h cfg request ids at = Inr pa"
  shows "pa_provider pa = side_row_of h (ids_job_id ids) (map_option (h_provider_print h) (sr_execution_provider request))"
    and "pa_host_dependencies pa = side_row_of h (ids_job_id ids)
           (if sr_host_dependencies request = [] then None
            else Some (h_host_dependencies_print h (sr_host_dependencies request)))"
    and "pa_release pa = release_row_of h (ids_job_id ids) (sr_runtime_release_effect request)"
    and "j_execution_plan_json (pa_job pa) = h_plan_print h (sr_plan request)"
    and "j_execution_plan_digest (pa_job pa) = sha256_bytes h (h_plan_print h (sr_plan request))"
    and "j_workspace_snapshot_json (pa_job pa) = h_json_print h (workspace_snapshot (sr_plan request)
           (map_option sd_digest (pa_provider pa)) (map_option sd_digest (pa_host_dependencies pa))
           (map_option rw_binding_digest (pa_release pa)))"
    and "operation_digest_for h (j_request_digest (pa_job pa)) (j_execution_plan_digest (pa_job pa))
           (map_option sd_digest (pa_provider pa)) (map_option sd_digest (pa_host_dependencies pa))
           (map_option rw_binding_digest (pa_release pa)) = Inr (j_operation_digest (pa_job pa))"
  using assms unfolding prepare_admission_def Let_def
  by (auto elim!: rbind_InrE simp: new_job_def)

lemma admission_rows:
  assumes "admission db pa evs db'"
  shows "jobs db' = jobs db @ [pa_job pa]"
    "execution_providers db' = execution_providers db @ (case pa_provider pa of None \<Rightarrow> [] | Some p \<Rightarrow> [p])"
    "host_dependency_rows db' = host_dependency_rows db @ (case pa_host_dependencies pa of None \<Rightarrow> [] | Some d \<Rightarrow> [d])"
    "release_rows db' = release_rows db @ (case pa_release pa of None \<Rightarrow> [] | Some r \<Rightarrow> [r])"
    "j_job_id (pa_job pa) \<notin> j_job_id ` set (jobs db)"
  using assms by (simp_all only: admission_def simp_thms)

lemma side_row_ids:
  "side_row_of h k text = Some s \<Longrightarrow> sd_job_id s = k"
  "release_row_of h k rel = Some w \<Longrightarrow> rw_job_id w = k"
  by (auto simp: side_row_of_def release_row_of_def)

lemma admission_rows_owned:
  assumes prep: "prepare_admission h cfg request ids at = Inr pa" and adm: "admission db pa evs db'"
    and owned: "rows_owned db"
  shows "rows_owned db'"
proof -
  note rows = admission_rows[OF adm] and p = prepared_rows[OF prep] and k = prepared_view(7)[OF prep]
  have "sd_job_id s = j_job_id (pa_job pa)" if "pa_provider pa = Some s \<or> pa_host_dependencies pa = Some s" for s
    using that p(1,2) k side_row_ids(1) by metis
  moreover have "rw_job_id w = j_job_id (pa_job pa)" if "pa_release pa = Some w" for w
    using that p(3) k side_row_ids(2) by metis
  ultimately show ?thesis
    using owned unfolding rows_owned_def rows
    by (auto split: option.splits simp: subset_iff image_iff)
qed

text \<open>A table that grows by at most one row with key \<open>k'\<close>.\<close>

lemma tbl_lookup_single: "tbl_lookup key [] k = None" "tbl_lookup key [x] k = (if key x = k then Some x else None)"
  by (simp_all add: tbl_lookup_def)

lemma tbl_lookup_opt:
  assumes "\<And>x. row = Some x \<Longrightarrow> key x = k'"
  shows "tbl_lookup key (t @ (case row of None \<Rightarrow> [] | Some x \<Rightarrow> [x])) k =
     (if k = k' \<and> tbl_lookup key t k = None then row else tbl_lookup key t k)"
  using assms by (cases row; cases "tbl_lookup key t k") (auto simp: tbl_lookup_append tbl_lookup_single)

lemma tbl_lookup_fresh: "k \<notin> key ` set t \<Longrightarrow> tbl_lookup key t k = None"
  by (induction t) (auto simp: tbl_lookup_def)

lemma admission_bindings:
  assumes prep: "prepare_admission h cfg request ids at = Inr pa" and adm: "admission db pa evs db'"
    and owned: "rows_owned db"
  shows "bindings_of db' (j_job_id (pa_job pa)) = (pa_provider pa, pa_host_dependencies pa, pa_release pa)"
    and "k \<in> j_job_id ` set (jobs db) \<Longrightarrow> bindings_of db' k = bindings_of db k"
proof -
  note rows = admission_rows[OF adm] and p = prepared_rows[OF prep] and k = prepared_view(7)[OF prep]
  let ?new = "j_job_id (pa_job pa)"
  have ids: "pa_provider pa = Some s \<Longrightarrow> sd_job_id s = ?new" "pa_host_dependencies pa = Some s \<Longrightarrow> sd_job_id s = ?new"
    "pa_release pa = Some w \<Longrightarrow> rw_job_id w = ?new" for s w
    using p(1-3) k side_row_ids by metis+
  have "tbl_lookup sd_job_id (execution_providers db) ?new = None"
    "tbl_lookup sd_job_id (host_dependency_rows db) ?new = None" "tbl_lookup rw_job_id (release_rows db) ?new = None"
    using rows(5) owned unfolding rows_owned_def by (auto intro!: tbl_lookup_fresh)
  then show "bindings_of db' ?new = (pa_provider pa, pa_host_dependencies pa, pa_release pa)"
    unfolding bindings_of_def rows(2-4) by (simp add: tbl_lookup_opt[OF ids(1)] tbl_lookup_opt[OF ids(2)] tbl_lookup_opt[OF ids(3)])
  assume "k \<in> j_job_id ` set (jobs db)"
  then have "k \<noteq> ?new" using rows(5) by blast
  then show "bindings_of db' k = bindings_of db k"
    unfolding bindings_of_def rows(2-4) by (simp add: tbl_lookup_opt[OF ids(1)] tbl_lookup_opt[OF ids(2)] tbl_lookup_opt[OF ids(3)])
qed

interpretation owned_runs:
  invariant_system "\<lambda>s. s = empty_registry" "registry_step h cfg" "\<lambda>db. full_inv db \<and> rows_owned db" for h cfg
proof
  show "full_inv s \<and> rows_owned s" if "s = empty_registry" for s
    using that full_inv_empty unfolding rows_owned_def by (simp add: empty_registry_def)
next
  fix s t assume inv: "full_inv s \<and> rows_owned s" and step: "registry_step h cfg s t"
  then have "full_inv t" using registry_runs.inv_step by blast
  moreover have "rows_owned t"
    using registry_step_refines[OF full_invD(1)[OF conjunct1[OF inv]] step]
  proof
    assume "admits h cfg s t"
    then show ?thesis using inv by (auto elim!: admitsE intro: admission_rows_owned)
  next
    assume "job_transition\<^sup>*\<^sup>* s t"
    then have "full_inv t \<and> rows_owned t"
    proof (induction rule: rtranclp_induct)
      case (step u w)
      then show ?case using transition_full_inv transition_rows_owned full_invD(1) by blast
    qed (rule inv)
    then show ?thesis ..
  qed
  ultimately show "full_inv t \<and> rows_owned t" ..
qed

lemma reachable_owned: "reachable_registry h cfg db \<Longrightarrow> rows_owned db"
  using owned_runs.reachable_inv unfolding reachable_registry_def by blast



lemma step_job_ids:
  assumes "full_inv s" and "registry_step h cfg s t" and "k \<in> j_job_id ` set (jobs s)"
  shows "k \<in> j_job_id ` set (jobs t)"
proof -
  obtain j where j: "j \<in> set (jobs s)" "k = j_job_id j" using assms(3) by blast
  obtain j' where j': "j' \<in> set (jobs t)" "job_advances j j'"
    using registry_step_advances[OF assms(1,2)] j(1) unfolding advances_def by blast
  then have "j_job_id j' = k" using j(2) identity_keys(1) unfolding job_advances_def by metis
  then show ?thesis using j'(1) by blast
qed

lemma step_bindings:
  assumes inv: "full_inv s \<and> rows_owned s" and step: "registry_step h cfg s t" and k: "k \<in> j_job_id ` set (jobs s)"
  shows "bindings_of t k = bindings_of s k"
  using registry_step_refines[OF full_invD(1)[OF conjunct1[OF inv]] step]
proof
  assume "admits h cfg s t"
  then show ?thesis using inv k admission_bindings(2) by (elim admitsE) blast
next
  assume "job_transition\<^sup>*\<^sup>* s t"
  then show ?thesis by (induction rule: rtranclp_induct) (simp_all add: transition_bindings)
qed

lemma run_bindings:
  assumes "reachable_registry h cfg db" and "registry_run h cfg db db'" and "k \<in> j_job_id ` set (jobs db)"
  shows "bindings_of db' k = bindings_of db k"
proof -
  let ?R = "\<lambda>s t. k \<in> j_job_id ` set (jobs s) \<longrightarrow> k \<in> j_job_id ` set (jobs t) \<and> bindings_of t k = bindings_of s k"
  have "?R db db'"
  proof (rule owned_runs.run_rel[where h = h and cfg = cfg and R = ?R])
    show "(registry_step h cfg)\<^sup>*\<^sup>* db db'" using assms(2) unfolding registry_run_def .
    show "full_inv db \<and> rows_owned db" using reachable_full_inv reachable_owned assms(1) by blast
    show "?R s t" if "full_inv s \<and> rows_owned s" "registry_step h cfg s t" for s t
      using step_job_ids step_bindings that by blast
  qed auto
  then show ?thesis using assms(3) by blast
qed

section \<open>Reading the bindings back\<close>

lemma sha256_valid:
  assumes "sha256_hex_shape h"
  shows "validate_digest (sha256_bytes h bytes) field = Inr ()"
proof -
  have "length (h_sha256_hex h bytes) = 64" "list_all is_ascii_hexdigit (h_sha256_hex h bytes)"
    using assms unfolding sha256_hex_shape_def is_ascii_hexdigit_def list_all_iff by auto
  then show ?thesis unfolding validate_digest_def valid_sha256_text_def sha256_bytes_def strip_prefix_def by simp
qed

lemma snapshot_get:
  "json_get (workspace_snapshot plan p d r) ''executionProviderDigest'' = map_option JString p"
  "json_get (workspace_snapshot plan p d r) ''hostDependenciesDigest'' = map_option JString d"
  "json_get (workspace_snapshot plan p d r) ''runtimeReleaseEffectDigest'' = map_option JString r"
  by (cases p; cases d; cases r; simp add: workspace_snapshot_def json_field_def)+

lemma committed_digest_valid:
  assumes "json_get snapshot key = map_option JString digest" and "\<And>d. digest = Some d \<Longrightarrow> validate_digest d key = Inr ()"
  shows "committed_digest snapshot key label = Inr digest"
  using assms by (cases digest) (auto simp: committed_digest_def)

lemma matched_row_own: "matched_row label missing field digest_of (map_option digest_of row) row = Inr row"
  by (cases row) (simp_all add: matched_row_def)

text \<open>What a request is printed to when it is admitted, and that \<open>serde_json\<close> reads it back.\<close>

definition request_snapshot :: "host \<Rightarrow> SubmitRequest \<Rightarrow> json" where
  "request_snapshot h request = workspace_snapshot (sr_plan request)
     (map_option (\<lambda>p. sha256_bytes h (h_provider_print h p)) (sr_execution_provider request))
     (if sr_host_dependencies request = [] then None
      else Some (sha256_bytes h (h_host_dependencies_print h (sr_host_dependencies request))))
     (map_option (\<lambda>r. sha256_bytes h (h_release_print h r)) (sr_runtime_release_effect request))"

definition request_reads_back :: "host \<Rightarrow> SubmitRequest \<Rightarrow> bool" where
  "request_reads_back h request \<longleftrightarrow>
     h_plan_parse h (h_plan_print h (sr_plan request)) = Inr (sr_plan request)
     \<and> (\<forall>p. sr_execution_provider request = Some p \<longrightarrow> h_provider_parse h (h_provider_print h p) = Inr p)
     \<and> h_host_dependencies_parse h (h_host_dependencies_print h (sr_host_dependencies request))
         = Inr (sr_host_dependencies request)
     \<and> (\<exists>w. h_json_parse h (h_json_print h (request_snapshot h request)) = Inr w
           \<and> json_get w = json_get (request_snapshot h request))"

lemma request_snapshot_object: "\<exists>kvs. request_snapshot h request = JObject kvs \<and> distinct (map fst kvs)"
  by (cases "sr_execution_provider request"; cases "sr_host_dependencies request = []"; cases "sr_runtime_release_effect request")
    (simp_all add: request_snapshot_def workspace_snapshot_def json_field_def)

lemma json_reads_back_request:
  assumes "json_reads_back h"
  shows "request_reads_back h request"
  using assms request_snapshot_object[of h request] unfolding json_reads_back_def request_reads_back_def by metis

text \<open>A Job whose identity columns and bindings are those an admission prepared.\<close>

definition admitted_as :: "host \<Rightarrow> registry \<Rightarrow> RuntimeJobRecord \<Rightarrow> prepared_admission \<Rightarrow> bool" where
  "admitted_as h db j pa \<longleftrightarrow> load_job db (j_job_id j) = Inr j \<and> job_identity j = job_identity (pa_job pa)
     \<and> bindings_of db (j_job_id j) = (pa_provider pa, pa_host_dependencies pa, pa_release pa)"

lemma side_row_digest_valid:
  assumes "sha256_hex_shape h"
  shows "map_option sd_digest (side_row_of h k text) = Some d \<Longrightarrow> validate_digest d field = Inr ()"
    and "map_option rw_binding_digest (release_row_of h k rel) = Some d \<Longrightarrow> validate_digest d field = Inr ()"
  using sha256_valid[OF assms] by (auto simp: side_row_of_def release_row_of_def)

lemma admitted_rows:
  assumes shape: "sha256_hex_shape h" and json: "request_reads_back h request"
    and prep: "prepare_admission h cfg request ids at = Inr pa" and adm: "admitted_as h db j pa"
  obtains snapshot where "stored_workspace_snapshot h j = Inr snapshot"
    and "committed_digest snapshot ''executionProviderDigest'' ''execution provider'' = Inr (map_option sd_digest (pa_provider pa))"
    and "host_dependency_row db (j_job_id j) snapshot = Inr (pa_host_dependencies pa)"
    and "release_effect_row db (j_job_id j) snapshot = Inr (pa_release pa)"
proof -
  note p = prepared_rows[OF prep]
  let ?w = "workspace_snapshot (sr_plan request) (map_option sd_digest (pa_provider pa))
      (map_option sd_digest (pa_host_dependencies pa)) (map_option rw_binding_digest (pa_release pa))"
  have "?w = request_snapshot h request" unfolding p(1-3) request_snapshot_def side_row_of_def release_row_of_def
    by (simp add: option.map_comp comp_def)
  then have "j_workspace_snapshot_json j = h_json_print h (request_snapshot h request)" and same: "?w = request_snapshot h request"
    using adm p(6) unfolding admitted_as_def job_identity_def by simp_all
  moreover obtain snapshot where w': "h_json_parse h (h_json_print h (request_snapshot h request)) = Inr snapshot"
    "json_get snapshot = json_get (request_snapshot h request)" using json unfolding request_reads_back_def by blast
  ultimately have w: "stored_workspace_snapshot h j = Inr snapshot" "json_get snapshot = json_get ?w"
    by (simp_all add: stored_workspace_snapshot_def map_err_def)
  have c: "committed_digest snapshot ''executionProviderDigest'' label = Inr (map_option sd_digest (pa_provider pa))"
    "committed_digest snapshot ''hostDependenciesDigest'' label = Inr (map_option sd_digest (pa_host_dependencies pa))"
    "committed_digest snapshot ''runtimeReleaseEffectDigest'' label = Inr (map_option rw_binding_digest (pa_release pa))"
    for label
    unfolding p(1-3)
    by (rule committed_digest_valid; simp only: w(2) snapshot_get p(1-3) side_row_digest_valid[OF shape])+
  have b: "tbl_lookup sd_job_id (host_dependency_rows db) (j_job_id j) = pa_host_dependencies pa"
    "tbl_lookup rw_job_id (release_rows db) (j_job_id j) = pa_release pa"
    using adm unfolding admitted_as_def bindings_of_def by simp_all
  show ?thesis
    by (rule that[OF w(1) c(1)]) (simp_all add: host_dependency_row_def release_effect_row_def c(2,3) b matched_row_own)
qed

lemma serde_back:
  assumes "request_reads_back h request"
  shows "h_plan_parse h (h_plan_print h (sr_plan request)) = Inr (sr_plan request)"
    "sr_execution_provider request = Some p \<Longrightarrow> h_provider_parse h (h_provider_print h p) = Inr p"
    "h_host_dependencies_parse h (h_host_dependencies_print h (sr_host_dependencies request)) = Inr (sr_host_dependencies request)"
  using assms unfolding request_reads_back_def by blast+

lemma release_row_back: "release_binding_of_row (the (release_row_of h k (Some r))) = r"
  by (cases r; cases "rel_contract r") (simp add: release_binding_of_row_def release_row_of_def)

lemma admitted_host_dependencies:
  assumes shape: "sha256_hex_shape h" and json: "request_reads_back h request" and valid: "validate_submit h request = Inr ()"
    and prep: "prepare_admission h cfg request ids at = Inr pa" and adm: "admitted_as h db j pa"
    and env: "open_connection env = Inr ()"
  shows "host_dependencies h env db (j_job_id j) = Inr (sr_host_dependencies request)"
proof -
  have load: "load_job db (j_job_id j) = Inr j" using adm unfolding admitted_as_def by simp
  obtain snapshot where s: "stored_workspace_snapshot h j = Inr snapshot"
    "host_dependency_row db (j_job_id j) snapshot = Inr (pa_host_dependencies pa)" by (rule admitted_rows[OF shape json prep adm])
  have "validate_host_dependency_bindings (sr_host_dependencies request) ''hostDependencies'' = Inr ()"
    using validate_submit_parts(3)[OF valid] unfolding submit_host_dependency_check_def by (auto elim!: rbind_InrE)
  then show ?thesis
    by (simp add: host_dependencies_def env load s prepared_rows(2)[OF prep] side_row_of_def map_err_def serde_back[OF json])
qed

lemma admitted_release:
  assumes shape: "sha256_hex_shape h" and json: "request_reads_back h request"
    and prep: "prepare_admission h cfg request ids at = Inr pa" and adm: "admitted_as h db j pa"
    and env: "open_connection env = Inr ()"
  shows "runtime_release_effect_for_job h env db (j_job_id j) = Inr (sr_runtime_release_effect request)"
proof -
  have load: "load_job db (j_job_id j) = Inr j" using adm unfolding admitted_as_def by simp
  obtain snapshot where s: "stored_workspace_snapshot h j = Inr snapshot"
    "release_effect_row db (j_job_id j) snapshot = Inr (pa_release pa)" by (rule admitted_rows[OF shape json prep adm])
  show ?thesis
  proof (cases "sr_runtime_release_effect request")
    case None
    then show ?thesis
      by (simp add: runtime_release_effect_for_job_def env load s prepared_rows(3)[OF prep] release_row_of_def)
  next
    case (Some r)
    then obtain row where row: "pa_release pa = Some row" "row = the (release_row_of h (ids_job_id ids) (Some r))"
      using prepared_rows(3)[OF prep] by (simp add: release_row_of_def)
    have same: "release_binding_of_row row = r" unfolding row(2) by (rule release_row_back)
    have "rw_contract row = ''runtime_release_v1''" "rw_binding_digest row = sha256_bytes h (h_release_print h r)"
      unfolding row(2) by (simp_all add: release_row_of_def)
    then show ?thesis
      by (simp add: runtime_release_effect_for_job_def env load s row(1) same Some)
  qed
qed

lemma admitted_provider:
  assumes shape: "sha256_hex_shape h" and json: "request_reads_back h request" and valid: "validate_submit h request = Inr ()"
    and prep: "prepare_admission h cfg request ids at = Inr pa" and adm: "admitted_as h db j pa"
    and env: "open_connection env = Inr ()"
  shows "execution_provider h env db (j_job_id j) = Inr (sr_execution_provider request)"
proof -
  have load: "load_job db (j_job_id j) = Inr j" and id: "job_identity j = job_identity (pa_job pa)"
    and row: "tbl_lookup sd_job_id (execution_providers db) (j_job_id j) = pa_provider pa"
    using adm unfolding admitted_as_def bindings_of_def by simp_all
  obtain snapshot where s: "stored_workspace_snapshot h j = Inr snapshot"
    "committed_digest snapshot ''executionProviderDigest'' ''execution provider'' = Inr (map_option sd_digest (pa_provider pa))"
    "host_dependency_row db (j_job_id j) snapshot = Inr (pa_host_dependencies pa)"
    "release_effect_row db (j_job_id j) snapshot = Inr (pa_release pa)" by (rule admitted_rows[OF shape json prep adm])
  note p = prepared_rows[OF prep]
  show ?thesis
  proof (cases "sr_execution_provider request")
    case None
    then have "pa_provider pa = None" using p(1) by (simp add: side_row_of_def)
    then show ?thesis using None by (simp add: execution_provider_def env load s row matched_row_def)
  next
    case (Some provider)
    let ?t = "h_provider_print h provider"
    obtain r where r: "pa_provider pa = Some r" "sd_json r = ?t" "sd_digest r = sha256_bytes h ?t"
      using p(1) Some by (simp add: side_row_of_def)
    have digests: "j_request_digest j = j_request_digest (pa_job pa)" "j_execution_plan_digest j = j_execution_plan_digest (pa_job pa)"
      "j_operation_digest j = j_operation_digest (pa_job pa)" using id unfolding job_identity_def by simp_all
    have "expected_operation_digest h j (sd_digest r) (map_option sd_digest (pa_host_dependencies pa))
        (map_option rw_binding_digest (pa_release pa)) = Inr (j_operation_digest j)"
      using p(7) r(1) unfolding digests
      by (cases "pa_host_dependencies pa"; cases "pa_release pa")
        (simp_all add: expected_operation_digest_def operation_digest_for_def digests)
    moreover have "parse_provider h ?t = Inr provider"
      using validate_submit_parts(2)[OF valid] Some
      by (auto simp: parse_provider_def submit_provider_check_def serde_back(2)[OF json Some] map_err_def elim!: rbind_InrE)
    moreover have "matched_row ''execution provider'' ''Job execution provider'' ''executionProvider'' sd_digest
        (map_option sd_digest (pa_provider pa)) (pa_provider pa) = Inr (Some r)" using r(1) by (simp only: matched_row_own)
    ultimately show ?thesis
      by (simp add: execution_provider_def env load s row r Some)
  qed
qed

text \<open>
  C23. A Job reads back as the request it was admitted with.  After any run of the registry from a
  new admission on, the stored plan, execution provider, Host Dependencies and Runtime Release effect
  of the Job are exactly those of the request; every check of the readers against the digests the
  Job commits to passes.  This relies on \<open>serde_json\<close> reading what it printed and on the shape of
  printed SHA-256 digests.
\<close>

theorem admitted_request_reads_back:
  assumes reach: "reachable_registry h cfg db" and shape: "sha256_hex_shape h" and json: "request_reads_back h request"
    and created: "submit_preallocated h env cfg clock fence db request ids = (Inr (Created c), db')"
    and run: "registry_run h cfg db' db''" and env: "open_connection env' = Inr ()"
  shows "execution_plan h env' db'' (j_job_id (ca_job c)) = Inr (sr_plan request)
     \<and> execution_provider h env' db'' (j_job_id (ca_job c)) = Inr (sr_execution_provider request)
     \<and> host_dependencies h env' db'' (j_job_id (ca_job c)) = Inr (sr_host_dependencies request)
     \<and> runtime_release_effect_for_job h env' db'' (j_job_id (ca_job c)) = Inr (sr_runtime_release_effect request)"
proof -
  obtain pa at evs where ready: "admission_ready h env cfg clock request ids = Inr pa"
    and prep: "prepare_admission h cfg request ids at = Inr pa"
    and c: "c = \<lparr>ca_job = pa_job pa, ca_attempt = pa_attempt pa, ca_reservation = pa_reservation pa,
           ca_launch_token = pa_launch_token pa\<rparr>"
    and adm: "admission db pa evs db'" by (rule submit_created[OF created])
  have valid: "validate_submit h request = Inr ()" by (rule admission_ready_Inr[OF ready])
  let ?k = "j_job_id (pa_job pa)"
  have reach': "reachable_registry h cfg db'"
    using reach_step[OF reach[unfolded reachable_registry_def] rs_submit[of h cfg db env clock fence request ids]] created
    unfolding reachable_registry_def by simp
  have mem: "pa_job pa \<in> set (jobs db')" using admission_rows(1)[OF adm] by simp
  then have "tbl_lookup j_job_id (jobs db') ?k = Some (pa_job pa)"
    using reg_inv_keys(1)[OF full_invD(1)[OF reachable_full_inv[OF reach']]] by (simp add: tbl_lookup_iff_mem)
  then obtain j where j: "tbl_lookup j_job_id (jobs db'') ?k = Some j" and adv: "job_advances (pa_job pa) j"
    by (rule run_lookup_job[OF reach' run])
  then have id: "job_identity j = job_identity (pa_job pa)" unfolding job_advances_def by blast
  then have k: "j_job_id j = ?k" by (rule identity_keys(1))
  have "bindings_of db'' ?k = (pa_provider pa, pa_host_dependencies pa, pa_release pa)"
    using run_bindings[OF reach' run imageI[OF mem]] admission_bindings(1)[OF prep adm reachable_owned[OF reach]] by simp
  then have as: "admitted_as h db'' j pa" using j id k by (simp add: admitted_as_def load_job_eq_Inr)
  have plan: "execution_plan h env' db'' ?k = Inr (sr_plan request)"
    using as id prepared_rows(4)[OF prep] k unfolding admitted_as_def
    by (simp add: execution_plan_def get_job_def env parse_execution_plan_def identity_plan[OF id] serde_back[OF json] map_err_def)
  show ?thesis
    using plan admitted_provider[OF shape json valid prep as env] admitted_host_dependencies[OF shape json valid prep as env]
      admitted_release[OF shape json prep as env] unfolding k c by simp
qed

section \<open>The Job list, page by page\<close>

lemma newest_first_filter: "newest_first (filter P js) = filter P (newest_first js)"
  unfolding newest_first_def by (simp add: filter_sort rev_filter[symmetric])

lemma newest_first_sorted:
  assumes "distinct (map j_job_id js)"
  shows "sorted_wrt (\<lambda>i j. job_key j < job_key i) (newest_first js)"
proof -
  have inj: "inj_on job_key (set js)"
    using assms by (auto simp: inj_on_def job_key_def distinct_map)
  have "sorted_wrt (<) (map job_key (sort_key job_key js))"
    using inj assms by (simp add: strict_sorted_iff distinct_map distinct_sort)
  then show ?thesis unfolding newest_first_def by (simp add: sorted_wrt_rev sorted_wrt_map)
qed

lemma before_cursor_key:
  "before_cursor \<lparr>jc_created_at_ms = j_created_at_ms i, jc_job_id = j_job_id i\<rparr> j \<longleftrightarrow> job_key j < job_key i"
  by (auto simp: before_cursor_def job_key_def)

text \<open>The cursor of the last Job of a page selects what comes after it.\<close>

lemma filter_after:
  assumes "sorted_wrt (\<lambda>i j. job_key j < job_key i) (xs @ x # ys)"
  shows "filter (\<lambda>j. job_key j < job_key x) (xs @ x # ys) = ys"
  using assms by (auto simp: sorted_wrt_append filter_empty_conv filter_id_conv order.strict_trans dest: less_asym)

text \<open>Following \<open>next_cursor\<close>, with fuel for the number of pages.\<close>

fun list_pages ::
  "host \<Rightarrow> sql_env \<Rightarrow> string + nat \<Rightarrow> registry \<Rightarrow> nat \<Rightarrow> RuntimeJobListRequest \<Rightarrow> RuntimeJobSummary list list option result" where
  "list_pages h env clock db 0 request = Inr None"
| "list_pages h env clock db (Suc fuel) request =
     rbind (list_jobs h env clock db request) (\<lambda>page.
     case jl_next_cursor page of
       None \<Rightarrow> Inr (Some [jl_jobs page])
     | Some cursor \<Rightarrow>
         rbind (list_pages h env clock db fuel (request\<lparr>jlr_cursor := Some cursor\<rparr>)) (\<lambda>rest.
         Inr (map_option (\<lambda>pages. jl_jobs page # pages) rest)))"

text \<open>In a reachable database every Job has a summary, of that Job.\<close>

lemma job_summary_reachable:
  assumes reach: "reachable_registry h cfg db" and plans: "\<forall>j \<in> set (jobs db). \<exists>plan. h_plan_parse h (j_execution_plan_json j) = Inr plan" and arts: "length (artifacts db) < 2 ^ 32"
    and j: "j \<in> set (jobs db)"
  obtains s where "job_summary h db at j = Inr s" and "sm_job_id s = j_job_id j"
proof -
  obtain a r where lk: "linked db j a r" by (rule reachable_linked[OF reach j])
  have "snapshot_attempt db j = Inr (Some (attempt_record a))"
    by (rule linked_snapshot[OF full_invD(1)[OF reachable_full_inv[OF reach]] lk])
  moreover have "tbl_count (\<lambda>x. art_job_id x = j_job_id j) (artifacts db) < 2 ^ 32"
    using arts by (metis length_filter_le order.strict_trans1 tbl_count_def)
  then have "count_artifacts db (j_job_id j) = Inr (tbl_count (\<lambda>x. art_job_id x = j_job_id j) (artifacts db))"
    by (simp add: count_artifacts_def)
  moreover obtain plan where "h_plan_parse h (j_execution_plan_json j) = Inr plan" using plans j by blast
  then have "parse_execution_plan h j = Inr plan" by (simp add: parse_execution_plan_def map_err_def)
  ultimately show ?thesis using that unfolding job_summary_def by (simp add: Let_def)
qed

lemma job_summaries_reachable:
  assumes "reachable_registry h cfg db" and "\<forall>j \<in> set (jobs db). \<exists>plan. h_plan_parse h (j_execution_plan_json j) = Inr plan" and "length (artifacts db) < 2 ^ 32" and "set js \<subseteq> set (jobs db)"
  obtains ss where "job_summaries h db at js = Inr ss" and "map sm_job_id ss = map j_job_id js"
  using assms(4)
proof (induction js arbitrary: thesis)
  case (Cons j js)
  then obtain ss where ss: "job_summaries h db at js = Inr ss" "map sm_job_id ss = map j_job_id js" by auto
  obtain s where "job_summary h db at j = Inr s" "sm_job_id s = j_job_id j"
    using job_summary_reachable[OF assms(1-3)] Cons.prems(2) by (metis list.set_intros(1) subsetD)
  then show ?case using Cons.prems(1)[of "s # ss"] ss by simp
qed simp

text \<open>One page, from a position in the list of all matching Jobs.\<close>

lemma list_jobs_page:
  assumes reach: "reachable_registry h cfg db" and plans: "\<forall>j \<in> set (jobs db). \<exists>plan. h_plan_parse h (j_execution_plan_json j) = Inr plan" and arts: "length (artifacts db) < 2 ^ 32"
    and env: "healthy env" and clock: "now_ms clock = Inr now" and valid: "validate_list_request request = Inr ()"
    and all: "newest_first (filter (\<lambda>j. list_filter request j
       \<and> (case jlr_cursor request of None \<Rightarrow> True | Some cursor \<Rightarrow> before_cursor cursor j)) (jobs db)) = js"
  obtains ss where "list_jobs h env clock db request = Inr \<lparr>jl_jobs = ss, jl_next_cursor = next_cursor_of (jlr_limit request) (take (jlr_limit request + 1) js)\<rparr>"
    and "map sm_job_id ss = map j_job_id (take (jlr_limit request) js)"
proof -
  have opened: "open_connection env = Inr ()" "te_begin env = None" "te_commit env = CommitDone"
    using env by (simp_all add: healthy_def open_connection_def)
  have "set js \<subseteq> set (jobs db)" unfolding all[symmetric] newest_first_def by auto
  then have "set (take (jlr_limit request) js) \<subseteq> set (jobs db)" by (meson order_trans set_take_subset)
  then obtain ss where ss: "job_summaries h db now (take (jlr_limit request) js) = Inr ss"
    "map sm_job_id ss = map j_job_id (take (jlr_limit request) js)"
    by (rule job_summaries_reachable[OF reach plans arts])
  have "select_jobs db request = take (jlr_limit request + 1) js" unfolding select_jobs_def all ..
  then show ?thesis
    using that ss by (simp add: list_jobs_def valid opened clock close_read_snapshot_def min_def)
qed

lemma validate_list_cursor: "validate_list_request (r\<lparr>jlr_cursor := c\<rparr>) = validate_list_request r"
  by (simp add: validate_list_request_def)

lemma list_pages_from:
  assumes reach: "reachable_registry h cfg db" and plans: "\<forall>j \<in> set (jobs db). \<exists>plan. h_plan_parse h (j_execution_plan_json j) = Inr plan" and arts: "length (artifacts db) < 2 ^ 32"
    and env: "healthy env" and clock: "now_ms clock = Inr now"
    and sorted: "sorted_wrt (\<lambda>i j. job_key j < job_key i) (newest_first (filter (list_filter request) (jobs db)))"
    and valid: "validate_list_request request = Inr ()"
    and split: "newest_first (filter (list_filter request) (jobs db)) = xs @ js"
    and here: "filter (\<lambda>j. case jlr_cursor request of None \<Rightarrow> True | Some cursor \<Rightarrow> before_cursor cursor j) (xs @ js) = js"
    and fuel: "length js < fuel"
  shows "\<exists>pages. list_pages h env clock db fuel request = Inr (Some pages)
     \<and> map sm_job_id (concat pages) = map j_job_id js \<and> (\<forall>p \<in> set pages. length p \<le> jlr_limit request)"
  using valid split here fuel sorted
proof (induction fuel arbitrary: request xs js)
  case (Suc fuel)
  let ?n = "jlr_limit request"
  have pos: "0 < ?n" using Suc.prems(1) by (auto simp: validate_list_request_def split: if_splits)
  have "newest_first (filter (\<lambda>j. list_filter request j
       \<and> (case jlr_cursor request of None \<Rightarrow> True | Some cursor \<Rightarrow> before_cursor cursor j)) (jobs db)) = js"
    using Suc.prems(2,3) unfolding filter_filter[symmetric] newest_first_filter[of "\<lambda>j. case jlr_cursor request of None \<Rightarrow> True | Some cursor \<Rightarrow> before_cursor cursor j"]
    by (simp add: conj_commute)
  then obtain ss where page: "list_jobs h env clock db request = Inr \<lparr>jl_jobs = ss, jl_next_cursor = next_cursor_of ?n (take (?n + 1) js)\<rparr>"
    and ss: "map sm_job_id ss = map j_job_id (take ?n js)"
    by (rule list_jobs_page[OF reach plans arts env clock Suc.prems(1)])
  have len: "length ss = min ?n (length js)" using arg_cong[OF ss, of length] by simp
  show ?case
  proof (cases "length js \<le> ?n")
    case True
    then show ?thesis using page ss len by (auto simp: next_cursor_of_def)
  next
    case False
    let ?x = "last (take ?n js)" and ?ys = "butlast (take ?n js)" and ?zs = "drop ?n js"
    have ne: "take ?n js \<noteq> []" using False pos by auto
    then have "take ?n js = ?ys @ [?x]" by simp
    then have js: "xs @ js = (xs @ ?ys) @ ?x # ?zs" using append_take_drop_id[of ?n js] by (metis append.assoc append_Cons append_Nil)
    let ?c = "\<lparr>jc_created_at_ms = j_created_at_ms ?x, jc_job_id = j_job_id ?x\<rparr>"
    let ?r = "request\<lparr>jlr_cursor := Some ?c\<rparr>"
    have cursor: "next_cursor_of ?n (take (?n + 1) js) = Some ?c" using False ne by (simp add: next_cursor_of_def)
    have same: "list_filter ?r = list_filter request" by (simp add: list_filter_def fun_eq_iff)
    have v: "validate_list_request ?r = Inr ()" using Suc.prems(1) unfolding validate_list_cursor .
    have n: "newest_first (filter (list_filter ?r) (jobs db)) = (xs @ ?ys @ [?x]) @ ?zs"
      unfolding same Suc.prems(2) js by simp
    have f: "filter (\<lambda>j. case jlr_cursor ?r of None \<Rightarrow> True | Some cursor \<Rightarrow> before_cursor cursor j) ((xs @ ?ys @ [?x]) @ ?zs) = ?zs"
      using filter_after[of "xs @ ?ys" ?x ?zs] Suc.prems(5) unfolding Suc.prems(2) js by (simp add: before_cursor_key)
    have l: "length ?zs < fuel" using Suc.prems(4) pos False by simp
    have o: "sorted_wrt (\<lambda>i j. job_key j < job_key i) (newest_first (filter (list_filter ?r) (jobs db)))"
      unfolding same by (rule Suc.prems(5))
    from Suc.IH[OF v n f l o] obtain pages where rest: "list_pages h env clock db fuel ?r = Inr (Some pages)"
      "map sm_job_id (concat pages) = map j_job_id ?zs" "\<forall>p \<in> set pages. length p \<le> ?n"
      by auto
    show ?thesis
    proof (intro exI[of _ "ss # pages"] conjI)
      show "list_pages h env clock db (Suc fuel) request = Inr (Some (ss # pages))" using page cursor rest(1) by simp
      show "map sm_job_id (concat (ss # pages)) = map j_job_id js"
        using ss rest(2) by simp (metis append_take_drop_id map_append)
      show "\<forall>p \<in> set (ss # pages). length p \<le> ?n" using len rest(3) by simp
    qed
  qed
qed simp

text \<open>
  C24. Paging is complete and ends.  On a reachable database whose stored plans can be read, following \<open>next_cursor\<close> from the first
  page of a valid request ends after at most as many pages as there are matching Jobs, plus one; the
  pages together name every matching Job exactly once, newest first, and no page is longer than the
  limit.
\<close>

theorem list_pages_complete:
  assumes reach: "reachable_registry h cfg db" and plans: "\<forall>j \<in> set (jobs db). \<exists>plan. h_plan_parse h (j_execution_plan_json j) = Inr plan" and arts: "length (artifacts db) < 2 ^ 32"
    and env: "healthy env" and clock: "now_ms clock = Inr now"
    and valid: "validate_list_request request = Inr ()" and first: "jlr_cursor request = None"
    and fuel: "length (filter (list_filter request) (jobs db)) < fuel"
  shows "\<exists>pages. list_pages h env clock db fuel request = Inr (Some pages)
     \<and> map sm_job_id (concat pages) = map j_job_id (newest_first (filter (list_filter request) (jobs db)))
     \<and> distinct (map sm_job_id (concat pages))
     \<and> set (map sm_job_id (concat pages)) = {j_job_id j | j. j \<in> set (jobs db) \<and> list_filter request j}
     \<and> (\<forall>p \<in> set pages. length p \<le> jlr_limit request)"
proof -
  let ?all = "newest_first (filter (list_filter request) (jobs db))"
  have "distinct (map j_job_id (jobs db))" by (rule reg_inv_keys(1)[OF full_invD(1)[OF reachable_full_inv[OF reach]]])
  then have dist: "distinct (map j_job_id (filter (list_filter request) (jobs db)))" by (rule distinct_map_filter)
  note pages = list_pages_from[OF reach plans arts env clock newest_first_sorted[OF dist] valid, where xs = "[]" and js = ?all and fuel = fuel]
  have "length ?all = length (filter (list_filter request) (jobs db))" by (simp add: newest_first_def)
  then obtain pages where p: "list_pages h env clock db fuel request = Inr (Some pages)"
    "map sm_job_id (concat pages) = map j_job_id ?all" "\<forall>p \<in> set pages. length p \<le> jlr_limit request"
    using pages fuel first by auto
  moreover have "distinct (map j_job_id ?all)" using dist by (simp add: newest_first_def distinct_map)
  moreover have "set (map j_job_id ?all) = {j_job_id j | j. j \<in> set (jobs db) \<and> list_filter request j}"
    by (auto simp: newest_first_def)
  ultimately show ?thesis by (metis (no_types, lifting))
qed

section \<open>Active Jobs of a Workspace\<close>

lemma linked_holds:
  assumes inv: "reg_inv db" and lk: "linked db j a r"
  shows "job_holds_capacity db j \<longleftrightarrow> holds_capacity (r_state r)"
    and "j_resolution j = None \<Longrightarrow> holds_capacity (r_state r)"
    and "holds_capacity (r_state r) \<longleftrightarrow> \<not> is_terminal (a_state a) \<or> a_state a = Orphaned"
proof -
  have a: "b = a" if "b \<in> set (attempts db)" "a_job_id b = j_job_id j" for b
    using that lk reg_inv_keys(4)[OF inv] by (metis distinct_map inj_onD linked_def)
  have r: "q = r" if "q \<in> set (reservations db)" "r_attempt_id q = a_attempt_id a" for q
    using that lk reg_inv_keys(3)[OF inv] by (metis distinct_map inj_onD linked_def)
  show "job_holds_capacity db j \<longleftrightarrow> holds_capacity (r_state r)"
    using a r lk unfolding job_holds_capacity_def list_ex_iff linked_def by metis
  have wf: "wf_view (view_of j a r)" by (rule linked_wf[OF inv lk])
  then show "j_resolution j = None \<Longrightarrow> holds_capacity (r_state r)"
    by (simp add: wf_view_def resolution_agrees_def view_of_def holds_capacity_def)
  show "holds_capacity (r_state r) \<longleftrightarrow> \<not> is_terminal (a_state a) \<or> a_state a = Orphaned"
    using wf by (cases "j_resolution j")
      (auto simp: wf_view_def resolution_agrees_def view_of_def holds_capacity_def terminal_reservation_def)
qed

lemma reservation_job_unique:
  assumes inv: "reg_inv db" and "linked db j a r" and "linked db j' a' r"
  shows "j' = j"
proof -
  have "a_attempt_id a' = a_attempt_id a" using assms(2,3) by (simp add: linked_def)
  then have "a' = a" using assms(2,3) reg_inv_keys(2)[OF inv] by (metis distinct_map inj_onD linked_def)
  then show ?thesis using assms(2,3) reg_inv_keys(1)[OF inv] by (metis distinct_map inj_onD linked_def)
qed

lemma active_jobs_count:
  assumes inv: "reg_inv db"
  shows "length (filter (\<lambda>j. j_workspace_id j = w \<and> (j_resolution j = None \<or> job_holds_capacity db j)) (jobs db))
     = workspace_active db w"
proof -
  let ?P = "\<lambda>j. j_workspace_id j = w \<and> (j_resolution j = None \<or> job_holds_capacity db j)"
  let ?Q = "\<lambda>r. holds_capacity (r_state r) \<and> workspace_of db (r_attempt_id r) = Some w"
  define res where "res = (\<lambda>j. SOME r. \<exists>a. linked db j a r)"
  define job where "job = (\<lambda>r. SOME j. \<exists>a. linked db j a r)"
  have res: "\<exists>a. linked db j a (res j)" if "j \<in> set (jobs db)" for j
  proof -
    have "tbl_lookup j_job_id (jobs db) (j_job_id j) = Some j" using that reg_inv_keys(1)[OF inv] by (simp add: tbl_lookup_iff_mem)
    then obtain a r where "linked db j a r" by (rule job_linked[OF inv])
    then have "\<exists>r a. linked db j a r" by blast
    then show ?thesis unfolding res_def by (rule someI_ex)
  qed
  have job: "\<exists>a. linked db (job r) a r" if row: "r \<in> set (reservations db)" for r
  proof -
    obtain j a where "linked db j a r" by (rule reservation_linked[OF inv row])
    then have "\<exists>j a. linked db j a r" by blast
    then show ?thesis unfolding job_def by (rule someI_ex)
  qed
  have "card {j \<in> set (jobs db). ?P j} = card {r \<in> set (reservations db). ?Q r}"
  proof (rule card_bij_eq[where f = res and g = job])
    show "inj_on res {j \<in> set (jobs db). ?P j}"
      using res reservation_job_unique[OF inv] by (intro inj_onI) (metis (no_types, lifting) mem_Collect_eq)
    show "inj_on job {r \<in> set (reservations db). ?Q r}"
      using job linked_unique[OF inv] by (intro inj_onI) (metis (no_types, lifting) mem_Collect_eq)
    show "res ` {j \<in> set (jobs db). ?P j} \<subseteq> {r \<in> set (reservations db). ?Q r}"
    proof clarsimp
      fix j assume j: "j \<in> set (jobs db)" "j_resolution j = None \<or> job_holds_capacity db j" "w = j_workspace_id j"
      obtain a where lk: "linked db j a (res j)" using res[OF j(1)] by blast
      show "res j \<in> set (reservations db) \<and> holds_capacity (r_state (res j)) \<and> workspace_of db (r_attempt_id (res j)) = Some (j_workspace_id j)"
        using lk linked_holds(1,2)[OF inv lk] linked_workspace[OF inv lk] j(2) unfolding linked_def by auto
    qed
    show "job ` {r \<in> set (reservations db). ?Q r} \<subseteq> {j \<in> set (jobs db). ?P j}"
    proof clarsimp
      fix r assume r: "r \<in> set (reservations db)" "holds_capacity (r_state r)" "workspace_of db (r_attempt_id r) = Some w"
      obtain a where lk: "linked db (job r) a r" using job[OF r(1)] by blast
      show "job r \<in> set (jobs db) \<and> j_workspace_id (job r) = w \<and> (j_resolution (job r) = None \<or> job_holds_capacity db (job r))"
        using lk linked_holds(1)[OF inv lk] linked_workspace[OF inv lk] r(2,3) unfolding linked_def by simp
    qed
  qed auto
  moreover have "distinct (jobs db)" "distinct (reservations db)" using reg_inv_keys(1,3)[OF inv] by (auto simp: distinct_map)
  then have "length (filter ?P (jobs db)) = card {j \<in> set (jobs db). ?P j}"
    "length (filter ?Q (reservations db)) = card {r \<in> set (reservations db). ?Q r}"
    by (simp_all add: distinct_card[symmetric])
  ultimately show ?thesis unfolding workspace_active_count[OF inv] tbl_count_def by simp
qed

text \<open>
  A Workspace has at most one active Job.  In a reachable database the active Jobs of a Workspace
  are as many as the executions that hold its capacity, so at most one, and they are exactly its Jobs
  whose Attempt is live or orphaned.
\<close>

theorem workspace_active_job_unique:
  assumes reach: "reachable_registry h cfg db" and env: "open_connection env = Inr ()"
  shows "\<exists>ids. active_job_ids_for_workspace env db workspace_id = Inr ids
     \<and> length ids = workspace_active db workspace_id \<and> length ids \<le> WORKSPACE_EXECUTION_LIMIT
     \<and> set ids = {j_job_id j | j a r. linked db j a r \<and> j_workspace_id j = workspace_id
          \<and> (\<not> is_terminal (a_state a) \<or> a_state a = Orphaned)}"
proof -
  note full = reachable_full_inv[OF reach]
  note inv = full_invD(1)[OF full]
  let ?P = "\<lambda>j. j_workspace_id j = workspace_id \<and> (j_resolution j = None \<or> job_holds_capacity db j)"
  have P: "?P j \<longleftrightarrow> j_workspace_id j = workspace_id \<and> (\<not> is_terminal (a_state a) \<or> a_state a = Orphaned)"
    if "linked db j a r" for j a r using linked_holds(1,2,3)[OF inv that] by blast
  have "\<exists>a r. linked db j a r" if "j \<in> set (jobs db)" for j using reachable_linked[OF reach that] by metis
  then have "j_job_id ` {j \<in> set (jobs db). ?P j} = {j_job_id j | j a r. linked db j a r \<and> j_workspace_id j = workspace_id
          \<and> (\<not> is_terminal (a_state a) \<or> a_state a = Orphaned)}"
    using P unfolding linked_def by (auto simp: image_iff) metis+
  moreover have "workspace_active db workspace_id \<le> WORKSPACE_EXECUTION_LIMIT"
    using full_invD(5)[OF full] unfolding workspace_ok_def by blast
  ultimately show ?thesis
    using active_jobs_count[OF inv, of workspace_id] env
    by (simp add: active_job_ids_for_workspace_def newest_first_def)
qed

end
