(* ===== verification/Job_Traces.thy ===== *)
theory Job_Traces
  imports Registry_Guarantees
begin

text \<open>
  Trace refinement: what the registry stores and logs about a Job is a run of the abstract Job
  machine.  The event types a Job has in the log are the three of its admission followed by the
  labels of a run of \<open>job_step\<close> from the initial state, and that run ends in the state the tables hold.
\<close>

section \<open>Runs of the Job machine\<close>

inductive job_run :: "job_view \<Rightarrow> string list \<Rightarrow> job_view \<Rightarrow> bool" where
  job_run_start: "job_run v [] v"
| job_run_step: "job_run u evs v \<Longrightarrow> job_step v evs' w \<Longrightarrow> job_run u (evs @ evs') w"

lemma job_run_wf: "job_run v evs w \<Longrightarrow> wf_view v \<Longrightarrow> wf_view w"
  by (induction rule: job_run.induct) (auto intro: job_step_wf)

section \<open>The log of a Job\<close>

definition admission_events :: "string list" where
  "admission_events = [''REQUEST_RECEIVED'', ''JOB_RECORD_CREATED'', ''ATTEMPT_CREATED'']"

definition events_of :: "job_event list \<Rightarrow> string \<Rightarrow> string list" where
  "events_of log job_id = map ev_type (filter (\<lambda>e. ev_job_id e = job_id) log)"

lemma events_of_appended:
  assumes "appended log k aid evs"
  shows "events_of (log @ evs) job_id = events_of log job_id @ (if job_id = k then map ev_type evs else [])"
proof -
  have "filter (\<lambda>e. ev_job_id e = job_id) evs = (if job_id = k then evs else [])"
    using appended_ids[OF assms] by (auto simp: filter_empty_conv filter_id_conv)
  then show ?thesis by (simp add: events_of_def)
qed

definition traced :: "registry \<Rightarrow> bool" where
  "traced db \<longleftrightarrow> (\<forall>j a r. linked db j a r \<longrightarrow>
     (\<exists>evs. job_run initial_view evs (view_of j a r)
        \<and> events_of (job_events db) (j_job_id j) = admission_events @ evs))"

lemma tracedE:
  assumes "traced db" and "linked db j a r"
  obtains evs where "job_run initial_view evs (view_of j a r)"
    and "events_of (job_events db) (j_job_id j) = admission_events @ evs"
  using assms unfolding traced_def by blast

lemma transition_traced:
  assumes inv: "reg_inv db" and tr: "job_transition db db'" and traced: "traced db"
  shows "traced db'"
proof -
  obtain j a r evs j' a' r' where eff: "effect db j a r evs j' a' r' db'"
    and step: "job_step (view_of j a r) (map ev_type evs) (view_of j' a' r')" by (rule transitionE[OF tr])
  note e = effectD[OF eff]
  have log: "events_of (job_events db') k = events_of (job_events db) k @ (if k = j_job_id j then map ev_type evs else [])" for k
    unfolding e(9) by (rule events_of_appended[OF e(10)])
  obtain old where old: "job_run initial_view old (view_of j a r)"
    "events_of (job_events db) (j_job_id j) = admission_events @ old" by (rule tracedE[OF traced e(1)])
  have "\<exists>new. job_run initial_view new (view_of j1 a1 r1)
      \<and> events_of (job_events db') (j_job_id j1) = admission_events @ new" if lk: "linked db' j1 a1 r1" for j1 a1 r1
    using effect_linked[OF inv eff lk]
  proof
    assume "j1 = j' \<and> a1 = a' \<and> r1 = r'"
    then show ?thesis using log[of "j_job_id j1"] e(2) old job_run_step[OF old(1) step] by auto
  next
    assume "linked db j1 a1 r1 \<and> j_job_id j1 \<noteq> j_job_id j"
    then show ?thesis using log[of "j_job_id j1"] traced unfolding traced_def by auto
  qed
  then show ?thesis unfolding traced_def by blast
qed

lemma admission_linked:
  assumes inv: "reg_inv db" and prep: "prepare_admission h cfg request ids at = Inr pa"
    and adm: "admission db pa evs db'" and lk: "linked db' j a r"
  shows "linked db j a r \<or> (j = pa_job pa \<and> a = attempt_row_of (pa_attempt pa) \<and> r = reservation_row_of (pa_reservation pa))"
proof -
  have sub: "a_job_id ` set (attempts db) = j_job_id ` set (jobs db)"
    "r_attempt_id ` set (reservations db) = a_attempt_id ` set (attempts db)"
    using inv by (simp_all only: reg_inv_def)
  have fresh: "j_job_id (pa_job pa) \<notin> j_job_id ` set (jobs db)"
    "a_attempt_id (pa_attempt pa) \<notin> a_attempt_id ` set (attempts db)"
    and rows: "jobs db' = jobs db @ [pa_job pa]" "attempts db' = attempts db @ [attempt_row_of (pa_attempt pa)]"
    "reservations db' = reservations db @ [reservation_row_of (pa_reservation pa)]"
    using adm unfolding admission_def by simp_all
  have own: "a_job_id (pa_attempt pa) = j_job_id (pa_job pa)" "r_attempt_id (pa_reservation pa) = a_attempt_id (pa_attempt pa)"
    using prepared_view[OF prep] by blast+
  show ?thesis
  proof (cases "a \<in> set (attempts db)")
    case True
    then have "a_job_id a \<in> j_job_id ` set (jobs db)" "a_attempt_id a \<in> a_attempt_id ` set (attempts db)" using sub by auto
    then have "j \<noteq> pa_job pa" "r \<noteq> reservation_row_of (pa_reservation pa)"
      using lk fresh own unfolding linked_def by auto
    then show ?thesis using lk rows True unfolding linked_def by simp
  next
    case False
    then have a: "a = attempt_row_of (pa_attempt pa)" using lk rows unfolding linked_def by simp
    then have "j_job_id j \<notin> j_job_id ` set (jobs db)" "r_attempt_id r \<notin> r_attempt_id ` set (reservations db)"
      using lk fresh own sub unfolding linked_def by auto
    then have "j \<notin> set (jobs db)" "r \<notin> set (reservations db)" by blast+
    then show ?thesis using lk rows a unfolding linked_def by simp
  qed
qed

lemma admits_traced:
  assumes inv: "full_inv db" and ad: "admits h cfg db db'" and traced: "traced db"
  shows "traced db'"
proof -
  obtain request ids at pa evs where prep: "prepare_admission h cfg request ids at = Inr pa"
    and adm: "admission db pa evs db'" by (rule admitsE[OF ad])
  have e: "job_events db' = job_events db @ evs" "map ev_type evs = admission_events"
    "appended (job_events db) (j_job_id (pa_job pa)) (a_attempt_id (pa_attempt pa)) evs"
    and fresh: "j_job_id (pa_job pa) \<notin> j_job_id ` set (jobs db)"
    using adm unfolding admission_def admission_events_def by blast+
  have log: "events_of (job_events db') k = events_of (job_events db) k @ (if k = j_job_id (pa_job pa) then admission_events else [])" for k
    unfolding e(1) e(2)[symmetric] by (rule events_of_appended[OF e(3)])
  have "ev_job_id x \<in> j_job_id ` set (jobs db)" if "x \<in> set (job_events db)" for x
    using that full_invD(1,4)[OF inv] unfolding dispatch_ok_def reg_inv_def by (metis image_eqI)
  then have "filter (\<lambda>x. ev_job_id x = j_job_id (pa_job pa)) (job_events db) = []"
    using fresh unfolding filter_empty_conv by metis
  then have none: "events_of (job_events db) (j_job_id (pa_job pa)) = []" unfolding events_of_def by simp
  have view: "view_of (pa_job pa) (attempt_row_of (pa_attempt pa)) (reservation_row_of (pa_reservation pa)) = initial_view"
    using prepared_view[OF prep] by blast
  have "\<exists>new. job_run initial_view new (view_of j a r) \<and> events_of (job_events db') (j_job_id j) = admission_events @ new"
    if lk: "linked db' j a r" for j a r
    using admission_linked[OF full_invD(1)[OF inv] prep adm lk]
  proof
    assume old: "linked db j a r"
    then have "j_job_id j \<noteq> j_job_id (pa_job pa)" using fresh unfolding linked_def by (metis imageI)
    then show ?thesis using log[of "j_job_id j"] tracedE[OF traced old] by (metis append.right_neutral)
  next
    assume new: "j = pa_job pa \<and> a = attempt_row_of (pa_attempt pa) \<and> r = reservation_row_of (pa_reservation pa)"
    then show ?thesis using log[of "j_job_id j"] none view job_run_start[of initial_view] by auto
  qed
  then show ?thesis unfolding traced_def by blast
qed

interpretation traced_runs:
  invariant_system "\<lambda>s. s = empty_registry" "registry_step h cfg" "\<lambda>db. full_inv db \<and> traced db" for h cfg
proof
  show "full_inv s \<and> traced s" if "s = empty_registry" for s
    using that full_inv_empty unfolding traced_def linked_def by (simp add: empty_registry_def)
next
  fix s t assume inv: "full_inv s \<and> traced s" and step: "registry_step h cfg s t"
  then have "full_inv t" using registry_runs.inv_step by blast
  moreover have "traced t"
    using registry_step_refines[OF full_invD(1)[OF conjunct1[OF inv]] step]
  proof
    assume "admits h cfg s t"
    then show ?thesis using admits_traced inv by blast
  next
    assume "job_transition\<^sup>*\<^sup>* s t"
    then have "full_inv t \<and> traced t"
    proof (induction rule: rtranclp_induct)
      case base
      show ?case by (rule inv)
    next
      case (step u w)
      then show ?case using transition_full_inv transition_traced full_invD(1) by blast
    qed
    then show ?thesis ..
  qed
  ultimately show "full_inv t \<and> traced t" ..
qed

text \<open>
  C1. The registry implements the Job machine.  In every reachable database every Job has exactly one
  Attempt and one reservation; the events logged for the Job are those of its admission followed by
  the labels of a run of the abstract machine from its initial state, and the stored rows are in the
  state this run ends in.
\<close>

theorem registry_implements_job_machine:
  assumes "reachable_registry h cfg db" and "tbl_lookup j_job_id (jobs db) job_id = Some j"
  shows "\<exists>!(a, r). linked db j a r
    \<and> (\<exists>evs. job_run initial_view evs (view_of j a r)
         \<and> events_of (job_events db) job_id = admission_events @ evs)"
proof -
  have inv: "reg_inv db" and "traced db"
    using traced_runs.reachable_inv assms(1) full_invD(1) unfolding reachable_registry_def by blast+
  obtain a r where lk: "linked db j a r" "j_job_id j = job_id" by (rule job_linked[OF inv assms(2)])
  obtain evs where "job_run initial_view evs (view_of j a r)" "events_of (job_events db) job_id = admission_events @ evs"
    using tracedE[OF \<open>traced db\<close> lk(1)] lk(2) by metis
  then have "linked db j a r \<and> (\<exists>evs. job_run initial_view evs (view_of j a r)
      \<and> events_of (job_events db) job_id = admission_events @ evs)" using lk(1) by blast
  moreover have "p = (a, r)" if "case p of (a, r) \<Rightarrow> linked db j a r \<and> Q a r" for p Q
    using that linked_unique[OF inv lk(1)] by (cases p) (metis case_prod_conv)
  ultimately show ?thesis by (intro ex1I[of _ "(a, r)"]) (simp only: prod.case, blast)
qed

end
