(* ===== verification/Registry_Examples.thy ===== *)
theory Registry_Examples
  imports Registry_Safety
begin

text \<open>
  One concrete scenario, evaluated in the kernel: a host, a request, and the databases a Job passes
  through from admission to a terminal commit, orphaned or not.  The witnesses of the registry's
  properties use it.
\<close>

section \<open>The request\<close>

definition ex_digest :: string where
  "ex_digest = ''sha256:'' @ replicate 64 (CHR ''0'')"

definition ex_plan :: RuntimeExecutionPlan where
  "ex_plan = \<lparr>p_schema_version = RUNTIME_SCHEMA_VERSION, p_workspace_id = ''ws'', p_workspace_path = ''/w'',
     p_source_revision = ''r1'', p_workspace_source_digest = None, p_workspace_git_common_dir = None,
     p_executable = ''/bin/a'', p_executable_digest = ex_digest, p_args = [],
     p_cwd = ''/w'', p_env = [], p_timeout_ms = 1, p_stdout_limit_bytes = 1, p_stderr_limit_bytes = 1,
     p_steps = [], p_budget = \<lparr>b_memory_max_bytes = None, b_tasks_max = None, b_cpu_quota_percent = None\<rparr>,
     p_execution_profile = TrustedLocal, p_execution_target = LocalLinux, p_windows_authority = Limited,
     p_windows_execution_context = None, p_foreign_references = [], p_input_set_id = None,
     p_effective_inputs = [], p_credential_set_id = None, p_principal = ''me''\<rparr>"

definition ex_request :: SubmitRequest where
  "ex_request = \<lparr>sr_schema_version = RUNTIME_SCHEMA_VERSION, sr_client_request_id = ''c1'',
     sr_request_identity_digest = None, sr_execution_provider = None, sr_runtime_release_effect = None,
     sr_host_dependencies = [], sr_plan = ex_plan, sr_global_limit = 4\<rparr>"

definition ex_cfg :: RegistryConfig where
  "ex_cfg = \<lparr>rc_db_path = ''/s/db'', rc_store_root = ''/s'', rc_busy_timeout_ms = 1\<rparr>"

definition ex_ids :: PreallocatedAdmissionIds where
  "ex_ids = \<lparr>ids_job_id = ''job-1'', ids_attempt_id = ''attempt-1'', ids_reservation_id = ''res-1''\<rparr>"

text \<open>A connection on which every statement works; \<open>tag\<close> makes the event ids of a call its own.\<close>

definition ex_env :: "string \<Rightarrow> sql_env" where
  "ex_env tag = \<lparr>te_open = (\<lambda>_. None), te_begin = None, te_commit = CommitDone, te_reload = None,
     te_uuid = (\<lambda>k. tag @ replicate k (CHR ''i''))\<rparr>"

lemma ex_env_open [simp]:
  "open_connection (ex_env tag) = Inr ()" "immediate (ex_env tag) context = Inr ()"
  "te_commit (ex_env tag) = CommitDone" "te_reload (ex_env tag) = None"
  by (simp_all add: ex_env_def open_connection_def immediate_def)

lemma ex_identity_checks: "submit_identity_checks ex_request = Inr ()"
  by (simp add: submit_identity_checks_def ex_request_def ex_plan_def validate_client_request_id_def
    validate_identifier_def trim_scalars_def is_whitespace_def is_control_def contains_nul_def NUL_def
    validate_logical_id_def LOGICAL_ID_MIN_LENGTH_def LOGICAL_ID_MAX_LENGTH_def)

lemma ex_payload:
  assumes "h_page_size h = 4096" "h_arg_max h = 2097152"
  shows "validate_exec_payload h [] [] field = Inr ()"
  using assms by (simp add: validate_exec_payload_def validate_args_def validate_env_def
   linux_exec_string_limit_bytes_def linux_exec_payload_limit_bytes_def payload_required_bytes_def
   checked_add_def checked_mul_def USIZE_BOUND_def usize_try_from_def checked_sub_def)

lemma ex_limit_checks:
  assumes "h_page_size h = 4096" "h_arg_max h = 2097152"
  shows "submit_limit_checks h ex_plan = Inr ()"
  by (simp add: submit_limit_checks_def ex_plan_def validate_plan_budget_def
      validate_exec_payload_for_plan_def ex_payload[OF assms])

lemma example_host_limits: "h_page_size example_host = 4096" "h_arg_max example_host = 2097152"
  by (simp_all add: example_host_def)

lemma ex_other_checks:
  "submit_provider_check ex_request = Inr ()" "submit_host_dependency_check ex_request = Inr ()"
  "submit_release_check ex_request = Inr ()" "submit_path_checks ex_plan = Inr ()"
  "submit_inputs_check example_host ex_plan = Inr ()"
  by code_simp+

lemma ex_request_valid: "validate_submit example_host ex_request = Inr ()"
  unfolding validate_submit_def using ex_identity_checks ex_limit_checks[OF example_host_limits] ex_other_checks
  by (simp add: ex_request_def)

text \<open>The same request with two immutable inputs and a Host Dependency.\<close>

definition ex_input :: "string \<Rightarrow> EffectiveInputBinding" where
  "ex_input path = \<lparr>ei_authority = ''store'', ei_relative_object = ''o'', ei_digest = ex_digest, ei_byte_length = 1,
     ei_presentation_relative_path = path, ei_access = ReadOnly\<rparr>"

definition ex_inputs_plan :: RuntimeExecutionPlan where
  "ex_inputs_plan = ex_plan\<lparr>p_input_set_id := Some (replicate 64 (CHR ''a'')),
     p_effective_inputs := [ex_input ''a/b'', ex_input ''a/c'']\<rparr>"

definition ex_inputs_request :: SubmitRequest where
  "ex_inputs_request = ex_request\<lparr>sr_plan := ex_inputs_plan,
     sr_execution_provider := Some \<lparr>eps_contract = LocalLinuxRunnerV1, eps_executable_digest = ex_digest,
       eps_wsl_distribution = None\<rparr>,
     sr_host_dependencies := [\<lparr>hd_path = ''/l'', hd_expected_digest = ex_digest\<rparr>]\<rparr>"

lemma ex_input_valid:
  "validate_effective_input ex_inputs_plan 0 [] (ex_input ''a/b'') = Inr ()"
  "validate_effective_input ex_inputs_plan 1 [''a/b''] (ex_input ''a/c'') = Inr ()"
proof -
  have id: "validate_identifier (ei_authority (ex_input p)) field = Inr ()" for p field
    by (simp add: ex_input_def validate_identifier_def trim_scalars_def is_whitespace_def is_control_def
        contains_nul_def NUL_def)
  have digest: "validate_digest (ei_digest (ex_input p)) field = Inr ()" for p field
    by (simp add: ex_input_def) code_simp
  have paths: "only_normal_components (ei_relative_object (ex_input p))" "ei_presentation_relative_path (ex_input p) = p"
    "only_normal_components ''a/b''" "only_normal_components ''a/c''" "\<not> presentation_overlap ''a/c'' ''a/b''" for p
    by (simp_all add: ex_input_def) code_simp+
  show "validate_effective_input ex_inputs_plan 0 [] (ex_input ''a/b'') = Inr ()"
    "validate_effective_input ex_inputs_plan 1 [''a/b''] (ex_input ''a/c'') = Inr ()"
    using id digest paths by (simp_all add: validate_effective_input_def ex_inputs_plan_def ex_plan_def)
qed

lemma ex_inputs_valid:
  assumes "h_page_size h = 4096" "h_arg_max h = 2097152"
  shows "validate_submit h ex_inputs_request = Inr ()"
proof -
  have "submit_identity_checks ex_inputs_request = submit_identity_checks ex_request"
    by (simp add: submit_identity_checks_def ex_inputs_request_def ex_inputs_plan_def ex_request_def)
  moreover have "submit_limit_checks h ex_inputs_plan = submit_limit_checks h ex_plan"
    by (simp add: submit_limit_checks_def ex_inputs_plan_def)
  moreover have "submit_inputs_check h ex_inputs_plan = Inr ()"
  proof -
    have "submit_input_set_check ex_inputs_plan = Inr ()" "p_execution_target ex_inputs_plan \<noteq> WindowsNative" by code_simp+
    moreover have "p_effective_inputs ex_inputs_plan = [ex_input ''a/b'', ex_input ''a/c'']"
      "ei_presentation_relative_path (ex_input p) = p" for p by (simp_all add: ex_inputs_plan_def ex_input_def)
    ultimately show ?thesis using ex_input_valid by (simp add: submit_inputs_check_def)
  qed
  moreover have "submit_provider_check ex_inputs_request = Inr ()" "submit_host_dependency_check ex_inputs_request = Inr ()"
    "submit_release_check ex_inputs_request = Inr ()" "submit_path_checks ex_inputs_plan = Inr ()" by code_simp+
  moreover have "sr_plan ex_inputs_request = ex_inputs_plan" by (simp add: ex_inputs_request_def)
  ultimately show ?thesis
    using ex_identity_checks ex_limit_checks[OF assms] unfolding validate_submit_def by simp
qed

section \<open>The databases\<close>

definition ex_submit :: "AdmissionOutcome result \<times> registry" where
  "ex_submit = submit_preallocated example_host (ex_env ''a'') ex_cfg (Inr 5) FenceShared empty_registry
     ex_request ex_ids"

definition ex_db1 :: registry where
  "ex_db1 = snd ex_submit"

definition ex_db2 :: registry where
  "ex_db2 = snd (mark_bundle_ready example_host (ex_env ''b'') ex_db1 ''attempt-1'' 0 ex_digest 6)"

definition ex_db3 :: registry where
  "ex_db3 = snd (mark_dispatch_issued example_host (ex_env ''c'') ex_db2 ''attempt-1'' 1 7)"

definition ex_terminal :: "AttemptState \<Rightarrow> nat \<Rightarrow> TerminalCommit" where
  "ex_terminal s version = \<lparr>tc_attempt_id = ''attempt-1'', tc_expected_row_version = version, tc_state = s,
     tc_result_digest = ex_digest, tc_exit_code = Some 1, tc_infrastructure_error_digest = None,
     tc_finished_at_ms = 8, tc_artifacts = [], tc_reason_code = ''EXIT''\<rparr>"

text \<open>The Job failed; the Job was orphaned; the Job was cancelled while starting.\<close>

definition ex_failed :: registry where
  "ex_failed = snd (commit_terminal example_host (ex_env ''d'') ex_db3 (ex_terminal Failed 2))"

definition ex_orphaned :: registry where
  "ex_orphaned = snd (commit_terminal example_host (ex_env ''d'') ex_db3 (ex_terminal Orphaned 2))"

definition ex_cancelled :: registry where
  "ex_cancelled = snd (request_cancel example_host (ex_env ''d'') ex_db3 ''job-1'' 8)"

text \<open>Evaluation of the submit skips the validation, which is done above.\<close>

lemma ex_submit_code [code]:
  "ex_submit = (case prepare_admission example_host ex_cfg ex_request ex_ids 5 of
     Inl e \<Rightarrow> (Inl e, empty_registry)
   | Inr pa \<Rightarrow> in_transaction (ex_env ''a'') empty_registry
       (submit_tx example_host (ex_env ''a'') ex_cfg FenceShared ex_request pa) (\<lambda>now y. Inr (fst y))
       (\<lambda>context y autocommit error now.
          if snd y then reconcile_admission_commit_failure (ex_env ''a'') ex_request
                 (j_operation_digest (pa_job pa)) context autocommit error now
          else Inl (from_sql error context)))"
  unfolding ex_submit_def submit_preallocated_def ex_request_valid
  by (simp add: now_ms_def begin_admission_def ex_env_def[of "''a''", THEN arg_cong, of te_begin]
      split: sum.split)

text \<open>The rows the admission writes, and the databases in terms of them.\<close>

definition ex_job :: RuntimeJobRecord where
  "ex_job = \<lparr>j_job_id = ''job-1'', j_principal = ''me'', j_client_request_id = ''c1'', j_request_digest = ex_digest,
     j_operation_digest = ex_digest, j_workspace_id = ''ws'', j_workspace_snapshot_json = [],
     j_execution_plan_json = [], j_execution_plan_digest = ex_digest, j_created_at_ms = 5, j_desired_state = Run,
     j_resolution = None, j_current_attempt_id = Some ''attempt-1'', j_row_version = 0\<rparr>"

definition ex_attempt :: attempt_row where
  "ex_attempt = \<lparr>a_attempt_id = ''attempt-1'', a_job_id = ''job-1'', a_attempt_number = 1, a_state = Accepted,
     a_termination_intent = Natural, a_launch_token_digest = ex_digest, a_bundle_path = ''/s/attempts/attempt-1'',
     a_bundle_digest = None, a_boot_id = None, a_unit_name = ''ordivon-attempt-1.service'',
     a_invocation_id = None, a_control_group = None, a_main_pid = None, a_process_start_identity = None,
     a_runner_start_digest = None, a_result_digest = None, a_exit_code = None, a_infrastructure_error_digest = None,
     a_created_at_ms = 5, a_started_at_ms = None, a_finished_at_ms = None, a_row_version = 0, a_recovery = None\<rparr>"

definition ex_event ::
  "string \<Rightarrow> nat \<Rightarrow> string \<Rightarrow> string \<Rightarrow> AttemptState option \<Rightarrow> AttemptState option \<Rightarrow> string \<Rightarrow> nat \<Rightarrow> job_event" where
  "ex_event k n type origin old new reason at = \<lparr>ev_event_id = ''event-'' @ k, ev_job_id = ''job-1'',
     ev_attempt_id = Some ''attempt-1'', ev_sequence = n, ev_type = type, ev_origin = origin,
     ev_previous_state = old, ev_new_state = new, ev_reason_code = reason, ev_detail_json = [],
     ev_detail_digest = ex_digest, ev_observed_at_ms = at\<rparr>"

definition ex_start :: registry where
  "ex_start = empty_registry\<lparr>jobs := [ex_job], attempts := [ex_attempt],
     reservations := [\<lparr>r_reservation_id = ''res-1'', r_attempt_id = ''attempt-1'', r_global_limit = 4,
        r_state = Active, r_acquired_at_ms = 5, r_released_at_ms = None, r_release_reason = None,
        r_state_observed_at_ms = 5\<rparr>],
     idempotency_keys := [\<lparr>ik_principal = ''me'', ik_client_request_id = ''c1'', ik_operation_digest = ex_digest,
        ik_job_id = ''job-1'', ik_created_at_ms = 5\<rparr>],
     job_events := [ex_event ''a'' 1 ''REQUEST_RECEIVED'' ''SYSTEM_DERIVED'' None None ''REQUEST_ACCEPTED'' 5,
        ex_event ''ai'' 2 ''JOB_RECORD_CREATED'' ''SYSTEM_DERIVED'' None None ''JOB_CREATED'' 5,
        ex_event ''aii'' 3 ''ATTEMPT_CREATED'' ''SYSTEM_DERIVED'' None (Some Accepted) ''ATTEMPT_ACCEPTED'' 5]\<rparr>"

lemma ex_submit_created_job: "case fst ex_submit of Inr (Created c) \<Rightarrow> j_job_id (ca_job c) = ''job-1'' | _ \<Rightarrow> False"
  by code_simp

lemma ex_db1_code [code]: "ex_db1 = ex_start"
  by code_simp

lemma ex_db3_code [code]:
  "ex_db3 = ex_start\<lparr>
     attempts := [ex_attempt\<lparr>a_state := Starting, a_bundle_digest := Some ex_digest, a_row_version := 2\<rparr>],
     job_events := job_events ex_start @
       [ex_event ''b'' 4 ''BUNDLE_READY'' ''SYSTEM_OBSERVED'' (Some Accepted) (Some Accepted) ''BUNDLE_COMMITTED'' 6,
        ex_event ''c'' 5 ''DISPATCH_ISSUED'' ''SYSTEM_DERIVED'' (Some Accepted) (Some Starting)
          ''AT_MOST_ONCE_BOUNDARY_COMMITTED'' 7]\<rparr>"
  by code_simp

definition ex_done :: "AttemptState \<Rightarrow> registry" where
  "ex_done s = ex_db3\<lparr>jobs := [ex_job\<lparr>j_resolution := Some (if s = Failed then ResFailed else ResOrphaned),
       j_current_attempt_id := None, j_row_version := 1\<rparr>],
     attempts := map (\<lambda>a. a\<lparr>a_state := s, a_result_digest := Some ex_digest, a_exit_code := Some 1,
       a_finished_at_ms := Some 8, a_row_version := 3\<rparr>) (attempts ex_db3),
     reservations := map (\<lambda>r. r\<lparr>r_state := (if s = Failed then Released else HeldOrphaned),
       r_released_at_ms := (if s = Failed then Some 8 else None), r_release_reason := Some ''EXIT'',
       r_state_observed_at_ms := 8\<rparr>) (reservations ex_db3),
     job_events := job_events ex_db3 @
       [ex_event ''d'' 6 ''PROCESS_EXITED'' ''SYSTEM_OBSERVED'' (Some Starting) (Some s) ''EXIT'' 8,
        ex_event ''di'' 7 ''JOB_TERMINAL'' ''SYSTEM_DERIVED'' (Some Starting) (Some s) ''EXIT'' 8]\<rparr>"

lemma ex_failed_code [code]: "ex_failed = ex_done Failed"
  by code_simp

lemma ex_orphaned_code [code]: "ex_orphaned = ex_done Orphaned"
  by code_simp

lemma ex_cancelled_code [code]:
  "ex_cancelled = ex_db3\<lparr>jobs := [ex_job\<lparr>j_desired_state := DesiredCancelled, j_row_version := 1\<rparr>],
     attempts := map (\<lambda>a. a\<lparr>a_state := Stopping, a_termination_intent := StopRequested, a_row_version := 3\<rparr>)
       (attempts ex_db3),
     job_events := job_events ex_db3 @ [ex_event ''d'' 6 ''STOP_REQUESTED'' ''SYSTEM_DERIVED'' (Some Starting)
       (Some Stopping) ''CANCEL_INTENT_COMMITTED'' 8]\<rparr>"
  by code_simp

lemma ex_submit_created: "\<exists>c. ex_submit = (Inr (Created c), ex_db1) \<and> j_job_id (ca_job c) = ''job-1''"
proof -
  obtain c where "fst ex_submit = Inr (Created c)" "j_job_id (ca_job c) = ''job-1''"
    using ex_submit_created_job by (simp split: sum.splits AdmissionOutcome.splits)
  then show ?thesis unfolding ex_db1_def by (metis prod.collapse)
qed

section \<open>A host that reads back\<close>

text \<open>A host whose readers know the one request that is printed.\<close>

definition ex_host :: host where
  "ex_host = example_host\<lparr>h_plan_parse := (\<lambda>_. Inr ex_inputs_plan),
     h_provider_parse := (\<lambda>_. Inr (the (sr_execution_provider ex_inputs_request))),
     h_host_dependencies_parse := (\<lambda>_. Inr (sr_host_dependencies ex_inputs_request)),
     h_json_parse := (\<lambda>_. Inr (workspace_snapshot ex_inputs_plan (Some ex_digest) (Some ex_digest) None))\<rparr>"

lemma ex_host_limits: "h_page_size ex_host = 4096" "h_arg_max ex_host = 2097152"
  by (simp_all add: ex_host_def example_host_def)

definition ex_inputs_submit :: "AdmissionOutcome result \<times> registry" where
  "ex_inputs_submit = submit_preallocated ex_host (ex_env ''a'') ex_cfg (Inr 5) FenceShared empty_registry
     ex_inputs_request ex_ids"

lemma ex_inputs_submit_code [code]:
  "ex_inputs_submit = (case prepare_admission ex_host ex_cfg ex_inputs_request ex_ids 5 of
     Inl e \<Rightarrow> (Inl e, empty_registry)
   | Inr pa \<Rightarrow> in_transaction (ex_env ''a'') empty_registry
       (submit_tx ex_host (ex_env ''a'') ex_cfg FenceShared ex_inputs_request pa) (\<lambda>now y. Inr (fst y))
       (\<lambda>context y autocommit error now.
          if snd y then reconcile_admission_commit_failure (ex_env ''a'') ex_inputs_request
                 (j_operation_digest (pa_job pa)) context autocommit error now
          else Inl (from_sql error context)))"
  unfolding ex_inputs_submit_def submit_preallocated_def ex_inputs_valid[OF ex_host_limits]
  by (simp add: now_ms_def begin_admission_def ex_env_def[of "''a''", THEN arg_cong, of te_begin]
      split: sum.split)

lemma ex_inputs_created: "\<exists>c. ex_inputs_submit = (Inr (Created c), snd ex_inputs_submit) \<and> j_job_id (ca_job c) = ''job-1''"
proof -
  have "case fst ex_inputs_submit of Inr (Created c) \<Rightarrow> j_job_id (ca_job c) = ''job-1'' | _ \<Rightarrow> False" by code_simp
  then obtain c where "fst ex_inputs_submit = Inr (Created c)" "j_job_id (ca_job c) = ''job-1''"
    by (simp split: sum.splits AdmissionOutcome.splits)
  then show ?thesis by (metis prod.collapse)
qed

end
