(* ===== verification/Registry_Witnesses.thy ===== *)
theory Registry_Witnesses
  imports Recovery_Guarantees Query_Guarantees Job_Traces Registry_Examples
begin

text \<open>
  The properties of the registry applied to the concrete scenario of \<open>Registry_Examples\<close>: every
  hypothesis is discharged by evaluation, so each property speaks of databases that exist.
\<close>

section \<open>The scenario is a run\<close>

definition ex_busy :: sql_error where
  "ex_busy = SqliteFailure DatabaseBusy ''database is locked''"

lemma ok_pair: "\<not> isl (fst x) \<Longrightarrow> x = (Inr (projr (fst x)), snd x)"
  by (cases x) (auto simp: isl_def split: sum.splits elim: sum.exhaust)

lemma ex_env_healthy: "healthy (ex_env tag)"
  by (simp add: healthy_def ex_env_def)

lemma ex_env_done: "(ex_env tag)\<lparr>te_commit := CommitDone\<rparr> = ex_env tag"
  by (simp add: ex_env_def)

lemma ex_reach1: "reachable_registry example_host ex_cfg empty_registry" "reachable_registry example_host ex_cfg ex_db1"
proof -
  show start: "reachable_registry example_host ex_cfg empty_registry"
    unfolding reachable_registry_def by (rule reach_init) simp
  show "reachable_registry example_host ex_cfg ex_db1"
    using reach_step[OF start[unfolded reachable_registry_def] rs_submit]
    unfolding reachable_registry_def ex_db1_def ex_submit_def .
qed

lemma ex_step:
  assumes "reachable_registry example_host ex_cfg db" and "registry_step example_host ex_cfg db db'"
  shows "reachable_registry example_host ex_cfg db'"
  using reach_step assms unfolding reachable_registry_def by metis

lemma ex_reach:
  "reachable_registry example_host ex_cfg ex_db2" "reachable_registry example_host ex_cfg ex_db3"
  "reachable_registry example_host ex_cfg ex_failed" "reachable_registry example_host ex_cfg ex_orphaned"
  "reachable_registry example_host ex_cfg ex_cancelled"
proof -
  show 2: "reachable_registry example_host ex_cfg ex_db2"
    unfolding ex_db2_def by (rule ex_step[OF ex_reach1(2) rs_bundle_ready])
  show 3: "reachable_registry example_host ex_cfg ex_db3"
    unfolding ex_db3_def by (rule ex_step[OF 2 rs_dispatch])
  show "reachable_registry example_host ex_cfg ex_failed" unfolding ex_failed_def by (rule ex_step[OF 3 rs_terminal])
  show "reachable_registry example_host ex_cfg ex_orphaned" unfolding ex_orphaned_def by (rule ex_step[OF 3 rs_terminal])
  show "reachable_registry example_host ex_cfg ex_cancelled" unfolding ex_cancelled_def by (rule ex_step[OF 3 rs_cancel])
qed

lemma ex_runs:
  "registry_run example_host ex_cfg ex_db1 ex_db3" "registry_run example_host ex_cfg ex_db3 ex_failed"
  "registry_run example_host ex_cfg ex_cancelled ex_cancelled"
proof -
  have "registry_step example_host ex_cfg ex_db1 ex_db2" "registry_step example_host ex_cfg ex_db2 ex_db3"
    unfolding ex_db2_def ex_db3_def by (rule rs_bundle_ready rs_dispatch)+
  then show "registry_run example_host ex_cfg ex_db1 ex_db3"
    unfolding registry_run_def by (meson rtranclp.rtrancl_into_rtrancl rtranclp.rtrancl_refl)
  have "registry_step example_host ex_cfg ex_db3 ex_failed" unfolding ex_failed_def by (rule rs_terminal)
  then show "registry_run example_host ex_cfg ex_db3 ex_failed" unfolding registry_run_def by blast
  show "registry_run example_host ex_cfg ex_cancelled ex_cancelled" unfolding registry_run_def by simp
qed

lemma linked_single:
  assumes "map j_job_id (jobs db) = [k]" "map (\<lambda>a. (a_job_id a, a_attempt_id a)) (attempts db) = [(k, m)]"
    "map r_attempt_id (reservations db) = [m]"
  shows "linked db (hd (jobs db)) (hd (attempts db)) (hd (reservations db))"
  using assms by (auto simp: linked_def)

lemma ex_linked:
  "linked ex_db3 (hd (jobs ex_db3)) (hd (attempts ex_db3)) (hd (reservations ex_db3))"
  "linked ex_failed (hd (jobs ex_failed)) (hd (attempts ex_failed)) (hd (reservations ex_failed))"
  "linked ex_cancelled (hd (jobs ex_cancelled)) (hd (attempts ex_cancelled)) (hd (reservations ex_cancelled))"
  by (rule linked_single[of _ "''job-1''" "''attempt-1''"]; code_simp)+

section \<open>Reachable databases and runs\<close>

theorem reachable_inspection_clean_witness:
  "reachable_registry example_host ex_cfg ex_failed \<and> inspect_runtime_invariants ex_failed = []"
  using ex_reach(3) reachable_inspection_clean[OF ex_reach(3)] by blast

theorem at_most_one_dispatch_witness:
  "reachable_registry example_host ex_cfg ex_db3 \<and> dispatch_count (job_events ex_db3) ''attempt-1'' \<le> 1"
  using ex_reach(2) at_most_one_dispatch[OF ex_reach(2), of "''attempt-1''"] by blast

theorem process_states_were_dispatched_witness:
  "a_state (hd (attempts ex_db3)) = Starting
   \<and> dispatch_count (job_events ex_db3) (a_attempt_id (hd (attempts ex_db3))) = 1"
proof -
  have "a_state (hd (attempts ex_db3)) = Starting" by code_simp
  then show ?thesis
    using process_states_were_dispatched[OF ex_reach(2), of "hd (attempts ex_db3)"] ex_linked(1)
    unfolding linked_def by blast
qed

theorem resolution_only_sharpens_witness:
  "\<exists>j j'. tbl_lookup j_job_id (jobs ex_db3) ''job-1'' = Some j
     \<and> tbl_lookup j_job_id (jobs ex_failed) ''job-1'' = Some j' \<and> job_identity j' = job_identity j"
proof -
  have "tbl_lookup j_job_id (jobs ex_db3) ''job-1'' \<noteq> None" by code_simp
  then obtain j where "tbl_lookup j_job_id (jobs ex_db3) ''job-1'' = Some j" by blast
  with resolution_only_sharpens[OF ex_reach(2) ex_runs(2) this] show ?thesis by blast
qed

theorem cancelled_never_dispatched_witness:
  "j_desired_state (hd (jobs ex_cancelled)) = DesiredCancelled
   \<and> (\<exists>j'. tbl_lookup j_job_id (jobs ex_cancelled) ''job-1'' = Some j' \<and> j_desired_state j' = DesiredCancelled)"
proof -
  have d: "j_desired_state (hd (jobs ex_cancelled)) = DesiredCancelled" "j_job_id (hd (jobs ex_cancelled)) = ''job-1''"
    by code_simp+
  have "tbl_lookup j_job_id (jobs ex_cancelled) ''job-1'' = Some (hd (jobs ex_cancelled))"
    using linked_lookup(1)[OF full_invD(1)[OF reachable_full_inv[OF ex_reach(5)]] ex_linked(3)] d(2) by simp
  then show ?thesis
    using cancelled_never_dispatched[OF ex_reach(5) ex_runs(3) _ d(1), of "''job-1''" "hd (attempts ex_cancelled)"]
      ex_linked(3) d unfolding linked_def by simp
qed

theorem event_log_append_only_witness:
  "prefix (job_events ex_db1) (job_events ex_db3) \<and> length (job_events ex_db1) < length (job_events ex_db3)"
proof -
  have "length (job_events ex_db1) < length (job_events ex_db3)" by code_simp
  then show ?thesis using event_log_append_only[OF ex_reach1(2) ex_runs(1)] by blast
qed

theorem one_execution_per_workspace_witness:
  "reachable_registry example_host ex_cfg ex_db3 \<and> workspace_active ex_db3 ''ws'' \<le> WORKSPACE_EXECUTION_LIMIT"
  using ex_reach(2) one_execution_per_workspace[OF ex_reach(2), of "''ws''"] by blast

theorem registry_implements_job_machine_witness:
  "\<exists>a r evs. linked ex_failed (hd (jobs ex_failed)) a r
     \<and> job_run initial_view evs (view_of (hd (jobs ex_failed)) a r)
     \<and> events_of (job_events ex_failed) ''job-1'' = admission_events @ evs"
proof -
  have "tbl_lookup j_job_id (jobs ex_failed) ''job-1'' = Some (hd (jobs ex_failed))" by code_simp
  from ex1_implies_ex[OF registry_implements_job_machine[OF ex_reach(3) this]] show ?thesis
    by (elim exE) (simp only: split_paired_all prod.case, blast)
qed

section \<open>Admission\<close>

lemma ex_created:
  obtains c where "submit_preallocated example_host (ex_env ''a'') ex_cfg (Inr 5) FenceShared empty_registry ex_request ex_ids
     = (Inr (Created c), ex_db1)" and "j_job_id (ca_job c) = ''job-1''"
  using ex_submit_created unfolding ex_submit_def by blast

theorem admission_respects_limits_witness:
  "workspace_active empty_registry ''ws'' = 0 \<and> workspace_active ex_db1 ''ws'' = 1 \<and> global_active ex_db1 \<le> 4"
proof -
  have req: "p_workspace_id (sr_plan ex_request) = ''ws''" "sr_global_limit ex_request = 4"
    by (simp_all add: ex_request_def ex_plan_def)
  obtain c where "submit_preallocated example_host (ex_env ''a'') ex_cfg (Inr 5) FenceShared empty_registry ex_request ex_ids
     = (Inr (Created c), ex_db1)" by (rule ex_created)
  from admission_respects_limits[OF ex_reach1(1) this] show ?thesis unfolding req by blast
qed

theorem admitted_request_replays_witness:
  "\<exists>j. submit_preallocated example_host (ex_env ''b'') ex_cfg (Inr 9) FenceShared ex_db3 ex_request ex_ids
     = (Inr (Existing j), ex_db3)"
proof -
  obtain c where "submit_preallocated example_host (ex_env ''a'') ex_cfg (Inr 5) FenceShared empty_registry ex_request ex_ids
     = (Inr (Created c), ex_db1)" by (rule ex_created)
  from admitted_request_replays[OF ex_reach1(1) this ex_runs(1) ex_env_healthy[of "''b''"], of 9 FenceShared ex_ids]
  show ?thesis by auto
qed


section \<open>Life cycle\<close>

lemma ex_terminal_ok: "commit_terminal example_host (ex_env ''d'') ex_db3 (ex_terminal Failed 2)
    = (Inr (projr (fst (commit_terminal example_host (ex_env ''d'') ex_db3 (ex_terminal Failed 2)))), ex_failed)"
  unfolding ex_failed_def by (rule ok_pair) code_simp

lemma ex_cancel_ok: "request_cancel example_host (ex_env ''d'') ex_db3 ''job-1'' 8
    = (Inr (projr (fst (request_cancel example_host (ex_env ''d'') ex_db3 ''job-1'' 8))), ex_cancelled)"
  unfolding ex_cancelled_def by (rule ok_pair) code_simp

theorem projection_truthful_witness:
  "\<exists>p. map_sum id js_projection (load_job_snapshot_in ex_failed ''job-1'') = Inr p \<and> jpr_result_available p"
proof -
  have j: "tbl_lookup j_job_id (jobs ex_failed) ''job-1'' = Some (hd (jobs ex_failed))"
    "j_resolution (hd (jobs ex_failed)) \<noteq> None" by code_simp+
  from projection_truthful[OF ex_reach(3) j(1)] j(2) show ?thesis by blast
qed

theorem terminal_commit_durable_witness:
  "\<exists>j a r. linked ex_failed j a r \<and> a_state a = Failed \<and> r_state r = Released"
  using terminal_commit_durable[OF ex_reach(2) ex_terminal_ok] by (simp add: ex_terminal_def) blast

theorem terminal_commit_replay_witness:
  "(\<exists>p. commit_terminal example_host (ex_env ''e'') ex_failed (ex_terminal Failed 7) = (Inr p, ex_failed))
   \<and> commit_terminal example_host (ex_env ''e'') ex_failed (ex_terminal Succeeded 3)
     = (Inl (error_new ResultIdentityConflict ''Attempt already has a different terminal result''
          (Some ''resultDigest'') False), ex_failed)"
proof -
  have ok: "terminal_request_ok (ex_terminal Failed 7)" "terminal_request_ok (ex_terminal Succeeded 3)" by code_simp+
  have same: "tc_attempt_id (ex_terminal s v) = tc_attempt_id (ex_terminal t w)"
    "tc_result_digest (ex_terminal s v) = tc_result_digest (ex_terminal t w)" "tc_state (ex_terminal s v) = s" for s v t w
    by (simp_all add: ex_terminal_def)
  note replay = terminal_commit_replay[OF ex_reach(2) ex_terminal_ok ex_env_healthy[of "''e''"] _ same(1)]
  from replay[OF ok(1)] replay[OF ok(2)] show ?thesis unfolding same(3) by (simp add: same(2)[of _ 7 Failed 2])
qed

theorem terminal_commit_fault_exact_witness:
  "\<exists>p. commit_terminal example_host ((ex_env ''d'')\<lparr>te_commit := CommitFailed True ex_busy\<rparr>) ex_db3 (ex_terminal Failed 2)
     = (Inr p, ex_failed)"
proof -
  have live: "tbl_lookup a_attempt_id (attempts ex_db3) (tc_attempt_id (ex_terminal Failed 2)) = Some (hd (attempts ex_db3))"
    "\<not> is_terminal (a_state (hd (attempts ex_db3)))" by code_simp+
  have "te_reload (ex_env ''d'') = None" by simp
  note fault = terminal_commit_fault_exact[where env = "ex_env ''d''" and e = ex_busy, unfolded ex_env_done, OF ex_reach(2) this ex_terminal_ok live]
  show ?thesis by (rule exI, rule conjunct1[OF fault])
qed


theorem cancel_commit_fault_exact_witness:
  "\<exists>p. request_cancel example_host ((ex_env ''d'')\<lparr>te_commit := CommitFailed True ex_busy\<rparr>) ex_db3 ''job-1'' 8
     = (Inr p, ex_cancelled)"
proof -
  have live: "j_job_id (hd (jobs ex_db3)) = ''job-1''" "j_resolution (hd (jobs ex_db3)) = None"
    "a_state (hd (attempts ex_db3)) \<noteq> Stopping" by code_simp+
  have "te_reload (ex_env ''d'') = None" by simp
  note fault = cancel_commit_fault_exact[where env = "ex_env ''d''" and e = ex_busy, unfolded ex_env_done, OF ex_reach(2) this ex_cancel_ok ex_linked(1) live]
  show ?thesis by (rule conjunct1[OF fault])
qed

theorem orphan_cancel_lost_but_acknowledged_witness:
  "\<exists>p. request_cancel example_host ((ex_env ''e'')\<lparr>te_commit := CommitFailed False ex_busy\<rparr>) ex_orphaned ''job-1'' 9
     = (Inr p, ex_orphaned) \<and> jpr_desired_state p = Run"
proof -
  let ?x = "request_cancel example_host (ex_env ''e'') ex_orphaned ''job-1'' 9"
  have "\<not> isl (fst ?x)" by code_simp
  note ok = ok_pair[OF this]
  have j: "tbl_lookup j_job_id (jobs ex_orphaned) ''job-1'' = Some (hd (jobs ex_orphaned))"
    "j_resolution (hd (jobs ex_orphaned)) = Some ResOrphaned" "j_desired_state (hd (jobs ex_orphaned)) = Run" by code_simp+
  have "te_reload (ex_env ''e'') = None" by simp
  note lost = orphan_cancel_lost_but_acknowledged[where env = "ex_env ''e''" and e = ex_busy, unfolded ex_env_done, OF ex_reach(4) this ok j]
  show ?thesis using lost by (elim exE conjE) (intro exI conjI)
qed

theorem deadline_respects_stop_witness:
  "\<exists>rec. request_deadline_termination example_host (ex_env ''e'') ex_cancelled ''attempt-1'' 9 = (Inr rec, ex_cancelled)"
proof -
  have a: "a_attempt_id (hd (attempts ex_cancelled)) = ''attempt-1''" "j_desired_state (hd (jobs ex_cancelled)) = DesiredCancelled"
    by code_simp+
  note deadline = deadline_respects_stop[OF ex_reach(5) ex_env_healthy[of "''e''"] ex_linked(3), of 9]
  show ?thesis using deadline a by auto
qed

definition ex_runner :: RunnerIdentity where
  "ex_runner = \<lparr>ri_boot_id = ''boot'', ri_unit_name = ''ordivon-attempt-1.service'', ri_invocation_id = ''inv'',
     ri_control_group = ''/cg'', ri_main_pid = 7, ri_process_start_identity = ''9001'',
     ri_runner_start_digest = ex_digest, ri_observed_at_ms = 8\<rparr>"

lemma ex_runner_valid: "validate_runner_identity ex_runner = Inr ()"
proof -
  have "for_each (\<lambda>(val, field). validate_identifier val field)
       [(ri_boot_id ex_runner, ''bootId''), (ri_unit_name ex_runner, ''unitName''),
        (ri_invocation_id ex_runner, ''invocationId''), (ri_process_start_identity ex_runner, ''processStartIdentity'')]
      = Inr ()"
    by (simp add: ex_runner_def validate_identifier_def trim_scalars_def is_whitespace_def is_control_def
        contains_nul_def NUL_def)
  moreover have "ends_with (ri_unit_name ex_runner) ''.service''" "ri_main_pid ex_runner \<noteq> 0"
    "path_is_absolute (ri_control_group ex_runner)"
    "validate_digest (ri_runner_start_digest ex_runner) ''runnerStartDigest'' = Inr ()" by code_simp+
  ultimately show ?thesis unfolding validate_runner_identity_def by simp
qed

lemma ex_bind_ok: "bind_running example_host (ex_env ''d'') ex_db3 ''attempt-1'' 2 ex_runner
    = (Inr (projr (fst (bind_running example_host (ex_env ''d'') ex_db3 ''attempt-1'' 2 ex_runner))),
       snd (bind_running example_host (ex_env ''d'') ex_db3 ''attempt-1'' 2 ex_runner))"
proof -
  have "\<not> isl (fst (transact (ex_env ''d'') ''runner-bind transaction'' ex_db3
          (bind_running_tx example_host (ex_env ''d'') ''attempt-1'' 2 ex_runner)
          (\<lambda>now _. reload_attempt (ex_env ''d'') now ''attempt-1'') commit_map_err))" by code_simp
  then show ?thesis unfolding bind_running_def ex_runner_valid sum.case by (rule ok_pair)
qed

theorem bind_running_idempotent_witness:
  "\<exists>rec db. bind_running example_host (ex_env ''d'') ex_db3 ''attempt-1'' 2 ex_runner = (Inr rec, db)
     \<and> (\<exists>rec'. bind_running example_host (ex_env ''e'') db ''attempt-1'' 9 ex_runner = (Inr rec', db))"
  using bind_running_idempotent[OF ex_reach(2) ex_bind_ok ex_env_healthy[of "''e''"], of 9] ex_bind_ok by blast

section \<open>Recovery\<close>

theorem orphan_recovery_durable_witness:
  "\<exists>db j a r. linked db j a r \<and> a_attempt_id a = ''attempt-1'' \<and> a_state a = Succeeded \<and> r_state r = Released
     \<and> db = snd (recover_orphaned_terminal example_host (ex_env ''e'') ex_orphaned (ex_terminal Succeeded 3))"
proof -
  have "\<not> isl (fst (recover_orphaned_terminal example_host (ex_env ''e'') ex_orphaned (ex_terminal Succeeded 3)))" by code_simp
  note recovered = orphan_recovery_durable[OF ex_reach(4) ok_pair[OF this]]
  have "tc_state (ex_terminal Succeeded 3) = Succeeded" "tc_attempt_id (ex_terminal Succeeded 3) = ''attempt-1''"
    by (simp_all add: ex_terminal_def)
  with recovered show ?thesis by metis
qed

text \<open>A database whose capacity was never given back, and the repair of it.\<close>

definition ex_broken :: registry where
  "ex_broken = ex_failed\<lparr>reservations := reservations ex_db3\<rparr>"

definition ex_repair :: AdminRepairOperation where
  "ex_repair = RepairReservation ''attempt-1'' 3 \<lparr>au_report_fingerprint = ex_digest, au_case_fingerprint = ex_digest,
     au_snapshot_path = ''/s/snap'', au_snapshot_digest = ex_digest, au_principal = ''op'', au_action = ''repair'',
     au_observed_at_ms = 9, au_expected_job_row_version = 1, au_expected_current_attempt_id = None,
     au_expected_reservation_state = Active\<rparr>"

lemma repair_batch_example:
  "inspect_runtime_invariants ex_broken \<noteq> [] \<and>
   fst (repair_admin_batch example_host (ex_env ''e'') ex_broken [ex_repair]) = Inr () \<and>
   inspect_runtime_invariants (snd (repair_admin_batch example_host (ex_env ''e'') ex_broken [ex_repair])) = []"
proof -
  have "inspect_runtime_invariants ex_broken \<noteq> []"
    "fst (repair_admin_batch example_host (ex_env ''e'') ex_broken [ex_repair]) = Inr ()" by code_simp+
  then show ?thesis
    using repair_batch_all_or_nothing[of example_host "ex_env ''e''" ex_broken "[ex_repair]", OF prod.collapse[symmetric]]
    by blast
qed

theorem converge_finds_nothing_witness:
  "converge_terminal_reservation example_host (ex_env ''e'') ex_failed ''attempt-1'' 9 = (Inr False, ex_failed)"
proof -
  have a: "a_attempt_id (hd (attempts ex_failed)) = ''attempt-1''" "is_terminal (a_state (hd (attempts ex_failed)))" by code_simp+
  have "open_connection (ex_env ''e'') = Inr ()" by simp
  from converge_finds_nothing[OF ex_reach(3) ex_linked(2) this, of 9] a show ?thesis by simp
qed

theorem maintenance_scan_complete_witness:
  "\<exists>rows. list_maintenance_attempts_bounded (ex_env ''e'') ex_db3 1 = Inr (map attempt_record rows) \<and> length rows \<le> 1"
proof -
  let ?found = "projr (list_maintenance_attempts_bounded (ex_env ''e'') ex_db3 1)"
  have "\<not> isl (list_maintenance_attempts_bounded (ex_env ''e'') ex_db3 1)" by code_simp
  then have found: "list_maintenance_attempts_bounded (ex_env ''e'') ex_db3 1 = Inr ?found" by (simp add: sum.collapse)
  from maintenance_scan_complete[OF ex_reach(2) found] found show ?thesis by metis
qed

theorem recovery_condition_follows_record_witness:
  "\<exists>db. record_reconciliation_failure example_host (ex_env ''d'') ex_db3 (attempt_record (hd (attempts ex_db3)))
       (error_invalid ''lost'' ''unit'') 8 = (Inr (), db)
     \<and> attempt_recovery_condition_active db ''attempt-1''"
proof -
  let ?x = "record_reconciliation_failure example_host (ex_env ''d'') ex_db3 (attempt_record (hd (attempts ex_db3)))
       (error_invalid ''lost'' ''unit'') 8"
  have "\<not> isl (fst ?x)" by code_simp
  then have "?x = (Inr (), snd ?x)" using ok_pair[of ?x] by simp
  moreover have "a_attempt_id (attempt_record (hd (attempts ex_db3))) = ''attempt-1''" by code_simp
  moreover note recovery_condition_follows_record[OF ex_reach(2) ex_env_healthy[of "''e''"] calculation(1), of 9]
  ultimately show ?thesis by metis
qed

section \<open>Validation\<close>


theorem accepted_request_prepares_witness:
  "\<exists>pa. prepare_admission example_host ex_cfg ex_request ex_ids 5 = Inr pa"
  using accepted_request_prepares[OF ex_request_valid, of ex_cfg ex_ids 5] .

theorem accepted_inputs_disjoint_witness:
  "valid_sha256_text (ei_digest (p_effective_inputs (sr_plan ex_inputs_request) ! 0))
   \<and> \<not> presentation_overlap (ei_presentation_relative_path (p_effective_inputs (sr_plan ex_inputs_request) ! 0))
        (ei_presentation_relative_path (p_effective_inputs (sr_plan ex_inputs_request) ! 1))"
proof -
  have "0 < length (p_effective_inputs (sr_plan ex_inputs_request))"
    "1 < length (p_effective_inputs (sr_plan ex_inputs_request))" "(0::nat) \<noteq> 1"
    by (simp_all add: ex_inputs_request_def ex_inputs_plan_def)
  from accepted_inputs_disjoint[OF ex_inputs_valid[OF example_host_limits] refl this] show ?thesis by blast
qed

theorem accepted_host_dependencies_witness:
  "sr_host_dependencies ex_inputs_request \<noteq> [] \<and> sr_runtime_release_effect ex_inputs_request = None
   \<and> provider_contract_is ex_inputs_request LocalLinuxRunnerV1"
proof -
  have "sr_host_dependencies ex_inputs_request \<noteq> []" by (simp add: ex_inputs_request_def)
  then show ?thesis using accepted_host_dependencies[OF ex_inputs_valid[OF example_host_limits]] by blast
qed

section \<open>Queries\<close>

lemma ex_inputs_reach:
  "reachable_registry ex_host ex_cfg empty_registry" "reachable_registry ex_host ex_cfg (snd ex_inputs_submit)"
proof -
  show start: "reachable_registry ex_host ex_cfg empty_registry"
    unfolding reachable_registry_def by (rule reach_init) simp
  show "reachable_registry ex_host ex_cfg (snd ex_inputs_submit)"
    using reach_step[OF start[unfolded reachable_registry_def] rs_submit]
    unfolding reachable_registry_def ex_inputs_submit_def .
qed

theorem admitted_request_reads_back_witness:
  "execution_plan ex_host (ex_env ''b'') (snd ex_inputs_submit) ''job-1'' = Inr ex_inputs_plan
   \<and> host_dependencies ex_host (ex_env ''b'') (snd ex_inputs_submit) ''job-1'' = Inr (sr_host_dependencies ex_inputs_request)"
proof -
  have shape: "sha256_hex_shape ex_host"
    by (simp add: sha256_hex_shape_def ex_host_def example_host_def list_all_iff is_ascii_digit_def)
  have "request_snapshot ex_host ex_inputs_request = workspace_snapshot ex_inputs_plan (Some ex_digest) (Some ex_digest) None"
    by (simp add: request_snapshot_def ex_inputs_request_def ex_request_def sha256_bytes_def ex_host_def example_host_def ex_digest_def)
  then have reads: "request_reads_back ex_host ex_inputs_request"
    by (simp add: request_reads_back_def ex_host_def) (simp add: ex_inputs_request_def)
  obtain c where "submit_preallocated ex_host (ex_env ''a'') ex_cfg (Inr 5) FenceShared empty_registry ex_inputs_request ex_ids
      = (Inr (Created c), snd ex_inputs_submit)" "j_job_id (ca_job c) = ''job-1''"
    using ex_inputs_created unfolding ex_inputs_submit_def by blast
  moreover have "registry_run ex_host ex_cfg (snd ex_inputs_submit) (snd ex_inputs_submit)" "open_connection (ex_env ''b'') = Inr ()"
    by (simp_all add: registry_run_def)
  moreover have "sr_plan ex_inputs_request = ex_inputs_plan" by (simp add: ex_inputs_request_def)
  ultimately show ?thesis
    using admitted_request_reads_back[OF ex_inputs_reach(1) shape reads] by metis
qed

definition ex_list :: RuntimeJobListRequest where
  "ex_list = \<lparr>jlr_limit = 1, jlr_cursor = None, jlr_client_request_id = None, jlr_workspace_id = None\<rparr>"

theorem list_pages_complete_witness:
  "\<exists>pages. list_pages ex_host (ex_env ''b'') (Inr 9) (snd ex_inputs_submit) 3 ex_list = Inr (Some pages)
     \<and> map sm_job_id (concat pages) = map j_job_id (newest_first (filter (list_filter ex_list) (jobs (snd ex_inputs_submit))))"
proof -
  have plans: "\<forall>j \<in> set (jobs (snd ex_inputs_submit)). \<exists>plan. h_plan_parse ex_host (j_execution_plan_json j) = Inr plan"
    by (simp add: ex_host_def)
  have rows: "length (jobs (snd ex_inputs_submit)) = 1" "artifacts (snd ex_inputs_submit) = []" by code_simp+
  have "length (filter (list_filter ex_list) (jobs (snd ex_inputs_submit))) \<le> 1"
    using length_filter_le[of "list_filter ex_list" "jobs (snd ex_inputs_submit)"] rows(1) by simp
  then have fuel: "length (filter (list_filter ex_list) (jobs (snd ex_inputs_submit))) < 3" by simp
  have arts: "length (artifacts (snd ex_inputs_submit)) < 2 ^ 32" using rows(2) by simp
  have request: "now_ms (Inr 9) = Inr 9" "validate_list_request ex_list = Inr ()" "jlr_cursor ex_list = None"
    by (simp_all add: now_ms_def validate_list_request_def ex_list_def MAX_RUNTIME_LIST_LIMIT_def)
  from list_pages_complete[OF ex_inputs_reach(2) plans arts ex_env_healthy[of "''b''"] request fuel] show ?thesis by blast
qed

theorem workspace_active_job_unique_witness:
  "\<exists>ids. active_job_ids_for_workspace (ex_env ''d'') ex_db3 ''ws'' = Inr ids \<and> length ids \<le> WORKSPACE_EXECUTION_LIMIT"
proof -
  have "open_connection (ex_env ''d'') = Inr ()" by simp
  from workspace_active_job_unique[OF ex_reach(2) this] show ?thesis by blast
qed

end
