(* ===== verification/Engine_Requests.thy ===== *)
theory Engine_Requests
  imports Registry_Query
begin

text \<open>
  What the engine checks before it asks the registry for anything (\<open>runtime/engine/control_query.rs\<close>,
  \<open>runtime/engine/admission.rs\<close>, \<open>runtime/engine.rs\<close>): the structure of run requests and proposals, the
  operator's limits, the canonical form of immutable inputs and credentials, releases, environments,
  and the paged Workspace list.
\<close>

section \<open>Errors and identifiers\<close>

fun universal_code :: "UniversalExecErrorCode \<Rightarrow> RuntimeErrorCode" where
  "universal_code UInvalidRequest = InvalidRequest"
| "universal_code UWorkspaceExists = WorkspaceExists"
| "universal_code UWorkspaceNotFound = WorkspaceNotFound"
| "universal_code UWorkspacePathNotFound = WorkspacePathNotFound"
| "universal_code UWorkspaceDirty = WorkspaceDirty"
| "universal_code UWorkspacePathDenied = WorkspacePathDenied"
| "universal_code URevisionNotFound = RevisionNotFound"
| "universal_code URevisionMismatch = RevisionMismatch"
| "universal_code UWorkspaceStateMismatch = WorkspaceStateMismatch"
| "universal_code UInputStateMismatch = WorkspaceStateMismatch"
| "universal_code UHostDependencyRuntimeDrift = WorkspaceStateMismatch"
| "universal_code UExecutableRuntimeDrift = WorkspaceStateMismatch"
| "universal_code UWorkspaceMutationIncomplete = ReconciliationRequired"
| "universal_code UArtifactNotFound = ArtifactNotFound"
| "universal_code UArtifactNotUtf8 = ArtifactNotUtf8"
| "universal_code UOutputLimitExceeded = OutputLimitExceeded"
| "universal_code UToolUnavailable = ToolUnavailable"
| "universal_code UToolFailed = ToolFailed"
| "universal_code UIoError = IoError"
| "universal_code UWorkspaceCapacityExceeded = WorkspaceCapacityExceeded"
| "universal_code UMetadataCorrupt = MetadataCorrupt"

definition map_universal_error :: "UniversalExecError \<Rightarrow> RuntimeError" where
  "map_universal_error error =
     error_new (universal_code (ue_code error)) (ue_message error) (ue_field error) (ue_retryable error)"

definition validate_text_id :: "string \<Rightarrow> string \<Rightarrow> unit result" where
  "validate_text_id val field =
     (if trim_scalars (utf8_chars val) = [] \<or> length val > 256 \<or> contains_nul val
         \<or> list_ex is_control (utf8_chars val)
      then Inl (error_invalid (field @ '' must be non-empty, bounded, and control-free'') field)
      else Inr ())"

section \<open>Run requests\<close>

definition MAX_TASK_WAIT_MS :: nat where
  "MAX_TASK_WAIT_MS = 30000"

definition MAX_TASK_TAIL_BYTES :: nat where
  "MAX_TASK_TAIL_BYTES = 64 * 1024"

definition CONTAINED_RUNTIME_ENVIRONMENT :: "string list" where
  "CONTAINED_RUNTIME_ENVIRONMENT =
     [''HOME'', ''TMPDIR'', ''XDG_CACHE_HOME'', ''CARGO_TARGET_DIR'', ''UV_CACHE_DIR'', ''PIP_CACHE_DIR'',
      ''npm_config_cache'', ''PNPM_HOME'', ''COREPACK_HOME'', ''BUN_INSTALL_CACHE_DIR'', ''GOMODCACHE'',
      ''GOCACHE'', ''GIT_OPTIONAL_LOCKS'', ''ORDIVON_PAYLOAD_UID'', ''ORDIVON_PAYLOAD_GID'']"

definition validate_execution_budget :: "ExecutionBudget \<Rightarrow> string \<Rightarrow> unit result" where
  "validate_execution_budget budget field_prefix =
     (if b_memory_max_bytes budget = Some 0
      then Inl (error_invalid ''memoryMaxBytes must be positive'' (field_prefix @ ''.memoryMaxBytes''))
      else if b_tasks_max budget = Some 0
      then Inl (error_invalid ''tasksMax must be positive'' (field_prefix @ ''.tasksMax''))
      else if b_cpu_quota_percent budget = Some 0
      then Inl (error_invalid ''cpuQuotaPercent must be positive'' (field_prefix @ ''.cpuQuotaPercent''))
      else Inr ())"

definition validate_contained_environment :: "env_map \<Rightarrow> string \<Rightarrow> unit result" where
  "validate_contained_environment environment field =
     (case find (\<lambda>name. name \<in> set (map fst environment)) CONTAINED_RUNTIME_ENVIRONMENT of
        Some name \<Rightarrow> Inl (error_invalid (name @ '' is owned by the contained-local Runtime profile'')
               (field @ ''.'' @ name))
      | None \<Rightarrow> Inr ())"

definition validate_exec_payload_for_target ::
  "host \<Rightarrow> ExecutionTarget \<Rightarrow> string \<Rightarrow> string list \<Rightarrow> env_map \<Rightarrow> string \<Rightarrow> unit result" where
  "validate_exec_payload_for_target h target executable args env field =
     (case target of
        LocalLinux \<Rightarrow> map_err map_universal_error (validate_exec_payload h args env field)
      | WindowsNative \<Rightarrow> validate_windows_exec_payload executable args env field)"

definition has_parent_part :: "string \<Rightarrow> bool" where
  "has_parent_part path \<longleftrightarrow> list_ex (\<lambda>part. part = ''..'') (split_on SLASH path)"

definition indexed :: "string \<Rightarrow> nat \<Rightarrow> string \<Rightarrow> string" where
  "indexed name index tail_text = ''execution.'' @ name @ ''['' @ show_nat index @ '']'' @ tail_text"

definition request_header_checks :: "JobRunRequest \<Rightarrow> unit result" where
  "request_header_checks request =
     (if jr_schema_version request \<noteq> RUNTIME_SCHEMA_VERSION
      then Inl (error_invalid ''unsupported runtime schema version'' ''schemaVersion'')
      else rbind (validate_client_request_id (jr_client_request_id request) ''clientRequestId'') (\<lambda>_.
        rbind (validate_text_id (jr_principal request) ''principal'') (\<lambda>_.
        rbind (validate_text_id (u_workspace_id (jr_execution request)) ''execution.workspaceId'') (\<lambda>_.
        if jr_global_limit request = 0
        then Inl (error_invalid ''concurrency limits must be positive'' ''globalLimit'')
        else if jr_wait_ms request > MAX_TASK_WAIT_MS \<or> jr_stdout_tail_bytes request > MAX_TASK_TAIL_BYTES
                \<or> jr_stderr_tail_bytes request > MAX_TASK_TAIL_BYTES
        then Inl (error_invalid ''wait or tail bounds exceed the runtime compact limit'' ''waitMs'')
        else Inr ()))))"

definition request_command_checks :: "host \<Rightarrow> UniversalExecutionRequest \<Rightarrow> unit result" where
  "request_command_checks h x =
     (if u_executable x = [] \<or> \<not> path_is_absolute (u_executable x) \<or> u_cwd_relative x = []
         \<or> path_is_absolute (u_cwd_relative x)
      then Inl (error_invalid ''executable must be absolute and cwdRelative must be relative'' ''execution'')
      else if has_parent_part (u_cwd_relative x)
      then Inl (error_invalid ''cwdRelative cannot contain parent traversal'' ''execution.cwdRelative'')
      else if u_timeout_ms x = 0 \<or> u_stdout_limit_bytes x = 0 \<or> u_stderr_limit_bytes x = 0
      then Inl (error_invalid ''runtime and output limits must be positive'' ''execution'')
      else rbind (validate_execution_budget (u_budget x) ''execution.budget'') (\<lambda>_.
        if u_execution_target x = LocalLinux \<and> u_windows_authority x \<noteq> Limited
        then Inl (error_invalid ''windowsAuthority=elevated requires executionTarget=windows_native''
               ''execution.windowsAuthority'')
        else if u_execution_target x = WindowsNative \<and> u_execution_profile x \<noteq> TrustedLocal
        then Inl (error_invalid ''windows_native currently supports trusted_local only''
               ''execution.executionProfile'')
        else if u_execution_target x = WindowsNative \<and> u_steps x \<noteq> []
        then Inl (error_invalid ''windows_native currently supports one command only'' ''execution.steps'')
        else validate_exec_payload_for_target h (u_execution_target x) (u_executable x) (u_args x) (u_env x)
               ''execution''))"

fun foreign_references_loop ::
  "nat \<Rightarrow> (string \<times> string \<times> string) list \<Rightarrow> ForeignReference list \<Rightarrow> unit result" where
  "foreign_references_loop index seen [] = Inr ()"
| "foreign_references_loop index seen (reference # references) =
     (let field = indexed ''foreignReferences'' index in
      rbind (validate_logical_id (fr_namespace reference) (field ''.namespace'')) (\<lambda>_.
      rbind (validate_logical_id (fr_reference_type reference) (field ''.type'')) (\<lambda>_.
      rbind (validate_logical_id (fr_id reference) (field ''.id'')) (\<lambda>_.
      rbind (case fr_generation reference of None \<Rightarrow> Inr ()
             | Some generation \<Rightarrow> validate_logical_id generation (field ''.generation'')) (\<lambda>_.
      rbind (case fr_digest reference of None \<Rightarrow> Inr ()
             | Some digest \<Rightarrow> validate_logical_id digest (field ''.digest'')) (\<lambda>_.
      let key = (fr_namespace reference, fr_reference_type reference, fr_id reference) in
      if key \<in> set seen
      then Inl (error_invalid ''foreignReferences must be unique by namespace, type, and id'' (field []))
      else foreign_references_loop (index + 1) (seen @ [key]) references))))))"

fun request_steps_loop ::
  "host \<Rightarrow> ExecutionTarget \<Rightarrow> ExecutionProfile \<Rightarrow> nat \<Rightarrow> string list \<Rightarrow> UniversalExecutionStep list \<Rightarrow> unit result" where
  "request_steps_loop h target profile index seen [] = Inr ()"
| "request_steps_loop h target profile index seen (step # steps) =
     (let field = indexed ''steps'' index in
      rbind (validate_logical_id (us_id step) (field ''.id'')) (\<lambda>_.
      if us_id step \<in> set seen
      then Inl (error_invalid ''step ids must be unique'' (field ''.id''))
      else if us_executable step = [] \<or> \<not> path_is_absolute (us_executable step) \<or> us_cwd_relative step = []
              \<or> path_is_absolute (us_cwd_relative step) \<or> has_parent_part (us_cwd_relative step)
      then Inl (error_invalid ''step executable must be absolute and cwdRelative must be relative'' (field []))
      else if us_timeout_ms step = 0
      then Inl (error_invalid ''step timeoutMs must be positive'' (field ''.timeoutMs''))
      else rbind (validate_exec_payload_for_target h target (us_executable step) (us_args step) (us_env step) (field [])) (\<lambda>_.
        rbind (if profile = ContainedLocal then validate_contained_environment (us_env step) (field ''.env'')
               else Inr ()) (\<lambda>_.
        request_steps_loop h target profile (index + 1) (seen @ [us_id step]) steps))))"

definition validate_run_request_structure :: "host \<Rightarrow> JobRunRequest \<Rightarrow> unit result" where
  "validate_run_request_structure h request =
     (let x = jr_execution request in
      rbind (request_header_checks request) (\<lambda>_.
      rbind (request_command_checks h x) (\<lambda>_.
      rbind (foreign_references_loop 0 [] (u_foreign_references x)) (\<lambda>_.
      rbind (if u_execution_profile x = ContainedLocal then validate_contained_environment (u_env x) ''execution.env''
             else Inr ()) (\<lambda>_.
      request_steps_loop h (u_execution_target x) (u_execution_profile x) 0 [] (u_steps x))))))"

section \<open>Proposals\<close>

definition option_or :: "'a option \<Rightarrow> 'a \<Rightarrow> 'a" where
  "option_or x d = (case x of None \<Rightarrow> d | Some y \<Rightarrow> y)"

definition concrete_step :: "nat \<Rightarrow> ExecutionStepProposal \<Rightarrow> UniversalExecutionStep" where
  "concrete_step timeout_ms step =
     \<lparr>us_id = sp_id step, us_executable = sp_executable step, us_args = sp_args step,
      us_cwd_relative = sp_cwd_relative step, us_env = sp_env step,
      us_timeout_ms = option_or (sp_timeout_ms step) timeout_ms, us_continue_on_error = sp_continue_on_error step\<rparr>"

text \<open>A proposal with its omitted limits filled in; the step limit defaults to its last argument.\<close>

definition concrete_request ::
  "JobRunProposal \<Rightarrow> nat \<Rightarrow> nat \<Rightarrow> nat \<Rightarrow> HostDependencyBinding list \<Rightarrow> JobRunRequest" where
  "concrete_request proposal timeout_ms output_bytes step_timeout_ms host_deps =
     (let x = jp_execution proposal in
      \<lparr>jr_schema_version = jp_schema_version proposal, jr_client_request_id = jp_client_request_id proposal,
       jr_principal = jp_principal proposal, jr_global_limit = jp_global_limit proposal,
       jr_execution = \<lparr>u_workspace_id = x_workspace_id x, u_executable = x_executable x, u_args = x_args x,
         u_cwd_relative = x_cwd_relative x, u_env = x_env x,
         u_timeout_ms = option_or (x_timeout_ms x) timeout_ms,
         u_stdout_limit_bytes = option_or (x_stdout_limit_bytes x) output_bytes,
         u_stderr_limit_bytes = option_or (x_stderr_limit_bytes x) output_bytes,
         u_steps = map (concrete_step step_timeout_ms) (x_steps x), u_budget = x_budget x,
         u_execution_profile = x_execution_profile x, u_execution_target = x_execution_target x,
         u_windows_authority = x_windows_authority x, u_foreign_references = x_foreign_references x,
         u_host_dependencies = host_deps\<rparr>,
       jr_wait_ms = jp_wait_ms proposal, jr_stdout_tail_bytes = jp_stdout_tail_bytes proposal,
       jr_stderr_tail_bytes = jp_stderr_tail_bytes proposal\<rparr>)"

definition validate_run_proposal_structure :: "host \<Rightarrow> JobRunProposal \<Rightarrow> unit result" where
  "validate_run_proposal_structure h proposal =
     validate_run_request_structure h (concrete_request proposal 1 1 1 [])"

definition resolve_proposal :: "nat \<Rightarrow> nat \<Rightarrow> JobRunProposal \<Rightarrow> JobRunRequest" where
  "resolve_proposal default_runtime_ms max_output_bytes proposal =
     (let timeout_ms = option_or (x_timeout_ms (jp_execution proposal)) default_runtime_ms
      in concrete_request proposal default_runtime_ms max_output_bytes timeout_ms
           (x_host_dependencies (jp_execution proposal)))"

definition validate_new_admission_policy :: "JobRunRequest \<Rightarrow> nat \<Rightarrow> nat \<Rightarrow> unit result" where
  "validate_new_admission_policy request max_runtime_ms max_output_bytes =
     (let x = jr_execution request in
      if u_timeout_ms x > max_runtime_ms
      then Inl (error_invalid (''timeoutMs exceeds configured maximum '' @ show_nat max_runtime_ms) ''execution.timeoutMs'')
      else if u_stdout_limit_bytes x > max_output_bytes
      then Inl (error_invalid (''stdoutLimitBytes exceeds configured maximum '' @ show_nat max_output_bytes)
             ''execution.stdoutLimitBytes'')
      else if u_stderr_limit_bytes x > max_output_bytes
      then Inl (error_invalid (''stderrLimitBytes exceeds configured maximum '' @ show_nat max_output_bytes)
             ''execution.stderrLimitBytes'')
      else Inr ())"

record EffectiveStepTimeout =
  es_id :: string
  es_timeout_ms :: nat

record EffectiveExecutionLimits =
  el_timeout_ms :: nat
  el_stdout_limit_bytes :: nat
  el_stderr_limit_bytes :: nat
  el_step_timeouts :: "EffectiveStepTimeout list"

definition effective_limits_from_plan_json :: "host \<Rightarrow> string \<Rightarrow> EffectiveExecutionLimits result" where
  "effective_limits_from_plan_json h execution_plan_json =
     rbind (map_err (\<lambda>error. registry_corrupt (''stored execution plan is invalid: '' @ error) ''executionPlan'')
              (h_plan_parse h execution_plan_json)) (\<lambda>plan.
     Inr \<lparr>el_timeout_ms = p_timeout_ms plan, el_stdout_limit_bytes = p_stdout_limit_bytes plan,
          el_stderr_limit_bytes = p_stderr_limit_bytes plan,
          el_step_timeouts = map (\<lambda>step. \<lparr>es_id = st_id step, es_timeout_ms = st_timeout_ms step\<rparr>) (p_steps plan)\<rparr>)"

datatype JobObserveWaitUntil = WaitTerminal | WaitChangeOrTerminal

record JobObserveRequest =
  jo_schema_version :: nat
  jo_job_id :: string
  jo_wait_ms :: nat
  jo_wait_until :: JobObserveWaitUntil
  jo_stdout_tail_bytes :: nat
  jo_stderr_tail_bytes :: nat
  jo_stdout_offset :: "nat option"
  jo_stderr_offset :: "nat option"

definition validate_observe_request :: "JobObserveRequest \<Rightarrow> unit result" where
  "validate_observe_request request =
     (if jo_schema_version request \<noteq> RUNTIME_SCHEMA_VERSION
      then Inl (error_invalid ''unsupported runtime schema version'' ''schemaVersion'')
      else if jo_wait_ms request > MAX_TASK_WAIT_MS \<or> jo_stdout_tail_bytes request > MAX_TASK_TAIL_BYTES
              \<or> jo_stderr_tail_bytes request > MAX_TASK_TAIL_BYTES
      then Inl (error_invalid ''observe bounds exceed runtime limits'' ''waitMs'')
      else Inr ())"

end
