(* ===== verification/Engine_Inputs.thy ===== *)
theory Engine_Inputs
  imports Engine_Requests
begin

text \<open>
  Immutable inputs, credentials and Runtime releases as the engine accepts them
  (\<open>runtime/engine/control_query.rs\<close>), the environment helpers of \<open>runtime/engine.rs\<close>, and the guards
  of a credential-bound proposal (\<open>runtime/engine/admission.rs\<close>).  A \<open>PathBuf\<close> is the text of its
  components.
\<close>

section \<open>Names, paths and digests\<close>

definition is_name_byte :: "char \<Rightarrow> bool" where
  "is_name_byte c \<longleftrightarrow> is_ascii_alphanumeric c \<or> c = CHR ''.'' \<or> c = CHR ''_'' \<or> c = CHR ''-''"

definition validate_credential_name :: "string \<Rightarrow> string \<Rightarrow> unit result" where
  "validate_credential_name val field =
     (if val = [] \<or> length val > 128 \<or> \<not> list_all is_name_byte val \<or> val = ''.'' \<or> val = ''..''
      then Inl (error_invalid
        ''credential name must use 1-128 ASCII alphanumeric/._- characters and must not be . or ..'' field)
      else Inr ())"

definition validate_input_authority_name :: "string \<Rightarrow> string \<Rightarrow> unit result" where
  "validate_input_authority_name val field =
     (if val = [] \<or> length val > 128 \<or> \<not> list_all is_name_byte val
      then Inl (error_invalid ''input authority name must use 1-128 ASCII alphanumeric/._- characters'' field)
      else Inr ())"

fun push_normal_components :: "string \<Rightarrow> path_component list \<Rightarrow> path_component list \<Rightarrow> path_component list result" where
  "push_normal_components field normalized [] = Inr normalized"
| "push_normal_components field normalized (Normal val # components) =
     push_normal_components field (normalized @ [Normal val]) components"
| "push_normal_components field normalized (_ # components) =
     Inl (error_invalid ''path must contain only normal relative components'' field)"

definition validate_normal_relative_path :: "string \<Rightarrow> string \<Rightarrow> string result" where
  "validate_normal_relative_path val field =
     (if val = [] \<or> contains_nul val \<or> path_is_absolute val
      then Inl (error_invalid ''path must be non-empty, relative, and NUL-free'' field)
      else rbind (push_normal_components field [] (path_components val)) (\<lambda>normalized.
        if path_text False normalized = []
        then Inl (error_invalid ''path must not be empty'' field)
        else Inr (path_text False normalized)))"

definition validate_sha256_digest :: "string \<Rightarrow> string \<Rightarrow> unit result" where
  "validate_sha256_digest val field =
     (case strip_prefix ''sha256:'' val of
        None \<Rightarrow> Inl (error_invalid ''digest must use sha256:<hex>'' field)
      | Some hex \<Rightarrow>
          if length hex \<noteq> 64 \<or> \<not> list_all is_ascii_hexdigit hex
          then Inl (error_invalid ''digest must be 32-byte SHA-256 hex'' field)
          else Inr ())"

section \<open>Canonical inputs and credentials\<close>

definition paths_overlap :: "string \<Rightarrow> string \<Rightarrow> bool" where
  "paths_overlap presentation existing \<longleftrightarrow>
     path_components presentation = path_components existing
     \<or> path_starts_with presentation existing \<or> path_starts_with existing presentation"

definition input_field :: "string \<Rightarrow> nat \<Rightarrow> string \<Rightarrow> string" where
  "input_field name index member = name @ ''['' @ show_nat index @ '']'' @ member"

definition canonical_input ::
  "nat \<Rightarrow> InputBindingRequest \<Rightarrow> InputBindingRequest result" where
  "canonical_input index input =
     (let field = input_field ''inputs'' index in
      rbind (validate_input_authority_name (ib_authority input) (field ''.authority'')) (\<lambda>_.
      rbind (validate_normal_relative_path (ib_relative_object input) (field ''.relativeObject'')) (\<lambda>object.
      rbind (validate_normal_relative_path (ib_presentation_relative_path input)
               (field ''.presentationRelativePath'')) (\<lambda>presentation.
      rbind (validate_sha256_digest (ib_expected_digest input) (field ''.expectedDigest'')) (\<lambda>_.
      Inr \<lparr>ib_authority = ib_authority input, ib_relative_object = object,
           ib_expected_digest = to_ascii_lowercase (ib_expected_digest input),
           ib_presentation_relative_path = presentation\<rparr>)))))"

fun canonical_inputs_loop ::
  "nat \<Rightarrow> string list \<Rightarrow> InputBindingRequest list \<Rightarrow> InputBindingRequest list
   \<Rightarrow> InputBindingRequest list result" where
  "canonical_inputs_loop index presentation_paths canonical [] = Inr canonical"
| "canonical_inputs_loop index presentation_paths canonical (input # inputs) =
     rbind (canonical_input index input) (\<lambda>c.
       let presentation = ib_presentation_relative_path c in
       if list_ex (paths_overlap presentation) presentation_paths
       then Inl (error_invalid ''input presentation paths must not overlap as file/ancestor paths''
              (input_field ''inputs'' index ''.presentationRelativePath''))
       else canonical_inputs_loop (index + 1) (presentation_paths @ [presentation]) (canonical @ [c]) inputs)"

definition input_sort_key :: "InputBindingRequest \<Rightarrow> string \<times> string \<times> string \<times> string" where
  "input_sort_key i =
     (ib_presentation_relative_path i, ib_authority i, ib_relative_object i, ib_expected_digest i)"

definition canonical_input_binding_requests :: "InputBindingRequest list \<Rightarrow> InputBindingRequest list result" where
  "canonical_input_binding_requests inputs =
     (if inputs = [] then Inl (error_invalid ''at least one immutable input is required'' ''inputs'')
      else rbind (canonical_inputs_loop 0 [] [] inputs) (\<lambda>canonical. Inr (sort_key input_sort_key canonical)))"

fun canonical_credentials_loop ::
  "nat \<Rightarrow> string list \<Rightarrow> CredentialBindingRequest list \<Rightarrow> CredentialBindingRequest list
   \<Rightarrow> CredentialBindingRequest list result" where
  "canonical_credentials_loop index names canonical [] = Inr canonical"
| "canonical_credentials_loop index names canonical (credential # credentials) =
     (let field = input_field ''credentials'' index in
      rbind (validate_input_authority_name (cb_authority credential) (field ''.authority'')) (\<lambda>_.
      rbind (validate_credential_name (cb_credential credential) (field ''.credential'')) (\<lambda>_.
      if cb_credential credential \<in> set names
      then Inl (error_invalid ''credential names must be unique within one execution'' (field ''.credential''))
      else canonical_credentials_loop (index + 1) (names @ [cb_credential credential])
             (canonical @ [credential]) credentials)))"

definition credential_sort_key :: "CredentialBindingRequest \<Rightarrow> string \<times> string" where
  "credential_sort_key c = (cb_authority c, cb_credential c)"

definition canonical_credential_binding_requests ::
  "CredentialBindingRequest list \<Rightarrow> CredentialBindingRequest list result" where
  "canonical_credential_binding_requests credentials =
     (if credentials = [] then Inl (error_invalid ''at least one credential is required'' ''credentials'')
      else rbind (canonical_credentials_loop 0 [] [] credentials) (\<lambda>canonical.
        Inr (sort_key credential_sort_key canonical)))"

definition effective_input_requests_from_plan :: "RuntimeExecutionPlan \<Rightarrow> InputBindingRequest list result" where
  "effective_input_requests_from_plan plan =
     canonical_input_binding_requests (map (\<lambda>input.
       \<lparr>ib_authority = ei_authority input, ib_relative_object = ei_relative_object input,
        ib_expected_digest = ei_digest input,
        ib_presentation_relative_path = ei_presentation_relative_path input\<rparr>) (p_effective_inputs plan))"

text \<open>
  The guards of \<open>run_job_proposal_with_credentials\<close> up to the canonical list: target and profile, and
  no environment, of the proposal or of a step, that names the delivery directory.
\<close>

definition names_credentials_directory :: "env_map \<Rightarrow> bool" where
  "names_credentials_directory env \<longleftrightarrow>
     list_ex (\<lambda>(name, _). eq_ignore_ascii_case name ''CREDENTIALS_DIRECTORY'') env"

definition credentials_directory_error :: "string \<Rightarrow> RuntimeError" where
  "credentials_directory_error field =
     error_invalid ''CREDENTIALS_DIRECTORY is owned by the credential delivery provider''
       (field @ ''.CREDENTIALS_DIRECTORY'')"

fun credential_step_environments :: "nat \<Rightarrow> ExecutionStepProposal list \<Rightarrow> unit result" where
  "credential_step_environments index [] = Inr ()"
| "credential_step_environments index (step # steps) =
     (if names_credentials_directory (sp_env step)
      then Inl (credentials_directory_error (indexed ''steps'' index ''.env''))
      else credential_step_environments (index + 1) steps)"

definition credential_proposal_checks ::
  "host \<Rightarrow> JobRunProposal \<Rightarrow> CredentialBindingRequest list \<Rightarrow> CredentialBindingRequest list result" where
  "credential_proposal_checks h proposal credentials =
     (let x = jp_execution proposal in
      rbind (validate_run_proposal_structure h proposal) (\<lambda>_.
      if x_execution_target x \<noteq> LocalLinux
      then Inl (error_invalid ''credential-bound execution currently supports local_linux only''
             ''execution.executionTarget'')
      else if x_execution_profile x \<noteq> TrustedLocal
      then Inl (error_invalid ''credential-bound execution requires trusted_local'' ''execution.executionProfile'')
      else if names_credentials_directory (x_env x)
      then Inl (credentials_directory_error ''execution.env'')
      else rbind (credential_step_environments 0 (x_steps x)) (\<lambda>_.
        canonical_credential_binding_requests credentials)))"

section \<open>Runtime releases\<close>

definition lowercase_hex :: "string \<Rightarrow> bool" where
  "lowercase_hex s \<longleftrightarrow> list_all (\<lambda>c. is_ascii_hexdigit c \<and> \<not> is_ascii_uppercase c) s"

definition validate_runtime_release_request :: "RuntimeReleaseRequest \<Rightarrow> unit result" where
  "validate_runtime_release_request request =
     (if rrq_schema_version request \<noteq> RUNTIME_SCHEMA_VERSION
      then Inl (error_invalid ''unsupported runtime schema version'' ''schemaVersion'')
      else rbind (validate_client_request_id (rrq_client_request_id request) ''clientRequestId'') (\<lambda>_.
        if rrq_expected_tool_count request = 0
        then Inl (error_invalid ''Runtime Release expectedToolCount must be positive'' ''expectedToolCount'')
        else if length (rrq_commit request) \<noteq> 40 \<or> \<not> lowercase_hex (rrq_commit request)
        then Inl (error_invalid ''Runtime Release commit must be exactly 40 lowercase hexadecimal characters'' ''commit'')
        else case strip_prefix ''sha256:'' (rrq_candidate_manifest_digest request) of
          None \<Rightarrow> Inl (error_invalid ''candidate manifest digest must use sha256'' ''candidateManifestDigest'')
        | Some manifest \<Rightarrow>
            if length manifest \<noteq> 64 \<or> \<not> lowercase_hex manifest
            then Inl (error_invalid ''candidate manifest digest must contain 64 lowercase hexadecimal characters''
                   ''candidateManifestDigest'')
            else Inr ()))"

definition validate_release_binding_matches_request ::
  "host \<Rightarrow> RuntimeReleaseEffectBinding \<Rightarrow> RuntimeReleaseRequest \<Rightarrow> unit result" where
  "validate_release_binding_matches_request h binding request =
     (if rel_contract binding \<noteq> RuntimeReleaseV1
         \<or> rel_effect_id binding \<noteq> runtime_release_effect_id h request
         \<or> rel_request_digest binding \<noteq> runtime_release_request_identity_digest h request
         \<or> rel_workspace_id binding \<noteq> rrq_workspace_id request
         \<or> rel_commit binding \<noteq> rrq_commit request
         \<or> rel_candidate_manifest_digest binding \<noteq> rrq_candidate_manifest_digest request
         \<or> rel_expected_tool_count binding \<noteq> rrq_expected_tool_count request
      then Inl (error_new RegistryCorrupt ''stored Runtime Release side truth does not match the request identity''
             (Some ''runtimeReleaseEffect'') False)
      else Inr ())"

section \<open>Environments\<close>

fun merge_environment :: "env_map \<Rightarrow> env_map \<Rightarrow> env_map" where
  "merge_environment merged [] = merged"
| "merge_environment merged ((name, val) # explicit) = merge_environment (env_insert name val merged) explicit"

definition set_environment_value_case_insensitive :: "env_map \<Rightarrow> string \<Rightarrow> string \<Rightarrow> env_map" where
  "set_environment_value_case_insensitive environment name val =
     (let removed = (case find (\<lambda>existing. eq_ignore_ascii_case existing name) (map fst environment) of
            None \<Rightarrow> environment
          | Some existing \<Rightarrow> filter (\<lambda>e. fst e \<noteq> existing) environment)
      in env_insert name val removed)"

definition required_environment_value_case_insensitive :: "env_map \<Rightarrow> string \<Rightarrow> string \<Rightarrow> string result" where
  "required_environment_value_case_insensitive environment name field =
     ok_or (map_option snd (find (\<lambda>(actual, val). eq_ignore_ascii_case actual name \<and> val \<noteq> []) environment))
       (error_new RegistryCorrupt (''committed Windows environment omitted '' @ name) (Some field) False)"

definition WINDOWS_INPUT_PRESENTATION_COMPONENTS :: "string list" where
  "WINDOWS_INPUT_PRESENTATION_COMPONENTS = [''OrdivonImmutableInputs'']"

definition trim_end_separators :: "string \<Rightarrow> string" where
  "trim_end_separators s = rev (dropWhile (\<lambda>c. c = CHR 0x5C \<or> c = CHR ''/'') (rev s))"

definition windows_input_presentation_root :: "RuntimeExecutionPlan \<Rightarrow> string \<Rightarrow> string result" where
  "windows_input_presentation_root plan input_set_id =
     rbind (required_environment_value_case_insensitive (p_env plan) ''ProgramData'' ''executionPlan.env'') (\<lambda>program_data.
     Inr (fold (\<lambda>component root. root @ [CHR 0x5C] @ component) WINDOWS_INPUT_PRESENTATION_COMPONENTS
            (trim_end_separators program_data) @ [CHR 0x5C] @ input_set_id))"

definition parent_directories :: "string \<Rightarrow> string list" where
  "parent_directories path =
     (let components = split_on SLASH path
      in map (\<lambda>count. join_with ''/'' (take count components)) [1..<length components])"

definition windows_input_tree :: "EffectiveInputBinding list \<Rightarrow> string" where
  "windows_input_tree inputs =
     (let ordered = sort_key ei_presentation_relative_path inputs;
          directories = sorted_list_of_set (set (concat (map (parent_directories \<circ> ei_presentation_relative_path) ordered)))
      in ''windows-immutable-input-tree-v2'' @ [NUL]
         @ concat (map (\<lambda>directory. ''D'' @ [NUL] @ directory @ [NUL]) directories)
         @ concat (map (\<lambda>input. ''F'' @ [NUL] @ ei_presentation_relative_path input @ [NUL]
             @ ei_digest input @ [NUL] @ show_nat (ei_byte_length input) @ [NUL]) ordered))"

definition windows_input_bindings_digest :: "host \<Rightarrow> EffectiveInputBinding list \<Rightarrow> string" where
  "windows_input_bindings_digest h inputs = sha256_bytes h (windows_input_tree inputs)"

section \<open>Polling\<close>

definition transient_main_pid_observation_loss :: "RuntimeError \<Rightarrow> bool" where
  "transient_main_pid_observation_loss error \<longleftrightarrow>
     err_code error = LaunchIdentityMismatch \<and> err_field error = Some ''mainPid''
     \<and> (err_message error = ''systemd MainPID has no observable host process identity''
        \<or> err_message error = ''Windows launcher systemd MainPID has no observable host process identity''
        \<or> err_message error = ''systemd omitted MainPID'')"

definition ADAPTIVE_POLL_DELAYS_MS :: "nat list" where
  "ADAPTIVE_POLL_DELAYS_MS = [2, 5, 10, 20, 50]"

definition adaptive_poll_delay :: "nat \<Rightarrow> nat" where
  "adaptive_poll_delay poll_index = ADAPTIVE_POLL_DELAYS_MS ! min poll_index (length ADAPTIVE_POLL_DELAYS_MS - 1)"

end
