(* ===== verification/Engine_World.thy ===== *)
theory Engine_World
  imports Engine_Inputs Registry_Lifecycle Registry_Recovery
begin

text \<open>
  What the engine works on besides the registry.  The outside world is a record of answers, one per
  kind of question and moment: files, systemd, processes, the Windows launcher, clocks, SQLite faults,
  and what other writers do to the same database between two questions.  A definition of the engine is
  a function of the state that returns its result and the next state; an error keeps every change
  made before it.  Effects on the world that start or stop processes are logged together with the
  database at that moment.
\<close>

section \<open>Evidence files\<close>

datatype RunnerTerminalStatus = RunnerCompleted | RunnerFailed | RunnerCancelled

record CapturedOutput =
  co_artifact_id :: string
  co_file_name :: string
  co_digest :: string
  co_retained_bytes :: nat
  co_dropped_bytes :: nat
  co_truncated :: bool

record RunnerStepResult =
  rsr_id :: string
  rsr_index :: nat
  rsr_status :: string
  rsr_exit_code :: "int option"
  rsr_timed_out :: bool
  rsr_continued :: bool
  rsr_started_unix_ms :: nat
  rsr_finished_unix_ms :: nat

record RunnerResult =
  rr_schema_version :: nat
  rr_task_id :: string
  rr_job_id :: "string option"
  rr_attempt_id :: "string option"
  rr_launch_token_digest :: "string option"
  rr_payload_uid :: "nat option"
  rr_payload_gid :: "nat option"
  rr_status :: RunnerTerminalStatus
  rr_exit_code :: "int option"
  rr_timed_out :: bool
  rr_infrastructure_error_code :: "string option"
  rr_infrastructure_error :: "string option"
  rr_started_unix_ms :: nat
  rr_finished_unix_ms :: nat
  rr_steps :: "RunnerStepResult list"
  rr_failed_step_id :: "string option"
  rr_failed_step_index :: "nat option"
  rr_stdout :: CapturedOutput
  rr_stderr :: CapturedOutput

record RunnerProgress =
  pg_schema_version :: nat
  pg_task_id :: string
  pg_revision :: nat
  pg_status :: string
  pg_completed_steps :: nat
  pg_total_steps :: nat
  pg_current_step_id :: "string option"
  pg_current_step_index :: "nat option"
  pg_current_step_started_unix_ms :: "nat option"
  pg_failed_step_id :: "string option"
  pg_failed_step_index :: "nat option"
  pg_updated_unix_ms :: nat

record RunnerStartEvidence =
  rs_schema_version :: nat
  rs_job_id :: string
  rs_attempt_id :: string
  rs_launch_token_digest :: string
  rs_unit_name :: string
  rs_invocation_id :: string
  rs_control_group :: string
  rs_namespace_pid :: nat
  rs_namespace_process_start_identity :: string
  rs_payload_uid :: "nat option"
  rs_payload_gid :: "nat option"
  rs_observed_workspace_source_digest :: "string option"
  rs_runner_executable_digest :: "string option"
  rs_observed_unix_ms :: nat

record WindowsStartEvidence =
  ws_schema_version :: nat
  ws_job_id :: string
  ws_attempt_id :: string
  ws_launch_token_digest :: string
  ws_request_digest :: string
  ws_job_name :: string
  ws_launcher_process_id :: nat
  ws_launcher_process_creation_time_file_time :: "nat option"
  ws_launcher_image_digest :: "string option"
  ws_process_id :: nat
  ws_process_creation_time_file_time :: nat
  ws_image_path :: string
  ws_image_digest :: string
  ws_token_selection :: string
  ws_execution_identity :: string
  ws_session_id :: "nat option"
  ws_token_user_sid :: string
  ws_token_type :: int
  ws_token_elevation_type :: int
  ws_token_is_elevated :: bool
  ws_token_integrity_level_rid :: int
  ws_token_is_restricted :: bool
  ws_administrators_group_attributes :: nat
  ws_power_request_type :: string
  ws_power_request_acquired :: bool
  ws_input_set_id :: "string option"
  ws_input_presentation_root :: "string option"
  ws_input_bindings_digest :: "string option"
  ws_observed_unix_ms :: nat

record WindowsLauncherStartEvidence =
  wl_schema_version :: nat
  wl_job_id :: string
  wl_attempt_id :: string
  wl_launch_token_digest :: string
  wl_request_digest :: string
  wl_job_name :: string
  wl_launcher_process_id :: nat
  wl_launcher_process_creation_time_file_time :: nat
  wl_launcher_image_digest :: string
  wl_observed_unix_ms :: nat

record WindowsNativeLaunchObservation =
  wn_launcher_process_id :: nat
  wn_launcher_process_creation_time_file_time :: nat

record WindowsNativeRunSpec =
  wr_bundle_path :: string
  wr_job_id :: string
  wr_attempt_id :: string
  wr_launch_token_digest :: string
  wr_request_digest :: string
  wr_authority :: WindowsAuthority
  wr_expected_privileged_broker_digest :: "string option"
  wr_expected_user_sid :: "string option"
  wr_expected_session_id :: "nat option"
  wr_executable :: string
  wr_args :: "string list"
  wr_cwd :: string
  wr_environment :: env_map
  wr_input_source_root :: "string option"
  wr_input_set_id :: "string option"
  wr_input_presentation_root :: "string option"
  wr_input_bindings_digest :: "string option"
  wr_budget :: ExecutionBudget
  wr_timeout_ms :: nat
  wr_stdout_limit_bytes :: nat
  wr_stderr_limit_bytes :: nat

datatype WindowsDeadlineOwnerTerminationDisposition = OwnerTerminated | OwnerAlreadyAbsent | OwnerIdentityMismatch

record ControlTerminalEvidence =
  ce_schema_version :: nat
  ce_job_id :: string
  ce_attempt_id :: string
  ce_status :: string
  ce_reason_code :: string
  ce_detail :: "string option"
  ce_observed_at_ms :: nat

record TerminalSupervisorEvidence =
  ts_boot_id :: "string option"
  ts_unit_name :: string
  ts_invocation_id :: "string option"
  ts_control_group :: "string option"
  ts_main_pid :: "nat option"
  ts_process_start_identity :: "string option"
  ts_runner_start_digest :: "string option"

record ObservedSupervisorEvidence =
  os_boot_id :: string
  os_unit_state :: string
  os_invocation_id :: "string option"
  os_control_group :: "string option"
  os_main_pid :: "nat option"
  os_main_process_start_identity :: "string option"
  os_recorded_pid_alive :: bool
  os_recorded_pid_start_identity :: "string option"
  os_result :: "string option"
  os_exec_main_code :: "int option"
  os_exec_main_status :: "int option"

record TerminalProcessEvidence =
  tpe_schema_version :: nat
  tpe_job_id :: string
  tpe_attempt_id :: string
  tpe_operation_digest :: string
  tpe_execution_plan_digest :: string
  tpe_workspace_id :: string
  tpe_source_revision :: string
  tpe_execution_profile :: ExecutionProfile
  tpe_execution_target :: ExecutionTarget
  tpe_execution_provider :: "ExecutionProviderSnapshot option"
  tpe_windows_authority :: WindowsAuthority
  tpe_windows_execution_context :: "WindowsExecutionContext option"
  tpe_foreign_references :: "ForeignReference list"
  tpe_host_dependencies :: "HostDependencyBinding list"
  tpe_host_dependency_continuity :: "string option"
  tpe_host_dependency_continuity_scope :: "string option"
  tpe_input_set_id :: "string option"
  tpe_effective_inputs :: "EffectiveInputBinding list"
  tpe_executable :: string
  tpe_executable_digest :: string
  tpe_args :: "string list"
  tpe_cwd :: string
  tpe_supervisor :: TerminalSupervisorEvidence
  tpe_observed_supervisor :: "ObservedSupervisorEvidence option"
  tpe_start_disposition :: string
  tpe_cancellation_disposition :: string
  tpe_execution_disposition :: string
  tpe_delivery_disposition :: string
  tpe_process_tree_disposition :: string
  tpe_process_tree_detail :: "string option"
  tpe_reason_code :: string
  tpe_terminal_artifact_ids :: "string list"
  tpe_supersedes_artifact_id :: "string option"
  tpe_observed_at_ms :: nat

text \<open>What the bundle of an Attempt asks of the Runner (\<open>payload\<close> is always absent: \<open>payload_config\<close>
  returns \<open>None\<close>), and the manifest that ties the bundle's files together.\<close>

record RunnerExecutionStep =
  re_id :: string
  re_executable :: string
  re_executable_digest :: string
  re_args :: "string list"
  re_cwd :: string
  re_env :: env_map
  re_timeout_ms :: nat
  re_continue_on_error :: bool

record RunnerHostDependencyCommitment =
  rh_path :: string
  rh_digest :: string

record RunnerInputCommitment =
  rn_presentation_path :: string
  rn_digest :: string
  rn_byte_length :: nat

record RunnerRequest =
  rq_schema_version :: nat
  rq_job_id :: "string option"
  rq_attempt_id :: "string option"
  rq_launch_token :: "string option"
  rq_unit_name :: "string option"
  rq_inherit_host_environment :: bool
  rq_task_id :: string
  rq_workspace_id :: string
  rq_workspace_path :: string
  rq_workspace_source_digest :: "string option"
  rq_build_target_backing :: "string option"
  rq_input_presentation_root :: "string option"
  rq_input_commitments :: "RunnerInputCommitment list"
  rq_host_dependencies :: "RunnerHostDependencyCommitment list"
  rq_executable :: string
  rq_executable_digest :: string
  rq_args :: "string list"
  rq_cwd :: string
  rq_env :: env_map
  rq_steps :: "RunnerExecutionStep list"
  rq_timeout_ms :: nat
  rq_stdout_limit_bytes :: nat
  rq_stderr_limit_bytes :: nat

record BundleManifest =
  bm_schema_version :: nat
  bm_job_id :: string
  bm_attempt_id :: string
  bm_request_digest :: string
  bm_plan_digest :: string
  bm_launch_token_digest :: string
  bm_created_at_ms :: nat

record CredentialSnapshotEntry =
  cse_name :: string
  cse_digest :: string
  cse_byte_length :: nat

section \<open>Workspace records\<close>

record WorkspaceRecord =
  wk_schema_version :: nat
  wk_workspace_id :: string
  wk_source_repo :: string
  wk_source_revision :: string
  wk_workspace_path :: string
  wk_created_unix_ms :: nat

text \<open>The fields of a closed record that are read.\<close>

record ClosedWorkspaceRecord =
  cwr_schema_version :: nat
  cwr_state :: string
  cwr_legacy_workspace_id :: string
  cwr_source_state_digest :: "string option"

section \<open>Questions to the world\<close>

text \<open>A finished command: whether it exited with zero, its standard output and its trimmed standard
  error, both decoded by \<open>String::from_utf8_lossy\<close>.\<close>

record command_output =
  out_success :: bool
  out_stdout :: string
  out_stderr :: string

text \<open>\<open>fs::symlink_metadata\<close>, as far as the engine looks at it.\<close>

record path_kind =
  pk_symlink :: bool
  pk_file :: bool
  pk_dir :: bool
  pk_executable :: bool
  pk_len :: nat
  pk_uid :: nat
  pk_mode :: nat

record io_failure =
  if_not_found :: bool
  if_text :: string

text \<open>The Windows environment and token of an authority (\<open>snapshot_windows_runtime_context\<close>).\<close>

record windows_snapshot =
  wsn_environment :: env_map
  wsn_token_user_sid :: string
  wsn_session_id :: "nat option"

text \<open>Creating an entry of a directory can fail because it is there already.\<close>

record create_failure =
  cf_already_exists :: bool
  cf_text :: string

text \<open>
  The answer to a question asked at a moment.  \<open>io_others\<close> is what other connections have committed
  to the database since the last question; \<open>io_polls\<close> is how often a polling loop that starts now
  still finds its deadline ahead (a monotonic clock passes every deadline).  Operating-system errors
  are their display texts (with \<open>io_read_to_string\<close>, also whether the error is \<open>Interrupted\<close>).
\<close>

record io =
  io_sql :: "nat \<Rightarrow> sql_env"
  io_others :: "nat \<Rightarrow> registry \<Rightarrow> registry"
  io_clock :: "nat \<Rightarrow> string + nat"
  io_polls :: "nat \<Rightarrow> nat"
  io_exists :: "nat \<Rightarrow> string \<Rightarrow> bool"
  io_is_file :: "nat \<Rightarrow> string \<Rightarrow> bool"
  io_read :: "nat \<Rightarrow> string \<Rightarrow> string + string"
  io_read_to_string :: "nat \<Rightarrow> string \<Rightarrow> (bool \<times> string) + string"
  io_len :: "nat \<Rightarrow> string \<Rightarrow> string + nat"
  io_metadata_len :: "nat \<Rightarrow> string \<Rightarrow> io_failure + nat"
  io_modified_ms :: "nat \<Rightarrow> string \<Rightarrow> string + nat"
  io_open :: "nat \<Rightarrow> string \<Rightarrow> string + unit"
  io_seek :: "nat \<Rightarrow> string \<Rightarrow> nat \<Rightarrow> string + unit"
  io_read_at :: "nat \<Rightarrow> string \<Rightarrow> nat \<Rightarrow> nat \<Rightarrow> string + string"
  io_read_to_end_at :: "nat \<Rightarrow> string \<Rightarrow> nat \<Rightarrow> nat \<Rightarrow> string + string"
  io_symlink_metadata :: "nat \<Rightarrow> string \<Rightarrow> io_failure + path_kind"
  io_sha256_file :: "nat \<Rightarrow> string \<Rightarrow> UniversalExecError + string"
  io_write_atomic :: "nat \<Rightarrow> string \<Rightarrow> string \<Rightarrow> UniversalExecError + unit"
  io_create_new :: "nat \<Rightarrow> string \<Rightarrow> string + unit"
  io_write_all :: "nat \<Rightarrow> string \<Rightarrow> string \<Rightarrow> string + unit"
  io_sync_all :: "nat \<Rightarrow> string \<Rightarrow> string + unit"
  io_sync_directory :: "nat \<Rightarrow> string \<Rightarrow> UniversalExecError + unit"
  io_create_dir :: "nat \<Rightarrow> string \<Rightarrow> string + unit"
  io_create_dir_all :: "nat \<Rightarrow> string \<Rightarrow> string + unit"
  io_set_permissions :: "nat \<Rightarrow> string \<Rightarrow> nat \<Rightarrow> string + unit"
  io_rename :: "nat \<Rightarrow> string \<Rightarrow> string \<Rightarrow> string \<Rightarrow> UniversalExecError + unit"
  io_remove_dir_all :: "nat \<Rightarrow> string \<Rightarrow> string + unit"
  io_read_dir :: "nat \<Rightarrow> string \<Rightarrow> string + (string + string) list"
  io_remove_file :: "nat \<Rightarrow> string \<Rightarrow> string + unit"
  io_age_ms :: "nat \<Rightarrow> string \<Rightarrow> nat option"
  io_lock_lease :: "nat \<Rightarrow> string \<Rightarrow> bool"
  io_is_dir :: "nat \<Rightarrow> string \<Rightarrow> bool"
  io_canonicalize :: "nat \<Rightarrow> string \<Rightarrow> string + string"
  io_uuid :: "nat \<Rightarrow> string"
  io_environment :: "nat \<Rightarrow> (string \<times> string) list"
  io_deadline_in_range :: "nat \<Rightarrow> nat \<Rightarrow> bool"
  io_validate_windows :: "nat \<Rightarrow> unit result"
  io_systemctl_show :: "nat \<Rightarrow> string \<Rightarrow> command_output result"
  io_systemd_run :: "nat \<Rightarrow> string list \<Rightarrow> string + command_output"
  io_stop_unit :: "nat \<Rightarrow> string \<Rightarrow> string + command_output"
  io_process_identity :: "nat \<Rightarrow> nat \<Rightarrow> string option"
  io_boot_id :: "nat \<Rightarrow> string result"
  io_launcher_owner :: "nat \<Rightarrow> WindowsAuthority \<Rightarrow> string option \<Rightarrow> nat \<Rightarrow> WindowsLauncherOwnerObservation result"
  io_terminate_launcher :: "nat \<Rightarrow> WindowsAuthority \<Rightarrow> string option \<Rightarrow> nat \<Rightarrow> nat
     \<Rightarrow> WindowsDeadlineOwnerTerminationDisposition result"
  io_spawn_windows :: "nat \<Rightarrow> WindowsNativeRunSpec \<Rightarrow> WindowsNativeLaunchObservation result"
  io_verify_broker :: "nat \<Rightarrow> string \<Rightarrow> unit result"
  io_visible_path :: "nat \<Rightarrow> string \<Rightarrow> string \<Rightarrow> string result"
  io_open_receipt :: "nat \<Rightarrow> string \<Rightarrow> bool"
  io_read_receipt :: "nat \<Rightarrow> string \<Rightarrow> string option"
  io_lifecycle_lock :: "nat \<Rightarrow> bool"
  io_fence :: "nat \<Rightarrow> fence_state"
  io_metadata :: "nat \<Rightarrow> string \<Rightarrow> string + path_kind"
  io_git_output :: "nat \<Rightarrow> string \<Rightarrow> string list \<Rightarrow> UniversalExecError + string"
  io_source_state_digest :: "nat \<Rightarrow> string \<Rightarrow> UniversalExecError + string"
  io_windows_snapshot :: "nat \<Rightarrow> WindowsAuthority \<Rightarrow> windows_snapshot result"
  io_broker_executable_digest :: "nat \<Rightarrow> string result"
  io_open_beneath :: "nat \<Rightarrow> string \<Rightarrow> string \<Rightarrow> string + unit"
  io_copy :: "nat \<Rightarrow> string \<Rightarrow> string \<Rightarrow> string \<Rightarrow> string + unit"
  io_try_lock :: "nat \<Rightarrow> string \<Rightarrow> string + unit"
  io_read_link :: "nat \<Rightarrow> string \<Rightarrow> string + string"
  io_symlink :: "nat \<Rightarrow> string \<Rightarrow> string \<Rightarrow> create_failure + unit"
  io_create_private_dir :: "nat \<Rightarrow> string \<Rightarrow> create_failure + unit"

text \<open>Readers and printers of the evidence files (\<open>serde_json\<close>), and two derived \<open>Debug\<close> printers.\<close>

record evidence_codec =
  ec_result_parse :: "string \<Rightarrow> string + RunnerResult"
  ec_progress_parse :: "string \<Rightarrow> string + RunnerProgress"
  ec_control_parse :: "string \<Rightarrow> string + ControlTerminalEvidence"
  ec_runner_start_parse :: "string \<Rightarrow> string + RunnerStartEvidence"
  ec_windows_start_parse :: "string \<Rightarrow> string + WindowsStartEvidence"
  ec_launcher_start_parse :: "string \<Rightarrow> string + WindowsLauncherStartEvidence"
  ec_launcher_start_print :: "WindowsLauncherStartEvidence \<Rightarrow> string"
  ec_control_print :: "ControlTerminalEvidence \<Rightarrow> string"
  ec_terminal_print :: "TerminalProcessEvidence \<Rightarrow> string"
  ec_request_print :: "RunnerRequest \<Rightarrow> string"
  ec_manifest_print :: "BundleManifest \<Rightarrow> string"
  ec_credential_entries_print :: "CredentialSnapshotEntry list \<Rightarrow> string"
  ec_cancel_print :: "nat \<Rightarrow> string \<Rightarrow> string \<Rightarrow> nat \<Rightarrow> string"
  ec_debug_text :: "string option \<Rightarrow> string"
  ec_workspace_record_parse :: "string \<Rightarrow> string + WorkspaceRecord"
  ec_closed_record_parse :: "json \<Rightarrow> string + ClosedWorkspaceRecord"
  ec_debug_provider :: "ExecutionProviderSnapshot \<Rightarrow> string"

record WindowsExecutionConfig =
  wcfg_launcher_path :: string
  wcfg_has_privileged_broker :: bool

text \<open>An opened credential authority: its root and the principals that may use it.\<close>

record credential_authority =
  cau_root :: string
  cau_allowed_principals :: "string list"

text \<open>The fields of \<open>Runtime\<close> the modelled operations use, with the world they act in.\<close>

record runtime =
  rt_host :: host
  rt_io :: io
  rt_codec :: evidence_codec
  rt_on_linux :: bool
  rt_startup_grace_ms :: nat
  rt_windows :: "WindowsExecutionConfig option"
  rt_store_root :: string
  rt_runner_path :: "string option"
  rt_registry :: RegistryConfig
  rt_workspace_root :: "string option"
  rt_allowed_executable_roots :: "string list"
  rt_default_runtime_ms :: nat
  rt_max_runtime_ms :: nat
  rt_max_output_bytes :: nat
  rt_execution_path :: string
  rt_execution_home :: string
  rt_effective_uid :: nat
  rt_input_authorities :: "(string \<times> string) list"
  rt_credential_authorities :: "(string \<times> credential_authority) list"

section \<open>Engine programs\<close>

datatype world_effect =
    LaunchUnit string
  | SpawnLauncher string
  | StopUnit string
  | TerminateLauncher string
  | ReleaseUnit string

record engine_state =
  es_tick :: nat
  es_db :: registry
  es_log :: "(world_effect \<times> registry) list"

type_synonym 'a engine = "engine_state \<Rightarrow> 'a result \<times> engine_state"

definition eret :: "'a \<Rightarrow> 'a engine" where
  "eret x s = (Inr x, s)"

definition efail :: "RuntimeError \<Rightarrow> 'a engine" where
  "efail e s = (Inl e, s)"

definition elift :: "'a result \<Rightarrow> 'a engine" where
  "elift r s = (r, s)"

definition ebind :: "'a engine \<Rightarrow> ('a \<Rightarrow> 'b engine) \<Rightarrow> 'b engine" where
  "ebind m f s = (case m s of (Inl e, s') \<Rightarrow> (Inl e, s') | (Inr x, s') \<Rightarrow> f x s')"

text \<open>\<open>match m { Err(e) => handler, Ok(x) => f }\<close>.\<close>

definition ematch :: "'a engine \<Rightarrow> (RuntimeError \<Rightarrow> 'b engine) \<Rightarrow> ('a \<Rightarrow> 'b engine) \<Rightarrow> 'b engine" where
  "ematch m handler f s = (case m s of (Inl e, s') \<Rightarrow> handler e s' | (Inr x, s') \<Rightarrow> f x s')"

text \<open>Time passes: the next question is asked at the next moment, and other writers have had a turn.\<close>

definition advance :: "runtime \<Rightarrow> engine_state \<Rightarrow> engine_state" where
  "advance rt s = s\<lparr>es_tick := es_tick s + 1, es_db := io_others (rt_io rt) (es_tick s) (es_db s)\<rparr>"

definition ask :: "runtime \<Rightarrow> (io \<Rightarrow> nat \<Rightarrow> 'a) \<Rightarrow> 'a engine" where
  "ask rt q s = (Inr (q (rt_io rt) (es_tick s)), advance rt s)"

definition ask_result :: "runtime \<Rightarrow> (io \<Rightarrow> nat \<Rightarrow> 'a result) \<Rightarrow> 'a engine" where
  "ask_result rt q s = (q (rt_io rt) (es_tick s), advance rt s)"

text \<open>An operation of the registry, in one transaction of its own.\<close>

definition registry_op :: "runtime \<Rightarrow> (sql_env \<Rightarrow> registry \<Rightarrow> 'a result \<times> registry) \<Rightarrow> 'a engine" where
  "registry_op rt operation s =
     (let now = advance rt s;
          outcome = operation (io_sql (rt_io rt) (es_tick s)) (es_db now)
      in (fst outcome, now\<lparr>es_db := snd outcome\<rparr>))"

definition registry_read :: "runtime \<Rightarrow> (sql_env \<Rightarrow> registry \<Rightarrow> 'a result) \<Rightarrow> 'a engine" where
  "registry_read rt query s =
     (let now = advance rt s in (query (io_sql (rt_io rt) (es_tick s)) (es_db now), now))"

definition emit :: "world_effect \<Rightarrow> unit engine" where
  "emit effect s = (Inr (), s\<lparr>es_log := es_log s @ [(effect, es_db s)]\<rparr>)"

definition ewhen :: "bool \<Rightarrow> unit engine \<Rightarrow> unit engine" where
  "ewhen b m = (if b then m else eret ())"

section \<open>Common questions\<close>

definition io_error :: "string \<Rightarrow> string \<Rightarrow> RuntimeError" where
  "io_error context error = error_new IoError (context @ '': '' @ error) None False"

definition engine_now_ms :: "runtime \<Rightarrow> nat engine" where
  "engine_now_ms rt = ask_result rt (\<lambda>i t. now_ms (io_clock i t))"

definition path_exists :: "runtime \<Rightarrow> string \<Rightarrow> bool engine" where
  "path_exists rt path = ask rt (\<lambda>i t. io_exists i t path)"

definition path_is_file :: "runtime \<Rightarrow> string \<Rightarrow> bool engine" where
  "path_is_file rt path = ask rt (\<lambda>i t. io_is_file i t path)"

definition read_file :: "runtime \<Rightarrow> string \<Rightarrow> string \<Rightarrow> string engine" where
  "read_file rt context path = ask_result rt (\<lambda>i t. map_err (io_error context) (io_read i t path))"

definition file_len :: "runtime \<Rightarrow> string \<Rightarrow> string \<Rightarrow> nat engine" where
  "file_len rt context path = ask_result rt (\<lambda>i t. map_err (io_error context) (io_len i t path))"

definition engine_sha256_file :: "runtime \<Rightarrow> string \<Rightarrow> string engine" where
  "engine_sha256_file rt path = ask_result rt (\<lambda>i t. map_err map_universal_error (io_sha256_file i t path))"

definition write_atomic :: "runtime \<Rightarrow> string \<Rightarrow> string \<Rightarrow> unit engine" where
  "write_atomic rt path bytes = ask_result rt (\<lambda>i t. map_err map_universal_error (io_write_atomic i t path bytes))"

definition get_attempt_now :: "runtime \<Rightarrow> string \<Rightarrow> AttemptRecord engine" where
  "get_attempt_now rt attempt_id = registry_read rt (\<lambda>env db. get_attempt env db attempt_id)"

definition execution_plan_now :: "runtime \<Rightarrow> string \<Rightarrow> RuntimeExecutionPlan engine" where
  "execution_plan_now rt job_id = registry_read rt (\<lambda>env db. execution_plan (rt_host rt) env db job_id)"

definition supervisor_owner_now :: "runtime \<Rightarrow> string \<Rightarrow> AttemptSupervisorOwner option engine" where
  "supervisor_owner_now rt attempt_id =
     registry_read rt (\<lambda>env db. attempt_supervisor_owner (rt_host rt) env db attempt_id)"

definition job_snapshot_now :: "runtime \<Rightarrow> string \<Rightarrow> JobSnapshot engine" where
  "job_snapshot_now rt job_id = registry_read rt (\<lambda>env db. job_snapshot env db job_id)"

section \<open>Files of a bundle\<close>

definition RESULT_FILE :: string where "RESULT_FILE = ''result.json''"
definition STDOUT_FILE :: string where "STDOUT_FILE = ''stdout.log''"
definition STDERR_FILE :: string where "STDERR_FILE = ''stderr.log''"
definition CONTROL_RESULT_FILE :: string where "CONTROL_RESULT_FILE = ''control-result.json''"
definition CANCEL_FILE :: string where "CANCEL_FILE = ''cancel-requested.json''"
definition ORPHAN_REMEDIATION_FILE :: string where "ORPHAN_REMEDIATION_FILE = ''orphan-remediation.json''"
definition TERMINAL_EVIDENCE_FILE_PREFIX :: string where "TERMINAL_EVIDENCE_FILE_PREFIX = ''terminal-evidence-''"

definition bundle_file :: "AttemptRecord \<Rightarrow> string \<Rightarrow> string" where
  "bundle_file attempt name = path_join (a_bundle_path attempt) name"

definition result_exists :: "runtime \<Rightarrow> AttemptRecord \<Rightarrow> bool engine" where
  "result_exists rt attempt = path_exists rt (bundle_file attempt RESULT_FILE)"

definition result_is_file :: "runtime \<Rightarrow> AttemptRecord \<Rightarrow> bool engine" where
  "result_is_file rt attempt = path_is_file rt (bundle_file attempt RESULT_FILE)"

end
