(* ===== verification/Engine_Evidence.thy ===== *)
theory Engine_Evidence
  imports Engine_World
begin

text \<open>
  What the engine reads off the host and writes down about the end of an Attempt: systemd properties
  and control groups (\<open>runtime/platform/linux.rs\<close>), the Runner's result (\<open>runtime/evidence.rs\<close>), the
  terminal evidence that goes with every commit (\<open>runtime/engine/control_query.rs\<close>) and the receipt of
  a Runtime release.
\<close>

section \<open>Numbers and lines\<close>

definition decimal_digits :: "string \<Rightarrow> nat option" where
  "decimal_digits s =
     (if s = [] \<or> \<not> list_all is_ascii_digit s then None
      else Some (fold (\<lambda>c n. 10 * n + (of_char c - 48)) s 0))"

text \<open>\<open>str::parse::<u32>\<close> and \<open>str::parse::<i32>\<close>.\<close>

definition parse_u32 :: "string \<Rightarrow> nat option" where
  "parse_u32 s =
     (case decimal_digits (case strip_prefix ''+'' s of None \<Rightarrow> s | Some digits \<Rightarrow> digits) of
        None \<Rightarrow> None
      | Some n \<Rightarrow> if n < 2 ^ 32 then Some n else None)"

definition parse_i32 :: "string \<Rightarrow> int option" where
  "parse_i32 s =
     (case strip_prefix ''-'' s of
        Some digits \<Rightarrow> (case decimal_digits digits of None \<Rightarrow> None
          | Some n \<Rightarrow> if n \<le> 2 ^ 31 then Some (- int n) else None)
      | None \<Rightarrow> (case decimal_digits (case strip_prefix ''+'' s of None \<Rightarrow> s | Some digits \<Rightarrow> digits) of None \<Rightarrow> None
          | Some n \<Rightarrow> if n < 2 ^ 31 then Some (int n) else None))"

definition strip_cr :: "string \<Rightarrow> string" where
  "strip_cr line = (if ends_with line [CHR 0x0D] then butlast line else line)"

text \<open>\<open>str::lines\<close>: a final line ending does not start another line; a carriage return is stripped
  only in front of a line feed.\<close>

definition text_lines :: "string \<Rightarrow> string list" where
  "text_lines s =
     (let pieces = split_on (CHR 0x0A) s
      in map strip_cr (butlast pieces) @ (if last pieces = [] then [] else [last pieces]))"

fun split_whitespace :: "nat list \<Rightarrow> nat list list" where
  "split_whitespace [] = []"
| "split_whitespace (c # cs) =
     (if is_whitespace c then split_whitespace cs
      else case split_whitespace cs of
             [] \<Rightarrow> [[c]]
           | word # words \<Rightarrow>
               if cs = [] \<or> is_whitespace (hd cs) then [c] # word # words else (c # word) # words)"

section \<open>systemd\<close>

definition property :: "(string \<times> string) list \<Rightarrow> string \<Rightarrow> string option" where
  "property properties key = map_of properties key"

fun split_once :: "char \<Rightarrow> string \<Rightarrow> (string \<times> string) option" where
  "split_once d [] = None"
| "split_once d (c # cs) = (if c = d then Some ([], cs)
     else case split_once d cs of None \<Rightarrow> None | Some (a, b) \<Rightarrow> Some (c # a, b))"

definition parse_properties :: "string \<Rightarrow> (string \<times> string) list" where
  "parse_properties output =
     (let entries = rev (List.map_filter (split_once (CHR ''='')) (text_lines output));
          loaded = (if map_of entries ''LoadState'' = None then entries @ [(''LoadState'', ''not-found'')] else entries)
      in if map_of loaded ''ActiveState'' = None then loaded @ [(''ActiveState'', ''inactive'')] else loaded)"

definition systemctl_show :: "runtime \<Rightarrow> string \<Rightarrow> (string \<times> string) list engine" where
  "systemctl_show rt unit_name =
     ebind (ask_result rt (\<lambda>i t. io_systemctl_show i t unit_name)) (\<lambda>output.
     if \<not> out_success output \<and> out_stdout output = []
     then efail (error_new ToolFailed (''systemctl show failed: '' @ out_stderr output) None True)
     else eret (parse_properties (out_stdout output)))"

definition unit_is_active :: "(string \<times> string) list \<Rightarrow> bool" where
  "unit_is_active properties \<longleftrightarrow>
     property properties ''ActiveState'' \<in> {Some ''active'', Some ''activating'', Some ''reloading''}"

definition unit_has_pending_job :: "(string \<times> string) list \<Rightarrow> bool" where
  "unit_has_pending_job properties \<longleftrightarrow>
     (case property properties ''Job'' of None \<Rightarrow> False | Some job \<Rightarrow> job \<noteq> [])"

definition nonempty_property :: "(string \<times> string) list \<Rightarrow> string \<Rightarrow> string option" where
  "nonempty_property properties key =
     (case property properties key of None \<Rightarrow> None | Some v \<Rightarrow> if v = [] then None else Some v)"

definition require_property :: "(string \<times> string) list \<Rightarrow> string \<Rightarrow> string \<Rightarrow> unit result" where
  "require_property properties key expected =
     (if property properties key \<noteq> Some expected
      then Inl (error_new LaunchIdentityMismatch (''systemd '' @ key @ '' does not match runner-start evidence'')
             (Some key) False)
      else Inr ())"

definition missing_systemd_property :: "string \<Rightarrow> RuntimeError" where
  "missing_systemd_property key = error_new LaunchIdentityMismatch (''systemd omitted '' @ key) (Some key) False"

definition bound_field :: "'a option \<Rightarrow> string \<Rightarrow> string \<Rightarrow> 'a result" where
  "bound_field v label field = ok_or v (registry_corrupt (''bound Attempt has no '' @ label) field)"

definition supervisor_identity :: "AttemptRecord \<Rightarrow> SupervisorIdentity result" where
  "supervisor_identity attempt =
     rbind (bound_field (a_boot_id attempt) ''bootId'' ''bootId'') (\<lambda>boot_id.
     rbind (bound_field (a_invocation_id attempt) ''invocationId'' ''invocationId'') (\<lambda>invocation_id.
     rbind (bound_field (a_control_group attempt) ''controlGroup'' ''controlGroup'') (\<lambda>control_group.
     rbind (bound_field (a_main_pid attempt) ''mainPid'' ''mainPid'') (\<lambda>main_pid.
     rbind (bound_field (a_process_start_identity attempt) ''process start identity'' ''processStartIdentity'') (\<lambda>start.
     Inr \<lparr>si_boot_id = boot_id, si_unit_name = a_unit_name attempt, si_invocation_id = invocation_id,
          si_control_group = control_group, si_main_pid = main_pid, si_main_process_start_identity = start\<rparr>)))))"

definition process_identity :: "runtime \<Rightarrow> nat \<Rightarrow> string option engine" where
  "process_identity rt pid = (if pid = 0 then eret None else ask rt (\<lambda>i t. io_process_identity i t pid))"

definition opt_process_identity :: "runtime \<Rightarrow> nat option \<Rightarrow> string option engine" where
  "opt_process_identity rt pid = (case pid of None \<Rightarrow> eret None | Some p \<Rightarrow> process_identity rt p)"

text \<open>\<open>main_pid.is_some_and(|pid| process_identity(pid) equals the recorded start identity)\<close>.\<close>

definition recorded_pid_alive :: "runtime \<Rightarrow> AttemptRecord \<Rightarrow> bool engine" where
  "recorded_pid_alive rt attempt =
     ebind (opt_process_identity rt (a_main_pid attempt)) (\<lambda>observed.
     eret (observed \<noteq> None \<and> observed = a_process_start_identity attempt))"

section \<open>Control groups\<close>

definition read_text :: "runtime \<Rightarrow> string \<Rightarrow> string \<Rightarrow> string engine" where
  "read_text rt context path = ask_result rt (\<lambda>i t.
     map_err (\<lambda>(interrupted, text). error_new IoError (context @ '': '' @ text) None interrupted)
       (io_read_to_string i t path))"

fun populated_line :: "string list \<Rightarrow> bool result" where
  "populated_line [] = Inl (registry_corrupt ''cgroup.events omitted populated state'' ''controlGroup'')"
| "populated_line (line # lines) =
     (case split_whitespace (utf8_chars line) of
        [] \<Rightarrow> populated_line lines
      | key # values \<Rightarrow>
          if key = utf8_chars ''populated''
          then (if values = [utf8_chars ''0''] then Inr False
                else if values = [utf8_chars ''1''] then Inr True
                else Inl (registry_corrupt ''cgroup.events has an invalid populated value'' ''controlGroup''))
          else populated_line lines)"

definition parse_cgroup_populated :: "string \<Rightarrow> bool result" where
  "parse_cgroup_populated content = populated_line (text_lines content)"

definition line_is_pid :: "string \<Rightarrow> bool" where
  "line_is_pid line =
     (let scalars = trim_scalars (utf8_chars line)
      in list_all (\<lambda>c. c < 128) scalars \<and> parse_u32 (map char_of scalars) \<noteq> None)"

definition cgroup_root :: "string \<Rightarrow> string" where
  "cgroup_root control_group = path_join ''/sys/fs/cgroup'' (dropWhile (\<lambda>c. c = SLASH) control_group)"

definition cgroup_has_processes :: "runtime \<Rightarrow> string \<Rightarrow> bool engine" where
  "cgroup_has_processes rt control_group =
     (if \<not> starts_with control_group ''/''
         \<or> list_ex (\<lambda>part. part = ''..'' \<or> contains_nul part) (split_on SLASH control_group)
      then efail (registry_corrupt ''recorded cgroup path is invalid'' ''controlGroup'')
      else
        let root = cgroup_root control_group;
            events_path = path_join root ''cgroup.events'';
            processes_path = path_join root ''cgroup.procs''
        in ebind (path_is_file rt events_path) (\<lambda>events.
           if events
           then ebind (read_text rt ''read cgroup population state'' events_path) (\<lambda>content.
                elift (parse_cgroup_populated content))
           else ebind (path_is_file rt processes_path) (\<lambda>processes.
             if \<not> processes then eret False
             else ebind (read_text rt ''read cgroup process membership'' processes_path) (\<lambda>content.
                  eret (list_ex line_is_pid (text_lines content))))))"

definition opt_cgroup_has_processes :: "runtime \<Rightarrow> string option \<Rightarrow> bool engine" where
  "opt_cgroup_has_processes rt control_group =
     (case control_group of None \<Rightarrow> eret False | Some path \<Rightarrow> cgroup_has_processes rt path)"

definition matching_unit_active :: "AttemptRecord \<Rightarrow> (string \<times> string) list \<Rightarrow> bool" where
  "matching_unit_active attempt properties \<longleftrightarrow>
     unit_is_active properties \<and> a_invocation_id attempt \<noteq> None
     \<and> a_invocation_id attempt = property properties ''InvocationID''"

definition attempt_process_tree_alive :: "runtime \<Rightarrow> AttemptRecord \<Rightarrow> bool engine" where
  "attempt_process_tree_alive rt attempt =
     ebind (systemctl_show rt (a_unit_name attempt)) (\<lambda>properties.
     ebind (recorded_pid_alive rt attempt) (\<lambda>pid_alive.
     ebind (opt_cgroup_has_processes rt (a_control_group attempt)) (\<lambda>cgroup_alive.
     eret (matching_unit_active attempt properties \<or> pid_alive \<or> cgroup_alive))))"

definition terminal_process_tree_alive :: "runtime \<Rightarrow> AttemptRecord \<Rightarrow> bool engine" where
  "terminal_process_tree_alive rt attempt =
     ebind (recorded_pid_alive rt attempt) (\<lambda>pid_alive.
     if pid_alive then eret True
     else case a_control_group attempt of
       Some control_group \<Rightarrow> cgroup_has_processes rt control_group
     | None \<Rightarrow> ebind (systemctl_show rt (a_unit_name attempt)) (\<lambda>properties.
         eret (matching_unit_active attempt properties)))"

definition launch_identity_mismatch_cancel_target_absent :: "runtime \<Rightarrow> AttemptRecord \<Rightarrow> bool engine" where
  "launch_identity_mismatch_cancel_target_absent rt attempt =
     ebind (systemctl_show rt (a_unit_name attempt)) (\<lambda>properties.
     ebind (recorded_pid_alive rt attempt) (\<lambda>pid_alive.
     ebind (opt_cgroup_has_processes rt (a_control_group attempt)) (\<lambda>cgroup_alive.
     eret (\<not> unit_is_active properties \<and> \<not> pid_alive \<and> \<not> cgroup_alive))))"

definition observed_unit_state :: "(string \<times> string) list \<Rightarrow> SupervisorUnitState" where
  "observed_unit_state properties =
     (if unit_is_active properties then UnitRunning
      else if property properties ''LoadState'' = Some ''not-found'' then UnitNotFound
      else UnitTerminal)"

definition observe_linux_process_owner ::
  "runtime \<Rightarrow> AttemptRecord \<Rightarrow> (SupervisorIdentity \<times> SupervisorObservation) engine" where
  "observe_linux_process_owner rt attempt =
     ebind (elift (supervisor_identity attempt)) (\<lambda>expected.
     ebind (systemctl_show rt (a_unit_name attempt)) (\<lambda>properties.
     ebind (ask_result rt io_boot_id) (\<lambda>current_boot_id.
     ebind (recorded_pid_alive rt attempt) (\<lambda>pid_alive.
     let main_pid = Option.bind (property properties ''MainPID'') parse_u32 in
     ebind (opt_process_identity rt main_pid) (\<lambda>main_identity.
     ebind (opt_process_identity rt (a_main_pid attempt)) (\<lambda>recorded_identity.
     eret (expected,
       \<lparr>so_boot_id = current_boot_id, so_unit_state = observed_unit_state properties,
        so_invocation_id = nonempty_property properties ''InvocationID'',
        so_control_group = nonempty_property properties ''ControlGroup'',
        so_main_pid = (if main_pid = Some 0 then None else main_pid),
        so_main_process_start_identity = main_identity, so_recorded_pid_alive = pid_alive,
        so_recorded_pid_start_identity = recorded_identity,
        so_result = nonempty_property properties ''Result'',
        so_exec_main_code = Option.bind (property properties ''ExecMainCode'') parse_i32,
        so_exec_main_status = Option.bind (property properties ''ExecMainStatus'') parse_i32\<rparr>)))))))"

section \<open>The Runner's result\<close>

text \<open>\<open>runtime/evidence.rs\<close> has its own mapping of file errors.\<close>

definition evidence_universal_error :: "UniversalExecError \<Rightarrow> RuntimeError" where
  "evidence_universal_error error = error_new InvalidRequest (ue_message error) (ue_field error) (ue_retryable error)"

definition U64_MAX :: nat where
  "U64_MAX = 2 ^ 64 - 1"

definition validate_captured_output ::
  "runtime \<Rightarrow> AttemptRecord \<Rightarrow> CapturedOutput \<Rightarrow> bool \<Rightarrow> ArtifactRegistration engine" where
  "validate_captured_output rt attempt output stdout =
     (let expected_file = (if stdout then STDOUT_FILE else STDERR_FILE);
          expected_kind = (if stdout then ''stdout'' else ''stderr'');
          expected_id = a_attempt_id attempt @ ''.'' @ expected_kind
      in if co_file_name output \<noteq> expected_file \<or> co_artifact_id output \<noteq> expected_id
         then efail (error_new ArtifactIdentityConflict ''Runner output identity does not match Attempt''
                (Some ''artifact'') False)
         else
           let path = bundle_file attempt expected_file in
           ebind (file_len rt ''inspect output'' path) (\<lambda>len.
           ebind (ask_result rt (\<lambda>i t. map_err evidence_universal_error (io_sha256_file i t path))) (\<lambda>digest.
           if digest \<noteq> co_digest output \<or> len \<noteq> co_retained_bytes output
           then efail (error_new ArtifactIdentityConflict ''Runner output digest or byte length changed''
                  (Some ''artifact'') False)
           else eret \<lparr>ar_artifact_id = expected_id, ar_kind = expected_kind, ar_relative_path = expected_file,
                  ar_digest = digest, ar_media_type = ''text/plain; charset=utf-8'', ar_byte_length = len,
                  ar_truncated = co_truncated output\<rparr>)))"

definition result_identity_matches :: "AttemptRecord \<Rightarrow> RunnerResult \<Rightarrow> bool" where
  "result_identity_matches current result \<longleftrightarrow>
     rr_task_id result = a_attempt_id current \<and> rr_job_id result = Some (a_job_id current)
     \<and> rr_attempt_id result = Some (a_attempt_id current)
     \<and> rr_launch_token_digest result = Some (a_launch_token_digest current)
     \<and> rr_payload_uid result = None \<and> rr_payload_gid result = None"

definition failed_reason :: "RunnerResult \<Rightarrow> AttemptState \<times> string" where
  "failed_reason result =
     (if rr_timed_out result then (TimedOut, ''DEADLINE_EXCEEDED'')
      else if rr_infrastructure_error_code result = Some ''WORKSPACE_STATE_MISMATCH''
      then (Failed, ''WORKSPACE_SOURCE_PRECONDITION_DRIFT'')
      else if rr_infrastructure_error_code result = Some ''INPUT_STATE_MISMATCH''
      then (Failed, ''INPUT_PRECONDITION_DRIFT'')
      else if rr_infrastructure_error_code result = Some ''HOST_DEPENDENCY_RUNTIME_DRIFT''
      then (Failed, ''HOST_DEPENDENCY_RUNTIME_DRIFT'')
      else if rr_infrastructure_error_code result = Some ''EXECUTABLE_RUNTIME_DRIFT''
      then (Failed, ''EXECUTABLE_RUNTIME_DRIFT'')
      else if rr_infrastructure_error_code result \<noteq> None then (Failed, ''RUNNER_INFRASTRUCTURE_FAILURE'')
      else (Failed, ''PROCESS_EXIT_NONZERO''))"

definition result_state :: "AttemptRecord \<Rightarrow> RunnerResult \<Rightarrow> AttemptState \<times> string" where
  "result_state current result =
     (case rr_status result of
        RunnerCompleted \<Rightarrow>
          if a_state current = Stopping \<or> a_termination_intent current = StopRequested
          then (Succeeded, ''PROCESS_COMPLETED_BEFORE_STOP_EFFECTIVE'')
          else (Succeeded, ''PROCESS_EXIT_ZERO'')
      | RunnerFailed \<Rightarrow> failed_reason result
      | RunnerCancelled \<Rightarrow> (Cancelled, ''STOP_REQUESTED''))"

definition prepare_runner_terminal_from_bundle :: "runtime \<Rightarrow> AttemptRecord \<Rightarrow> TerminalCommit engine" where
  "prepare_runner_terminal_from_bundle rt current =
     ebind (read_file rt ''read Runner result'' (bundle_file current RESULT_FILE)) (\<lambda>bytes.
     ebind (elift (map_err (\<lambda>error. registry_corrupt (''invalid Runner result: '' @ error) ''result'')
              (ec_result_parse (rt_codec rt) bytes))) (\<lambda>result.
     if \<not> result_identity_matches current result
     then efail (error_new ResultIdentityConflict ''Runner result identity does not match committed Attempt''
            (Some ''result'') False)
     else
       let result_digest = sha256_bytes (rt_host rt) bytes in
       ebind (validate_captured_output rt current (rr_stdout result) True) (\<lambda>stdout.
       ebind (validate_captured_output rt current (rr_stderr result) False) (\<lambda>stderr.
       eret \<lparr>tc_attempt_id = a_attempt_id current, tc_expected_row_version = a_row_version current,
            tc_state = fst (result_state current result), tc_result_digest = result_digest,
            tc_exit_code = rr_exit_code result,
            tc_infrastructure_error_digest =
              map_option (sha256_bytes (rt_host rt)) (rr_infrastructure_error result),
            tc_finished_at_ms = min (rr_finished_unix_ms result) U64_MAX,
            tc_artifacts = [stdout, stderr,
              \<lparr>ar_artifact_id = a_attempt_id current @ ''.result'', ar_kind = ''execution_result'',
               ar_relative_path = RESULT_FILE, ar_digest = result_digest, ar_media_type = ''application/json'',
               ar_byte_length = min (length bytes) U64_MAX, ar_truncated = False\<rparr>],
            tc_reason_code = snd (result_state current result)\<rparr>))))"

section \<open>Terminal evidence\<close>

definition tree_check :: "runtime \<Rightarrow> AttemptRecord \<Rightarrow> (string \<times> string option) engine \<Rightarrow> (string \<times> string option) engine" where
  "tree_check rt attempt still_alive =
     ematch (terminal_process_tree_alive rt attempt)
       (\<lambda>error. eret (''unknown'',
          Some (''post-terminal process-tree observation failed: '' @ err_message error)))
       (\<lambda>alive. if \<not> alive then eret (''terminal_clean'', None) else still_alive)"

fun tree_poll :: "runtime \<Rightarrow> AttemptRecord \<Rightarrow> nat \<Rightarrow> (string \<times> string option) engine" where
  "tree_poll rt attempt 0 = tree_check rt attempt (eret (''unexpected_residual'', Some
     ''the identity-bound PID or recursive cgroup remained populated after the terminal result''))"
| "tree_poll rt attempt (Suc polls) = tree_check rt attempt (tree_poll rt attempt polls)"

definition observe_terminal_process_tree :: "runtime \<Rightarrow> AttemptRecord \<Rightarrow> (string \<times> string option) engine" where
  "observe_terminal_process_tree rt attempt =
     (if a_control_group attempt = None \<and> a_main_pid attempt = None \<and> a_invocation_id attempt = None
      then eret (''unknown'', Some ''the Attempt never bound a supervisor process identity'')
      else ebind (ask rt io_polls) (tree_poll rt attempt))"

definition observed_supervisor_evidence :: "SupervisorObservation \<Rightarrow> ObservedSupervisorEvidence" where
  "observed_supervisor_evidence observation =
     \<lparr>os_boot_id = so_boot_id observation,
      os_unit_state = (case so_unit_state observation of
        UnitRunning \<Rightarrow> ''running'' | UnitTerminal \<Rightarrow> ''terminal'' | UnitNotFound \<Rightarrow> ''not_found''),
      os_invocation_id = so_invocation_id observation, os_control_group = so_control_group observation,
      os_main_pid = so_main_pid observation,
      os_main_process_start_identity = so_main_process_start_identity observation,
      os_recorded_pid_alive = so_recorded_pid_alive observation,
      os_recorded_pid_start_identity = so_recorded_pid_start_identity observation,
      os_result = so_result observation, os_exec_main_code = so_exec_main_code observation,
      os_exec_main_status = so_exec_main_status observation\<rparr>"

definition cancellation_disposition :: "AttemptRecord \<Rightarrow> RuntimeJobRecord \<Rightarrow> string" where
  "cancellation_disposition attempt job =
     (case a_termination_intent attempt of
        Natural \<Rightarrow> if j_desired_state job = DesiredCancelled then ''requested'' else ''not_requested''
      | StopRequested \<Rightarrow> ''requested''
      | DeadlineExceeded \<Rightarrow> ''deadline_exceeded'')"

definition delivery_disposition_text :: "AttemptState \<Rightarrow> string" where
  "delivery_disposition_text state =
     (case state of Orphaned \<Rightarrow> ''reconciliation_required'' | Lost \<Rightarrow> ''unknown'' | _ \<Rightarrow> ''committed'')"

definition HOST_DEPENDENCY_CONTINUITY_SCOPE :: string where
  "HOST_DEPENDENCY_CONTINUITY_SCOPE = ''runtime_host_namespace_path_witness''"

definition host_dependency_continuity :: "HostDependencyBinding list \<Rightarrow> string \<Rightarrow> string option" where
  "host_dependency_continuity deps reason_code =
     (if deps = [] then None
      else if reason_code = ''HOST_DEPENDENCY_RUNTIME_DRIFT'' then Some ''runtime_path_drift_detected''
      else if reason_code \<in> {''PROCESS_EXIT_ZERO'', ''PROCESS_EXIT_NONZERO'',
                ''PROCESS_COMPLETED_BEFORE_STOP_EFFECTIVE'', ''DEADLINE_EXCEEDED''}
      then Some ''no_runtime_path_drift_observed''
      else None)"

definition terminal_evidence ::
  "AttemptRecord \<Rightarrow> TerminalCommit \<Rightarrow> RuntimeJobRecord \<Rightarrow> RuntimeExecutionPlan \<Rightarrow> string option
   \<Rightarrow> string \<times> string option \<Rightarrow> HostDependencyBinding list \<Rightarrow> ExecutionProviderSnapshot option
   \<Rightarrow> SupervisorObservation option \<Rightarrow> TerminalProcessEvidence" where
  "terminal_evidence attempt terminal job plan previous tree deps provider observed =
     (let continuity = host_dependency_continuity deps (tc_reason_code terminal) in
      \<lparr>tpe_schema_version = RUNTIME_SCHEMA_VERSION, tpe_job_id = a_job_id attempt,
       tpe_attempt_id = a_attempt_id attempt, tpe_operation_digest = j_operation_digest job,
       tpe_execution_plan_digest = j_execution_plan_digest job, tpe_workspace_id = p_workspace_id plan,
       tpe_source_revision = p_source_revision plan, tpe_execution_profile = p_execution_profile plan,
       tpe_execution_target = p_execution_target plan, tpe_execution_provider = provider,
       tpe_windows_authority = p_windows_authority plan,
       tpe_windows_execution_context = p_windows_execution_context plan,
       tpe_foreign_references = p_foreign_references plan, tpe_host_dependencies = deps,
       tpe_host_dependency_continuity = continuity,
       tpe_host_dependency_continuity_scope = map_option (\<lambda>_. HOST_DEPENDENCY_CONTINUITY_SCOPE) continuity,
       tpe_input_set_id = p_input_set_id plan, tpe_effective_inputs = p_effective_inputs plan,
       tpe_executable = p_executable plan, tpe_executable_digest = p_executable_digest plan,
       tpe_args = p_args plan, tpe_cwd = p_cwd plan,
       tpe_supervisor = \<lparr>ts_boot_id = a_boot_id attempt, ts_unit_name = a_unit_name attempt,
         ts_invocation_id = a_invocation_id attempt, ts_control_group = a_control_group attempt,
         ts_main_pid = a_main_pid attempt, ts_process_start_identity = a_process_start_identity attempt,
         ts_runner_start_digest = a_runner_start_digest attempt\<rparr>,
       tpe_observed_supervisor = map_option observed_supervisor_evidence observed,
       tpe_start_disposition = (if a_runner_start_digest attempt \<noteq> None then ''identity_bound'' else ''not_bound''),
       tpe_cancellation_disposition = cancellation_disposition attempt job,
       tpe_execution_disposition = state_as_db (tc_state terminal),
       tpe_delivery_disposition = delivery_disposition_text (tc_state terminal),
       tpe_process_tree_disposition = fst tree, tpe_process_tree_detail = snd tree,
       tpe_reason_code = tc_reason_code terminal,
       tpe_terminal_artifact_ids = map ar_artifact_id (tc_artifacts terminal),
       tpe_supersedes_artifact_id = previous, tpe_observed_at_ms = tc_finished_at_ms terminal\<rparr>)"

text \<open>
  The evidence is written under its own digest, which is \<open>sha256_bytes\<close> of its text and so always
  carries the prefix the code strips; a file already there must have the same bytes.
\<close>

definition append_terminal_evidence_with_observation ::
  "runtime \<Rightarrow> AttemptRecord \<Rightarrow> TerminalCommit \<Rightarrow> SupervisorObservation option \<Rightarrow> TerminalCommit engine" where
  "append_terminal_evidence_with_observation rt attempt terminal observed =
     (let h = rt_host rt in
      ebind (registry_read rt (\<lambda>env db. get_job env db (a_job_id attempt))) (\<lambda>job.
      ebind (elift (parse_execution_plan h job)) (\<lambda>plan.
      ebind (registry_read rt (\<lambda>env db. list_artifacts env db (a_job_id attempt))) (\<lambda>existing.
      let previous = map_option art_artifact_id (find (\<lambda>a. art_kind a = ''terminal_evidence'') (rev existing)) in
      ebind (observe_terminal_process_tree rt attempt) (\<lambda>tree.
      ebind (registry_read rt (\<lambda>env db. host_dependencies h env db (a_job_id attempt))) (\<lambda>deps.
      ebind (registry_read rt (\<lambda>env db. execution_provider h env db (a_job_id attempt))) (\<lambda>provider.
      let bytes = ec_terminal_print (rt_codec rt) (terminal_evidence attempt terminal job plan previous tree deps provider observed);
          digest_hex = h_sha256_hex h bytes;
          digest = sha256_bytes h bytes;
          file_name = TERMINAL_EVIDENCE_FILE_PREFIX @ digest_hex @ ''.json'';
          path = bundle_file attempt file_name
      in
      ebind (path_is_file rt path) (\<lambda>present.
      ebind (if present
             then ebind (engine_sha256_file rt path) (\<lambda>observed_digest.
               if observed_digest \<noteq> digest
               then efail (error_new ArtifactIdentityConflict
                      ''content-addressed terminal evidence has conflicting bytes'' (Some ''terminalEvidence'') False)
               else eret ())
             else write_atomic rt path bytes) (\<lambda>_.
      eret (terminal\<lparr>tc_artifacts := tc_artifacts terminal @
        [\<lparr>ar_artifact_id = a_attempt_id attempt @ ''.terminal-evidence.'' @ digest_hex,
          ar_kind = ''terminal_evidence'', ar_relative_path = file_name, ar_digest = digest,
          ar_media_type = ''application/json'', ar_byte_length = min (length bytes) U64_MAX,
          ar_truncated = False\<rparr>]\<rparr>))))))))))"

definition append_terminal_evidence :: "runtime \<Rightarrow> AttemptRecord \<Rightarrow> TerminalCommit \<Rightarrow> TerminalCommit engine" where
  "append_terminal_evidence rt attempt terminal = append_terminal_evidence_with_observation rt attempt terminal None"

section \<open>Receipts of Runtime releases\<close>

datatype RuntimeReleaseDisposition =
  ReleaseAdmitted | ReleaseInProgress | ReleaseDeployed | ReleaseNotCommitted | ReleaseRolledBack
  | ReleaseReconciliationRequired

record RuntimeReleaseReceiptProjection =
  rp_disposition :: RuntimeReleaseDisposition
  rp_terminal :: bool
  rp_available :: bool
  rp_digest :: "string option"
  rp_deployed_tool_count :: "nat option"
  rp_tool_catalog_digest :: "string option"
  rp_rollback_status :: "string option"
  rp_issue :: "string option"

definition MAX_RUNTIME_RELEASE_RECEIPT_BYTES :: nat where
  "MAX_RUNTIME_RELEASE_RECEIPT_BYTES = 1048576"

definition json_str :: "json option \<Rightarrow> string option" where
  "json_str v = (case v of Some (JString s) \<Rightarrow> Some s | _ \<Rightarrow> None)"

text \<open>\<open>as_u64\<close> on a JSON integer.\<close>

definition json_u64 :: "json option \<Rightarrow> nat option" where
  "json_u64 v = (case v of Some (JNumber n) \<Rightarrow> if 0 \<le> n \<and> n < 2 ^ 64 then Some (nat n) else None | _ \<Rightarrow> None)"

definition json_is_object :: "json \<Rightarrow> bool" where
  "json_is_object v = (case v of JObject _ \<Rightarrow> True | _ \<Rightarrow> False)"

text \<open>The reader stops after \<open>MAX_RUNTIME_RELEASE_RECEIPT_BYTES + 1\<close> bytes; the error is the issue code.\<close>

definition release_receipt_json :: "runtime \<Rightarrow> string \<Rightarrow> (string + (json \<times> string) option) engine" where
  "release_receipt_json rt path =
     ebind (ask rt (\<lambda>i t. io_symlink_metadata i t path)) (\<lambda>metadata. case metadata of
       Inl failure \<Rightarrow> eret (if if_not_found failure then Inr None else Inl ''RELEASE_RECEIPT_METADATA_UNAVAILABLE'')
     | Inr kind \<Rightarrow>
         if pk_symlink kind \<or> \<not> pk_file kind then eret (Inl ''RELEASE_RECEIPT_FILE_UNSAFE'')
         else if pk_len kind > MAX_RUNTIME_RELEASE_RECEIPT_BYTES then eret (Inl ''RELEASE_RECEIPT_FILE_TOO_LARGE'')
         else ebind (ask rt (\<lambda>i t. io_open_receipt i t path)) (\<lambda>opened.
           if \<not> opened then eret (Inl ''RELEASE_RECEIPT_OPEN_FAILED'')
           else ebind (ask rt (\<lambda>i t. map_option (take (MAX_RUNTIME_RELEASE_RECEIPT_BYTES + 1)) (io_read_receipt i t path))) (\<lambda>content.
             eret (case content of
               None \<Rightarrow> Inl ''RELEASE_RECEIPT_READ_FAILED''
             | Some bytes \<Rightarrow>
                 if length bytes > MAX_RUNTIME_RELEASE_RECEIPT_BYTES then Inl ''RELEASE_RECEIPT_FILE_TOO_LARGE''
                 else (case h_json_parse (rt_host rt) bytes of
                   Inl _ \<Rightarrow> Inl ''RELEASE_RECEIPT_JSON_INVALID''
                 | Inr val \<Rightarrow>
                     if json_is_object val then Inr (Some (val, sha256_bytes (rt_host rt) bytes))
                     else Inl ''RELEASE_RECEIPT_JSON_INVALID'')))))"

definition release_effect_json_matches :: "json \<Rightarrow> RuntimeReleaseEffectBinding \<Rightarrow> bool" where
  "release_effect_json_matches val binding \<longleftrightarrow>
     json_is_object val
     \<and> json_str (json_get val ''contract'') = Some ''runtime_release_v1''
     \<and> json_str (json_get val ''effectId'') = Some (rel_effect_id binding)
     \<and> json_str (json_get val ''requestDigest'') = Some (rel_request_digest binding)
     \<and> json_str (json_get val ''commit'') = Some (rel_commit binding)
     \<and> json_str (json_get val ''candidateManifestDigest'') = Some (rel_candidate_manifest_digest binding)
     \<and> json_u64 (json_get val ''expectedToolCount'') = Some (rel_expected_tool_count binding)"

definition unresolved_release_projection :: "JobSnapshot \<Rightarrow> RuntimeReleaseReceiptProjection" where
  "unresolved_release_projection snapshot =
     \<lparr>rp_disposition = (if map_option a_state (js_attempt snapshot) = Some Accepted then ReleaseAdmitted
        else ReleaseInProgress),
      rp_terminal = False, rp_available = False, rp_digest = None, rp_deployed_tool_count = None,
      rp_tool_catalog_digest = None, rp_rollback_status = None, rp_issue = None\<rparr>"

definition release_reconciliation_projection :: "string \<Rightarrow> RuntimeReleaseReceiptProjection" where
  "release_reconciliation_projection issue =
     \<lparr>rp_disposition = ReleaseReconciliationRequired, rp_terminal = False, rp_available = False,
      rp_digest = None, rp_deployed_tool_count = None, rp_tool_catalog_digest = None,
      rp_rollback_status = None, rp_issue = Some issue\<rparr>"

definition probe_member :: "json \<Rightarrow> string \<Rightarrow> json option" where
  "probe_member result key = Option.bind (json_get result ''probe'') (\<lambda>probe. json_get probe key)"

definition deployed_tool_count :: "json \<Rightarrow> nat option" where
  "deployed_tool_count result =
     (case json_u64 (probe_member result ''toolCount'') of None \<Rightarrow> None | Some n \<Rightarrow> if n < 2 ^ 32 then Some n else None)"

definition release_disposition :: "json \<Rightarrow> RuntimeReleaseDisposition \<times> bool \<times> string option" where
  "release_disposition result =
     (let status = json_str (json_get result ''status'') in
      if status = Some ''deployed'' then (ReleaseDeployed, True, None)
      else if status = Some ''not_committed'' then (ReleaseNotCommitted, True, None)
      else if status = Some ''rolled_back'' then (ReleaseRolledBack, True, None)
      else if status = Some ''rollback_failed'' then (ReleaseReconciliationRequired, False, Some ''RELEASE_ROLLBACK_FAILED'')
      else if status = Some ''reconciliation_required''
      then (ReleaseReconciliationRequired, False, Some (case json_str (json_get result ''reconciliationIssue'') of
             None \<Rightarrow> ''RELEASE_RECONCILIATION_REQUIRED'' | Some issue \<Rightarrow> issue))
      else if status = Some ''recovery_failed'' then (ReleaseReconciliationRequired, False, Some ''RELEASE_RECOVERY_FAILED'')
      else (ReleaseReconciliationRequired, False, Some ''RELEASE_RESULT_STATUS_UNKNOWN''))"

text \<open>What the three receipt files say, once the request and the result were found and belong to the binding.\<close>

definition release_result_projection ::
  "RuntimeReleaseEffectBinding \<Rightarrow> json \<Rightarrow> string \<Rightarrow> string option \<Rightarrow> RuntimeReleaseReceiptProjection" where
  "release_result_projection binding result result_digest rollback =
     (let count = deployed_tool_count result;
          catalog = json_str (probe_member result ''toolCatalogDigest'')
      in if rollback = Some ''restored_previous''
         then \<lparr>rp_disposition = ReleaseRolledBack, rp_terminal = True, rp_available = True,
               rp_digest = Some result_digest, rp_deployed_tool_count = count, rp_tool_catalog_digest = catalog,
               rp_rollback_status = rollback, rp_issue = None\<rparr>
         else if json_str (json_get result ''status'') = Some ''deployed'' \<and> count \<noteq> Some (rel_expected_tool_count binding)
         then release_reconciliation_projection ''RELEASE_RESULT_TOOL_COUNT_MISMATCH''
         else let (disposition, terminal, issue) = release_disposition result
              in \<lparr>rp_disposition = disposition, rp_terminal = terminal, rp_available = True,
                  rp_digest = Some result_digest, rp_deployed_tool_count = count, rp_tool_catalog_digest = catalog,
                  rp_rollback_status = rollback, rp_issue = issue\<rparr>)"

definition release_missing :: "JobSnapshot \<Rightarrow> string \<Rightarrow> RuntimeReleaseReceiptProjection" where
  "release_missing snapshot issue =
     (if j_resolution (js_job snapshot) = None then unresolved_release_projection snapshot
      else release_reconciliation_projection issue)"

definition inspect_runtime_release_receipt ::
  "runtime \<Rightarrow> RuntimeReleaseEffectBinding \<Rightarrow> JobSnapshot \<Rightarrow> RuntimeReleaseReceiptProjection engine" where
  "inspect_runtime_release_receipt rt binding snapshot =
     (let receipt = rel_receipt_path binding;
          reconcile = (\<lambda>issue. eret (release_reconciliation_projection issue))
      in
      ebind (ask rt (\<lambda>i t. io_symlink_metadata i t receipt)) (\<lambda>directory. case directory of
        Inl failure \<Rightarrow>
          if if_not_found failure then eret (release_missing snapshot ''RELEASE_RECEIPT_MISSING_AFTER_JOB_TERMINAL'')
          else reconcile ''RELEASE_RECEIPT_DIRECTORY_UNAVAILABLE''
      | Inr kind \<Rightarrow>
          if pk_symlink kind \<or> \<not> pk_dir kind then reconcile ''RELEASE_RECEIPT_DIRECTORY_UNSAFE''
          else ebind (release_receipt_json rt (path_join receipt ''effect-request.json'')) (\<lambda>requested. case requested of
            Inl issue \<Rightarrow> reconcile issue
          | Inr None \<Rightarrow> eret (release_missing snapshot ''RELEASE_EFFECT_REQUEST_MISSING_AFTER_JOB_TERMINAL'')
          | Inr (Some (effect_request, _)) \<Rightarrow>
              if \<not> release_effect_json_matches effect_request binding then reconcile ''RELEASE_EFFECT_REQUEST_MISMATCH''
              else ebind (release_receipt_json rt (path_join receipt ''result.json'')) (\<lambda>outcome. case outcome of
                Inl issue \<Rightarrow> reconcile issue
              | Inr None \<Rightarrow> eret (release_missing snapshot ''RELEASE_RESULT_MISSING_AFTER_JOB_TERMINAL'')
              | Inr (Some (result, result_digest)) \<Rightarrow>
                  if json_str (json_get result ''commit'') \<noteq> Some (rel_commit binding)
                     \<or> \<not> (case json_get result ''releaseEffect'' of None \<Rightarrow> False
                           | Some eff \<Rightarrow> release_effect_json_matches eff binding)
                  then reconcile ''RELEASE_RESULT_MISMATCH''
                  else ebind (release_receipt_json rt (path_join receipt ''rollback-result.json'')) (\<lambda>rolled. case rolled of
                    Inl issue \<Rightarrow> reconcile issue
                  | Inr back_entry \<Rightarrow> eret (release_result_projection binding result result_digest
                      (Option.bind back_entry (\<lambda>(val, _). json_str (json_get val ''status'')))))))))"

end
