(* ===== verification/Engine_Start.thy ===== *)
theory Engine_Start
  imports Engine_Evidence
begin

text \<open>
  How the engine recognises that an Attempt has started (\<open>runtime/engine/execution.rs\<close>): the evidence
  files of the Linux Runner and of the Windows launcher are compared with what was committed and with
  what the host shows, and only then the process identity is bound in the registry.
\<close>

definition RUNNER_REQUEST_FILE :: string where "RUNNER_REQUEST_FILE = ''request.json''"
definition RUNNER_START_FILE :: string where "RUNNER_START_FILE = ''runner-start.json''"
definition WINDOWS_LAUNCHER_START_FILE :: string where
  "WINDOWS_LAUNCHER_START_FILE = ''windows-launcher-start.json''"
definition WINDOWS_START_FILE :: string where "WINDOWS_START_FILE = ''windows-start.json''"

definition launch_mismatch :: "string \<Rightarrow> string \<Rightarrow> RuntimeError" where
  "launch_mismatch message field = error_new LaunchIdentityMismatch message (Some field) False"

definition no_windows_provider :: "string \<Rightarrow> RuntimeError" where
  "no_windows_provider message = error_new RegistryCorrupt message (Some ''executionTarget'') True"

definition require_windows :: "runtime \<Rightarrow> string \<Rightarrow> WindowsExecutionConfig engine" where
  "require_windows rt message = elift (ok_or (rt_windows rt) (no_windows_provider message))"

definition execution_provider_now :: "runtime \<Rightarrow> string \<Rightarrow> ExecutionProviderSnapshot option engine" where
  "execution_provider_now rt job_id =
     registry_read rt (\<lambda>env db. execution_provider (rt_host rt) env db job_id)"

definition committed_windows_provider :: "runtime \<Rightarrow> AttemptRecord \<Rightarrow> ExecutionProviderSnapshot engine" where
  "committed_windows_provider rt attempt =
     ebind (execution_provider_now rt (a_job_id attempt)) (\<lambda>provider.
     elift (ok_or provider (registry_corrupt ''native Windows Attempt has no committed execution provider''
       ''executionProvider'')))"

definition expected_job_name :: "AttemptRecord \<Rightarrow> string" where
  "expected_job_name attempt = ''Ordivon.'' @ a_attempt_id attempt"

fun universal_code_debug :: "UniversalExecErrorCode \<Rightarrow> string" where
  "universal_code_debug UInvalidRequest = ''InvalidRequest''"
| "universal_code_debug UWorkspaceExists = ''WorkspaceExists''"
| "universal_code_debug UWorkspaceNotFound = ''WorkspaceNotFound''"
| "universal_code_debug UWorkspacePathNotFound = ''WorkspacePathNotFound''"
| "universal_code_debug UWorkspaceDirty = ''WorkspaceDirty''"
| "universal_code_debug UWorkspacePathDenied = ''WorkspacePathDenied''"
| "universal_code_debug URevisionNotFound = ''RevisionNotFound''"
| "universal_code_debug URevisionMismatch = ''RevisionMismatch''"
| "universal_code_debug UWorkspaceStateMismatch = ''WorkspaceStateMismatch''"
| "universal_code_debug UInputStateMismatch = ''InputStateMismatch''"
| "universal_code_debug UHostDependencyRuntimeDrift = ''HostDependencyRuntimeDrift''"
| "universal_code_debug UExecutableRuntimeDrift = ''ExecutableRuntimeDrift''"
| "universal_code_debug UWorkspaceMutationIncomplete = ''WorkspaceMutationIncomplete''"
| "universal_code_debug UArtifactNotFound = ''ArtifactNotFound''"
| "universal_code_debug UArtifactNotUtf8 = ''ArtifactNotUtf8''"
| "universal_code_debug UOutputLimitExceeded = ''OutputLimitExceeded''"
| "universal_code_debug UToolUnavailable = ''ToolUnavailable''"
| "universal_code_debug UToolFailed = ''ToolFailed''"
| "universal_code_debug UIoError = ''IoError''"
| "universal_code_debug UWorkspaceCapacityExceeded = ''WorkspaceCapacityExceeded''"
| "universal_code_debug UMetadataCorrupt = ''MetadataCorrupt''"

definition universal_error_display :: "UniversalExecError \<Rightarrow> string" where
  "universal_error_display error = universal_code_debug (ue_code error) @ '': '' @ ue_message error"

section \<open>The launcher's start\<close>

definition launcher_start_matches ::
  "AttemptRecord \<Rightarrow> string \<Rightarrow> ExecutionProviderSnapshot \<Rightarrow> WindowsLauncherStartEvidence \<Rightarrow> bool" where
  "launcher_start_matches attempt request_digest provider evidence \<longleftrightarrow>
     wl_schema_version evidence = RUNTIME_SCHEMA_VERSION \<and> wl_job_id evidence = a_job_id attempt
     \<and> wl_attempt_id evidence = a_attempt_id attempt
     \<and> wl_launch_token_digest evidence = a_launch_token_digest attempt
     \<and> wl_request_digest evidence = request_digest \<and> wl_job_name evidence = expected_job_name attempt
     \<and> wl_launcher_process_id evidence \<noteq> 0 \<and> wl_launcher_process_creation_time_file_time evidence \<noteq> 0
     \<and> wl_observed_unix_ms evidence \<noteq> 0
     \<and> eps_contract provider = WindowsNativeLauncherV1 \<and> eps_wsl_distribution provider = None
     \<and> wl_launcher_image_digest evidence = eps_executable_digest provider"

text \<open>A file that was read is hashed again: it must not have changed in between.\<close>

definition unchanged_digest :: "runtime \<Rightarrow> string \<Rightarrow> string \<Rightarrow> RuntimeError \<Rightarrow> string engine" where
  "unchanged_digest rt path bytes changed =
     (let digest = sha256_bytes (rt_host rt) bytes in
      ebind (engine_sha256_file rt path) (\<lambda>now.
      if digest \<noteq> now then efail changed else eret digest))"

definition validate_windows_launcher_start_evidence ::
  "runtime \<Rightarrow> AttemptRecord \<Rightarrow> (WindowsLauncherStartEvidence \<times> string) engine" where
  "validate_windows_launcher_start_evidence rt attempt =
     (let path = bundle_file attempt WINDOWS_LAUNCHER_START_FILE in
      ebind (read_file rt ''read Windows launcher start evidence'' path) (\<lambda>bytes.
      ebind (elift (map_err (\<lambda>error. launch_mismatch (''invalid Windows launcher start evidence: '' @ error)
               ''windowsLauncherStart'') (ec_launcher_start_parse (rt_codec rt) bytes))) (\<lambda>evidence.
      ebind (execution_plan_now rt (a_job_id attempt)) (\<lambda>plan.
      if p_execution_target plan \<noteq> WindowsNative
      then efail (registry_corrupt ''Windows launcher start evidence belongs to a non-Windows execution plan''
             ''windowsLauncherStart'')
      else ebind (require_windows rt ''committed windows_native Job has no configured Windows provider'') (\<lambda>_.
        ebind (committed_windows_provider rt attempt) (\<lambda>provider.
        ebind (engine_sha256_file rt (bundle_file attempt RUNNER_REQUEST_FILE)) (\<lambda>request_digest.
        if \<not> launcher_start_matches attempt request_digest provider evidence
        then efail (launch_mismatch ''Windows launcher start identity does not match committed native Attempt''
               ''windowsLauncherStart'')
        else ebind (unchanged_digest rt path bytes
               (launch_mismatch ''Windows launcher start evidence digest changed while reading'' ''windowsLauncherStart'')) (\<lambda>digest.
          eret (evidence, digest)))))))))"

section \<open>The target's start on Windows\<close>

definition NO_ADMINISTRATORS_GROUP :: nat where
  "NO_ADMINISTRATORS_GROUP = 2 ^ 32 - 1"

text \<open>\<open>SE_GROUP_ENABLED\<close> is \<open>0x4\<close>, \<open>SE_GROUP_USE_FOR_DENY_ONLY\<close> is \<open>0x10\<close>.\<close>

definition administrators_disabled :: "nat \<Rightarrow> bool" where
  "administrators_disabled attributes \<longleftrightarrow>
     attributes = NO_ADMINISTRATORS_GROUP \<or> \<not> bit attributes 2 \<or> bit attributes 4"

definition token_authority_matches :: "WindowsAuthority \<Rightarrow> WindowsStartEvidence \<Rightarrow> bool" where
  "token_authority_matches authority evidence \<longleftrightarrow>
     (let attributes = ws_administrators_group_attributes evidence in
      case authority of
        Limited \<Rightarrow>
          \<not> ws_token_is_elevated evidence \<and> ws_token_integrity_level_rid evidence \<le> 8192
          \<and> administrators_disabled attributes
          \<and> ws_token_selection evidence \<in> {''lua_medium_filtered'', ''current_limited''}
          \<and> (ws_token_selection evidence \<noteq> ''lua_medium_filtered'' \<or> attributes = NO_ADMINISTRATORS_GROUP
             \<or> bit attributes 4)
          \<and> ws_execution_identity evidence \<in> {[], ''service''}
      | Elevated \<Rightarrow>
          ws_token_is_elevated evidence \<and> ws_token_integrity_level_rid evidence \<ge> 12288
          \<and> attributes \<noteq> NO_ADMINISTRATORS_GROUP \<and> bit attributes 2 \<and> \<not> bit attributes 4
          \<and> ws_token_selection evidence = ''current_elevated''
          \<and> ws_execution_identity evidence \<in> {[], ''service''}
      | ActiveUser \<Rightarrow>
          \<not> ws_token_is_elevated evidence \<and> ws_token_integrity_level_rid evidence \<le> 8192
          \<and> administrators_disabled attributes
          \<and> ws_token_selection evidence = ''active_user'' \<and> ws_execution_identity evidence = ''active_user''
          \<and> ws_session_id evidence \<noteq> None)"

fun expected_token_class :: "WindowsAuthority \<Rightarrow> WindowsTokenClass" where
  "expected_token_class Limited = TokenLimited"
| "expected_token_class Elevated = TokenElevated"
| "expected_token_class ActiveUser = TokenActiveUser"

definition expected_environment_source :: "WindowsAuthority \<Rightarrow> bool \<Rightarrow> string" where
  "expected_environment_source authority broker_backed =
     (if authority = ActiveUser then ''windows_active_user_profile_allowlist_v1''
      else if broker_backed then ''windows_privileged_broker_profile_allowlist_v1''
      else ''windows_user_machine_profile_allowlist_v1'')"

definition context_consistent :: "WindowsAuthority \<Rightarrow> WindowsExecutionConfig \<Rightarrow> WindowsExecutionContext \<Rightarrow> bool" where
  "context_consistent authority windows ctx =
     (let broker_backed = wc_privileged_broker_digest ctx \<noteq> None in
      wc_token_class ctx = expected_token_class authority
      \<and> wc_environment_source ctx = expected_environment_source authority broker_backed
      \<and> \<not> (authority = Limited \<and> broker_backed)
      \<and> \<not> (authority = ActiveUser \<and> (\<not> broker_backed \<or> wc_session_id ctx = None))
      \<and> \<not> (authority \<noteq> ActiveUser \<and> wc_session_id ctx \<noteq> None)
      \<and> \<not> (broker_backed \<and> \<not> wcfg_has_privileged_broker windows))"

definition expected_image :: "RuntimeExecutionPlan \<Rightarrow> string \<times> string \<times> string" where
  "expected_image plan =
     (case p_steps plan of
        step # _ \<Rightarrow> (st_executable step, st_executable_digest step, ''execution.steps[0].executable'')
      | [] \<Rightarrow> (p_executable plan, p_executable_digest plan, ''execution.executable''))"

definition strip_verbatim :: "string \<Rightarrow> string" where
  "strip_verbatim path =
     (case strip_prefix [CHR 0x5C, CHR 0x5C, CHR ''?'', CHR 0x5C] path of None \<Rightarrow> path | Some rest \<Rightarrow> rest)"

definition expected_input_evidence ::
  "host \<Rightarrow> RuntimeExecutionPlan \<Rightarrow> (string option \<times> string option \<times> string option) result" where
  "expected_input_evidence h plan =
     (if p_effective_inputs plan = [] then Inr (None, None, None)
      else case p_input_set_id plan of
        None \<Rightarrow> Inl (registry_corrupt ''Windows immutable inputs have no committed inputSetId'' ''executionPlan.inputSetId'')
      | Some input_set_id \<Rightarrow>
          rbind (required_environment_value_case_insensitive (p_env plan) ''ORDIVON_INPUT_ROOT'' ''executionPlan.env'') (\<lambda>root.
          Inr (Some input_set_id, Some root, Some (windows_input_bindings_digest h (p_effective_inputs plan)))))"

definition windows_start_matches ::
  "AttemptRecord \<Rightarrow> RuntimeExecutionPlan \<Rightarrow> WindowsExecutionContext \<Rightarrow> string \<Rightarrow> string
   \<Rightarrow> string option \<times> string option \<times> string option \<Rightarrow> WindowsStartEvidence \<Rightarrow> bool" where
  "windows_start_matches attempt plan ctx request_digest visible_image inputs evidence \<longleftrightarrow>
     ws_schema_version evidence = RUNTIME_SCHEMA_VERSION \<and> ws_job_id evidence = a_job_id attempt
     \<and> ws_attempt_id evidence = a_attempt_id attempt
     \<and> ws_launch_token_digest evidence = a_launch_token_digest attempt
     \<and> ws_request_digest evidence = request_digest \<and> ws_job_name evidence = expected_job_name attempt
     \<and> ws_launcher_process_id evidence \<noteq> 0 \<and> ws_process_id evidence \<noteq> 0
     \<and> ws_process_creation_time_file_time evidence \<noteq> 0
     \<and> ws_image_digest evidence = fst (snd (expected_image plan))
     \<and> ws_token_user_sid evidence = wc_token_user_sid ctx
     \<and> \<not> (p_windows_authority plan = ActiveUser \<and> ws_session_id evidence \<noteq> wc_session_id ctx)
     \<and> ws_token_type evidence = 1 \<and> token_authority_matches (p_windows_authority plan) evidence
     \<and> ws_power_request_type evidence = ''system_required'' \<and> ws_power_request_acquired evidence
     \<and> ws_input_set_id evidence = fst inputs \<and> ws_input_presentation_root evidence = fst (snd inputs)
     \<and> ws_input_bindings_digest evidence = snd (snd inputs)
     \<and> eq_ignore_ascii_case (strip_verbatim (ws_image_path evidence)) (strip_verbatim visible_image)"

definition start_owner_matches :: "ExecutionProviderSnapshot \<Rightarrow> WindowsStartEvidence \<Rightarrow> bool" where
  "start_owner_matches provider evidence \<longleftrightarrow>
     eps_contract provider = WindowsNativeLauncherV1 \<and> eps_wsl_distribution provider = None
     \<and> ws_launcher_process_creation_time_file_time evidence \<notin> {None, Some 0}
     \<and> ws_launcher_image_digest evidence = Some (eps_executable_digest provider)"

definition frozen_context :: "RuntimeExecutionPlan \<Rightarrow> WindowsExecutionContext result" where
  "frozen_context plan = ok_or (p_windows_execution_context plan)
     (registry_corrupt ''committed windows_native Job has no frozen Windows execution context'' ''windowsExecutionContext'')"

definition validate_windows_start_evidence ::
  "runtime \<Rightarrow> AttemptRecord \<Rightarrow> (WindowsStartEvidence \<times> string) engine" where
  "validate_windows_start_evidence rt attempt =
     (let path = bundle_file attempt WINDOWS_START_FILE in
      ebind (read_file rt ''read Windows start evidence'' path) (\<lambda>bytes.
      ebind (elift (map_err (\<lambda>error. launch_mismatch (''invalid Windows start evidence: '' @ error) ''windowsStart'')
               (ec_windows_start_parse (rt_codec rt) bytes))) (\<lambda>evidence.
      ebind (execution_plan_now rt (a_job_id attempt)) (\<lambda>plan.
      if p_execution_target plan \<noteq> WindowsNative
      then efail (registry_corrupt ''Windows start evidence belongs to a non-Windows execution plan'' ''windowsStart'')
      else ebind (require_windows rt ''committed windows_native Job has no configured Windows provider'') (\<lambda>windows.
        ebind (elift (frozen_context plan)) (\<lambda>ctx.
        if \<not> context_consistent (p_windows_authority plan) windows ctx
        then efail (registry_corrupt
               ''committed Windows requested/effective authority or privileged provider binding is inconsistent''
               ''windowsExecutionContext'')
        else ebind (case wc_privileged_broker_digest ctx of
                 None \<Rightarrow> eret ()
               | Some digest \<Rightarrow> ask_result rt (\<lambda>i t. io_verify_broker i t digest)) (\<lambda>_.
          ebind (engine_sha256_file rt (bundle_file attempt RUNNER_REQUEST_FILE)) (\<lambda>request_digest.
          ebind (ask_result rt (\<lambda>i t. io_visible_path i t (fst (expected_image plan)) (snd (snd (expected_image plan))))) (\<lambda>image.
          ebind (elift (expected_input_evidence (rt_host rt) plan)) (\<lambda>inputs.
          if \<not> windows_start_matches attempt plan ctx request_digest image inputs evidence
          then efail (launch_mismatch ''Windows start identity does not match committed Attempt'' ''windowsStart'')
          else ebind (unchanged_digest rt path bytes
                 (launch_mismatch ''Windows start evidence digest changed while reading'' ''windowsStart'')) (\<lambda>digest.
            ebind (committed_windows_provider rt attempt) (\<lambda>provider.
            if \<not> start_owner_matches provider evidence
            then efail (launch_mismatch ''native Windows launcher owner identity does not match the committed provider'' ''windowsStart'')
            else eret (evidence, digest)))))))))))))"

section \<open>Binding\<close>

definition native_windows_owner_matches_launcher_identity ::
  "AttemptSupervisorOwner \<Rightarrow> nat \<Rightarrow> nat option \<Rightarrow> string option \<Rightarrow> string \<Rightarrow> bool" where
  "native_windows_owner_matches_launcher_identity owner pid creation img name =
     (case owner of WindowsLauncherV1 expected_pid expected_creation expected_img expected_name _ \<Rightarrow>
        pid = expected_pid \<and> creation = Some expected_creation \<and> img = Some expected_img \<and> name = expected_name)"

definition nonzero_creation :: "WindowsStartEvidence \<Rightarrow> nat result" where
  "nonzero_creation evidence =
     (case ws_launcher_process_creation_time_file_time evidence of
        Some identity \<Rightarrow> if identity \<noteq> 0 then Inr identity
          else Inl (launch_mismatch ''native Windows start evidence omitted launcher process creation identity''
                 ''windowsStart.launcherProcessCreationTimeFileTime'')
      | None \<Rightarrow> Inl (launch_mismatch ''native Windows start evidence omitted launcher process creation identity''
                 ''windowsStart.launcherProcessCreationTimeFileTime''))"

definition bind_owner :: "runtime \<Rightarrow> AttemptRecord \<Rightarrow> AttemptSupervisorOwner \<Rightarrow> nat \<Rightarrow> AttemptRecord engine" where
  "bind_owner rt attempt owner at = registry_op rt (\<lambda>env db.
     bind_supervisor_owner (rt_host rt) env db (a_attempt_id attempt) (a_row_version attempt) owner at)"

definition bind_windows_start :: "runtime \<Rightarrow> AttemptRecord \<Rightarrow> AttemptRecord engine" where
  "bind_windows_start rt attempt =
     ebind (validate_windows_start_evidence rt attempt) (\<lambda>(evidence, start_digest).
     ebind (elift (nonzero_creation evidence)) (\<lambda>creation.
     ebind (elift (ok_or (ws_launcher_image_digest evidence)
              (launch_mismatch ''native Windows start evidence omitted launcher image digest''
                 ''windowsStart.launcherImageDigest''))) (\<lambda>img.
     ebind (supervisor_owner_now rt (a_attempt_id attempt)) (\<lambda>existing. case existing of
       Some owner \<Rightarrow>
         if \<not> native_windows_owner_matches_launcher_identity owner (ws_launcher_process_id evidence)
               (ws_launcher_process_creation_time_file_time evidence) (ws_launcher_image_digest evidence)
               (ws_job_name evidence)
         then efail (launch_mismatch
                ''native Windows target-start evidence disagrees with the parent-observed launcher owner'' ''windowsStart'')
         else get_attempt_now rt (a_attempt_id attempt)
     | None \<Rightarrow> bind_owner rt attempt
         (WindowsLauncherV1 (ws_launcher_process_id evidence) creation img (ws_job_name evidence) start_digest)
         (ws_observed_unix_ms evidence)))))"

definition runner_start_matches :: "AttemptRecord \<Rightarrow> RunnerStartEvidence \<Rightarrow> bool" where
  "runner_start_matches attempt evidence \<longleftrightarrow>
     rs_job_id evidence = a_job_id attempt \<and> rs_attempt_id evidence = a_attempt_id attempt
     \<and> rs_unit_name evidence = a_unit_name attempt
     \<and> rs_launch_token_digest evidence = a_launch_token_digest attempt
     \<and> rs_payload_uid evidence = None \<and> rs_payload_gid evidence = None"

definition is_linux_runner :: "ExecutionProviderSnapshot option \<Rightarrow> ExecutionProviderSnapshot option" where
  "is_linux_runner provider =
     (case provider of Some p \<Rightarrow> if eps_contract p = LocalLinuxRunnerV1 then Some p else None | None \<Rightarrow> None)"

definition reported_runner_matches :: "ExecutionProviderSnapshot option \<Rightarrow> RunnerStartEvidence \<Rightarrow> unit result" where
  "reported_runner_matches provider evidence =
     (case is_linux_runner provider of
        None \<Rightarrow> Inr ()
      | Some p \<Rightarrow>
          (case rs_runner_executable_digest evidence of
             None \<Rightarrow> Inl (launch_mismatch ''provider-bound Runner-start evidence omitted the actual Runner image digest''
                      ''runnerStart.runnerExecutableDigest'')
           | Some observed \<Rightarrow>
               if observed \<noteq> eps_executable_digest p
               then Inl (launch_mismatch
                      (''actual Runner image differs from the committed execution provider: expected ''
                       @ eps_executable_digest p @ '', observed '' @ observed) ''runnerStart.runnerExecutableDigest'')
               else Inr ()))"

text \<open>
  The image the kernel runs for \<open>MainPID\<close>.  An image that cannot be read is an error only while the
  process is still the same one.
\<close>

definition observed_runner_matches ::
  "runtime \<Rightarrow> ExecutionProviderSnapshot option \<Rightarrow> RunnerStartEvidence \<Rightarrow> nat \<Rightarrow> string \<Rightarrow> unit engine" where
  "observed_runner_matches rt provider evidence main_pid start_identity =
     (case is_linux_runner provider of
        None \<Rightarrow> eret ()
      | Some p \<Rightarrow>
          ebind (ask rt (\<lambda>i t. io_sha256_file i t (''/proc/'' @ show_nat main_pid @ ''/exe''))) (\<lambda>image. case image of
            Inr os_observed \<Rightarrow>
              if rs_runner_executable_digest evidence \<noteq> Some os_observed \<or> os_observed \<noteq> eps_executable_digest p
              then efail (launch_mismatch
                     (''systemd MainPID image differs from committed/self-reported Runner provider: committed ''
                      @ eps_executable_digest p @ '', runner-start ''
                      @ ec_debug_text (rt_codec rt) (rs_runner_executable_digest evidence)
                      @ '', OS observed '' @ os_observed) ''runnerStart.runnerExecutableDigest'')
              else eret ()
          | Inl error \<Rightarrow>
              ebind (process_identity rt main_pid) (\<lambda>again.
              if again = Some start_identity
              then efail (launch_mismatch
                     (''cannot independently inspect the live systemd MainPID Runner image: '' @ universal_error_display error) ''mainPid'')
              else eret ())))"

definition main_pid_property :: "(string \<times> string) list \<Rightarrow> nat result" where
  "main_pid_property properties =
     ok_or (Option.bind (property properties ''MainPID'') parse_u32) (missing_systemd_property ''MainPID'')"

definition bind_runner_start :: "runtime \<Rightarrow> AttemptRecord \<Rightarrow> AttemptRecord engine" where
  "bind_runner_start rt attempt =
     (let path = bundle_file attempt RUNNER_START_FILE in
      ebind (read_file rt ''read runner-start evidence'' path) (\<lambda>bytes.
      ebind (elift (map_err (\<lambda>error. launch_mismatch (''invalid runner-start evidence: '' @ error) ''runnerStart'')
               (ec_runner_start_parse (rt_codec rt) bytes))) (\<lambda>evidence.
      if \<not> runner_start_matches attempt evidence
      then efail (launch_mismatch ''runner-start identity does not match committed Attempt'' ''runnerStart'')
      else ebind (execution_provider_now rt (a_job_id attempt)) (\<lambda>provider.
        ebind (elift (reported_runner_matches provider evidence)) (\<lambda>_.
        ebind (systemctl_show rt (a_unit_name attempt)) (\<lambda>properties.
        ebind (elift (require_property properties ''InvocationID'' (rs_invocation_id evidence))) (\<lambda>_.
        ebind (elift (require_property properties ''ControlGroup'' (rs_control_group evidence))) (\<lambda>_.
        ebind (elift (main_pid_property properties)) (\<lambda>main_pid.
        if rs_namespace_pid evidence = 0 \<or> rs_namespace_process_start_identity evidence = []
        then efail (launch_mismatch ''runner-start omitted PID namespace identity'' ''namespacePid'')
        else ebind (process_identity rt main_pid) (\<lambda>observed.
          ebind (elift (ok_or observed
                   (launch_mismatch ''systemd MainPID has no observable host process identity'' ''mainPid''))) (\<lambda>start.
          ebind (execution_provider_now rt (a_job_id attempt)) (\<lambda>provider'.
          ebind (observed_runner_matches rt provider' evidence main_pid start) (\<lambda>_.
          ebind (unchanged_digest rt path bytes
                   (launch_mismatch ''runner-start evidence digest changed while reading'' ''runnerStart'')) (\<lambda>digest.
          ebind (ask_result rt io_boot_id) (\<lambda>boot_id.
          registry_op rt (\<lambda>env db. bind_running (rt_host rt) env db (a_attempt_id attempt) (a_row_version attempt)
            \<lparr>ri_boot_id = boot_id, ri_unit_name = rs_unit_name evidence, ri_invocation_id = rs_invocation_id evidence,
             ri_control_group = rs_control_group evidence, ri_main_pid = main_pid, ri_process_start_identity = start,
             ri_runner_start_digest = digest, ri_observed_at_ms = min (rs_observed_unix_ms evidence) U64_MAX\<rparr>))))))))))))))))"

definition bind_attempt_start :: "runtime \<Rightarrow> AttemptRecord \<Rightarrow> ExecutionTarget \<Rightarrow> AttemptRecord engine" where
  "bind_attempt_start rt attempt target =
     (case target of LocalLinux \<Rightarrow> bind_runner_start rt attempt | WindowsNative \<Rightarrow> bind_windows_start rt attempt)"

end
