(* ===== verification/Engine_Output.thy ===== *)
theory Engine_Output
  imports Engine_World
begin

text \<open>
  Reading the output of an Attempt (\<open>runtime/engine.rs\<close>): a range of bytes that never ends inside a
  UTF-8 character, the tail of a file, and the view an observer is given.  \<open>str::from_utf8\<close> and
  \<open>String::from_utf8_lossy\<close> are modelled as the standard library documents them.
\<close>

section \<open>UTF-8\<close>

text \<open>
  What the front of a byte sequence is: a whole character of some width, an unfinished character at
  the end of the input (\<open>error_len() = None\<close>), or a malformed prefix of some length
  (\<open>error_len() = Some\<close>).
\<close>

datatype utf8_head = WholeChar nat | Unfinished | Malformed nat

definition continuation :: "nat \<Rightarrow> bool" where
  "continuation b \<longleftrightarrow> 128 \<le> b \<and> b < 192"

definition second_ok :: "nat \<Rightarrow> nat \<Rightarrow> bool" where
  "second_ok a b \<longleftrightarrow>
     continuation b \<and> (a = 224 \<longrightarrow> 160 \<le> b) \<and> (a = 237 \<longrightarrow> b < 160) \<and> (a = 240 \<longrightarrow> 144 \<le> b) \<and> (a = 244 \<longrightarrow> b < 144)"

definition char_width :: "nat \<Rightarrow> nat" where
  "char_width a = (if a < 128 then 1 else if 194 \<le> a \<and> a < 224 then 2 else if 224 \<le> a \<and> a < 240 then 3
     else if 240 \<le> a \<and> a < 245 then 4 else 0)"

definition utf8_front :: "nat list \<Rightarrow> utf8_head" where
  "utf8_front bs =
     (case bs of
        [] \<Rightarrow> Unfinished
      | a # rest \<Rightarrow>
          let w = char_width a in
          if w = 0 then Malformed 1
          else if w = 1 then WholeChar 1
          else case rest of
            [] \<Rightarrow> Unfinished
          | b # rest' \<Rightarrow>
              if \<not> second_ok a b then Malformed 1
              else if w = 2 then WholeChar 2
              else case rest' of
                [] \<Rightarrow> Unfinished
              | c # rest'' \<Rightarrow>
                  if \<not> continuation c then Malformed 2
                  else if w = 3 then WholeChar 3
                  else case rest'' of
                    [] \<Rightarrow> Unfinished
                  | d # _ \<Rightarrow> if \<not> continuation d then Malformed 3 else WholeChar 4)"

lemma utf8_front_width: "utf8_front bs = WholeChar n \<Longrightarrow> 0 < n \<and> n \<le> length bs \<and> n \<le> 4"
  by (auto simp: utf8_front_def Let_def split: list.splits if_splits)

lemma utf8_front_skip: "utf8_front bs = Malformed n \<Longrightarrow> 0 < n \<and> n \<le> length bs"
  by (auto simp: utf8_front_def Let_def split: list.splits if_splits)

datatype utf8_end = CleanEnd | UnfinishedEnd | MalformedEnd

text \<open>\<open>str::from_utf8\<close>: how many bytes are valid, and why it stopped there.\<close>

function from_utf8 :: "nat list \<Rightarrow> nat \<times> utf8_end" where
  "from_utf8 bs =
     (if bs = [] then (0, CleanEnd)
      else case utf8_front bs of
        WholeChar n \<Rightarrow> (let (valid, stop) = from_utf8 (drop n bs) in (n + valid, stop))
      | Unfinished \<Rightarrow> (0, UnfinishedEnd)
      | Malformed _ \<Rightarrow> (0, MalformedEnd))"
  by pat_completeness auto
termination
  by (relation "measure length") (auto dest: utf8_front_width)

declare from_utf8.simps [simp del]

text \<open>\<open>String::from_utf8_lossy\<close>: every malformed piece becomes U+FFFD.\<close>

function from_utf8_lossy :: "nat list \<Rightarrow> nat list" where
  "from_utf8_lossy bs =
     (if bs = [] then []
      else case utf8_front bs of
        WholeChar n \<Rightarrow> take n bs @ from_utf8_lossy (drop n bs)
      | Unfinished \<Rightarrow> [239, 191, 189]
      | Malformed n \<Rightarrow> [239, 191, 189] @ from_utf8_lossy (drop n bs))"
  by pat_completeness auto
termination
  by (relation "measure length") (auto dest: utf8_front_width utf8_front_skip)

declare from_utf8_lossy.simps [simp del]

definition bytes_of :: "string \<Rightarrow> nat list" where
  "bytes_of s = map of_char s"

definition lossy_text :: "string \<Rightarrow> string" where
  "lossy_text s = map char_of (from_utf8_lossy (bytes_of s))"

section \<open>Ranges\<close>

record TextRange =
  tr_content :: string
  tr_next_offset :: nat

text \<open>The part of a chunk that is returned: up to an unfinished character at its end.\<close>

definition safe_len :: "string \<Rightarrow> nat" where
  "safe_len bytes =
     (case from_utf8 (bytes_of bytes) of
        (valid, CleanEnd) \<Rightarrow> length bytes
      | (valid, UnfinishedEnd) \<Rightarrow> valid
      | (valid, MalformedEnd) \<Rightarrow> length bytes)"

definition range_of_chunk ::
  "nat \<Rightarrow> nat \<Rightarrow> bool \<Rightarrow> string \<Rightarrow> string \<Rightarrow> string \<Rightarrow> TextRange result" where
  "range_of_chunk offset available terminal offset_field max_field bytes =
     (if offset > 0 \<and> bytes \<noteq> [] \<and> continuation (of_char (hd bytes))
      then Inl (error_invalid (offset_field @ '' must point to a UTF-8 character boundary'') offset_field)
      else if safe_len bytes = 0 \<and> bytes \<noteq> []
      then (if \<not> terminal \<and> offset + length bytes \<ge> available
            then Inr \<lparr>tr_content = [], tr_next_offset = offset\<rparr>
            else Inl (error_invalid
                   (max_field @ '' is too small for the next UTF-8 character; use at least 4 bytes'') max_field))
      else Inr \<lparr>tr_content = lossy_text (take (safe_len bytes) bytes), tr_next_offset = offset + safe_len bytes\<rparr>)"

definition read_utf8_range ::
  "runtime \<Rightarrow> string \<Rightarrow> nat \<Rightarrow> nat \<Rightarrow> nat \<Rightarrow> bool \<Rightarrow> string \<Rightarrow> string \<Rightarrow> string \<Rightarrow> TextRange engine" where
  "read_utf8_range rt path offset max_bytes available terminal offset_field max_field context =
     (if offset > available
      then efail (error_invalid (offset_field @ '' exceeds retained byte length '' @ show_nat available) offset_field)
      else if max_bytes = 0 \<or> offset = available
      then eret \<lparr>tr_content = [], tr_next_offset = offset\<rparr>
      else
        let read_limit = min max_bytes (available - offset) in
        ebind (ask_result rt (\<lambda>i t. map_err (io_error (''open '' @ context @ '' range'')) (io_open i t path))) (\<lambda>_.
        ebind (ask_result rt (\<lambda>i t. map_err (io_error (''seek '' @ context @ '' range'')) (io_seek i t path offset))) (\<lambda>_.
        ebind (ask_result rt (\<lambda>i t. map_err (io_error (''read '' @ context @ '' range''))
                 (io_read_at i t path offset read_limit))) (\<lambda>bytes.
        elift (range_of_chunk offset available terminal offset_field max_field bytes)))))"

definition read_tail_text :: "runtime \<Rightarrow> string \<Rightarrow> nat \<Rightarrow> string engine" where
  "read_tail_text rt path max_bytes =
     (if max_bytes = 0 then eret []
      else ebind (path_exists rt path) (\<lambda>present.
        if \<not> present then eret []
        else ebind (ask_result rt (\<lambda>i t. map_err (io_error ''open output tail'') (io_open i t path))) (\<lambda>_.
          ebind (file_len rt ''inspect output tail'' path) (\<lambda>len.
          ebind (ask_result rt (\<lambda>i t. map_err (io_error ''seek output tail'') (io_seek i t path (len - max_bytes)))) (\<lambda>_.
          ebind (ask_result rt (\<lambda>i t. map_err (io_error ''read output tail'')
                   (io_read_to_end_at i t path (len - max_bytes) max_bytes))) (\<lambda>bytes.
          eret (lossy_text bytes)))))))"

record OutputView =
  ov_content :: string
  ov_offset :: "nat option"
  ov_next_offset :: "nat option"
  ov_available_bytes :: "nat option"
  ov_eof :: "bool option"

definition output_view_empty :: "nat option \<Rightarrow> bool \<Rightarrow> OutputView" where
  "output_view_empty offset terminal =
     \<lparr>ov_content = [], ov_offset = offset, ov_next_offset = offset, ov_available_bytes = map_option (\<lambda>_. 0) offset,
      ov_eof = map_option (\<lambda>v. terminal \<and> v = 0) offset\<rparr>"

definition read_output_text ::
  "runtime \<Rightarrow> string \<Rightarrow> nat option \<Rightarrow> nat \<Rightarrow> bool \<Rightarrow> string \<Rightarrow> string \<Rightarrow> OutputView engine" where
  "read_output_text rt path offset_opt max_bytes terminal offset_field max_field =
     (case offset_opt of
        None \<Rightarrow> ebind (read_tail_text rt path max_bytes) (\<lambda>content.
          eret \<lparr>ov_content = content, ov_offset = None, ov_next_offset = None, ov_available_bytes = None, ov_eof = None\<rparr>)
      | Some offset \<Rightarrow>
          ebind (path_exists rt path) (\<lambda>present.
          ebind (if present then file_len rt ''inspect output range'' path else eret 0) (\<lambda>available.
          if offset > available
          then efail (error_invalid (offset_field @ '' exceeds retained output length '' @ show_nat available) offset_field)
          else ebind (if max_bytes = 0 then eret False else path_exists rt path) (\<lambda>readable.
            if \<not> readable
            then eret \<lparr>ov_content = [], ov_offset = Some offset, ov_next_offset = Some offset,
                   ov_available_bytes = Some available, ov_eof = Some (terminal \<and> offset \<ge> available)\<rparr>
            else ebind (read_utf8_range rt path offset max_bytes available terminal offset_field max_field ''output'') (\<lambda>range.
              eret \<lparr>ov_content = tr_content range, ov_offset = Some offset, ov_next_offset = Some (tr_next_offset range),
                ov_available_bytes = Some available, ov_eof = Some (terminal \<and> tr_next_offset range \<ge> available)\<rparr>)))))"

end
