(* ===== verification/Engine_Observe.thy ===== *)
theory Engine_Observe
  imports Engine_Output Engine_Evidence
begin

text \<open>
  What an observer of a Job is shown (\<open>runtime/engine/reconciliation.rs\<close>, \<open>runtime/engine/control_query.rs\<close>):
  the registry's projection together with the progress, result and output files of the Attempt.
  Nothing here changes the registry.
\<close>

definition PROGRESS_FILE :: string where "PROGRESS_FILE = ''progress.json''"

section \<open>Evidence that may be there\<close>

definition load_runner_progress_if_present :: "runtime \<Rightarrow> AttemptRecord \<Rightarrow> RunnerProgress option engine" where
  "load_runner_progress_if_present rt attempt =
     (let path = bundle_file attempt PROGRESS_FILE in
      ebind (path_exists rt path) (\<lambda>present.
      if \<not> present then eret None
      else ebind (read_file rt ''read Runner progress'' path) (\<lambda>bytes.
        elift (map_err (\<lambda>error. registry_corrupt (''invalid Runner progress: '' @ error) ''progress'')
          (rbind (ec_progress_parse (rt_codec rt) bytes) (\<lambda>progress. Inr (Some progress)))))))"

definition load_runner_result_if_present :: "runtime \<Rightarrow> AttemptRecord \<Rightarrow> RunnerResult option engine" where
  "load_runner_result_if_present rt attempt =
     (let path = bundle_file attempt RESULT_FILE in
      ebind (path_exists rt path) (\<lambda>present.
      if \<not> present then eret None
      else ebind (read_file rt ''read Runner result'' path) (\<lambda>bytes.
        elift (map_err (\<lambda>error. registry_corrupt (''invalid Runner result: '' @ error) ''result'')
          (rbind (ec_result_parse (rt_codec rt) bytes) (\<lambda>result. Inr (Some result)))))))"

definition load_control_error_summary_if_present :: "runtime \<Rightarrow> AttemptRecord \<Rightarrow> string option engine" where
  "load_control_error_summary_if_present rt attempt =
     (let path = bundle_file attempt CONTROL_RESULT_FILE in
      ebind (path_exists rt path) (\<lambda>present.
      if \<not> present then eret None
      else ebind (read_file rt ''read control result'' path) (\<lambda>bytes.
        ebind (elift (map_err (\<lambda>error. registry_corrupt (''invalid control result: '' @ error) ''controlResult'')
                 (ec_control_parse (rt_codec rt) bytes))) (\<lambda>evidence.
        if ce_job_id evidence \<noteq> a_job_id attempt \<or> ce_attempt_id evidence \<noteq> a_attempt_id attempt
        then efail (error_new ResultIdentityConflict ''control result identity does not match Attempt''
               (Some ''controlResult'') False)
        else eret (ce_detail evidence)))))"

definition file_length_if_present :: "runtime \<Rightarrow> string \<Rightarrow> nat engine" where
  "file_length_if_present rt path = ask_result rt (\<lambda>i t. case io_metadata_len i t path of
     Inr len \<Rightarrow> Inr len
   | Inl failure \<Rightarrow> if if_not_found failure then Inr 0 else Inl (io_error (''inspect '' @ path) (if_text failure)))"

definition modified_if_written :: "runtime \<Rightarrow> string \<Rightarrow> nat option engine" where
  "modified_if_written rt path =
     ebind (file_length_if_present rt path) (\<lambda>len.
     if len = 0 then eret None
     else ebind (ask_result rt (\<lambda>i t. map_err (io_error (''read '' @ path @ '' mtime'')) (io_modified_ms i t path))) (\<lambda>millis.
       eret (Some (min millis U64_MAX))))"

definition latest_output_modified_ms :: "runtime \<Rightarrow> AttemptRecord \<Rightarrow> nat option engine" where
  "latest_output_modified_ms rt attempt =
     ebind (modified_if_written rt (bundle_file attempt STDOUT_FILE)) (\<lambda>out.
     ebind (modified_if_written rt (bundle_file attempt STDERR_FILE)) (\<lambda>err.
     eret (case (out, err) of (Some a, Some b) \<Rightarrow> Some (max a b) | (Some a, None) \<Rightarrow> Some a | (None, e) \<Rightarrow> e)))"

record JobActivitySignature =
  sg_status :: string
  sg_stdout_bytes :: nat
  sg_stderr_bytes :: nat
  sg_progress_revision :: nat

definition job_activity_signature ::
  "runtime \<Rightarrow> AttemptRecord option \<Rightarrow> JobProjection \<Rightarrow> JobActivitySignature engine" where
  "job_activity_signature rt attempt_opt projection =
     (case attempt_opt of
        None \<Rightarrow> eret \<lparr>sg_status = jpr_status projection, sg_stdout_bytes = 0, sg_stderr_bytes = 0, sg_progress_revision = 0\<rparr>
      | Some attempt \<Rightarrow>
          ebind (file_length_if_present rt (bundle_file attempt STDOUT_FILE)) (\<lambda>out.
          ebind (file_length_if_present rt (bundle_file attempt STDERR_FILE)) (\<lambda>err.
          ebind (load_runner_progress_if_present rt attempt) (\<lambda>progress.
          eret \<lparr>sg_status = jpr_status projection, sg_stdout_bytes = out, sg_stderr_bytes = err,
                sg_progress_revision = option_or (map_option pg_revision progress) 0\<rparr>))))"

definition artifact_descriptor :: "RunnerResult option \<Rightarrow> RuntimeArtifactRecord \<Rightarrow> ArtifactDescriptor" where
  "artifact_descriptor result artifact =
     \<lparr>ad_artifact_id = art_artifact_id artifact, ad_kind = art_kind artifact, ad_digest = art_digest artifact,
      ad_retained_bytes = art_byte_length artifact,
      ad_dropped_bytes = (if art_kind artifact = ''stdout'' then map_option (co_dropped_bytes \<circ> rr_stdout) result
        else if art_kind artifact = ''stderr'' then map_option (co_dropped_bytes \<circ> rr_stderr) result else None),
      ad_truncated = art_truncated artifact\<rparr>"

section \<open>Observations\<close>

text \<open>
  The struct's fields that are copies of the projection's, and those of the two output views, are kept
  together as one component each.
\<close>

record JobObservation =
  ob_projection :: JobProjection
  ob_attempt_id :: "string option"
  ob_effective_limits :: EffectiveExecutionLimits
  ob_stdout :: OutputView
  ob_stderr :: OutputView
  ob_stdout_truncated :: bool
  ob_stderr_truncated :: bool
  ob_artifacts :: "ArtifactDescriptor list"
  ob_elapsed_ms :: "nat option"
  ob_last_output_at_ms :: "nat option"
  ob_progress_revision :: "nat option"
  ob_completed_steps :: "nat option"
  ob_total_steps :: "nat option"
  ob_current_step_id :: "string option"
  ob_current_step_index :: "nat option"
  ob_current_step_elapsed_ms :: "nat option"
  ob_failed_step_id :: "string option"
  ob_failed_step_index :: "nat option"
  ob_error_summary :: "string option"

record ObservationOutputRequest =
  oo_stdout_tail_bytes :: nat
  oo_stderr_tail_bytes :: nat
  oo_stdout_offset :: "nat option"
  oo_stderr_offset :: "nat option"

text \<open>The parts of an observation that come from the Attempt's bundle.\<close>

record output_parts =
  ou_stdout :: OutputView
  ou_stderr :: OutputView
  ou_stdout_truncated :: bool
  ou_stderr_truncated :: bool
  ou_artifacts :: "ArtifactDescriptor list"
  ou_error_summary :: "string option"
  ou_last_output_at_ms :: "nat option"

definition opt_engine :: "('a \<Rightarrow> 'b option engine) \<Rightarrow> 'a option \<Rightarrow> 'b option engine" where
  "opt_engine f x = (case x of None \<Rightarrow> eret None | Some y \<Rightarrow> f y)"

definition observed_output ::
  "runtime \<Rightarrow> string \<Rightarrow> AttemptRecord option \<Rightarrow> bool \<Rightarrow> RunnerResult option \<Rightarrow> string option
   \<Rightarrow> ObservationOutputRequest \<Rightarrow> output_parts engine" where
  "observed_output rt job_id attempt_opt terminal result control_error_summary request =
     (case attempt_opt of
        None \<Rightarrow> eret \<lparr>ou_stdout = output_view_empty (oo_stdout_offset request) terminal,
          ou_stderr = output_view_empty (oo_stderr_offset request) terminal, ou_stdout_truncated = False,
          ou_stderr_truncated = False, ou_artifacts = [], ou_error_summary = None, ou_last_output_at_ms = None\<rparr>
      | Some attempt \<Rightarrow>
          ebind (read_output_text rt (bundle_file attempt STDOUT_FILE) (oo_stdout_offset request)
                   (oo_stdout_tail_bytes request) terminal ''stdoutOffset'' ''stdoutTailBytes'') (\<lambda>out.
          ebind (read_output_text rt (bundle_file attempt STDERR_FILE) (oo_stderr_offset request)
                   (oo_stderr_tail_bytes request) terminal ''stderrOffset'' ''stderrTailBytes'') (\<lambda>err.
          ebind (registry_read rt (\<lambda>env db. list_artifacts env db job_id)) (\<lambda>arts.
          ebind (latest_output_modified_ms rt attempt) (\<lambda>last_output.
          eret \<lparr>ou_stdout = out, ou_stderr = err,
            ou_stdout_truncated = (case result of None \<Rightarrow> False | Some r \<Rightarrow> co_truncated (rr_stdout r)),
            ou_stderr_truncated = (case result of None \<Rightarrow> False | Some r \<Rightarrow> co_truncated (rr_stderr r)),
            ou_artifacts = map (artifact_descriptor result) arts,
            ou_error_summary = or_else (Option.bind result rr_infrastructure_error) control_error_summary,
            ou_last_output_at_ms = last_output\<rparr>)))))"

definition attempt_elapsed_ms :: "nat \<Rightarrow> AttemptRecord \<Rightarrow> nat" where
  "attempt_elapsed_ms now attempt =
     option_or (a_finished_at_ms attempt) now - option_or (a_started_at_ms attempt) (a_created_at_ms attempt)"

definition step_elapsed_ms :: "nat \<Rightarrow> RunnerProgress \<Rightarrow> nat option" where
  "step_elapsed_ms now progress =
     (case pg_current_step_started_unix_ms progress of
        None \<Rightarrow> None
      | Some started \<Rightarrow> if started \<le> U64_MAX then Some (now - started) else None)"

definition observation_from_parts ::
  "runtime \<Rightarrow> JobProjection \<Rightarrow> AttemptRecord option \<Rightarrow> EffectiveExecutionLimits \<Rightarrow> ObservationOutputRequest
   \<Rightarrow> JobObservation engine" where
  "observation_from_parts rt projection attempt limits request =
     ebind (engine_now_ms rt) (\<lambda>now.
     ebind (opt_engine (load_runner_progress_if_present rt) attempt) (\<lambda>progress.
     ebind (if jpr_status projection = ''orphaned'' then eret None
            else opt_engine (load_runner_result_if_present rt) attempt) (\<lambda>result.
     ebind (if result = None then opt_engine (load_control_error_summary_if_present rt) attempt else eret None) (\<lambda>control.
     ebind (observed_output rt (jpr_job_id projection) attempt (jpr_result_available projection) result control request) (\<lambda>output.
     eret \<lparr>ob_projection = projection, ob_attempt_id = map_option a_attempt_id attempt, ob_effective_limits = limits,
       ob_stdout = ou_stdout output, ob_stderr = ou_stderr output, ob_stdout_truncated = ou_stdout_truncated output,
       ob_stderr_truncated = ou_stderr_truncated output, ob_artifacts = ou_artifacts output,
       ob_elapsed_ms = map_option (attempt_elapsed_ms now) attempt,
       ob_last_output_at_ms = ou_last_output_at_ms output,
       ob_progress_revision = map_option pg_revision progress,
       ob_completed_steps = map_option pg_completed_steps progress,
       ob_total_steps = map_option pg_total_steps progress,
       ob_current_step_id = Option.bind progress pg_current_step_id,
       ob_current_step_index = Option.bind progress pg_current_step_index,
       ob_current_step_elapsed_ms = Option.bind progress (step_elapsed_ms now),
       ob_failed_step_id = or_else (Option.bind result rr_failed_step_id) (Option.bind progress pg_failed_step_id),
       ob_failed_step_index = or_else (Option.bind result rr_failed_step_index) (Option.bind progress pg_failed_step_index),
       ob_error_summary = ou_error_summary output\<rparr>)))))"

definition observation_from_snapshot ::
  "runtime \<Rightarrow> JobSnapshot \<Rightarrow> ObservationOutputRequest \<Rightarrow> JobObservation engine" where
  "observation_from_snapshot rt snapshot request =
     ebind (elift (effective_limits_from_plan_json (rt_host rt) (j_execution_plan_json (js_job snapshot)))) (\<lambda>limits.
     observation_from_parts rt (js_projection snapshot) (js_attempt snapshot) limits request)"

definition observation_from_registry :: "runtime \<Rightarrow> string \<Rightarrow> nat \<Rightarrow> nat \<Rightarrow> JobObservation engine" where
  "observation_from_registry rt job_id stdout_tail_bytes stderr_tail_bytes =
     ebind (job_snapshot_now rt job_id) (\<lambda>snapshot.
     observation_from_snapshot rt snapshot
       \<lparr>oo_stdout_tail_bytes = stdout_tail_bytes, oo_stderr_tail_bytes = stderr_tail_bytes,
        oo_stdout_offset = None, oo_stderr_offset = None\<rparr>)"

end
