(* ===== verification/Engine_Reconcile.thy ===== *)
theory Engine_Reconcile
  imports Engine_Start Engine_Observe
begin

text \<open>
  How the engine brings the registry in line with the host (\<open>runtime/engine/reconciliation.rs\<close> and the
  commit functions of \<open>runtime/engine/execution.rs\<close>): results are committed or quarantined, orphans are
  recovered, and an Attempt whose processes are gone is given the state the evidence supports.
\<close>

section \<open>Releasing the supervisor\<close>

text \<open>
  \<open>release_terminal_unit\<close> polls the unit and resets its failed state once it is inactive; it never
  fails and does not touch the registry.
\<close>

fun release_terminal_unit :: "runtime \<Rightarrow> string \<Rightarrow> nat \<Rightarrow> unit engine" where
  "release_terminal_unit rt unit_name polls =
     ematch (systemctl_show rt unit_name) (\<lambda>_. eret ()) (\<lambda>properties.
       if property properties ''LoadState'' = Some ''not-found'' then eret ()
       else if \<not> unit_is_active properties then emit (ReleaseUnit unit_name)
       else case polls of 0 \<Rightarrow> eret () | Suc n \<Rightarrow> release_terminal_unit rt unit_name n)"

declare release_terminal_unit.simps [simp del]

definition release_attempt_supervisor :: "runtime \<Rightarrow> AttemptRecord \<Rightarrow> unit engine" where
  "release_attempt_supervisor rt attempt =
     ebind (execution_plan_now rt (a_job_id attempt)) (\<lambda>plan.
     if p_execution_target plan = WindowsNative \<and> rt_windows rt \<noteq> None then eret ()
     else ebind (supervisor_owner_now rt (a_attempt_id attempt)) (\<lambda>owner.
       if owner = None then ebind (ask rt io_polls) (release_terminal_unit rt (a_unit_name attempt))
       else eret ()))"

section \<open>Whether a process tree is alive\<close>

definition broker_digest :: "RuntimeExecutionPlan \<Rightarrow> string option" where
  "broker_digest plan = Option.bind (p_windows_execution_context plan) wc_privileged_broker_digest"

definition never_bound :: "AttemptRecord \<Rightarrow> bool" where
  "never_bound attempt \<longleftrightarrow>
     a_boot_id attempt = None \<and> a_invocation_id attempt = None \<and> a_control_group attempt = None
     \<and> a_main_pid attempt = None \<and> a_process_start_identity attempt = None \<and> a_runner_start_digest attempt = None"

definition orphan_process_tree_alive :: "runtime \<Rightarrow> AttemptRecord \<Rightarrow> bool engine" where
  "orphan_process_tree_alive rt attempt =
     ebind (supervisor_owner_now rt (a_attempt_id attempt)) (\<lambda>owner. case owner of
       Some (WindowsLauncherV1 pid creation _ _ _) \<Rightarrow>
         ebind (elift (ok_or (rt_windows rt) (registry_corrupt
                  ''Attempt Supervisor Owner exists without a configured Windows provider'' ''attemptSupervisorOwner''))) (\<lambda>_.
         ebind (execution_plan_now rt (a_job_id attempt)) (\<lambda>plan.
         ebind (ask_result rt (\<lambda>i t. io_launcher_owner i t (p_windows_authority plan) (broker_digest plan) pid)) (\<lambda>observed.
         eret (wo_process_alive observed \<and> wo_process_creation_time_file_time observed = Some creation))))
     | None \<Rightarrow>
         ebind (attempt_process_tree_alive rt attempt) (\<lambda>alive.
         if alive then eret True
         else if never_bound attempt
         then ebind (systemctl_show rt (a_unit_name attempt)) (\<lambda>properties.
              eret (unit_is_active properties \<or> unit_has_pending_job properties))
         else eret False))"

section \<open>Terminal commits\<close>

definition prepare_runner_terminal :: "runtime \<Rightarrow> AttemptRecord \<Rightarrow> TerminalCommit engine" where
  "prepare_runner_terminal rt current =
     ebind (prepare_runner_terminal_from_bundle rt current) (\<lambda>terminal.
     ebind (execution_plan_now rt (a_job_id current)) (\<lambda>plan.
     if p_execution_target plan = WindowsNative
     then ebind (validate_windows_start_evidence rt current) (\<lambda>(_, digest).
       ebind (file_len rt ''inspect Windows start evidence'' (bundle_file current WINDOWS_START_FILE)) (\<lambda>len.
       eret (terminal\<lparr>tc_artifacts := tc_artifacts terminal @
         [\<lparr>ar_artifact_id = a_attempt_id current @ ''.windows-start'', ar_kind = ''windows_start'',
           ar_relative_path = WINDOWS_START_FILE, ar_digest = digest, ar_media_type = ''application/json'',
           ar_byte_length = len, ar_truncated = False\<rparr>]\<rparr>)))
     else eret terminal))"

definition commit_terminal_now :: "runtime \<Rightarrow> TerminalCommit \<Rightarrow> JobProjection engine" where
  "commit_terminal_now rt terminal = registry_op rt (\<lambda>env db. commit_terminal (rt_host rt) env db terminal)"

definition recover_orphaned_terminal_now :: "runtime \<Rightarrow> TerminalCommit \<Rightarrow> JobProjection engine" where
  "recover_orphaned_terminal_now rt terminal =
     registry_op rt (\<lambda>env db. recover_orphaned_terminal (rt_host rt) env db terminal)"

definition recover_orphaned_runner_result :: "runtime \<Rightarrow> AttemptRecord \<Rightarrow> bool engine" where
  "recover_orphaned_runner_result rt attempt =
     ebind (get_attempt_now rt (a_attempt_id attempt)) (\<lambda>current.
     if a_state current \<noteq> Orphaned then eret False
     else ebind (result_is_file rt current) (\<lambda>present.
       if \<not> present then eret False
       else ebind (orphan_process_tree_alive rt current) (\<lambda>alive.
         if alive then eret False
         else ebind (prepare_runner_terminal rt current) (\<lambda>prepared.
           ebind (append_terminal_evidence rt current
                    (prepared\<lparr>tc_reason_code := ''LATE_IDENTITY_BOUND_RUNNER_RESULT''\<rparr>)) (\<lambda>terminal.
           ebind (recover_orphaned_terminal_now rt terminal) (\<lambda>_.
           ebind (release_attempt_supervisor rt current) (\<lambda>_.
           eret True)))))))"

definition output_artifact :: "runtime \<Rightarrow> AttemptRecord \<Rightarrow> string \<Rightarrow> string \<Rightarrow> string \<Rightarrow> ArtifactRegistration engine" where
  "output_artifact rt attempt context file_name kind =
     (let path = bundle_file attempt file_name in
      ebind (engine_sha256_file rt path) (\<lambda>digest.
      ebind (file_len rt context path) (\<lambda>len.
      eret \<lparr>ar_artifact_id = a_attempt_id attempt @ ''.'' @ kind, ar_kind = kind, ar_relative_path = file_name,
            ar_digest = digest, ar_media_type = ''text/plain; charset=utf-8'', ar_byte_length = len,
            ar_truncated = False\<rparr>)))"

text \<open>The two output files, each registered when it is there and wanted.\<close>

definition output_artifacts ::
  "runtime \<Rightarrow> AttemptRecord \<Rightarrow> string \<Rightarrow> (string \<Rightarrow> bool) \<Rightarrow> ArtifactRegistration list engine" where
  "output_artifacts rt attempt context wanted =
     (let one = (\<lambda>file_name kind rest.
        ebind (path_is_file rt (bundle_file attempt file_name)) (\<lambda>present.
        if present \<and> wanted (a_attempt_id attempt @ ''.'' @ kind)
        then ebind (output_artifact rt attempt context file_name kind) (\<lambda>a. ebind rest (\<lambda>as. eret (a # as)))
        else rest))
      in one STDOUT_FILE ''stdout'' (one STDERR_FILE ''stderr'' (eret [])))"

definition resolve_absent_orphan :: "runtime \<Rightarrow> AttemptRecord \<Rightarrow> AttemptState \<Rightarrow> string \<Rightarrow> unit engine" where
  "resolve_absent_orphan rt attempt state reason_code =
     (let observed_at_ms = min (option_or (a_finished_at_ms attempt) (a_created_at_ms attempt) + 1) U64_MAX;
          evidence_path = bundle_file attempt ORPHAN_REMEDIATION_FILE;
          evidence = \<lparr>ce_schema_version = RUNTIME_SCHEMA_VERSION, ce_job_id = a_job_id attempt,
            ce_attempt_id = a_attempt_id attempt, ce_status = state_as_db state, ce_reason_code = reason_code,
            ce_detail = Some ''the persisted unit, process identity, and cgroup no longer own a live process tree'',
            ce_observed_at_ms = observed_at_ms\<rparr>
      in
      ebind (write_atomic rt evidence_path (ec_control_print (rt_codec rt) evidence)) (\<lambda>_.
      ebind (engine_sha256_file rt evidence_path) (\<lambda>result_digest.
      ebind (job_snapshot_now rt (a_job_id attempt)) (\<lambda>snapshot.
      ebind (file_len rt ''inspect orphan remediation evidence'' evidence_path) (\<lambda>len.
      ebind (output_artifacts rt attempt ''inspect orphan output'' (\<lambda>artifact_id.
               artifact_id \<notin> set (map ad_artifact_id (jpr_artifacts (js_projection snapshot))))) (\<lambda>outputs.
      ebind (append_terminal_evidence rt attempt
               \<lparr>tc_attempt_id = a_attempt_id attempt, tc_expected_row_version = a_row_version attempt, tc_state = state,
                tc_result_digest = result_digest, tc_exit_code = None,
                tc_infrastructure_error_digest = Some (sha256_bytes (rt_host rt) reason_code),
                tc_finished_at_ms = observed_at_ms,
                tc_artifacts = \<lparr>ar_artifact_id = a_attempt_id attempt @ ''.orphan-remediation'', ar_kind = ''control_result'',
                  ar_relative_path = ORPHAN_REMEDIATION_FILE, ar_digest = result_digest,
                  ar_media_type = ''application/json'', ar_byte_length = len, ar_truncated = False\<rparr> # outputs,
                tc_reason_code = reason_code\<rparr>) (\<lambda>terminal.
      ebind (recover_orphaned_terminal_now rt terminal) (\<lambda>_.
      eret ()))))))))"

text \<open>The commit of a terminal state the engine itself decided.\<close>

definition commit_observed_control_terminal ::
  "runtime \<Rightarrow> AttemptRecord \<Rightarrow> AttemptState \<Rightarrow> string \<Rightarrow> string option \<Rightarrow> SupervisorObservation option \<Rightarrow> JobObservation engine" where
  "commit_observed_control_terminal rt attempt state reason_code detail observed =
     ebind (get_attempt_now rt (a_attempt_id attempt)) (\<lambda>current.
     if is_terminal (a_state current) then observation_from_registry rt (a_job_id current) 0 0
     else
      ebind (engine_now_ms rt) (\<lambda>observed_at_ms.
      let evidence_path = bundle_file current CONTROL_RESULT_FILE;
          evidence = \<lparr>ce_schema_version = RUNTIME_SCHEMA_VERSION, ce_job_id = a_job_id current,
            ce_attempt_id = a_attempt_id current, ce_status = state_as_db state, ce_reason_code = reason_code,
            ce_detail = detail, ce_observed_at_ms = observed_at_ms\<rparr>
      in
      ebind (ask_result rt (\<lambda>i t. map_err (io_error ''create control evidence directory'')
               (io_create_dir_all i t (a_bundle_path current)))) (\<lambda>_.
      ebind (write_atomic rt evidence_path (ec_control_print (rt_codec rt) evidence)) (\<lambda>_.
      ebind (engine_sha256_file rt evidence_path) (\<lambda>result_digest.
      ebind (file_len rt ''inspect control evidence'' evidence_path) (\<lambda>len.
      ebind (if state \<noteq> Orphaned then output_artifacts rt current ''inspect control output'' (\<lambda>_. True) else eret []) (\<lambda>outputs.
      ebind (append_terminal_evidence_with_observation rt current
               \<lparr>tc_attempt_id = a_attempt_id current, tc_expected_row_version = a_row_version current, tc_state = state,
                tc_result_digest = result_digest, tc_exit_code = None,
                tc_infrastructure_error_digest = map_option (sha256_bytes (rt_host rt)) detail,
                tc_finished_at_ms = observed_at_ms,
                tc_artifacts = \<lparr>ar_artifact_id = a_attempt_id current @ ''.control-result'', ar_kind = ''control_result'',
                  ar_relative_path = CONTROL_RESULT_FILE, ar_digest = result_digest,
                  ar_media_type = ''application/json'', ar_byte_length = len, ar_truncated = False\<rparr> # outputs,
                tc_reason_code = reason_code\<rparr> observed) (\<lambda>terminal.
      ebind (commit_terminal_now rt terminal) (\<lambda>_.
      ebind (if state \<noteq> Orphaned then release_attempt_supervisor rt current else eret ()) (\<lambda>_.
      observation_from_registry rt (a_job_id current) 4096 4096))))))))))"

definition commit_control_terminal ::
  "runtime \<Rightarrow> AttemptRecord \<Rightarrow> AttemptState \<Rightarrow> string \<Rightarrow> string option \<Rightarrow> JobObservation engine" where
  "commit_control_terminal rt attempt state reason_code detail =
     commit_observed_control_terminal rt attempt state reason_code detail None"

text \<open>One turn of the commit loop; \<open>again\<close> is what a lost race on the first turn leads to.\<close>

definition commit_runner_turn ::
  "runtime \<Rightarrow> AttemptRecord \<Rightarrow> (RuntimeError \<Rightarrow> JobObservation engine) \<Rightarrow> JobObservation engine" where
  "commit_runner_turn rt current again =
     ebind (if a_state current = Orphaned then recover_orphaned_runner_result rt current else eret False) (\<lambda>recovered.
     if recovered then observation_from_registry rt (a_job_id current) 0 0
     else if is_terminal (a_state current)
     then ebind (if a_state current \<noteq> Orphaned then release_attempt_supervisor rt current else eret ()) (\<lambda>_.
          observation_from_registry rt (a_job_id current) 0 0)
     else ebind (prepare_runner_terminal rt current) (\<lambda>prepared.
       ebind (append_terminal_evidence rt current prepared) (\<lambda>terminal.
       ematch (commit_terminal_now rt terminal) again (\<lambda>_.
         ebind (release_attempt_supervisor rt current) (\<lambda>_.
         observation_from_registry rt (a_job_id current) 4096 4096)))))"

definition commit_runner_result :: "runtime \<Rightarrow> AttemptRecord \<Rightarrow> JobObservation engine" where
  "commit_runner_result rt attempt =
     ebind (get_attempt_now rt (a_attempt_id attempt)) (\<lambda>current.
     commit_runner_turn rt current (\<lambda>error.
       if err_code error = AttemptStateConflict
       then ebind (get_attempt_now rt (a_attempt_id attempt)) (\<lambda>reread. commit_runner_turn rt reread efail)
       else efail error))"

definition quarantines :: "RuntimeErrorCode \<Rightarrow> bool" where
  "quarantines code \<longleftrightarrow>
     code \<in> {RegistryCorrupt, ResultIdentityConflict, ArtifactIdentityConflict, LaunchIdentityMismatch}"

definition reconcile_runner_result :: "runtime \<Rightarrow> AttemptRecord \<Rightarrow> unit engine" where
  "reconcile_runner_result rt attempt =
     ematch (commit_runner_result rt attempt)
       (\<lambda>error.
          if quarantines (err_code error)
          then ebind (commit_control_terminal rt attempt Orphaned ''RUNNER_RESULT_QUARANTINED'' (Some (error_display error)))
                 (\<lambda>_. eret ())
          else efail error)
       (\<lambda>_. eret ())"

section \<open>Attempts without start evidence\<close>

definition reconcile_starting_linux :: "runtime \<Rightarrow> AttemptRecord \<Rightarrow> unit engine" where
  "reconcile_starting_linux rt attempt =
     ebind (systemctl_show rt (a_unit_name attempt)) (\<lambda>properties.
     ebind (engine_now_ms rt) (\<lambda>now.
     let active = unit_is_active properties;
         age_ms = now - a_created_at_ms attempt
     in
     if unit_has_pending_job properties \<or> (active \<and> age_ms < rt_startup_grace_ms rt) then eret ()
     else if active
     then ebind (commit_control_terminal rt attempt Orphaned ''LIVE_UNIT_WITHOUT_LAUNCH_TOKEN_EVIDENCE''
                   (Some ''systemd unit is live but runner-start identity is unavailable'')) (\<lambda>_. eret ())
     else if age_ms < rt_startup_grace_ms rt then eret ()
     else ebind (commit_control_terminal rt attempt Lost ''DISPATCH_OUTCOME_UNKNOWN''
                   (Some ''dispatch intent exists without matching unit, runner-start, or result evidence'')) (\<lambda>_. eret ())))"

definition WINDOWS_NATIVE_OUTER_DEADLINE_GRACE_MS :: nat where
  "WINDOWS_NATIVE_OUTER_DEADLINE_GRACE_MS = 5000"

definition native_windows_outer_deadline_due :: "nat \<Rightarrow> nat \<Rightarrow> nat \<Rightarrow> bool" where
  "native_windows_outer_deadline_due execution_started_at_ms timeout_ms observed_at_ms \<longleftrightarrow>
     observed_at_ms \<ge> saturating_add (saturating_add execution_started_at_ms timeout_ms)
       WINDOWS_NATIVE_OUTER_DEADLINE_GRACE_MS"

definition windows_native_launcher_lineage_is_definite_failure ::
  "ExecutionTarget \<Rightarrow> AttemptTerminationIntent \<Rightarrow> SupervisorUnitState \<Rightarrow> bool \<Rightarrow> bool" where
  "windows_native_launcher_lineage_is_definite_failure target intent unit_state pid_alive \<longleftrightarrow>
     target = WindowsNative \<and> intent = Natural \<and> unit_state = UnitNotFound \<and> \<not> pid_alive"

text \<open>What is left to do once the deadline is durably the reason to stop; \<open>True\<close> means it was dealt with.\<close>

definition deadline_after_termination ::
  "runtime \<Rightarrow> AttemptRecord \<Rightarrow> WindowsDeadlineOwnerTerminationDisposition \<Rightarrow> bool engine" where
  "deadline_after_termination rt current disposition =
     (let finish = (\<lambda>text.
        ebind (commit_control_terminal rt current TimedOut ''NATIVE_WINDOWS_OUTER_DEADLINE_CONTROL_TERMINAL''
          (Some (''outer deadline intent was durably committed before exact launcher-owner termination; disposition='' @ text
             @ ''; no runner result was available. TimedOut is derived from the persisted outer deadline and proven loss of the exact owner, not from owner death alone'')))
          (\<lambda>_. eret True))
      in case disposition of
        OwnerTerminated \<Rightarrow> finish ''terminated''
      | OwnerAlreadyAbsent \<Rightarrow> finish ''already_absent''
      | OwnerIdentityMismatch \<Rightarrow> eret False)"

definition terminate_for_deadline ::
  "runtime \<Rightarrow> RuntimeExecutionPlan \<Rightarrow> nat \<Rightarrow> nat \<Rightarrow> bool \<Rightarrow> AttemptRecord \<Rightarrow> bool engine" where
  "terminate_for_deadline rt plan pid creation pre_target_start stopped =
     ebind (require_windows rt ''native Windows deadline enforcement has no configured provider'') (\<lambda>_.
     ebind (emit (TerminateLauncher (a_attempt_id stopped))) (\<lambda>_.
     ebind (ask_result rt (\<lambda>i t. io_terminate_launcher i t (p_windows_authority plan) (broker_digest plan) pid creation)) (\<lambda>disposition.
     ebind (get_attempt_now rt (a_attempt_id stopped)) (\<lambda>current.
     ebind (result_is_file rt current) (\<lambda>present.
     if present then ebind (reconcile_runner_result rt current) (\<lambda>_. eret True)
     else ebind (if pre_target_start then path_is_file rt (bundle_file current WINDOWS_START_FILE) else eret False) (\<lambda>started.
       if \<not> started then deadline_after_termination rt current disposition
       else ebind (bind_attempt_start rt current WindowsNative) (\<lambda>bound.
         ebind (result_is_file rt bound) (\<lambda>late.
         if late then ebind (reconcile_runner_result rt bound) (\<lambda>_. eret True)
         else deadline_after_termination rt bound disposition))))))))"

definition request_deadline_now :: "runtime \<Rightarrow> string \<Rightarrow> nat \<Rightarrow> AttemptRecord engine" where
  "request_deadline_now rt attempt_id at =
     registry_op rt (\<lambda>env db. request_deadline_termination (rt_host rt) env db attempt_id at)"

definition enforce_native_windows_outer_deadline ::
  "runtime \<Rightarrow> AttemptRecord \<Rightarrow> RuntimeExecutionPlan \<Rightarrow> nat \<Rightarrow> nat \<Rightarrow> nat \<Rightarrow> bool \<Rightarrow> bool engine" where
  "enforce_native_windows_outer_deadline rt attempt plan deadline_started_at_ms pid creation pre_target_start =
     ebind (engine_now_ms rt) (\<lambda>observed_at_ms.
     ebind (case a_termination_intent attempt of
              Natural \<Rightarrow>
                if native_windows_outer_deadline_due deadline_started_at_ms (p_timeout_ms plan) observed_at_ms
                then ebind (request_deadline_now rt (a_attempt_id attempt) observed_at_ms) (\<lambda>c. eret (Some c))
                else eret None
            | DeadlineExceeded \<Rightarrow> ebind (get_attempt_now rt (a_attempt_id attempt)) (\<lambda>c. eret (Some c))
            | StopRequested \<Rightarrow> eret None) (\<lambda>selected. case selected of
       None \<Rightarrow> eret False
     | Some current \<Rightarrow>
         if is_terminal (a_state current) then eret True
         else if a_termination_intent current \<noteq> DeadlineExceeded then eret False
         else ebind (result_is_file rt current) (\<lambda>present.
           if present then ebind (reconcile_runner_result rt current) (\<lambda>_. eret True)
           else terminate_for_deadline rt plan pid creation pre_target_start current)))"

definition native_windows_pre_target_evidence_gap :: RuntimeError where
  "native_windows_pre_target_evidence_gap = error_new LaunchIdentityMismatch
     ''native launcher owner is gone while target-start/result evidence is absent; target execution is unknown because windows-start evidence is target-mutable. Retain the Attempt and capacity and do not redrive automatically''
     (Some ''windowsStart'') True"

definition native_dispatch_without_evidence :: RuntimeError where
  "native_dispatch_without_evidence = error_new LaunchIdentityMismatch
     ''native dispatch intent has no launcher-start, target-start, or result evidence; retain the Starting Attempt and capacity until new evidence appears or an operator reconciles it''
     (Some ''windowsLauncherStart'') True"

definition reconcile_native_starting_without_target_evidence :: "runtime \<Rightarrow> AttemptRecord \<Rightarrow> unit engine" where
  "reconcile_native_starting_without_target_evidence rt attempt =
     ebind (execution_plan_now rt (a_job_id attempt)) (\<lambda>plan.
     ebind (path_is_file rt (bundle_file attempt WINDOWS_LAUNCHER_START_FILE)) (\<lambda>launcher_started.
     if launcher_started
     then
       ebind (validate_windows_launcher_start_evidence rt attempt) (\<lambda>(evidence, _).
       ebind (require_windows rt ''native Windows Starting Attempt has no configured provider'') (\<lambda>_.
       ebind (ask_result rt (\<lambda>i t. io_launcher_owner i t (p_windows_authority plan) (broker_digest plan)
                (wl_launcher_process_id evidence))) (\<lambda>observation.
       ebind (result_is_file rt attempt) (\<lambda>present.
       if present then reconcile_runner_result rt attempt
       else ebind (path_is_file rt (bundle_file attempt WINDOWS_START_FILE)) (\<lambda>started.
         if started
         then ebind (bind_attempt_start rt attempt WindowsNative) (\<lambda>running.
           ebind (result_is_file rt running) (\<lambda>late.
           if late then reconcile_runner_result rt running else eret ()))
         else if wo_process_alive observation
                 \<and> wo_process_creation_time_file_time observation = Some (wl_launcher_process_creation_time_file_time evidence)
         then ebind (enforce_native_windows_outer_deadline rt attempt plan (wl_observed_unix_ms evidence)
                (wl_launcher_process_id evidence) (wl_launcher_process_creation_time_file_time evidence) True) (\<lambda>_. eret ())
         else efail native_windows_pre_target_evidence_gap)))))
     else ebind (engine_now_ms rt) (\<lambda>now.
       if now - a_created_at_ms attempt < rt_startup_grace_ms rt then eret ()
       else efail native_dispatch_without_evidence)))"

definition reconcile_starting_without_token :: "runtime \<Rightarrow> AttemptRecord \<Rightarrow> unit engine" where
  "reconcile_starting_without_token rt attempt =
     ebind (execution_plan_now rt (a_job_id attempt)) (\<lambda>plan.
     if p_execution_target plan = WindowsNative \<and> rt_windows rt \<noteq> None
     then reconcile_native_starting_without_target_evidence rt attempt
     else reconcile_starting_linux rt attempt)"

section \<open>Bound Attempts\<close>

fun recovery_intent :: "AttemptTerminationIntent \<Rightarrow> TerminationIntent" where
  "recovery_intent Natural = TINatural"
| "recovery_intent StopRequested = TIStopRequested"
| "recovery_intent DeadlineExceeded = TIDeadlineExceeded"

definition then_unit :: "'a engine \<Rightarrow> unit engine" where
  "then_unit m = ebind m (\<lambda>_. eret ())"

definition reconcile_provider_owned_attempt ::
  "runtime \<Rightarrow> AttemptRecord \<Rightarrow> RuntimeExecutionPlan \<Rightarrow> AttemptSupervisorOwner \<Rightarrow> unit engine" where
  "reconcile_provider_owned_attempt rt attempt plan owner =
     (if p_execution_target plan \<noteq> WindowsNative
      then efail (registry_corrupt ''Attempt Supervisor Owner is bound to a non-Windows execution target'' ''attemptSupervisorOwner'')
      else ebind (result_exists rt attempt) (\<lambda>present.
       if present then reconcile_runner_result rt attempt
       else ebind (require_windows rt ''provider-owned Windows Attempt has no configured Windows provider'') (\<lambda>_.
        ebind (elift (ok_or (a_started_at_ms attempt) (registry_corrupt
                 ''native Attempt Supervisor Owner has no durable execution start time'' ''attemptSupervisorOwner''))) (\<lambda>started_at.
        ebind (enforce_native_windows_outer_deadline rt attempt plan started_at (launcher_process_id owner)
                 (launcher_process_creation_time_file_time owner) False) (\<lambda>dealt_with.
        if dealt_with then eret ()
        else ebind (ask_result rt (\<lambda>i t. io_launcher_owner i t (p_windows_authority plan) (broker_digest plan)
                 (launcher_process_id owner))) (\<lambda>observation.
         ebind (result_exists rt attempt) (\<lambda>late.
         if late then reconcile_runner_result rt attempt
         else
          let intent = recovery_intent (a_termination_intent attempt) in
          ebind (elift (classify_windows_launcher_recovery owner observation intent)) (\<lambda>disposition. case disposition of
            RecRunning \<Rightarrow> eret ()
          | RecTerminal state \<Rightarrow> then_unit (commit_control_terminal rt attempt state
              (case intent of TIStopRequested \<Rightarrow> ''STOP_REQUESTED_PROCESS_TREE_GONE''
               | TIDeadlineExceeded \<Rightarrow> ''DEADLINE_EXCEEDED'' | TINatural \<Rightarrow> ''WINDOWS_LAUNCHER_LINEAGE_GONE'')
              (if intent = TINatural then Some ''native Windows launcher owner identity is gone; JOB_OBJECT_LIMIT_KILL_ON_JOB_CLOSE makes the Attempt process tree definitively non-running and no result evidence exists'' else None))
          | RecOrphaned reason \<Rightarrow> then_unit (commit_control_terminal rt attempt Orphaned ''SUPERVISOR_IDENTITY_ORPHANED'' (Some reason))
          | RecLost \<Rightarrow> efail (registry_corrupt ''native Windows launcher classifier returned unsupported lost disposition''
              ''attemptSupervisorOwner'')))))))))"

definition linux_terminal_reason :: "SupervisorUnitState \<Rightarrow> TerminationIntent \<Rightarrow> string" where
  "linux_terminal_reason unit_state intent =
     (case (unit_state, intent) of
        (UnitNotFound, TIStopRequested) \<Rightarrow> ''STOP_REQUESTED_PROCESS_TREE_GONE''
      | (UnitNotFound, TIDeadlineExceeded) \<Rightarrow> ''DEADLINE_EXCEEDED''
      | _ \<Rightarrow> ''SUPERVISOR_TERMINAL_FALLBACK'')"

definition reconcile_bound_attempt :: "runtime \<Rightarrow> AttemptRecord \<Rightarrow> unit engine" where
  "reconcile_bound_attempt rt attempt =
     ebind (execution_plan_now rt (a_job_id attempt)) (\<lambda>plan.
     ebind (supervisor_owner_now rt (a_attempt_id attempt)) (\<lambda>owner_opt. case owner_opt of
       Some owner \<Rightarrow> reconcile_provider_owned_attempt rt attempt plan owner
     | None \<Rightarrow>
        ebind (observe_linux_process_owner rt attempt) (\<lambda>(expected, observation).
        ebind (result_exists rt attempt) (\<lambda>present.
        if present then reconcile_runner_result rt attempt
        else if windows_native_launcher_lineage_is_definite_failure (p_execution_target plan)
                  (a_termination_intent attempt) (so_unit_state observation) (so_recorded_pid_alive observation)
        then then_unit (commit_observed_control_terminal rt attempt Failed ''WINDOWS_LAUNCHER_LINEAGE_GONE''
          (Some ''windows_native launcher unit and persisted launcher process identity are absent; the launcher is the sole owner of the JOB_OBJECT_LIMIT_KILL_ON_JOB_CLOSE handle, so the native process tree cannot still be running and no result evidence exists'')
          (Some observation))
        else
          let intent = recovery_intent (a_termination_intent attempt) in
          ebind (elift (map_err (\<lambda>error. registry_corrupt
                   (''supervisor recovery classification failed: '' @ error_display error) ''attemptId'')
                   (classify_supervisor_recovery expected observation intent))) (\<lambda>disposition. case disposition of
            RecRunning \<Rightarrow> eret ()
          | RecTerminal state \<Rightarrow> then_unit (commit_observed_control_terminal rt attempt state
              (linux_terminal_reason (so_unit_state observation) intent) None (Some observation))
          | RecLost \<Rightarrow> then_unit (commit_observed_control_terminal rt attempt Lost ''SUPERVISOR_EVIDENCE_LOST'' None (Some observation))
          | RecOrphaned reason \<Rightarrow>
              ebind (commit_observed_control_terminal rt attempt Orphaned ''SUPERVISOR_IDENTITY_ORPHANED'' (Some reason) (Some observation)) (\<lambda>_.
              ebind (get_attempt_now rt (a_attempt_id attempt)) (\<lambda>current.
              ebind (result_exists rt current) (\<lambda>late.
              if late then then_unit (recover_orphaned_runner_result rt current) else eret ()))))))))"

section \<open>One Attempt\<close>

definition start_file :: "ExecutionTarget \<Rightarrow> string" where
  "start_file target = (case target of LocalLinux \<Rightarrow> RUNNER_START_FILE | WindowsNative \<Rightarrow> WINDOWS_START_FILE)"

text \<open>
  The main process was not observable while its start was bound: a result or another writer's
  progress settles it, \<open>undecided\<close> is what happens when neither is there.
\<close>

definition after_transient_loss :: "runtime \<Rightarrow> AttemptRecord \<Rightarrow> (AttemptRecord \<Rightarrow> unit engine) \<Rightarrow> unit engine" where
  "after_transient_loss rt attempt undecided =
     ebind (result_exists rt attempt) (\<lambda>present.
     if present then reconcile_runner_result rt attempt
     else ebind (get_attempt_now rt (a_attempt_id attempt)) (\<lambda>current.
       if a_row_version current \<noteq> a_row_version attempt \<or> a_state current \<noteq> a_state attempt
       then ebind (result_exists rt current) (\<lambda>late.
            if late then reconcile_runner_result rt current else eret ())
       else undecided current))"

definition bind_unbound_start :: "runtime \<Rightarrow> AttemptRecord \<Rightarrow> ExecutionTarget \<Rightarrow> bool \<Rightarrow> unit engine" where
  "bind_unbound_start rt attempt target native_unbound_stopping =
     ematch (bind_attempt_start rt attempt target)
       (\<lambda>error.
          if transient_main_pid_observation_loss error
          then after_transient_loss rt attempt (\<lambda>current.
                 ebind (engine_now_ms rt) (\<lambda>now.
                 if now - a_created_at_ms current < rt_startup_grace_ms rt then eret () else efail error))
          else efail error)
       (\<lambda>bound.
          ebind (result_exists rt bound) (\<lambda>present.
          if present then reconcile_runner_result rt bound
          else if native_unbound_stopping then reconcile_bound_attempt rt bound
          else eret ()))"

definition native_unbound_stopping_now :: "runtime \<Rightarrow> AttemptRecord \<Rightarrow> RuntimeExecutionPlan \<Rightarrow> bool engine" where
  "native_unbound_stopping_now rt attempt plan =
     (if a_state attempt = Stopping \<and> p_execution_target plan = WindowsNative \<and> rt_windows rt \<noteq> None
      then ebind (supervisor_owner_now rt (a_attempt_id attempt)) (\<lambda>owner. eret (owner = None))
      else eret False)"

definition reconcile_attempt :: "runtime \<Rightarrow> string \<Rightarrow> unit engine" where
  "reconcile_attempt rt attempt_id =
     ebind (get_attempt_now rt attempt_id) (\<lambda>attempt.
     if is_terminal (a_state attempt) then eret ()
     else ebind (result_exists rt attempt) (\<lambda>present.
       if present then reconcile_runner_result rt attempt
       else ebind (execution_plan_now rt (a_job_id attempt)) (\<lambda>plan.
         ebind (native_unbound_stopping_now rt attempt plan) (\<lambda>native_unbound_stopping.
         if a_state attempt = Starting \<or> native_unbound_stopping
         then ebind (path_exists rt (bundle_file attempt (start_file (p_execution_target plan)))) (\<lambda>started.
              if started then bind_unbound_start rt attempt (p_execution_target plan) native_unbound_stopping
              else reconcile_starting_without_token rt attempt)
         else reconcile_bound_attempt rt attempt))))"

end
