(* ===== verification/Launch_Command.thy ===== *)
theory Launch_Command
  imports Engine_Output
begin

text \<open>
  The \<open>systemd-run\<close> command an Attempt is launched with (\<open>runtime/platform/linux.rs\<close>): the argument
  vector \<open>build_systemd_run_command\<close> puts together from the execution plan, under the trusted and the
  contained profile, and what that vector always says.
\<close>

section \<open>Sets of paths\<close>

text \<open>
  \<open>BTreeSet<PathBuf>\<close>: paths are equal when their components are, ordered by their components
  (\<open>RootDir < CurDir < ParentDir < Normal\<close>), and inserting a path that is there already keeps the
  spelling that came first.
\<close>

fun component_sort_key :: "path_component \<Rightarrow> string" where
  "component_sort_key RootDir = [CHR 0x00]"
| "component_sort_key CurDir = [CHR 0x01]"
| "component_sort_key ParentDir = [CHR 0x02]"
| "component_sort_key (Normal s) = CHR 0x03 # s"

definition path_sort_key :: "string \<Rightarrow> string list" where
  "path_sort_key p = map component_sort_key (path_components p)"

fun distinct_paths :: "string list \<Rightarrow> string list" where
  "distinct_paths [] = []"
| "distinct_paths (p # ps) = p # filter (\<lambda>q. path_components q \<noteq> path_components p) (distinct_paths ps)"

definition path_set :: "string list \<Rightarrow> string list" where
  "path_set ps = sort_key path_sort_key (distinct_paths ps)"

lemma set_distinct_paths: "set (distinct_paths ps) \<subseteq> set ps"
  by (induction ps) auto

lemma set_path_set: "set (path_set ps) \<subseteq> set ps"
  using set_distinct_paths by (simp add: path_set_def)

lemma component_sort_key_inject: "component_sort_key c = component_sort_key d \<Longrightarrow> c = d"
  by (cases c; cases d) auto

lemma path_sort_key_eq: "path_sort_key p = path_sort_key q \<longleftrightarrow> path_components p = path_components q"
proof
  assume "path_sort_key p = path_sort_key q"
  then show "path_components p = path_components q"
    unfolding path_sort_key_def using component_sort_key_inject by (metis inj_map_eq_map injI)
qed (simp add: path_sort_key_def)

section \<open>The command\<close>

definition CONTAINED_INPUT_ROOT :: string where
  "CONTAINED_INPUT_ROOT = ''/run/ordivon/inputs''"

record SystemdRunSpec =
  sd_unit_name :: string
  sd_runner :: string
  sd_bundle_path :: string
  sd_workspace_path :: string
  sd_workspace_git_common_dir :: "string option"
  sd_input_set_path :: "string option"
  sd_credential_source_root :: "string option"
  sd_credential_names :: "string list"
  sd_runtime_ceiling_ms :: nat
  sd_budget :: ExecutionBudget
  sd_execution_profile :: ExecutionProfile
  sd_environment :: env_map

definition systemd_path_value :: "string \<Rightarrow> string result" where
  "systemd_path_value path =
     (let text = lossy_text path in
      if \<not> path_is_absolute path
      then Inl (error_invalid ''contained write paths must be absolute'' ''executionProfile'')
      else if text = [] \<or> CHR 0x00 \<in> set text \<or> list_ex is_whitespace (utf8_chars text)
      then Inl (error_invalid ''contained write paths must be non-empty and whitespace-free'' ''executionProfile'')
      else Inr text)"

definition valid_environment_name :: "string \<Rightarrow> bool" where
  "valid_environment_name name \<longleftrightarrow>
     (case name of [] \<Rightarrow> False
      | first # rest \<Rightarrow> (first = CHR ''_'' \<or> is_ascii_alphabetic first)
          \<and> list_all (\<lambda>c. c = CHR ''_'' \<or> is_ascii_alphanumeric c) rest)"

text \<open>Names the manager gives to the Runtime's own service and to nobody else.\<close>

definition SUPERVISOR_ENVIRONMENT :: "string list" where
  "SUPERVISOR_ENVIRONMENT =
     [''INVOCATION_ID'', ''JOURNAL_STREAM'', ''LISTEN_FDS'', ''LISTEN_FDNAMES'', ''LISTEN_PID'', ''NOTIFY_SOCKET'',
      ''WATCHDOG_PID'', ''WATCHDOG_USEC'']"

definition inherited_environment_name :: "string \<Rightarrow> bool" where
  "inherited_environment_name name \<longleftrightarrow>
     snd (from_utf8 (bytes_of name)) = CleanEnd \<and> valid_environment_name name
     \<and> \<not> starts_with name ''ORDIVON_'' \<and> name \<notin> set SUPERVISOR_ENVIRONMENT"

definition append_trusted_environment :: "(string \<times> string) list \<Rightarrow> string list" where
  "append_trusted_environment process_environment =
     map (\<lambda>(name, val). ''--setenv='' @ name @ ''='' @ lossy_text val)
       (filter (\<lambda>(name, _). inherited_environment_name name) process_environment)"

definition CONFINEMENT :: "string list" where
  "CONFINEMENT =
     [''--property=ProtectSystem=strict'', ''--property=ProtectHome=tmpfs'', ''--property=PrivateTmp=yes'',
      ''--property=PrivateDevices=yes'', ''--property=PrivateNetwork=yes'', ''--property=NoNewPrivileges=yes'',
      ''--property=CapabilityBoundingSet='', ''--property=AmbientCapabilities='', ''--property=RestrictSUIDSGID=yes'',
      ''--property=RestrictNamespaces=yes'', ''--property=LockPersonality=yes'', ''--property=ProtectHostname=yes'',
      ''--property=ProtectClock=yes'', ''--property=ProtectKernelTunables=yes'', ''--property=ProtectKernelModules=yes'',
      ''--property=ProtectKernelLogs=yes'', ''--property=ProtectControlGroups=yes'', ''--property=ProtectProc=invisible'',
      ''--property=ProcSubset=pid'', ''--property=KeyringMode=private'', ''--property=RestrictAddressFamilies=AF_UNIX'',
      ''--property=TemporaryFileSystem=/run:ro'', ''--property=TemporaryFileSystem=/var:ro'',
      ''--property=SystemCallFilter=~@mount @raw-io @reboot @swap @module @obsolete'', ''--property=UMask=0077'']"

definition CONTAINED_SETENV :: "string list" where
  "CONTAINED_SETENV = [''PATH'', ''HOME'', ''LANG'', ''LC_ALL'', ''TMPDIR'', ''XDG_CACHE_HOME'']"

definition CONTAINED_WRITABLE :: "string list" where
  "CONTAINED_WRITABLE =
     [''HOME'', ''TMPDIR'', ''XDG_CACHE_HOME'', ''CARGO_TARGET_DIR'', ''UV_CACHE_DIR'', ''PIP_CACHE_DIR'',
      ''npm_config_cache'', ''PNPM_HOME'', ''COREPACK_HOME'', ''BUN_INSTALL_CACHE_DIR'', ''GOMODCACHE'', ''GOCACHE'']"

definition bind_read_only :: "string \<Rightarrow> string \<Rightarrow> string" where
  "bind_read_only source destination = ''--property=BindReadOnlyPaths='' @ source @ '':'' @ destination"

definition bind_writable :: "string \<Rightarrow> string" where
  "bind_writable path = ''--property=BindPaths='' @ path @ '':'' @ path"

definition rmap :: "('a \<Rightarrow> 'b) \<Rightarrow> 'a result \<Rightarrow> 'b result" where
  "rmap f m = rbind m (\<lambda>x. Inr (f x))"

definition option_args :: "'a option \<Rightarrow> ('a \<Rightarrow> string result) \<Rightarrow> string list result" where
  "option_args x f = (case x of None \<Rightarrow> Inr [] | Some y \<Rightarrow> rmap (\<lambda>arg. [arg]) (f y))"

fun each_arg :: "('a \<Rightarrow> string result) \<Rightarrow> 'a list \<Rightarrow> string list result" where
  "each_arg f [] = Inr []"
| "each_arg f (x # xs) = rbind (f x) (\<lambda>arg. rbind (each_arg f xs) (\<lambda>args. Inr (arg # args)))"

definition input_set_args :: "SystemdRunSpec \<Rightarrow> string list result" where
  "input_set_args spec = option_args (sd_input_set_path spec) (\<lambda>path.
     rmap (\<lambda>source. bind_read_only source CONTAINED_INPUT_ROOT) (systemd_path_value path))"

definition writable_paths :: "SystemdRunSpec \<Rightarrow> string list" where
  "writable_paths spec =
     path_set (sd_workspace_path spec # sd_bundle_path spec
       # List.map_filter (map_of (sd_environment spec)) CONTAINED_WRITABLE)"

definition append_contained_properties :: "SystemdRunSpec \<Rightarrow> string list result" where
  "append_contained_properties spec =
     rbind (systemd_path_value (sd_runner spec)) (\<lambda>runner_value.
     rbind (option_args (sd_workspace_git_common_dir spec) (\<lambda>path.
              rmap (\<lambda>v. bind_read_only v v) (systemd_path_value path))) (\<lambda>common.
     rbind (input_set_args spec) (\<lambda>inputs.
     rbind (each_arg (\<lambda>path. rmap bind_writable (systemd_path_value path)) (writable_paths spec)) (\<lambda>writable.
     Inr (CONFINEMENT @ [bind_read_only runner_value runner_value] @ common @ inputs
          @ List.map_filter (\<lambda>name. map_option (\<lambda>val. ''--setenv='' @ name @ ''='' @ val)
                                        (map_of (sd_environment spec) name)) CONTAINED_SETENV
          @ [''--setenv=GIT_OPTIONAL_LOCKS=0''] @ writable)))))"

definition credential_args :: "SystemdRunSpec \<Rightarrow> string list result" where
  "credential_args spec =
     (if sd_credential_names spec = [] then Inr []
      else rbind (ok_or (sd_credential_source_root spec) (error_invalid
                    ''credential bindings require a Job-owned credential source root'' ''execution.credentials'')) (\<lambda>root.
        each_arg (\<lambda>name. rmap (\<lambda>source. ''--property=LoadCredentialEncrypted='' @ name @ '':'' @ source)
                              (systemd_path_value (path_join root name))) (sd_credential_names spec)))"

definition unit_args :: "SystemdRunSpec \<Rightarrow> string list" where
  "unit_args spec =
     [''--unit='' @ sd_unit_name spec, ''--no-block'', ''--property=Type=exec'', ''--property=CollectMode=inactive'',
      ''--property=KillMode=control-group'', ''--property=TimeoutStopSec=2s'', ''--property=SendSIGKILL=yes'',
      ''--property=StandardOutput=journal'', ''--property=StandardError=journal'',
      ''--property=RuntimeMaxSec='' @ show_nat (sd_runtime_ceiling_ms spec) @ ''ms'']
     @ (case b_memory_max_bytes (sd_budget spec) of None \<Rightarrow> [] | Some n \<Rightarrow> [''--property=MemoryMax='' @ show_nat n])
     @ (case b_tasks_max (sd_budget spec) of None \<Rightarrow> [] | Some n \<Rightarrow> [''--property=TasksMax='' @ show_nat n])
     @ (case b_cpu_quota_percent (sd_budget spec) of None \<Rightarrow> [] | Some n \<Rightarrow> [''--property=CPUQuota='' @ show_nat n @ ''%''])"

definition profile_args :: "SystemdRunSpec \<Rightarrow> (string \<times> string) list \<Rightarrow> string list result" where
  "profile_args spec process_environment =
     (case sd_execution_profile spec of
        TrustedLocal \<Rightarrow>
          rbind (input_set_args spec) (\<lambda>inputs.
          rbind (credential_args spec) (\<lambda>credentials.
          Inr (append_trusted_environment process_environment @ inputs @ credentials)))
      | ContainedLocal \<Rightarrow>
          if sd_credential_names spec \<noteq> [] \<or> sd_credential_source_root spec \<noteq> None
          then Inl (error_invalid ''credential delivery is not admitted for contained_local'' ''execution.executionProfile'')
          else append_contained_properties spec)"

definition build_systemd_run_command :: "SystemdRunSpec \<Rightarrow> (string \<times> string) list \<Rightarrow> string list result" where
  "build_systemd_run_command spec process_environment =
     rbind (profile_args spec process_environment) (\<lambda>args.
     Inr (unit_args spec @ args @ [sd_runner spec, ''--task-dir'', sd_bundle_path spec]))"

end
