(* ===== verification/Engine_Ownership.thy ===== *)
theory Engine_Ownership
  imports Launch_Command Engine_Start
begin

text \<open>
  What a dispatch checks again before it starts anything (\<open>runtime/engine/execution.rs\<close> and
  \<open>runtime/engine/control_query.rs\<close>): that the execution provider and the host dependencies are still
  the committed ones, and that the Job owns its frozen inputs and credentials.
\<close>

section \<open>The execution provider\<close>

definition validate_runner :: "runtime \<Rightarrow> string \<Rightarrow> string engine" where
  "validate_runner rt path =
     ebind (ask_result rt (\<lambda>i t. map_err (\<lambda>e. io_error ''inspect Runner'' (if_text e)) (io_symlink_metadata i t path))) (\<lambda>metadata.
     if pk_symlink metadata \<or> \<not> (pk_file metadata \<and> pk_executable metadata)
     then efail (error_invalid ''Runner must be a non-symlink executable file'' ''runnerPath'')
     else ask_result rt (\<lambda>i t. map_err (io_error ''canonicalize Runner'') (io_canonicalize i t path)))"

definition configured_runner :: "runtime \<Rightarrow> string engine" where
  "configured_runner rt =
     ebind (elift (ok_or (rt_runner_path rt) (error_new ToolUnavailable
              ''local_linux runner is not configured on this Runtime node'' (Some ''runnerPath'') False))) (validate_runner rt)"

definition current_execution_provider_snapshot :: "runtime \<Rightarrow> ExecutionTarget \<Rightarrow> ExecutionProviderSnapshot engine" where
  "current_execution_provider_snapshot rt target =
     (case target of
        LocalLinux \<Rightarrow>
          if \<not> rt_on_linux rt
          then efail (error_new ToolUnavailable ''local_linux execution is available only on a Linux Runtime node''
                        (Some ''execution.executionTarget'') False)
          else ebind (configured_runner rt) (\<lambda>runner.
            ebind (engine_sha256_file rt runner) (\<lambda>digest.
            eret \<lparr>eps_contract = LocalLinuxRunnerV1, eps_executable_digest = digest, eps_wsl_distribution = None\<rparr>))
      | WindowsNative \<Rightarrow>
          ebind (elift (ok_or (rt_windows rt) (error_invalid ''windows_native target is not configured on this Runtime''
                   ''execution.executionTarget''))) (\<lambda>windows.
          ebind (ask_result rt io_validate_windows) (\<lambda>_.
          ebind (ask_result rt (\<lambda>i t. map_err (io_error ''canonicalize Windows execution provider launcher'')
                   (io_canonicalize i t (wcfg_launcher_path windows)))) (\<lambda>launcher.
          ebind (engine_sha256_file rt launcher) (\<lambda>digest.
          eret \<lparr>eps_contract = WindowsNativeLauncherV1, eps_executable_digest = digest, eps_wsl_distribution = None\<rparr>)))))"

definition verify_committed_execution_provider :: "runtime \<Rightarrow> string \<Rightarrow> unit engine" where
  "verify_committed_execution_provider rt job_id =
     ebind (execution_plan_now rt job_id) (\<lambda>plan.
     ebind (execution_provider_now rt job_id) (\<lambda>committed. case committed of
       None \<Rightarrow> eret ()
     | Some expected \<Rightarrow>
         ebind (current_execution_provider_snapshot rt (p_execution_target plan)) (\<lambda>observed.
         if observed \<noteq> expected
         then efail (error_new ProviderStateMismatch
                (''execution provider changed after operation admission: expected ''
                 @ ec_debug_provider (rt_codec rt) expected @ '', observed '' @ ec_debug_provider (rt_codec rt) observed)
                (Some ''executionProvider'') False)
         else eret ())))"

section \<open>Host dependencies\<close>

definition host_dependency_drift :: "string \<Rightarrow> RuntimeError" where
  "host_dependency_drift message = error_new WorkspaceStateMismatch message (Some ''hostDependencies'') False"

definition verify_host_dependency :: "runtime \<Rightarrow> HostDependencyBinding \<Rightarrow> unit engine" where
  "verify_host_dependency rt binding =
     (let path = hd_path binding; name = ''committed Host Dependency '' @ hd_path binding in
      ebind (ask_result rt (\<lambda>i t. map_err (\<lambda>e. host_dependency_drift (name @ '' is unavailable before dispatch: '' @ if_text e))
               (io_symlink_metadata i t path))) (\<lambda>metadata.
      if pk_symlink metadata \<or> \<not> pk_file metadata
      then efail (host_dependency_drift (name @ '' is not a regular non-symlink file''))
      else ebind (engine_sha256_file rt path) (\<lambda>observed.
        if observed \<noteq> hd_expected_digest binding
        then efail (host_dependency_drift (name @ '' changed after admission: expected '' @ hd_expected_digest binding
               @ '', observed '' @ observed))
        else eret ())))"

fun eforeach :: "('a \<Rightarrow> unit engine) \<Rightarrow> 'a list \<Rightarrow> unit engine" where
  "eforeach f [] = eret ()"
| "eforeach f (x # xs) = ebind (f x) (\<lambda>_. eforeach f xs)"

definition host_dependencies_now :: "runtime \<Rightarrow> string \<Rightarrow> HostDependencyBinding list engine" where
  "host_dependencies_now rt job_id = registry_read rt (\<lambda>env db. host_dependencies (rt_host rt) env db job_id)"

definition verify_committed_host_dependencies :: "runtime \<Rightarrow> string \<Rightarrow> unit engine" where
  "verify_committed_host_dependencies rt job_id =
     ebind (host_dependencies_now rt job_id) (eforeach (verify_host_dependency rt))"

section \<open>Frozen inputs\<close>

text \<open>
  A directory tree is as deep as a path is long: at \<open>PATH_MAX\<close> the kernel refuses the path
  (\<open>ENAMETOOLONG\<close>), and every level adds a separator and a name, so this many levels are enough.
\<close>

definition PATH_MAX :: nat where
  "PATH_MAX = 4096"

definition input_drift :: "string \<Rightarrow> RuntimeError" where
  "input_drift message = error_new WorkspaceStateMismatch message (Some ''effectiveInputs'') False"

definition scan_directory :: "runtime \<Rightarrow> string \<Rightarrow> string \<Rightarrow> (string + string) list engine" where
  "scan_directory rt context path = ask_result rt (\<lambda>i t. map_err (io_error context) (io_read_dir i t path))"

text \<open>The entries of one directory; \<open>descend\<close> collects a subdirectory.\<close>

fun collect_entries ::
  "runtime \<Rightarrow> string \<Rightarrow> (string \<Rightarrow> string list engine) \<Rightarrow> string \<Rightarrow> (string + string) list \<Rightarrow> string list engine" where
  "collect_entries rt root descend current [] = eret []"
| "collect_entries rt root descend current (entry # rest) =
     (case entry of
        Inl error \<Rightarrow> efail (io_error ''read materialized input entry'' error)
      | Inr name \<Rightarrow>
          let path = path_join current name in
          ebind (ask_result rt (\<lambda>i t. map_err (\<lambda>e. io_error ''inspect materialized input entry'' (if_text e))
                   (io_symlink_metadata i t path))) (\<lambda>metadata.
          ebind (if pk_symlink metadata then efail (input_drift ''materialized input set contains a symlink'')
                 else if pk_dir metadata then descend path
                 else if pk_file metadata
                 then elift (rbind (ok_or (path_strip_prefix path root) (input_drift ''materialized input escaped its set root''))
                               (\<lambda>relative. Inr [relative]))
                 else efail (input_drift ''materialized input set contains a non-file entry'')) (\<lambda>found.
          ebind (collect_entries rt root descend current rest) (\<lambda>others.
          eret (found @ others)))))"

primrec collect_materialized_files :: "nat \<Rightarrow> runtime \<Rightarrow> string \<Rightarrow> string \<Rightarrow> string list engine" where
  "collect_materialized_files 0 rt root current =
     efail (io_error ''scan materialized input set'' ''File name too long (os error 36)'')"
| "collect_materialized_files (Suc depth) rt root current =
     ebind (scan_directory rt ''scan materialized input set'' current)
       (collect_entries rt root (collect_materialized_files depth rt root) current)"

fun verify_inputs_loop ::
  "runtime \<Rightarrow> string \<Rightarrow> nat \<Rightarrow> InputBindingRequest list \<Rightarrow> EffectiveInputBinding list engine" where
  "verify_inputs_loop rt root index [] = eret []"
| "verify_inputs_loop rt root index (input # inputs) =
     (let path = path_join root (ib_presentation_relative_path input) in
      ebind (file_len rt ''inspect materialized input'' path) (\<lambda>len.
      ebind (engine_sha256_file rt path) (\<lambda>digest.
      if digest \<noteq> ib_expected_digest input
      then efail (error_new WorkspaceStateMismatch ''materialized input digest does not match the committed binding''
                    (Some (input_field ''effectiveInputs'' index ''.digest'')) False)
      else ebind (verify_inputs_loop rt root (index + 1) inputs) (\<lambda>effective.
        eret (\<lparr>ei_authority = ib_authority input, ei_relative_object = ib_relative_object input, ei_digest = digest,
               ei_byte_length = len, ei_presentation_relative_path = ib_presentation_relative_path input,
               ei_access = ReadOnly\<rparr> # effective)))))"

definition verify_effective_input_set ::
  "runtime \<Rightarrow> string \<Rightarrow> InputBindingRequest list \<Rightarrow> EffectiveInputBinding list engine" where
  "verify_effective_input_set rt root inputs =
     ebind (ask_result rt (\<lambda>i t. map_err (\<lambda>e. io_error ''inspect materialized input set'' (if_text e))
              (io_symlink_metadata i t root))) (\<lambda>metadata.
     if pk_symlink metadata \<or> \<not> pk_dir metadata
     then efail (input_drift ''materialized input set root is not a non-symlink directory'')
     else ebind (collect_materialized_files PATH_MAX rt root root) (\<lambda>observed.
       if set (map path_components observed) \<noteq> set (map (path_components \<circ> ib_presentation_relative_path) inputs)
       then efail (input_drift ''materialized input set file inventory differs from the committed binding set'')
       else verify_inputs_loop rt root 0 inputs))"

section \<open>Taking ownership\<close>

definition create_dir_all :: "runtime \<Rightarrow> string \<Rightarrow> string \<Rightarrow> unit engine" where
  "create_dir_all rt context path = ask_result rt (\<lambda>i t. map_err (io_error context) (io_create_dir_all i t path))"

definition sync_directory :: "runtime \<Rightarrow> string \<Rightarrow> unit engine" where
  "sync_directory rt path = ask_result rt (\<lambda>i t. map_err map_universal_error (io_sync_directory i t path))"

definition durable_runtime_rename :: "runtime \<Rightarrow> string \<Rightarrow> string \<Rightarrow> string \<Rightarrow> unit engine" where
  "durable_runtime_rename rt source destination operation =
     ask_result rt (\<lambda>i t. map_err map_universal_error (io_rename i t source destination operation))"

definition path_parent :: "string \<Rightarrow> string option" where
  "path_parent p =
     (let cs = path_components p in
      if cs = [] \<or> cs = [RootDir] then None
      else if hd cs = RootDir then Some (path_text True (butlast (tl cs)))
      else Some (path_text False (butlast cs)))"

text \<open>\<open>discard_prepared_input_set\<close> and \<open>discard_prepared_credential_set\<close>, which differ in the error text.\<close>

definition discard_prepared_set :: "runtime \<Rightarrow> string \<Rightarrow> string \<Rightarrow> unit engine" where
  "discard_prepared_set rt context prepared_root =
     ebind (path_exists rt prepared_root) (\<lambda>present.
     if \<not> present then eret ()
     else ebind (ask_result rt (\<lambda>i t. map_err (io_error context) (io_remove_dir_all i t prepared_root))) (\<lambda>_.
       case path_parent prepared_root of None \<Rightarrow> eret () | Some parent \<Rightarrow> sync_directory rt parent))"

definition discard_prepared_input_set :: "runtime \<Rightarrow> string \<Rightarrow> unit engine" where
  "discard_prepared_input_set rt = discard_prepared_set rt ''remove unowned prepared input set''"

definition discard_prepared_credential_set :: "runtime \<Rightarrow> string \<Rightarrow> unit engine" where
  "discard_prepared_credential_set rt = discard_prepared_set rt ''remove unowned prepared credential set''"

definition job_inputs_root :: "runtime \<Rightarrow> string" where
  "job_inputs_root rt = path_join (rt_store_root rt) ''job-inputs''"

definition job_input_path :: "runtime \<Rightarrow> string \<Rightarrow> string" where
  "job_input_path rt job_id = path_join (job_inputs_root rt) job_id"

definition input_materializations_root :: "runtime \<Rightarrow> string" where
  "input_materializations_root rt = path_join (rt_store_root rt) ''input-materializations''"

definition job_credentials_root :: "runtime \<Rightarrow> string" where
  "job_credentials_root rt = path_join (rt_store_root rt) ''job-credentials''"

definition job_credential_path :: "runtime \<Rightarrow> string \<Rightarrow> string" where
  "job_credential_path rt job_id = path_join (job_credentials_root rt) job_id"

definition credential_materializations_root :: "runtime \<Rightarrow> string" where
  "credential_materializations_root rt = path_join (rt_store_root rt) ''credential-materializations''"

text \<open>
  The second half of both ownership functions: the Job-owned set is verified when it is there,
  otherwise the prepared set is verified and adopted.
\<close>

definition adopt_prepared_set ::
  "runtime \<Rightarrow> string \<Rightarrow> string \<Rightarrow> (string \<Rightarrow> unit engine) \<Rightarrow> (string \<Rightarrow> unit engine) \<Rightarrow> RuntimeError \<Rightarrow> string \<Rightarrow> unit engine" where
  "adopt_prepared_set rt owned_root prepared_root verify discard missing operation =
     ebind (path_exists rt owned_root) (\<lambda>owned.
     if owned
     then ebind (verify owned_root) (\<lambda>_.
          ebind (path_exists rt prepared_root) (\<lambda>left_over.
          if left_over then discard prepared_root else eret ()))
     else ebind (path_exists rt prepared_root) (\<lambda>prepared.
       if \<not> prepared then efail missing
       else ebind (verify prepared_root) (\<lambda>_.
         ebind (ematch (durable_runtime_rename rt prepared_root owned_root operation)
                  (\<lambda>error. ebind (path_exists rt owned_root) (\<lambda>other_won. if other_won then eret () else efail error))
                  eret) (\<lambda>_.
         verify owned_root))))"

definition ensure_job_input_ownership :: "runtime \<Rightarrow> string \<Rightarrow> unit engine" where
  "ensure_job_input_ownership rt job_id =
     ebind (execution_plan_now rt job_id) (\<lambda>plan.
     if p_effective_inputs plan = []
     then if p_input_set_id plan \<noteq> None
          then efail (registry_corrupt ''inputSetId exists without effective immutable inputs'' ''executionPlan'')
          else eret ()
     else if p_input_set_id plan = None
     then efail (registry_corrupt ''effective immutable inputs have no committed inputSetId'' ''executionPlan'')
     else ebind (elift (effective_input_requests_from_plan plan)) (\<lambda>requests.
       ebind (create_dir_all rt ''create Job input ownership root'' (job_inputs_root rt)) (\<lambda>_.
       adopt_prepared_set rt (job_input_path rt job_id) (path_join (input_materializations_root rt) job_id)
         (\<lambda>root. ebind (verify_effective_input_set rt root requests) (\<lambda>_. eret ()))
         (discard_prepared_input_set rt)
         (error_new ReconciliationRequired
            ''committed Job immutable inputs are missing both prepared and Job-owned bytes''
            (Some ''executionPlan.inputSetId'') True)
         ''adopt prepared immutable inputs for Job'')))"

section \<open>Frozen credentials\<close>

definition credential_drift :: "string \<Rightarrow> RuntimeError" where
  "credential_drift message = error_new WorkspaceStateMismatch message (Some ''credentialSetId'') False"

fun inspect_credential_entries :: "runtime \<Rightarrow> string \<Rightarrow> (string + string) list \<Rightarrow> CredentialSnapshotEntry list engine" where
  "inspect_credential_entries rt root [] = eret []"
| "inspect_credential_entries rt root (entry # rest) =
     (case entry of
        Inl error \<Rightarrow> efail (io_error ''read encrypted credential snapshot entry'' error)
      | Inr name \<Rightarrow>
          let path = path_join root name in
          ebind (ask_result rt (\<lambda>i t. map_err (\<lambda>e. io_error ''inspect encrypted credential snapshot entry'' (if_text e))
                   (io_symlink_metadata i t path))) (\<lambda>metadata.
          if pk_symlink metadata \<or> \<not> pk_file metadata
          then efail (credential_drift ''encrypted credential snapshot contains a non-regular entry'')
          else if snd (from_utf8 (bytes_of name)) \<noteq> CleanEnd
          then efail (credential_drift ''encrypted credential snapshot contains a non-UTF-8 credential name'')
          else ebind (elift (validate_credential_name name ''credentialSetId'')) (\<lambda>_.
            ebind (engine_sha256_file rt path) (\<lambda>digest.
            ebind (inspect_credential_entries rt root rest) (\<lambda>entries.
            eret (\<lparr>cse_name = name, cse_digest = digest, cse_byte_length = pk_len metadata\<rparr> # entries))))))"

definition inspect_credential_snapshot :: "runtime \<Rightarrow> string \<Rightarrow> (string \<times> string list) engine" where
  "inspect_credential_snapshot rt root =
     ebind (ask_result rt (\<lambda>i t. map_err (\<lambda>e. io_error ''inspect encrypted credential snapshot set'' (if_text e))
              (io_symlink_metadata i t root))) (\<lambda>metadata.
     if pk_symlink metadata \<or> \<not> pk_dir metadata
     then efail (credential_drift ''encrypted credential snapshot root is not a non-symlink directory'')
     else ebind (scan_directory rt ''enumerate encrypted credential snapshot'' root) (\<lambda>listing.
       ebind (inspect_credential_entries rt root listing) (\<lambda>entries.
       let sorted = sort_key cse_name entries in
       eret (sha256_bytes (rt_host rt) (ec_credential_entries_print (rt_codec rt) sorted), map cse_name sorted))))"

definition verify_credential_snapshot :: "runtime \<Rightarrow> string \<Rightarrow> string \<Rightarrow> string list engine" where
  "verify_credential_snapshot rt root expected_set_id =
     ebind (inspect_credential_snapshot rt root) (\<lambda>(observed_set_id, names).
     if observed_set_id \<noteq> expected_set_id
     then efail (credential_drift ''encrypted credential snapshot does not match the committed credential set'')
     else eret names)"

definition ensure_job_credential_ownership :: "runtime \<Rightarrow> string \<Rightarrow> unit engine" where
  "ensure_job_credential_ownership rt job_id =
     ebind (execution_plan_now rt job_id) (\<lambda>plan. case p_credential_set_id plan of
       None \<Rightarrow> eret ()
     | Some credential_set_id \<Rightarrow>
         ebind (create_dir_all rt ''create Job credential ownership root'' (job_credentials_root rt)) (\<lambda>_.
         adopt_prepared_set rt (job_credential_path rt job_id) (path_join (credential_materializations_root rt) job_id)
           (\<lambda>root. ebind (verify_credential_snapshot rt root credential_set_id) (\<lambda>_. eret ()))
           (discard_prepared_credential_set rt)
           (error_new ReconciliationRequired
              ''committed Job credentials are missing both prepared and Job-owned snapshots''
              (Some ''executionPlan.credentialSetId'') True)
           ''adopt prepared credentials for Job''))"

end
