(* ===== verification/Engine_Dispatch.thy ===== *)
theory Engine_Dispatch
  imports Engine_Reconcile Engine_Ownership
begin

text \<open>
  Starting an accepted Attempt (\<open>runtime/engine/execution.rs\<close>): its bundle is published under the
  committed identity, the dispatch is made durable, and only then is the unit or the Windows launcher
  started and its start evidence awaited.
\<close>

section \<open>The bundle\<close>

definition PLAN_FILE :: string where "PLAN_FILE = ''plan.json''"
definition BUNDLE_MANIFEST_FILE :: string where "BUNDLE_MANIFEST_FILE = ''bundle-manifest.json''"
definition TRUSTED_BUILD_TARGET_PRESENTATION :: string where "TRUSTED_BUILD_TARGET_PRESENTATION = ''/proc/self/fd/198''"
definition UNIVERSAL_EXEC_SCHEMA_VERSION :: nat where "UNIVERSAL_EXEC_SCHEMA_VERSION = 1"

definition workspace_build_cache_path :: "runtime \<Rightarrow> string \<Rightarrow> string" where
  "workspace_build_cache_path rt workspace_id =
     path_join (path_join (path_join (rt_store_root rt) ''cache'') ''build'') workspace_id"

definition attempt_launch_token :: "host \<Rightarrow> AttemptRecord \<Rightarrow> RuntimeJobRecord \<Rightarrow> string" where
  "attempt_launch_token h attempt job =
     sha256_bytes h (''runtime-launch-v1'' @ [NUL] @ a_attempt_id attempt @ [NUL] @ j_operation_digest job)"

definition uses_trusted_build_target :: "RuntimeExecutionPlan \<Rightarrow> bool" where
  "uses_trusted_build_target plan \<longleftrightarrow>
     p_execution_target plan = LocalLinux \<and> p_execution_profile plan = TrustedLocal
     \<and> (map_of (p_env plan) ''CARGO_TARGET_DIR'' = Some TRUSTED_BUILD_TARGET_PRESENTATION
        \<or> list_ex (\<lambda>step. map_of (st_env step) ''CARGO_TARGET_DIR'' = Some TRUSTED_BUILD_TARGET_PRESENTATION) (p_steps plan))"

definition runner_request ::
  "runtime \<Rightarrow> RuntimeJobRecord \<Rightarrow> AttemptRecord \<Rightarrow> RuntimeExecutionPlan \<Rightarrow> HostDependencyBinding list \<Rightarrow> RunnerRequest" where
  "runner_request rt job attempt plan dependencies =
     \<lparr>rq_schema_version = UNIVERSAL_EXEC_SCHEMA_VERSION, rq_job_id = Some (j_job_id job),
      rq_attempt_id = Some (a_attempt_id attempt),
      rq_launch_token = Some (attempt_launch_token (rt_host rt) attempt job),
      rq_unit_name = Some (a_unit_name attempt), rq_inherit_host_environment = False,
      rq_task_id = a_attempt_id attempt, rq_workspace_id = p_workspace_id plan,
      rq_workspace_path = p_workspace_path plan, rq_workspace_source_digest = p_workspace_source_digest plan,
      rq_build_target_backing =
        (if uses_trusted_build_target plan
         then Some (path_join (workspace_build_cache_path rt (p_workspace_id plan)) ''cargo'') else None),
      rq_input_presentation_root =
        (if p_execution_target plan = LocalLinux \<and> p_effective_inputs plan \<noteq> [] then Some CONTAINED_INPUT_ROOT else None),
      rq_input_commitments =
        (if p_execution_target plan = LocalLinux
         then map (\<lambda>input. \<lparr>rn_presentation_path = path_join CONTAINED_INPUT_ROOT (ei_presentation_relative_path input),
                            rn_digest = ei_digest input, rn_byte_length = ei_byte_length input\<rparr>) (p_effective_inputs plan)
         else []),
      rq_host_dependencies = map (\<lambda>d. \<lparr>rh_path = hd_path d, rh_digest = hd_expected_digest d\<rparr>) dependencies,
      rq_executable = p_executable plan, rq_executable_digest = p_executable_digest plan, rq_args = p_args plan,
      rq_cwd = p_cwd plan, rq_env = p_env plan,
      rq_steps = map (\<lambda>step. \<lparr>re_id = st_id step, re_executable = st_executable step,
          re_executable_digest = st_executable_digest step, re_args = st_args step, re_cwd = st_cwd step,
          re_env = st_env step, re_timeout_ms = st_timeout_ms step, re_continue_on_error = st_continue_on_error step\<rparr>)
          (p_steps plan),
      rq_timeout_ms = p_timeout_ms plan, rq_stdout_limit_bytes = p_stdout_limit_bytes plan,
      rq_stderr_limit_bytes = p_stderr_limit_bytes plan\<rparr>"

text \<open>The three files of a bundle, with the manifest and the digest that names it.\<close>

record bundle_bytes =
  bb_request :: string
  bb_plan :: string
  bb_manifest :: BundleManifest
  bb_manifest_bytes :: string

definition bundle_contents ::
  "runtime \<Rightarrow> RuntimeJobRecord \<Rightarrow> AttemptRecord \<Rightarrow> RuntimeExecutionPlan \<Rightarrow> HostDependencyBinding list \<Rightarrow> bundle_bytes" where
  "bundle_contents rt job attempt plan dependencies =
     (let request_bytes = ec_request_print (rt_codec rt) (runner_request rt job attempt plan dependencies);
          plan_bytes = h_plan_print (rt_host rt) plan;
          manifest = \<lparr>bm_schema_version = RUNTIME_SCHEMA_VERSION, bm_job_id = j_job_id job,
            bm_attempt_id = a_attempt_id attempt, bm_request_digest = sha256_bytes (rt_host rt) request_bytes,
            bm_plan_digest = sha256_bytes (rt_host rt) plan_bytes,
            bm_launch_token_digest = sha256_bytes (rt_host rt) (attempt_launch_token (rt_host rt) attempt job),
            bm_created_at_ms = a_created_at_ms attempt\<rparr>
      in \<lparr>bb_request = request_bytes, bb_plan = plan_bytes, bb_manifest = manifest,
          bb_manifest_bytes = ec_manifest_print (rt_codec rt) manifest\<rparr>)"

definition bundle_digest :: "runtime \<Rightarrow> bundle_bytes \<Rightarrow> string" where
  "bundle_digest rt contents = sha256_bytes (rt_host rt) (bb_manifest_bytes contents)"

definition bundle_files :: "bundle_bytes \<Rightarrow> (string \<times> string) list" where
  "bundle_files contents =
     [(RUNNER_REQUEST_FILE, bb_request contents), (PLAN_FILE, bb_plan contents),
      (BUNDLE_MANIFEST_FILE, bb_manifest_bytes contents)]"

definition verify_bundle_file :: "runtime \<Rightarrow> string \<Rightarrow> string \<times> string \<Rightarrow> unit engine" where
  "verify_bundle_file rt final_path named =
     (let path = path_join final_path (fst named) in
      ebind (ask_result rt (\<lambda>i t. map_err (\<lambda>e. io_error ''inspect published Attempt bundle file'' (if_text e))
               (io_symlink_metadata i t path))) (\<lambda>metadata.
      if pk_symlink metadata \<or> \<not> pk_file metadata
      then efail (registry_corrupt ''published Attempt bundle contains a non-regular file'' ''bundlePath'')
      else ebind (read_file rt ''read published Attempt bundle file'' path) (\<lambda>observed.
        if observed \<noteq> snd named
        then efail (registry_corrupt ''published Attempt bundle bytes do not match deterministic Attempt identity'' ''bundlePath'')
        else eret ())))"

definition verify_published_bundle :: "runtime \<Rightarrow> string \<Rightarrow> bundle_bytes \<Rightarrow> unit engine" where
  "verify_published_bundle rt final_path contents =
     ebind (ask_result rt (\<lambda>i t. map_err (\<lambda>e. io_error ''inspect published Attempt bundle'' (if_text e))
              (io_symlink_metadata i t final_path))) (\<lambda>metadata.
     if pk_symlink metadata \<or> \<not> pk_dir metadata
     then efail (registry_corrupt ''published Attempt bundle is not a non-symlink directory'' ''bundlePath'')
     else eforeach (verify_bundle_file rt final_path) (bundle_files contents))"

definition write_bytes_synced :: "runtime \<Rightarrow> string \<Rightarrow> string \<Rightarrow> unit engine" where
  "write_bytes_synced rt path bytes =
     ebind (ask_result rt (\<lambda>i t. map_err (io_error ''create bundle file'') (io_create_new i t path))) (\<lambda>_.
     ebind (ask_result rt (\<lambda>i t. map_err (io_error ''write bundle file'') (io_write_all i t path bytes))) (\<lambda>_.
     ask_result rt (\<lambda>i t. map_err (io_error ''sync bundle file'') (io_sync_all i t path))))"

text \<open>The body of the \<open>publish\<close> closure.\<close>

definition publish_staging :: "runtime \<Rightarrow> string \<Rightarrow> string \<Rightarrow> bundle_bytes \<Rightarrow> unit engine" where
  "publish_staging rt staging final_path contents =
     ebind (ask_result rt (\<lambda>i t. map_err (io_error ''protect staging bundle'') (io_set_permissions i t staging 448))) (\<lambda>_.
     ebind (eforeach (\<lambda>named. write_bytes_synced rt (path_join staging (fst named)) (snd named)) (bundle_files contents)) (\<lambda>_.
     ebind (sync_directory rt staging) (\<lambda>_.
     ebind (ematch (durable_runtime_rename rt staging final_path ''commit Attempt bundle'')
              (\<lambda>error. ebind (ask rt (\<lambda>i t. io_is_dir i t final_path)) (\<lambda>other_won.
                 if other_won
                 then ask_result rt (\<lambda>i t. map_err (io_error ''remove losing bundle staging directory'') (io_remove_dir_all i t staging))
                 else efail error))
              eret) (\<lambda>_.
     verify_published_bundle rt final_path contents))))"

definition publish_bundle :: "runtime \<Rightarrow> AttemptRecord \<Rightarrow> bundle_bytes \<Rightarrow> unit engine" where
  "publish_bundle rt attempt contents =
     (let final_path = a_bundle_path attempt in
      ebind (elift (ok_or (path_parent final_path)
               (error_new IoError ''Attempt bundle has no parent directory'' (Some ''bundlePath'') False))) (\<lambda>parent.
      ebind (create_dir_all rt ''create attempts root'' parent) (\<lambda>_.
      ebind (path_exists rt final_path) (\<lambda>present.
      if present then verify_published_bundle rt final_path contents
      else ebind (ask rt io_uuid) (\<lambda>uuid.
        let staging = path_join parent (''.'' @ a_attempt_id attempt @ ''.staging-'' @ uuid) in
        ebind (ask_result rt (\<lambda>i t. map_err (io_error ''create staging bundle'') (io_create_dir i t staging))) (\<lambda>_.
        ematch (publish_staging rt staging final_path contents)
          (\<lambda>error. ebind (ask rt (\<lambda>i t. io_remove_dir_all i t staging)) (\<lambda>_. efail error))
          eret))))))"

definition mark_bundle_ready_now :: "runtime \<Rightarrow> AttemptRecord \<Rightarrow> string \<Rightarrow> nat \<Rightarrow> AttemptRecord engine" where
  "mark_bundle_ready_now rt attempt digest at =
     registry_op rt (\<lambda>env db. mark_bundle_ready (rt_host rt) env db (a_attempt_id attempt) (a_row_version attempt) digest at)"

definition materialize_bundle :: "runtime \<Rightarrow> AttemptRecord \<Rightarrow> AttemptRecord engine" where
  "materialize_bundle rt attempt =
     (if a_state attempt \<noteq> Accepted
      then efail (error_new AttemptStateConflict ''only accepted Attempts may materialize a bundle'' (Some ''attemptId'') False)
      else ebind (job_snapshot_now rt (a_job_id attempt)) (\<lambda>snapshot.
       let job = js_job snapshot in
       ebind (elift (ok_or (js_attempt snapshot) (registry_corrupt ''Job has no Attempt while materializing bundle'' ''attemptId''))) (\<lambda>stored.
       if a_attempt_id stored \<noteq> a_attempt_id attempt \<or> a_row_version stored \<noteq> a_row_version attempt
       then efail (error_new AttemptStateConflict ''Attempt changed before bundle materialization'' (Some ''attemptId'') False)
       else ebind (elift (parse_execution_plan (rt_host rt) job)) (\<lambda>plan.
        if sha256_bytes (rt_host rt) (attempt_launch_token (rt_host rt) attempt job) \<noteq> a_launch_token_digest attempt
        then efail (registry_corrupt ''stored launch-token digest is inconsistent'' ''launchTokenDigest'')
        else ebind (host_dependencies_now rt (a_job_id attempt)) (\<lambda>dependencies.
         let contents = bundle_contents rt job attempt plan dependencies in
         if bm_launch_token_digest (bb_manifest contents) \<noteq> a_launch_token_digest attempt
            \<or> bm_plan_digest (bb_manifest contents) \<noteq> j_execution_plan_digest job
         then efail (registry_corrupt ''reconstructed bundle identity does not match Registry'' ''attemptId'')
         else ebind (publish_bundle rt attempt contents) (\<lambda>_.
          ebind (engine_now_ms rt) (\<lambda>now.
          ematch (mark_bundle_ready_now rt attempt (bundle_digest rt contents) now)
            (\<lambda>error. if err_code error = AttemptStateConflict
               then ebind (get_attempt_now rt (a_attempt_id attempt)) (\<lambda>current.
                    if a_bundle_digest current = Some (bundle_digest rt contents) then eret current else efail error)
               else efail error)
            eret)))))))"

section \<open>Awaiting the start\<close>

text \<open>The polling loop; \<open>polls\<close> is how often the deadline is still ahead.\<close>

fun await_start_loop :: "runtime \<Rightarrow> AttemptRecord \<Rightarrow> ExecutionTarget \<Rightarrow> nat \<Rightarrow> unit engine" where
  "await_start_loop rt attempt target polls =
     (let again = (\<lambda>otherwise. case polls of 0 \<Rightarrow> otherwise | Suc n \<Rightarrow> await_start_loop rt attempt target n) in
      ebind (result_exists rt attempt) (\<lambda>present.
      if present then reconcile_runner_result rt attempt
      else ebind (path_exists rt (bundle_file attempt (start_file target))) (\<lambda>started.
        if \<not> started then again (reconcile_attempt rt (a_attempt_id attempt))
        else ematch (bind_attempt_start rt attempt target)
          (\<lambda>error.
             if transient_main_pid_observation_loss error
             then after_transient_loss rt attempt (\<lambda>_. again (efail error))
             else if err_code error = LaunchIdentityMismatch
             then ebind (result_exists rt attempt) (\<lambda>late.
                  if late then reconcile_runner_result rt attempt else efail error)
             else efail error)
          (\<lambda>_. eret ()))))"

declare await_start_loop.simps [simp del]

definition await_launch_evidence :: "runtime \<Rightarrow> AttemptRecord \<Rightarrow> unit engine" where
  "await_launch_evidence rt attempt =
     ebind (ask rt (\<lambda>i t. io_deadline_in_range i t (rt_startup_grace_ms rt))) (\<lambda>in_range.
     if \<not> in_range
     then efail (error_invalid ''startupGraceMs exceeds platform monotonic clock range'' ''startupGraceMs'')
     else ebind (execution_plan_now rt (a_job_id attempt)) (\<lambda>plan.
       ebind (ask rt io_polls) (await_start_loop rt attempt (p_execution_target plan))))"

section \<open>Dispatch\<close>

definition committed_input_set :: "runtime \<Rightarrow> AttemptRecord \<Rightarrow> RuntimeExecutionPlan \<Rightarrow> string option engine" where
  "committed_input_set rt starting plan =
     (if p_input_set_id plan = None then eret None
      else ebind (ensure_job_input_ownership rt (a_job_id starting)) (\<lambda>_.
       let path = job_input_path rt (a_job_id starting) in
       ebind (elift (effective_input_requests_from_plan plan)) (\<lambda>requests.
       ebind (verify_effective_input_set rt path requests) (\<lambda>_.
       eret (Some path)))))"

definition committed_credentials :: "runtime \<Rightarrow> AttemptRecord \<Rightarrow> RuntimeExecutionPlan \<Rightarrow> (string option \<times> string list) engine" where
  "committed_credentials rt starting plan =
     (case p_credential_set_id plan of
        None \<Rightarrow> eret (None, [])
      | Some credential_set_id \<Rightarrow>
          ebind (ensure_job_credential_ownership rt (a_job_id starting)) (\<lambda>_.
          let path = job_credential_path rt (a_job_id starting) in
          ebind (verify_credential_snapshot rt path credential_set_id) (\<lambda>names.
          eret (Some path, names))))"

definition systemd_run_spec ::
  "AttemptRecord \<Rightarrow> RuntimeExecutionPlan \<Rightarrow> string \<Rightarrow> string \<Rightarrow> string option \<Rightarrow> string option \<Rightarrow> string list \<Rightarrow> SystemdRunSpec" where
  "systemd_run_spec starting plan runner bundle_path input_set_path credential_root credential_names =
     \<lparr>sd_unit_name = a_unit_name starting, sd_runner = runner, sd_bundle_path = bundle_path,
      sd_workspace_path = p_workspace_path plan, sd_workspace_git_common_dir = p_workspace_git_common_dir plan,
      sd_input_set_path = input_set_path, sd_credential_source_root = credential_root,
      sd_credential_names = credential_names, sd_runtime_ceiling_ms = saturating_add (p_timeout_ms plan) 5000,
      sd_budget = p_budget plan, sd_execution_profile = p_execution_profile plan, sd_environment = p_env plan\<rparr>"

definition tool_error :: "string \<Rightarrow> string \<Rightarrow> RuntimeError" where
  "tool_error context error = error_new ToolFailed (context @ '': '' @ error) None True"

definition systemd_run :: "runtime \<Rightarrow> string \<Rightarrow> SystemdRunSpec \<Rightarrow> command_output engine" where
  "systemd_run rt attempt_id spec =
     ebind (ask rt io_environment) (\<lambda>process_environment.
     ebind (elift (build_systemd_run_command spec process_environment)) (\<lambda>command.
     ebind (emit (LaunchUnit attempt_id)) (\<lambda>_.
     ask_result rt (\<lambda>i t. map_err (tool_error ''cannot execute systemd-run'') (io_systemd_run i t command)))))"

definition runner_start_failed :: "runtime \<Rightarrow> AttemptRecord \<Rightarrow> string \<Rightarrow> unit engine" where
  "runner_start_failed rt starting detail =
     then_unit (commit_control_terminal rt starting Failed ''RUNNER_START_FAILED'' (Some detail))"

definition dispatch_local_linux :: "runtime \<Rightarrow> AttemptRecord \<Rightarrow> RuntimeExecutionPlan \<Rightarrow> string \<Rightarrow> unit engine" where
  "dispatch_local_linux rt starting plan bundle_path =
     ebind (configured_runner rt) (\<lambda>runner.
     ebind (committed_input_set rt starting plan) (\<lambda>input_set_path.
     ebind (committed_credentials rt starting plan) (\<lambda>(credential_root, credential_names).
     ebind (systemd_run rt (a_attempt_id starting)
              (systemd_run_spec starting plan runner bundle_path input_set_path credential_root credential_names)) (\<lambda>output.
     if \<not> out_success output
     then runner_start_failed rt starting (target_as_str (p_execution_target plan) @ '' launch failed: '' @ out_stderr output)
     else await_launch_evidence rt starting))))"

definition bind_native_windows_dispatch_owner ::
  "runtime \<Rightarrow> AttemptRecord \<Rightarrow> WindowsNativeLaunchObservation \<Rightarrow> AttemptRecord engine" where
  "bind_native_windows_dispatch_owner rt attempt dispatch =
     ebind (committed_windows_provider rt attempt) (\<lambda>provider.
     if eps_contract provider \<noteq> WindowsNativeLauncherV1 \<or> eps_wsl_distribution provider \<noteq> None
     then efail (registry_corrupt ''native Windows dispatch owner does not match the committed execution provider'' ''executionProvider'')
     else ebind (engine_now_ms rt) (\<lambda>observed_unix_ms.
      ebind (engine_sha256_file rt (bundle_file attempt RUNNER_REQUEST_FILE)) (\<lambda>request_digest.
      let evidence = \<lparr>wl_schema_version = RUNTIME_SCHEMA_VERSION, wl_job_id = a_job_id attempt,
            wl_attempt_id = a_attempt_id attempt, wl_launch_token_digest = a_launch_token_digest attempt,
            wl_request_digest = request_digest, wl_job_name = ''Ordivon.'' @ a_attempt_id attempt,
            wl_launcher_process_id = wn_launcher_process_id dispatch,
            wl_launcher_process_creation_time_file_time = wn_launcher_process_creation_time_file_time dispatch,
            wl_launcher_image_digest = eps_executable_digest provider, wl_observed_unix_ms = observed_unix_ms\<rparr>
      in
      ebind (write_bytes_synced rt (bundle_file attempt WINDOWS_LAUNCHER_START_FILE)
               (ec_launcher_start_print (rt_codec rt) evidence)) (\<lambda>_.
      ebind (validate_windows_launcher_start_evidence rt attempt) (\<lambda>(validated, start_digest).
      bind_owner rt attempt
        (WindowsLauncherV1 (wl_launcher_process_id validated) (wl_launcher_process_creation_time_file_time validated)
           (wl_launcher_image_digest validated) (wl_job_name validated) start_digest)
        (wl_observed_unix_ms validated))))))"

definition windows_run_spec ::
  "host \<Rightarrow> AttemptRecord \<Rightarrow> RuntimeExecutionPlan \<Rightarrow> string \<Rightarrow> string \<Rightarrow> string option \<Rightarrow> string option \<Rightarrow> WindowsNativeRunSpec" where
  "windows_run_spec h starting plan bundle_path request_digest input_source_root input_presentation_root =
     (let context = p_windows_execution_context plan;
          active_user = (if p_windows_authority plan = ActiveUser then context else None)
      in \<lparr>wr_bundle_path = bundle_path, wr_job_id = a_job_id starting, wr_attempt_id = a_attempt_id starting,
          wr_launch_token_digest = a_launch_token_digest starting, wr_request_digest = request_digest,
          wr_authority = p_windows_authority plan, wr_expected_privileged_broker_digest = broker_digest plan,
          wr_expected_user_sid = map_option wc_token_user_sid active_user,
          wr_expected_session_id = Option.bind active_user wc_session_id,
          wr_executable = p_executable plan, wr_args = p_args plan, wr_cwd = p_cwd plan, wr_environment = p_env plan,
          wr_input_source_root = input_source_root, wr_input_set_id = p_input_set_id plan,
          wr_input_presentation_root = input_presentation_root,
          wr_input_bindings_digest =
            (if p_effective_inputs plan = [] then None else Some (windows_input_bindings_digest h (p_effective_inputs plan))),
          wr_budget = p_budget plan, wr_timeout_ms = p_timeout_ms plan,
          wr_stdout_limit_bytes = p_stdout_limit_bytes plan, wr_stderr_limit_bytes = p_stderr_limit_bytes plan\<rparr>)"

definition dispatch_windows_native :: "runtime \<Rightarrow> AttemptRecord \<Rightarrow> RuntimeExecutionPlan \<Rightarrow> string \<Rightarrow> unit engine" where
  "dispatch_windows_native rt starting plan bundle_path =
     ebind (require_windows rt ''committed windows_native Job has no configured Windows provider'') (\<lambda>_.
     ebind (committed_input_set rt starting plan) (\<lambda>input_source_root.
     ebind (if p_effective_inputs plan = [] then eret None
            else elift (rbind (required_environment_value_case_insensitive (p_env plan) ''ORDIVON_INPUT_ROOT''
                                 ''executionPlan.env'') (\<lambda>root. Inr (Some root)))) (\<lambda>input_presentation_root.
     ebind (engine_sha256_file rt (path_join bundle_path RUNNER_REQUEST_FILE)) (\<lambda>request_digest.
     ebind (emit (SpawnLauncher (a_attempt_id starting))) (\<lambda>_.
     ematch (ask_result rt (\<lambda>i t. io_spawn_windows i t
               (windows_run_spec (rt_host rt) starting plan bundle_path request_digest input_source_root input_presentation_root)))
       (\<lambda>error. runner_start_failed rt starting (''native Windows launcher spawn failed: '' @ err_message error))
       (\<lambda>dispatch. ebind (bind_native_windows_dispatch_owner rt starting dispatch) (await_launch_evidence rt)))))))"

definition mark_dispatch_issued_now :: "runtime \<Rightarrow> AttemptRecord \<Rightarrow> nat \<Rightarrow> AttemptRecord engine" where
  "mark_dispatch_issued_now rt attempt at =
     registry_op rt (\<lambda>env db. mark_dispatch_issued (rt_host rt) env db (a_attempt_id attempt) (a_row_version attempt) at)"

definition canonical_directory :: "runtime \<Rightarrow> string \<Rightarrow> string \<Rightarrow> string engine" where
  "canonical_directory rt path field =
     ebind (ask_result rt (\<lambda>i t. map_err (\<lambda>error. map_universal_error
              \<lparr>ue_code = UIoError, ue_message = ''cannot canonicalize '' @ path @ '': '' @ error, ue_field = Some field,
               ue_retryable = False\<rparr>) (io_canonicalize i t path))) (\<lambda>canonical.
     ebind (ask rt (\<lambda>i t. io_is_dir i t canonical)) (\<lambda>directory.
     if \<not> directory then elift (map_err map_universal_error (Inl (universal_invalid (field @ '' must be a directory'') field)))
     else eret canonical))"

definition dispatch_attempt :: "runtime \<Rightarrow> AttemptRecord \<Rightarrow> unit engine" where
  "dispatch_attempt rt attempt =
     ebind (engine_now_ms rt) (\<lambda>now.
     ebind (mark_dispatch_issued_now rt attempt now) (\<lambda>starting.
     ebind (execution_plan_now rt (a_job_id starting)) (\<lambda>plan.
     ebind (canonical_directory rt (a_bundle_path starting) ''bundlePath'') (\<lambda>bundle_path.
     case p_execution_target plan of
       LocalLinux \<Rightarrow> dispatch_local_linux rt starting plan bundle_path
     | WindowsNative \<Rightarrow> dispatch_windows_native rt starting plan bundle_path))))"

text \<open>A failed precondition check ends the Attempt as \<open>Failed\<close> when its error says the committed state drifted.\<close>

definition checked_precondition ::
  "runtime \<Rightarrow> AttemptRecord \<Rightarrow> unit engine \<Rightarrow> RuntimeErrorCode list \<Rightarrow> string \<Rightarrow> unit engine \<Rightarrow> unit engine" where
  "checked_precondition rt attempt check drift reason_code continue =
     ematch check
       (\<lambda>error. if err_code error \<in> set drift
          then then_unit (commit_control_terminal rt attempt Failed reason_code (Some (error_display error)))
          else efail error)
       (\<lambda>_. continue)"

definition materialized_attempt :: "runtime \<Rightarrow> AttemptRecord \<Rightarrow> AttemptRecord engine" where
  "materialized_attempt rt attempt =
     (if a_bundle_digest attempt \<noteq> None then eret attempt
      else ematch (materialize_bundle rt attempt)
        (\<lambda>error. if err_code error = AttemptStateConflict
           then ebind (get_attempt_now rt (a_attempt_id attempt)) (\<lambda>current.
                if a_bundle_digest current = None \<and> a_state current = Accepted
                then materialize_bundle rt current else eret current)
           else efail error)
        eret)"

definition in_flight :: "AttemptState \<Rightarrow> bool" where
  "in_flight state \<longleftrightarrow> state \<in> {Starting, Running, Stopping, Recovering}"

definition dispatch_materialized :: "runtime \<Rightarrow> AttemptRecord \<Rightarrow> unit engine" where
  "dispatch_materialized rt attempt =
     (if a_state attempt = Accepted
      then ematch (dispatch_attempt rt attempt)
        (\<lambda>error. if err_code error = AttemptStateConflict
           then ebind (get_attempt_now rt (a_attempt_id attempt)) (\<lambda>current.
                if in_flight (a_state current) then reconcile_attempt rt (a_attempt_id current)
                else if is_terminal (a_state current) then eret ()
                else efail error)
           else efail error)
        eret
      else if in_flight (a_state attempt) then reconcile_attempt rt (a_attempt_id attempt)
      else eret ())"

definition ensure_attempt_dispatched :: "runtime \<Rightarrow> AttemptRecord \<Rightarrow> unit engine" where
  "ensure_attempt_dispatched rt attempt =
     checked_precondition rt attempt (verify_committed_execution_provider rt (a_job_id attempt))
       [ProviderStateMismatch] ''EXECUTION_PROVIDER_PRECONDITION_DRIFT''
     (checked_precondition rt attempt (verify_committed_host_dependencies rt (a_job_id attempt))
       [WorkspaceStateMismatch, InvalidRequest] ''HOST_DEPENDENCY_PRECONDITION_DRIFT''
     (checked_precondition rt attempt (ensure_job_input_ownership rt (a_job_id attempt))
       [ReconciliationRequired, WorkspaceStateMismatch] ''INPUT_PRECONDITION_DRIFT''
     (ebind (materialized_attempt rt attempt) (dispatch_materialized rt))))"

definition get_latest_attempt_now :: "runtime \<Rightarrow> string \<Rightarrow> AttemptRecord option engine" where
  "get_latest_attempt_now rt job_id = registry_read rt (\<lambda>env db. get_latest_attempt env db job_id)"

definition ensure_newly_admitted_job_dispatched :: "runtime \<Rightarrow> string \<Rightarrow> unit engine" where
  "ensure_newly_admitted_job_dispatched rt job_id =
     ebind (get_latest_attempt_now rt job_id) (\<lambda>latest.
     ebind (elift (ok_or latest (registry_corrupt ''newly admitted Job has no Attempt'' ''jobId''))) (\<lambda>attempt.
     if a_state attempt = Accepted
     then ematch (ensure_attempt_dispatched rt attempt) (\<lambda>error. efail (with_operation_id error job_id)) eret
     else eret ()))"

end
