(* ===== verification/Engine_Operations.thy ===== *)
theory Engine_Operations
  imports Engine_Dispatch
begin

text \<open>
  The operations a client or the maintenance loop calls (\<open>runtime/engine/reconciliation.rs\<close> and
  \<open>runtime/engine/control_query.rs\<close>): reconciling a Job or a batch of Attempts, observing, cancelling,
  and reading an Artifact.
\<close>

section \<open>Prepared sets\<close>

definition STALE_PREPARED_INPUT_AGE_MS :: nat where "STALE_PREPARED_INPUT_AGE_MS = 60000"
definition INTERACTIVE_RECONCILIATION_LIMIT :: nat where "INTERACTIVE_RECONCILIATION_LIMIT = 32"

definition get_job_now :: "runtime \<Rightarrow> string \<Rightarrow> RuntimeJobRecord engine" where
  "get_job_now rt job_id = registry_read rt (\<lambda>env db. get_job env db job_id)"

definition old_enough :: "runtime \<Rightarrow> nat \<Rightarrow> string \<Rightarrow> bool engine" where
  "old_enough rt stale_age_ms path =
     ask rt (\<lambda>i t. case io_age_ms i t path of None \<Rightarrow> False | Some age \<Rightarrow> stale_age_ms \<le> age)"

definition lstat :: "runtime \<Rightarrow> string \<Rightarrow> string \<Rightarrow> path_kind engine" where
  "lstat rt context path =
     ask_result rt (\<lambda>i t. map_err (\<lambda>e. io_error context (if_text e)) (io_symlink_metadata i t path))"

definition is_job_name :: "string \<Rightarrow> bool" where
  "is_job_name name \<longleftrightarrow> snd (from_utf8 (bytes_of name)) = CleanEnd \<and> starts_with name ''job-''"

definition eignore :: "'a engine \<Rightarrow> unit engine" where
  "eignore m = ematch m (\<lambda>_. eret ()) (\<lambda>_. eret ())"

text \<open>The loop over the Job directories below a root.\<close>

definition job_directory_entry ::
  "runtime \<Rightarrow> string \<Rightarrow> string \<Rightarrow> string \<Rightarrow> (string \<Rightarrow> string \<Rightarrow> unit engine) \<Rightarrow> string + string \<Rightarrow> unit engine" where
  "job_directory_entry rt root read_context inspect_context handle entry =
     (case entry of
        Inl error \<Rightarrow> efail (io_error read_context error)
      | Inr name \<Rightarrow>
          let path = path_join root name in
          ebind (lstat rt inspect_context path) (\<lambda>metadata.
          if pk_dir metadata \<and> is_job_name name then handle name path else eret ()))"

definition each_job_directory ::
  "runtime \<Rightarrow> string \<Rightarrow> string \<Rightarrow> string \<Rightarrow> string \<Rightarrow> (string \<Rightarrow> string \<Rightarrow> unit engine) \<Rightarrow> unit engine" where
  "each_job_directory rt root enumerate_context read_context inspect_context handle =
     ebind (scan_directory rt enumerate_context root)
       (eforeach (job_directory_entry rt root read_context inspect_context handle))"

definition unowned_job :: "runtime \<Rightarrow> nat \<Rightarrow> string \<Rightarrow> unit engine \<Rightarrow> RuntimeError \<Rightarrow> unit engine" where
  "unowned_job rt stale_age_ms path discard error =
     (if err_code error = JobNotFound
      then ebind (old_enough rt stale_age_ms path) (\<lambda>old. ewhen old discard)
      else efail error)"

text \<open>Abandoned staging directories, guarded by a lease that only a live copier holds locked.\<close>

definition remove_staging_entry :: "runtime \<Rightarrow> string \<Rightarrow> string \<Rightarrow> string \<Rightarrow> string + string \<Rightarrow> unit engine" where
  "remove_staging_entry rt kind root staging_prefix entry =
     (case entry of
        Inl error \<Rightarrow> efail (io_error (''read abandoned '' @ kind @ '' staging entry'') error)
      | Inr name \<Rightarrow>
          if snd (from_utf8 (bytes_of name)) \<noteq> CleanEnd \<or> \<not> starts_with name staging_prefix then eret ()
          else ebind (ask rt (\<lambda>i t. io_symlink_metadata i t (path_join root name))) (\<lambda>file_type.
            ewhen (case file_type of Inr metadata \<Rightarrow> pk_dir metadata | Inl _ \<Rightarrow> False)
              (ask_result rt (\<lambda>i t. map_err (io_error (''remove abandoned '' @ kind @ '' staging directory''))
                 (io_remove_dir_all i t (path_join root name))))))"

definition lease_job :: "string \<Rightarrow> string option" where
  "lease_job name =
     (if snd (from_utf8 (bytes_of name)) \<noteq> CleanEnd then None
      else case strip_prefix ''.'' name of None \<Rightarrow> None
      | Some rest \<Rightarrow>
          if ends_with rest ''.lease'' \<and> starts_with (take (length rest - 6) rest) ''job-''
          then Some (take (length rest - 6) rest) else None)"

definition staging_lease_entry :: "runtime \<Rightarrow> string \<Rightarrow> string \<Rightarrow> nat \<Rightarrow> string + string \<Rightarrow> unit engine" where
  "staging_lease_entry rt kind root stale_age_ms entry =
     (case entry of
        Inl error \<Rightarrow> efail (io_error (''read '' @ kind @ '' staging lease entry'') error)
      | Inr name \<Rightarrow> (case lease_job name of
          None \<Rightarrow> eret ()
        | Some job_id \<Rightarrow>
            let path = path_join root name in
            ebind (lstat rt (''inspect '' @ kind @ '' staging lease'') path) (\<lambda>metadata.
            if pk_symlink metadata \<or> \<not> pk_file metadata then eret ()
            else ebind (old_enough rt stale_age_ms path) (\<lambda>old.
             if \<not> old then eret ()
             else ebind (ask rt (\<lambda>i t. io_lock_lease i t path)) (\<lambda>locked.
              if \<not> locked then eret ()
              else ebind (scan_directory rt (''enumerate abandoned '' @ kind @ '' staging directories'') root) (\<lambda>listing.
               ebind (eforeach (remove_staging_entry rt kind root (''.'' @ job_id @ ''.staging-'')) listing) (\<lambda>_.
               ebind (ask_result rt (\<lambda>i t. map_err (io_error (''remove abandoned '' @ kind @ '' staging lease''))
                        (io_remove_file i t path))) (\<lambda>_.
               sync_directory rt root))))))))"

definition collect_staging_leases :: "runtime \<Rightarrow> string \<Rightarrow> string \<Rightarrow> nat \<Rightarrow> unit engine" where
  "collect_staging_leases rt kind root stale_age_ms =
     ebind (scan_directory rt (''enumerate '' @ kind @ '' staging leases'') root)
       (eforeach (staging_lease_entry rt kind root stale_age_ms))"

definition prepared_input_entry :: "runtime \<Rightarrow> nat \<Rightarrow> string \<Rightarrow> string \<Rightarrow> unit engine" where
  "prepared_input_entry rt stale_age_ms job_id path =
     ematch (get_job_now rt job_id)
       (unowned_job rt stale_age_ms path (discard_prepared_input_set rt path))
       (\<lambda>job. ebind (elift (parse_execution_plan (rt_host rt) job)) (\<lambda>plan.
          if p_effective_inputs plan = [] \<or> p_input_set_id plan = None then eret ()
          else eignore (ensure_job_input_ownership rt job_id)))"

definition reconcile_prepared_input_sets :: "runtime \<Rightarrow> nat \<Rightarrow> unit engine" where
  "reconcile_prepared_input_sets rt stale_age_ms =
     (let root = input_materializations_root rt in
      ebind (create_dir_all rt ''create input materialization root'' root) (\<lambda>_.
      ebind (each_job_directory rt root ''enumerate prepared input sets'' ''read prepared input set entry''
               ''inspect prepared input set'' (prepared_input_entry rt stale_age_ms)) (\<lambda>_.
      collect_staging_leases rt ''input'' root stale_age_ms)))"

definition prepared_credential_entry :: "runtime \<Rightarrow> nat \<Rightarrow> string \<Rightarrow> string \<Rightarrow> unit engine" where
  "prepared_credential_entry rt stale_age_ms job_id path =
     ematch (get_job_now rt job_id)
       (unowned_job rt stale_age_ms path (discard_prepared_credential_set rt path))
       (\<lambda>job. if j_resolution job \<noteq> None then discard_prepared_credential_set rt path
          else ebind (elift (parse_execution_plan (rt_host rt) job)) (\<lambda>plan.
            if p_credential_set_id plan = None then eret ()
            else eignore (ensure_job_credential_ownership rt job_id)))"

definition retire_credentials :: "runtime \<Rightarrow> string \<Rightarrow> string \<Rightarrow> string \<Rightarrow> unit engine" where
  "retire_credentials rt context owned_root path =
     ebind (ask_result rt (\<lambda>i t. map_err (io_error context) (io_remove_dir_all i t path))) (\<lambda>_. sync_directory rt owned_root)"

definition owned_credential_entry :: "runtime \<Rightarrow> nat \<Rightarrow> string \<Rightarrow> string \<Rightarrow> string \<Rightarrow> unit engine" where
  "owned_credential_entry rt stale_age_ms owned_root job_id path =
     ematch (get_job_now rt job_id)
       (unowned_job rt stale_age_ms path (retire_credentials rt ''remove unowned Job encrypted credentials'' owned_root path))
       (\<lambda>job. ewhen (j_resolution job \<noteq> None)
          (retire_credentials rt ''retire resolved Job encrypted credentials'' owned_root path))"

definition reconcile_prepared_credential_sets :: "runtime \<Rightarrow> nat \<Rightarrow> unit engine" where
  "reconcile_prepared_credential_sets rt stale_age_ms =
     (let root = credential_materializations_root rt; owned_root = job_credentials_root rt in
      ebind (create_dir_all rt ''create credential materialization root'' root) (\<lambda>_.
      ebind (each_job_directory rt root ''enumerate prepared credential sets'' ''read prepared credential set entry''
               ''inspect prepared credential set'' (prepared_credential_entry rt stale_age_ms)) (\<lambda>_.
      ebind (create_dir_all rt ''create Job credential ownership root'' owned_root) (\<lambda>_.
      ebind (each_job_directory rt owned_root ''enumerate Job-owned encrypted credentials''
               ''read Job-owned encrypted credential entry'' ''inspect Job-owned encrypted credential set''
               (owned_credential_entry rt stale_age_ms owned_root)) (\<lambda>_.
      collect_staging_leases rt ''credential'' root stale_age_ms)))))"

section \<open>Orphans\<close>

definition release_effect_now :: "runtime \<Rightarrow> string \<Rightarrow> RuntimeReleaseEffectBinding option engine" where
  "release_effect_now rt job_id = registry_read rt (\<lambda>env db. runtime_release_effect_for_job (rt_host rt) env db job_id)"

fun orphan_outcome :: "AttemptTerminationIntent \<Rightarrow> JobDesiredState \<Rightarrow> AttemptState \<times> string" where
  "orphan_outcome StopRequested desired = (Cancelled, ''ORPHAN_CANCELLED_PROCESS_TREE_GONE'')"
| "orphan_outcome DeadlineExceeded desired = (TimedOut, ''ORPHAN_DEADLINE_PROCESS_TREE_GONE'')"
| "orphan_outcome Natural desired =
     (if desired = DesiredCancelled then (Cancelled, ''ORPHAN_CANCELLED_PROCESS_TREE_GONE'')
      else (Lost, ''ORPHANED_PROCESS_TREE_GONE''))"

definition deployed_release_terminal :: "AttemptRecord \<Rightarrow> string \<Rightarrow> TerminalCommit" where
  "deployed_release_terminal current result_digest =
     \<lparr>tc_attempt_id = a_attempt_id current, tc_expected_row_version = a_row_version current, tc_state = Succeeded,
      tc_result_digest = result_digest, tc_exit_code = Some 0, tc_infrastructure_error_digest = None,
      tc_finished_at_ms = saturating_add (option_or (a_finished_at_ms current) (a_created_at_ms current)) 1,
      tc_artifacts = [], tc_reason_code = ''RUNTIME_RELEASE_RECEIPT_DEPLOYED''\<rparr>"

text \<open>An orphan of a Runtime release: a terminal receipt of a deployment decides it.\<close>

definition recover_deployed_release :: "runtime \<Rightarrow> AttemptRecord \<Rightarrow> bool engine" where
  "recover_deployed_release rt current =
     ebind (release_effect_now rt (a_job_id current)) (\<lambda>binding_opt. case binding_opt of
       None \<Rightarrow> eret False
     | Some binding \<Rightarrow>
         ebind (job_snapshot_now rt (a_job_id current)) (\<lambda>snapshot.
         ebind (inspect_runtime_release_receipt rt binding snapshot) (\<lambda>receipt.
         if rp_disposition receipt = ReleaseDeployed \<and> rp_terminal receipt
         then ebind (elift (ok_or (rp_digest receipt) (registry_corrupt
                       ''terminal deployed Runtime Release receipt has no digest'' ''runtimeReleaseEffect.receipt''))) (\<lambda>digest.
              ebind (append_terminal_evidence rt current (deployed_release_terminal current digest)) (\<lambda>terminal.
              ebind (recover_orphaned_terminal_now rt terminal) (\<lambda>_. eret True)))
         else eret False)))"

definition reconcile_orphaned_attempt :: "runtime \<Rightarrow> AttemptRecord \<Rightarrow> bool engine" where
  "reconcile_orphaned_attempt rt attempt =
     ebind (get_attempt_now rt (a_attempt_id attempt)) (\<lambda>current.
     if a_state current \<noteq> Orphaned then eret False
     else ebind (recover_deployed_release rt current) (\<lambda>deployed.
      if deployed then eret True
      else ebind (result_is_file rt current) (\<lambda>present.
       if present then recover_orphaned_runner_result rt current
       else ebind (orphan_process_tree_alive rt current) (\<lambda>alive.
        if alive then eret False
        else ebind (result_is_file rt current) (\<lambda>late.
         if late then recover_orphaned_runner_result rt current
         else ebind (get_job_now rt (a_job_id current)) (\<lambda>job.
          let outcome = orphan_outcome (a_termination_intent current) (j_desired_state job) in
          ebind (resolve_absent_orphan rt current (fst outcome) (snd outcome)) (\<lambda>_. eret True)))))))"

section \<open>Reconciling\<close>

definition reconcile_job :: "runtime \<Rightarrow> string \<Rightarrow> unit engine" where
  "reconcile_job rt job_id =
     ebind (job_snapshot_now rt job_id) (\<lambda>snapshot.
     if j_resolution (js_job snapshot) \<noteq> None
     then (case (j_resolution (js_job snapshot), js_attempt snapshot) of
             (Some ResOrphaned, Some attempt) \<Rightarrow> then_unit (reconcile_orphaned_attempt rt attempt)
           | _ \<Rightarrow> eret ())
     else ebind (elift (ok_or (js_attempt snapshot) (registry_corrupt ''unresolved Job has no Attempt'' ''jobId''))) (\<lambda>attempt.
       if a_state attempt = Accepted then ensure_attempt_dispatched rt attempt
       else reconcile_attempt rt (a_attempt_id attempt)))"

record ReconciliationFailure =
  rf_attempt_id :: string
  rf_job_id :: string
  rf_code :: RuntimeErrorCode
  rf_message :: string

record ReconciliationReport =
  rr_inspected :: nat
  rr_reconciled :: nat
  rr_recovered_orphans :: nat
  rr_quarantined :: nat
  rr_unchanged :: nat
  rr_failed :: nat
  rr_failures :: "ReconciliationFailure list"

definition empty_report :: ReconciliationReport where
  "empty_report = \<lparr>rr_inspected = 0, rr_reconciled = 0, rr_recovered_orphans = 0, rr_quarantined = 0,
     rr_unchanged = 0, rr_failed = 0, rr_failures = []\<rparr>"

definition record_isolated_reconciliation_failure ::
  "runtime \<Rightarrow> AttemptRecord \<Rightarrow> RuntimeError \<Rightarrow> ReconciliationReport \<Rightarrow> ReconciliationReport engine" where
  "record_isolated_reconciliation_failure rt attempt error report =
     (if is_reconciliation_fatal error then efail error
      else ebind (engine_now_ms rt) (\<lambda>now.
       ebind (registry_op rt (\<lambda>env db. record_reconciliation_failure (rt_host rt) env db attempt error now)) (\<lambda>_.
       eret (report\<lparr>rr_failed := rr_failed report + 1, rr_failures := rr_failures report @
         [\<lparr>rf_attempt_id = a_attempt_id attempt, rf_job_id = a_job_id attempt, rf_code = err_code error,
           rf_message = err_message error\<rparr>]\<rparr>))))"

definition reconcile_one :: "runtime \<Rightarrow> AttemptRecord \<Rightarrow> bool engine" where
  "reconcile_one rt attempt =
     (if a_state attempt = Orphaned then reconcile_orphaned_attempt rt attempt
      else if is_terminal (a_state attempt)
      then ebind (engine_now_ms rt) (\<lambda>now.
           registry_op rt (\<lambda>env db. converge_terminal_reservation (rt_host rt) env db (a_attempt_id attempt) now))
      else if a_state attempt = Accepted then ebind (ensure_attempt_dispatched rt attempt) (\<lambda>_. eret False)
      else ebind (reconcile_attempt rt (a_attempt_id attempt)) (\<lambda>_. eret False))"

definition orphan_converged :: "AttemptRecord \<Rightarrow> bool \<Rightarrow> AttemptState \<Rightarrow> bool" where
  "orphan_converged attempt changed current \<longleftrightarrow> a_state attempt = Orphaned \<and> (changed \<or> current \<noteq> Orphaned)"

definition count_outcome :: "AttemptRecord \<Rightarrow> bool \<Rightarrow> AttemptState \<Rightarrow> ReconciliationReport \<Rightarrow> ReconciliationReport" where
  "count_outcome attempt changed current report =
     (if orphan_converged attempt changed current
      then report\<lparr>rr_recovered_orphans := rr_recovered_orphans report + 1\<rparr>
      else if current = Orphaned \<and> a_state attempt \<noteq> Orphaned
      then report\<lparr>rr_quarantined := rr_quarantined report + 1\<rparr>
      else if changed \<or> current \<noteq> a_state attempt
      then report\<lparr>rr_reconciled := rr_reconciled report + 1\<rparr>
      else report\<lparr>rr_unchanged := rr_unchanged report + 1\<rparr>)"

definition reconcile_candidate_into ::
  "runtime \<Rightarrow> AttemptRecord \<Rightarrow> ReconciliationReport \<Rightarrow> ReconciliationReport engine" where
  "reconcile_candidate_into rt attempt earlier =
     (let report = earlier\<lparr>rr_inspected := rr_inspected earlier + 1\<rparr> in
      ematch (reconcile_one rt attempt)
        (\<lambda>error. record_isolated_reconciliation_failure rt attempt error report)
        (\<lambda>changed. ebind (get_attempt_now rt (a_attempt_id attempt)) (\<lambda>current.
           let counted = count_outcome attempt changed (a_state current) report in
           if a_state attempt \<noteq> Orphaned \<or> orphan_converged attempt changed (a_state current)
           then ebind (engine_now_ms rt) (\<lambda>now.
                ebind (registry_op rt (\<lambda>env db. clear_reconciliation_failure (rt_host rt) env db (a_attempt_id attempt) now))
                  (\<lambda>_. eret counted))
           else eret counted)))"

fun reconcile_candidates_into ::
  "runtime \<Rightarrow> AttemptRecord list \<Rightarrow> ReconciliationReport \<Rightarrow> ReconciliationReport engine" where
  "reconcile_candidates_into rt [] report = eret report"
| "reconcile_candidates_into rt (attempt # rest) report =
     ebind (reconcile_candidate_into rt attempt report) (reconcile_candidates_into rt rest)"

definition reconcile_workspace :: "runtime \<Rightarrow> string \<Rightarrow> ReconciliationReport engine" where
  "reconcile_workspace rt workspace_id =
     ebind (registry_read rt (\<lambda>env db. list_workspace_reconciliation_attempts env db workspace_id INTERACTIVE_RECONCILIATION_LIMIT))
       (\<lambda>found. reconcile_candidates_into rt found empty_report)"

definition reconcile_maintenance_batch :: "runtime \<Rightarrow> nat \<Rightarrow> ReconciliationReport engine" where
  "reconcile_maintenance_batch rt limit =
     ebind (reconcile_prepared_credential_sets rt STALE_PREPARED_INPUT_AGE_MS) (\<lambda>_.
     ebind (registry_read rt (\<lambda>env db. list_maintenance_attempts_bounded env db limit)) (\<lambda>found.
     reconcile_candidates_into rt found empty_report))"

definition reconcile_recoverable_orphans :: "runtime \<Rightarrow> ReconciliationReport engine" where
  "reconcile_recoverable_orphans rt =
     ebind (reconcile_prepared_input_sets rt STALE_PREPARED_INPUT_AGE_MS) (\<lambda>_.
     ebind (reconcile_prepared_credential_sets rt STALE_PREPARED_INPUT_AGE_MS) (\<lambda>_.
     ebind (registry_read rt list_held_orphaned_attempts) (\<lambda>found.
     reconcile_candidates_into rt found empty_report)))"

section \<open>Observing\<close>

definition observe_output_request :: "JobObserveRequest \<Rightarrow> ObservationOutputRequest" where
  "observe_output_request request =
     \<lparr>oo_stdout_tail_bytes = jo_stdout_tail_bytes request, oo_stderr_tail_bytes = jo_stderr_tail_bytes request,
      oo_stdout_offset = jo_stdout_offset request, oo_stderr_offset = jo_stderr_offset request\<rparr>"

fun observe_loop :: "runtime \<Rightarrow> JobObserveRequest \<Rightarrow> JobActivitySignature option \<Rightarrow> nat \<Rightarrow> JobObservation engine" where
  "observe_loop rt request initial polls =
     ebind (reconcile_job rt (jo_job_id request)) (\<lambda>_.
     ebind (job_snapshot_now rt (jo_job_id request)) (\<lambda>snapshot.
     ebind (job_activity_signature rt (js_attempt snapshot) (js_projection snapshot)) (\<lambda>signature.
     let changed = (case initial of None \<Rightarrow> False | Some first \<Rightarrow> first \<noteq> signature);
         answer = observation_from_snapshot rt snapshot (observe_output_request request)
     in
     if jpr_result_available (js_projection snapshot) \<or> jo_wait_ms request = 0
        \<or> (jo_wait_until request = WaitChangeOrTerminal \<and> changed)
     then answer
     else case polls of 0 \<Rightarrow> answer
          | Suc n \<Rightarrow> observe_loop rt request (case initial of None \<Rightarrow> Some signature | Some first \<Rightarrow> Some first) n)))"

declare observe_loop.simps [simp del]

definition observe_job :: "runtime \<Rightarrow> JobObserveRequest \<Rightarrow> JobObservation engine" where
  "observe_job rt request =
     ebind (elift (validate_observe_request request)) (\<lambda>_.
     ebind (ask rt io_polls) (observe_loop rt request None))"

section \<open>Cancelling\<close>

record JobCancelRequest =
  cr_schema_version :: nat
  cr_job_id :: string

definition request_cancel_now :: "runtime \<Rightarrow> string \<Rightarrow> JobProjection engine" where
  "request_cancel_now rt job_id =
     ebind (engine_now_ms rt) (\<lambda>now. registry_op rt (\<lambda>env db. request_cancel (rt_host rt) env db job_id now))"

definition cancelled_control_terminal :: "runtime \<Rightarrow> AttemptRecord \<Rightarrow> string option \<Rightarrow> JobObservation engine" where
  "cancelled_control_terminal rt attempt detail =
     commit_control_terminal rt attempt Cancelled ''STOP_REQUESTED_PROCESS_TREE_GONE'' detail"

definition cancel_orphan :: "runtime \<Rightarrow> string \<Rightarrow> AttemptRecord \<Rightarrow> JobObservation engine" where
  "cancel_orphan rt job_id attempt =
     ebind (result_is_file rt attempt) (\<lambda>present.
     ebind (if present then recover_orphaned_runner_result rt attempt else eret False) (\<lambda>recovered.
     if recovered then observation_from_registry rt job_id 4096 4096
     else ebind (request_cancel_now rt job_id) (\<lambda>_.
      ebind (get_attempt_now rt (a_attempt_id attempt)) (\<lambda>current.
      ebind (orphan_process_tree_alive rt current) (\<lambda>alive.
      ebind (if alive then eret ()
             else ebind (result_is_file rt current) (\<lambda>late.
               if late then then_unit (recover_orphaned_runner_result rt current)
               else resolve_absent_orphan rt current Cancelled ''ORPHAN_CANCELLED_PROCESS_TREE_GONE'')) (\<lambda>_.
      observation_from_registry rt job_id 4096 4096))))))"

text \<open>The loop that waits for a stopped unit to be gone.\<close>

fun cancel_linux_loop :: "runtime \<Rightarrow> AttemptRecord \<Rightarrow> command_output \<Rightarrow> nat \<Rightarrow> JobObservation option engine" where
  "cancel_linux_loop rt attempt output polls =
     ebind (result_exists rt attempt) (\<lambda>present.
     if present then ebind (commit_runner_result rt attempt) (\<lambda>ob. eret (Some ob))
     else ebind (systemctl_show rt (a_unit_name attempt)) (\<lambda>properties.
      ebind (recorded_pid_alive rt attempt) (\<lambda>recorded_alive.
      if \<not> unit_is_active properties \<and> \<not> recorded_alive
      then ebind (cancelled_control_terminal rt attempt (if out_success output then None else Some (out_stderr output)))
             (\<lambda>ob. eret (Some ob))
      else case polls of 0 \<Rightarrow> eret None | Suc n \<Rightarrow> cancel_linux_loop rt attempt output n)))"

declare cancel_linux_loop.simps [simp del]

definition cancel_linux_attempt :: "runtime \<Rightarrow> string \<Rightarrow> AttemptRecord \<Rightarrow> JobObservation engine" where
  "cancel_linux_attempt rt job_id attempt =
     ebind (emit (StopUnit (a_attempt_id attempt))) (\<lambda>_.
     ebind (ask_result rt (\<lambda>i t. map_err (tool_error ''cannot execute systemctl stop'') (io_stop_unit i t (a_unit_name attempt)))) (\<lambda>output.
     ebind (ask rt io_polls) (\<lambda>polls.
     ebind (cancel_linux_loop rt attempt output polls) (\<lambda>outcome. case outcome of
       Some ob \<Rightarrow> eret ob
     | None \<Rightarrow> ebind (reconcile_attempt rt (a_attempt_id attempt)) (\<lambda>_. observation_from_registry rt job_id 4096 4096)))))"

text \<open>
  The loop for a Windows launcher.  A turn that binds new start evidence or sees it appear goes round
  again without looking at the clock, so the loop has a number of turns as well as of polls; \<open>None\<close>
  says that the turns ran out, \<open>Some None\<close> that the loop was left.
\<close>

definition native_turn ::
  "runtime \<Rightarrow> RuntimeExecutionPlan \<Rightarrow> AttemptRecord \<Rightarrow> JobObservation option option engine \<Rightarrow> JobObservation option option engine
     \<Rightarrow> JobObservation option option engine" where
  "native_turn rt plan attempt continue poll =
     (let finish = (\<lambda>m. ebind m (\<lambda>ob. eret (Some (Some ob)))) in
      ebind (get_attempt_now rt (a_attempt_id attempt)) (\<lambda>current.
      ebind (result_exists rt current) (\<lambda>present.
      if present then finish (commit_runner_result rt current)
      else ebind (supervisor_owner_now rt (a_attempt_id current)) (\<lambda>owner.
       if owner \<noteq> None
       then ebind (orphan_process_tree_alive rt current) (\<lambda>alive.
            if alive then poll
            else ebind (result_exists rt current) (\<lambda>late.
              if late then finish (commit_runner_result rt current)
              else finish (cancelled_control_terminal rt current
                (Some ''native Windows launcher owner identity is gone after committed cancel intent; JOB_OBJECT_LIMIT_KILL_ON_JOB_CLOSE makes the Attempt process tree definitively non-running''))))
       else ebind (path_is_file rt (bundle_file current WINDOWS_START_FILE)) (\<lambda>started.
        if started then ebind (bind_attempt_start rt current WindowsNative) (\<lambda>_. continue)
        else ebind (path_is_file rt (bundle_file current WINDOWS_LAUNCHER_START_FILE)) (\<lambda>launched.
         if \<not> launched then poll
         else ebind (validate_windows_launcher_start_evidence rt current) (\<lambda>(evidence, _).
          ebind (require_windows rt ''native Windows cancel has no configured provider'') (\<lambda>_.
          ebind (ask_result rt (\<lambda>i t. io_launcher_owner i t (p_windows_authority plan) (broker_digest plan)
                   (wl_launcher_process_id evidence))) (\<lambda>observed.
          ebind (path_is_file rt (bundle_file current WINDOWS_START_FILE)) (\<lambda>now_started.
          if now_started then continue
          else if wo_process_alive observed
               \<and> wo_process_creation_time_file_time observed = Some (wl_launcher_process_creation_time_file_time evidence)
          then poll
          else ebind (path_is_file rt (bundle_file current WINDOWS_START_FILE)) (\<lambda>late_started.
            if late_started then continue else eret (Some None))))))))))))"

fun cancel_native_loop ::
  "runtime \<Rightarrow> RuntimeExecutionPlan \<Rightarrow> AttemptRecord \<Rightarrow> nat \<Rightarrow> nat \<Rightarrow> JobObservation option option engine" where
  "cancel_native_loop rt plan attempt polls 0 = eret None"
| "cancel_native_loop rt plan attempt polls (Suc turns) =
     native_turn rt plan attempt (cancel_native_loop rt plan attempt polls turns)
       (case polls of 0 \<Rightarrow> eret (Some None) | Suc n \<Rightarrow> cancel_native_loop rt plan attempt n turns)"

definition cancel_native_windows_attempt ::
  "nat \<Rightarrow> runtime \<Rightarrow> string \<Rightarrow> AttemptRecord \<Rightarrow> JobObservation option engine" where
  "cancel_native_windows_attempt turns rt job_id attempt =
     ebind (execution_plan_now rt job_id) (\<lambda>plan.
     ebind (ask rt io_polls) (\<lambda>polls.
     ebind (cancel_native_loop rt plan attempt polls turns) (\<lambda>outcome. case outcome of
       None \<Rightarrow> eret None
     | Some (Some ob) \<Rightarrow> eret (Some ob)
     | Some None \<Rightarrow>
         ebind (ematch (reconcile_attempt rt (a_attempt_id attempt))
                  (\<lambda>error. if err_code error = LaunchIdentityMismatch then eret () else efail error) eret) (\<lambda>_.
         ebind (observation_from_registry rt job_id 4096 4096) (\<lambda>ob. eret (Some ob))))))"

definition reconcile_before_cancel :: "runtime \<Rightarrow> string \<Rightarrow> bool \<Rightarrow> AttemptRecord option \<Rightarrow> unit engine" where
  "reconcile_before_cancel rt job_id native_direct seen_attempt =
     ematch (reconcile_job rt job_id)
       (\<lambda>error.
          if err_code error \<noteq> LaunchIdentityMismatch then efail error
          else if native_direct then eret ()
          else ebind (elift (ok_or seen_attempt (registry_corrupt
                 ''unresolved Job has no Attempt while cancelling after launch identity mismatch'' ''jobId''))) (\<lambda>attempt.
            ebind (launch_identity_mismatch_cancel_target_absent rt attempt) (\<lambda>absent.
            if absent then eret () else efail error)))
       eret"

definition cancel_running :: "nat \<Rightarrow> runtime \<Rightarrow> string \<Rightarrow> AttemptRecord option \<Rightarrow> JobObservation option engine" where
  "cancel_running turns rt job_id seen_attempt =
     ebind (execution_plan_now rt job_id) (\<lambda>cancel_plan.
     let native_direct = (p_execution_target cancel_plan = WindowsNative \<and> rt_windows rt \<noteq> None) in
     ebind (reconcile_before_cancel rt job_id native_direct seen_attempt) (\<lambda>_.
     ebind (request_cancel_now rt job_id) (\<lambda>projection.
     if jpr_result_available projection
     then ebind (observation_from_registry rt job_id 4096 4096) (\<lambda>ob. eret (Some ob))
     else ebind (get_latest_attempt_now rt job_id) (\<lambda>latest.
      ebind (elift (ok_or latest (registry_corrupt ''cancelled Job has no Attempt'' ''jobId''))) (\<lambda>attempt.
      ebind (engine_now_ms rt) (\<lambda>now.
      ebind (write_atomic rt (bundle_file attempt CANCEL_FILE)
               (ec_cancel_print (rt_codec rt) RUNTIME_SCHEMA_VERSION job_id (a_attempt_id attempt) now)) (\<lambda>_.
      if native_direct then cancel_native_windows_attempt turns rt job_id attempt
      else ebind (cancel_linux_attempt rt job_id attempt) (\<lambda>ob. eret (Some ob)))))))))"

text \<open>\<open>turns\<close> bounds the Windows loop; \<open>None\<close> says that it was still going round.\<close>

definition cancel_job :: "nat \<Rightarrow> runtime \<Rightarrow> JobCancelRequest \<Rightarrow> JobObservation option engine" where
  "cancel_job turns rt request =
     (if cr_schema_version request \<noteq> RUNTIME_SCHEMA_VERSION
      then efail (error_invalid ''unsupported runtime schema version'' ''schemaVersion'')
      else ebind (job_snapshot_now rt (cr_job_id request)) (\<lambda>snapshot.
       case (j_resolution (js_job snapshot), js_attempt snapshot) of
         (Some ResOrphaned, Some attempt) \<Rightarrow>
           ebind (cancel_orphan rt (cr_job_id request) attempt) (\<lambda>ob. eret (Some ob))
       | _ \<Rightarrow> cancel_running turns rt (cr_job_id request) (js_attempt snapshot)))"

section \<open>Artifacts\<close>

definition MAX_ARTIFACT_READ_BYTES :: nat where "MAX_ARTIFACT_READ_BYTES = 1024 * 1024"

record ArtifactReadRequest =
  aq_schema_version :: nat
  aq_job_id :: string
  aq_artifact_id :: string
  aq_offset :: nat
  aq_max_bytes :: nat

record ArtifactReadResult =
  as_job_id :: string
  as_artifact_id :: string
  as_content :: string
  as_offset :: nat
  as_next_offset :: nat
  as_eof :: bool
  as_digest :: string

definition artifact_conflict :: "string \<Rightarrow> RuntimeError" where
  "artifact_conflict message = error_new ArtifactIdentityConflict message (Some ''artifactId'') False"

definition read_artifact :: "runtime \<Rightarrow> ArtifactReadRequest \<Rightarrow> ArtifactReadResult engine" where
  "read_artifact rt request =
     (if aq_schema_version request \<noteq> RUNTIME_SCHEMA_VERSION
      then efail (error_invalid ''unsupported runtime schema version'' ''schemaVersion'')
      else if aq_max_bytes request = 0 \<or> aq_max_bytes request > MAX_ARTIFACT_READ_BYTES
      then efail (error_invalid (''maxBytes must be in 1..='' @ show_nat MAX_ARTIFACT_READ_BYTES) ''maxBytes'')
      else ebind (registry_read rt (\<lambda>env db. get_artifact env db (aq_job_id request) (aq_artifact_id request))) (\<lambda>artifact.
       ebind (get_attempt_now rt (art_attempt_id artifact)) (\<lambda>attempt.
       ebind (canonical_directory rt (a_bundle_path attempt) ''bundlePath'') (\<lambda>bundle.
       let path = path_join bundle (art_relative_path artifact) in
       ebind (lstat rt ''inspect Artifact'' path) (\<lambda>metadata.
       if pk_symlink metadata \<or> \<not> pk_file metadata
       then efail (artifact_conflict ''Artifact path is not a regular non-symlink file'')
       else ebind (ask_result rt (\<lambda>i t. map_err (io_error ''canonicalize Artifact'') (io_canonicalize i t path))) (\<lambda>canonical.
        if \<not> path_starts_with canonical bundle then efail (artifact_conflict ''Artifact escaped Attempt bundle'')
        else ebind (engine_sha256_file rt canonical) (\<lambda>digest.
         if digest \<noteq> art_digest artifact \<or> pk_len metadata \<noteq> art_byte_length artifact
         then efail (artifact_conflict ''Artifact digest or byte length changed'')
         else ebind (read_utf8_range rt canonical (aq_offset request) (aq_max_bytes request) (art_byte_length artifact)
                       True ''offset'' ''maxBytes'' ''Artifact'') (\<lambda>range.
           eret \<lparr>as_job_id = aq_job_id request, as_artifact_id = aq_artifact_id request, as_content = tr_content range,
                 as_offset = aq_offset request, as_next_offset = tr_next_offset range,
                 as_eof = (tr_next_offset range \<ge> art_byte_length artifact), as_digest = art_digest artifact\<rparr>))))))))"

end
