(* ===== verification/Engine_Logic.thy ===== *)
theory Engine_Logic
  imports Engine_Operations Registry_Guarantees
begin

text \<open>
  Reasoning about engine programs.  A program keeps a relation between the state it starts from and
  every state it can end in, whether it returns or fails.  The rules for the constructs of the engine
  are the collection \<open>keeps\<close>; the locales say what a relation has to contain so that the programs of
  the engine keep it, in five layers: the programs that only ask and write evidence; those that commit;
  the deadline of a Windows launcher; the dispatch; the cancellation.
\<close>

named_theorems keeps \<open>programs that keep a relation\<close>

definition keeps :: "(engine_state \<Rightarrow> engine_state \<Rightarrow> bool) \<Rightarrow> 'a engine \<Rightarrow> bool" where
  "keeps R m \<longleftrightarrow> (\<forall>s. R s (snd (m s)))"

lemma keepsI: "(\<And>s. R s (snd (m s))) \<Longrightarrow> keeps R m"
  by (simp add: keeps_def)

lemma keepsD: "keeps R m \<Longrightarrow> m s = (x, t) \<Longrightarrow> R s t"
  unfolding keeps_def by (metis snd_conv)

lemma keeps_if [keeps]: "(b \<Longrightarrow> keeps R m) \<Longrightarrow> (\<not> b \<Longrightarrow> keeps R n) \<Longrightarrow> keeps R (if b then m else n)"
  by simp

lemma keeps_Let [keeps]: "keeps R (f x) \<Longrightarrow> keeps R (Let x f)"
  by simp

lemma keeps_option [keeps]:
  "(x = None \<Longrightarrow> keeps R m) \<Longrightarrow> (\<And>y. x = Some y \<Longrightarrow> keeps R (f y)) \<Longrightarrow> keeps R (case x of None \<Rightarrow> m | Some y \<Rightarrow> f y)"
  by (cases x) simp_all

lemma keeps_prod [keeps]: "(\<And>a b. x = (a, b) \<Longrightarrow> keeps R (f a b)) \<Longrightarrow> keeps R (case x of (a, b) \<Rightarrow> f a b)"
  by (cases x) simp

lemma keeps_sum [keeps]:
  "(\<And>y. x = Inl y \<Longrightarrow> keeps R (f y)) \<Longrightarrow> (\<And>y. x = Inr y \<Longrightarrow> keeps R (g y)) \<Longrightarrow> keeps R (case x of Inl y \<Rightarrow> f y | Inr y \<Rightarrow> g y)"
  by (cases x) simp_all

lemma keeps_list [keeps]:
  "keeps R m \<Longrightarrow> (\<And>y ys. keeps R (f y ys)) \<Longrightarrow> keeps R (case xs of [] \<Rightarrow> m | y # ys \<Rightarrow> f y ys)"
  by (cases xs) simp_all

lemma keeps_nat [keeps]: "keeps R m \<Longrightarrow> (\<And>k. n = Suc k \<Longrightarrow> keeps R (f k)) \<Longrightarrow> keeps R (case n of 0 \<Rightarrow> m | Suc k \<Rightarrow> f k)"
  by (cases n) simp_all

lemma keeps_target [keeps]:
  "keeps R m \<Longrightarrow> keeps R n \<Longrightarrow> keeps R (case target of LocalLinux \<Rightarrow> m | WindowsNative \<Rightarrow> n)"
  by (cases target) simp_all

lemma keeps_intent [keeps]:
  "(intent = Natural \<Longrightarrow> keeps R a) \<Longrightarrow> (intent = StopRequested \<Longrightarrow> keeps R b) \<Longrightarrow> (intent = DeadlineExceeded \<Longrightarrow> keeps R c) \<Longrightarrow>
   keeps R (case intent of Natural \<Rightarrow> a | StopRequested \<Rightarrow> b | DeadlineExceeded \<Rightarrow> c)"
  by (cases intent) simp_all

lemma keeps_disposition [keeps]:
  "keeps R a \<Longrightarrow> (\<And>s. keeps R (b s)) \<Longrightarrow> keeps R c \<Longrightarrow> (\<And>reason. keeps R (d reason)) \<Longrightarrow>
   keeps R (case x of RecRunning \<Rightarrow> a | RecTerminal s \<Rightarrow> b s | RecLost \<Rightarrow> c | RecOrphaned reason \<Rightarrow> d reason)"
  by (cases x) simp_all

lemma keeps_termination [keeps]:
  "keeps R a \<Longrightarrow> keeps R b \<Longrightarrow> keeps R c \<Longrightarrow>
   keeps R (case x of OwnerTerminated \<Rightarrow> a | OwnerAlreadyAbsent \<Rightarrow> b | OwnerIdentityMismatch \<Rightarrow> c)"
  by (cases x) simp_all

lemma keeps_owner [keeps]:
  "(\<And>a b c d e. keeps R (f a b c d e)) \<Longrightarrow> keeps R (case x of WindowsLauncherV1 a b c d e \<Rightarrow> f a b c d e)"
  by (cases x) simp_all

lemma keeps_resolution [keeps]:
  "keeps R a \<Longrightarrow> keeps R b \<Longrightarrow> keeps R (case x of ResOrphaned \<Rightarrow> a | _ \<Rightarrow> b)"
  by (cases x) simp_all

section \<open>Programs that ask, write evidence and commit\<close>

locale engine_asks =
  fixes rt :: runtime and R :: "engine_state \<Rightarrow> engine_state \<Rightarrow> bool"
  assumes R_refl: "R s s"
    and R_trans: "R s t \<Longrightarrow> R t u \<Longrightarrow> R s u"
    and R_tick: "R s (advance rt s)"
begin

lemma eret_keeps [keeps]: "keeps R (eret x)"
  by (simp add: keeps_def eret_def R_refl)

lemma efail_keeps [keeps]: "keeps R (efail e)"
  by (simp add: keeps_def efail_def R_refl)

lemma elift_keeps [keeps]: "keeps R (elift r)"
  by (simp add: keeps_def elift_def R_refl)

lemma ebind_keeps [keeps]:
  assumes "keeps R m" and "\<And>x. keeps R (f x)"
  shows "keeps R (ebind m f)"
proof (rule keepsI)
  fix s
  obtain r t where m: "m s = (r, t)" by fastforce
  have "R s t" by (rule keepsD[OF assms(1) m])
  then show "R s (snd (ebind m f s))"
    using assms(2) R_trans by (cases r) (auto simp: ebind_def m keeps_def)
qed

lemma ematch_keeps [keeps]:
  assumes "keeps R m" and "\<And>e. keeps R (handler e)" and "\<And>x. keeps R (f x)"
  shows "keeps R (ematch m handler f)"
proof (rule keepsI)
  fix s
  obtain r t where m: "m s = (r, t)" by fastforce
  have "R s t" by (rule keepsD[OF assms(1) m])
  then show "R s (snd (ematch m handler f s))"
    using assms(2,3) R_trans by (cases r) (auto simp: ematch_def m keeps_def)
qed

lemma ewhen_keeps [keeps]: "(b \<Longrightarrow> keeps R m) \<Longrightarrow> keeps R (ewhen b m)"
  unfolding ewhen_def by (intro keeps)

lemma ask_keeps [keeps]: "keeps R (ask rt q)"
  by (simp add: keeps_def ask_def R_tick)

lemma ask_result_keeps [keeps]: "keeps R (ask_result rt q)"
  by (simp add: keeps_def ask_result_def R_tick)

lemma registry_read_keeps [keeps]: "keeps R (registry_read rt q)"
  by (simp add: keeps_def registry_read_def Let_def R_tick)

lemma engine_now_ms_keeps [keeps]: "keeps R (engine_now_ms rt)"
  unfolding engine_now_ms_def by (intro keeps)

lemma path_exists_keeps [keeps]: "keeps R (path_exists rt path)"
  unfolding path_exists_def by (intro keeps)

lemma path_is_file_keeps [keeps]: "keeps R (path_is_file rt path)"
  unfolding path_is_file_def by (intro keeps)

lemma read_file_keeps [keeps]: "keeps R (read_file rt context path)"
  unfolding read_file_def by (intro keeps)

lemma file_len_keeps [keeps]: "keeps R (file_len rt context path)"
  unfolding file_len_def by (intro keeps)

lemma engine_sha256_file_keeps [keeps]: "keeps R (engine_sha256_file rt path)"
  unfolding engine_sha256_file_def by (intro keeps)

lemma write_atomic_keeps [keeps]: "keeps R (write_atomic rt path bytes)"
  unfolding write_atomic_def by (intro keeps)

lemma get_attempt_now_keeps [keeps]: "keeps R (get_attempt_now rt k)"
  unfolding get_attempt_now_def by (intro keeps)

lemma execution_plan_now_keeps [keeps]: "keeps R (execution_plan_now rt k)"
  unfolding execution_plan_now_def by (intro keeps)

lemma supervisor_owner_now_keeps [keeps]: "keeps R (supervisor_owner_now rt k)"
  unfolding supervisor_owner_now_def by (intro keeps)

lemma job_snapshot_now_keeps [keeps]: "keeps R (job_snapshot_now rt k)"
  unfolding job_snapshot_now_def by (intro keeps)

lemma result_exists_keeps [keeps]: "keeps R (result_exists rt a)"
  unfolding result_exists_def by (intro keeps)

lemma result_is_file_keeps [keeps]: "keeps R (result_is_file rt a)"
  unfolding result_is_file_def by (intro keeps)

lemma read_utf8_range_keeps [keeps]: "keeps R (read_utf8_range rt path offset n available terminal f g context)"
  unfolding read_utf8_range_def by (intro keeps)

lemma read_tail_text_keeps [keeps]: "keeps R (read_tail_text rt path n)"
  unfolding read_tail_text_def by (intro keeps)

lemma read_output_text_keeps [keeps]: "keeps R (read_output_text rt path offset n terminal f g)"
  unfolding read_output_text_def by (intro keeps)

lemma systemctl_show_keeps [keeps]: "keeps R (systemctl_show rt u)"
  unfolding systemctl_show_def by (intro keeps)

lemma process_identity_keeps [keeps]: "keeps R (process_identity rt pid)"
  unfolding process_identity_def by (intro keeps)

lemma opt_process_identity_keeps [keeps]: "keeps R (opt_process_identity rt pid)"
  unfolding opt_process_identity_def by (intro keeps)

lemma recorded_pid_alive_keeps [keeps]: "keeps R (recorded_pid_alive rt a)"
  unfolding recorded_pid_alive_def by (intro keeps)

lemma read_text_keeps [keeps]: "keeps R (read_text rt context path)"
  unfolding read_text_def by (intro keeps)

lemma cgroup_has_processes_keeps [keeps]: "keeps R (cgroup_has_processes rt g)"
  unfolding cgroup_has_processes_def by (intro keeps)

lemma opt_cgroup_has_processes_keeps [keeps]: "keeps R (opt_cgroup_has_processes rt g)"
  unfolding opt_cgroup_has_processes_def by (intro keeps)

lemma attempt_process_tree_alive_keeps [keeps]: "keeps R (attempt_process_tree_alive rt a)"
  unfolding attempt_process_tree_alive_def by (intro keeps)

lemma terminal_process_tree_alive_keeps [keeps]: "keeps R (terminal_process_tree_alive rt a)"
  unfolding terminal_process_tree_alive_def by (intro keeps)

lemma launch_identity_mismatch_cancel_target_absent_keeps [keeps]: "keeps R (launch_identity_mismatch_cancel_target_absent rt a)"
  unfolding launch_identity_mismatch_cancel_target_absent_def by (intro keeps)

lemma observe_linux_process_owner_keeps [keeps]: "keeps R (observe_linux_process_owner rt a)"
  unfolding observe_linux_process_owner_def by (intro keeps)

lemma validate_captured_output_keeps [keeps]: "keeps R (validate_captured_output rt a out b)"
  unfolding validate_captured_output_def by (intro keeps)

lemma prepare_runner_terminal_from_bundle_keeps [keeps]: "keeps R (prepare_runner_terminal_from_bundle rt a)"
  unfolding prepare_runner_terminal_from_bundle_def by (intro keeps)

lemma tree_check_keeps [keeps]: "keeps R m \<Longrightarrow> keeps R (tree_check rt a m)"
  unfolding tree_check_def by (intro keeps)

lemma tree_poll_keeps [keeps]: "keeps R (tree_poll rt a n)"
  by (induction n) (simp_all add: keeps)

lemma observe_terminal_process_tree_keeps [keeps]: "keeps R (observe_terminal_process_tree rt a)"
  unfolding observe_terminal_process_tree_def by (intro keeps)

lemma append_terminal_evidence_with_observation_keeps [keeps]: "keeps R (append_terminal_evidence_with_observation rt a c obs)"
  unfolding append_terminal_evidence_with_observation_def by (intro keeps)

lemma append_terminal_evidence_keeps [keeps]: "keeps R (append_terminal_evidence rt a c)"
  unfolding append_terminal_evidence_def by (intro keeps)

lemma eforeach_keeps [keeps]: "(\<And>x. keeps R (f x)) \<Longrightarrow> keeps R (eforeach f xs)"
  by (induction xs) (simp_all, (intro keeps; assumption?)+)

lemma create_dir_all_keeps [keeps]: "keeps R (create_dir_all rt c path)"
  unfolding create_dir_all_def by (intro keeps)

lemma get_job_now_keeps [keeps]: "keeps R (get_job_now rt k)"
  unfolding get_job_now_def by (intro keeps)

end

text \<open>The relation also contains the steps of the registry and the release of a finished unit.\<close>

locale engine_moves = engine_asks rt R for rt :: runtime and cfg :: RegistryConfig and R :: "engine_state \<Rightarrow> engine_state \<Rightarrow> bool" +
  assumes R_registry: "registry_step (rt_host rt) cfg (es_db s) db' \<Longrightarrow> R s (s\<lparr>es_db := db'\<rparr>)"
    and R_release: "keeps R (emit (ReleaseUnit name))"
begin

lemma registry_op_keeps:
  assumes "\<And>env db. registry_step (rt_host rt) cfg db (snd (operation env db))"
  shows "keeps R (registry_op rt operation)"
proof (rule keepsI)
  fix s
  show "R s (snd (registry_op rt operation s))"
    unfolding registry_op_def Let_def snd_conv by (rule R_trans[OF R_tick R_registry[OF assms]])
qed

lemma release_receipt_json_keeps [keeps]: "keeps R (release_receipt_json rt path)"
  unfolding release_receipt_json_def by (intro keeps)

lemma inspect_runtime_release_receipt_keeps [keeps]: "keeps R (inspect_runtime_release_receipt rt binding snapshot)"
  unfolding inspect_runtime_release_receipt_def by (intro keeps)

lemma load_runner_progress_if_present_keeps [keeps]: "keeps R (load_runner_progress_if_present rt a)"
  unfolding load_runner_progress_if_present_def by (intro keeps)

lemma load_runner_result_if_present_keeps [keeps]: "keeps R (load_runner_result_if_present rt a)"
  unfolding load_runner_result_if_present_def by (intro keeps)

lemma load_control_error_summary_if_present_keeps [keeps]: "keeps R (load_control_error_summary_if_present rt a)"
  unfolding load_control_error_summary_if_present_def by (intro keeps)

lemma file_length_if_present_keeps [keeps]: "keeps R (file_length_if_present rt path)"
  unfolding file_length_if_present_def by (intro keeps)

lemma modified_if_written_keeps [keeps]: "keeps R (modified_if_written rt path)"
  unfolding modified_if_written_def by (intro keeps)

lemma latest_output_modified_ms_keeps [keeps]: "keeps R (latest_output_modified_ms rt a)"
  unfolding latest_output_modified_ms_def by (intro keeps)

lemma job_activity_signature_keeps [keeps]: "keeps R (job_activity_signature rt a p)"
  unfolding job_activity_signature_def by (intro keeps)

lemma opt_engine_keeps [keeps]: "(\<And>y. keeps R (f y)) \<Longrightarrow> keeps R (opt_engine f x)"
  unfolding opt_engine_def by (intro keeps)

lemma observed_output_keeps [keeps]: "keeps R (observed_output rt k a t res c q)"
  unfolding observed_output_def by (intro keeps)

lemma observation_from_parts_keeps [keeps]: "keeps R (observation_from_parts rt p a l q)"
  unfolding observation_from_parts_def by (intro keeps)

lemma observation_from_snapshot_keeps [keeps]: "keeps R (observation_from_snapshot rt sn q)"
  unfolding observation_from_snapshot_def by (intro keeps)

lemma observation_from_registry_keeps [keeps]: "keeps R (observation_from_registry rt k n m)"
  unfolding observation_from_registry_def by (intro keeps)

lemma require_windows_keeps [keeps]: "keeps R (require_windows rt msg)"
  unfolding require_windows_def by (intro keeps)

lemma execution_provider_now_keeps [keeps]: "keeps R (execution_provider_now rt k)"
  unfolding execution_provider_now_def by (intro keeps)

lemma committed_windows_provider_keeps [keeps]: "keeps R (committed_windows_provider rt a)"
  unfolding committed_windows_provider_def by (intro keeps)

lemma unchanged_digest_keeps [keeps]: "keeps R (unchanged_digest rt path bytes e)"
  unfolding unchanged_digest_def by (intro keeps)

lemma validate_windows_launcher_start_evidence_keeps [keeps]: "keeps R (validate_windows_launcher_start_evidence rt a)"
  unfolding validate_windows_launcher_start_evidence_def by (intro keeps)

lemma validate_windows_start_evidence_keeps [keeps]: "keeps R (validate_windows_start_evidence rt a)"
  unfolding validate_windows_start_evidence_def by (intro keeps)

lemma bind_owner_keeps [keeps]: "keeps R (bind_owner rt a owner at)"
  unfolding bind_owner_def by (rule registry_op_keeps rs_bind_owner)+

lemma bind_windows_start_keeps [keeps]: "keeps R (bind_windows_start rt a)"
  unfolding bind_windows_start_def by (intro keeps)

lemma observed_runner_matches_keeps [keeps]: "keeps R (observed_runner_matches rt p ev pid ident)"
  unfolding observed_runner_matches_def by (intro keeps)

lemma bind_running_now_keeps [keeps]: "keeps R (registry_op rt (\<lambda>env db. bind_running (rt_host rt) env db k ver identity))"
  by (rule registry_op_keeps rs_bind_running)+

lemma bind_runner_start_keeps [keeps]: "keeps R (bind_runner_start rt a)"
  unfolding bind_runner_start_def by (intro keeps)

lemma bind_attempt_start_keeps [keeps]: "keeps R (bind_attempt_start rt a target)"
  unfolding bind_attempt_start_def by (intro keeps)

lemma release_unit_keeps [keeps]: "keeps R (emit (ReleaseUnit name))"
  by (rule R_release)

lemma release_terminal_unit_keeps [keeps]: "keeps R (release_terminal_unit rt u n)"
proof (induction n)
  case 0
  show ?case by (subst release_terminal_unit.simps, intro keeps) simp
next
  case (Suc n)
  then show ?case by - (subst release_terminal_unit.simps, intro keeps, simp)
qed

lemma release_attempt_supervisor_keeps [keeps]: "keeps R (release_attempt_supervisor rt a)"
  unfolding release_attempt_supervisor_def by (intro keeps)

lemma orphan_process_tree_alive_keeps [keeps]: "keeps R (orphan_process_tree_alive rt a)"
  unfolding orphan_process_tree_alive_def by (intro keeps)

lemma prepare_runner_terminal_keeps [keeps]: "keeps R (prepare_runner_terminal rt a)"
  unfolding prepare_runner_terminal_def by (intro keeps)

lemma commit_terminal_now_keeps [keeps]: "keeps R (commit_terminal_now rt c)"
  unfolding commit_terminal_now_def by (rule registry_op_keeps rs_terminal)+

lemma recover_orphaned_terminal_now_keeps [keeps]: "keeps R (recover_orphaned_terminal_now rt c)"
  unfolding recover_orphaned_terminal_now_def by (rule registry_op_keeps rs_recover)+

lemma recover_orphaned_runner_result_keeps [keeps]: "keeps R (recover_orphaned_runner_result rt a)"
  unfolding recover_orphaned_runner_result_def by (intro keeps)

lemma output_artifact_keeps [keeps]: "keeps R (output_artifact rt a c f k)"
  unfolding output_artifact_def by (intro keeps)

lemma output_artifacts_keeps [keeps]: "keeps R (output_artifacts rt a c w)"
  unfolding output_artifacts_def by (intro keeps)

lemma resolve_absent_orphan_keeps [keeps]: "keeps R (resolve_absent_orphan rt a st c)"
  unfolding resolve_absent_orphan_def by (intro keeps)

lemma commit_observed_control_terminal_keeps [keeps]: "keeps R (commit_observed_control_terminal rt a st c d ob)"
  unfolding commit_observed_control_terminal_def by (intro keeps)

lemma commit_control_terminal_keeps [keeps]: "keeps R (commit_control_terminal rt a st c d)"
  unfolding commit_control_terminal_def by (intro keeps)

lemma commit_runner_turn_keeps [keeps]: "(\<And>e. keeps R (again e)) \<Longrightarrow> keeps R (commit_runner_turn rt a again)"
  unfolding commit_runner_turn_def by (intro keeps)

lemma commit_runner_result_keeps [keeps]: "keeps R (commit_runner_result rt a)"
  unfolding commit_runner_result_def by (intro keeps)

lemma reconcile_runner_result_keeps [keeps]: "keeps R (reconcile_runner_result rt a)"
  unfolding reconcile_runner_result_def by (intro keeps)

lemma reconcile_starting_linux_keeps [keeps]: "keeps R (reconcile_starting_linux rt a)"
  unfolding reconcile_starting_linux_def by (intro keeps)

lemma then_unit_keeps [keeps]: "keeps R m \<Longrightarrow> keeps R (then_unit m)"
  unfolding then_unit_def by (intro keeps)

lemma deadline_after_termination_keeps [keeps]: "keeps R (deadline_after_termination rt a d)"
  unfolding deadline_after_termination_def by (intro keeps)

lemma request_deadline_now_keeps [keeps]: "keeps R (request_deadline_now rt k at)"
  unfolding request_deadline_now_def by (rule registry_op_keeps rs_deadline)+

lemma native_unbound_stopping_now_keeps [keeps]: "keeps R (native_unbound_stopping_now rt a plan)"
  unfolding native_unbound_stopping_now_def by (intro keeps)

lemma after_transient_loss_keeps [keeps]: "(\<And>c. keeps R (undecided c)) \<Longrightarrow> keeps R (after_transient_loss rt a undecided)"
  unfolding after_transient_loss_def by (intro keeps)

lemma validate_runner_keeps [keeps]: "keeps R (validate_runner rt path)"
  unfolding validate_runner_def by (intro keeps)

lemma configured_runner_keeps [keeps]: "keeps R (configured_runner rt)"
  unfolding configured_runner_def by (intro keeps)

lemma current_execution_provider_snapshot_keeps [keeps]: "keeps R (current_execution_provider_snapshot rt target)"
  unfolding current_execution_provider_snapshot_def by (intro keeps)

lemma verify_committed_execution_provider_keeps [keeps]: "keeps R (verify_committed_execution_provider rt k)"
  unfolding verify_committed_execution_provider_def by (intro keeps)

lemma verify_host_dependency_keeps [keeps]: "keeps R (verify_host_dependency rt b)"
  unfolding verify_host_dependency_def by (intro keeps)

lemma host_dependencies_now_keeps [keeps]: "keeps R (host_dependencies_now rt k)"
  unfolding host_dependencies_now_def by (intro keeps)

lemma verify_committed_host_dependencies_keeps [keeps]: "keeps R (verify_committed_host_dependencies rt k)"
  unfolding verify_committed_host_dependencies_def by (intro keeps)

lemma scan_directory_keeps [keeps]: "keeps R (scan_directory rt c path)"
  unfolding scan_directory_def by (intro keeps)

lemma collect_entries_keeps [keeps]: "(\<And>p. keeps R (descend p)) \<Longrightarrow> keeps R (collect_entries rt root descend cur es)"
  by (induction es) (simp_all, (intro keeps; assumption?)+)

lemma collect_materialized_files_keeps [keeps]: "keeps R (collect_materialized_files n rt root cur)"
  by (induction n arbitrary: cur) (simp_all, (intro keeps; assumption?)+)

lemma verify_inputs_loop_keeps [keeps]: "keeps R (verify_inputs_loop rt root i xs)"
  by (induction xs arbitrary: i) (simp_all, (intro keeps; assumption?)+)

lemma verify_effective_input_set_keeps [keeps]: "keeps R (verify_effective_input_set rt root xs)"
  unfolding verify_effective_input_set_def by (intro keeps)

lemma sync_directory_keeps [keeps]: "keeps R (sync_directory rt path)"
  unfolding sync_directory_def by (intro keeps)

lemma durable_runtime_rename_keeps [keeps]: "keeps R (durable_runtime_rename rt a b c)"
  unfolding durable_runtime_rename_def by (intro keeps)

lemma discard_prepared_set_keeps [keeps]: "keeps R (discard_prepared_set rt c path)"
  unfolding discard_prepared_set_def by (intro keeps)

lemma discard_prepared_input_set_keeps [keeps]: "keeps R (discard_prepared_input_set rt path)"
  unfolding discard_prepared_input_set_def by (intro keeps)

lemma discard_prepared_credential_set_keeps [keeps]: "keeps R (discard_prepared_credential_set rt path)"
  unfolding discard_prepared_credential_set_def by (intro keeps)

lemma adopt_prepared_set_keeps [keeps]:
  "(\<And>p. keeps R (verify p)) \<Longrightarrow> (\<And>p. keeps R (discard p)) \<Longrightarrow> keeps R (adopt_prepared_set rt o' p' verify discard e c)"
  unfolding adopt_prepared_set_def by (intro keeps)

lemma ensure_job_input_ownership_keeps [keeps]: "keeps R (ensure_job_input_ownership rt k)"
  unfolding ensure_job_input_ownership_def by (intro keeps)

lemma inspect_credential_entries_keeps [keeps]: "keeps R (inspect_credential_entries rt root es)"
  by (induction es) (simp_all, (intro keeps; assumption?)+)

lemma inspect_credential_snapshot_keeps [keeps]: "keeps R (inspect_credential_snapshot rt root)"
  unfolding inspect_credential_snapshot_def by (intro keeps)

lemma verify_credential_snapshot_keeps [keeps]: "keeps R (verify_credential_snapshot rt root d)"
  unfolding verify_credential_snapshot_def by (intro keeps)

lemma ensure_job_credential_ownership_keeps [keeps]: "keeps R (ensure_job_credential_ownership rt k)"
  unfolding ensure_job_credential_ownership_def by (intro keeps)

lemma verify_bundle_file_keeps [keeps]: "keeps R (verify_bundle_file rt p nm)"
  unfolding verify_bundle_file_def by (intro keeps)

lemma verify_published_bundle_keeps [keeps]: "keeps R (verify_published_bundle rt p c)"
  unfolding verify_published_bundle_def by (intro keeps)

lemma write_bytes_synced_keeps [keeps]: "keeps R (write_bytes_synced rt p b)"
  unfolding write_bytes_synced_def by (intro keeps)

lemma publish_staging_keeps [keeps]: "keeps R (publish_staging rt st p c)"
  unfolding publish_staging_def by (intro keeps)

lemma publish_bundle_keeps [keeps]: "keeps R (publish_bundle rt a c)"
  unfolding publish_bundle_def by (intro keeps)

lemma mark_bundle_ready_now_keeps [keeps]: "keeps R (mark_bundle_ready_now rt a d at)"
  unfolding mark_bundle_ready_now_def by (rule registry_op_keeps rs_bundle_ready)+

lemma materialize_bundle_keeps [keeps]: "keeps R (materialize_bundle rt a)"
  unfolding materialize_bundle_def by (intro keeps)

lemma committed_input_set_keeps [keeps]: "keeps R (committed_input_set rt a plan)"
  unfolding committed_input_set_def by (intro keeps)

lemma committed_credentials_keeps [keeps]: "keeps R (committed_credentials rt a plan)"
  unfolding committed_credentials_def by (intro keeps)

lemma runner_start_failed_keeps [keeps]: "keeps R (runner_start_failed rt a d)"
  unfolding runner_start_failed_def by (intro keeps)

lemma bind_native_windows_dispatch_owner_keeps [keeps]: "keeps R (bind_native_windows_dispatch_owner rt a d)"
  unfolding bind_native_windows_dispatch_owner_def by (intro keeps)

lemma mark_dispatch_issued_now_keeps [keeps]: "keeps R (mark_dispatch_issued_now rt a at)"
  unfolding mark_dispatch_issued_now_def by (rule registry_op_keeps rs_dispatch)+

lemma canonical_directory_keeps [keeps]: "keeps R (canonical_directory rt p f)"
  unfolding canonical_directory_def by (intro keeps)

lemma get_latest_attempt_now_keeps [keeps]: "keeps R (get_latest_attempt_now rt k)"
  unfolding get_latest_attempt_now_def by (intro keeps)

lemma materialized_attempt_keeps [keeps]: "keeps R (materialized_attempt rt a)"
  unfolding materialized_attempt_def by (intro keeps)

lemma checked_precondition_keeps [keeps]:
  "keeps R check \<Longrightarrow> keeps R continue \<Longrightarrow> keeps R (checked_precondition rt a check drift c continue)"
  unfolding checked_precondition_def by (intro keeps)

lemma old_enough_keeps [keeps]: "keeps R (old_enough rt n p)"
  unfolding old_enough_def by (intro keeps)

lemma lstat_keeps [keeps]: "keeps R (lstat rt c p)"
  unfolding lstat_def by (intro keeps)

lemma eignore_keeps [keeps]: "keeps R m \<Longrightarrow> keeps R (eignore m)"
  unfolding eignore_def by (intro keeps)

lemma job_directory_entry_keeps [keeps]:
  "(\<And>n p. keeps R (handle n p)) \<Longrightarrow> keeps R (job_directory_entry rt root c d handle e)"
  unfolding job_directory_entry_def by (intro keeps)

lemma each_job_directory_keeps [keeps]:
  "(\<And>n p. keeps R (handle n p)) \<Longrightarrow> keeps R (each_job_directory rt root b c d handle)"
  unfolding each_job_directory_def by (intro keeps)

lemma unowned_job_keeps [keeps]: "keeps R m \<Longrightarrow> keeps R (unowned_job rt n p m e)"
  unfolding unowned_job_def by (intro keeps)

lemma remove_staging_entry_keeps [keeps]: "keeps R (remove_staging_entry rt k root pre e)"
  unfolding remove_staging_entry_def by (intro keeps)

lemma staging_lease_entry_keeps [keeps]: "keeps R (staging_lease_entry rt k root n e)"
  unfolding staging_lease_entry_def by (intro keeps)

lemma collect_staging_leases_keeps [keeps]: "keeps R (collect_staging_leases rt k root n)"
  unfolding collect_staging_leases_def by (intro keeps)

lemma prepared_input_entry_keeps [keeps]: "keeps R (prepared_input_entry rt n k p)"
  unfolding prepared_input_entry_def by (intro keeps)

lemma reconcile_prepared_input_sets_keeps [keeps]: "keeps R (reconcile_prepared_input_sets rt n)"
  unfolding reconcile_prepared_input_sets_def by (intro keeps)

lemma prepared_credential_entry_keeps [keeps]: "keeps R (prepared_credential_entry rt n k p)"
  unfolding prepared_credential_entry_def by (intro keeps)

lemma retire_credentials_keeps [keeps]: "keeps R (retire_credentials rt c o' p)"
  unfolding retire_credentials_def by (intro keeps)

lemma owned_credential_entry_keeps [keeps]: "keeps R (owned_credential_entry rt n o' k p)"
  unfolding owned_credential_entry_def by (intro keeps)

lemma reconcile_prepared_credential_sets_keeps [keeps]: "keeps R (reconcile_prepared_credential_sets rt n)"
  unfolding reconcile_prepared_credential_sets_def by (intro keeps)

lemma release_effect_now_keeps [keeps]: "keeps R (release_effect_now rt k)"
  unfolding release_effect_now_def by (intro keeps)

lemma recover_deployed_release_keeps [keeps]: "keeps R (recover_deployed_release rt a)"
  unfolding recover_deployed_release_def by (intro keeps)

lemma reconcile_orphaned_attempt_keeps [keeps]: "keeps R (reconcile_orphaned_attempt rt a)"
  unfolding reconcile_orphaned_attempt_def by (intro keeps)

lemma record_isolated_reconciliation_failure_keeps [keeps]:
  "keeps R (record_isolated_reconciliation_failure rt a e report)"
proof -
  have [keeps]: "keeps R (registry_op rt (\<lambda>env db. record_reconciliation_failure (rt_host rt) env db a e now))" for now
    by (rule registry_op_keeps rs_record_failure)+
  show ?thesis unfolding record_isolated_reconciliation_failure_def by (intro keeps)
qed

lemma clear_failure_now_keeps [keeps]:
  "keeps R (registry_op rt (\<lambda>env db. clear_reconciliation_failure (rt_host rt) env db k now))"
  by (rule registry_op_keeps rs_clear_failure)+

lemma converge_now_keeps [keeps]:
  "keeps R (registry_op rt (\<lambda>env db. converge_terminal_reservation (rt_host rt) env db k now))"
  by (rule registry_op_keeps rs_converge)+

lemma request_cancel_op_keeps [keeps]: "keeps R (registry_op rt (\<lambda>env db. request_cancel (rt_host rt) env db k now))"
  by (rule registry_op_keeps rs_cancel)+

lemma request_cancel_now_keeps [keeps]: "keeps R (request_cancel_now rt k)"
  unfolding request_cancel_now_def by (intro keeps)

lemma cancelled_control_terminal_keeps [keeps]: "keeps R (cancelled_control_terminal rt a d)"
  unfolding cancelled_control_terminal_def by (intro keeps)

lemma cancel_orphan_keeps [keeps]: "keeps R (cancel_orphan rt k a)"
  unfolding cancel_orphan_def by (intro keeps)

lemma cancel_linux_loop_keeps [keeps]: "keeps R (cancel_linux_loop rt a out n)"
proof (induction n)
  case 0
  show ?case by (subst cancel_linux_loop.simps, intro keeps) simp
next
  case (Suc n)
  then show ?case by - (subst cancel_linux_loop.simps, intro keeps, simp)
qed

lemma native_turn_keeps [keeps]: "keeps R m \<Longrightarrow> keeps R n \<Longrightarrow> keeps R (native_turn rt plan a m n)"
  unfolding native_turn_def by (intro keeps)

lemma cancel_native_loop_keeps [keeps]: "keeps R (cancel_native_loop rt plan a n turns)"
proof (induction turns arbitrary: n)
  case (Suc turns)
  show ?case unfolding cancel_native_loop.simps by (intro keeps Suc.IH)
qed (simp add: keeps)

lemma read_artifact_keeps [keeps]: "keeps R (read_artifact rt q)"
  unfolding read_artifact_def by (intro keeps)

end

section \<open>The deadline of a Windows launcher\<close>

locale engine_deadline = engine_moves +
  assumes R_deadline: "keeps R (enforce_native_windows_outer_deadline rt a plan at pid creation pre)"
begin

lemma enforce_deadline_keeps [keeps]: "keeps R (enforce_native_windows_outer_deadline rt a plan at pid creation pre)"
  by (rule R_deadline)

lemma reconcile_native_starting_without_target_evidence_keeps [keeps]: "keeps R (reconcile_native_starting_without_target_evidence rt a)"
  unfolding reconcile_native_starting_without_target_evidence_def by (intro keeps)

lemma reconcile_starting_without_token_keeps [keeps]: "keeps R (reconcile_starting_without_token rt a)"
  unfolding reconcile_starting_without_token_def by (intro keeps)

lemma reconcile_provider_owned_attempt_keeps [keeps]: "keeps R (reconcile_provider_owned_attempt rt a plan w)"
  unfolding reconcile_provider_owned_attempt_def by (intro keeps)

lemma reconcile_bound_attempt_keeps [keeps]: "keeps R (reconcile_bound_attempt rt a)"
  unfolding reconcile_bound_attempt_def by (intro keeps)

lemma bind_unbound_start_keeps [keeps]: "keeps R (bind_unbound_start rt a target b)"
  unfolding bind_unbound_start_def by (intro keeps)

lemma reconcile_attempt_keeps [keeps]: "keeps R (reconcile_attempt rt k)"
  unfolding reconcile_attempt_def by (intro keeps)

lemma await_start_loop_keeps [keeps]: "keeps R (await_start_loop rt a target n)"
proof (induction n)
  case 0
  show ?case by (subst await_start_loop.simps, intro keeps) simp_all
next
  case (Suc n)
  then show ?case by - (subst await_start_loop.simps, intro keeps, simp_all)
qed

lemma await_launch_evidence_keeps [keeps]: "keeps R (await_launch_evidence rt a)"
  unfolding await_launch_evidence_def by (intro keeps)

lemma cancel_native_windows_attempt_keeps [keeps]: "keeps R (cancel_native_windows_attempt turns rt k a)"
  unfolding cancel_native_windows_attempt_def by (intro keeps)

end

section \<open>The dispatch\<close>

locale engine_dispatch = engine_deadline +
  assumes R_dispatch: "keeps R (dispatch_attempt rt a)"
begin

lemma dispatch_attempt_keeps [keeps]: "keeps R (dispatch_attempt rt a)"
  by (rule R_dispatch)

lemma dispatch_materialized_keeps [keeps]: "keeps R (dispatch_materialized rt a)"
  unfolding dispatch_materialized_def by (intro keeps)

lemma ensure_attempt_dispatched_keeps [keeps]: "keeps R (ensure_attempt_dispatched rt a)"
  unfolding ensure_attempt_dispatched_def by (intro keeps)

lemma ensure_newly_admitted_job_dispatched_keeps [keeps]: "keeps R (ensure_newly_admitted_job_dispatched rt k)"
  unfolding ensure_newly_admitted_job_dispatched_def by (intro keeps)

lemma reconcile_job_keeps [keeps]: "keeps R (reconcile_job rt k)"
  unfolding reconcile_job_def by (intro keeps)

lemma reconcile_one_keeps [keeps]: "keeps R (reconcile_one rt a)"
  unfolding reconcile_one_def by (intro keeps)

lemma reconcile_candidate_into_keeps [keeps]: "keeps R (reconcile_candidate_into rt a report)"
  unfolding reconcile_candidate_into_def by (intro keeps)

lemma reconcile_candidates_into_keeps [keeps]: "keeps R (reconcile_candidates_into rt xs report)"
  by (induction xs arbitrary: report) (simp_all, (intro keeps; assumption?)+)

lemma reconcile_workspace_keeps [keeps]: "keeps R (reconcile_workspace rt w)"
  unfolding reconcile_workspace_def by (intro keeps)

lemma reconcile_maintenance_batch_keeps [keeps]: "keeps R (reconcile_maintenance_batch rt n)"
  unfolding reconcile_maintenance_batch_def by (intro keeps)

lemma reconcile_recoverable_orphans_keeps [keeps]: "keeps R (reconcile_recoverable_orphans rt)"
  unfolding reconcile_recoverable_orphans_def by (intro keeps)

lemma observe_loop_keeps [keeps]: "keeps R (observe_loop rt q i n)"
proof (induction n arbitrary: i)
  case 0
  show ?case by (subst observe_loop.simps, intro keeps) simp
next
  case (Suc n)
  then show ?case by - (subst observe_loop.simps, intro keeps, simp)
qed

lemma observe_job_keeps [keeps]: "keeps R (observe_job rt q)"
  unfolding observe_job_def by (intro keeps)

lemma reconcile_before_cancel_keeps [keeps]: "keeps R (reconcile_before_cancel rt k b a)"
  unfolding reconcile_before_cancel_def by (intro keeps)

end

section \<open>The cancellation\<close>

locale engine_calls = engine_dispatch +
  assumes R_cancel: "keeps R (cancel_running turns rt k seen)"
begin

lemma cancel_running_keeps [keeps]: "keeps R (cancel_running turns rt k seen)"
  by (rule R_cancel)

lemma cancel_job_keeps [keeps]: "keeps R (cancel_job turns rt q)"
  unfolding cancel_job_def by (intro keeps)

end

end
