(* ===== verification/Workspace_Records.thy ===== *)
theory Workspace_Records
  imports Engine_Operations
begin

text \<open>
  Workspaces as the engine reads them: the record file of an open Workspace and its binding to the
  directory of its identity, the resolution of a relative directory inside a Workspace, the check of an
  executable against the configured roots, and the environment of an execution.  The errors of the
  universal layer are translated where they arise.
\<close>

definition universal_fail :: "UniversalExecErrorCode \<Rightarrow> string \<Rightarrow> string option \<Rightarrow> 'a engine" where
  "universal_fail code message field = efail (map_universal_error (universal_error_new code message field False))"

definition universal_io_error :: "string \<Rightarrow> string \<Rightarrow> string \<Rightarrow> RuntimeError" where
  "universal_io_error path operation error =
     map_universal_error (universal_error_new UIoError (''cannot '' @ operation @ '' '' @ path @ '': '' @ error) None False)"

text \<open>\<open>.ok()\<close>: the result when there is one.\<close>

definition etry :: "'a engine \<Rightarrow> 'a option engine" where
  "etry m = ematch m (\<lambda>_. eret None) (\<lambda>x. eret (Some x))"

section \<open>Paths of a Workspace\<close>

definition workspaces_root :: "runtime \<Rightarrow> string" where
  "workspaces_root rt = (case rt_workspace_root rt of None \<Rightarrow> path_join (rt_store_root rt) ''workspaces'' | Some root \<Rightarrow> root)"

definition workspace_path :: "runtime \<Rightarrow> string \<Rightarrow> string" where
  "workspace_path rt workspace_id = path_join (workspaces_root rt) workspace_id"

definition workspace_record_path :: "runtime \<Rightarrow> string \<Rightarrow> string" where
  "workspace_record_path rt workspace_id =
     path_join (path_join (rt_store_root rt) ''workspace-records'') (workspace_id @ ''.json'')"

definition cache_root :: "runtime \<Rightarrow> string" where
  "cache_root rt = path_join (rt_store_root rt) ''cache''"

definition workspace_cache_path :: "runtime \<Rightarrow> string \<Rightarrow> string" where
  "workspace_cache_path rt workspace_id = path_join (path_join (cache_root rt) ''workspaces'') workspace_id"

definition workspace_tmp_path :: "runtime \<Rightarrow> string \<Rightarrow> string" where
  "workspace_tmp_path rt workspace_id = path_join (path_join (cache_root rt) ''tmp'') workspace_id"

definition shared_caches_root :: "runtime \<Rightarrow> string" where
  "shared_caches_root rt = path_join (cache_root rt) ''shared''"

text \<open>\<open>Path\<close> equality and \<open>file_name\<close> are about components.\<close>

definition same_path :: "string \<Rightarrow> string \<Rightarrow> bool" where
  "same_path p q \<longleftrightarrow> path_is_absolute p = path_is_absolute q \<and> path_components p = path_components q"

definition path_file_name :: "string \<Rightarrow> string option" where
  "path_file_name p =
     (case rev (path_components p) of Normal name # _ \<Rightarrow> Some name | _ \<Rightarrow> None)"

section \<open>The record of an open Workspace\<close>

definition read_workspace_record_bytes :: "runtime \<Rightarrow> string \<Rightarrow> string engine" where
  "read_workspace_record_bytes rt path =
     ask_result rt (\<lambda>i t. map_err (\<lambda>error. map_universal_error (universal_error_new UWorkspaceNotFound
       (''cannot read workspace record: '' @ error) (Some ''workspaceId'') False)) (io_read i t path))"

definition metadata_corrupt :: "string \<Rightarrow> string \<Rightarrow> RuntimeError" where
  "metadata_corrupt message field = map_universal_error (universal_error_new UMetadataCorrupt message (Some field) False)"

definition decode_closed_workspace_record :: "runtime \<Rightarrow> string \<Rightarrow> ClosedWorkspaceRecord option result" where
  "decode_closed_workspace_record rt bytes =
     rbind (map_err (\<lambda>error. metadata_corrupt (''invalid workspace record: '' @ error) ''workspaceId'')
              (h_json_parse (rt_host rt) bytes)) (\<lambda>val.
     if json_str (json_get val ''state'') \<noteq> Some ''closed'' then Inr None
     else case ec_closed_record_parse (rt_codec rt) val of
       Inl error \<Rightarrow> Inl (metadata_corrupt (''invalid closed workspace record: '' @ error) ''workspaceId'')
     | Inr closed \<Rightarrow> Inr (Some closed))"

definition validate_closed_identity :: "ClosedWorkspaceRecord \<Rightarrow> string \<Rightarrow> unit result" where
  "validate_closed_identity closed workspace_id =
     (if cwr_schema_version closed \<noteq> UNIVERSAL_EXEC_SCHEMA_VERSION \<or> cwr_state closed \<noteq> ''closed''
         \<or> (cwr_legacy_workspace_id closed \<noteq> [] \<and> cwr_legacy_workspace_id closed \<noteq> workspace_id)
      then Inl (metadata_corrupt ''closed workspace record identity mismatch'' ''workspaceId'')
      else Inr ())"

definition validate_open_identity :: "WorkspaceRecord \<Rightarrow> string \<Rightarrow> unit result" where
  "validate_open_identity open_record workspace_id =
     (if wk_schema_version open_record \<noteq> UNIVERSAL_EXEC_SCHEMA_VERSION
         \<or> (wk_workspace_id open_record \<noteq> [] \<and> wk_workspace_id open_record \<noteq> workspace_id)
      then Inl (metadata_corrupt ''workspace record identity mismatch'' ''workspaceId'')
      else Inr ())"

definition decode_open_workspace_record :: "runtime \<Rightarrow> string \<Rightarrow> string \<Rightarrow> WorkspaceRecord result" where
  "decode_open_workspace_record rt bytes workspace_id =
     rbind (map_err (\<lambda>error. metadata_corrupt (''invalid workspace record: '' @ error) ''workspaceId'')
              (ec_workspace_record_parse (rt_codec rt) bytes)) (\<lambda>open_record.
     rbind (validate_open_identity open_record workspace_id) (\<lambda>_.
     Inr (open_record\<lparr>wk_workspace_id := workspace_id\<rparr>)))"

definition workspace_record_path_matches_identity :: "runtime \<Rightarrow> string \<Rightarrow> string \<Rightarrow> bool engine" where
  "workspace_record_path_matches_identity rt workspace_id recorded =
     (let expected = workspace_path rt workspace_id in
      if same_path recorded expected then eret True
      else ebind (etry (canonical_directory rt expected ''workspacePath'')) (\<lambda>expected_directory.
       ebind (etry (canonical_directory rt recorded ''workspacePath'')) (\<lambda>recorded_directory.
       case (expected_directory, recorded_directory) of
         (Some e, Some r) \<Rightarrow> eret (same_path e r)
       | _ \<Rightarrow> ebind (path_exists rt expected) (\<lambda>expected_there.
           ebind (if expected_there then eret True else path_exists rt recorded) (\<lambda>any_there.
           if any_there \<or> path_file_name recorded \<noteq> path_file_name expected then eret False
           else case (path_parent expected, path_parent recorded) of
             (Some expected_parent, Some recorded_parent) \<Rightarrow>
               ebind (etry (canonical_directory rt expected_parent ''workspaceRoot'')) (\<lambda>ep.
               ebind (etry (canonical_directory rt recorded_parent ''workspaceRoot'')) (\<lambda>rp.
               case (ep, rp) of (Some e, Some r) \<Rightarrow> eret (same_path e r) | _ \<Rightarrow> eret False))
           | _ \<Rightarrow> eret False)))))"

definition bind_workspace_record_path :: "runtime \<Rightarrow> string \<Rightarrow> WorkspaceRecord \<Rightarrow> WorkspaceRecord engine" where
  "bind_workspace_record_path rt workspace_id open_record =
     (let legacy_path = wk_workspace_path open_record in
      ebind (if legacy_path = [] then eret True else workspace_record_path_matches_identity rt workspace_id legacy_path) (\<lambda>matches.
      if \<not> matches
      then efail (metadata_corrupt ''workspace record path does not match its identity'' ''workspacePath'')
      else let expected = workspace_path rt workspace_id in
       ebind (path_exists rt expected) (\<lambda>present.
       ebind (if present then canonical_directory rt expected ''workspacePath'' else eret expected) (\<lambda>derived.
       eret (open_record\<lparr>wk_workspace_path := lossy_text derived\<rparr>)))))"

definition load_workspace_record_metadata :: "runtime \<Rightarrow> string \<Rightarrow> WorkspaceRecord engine" where
  "load_workspace_record_metadata rt workspace_id =
     ebind (elift (map_err map_universal_error (validate_id workspace_id ''workspaceId''))) (\<lambda>_.
     ebind (read_workspace_record_bytes rt (workspace_record_path rt workspace_id)) (\<lambda>bytes.
     ebind (elift (decode_closed_workspace_record rt bytes)) (\<lambda>closed.
     case closed of
       Some c \<Rightarrow> ebind (elift (validate_closed_identity c workspace_id)) (\<lambda>_.
         universal_fail UWorkspaceNotFound ''workspace is closed'' (Some ''workspaceId''))
     | None \<Rightarrow> ebind (elift (decode_open_workspace_record rt bytes workspace_id)) (\<lambda>open_record.
         bind_workspace_record_path rt workspace_id open_record))))"

definition load_workspace_record :: "runtime \<Rightarrow> string \<Rightarrow> WorkspaceRecord engine" where
  "load_workspace_record rt workspace_id =
     ebind (load_workspace_record_metadata rt workspace_id) (\<lambda>open_record.
     ebind (canonical_directory rt (workspace_path rt workspace_id) ''workspacePath'') (\<lambda>expected.
     eret (open_record\<lparr>wk_workspace_path := lossy_text expected\<rparr>)))"

section \<open>Directories inside a Workspace\<close>

definition resolve_existing_workspace_path :: "runtime \<Rightarrow> WorkspaceRecord \<Rightarrow> string \<Rightarrow> bool \<Rightarrow> string engine" where
  "resolve_existing_workspace_path rt open_record relative allow_directory =
     ebind (elift (map_err map_universal_error (validate_relative_path relative ''relativePath''))) (\<lambda>relative.
     ebind (canonical_directory rt (wk_workspace_path open_record) ''workspacePath'') (\<lambda>root.
     let candidate = path_join root relative in
     ebind (ask_result rt (\<lambda>i t. map_err (\<lambda>error.
              if if_not_found error
              then map_universal_error (universal_error_new UWorkspacePathNotFound
                     (''workspace path does not exist: '' @ relative) (Some ''relativePath'') False)
              else universal_io_error candidate ''inspect'' (if_text error)) (io_symlink_metadata i t candidate))) (\<lambda>metadata.
     if pk_symlink metadata
     then universal_fail UWorkspacePathDenied ''workspace path cannot be a symlink'' (Some ''relativePath'')
     else ebind (ask_result rt (\<lambda>i t. map_err (universal_io_error candidate ''canonicalize'') (io_canonicalize i t candidate))) (\<lambda>canonical.
      ebind (if allow_directory then eret False else ask rt (\<lambda>i t. io_is_dir i t canonical)) (\<lambda>directory.
      if \<not> path_starts_with canonical root \<or> directory
      then universal_fail UWorkspacePathDenied ''workspace path escaped its root'' (Some ''relativePath'')
      else eret canonical)))))"

definition resolve_workspace_cwd :: "runtime \<Rightarrow> WorkspaceRecord \<Rightarrow> string \<Rightarrow> string \<Rightarrow> string engine" where
  "resolve_workspace_cwd rt open_record relative field =
     ebind (ematch (resolve_existing_workspace_path rt open_record relative True)
              (\<lambda>error. efail (if err_field error = Some ''relativePath'' then error\<lparr>err_field := Some field\<rparr> else error))
              eret) (\<lambda>path.
     ebind (ask rt (\<lambda>i t. io_is_dir i t path)) (\<lambda>directory.
     if \<not> directory
     then elift (map_err map_universal_error (Inl (universal_invalid ''cwdRelative must resolve to a directory'' field)))
     else eret path))"

text \<open>\<open>str::trim\<close>, on the bytes of a text.\<close>

definition scalar_width :: "nat \<Rightarrow> nat" where
  "scalar_width c = (if c < 0x80 then 1 else if c < 0x800 then 2 else if c < 0x10000 then 3 else 4)"

definition trim_text :: "string \<Rightarrow> string" where
  "trim_text s =
     (let chars = utf8_chars s;
          front = sum_list (map scalar_width (takeWhile is_whitespace chars));
          rear = sum_list (map scalar_width (takeWhile is_whitespace (rev (dropWhile is_whitespace chars))))
      in take (length s - front - rear) (drop front s))"

definition workspace_git_common_dir_at :: "runtime \<Rightarrow> string \<Rightarrow> string engine" where
  "workspace_git_common_dir_at rt workspace =
     ebind (canonical_directory rt workspace ''workspacePath'') (\<lambda>workspace.
     ebind (ask_result rt (\<lambda>i t. map_err map_universal_error
              (io_git_output i t workspace [''rev-parse'', ''--path-format=absolute'', ''--git-common-dir'']))) (\<lambda>common_dir.
     canonical_directory rt (trim_text common_dir) ''workspaceGitCommonDir''))"

section \<open>Executables\<close>

primrec emap :: "('a \<Rightarrow> 'b engine) \<Rightarrow> 'a list \<Rightarrow> 'b list engine" where
  "emap f [] = eret []"
| "emap f (x # xs) = ebind (f x) (\<lambda>y. ebind (emap f xs) (\<lambda>ys. eret (y # ys)))"

definition is_executable_file :: "path_kind \<Rightarrow> bool" where
  "is_executable_file metadata \<longleftrightarrow> pk_file metadata \<and> pk_executable metadata"

definition validate_executable :: "runtime \<Rightarrow> string \<Rightarrow> string \<Rightarrow> string engine" where
  "validate_executable rt path field =
     (let failed = (\<lambda>context error. error_new IoError (context @ '': '' @ error) (Some field) False) in
      if \<not> path_is_absolute path then efail (error_invalid ''executable must be an absolute path'' field)
      else ebind (ask_result rt (\<lambda>i t. map_err (failed ''canonicalize executable'') (io_canonicalize i t path))) (\<lambda>canonical.
       ebind (ask_result rt (\<lambda>i t. map_err (failed ''inspect executable'') (io_metadata i t canonical))) (\<lambda>metadata.
       if \<not> is_executable_file metadata
       then efail (error_invalid ''executable must resolve to an executable file'' field)
       else ebind (emap (\<lambda>root. ask_result rt (\<lambda>i t. map_err (io_error ''canonicalize executable root'') (io_canonicalize i t root)))
                    (rt_allowed_executable_roots rt)) (\<lambda>canonical_roots.
        ebind (elift (ok_or (path_parent path) (error_invalid ''executable must have an absolute parent'' field))) (\<lambda>parent.
        ebind (ask_result rt (\<lambda>i t. map_err (failed ''canonicalize executable invocation parent'') (io_canonicalize i t parent))) (\<lambda>canonical_parent.
        if \<not> list_ex (path_starts_with canonical_parent) canonical_roots
           \<or> \<not> list_ex (path_starts_with canonical) canonical_roots
        then efail (error_invalid ''executable invocation and target must both remain inside configured roots'' field)
        else eret path))))))"

section \<open>The environment of an execution\<close>

fun show_octal :: "nat \<Rightarrow> string" where
  "show_octal n = (if n < 8 then [char_of (48 + n)] else show_octal (n div 8) @ [char_of (48 + n mod 8)])"

declare show_octal.simps [simp del]

definition show_mode :: "nat \<Rightarrow> string" where
  "show_mode mode = (let digits = show_octal mode in replicate (4 - length digits) (CHR ''0'') @ digits)"

definition state_mismatch :: "string \<Rightarrow> bool \<Rightarrow> RuntimeError" where
  "state_mismatch message retryable = error_new WorkspaceStateMismatch message (Some ''workspaceId'') retryable"

definition canonical_store_root :: "runtime \<Rightarrow> string engine" where
  "canonical_store_root rt =
     ask_result rt (\<lambda>i t. map_err (universal_io_error (rt_store_root rt) ''canonicalize Runtime store root'')
       (io_canonicalize i t (rt_store_root rt)))"

definition workspace_tmp_presentation_path :: "runtime \<Rightarrow> string \<Rightarrow> string engine" where
  "workspace_tmp_presentation_path rt workspace_id =
     ebind (canonical_store_root rt) (\<lambda>canonical_store.
     let digest = sha256_bytes (rt_host rt) (canonical_store @ [NUL] @ workspace_id);
         hex = option_or (strip_prefix ''sha256:'' digest) digest
     in eret (path_join ''/tmp/ordivon-t'' (take 20 hex)))"

definition canonical_workspace_tmp_path :: "runtime \<Rightarrow> string \<Rightarrow> string engine" where
  "canonical_workspace_tmp_path rt workspace_id =
     ebind (canonical_store_root rt) (\<lambda>canonical_store.
     eret (path_join (path_join (path_join canonical_store ''cache'') ''tmp'') workspace_id))"

text \<open>The two loops of \<open>ensure_trusted_workspace_tmp_presentation\<close>, each with its number of turns left.\<close>

fun tmp_root_loop :: "runtime \<Rightarrow> string \<Rightarrow> nat \<Rightarrow> unit engine" where
  "tmp_root_loop rt parent turns =
     (case turns of 0 \<Rightarrow> eret ()
      | Suc n \<Rightarrow>
         ebind (ask rt (\<lambda>i t. io_symlink_metadata i t parent)) (\<lambda>observed. case observed of
           Inr metadata \<Rightarrow>
             if pk_symlink metadata \<or> \<not> pk_dir metadata \<or> pk_uid metadata \<noteq> rt_effective_uid rt \<or> pk_mode metadata \<noteq> 448
             then efail (state_mismatch (''trusted temporary presentation root '' @ parent
               @ '' must be a non-symlink directory owned by uid '' @ show_nat (rt_effective_uid rt)
               @ '' with mode 0700; observed uid '' @ show_nat (pk_uid metadata) @ '' mode '' @ show_mode (pk_mode metadata)) False)
             else eret ()
         | Inl error \<Rightarrow>
             if if_not_found error
             then ebind (ask rt (\<lambda>i t. io_create_private_dir i t parent)) (\<lambda>created. case created of
                    Inr _ \<Rightarrow> tmp_root_loop rt parent n
                  | Inl failure \<Rightarrow> if cf_already_exists failure then tmp_root_loop rt parent n
                      else efail (io_error (''create temporary presentation root '' @ parent) (cf_text failure)))
             else efail (io_error (''inspect temporary presentation root '' @ parent) (if_text error))))"

declare tmp_root_loop.simps [simp del]

fun tmp_link_loop :: "runtime \<Rightarrow> string \<Rightarrow> string \<Rightarrow> nat \<Rightarrow> string engine" where
  "tmp_link_loop rt presentation backing turns =
     (case turns of 0 \<Rightarrow> efail (state_mismatch ''trusted temporary presentation changed concurrently during creation'' True)
      | Suc n \<Rightarrow>
         ebind (ask rt (\<lambda>i t. io_symlink_metadata i t presentation)) (\<lambda>observed. case observed of
           Inr metadata \<Rightarrow>
             if \<not> pk_symlink metadata
             then efail (state_mismatch (''trusted temporary presentation '' @ presentation @ '' is not a symlink'') False)
             else ebind (ask_result rt (\<lambda>i t. map_err (io_error (''read temporary presentation '' @ presentation))
                           (io_read_link i t presentation))) (\<lambda>target.
               if \<not> same_path target backing
               then efail (state_mismatch (''trusted temporary presentation '' @ presentation @ '' points at '' @ target
                 @ '', expected '' @ backing) False)
               else eret presentation)
         | Inl error \<Rightarrow>
             if if_not_found error
             then ebind (ask rt (\<lambda>i t. io_symlink i t backing presentation)) (\<lambda>linked. case linked of
                    Inr _ \<Rightarrow> eret presentation
                  | Inl failure \<Rightarrow> if cf_already_exists failure then tmp_link_loop rt presentation backing n
                      else efail (io_error (''create temporary presentation '' @ presentation) (cf_text failure)))
             else efail (io_error (''inspect temporary presentation '' @ presentation) (if_text error))))"

declare tmp_link_loop.simps [simp del]

definition ensure_trusted_workspace_tmp_presentation :: "runtime \<Rightarrow> string \<Rightarrow> string engine" where
  "ensure_trusted_workspace_tmp_presentation rt workspace_id =
     (if \<not> rt_on_linux rt
      then efail (error_new ToolUnavailable
        ''trusted-local temporary presentation requires a native platform implementation'' (Some ''workspaceId'') False)
      else ebind (workspace_tmp_presentation_path rt workspace_id) (\<lambda>presentation.
       ebind (canonical_workspace_tmp_path rt workspace_id) (\<lambda>canonical_backing.
       ebind (elift (ok_or (path_parent presentation) (error_new IoError
                ''trusted temporary presentation has no parent directory'' (Some ''workspaceId'') False))) (\<lambda>parent.
       ebind (tmp_root_loop rt parent 2) (\<lambda>_.
       tmp_link_loop rt presentation canonical_backing 2)))))"

definition ENVIRONMENT_DIRECTORIES :: "string list" where
  "ENVIRONMENT_DIRECTORIES = [''HOME'', ''TMPDIR'', ''XDG_CACHE_HOME'', ''CARGO_TARGET_DIR'', ''UV_CACHE_DIR'',
     ''PIP_CACHE_DIR'', ''npm_config_cache'', ''PNPM_HOME'', ''COREPACK_HOME'', ''BUN_INSTALL_CACHE_DIR'',
     ''GOMODCACHE'', ''GOCACHE'']"

definition cache_variables :: "string \<Rightarrow> string \<Rightarrow> (string \<times> string) list" where
  "cache_variables cargo_target package_cache =
     [(''CARGO_TARGET_DIR'', cargo_target), (''UV_CACHE_DIR'', path_join package_cache ''uv''),
      (''PIP_CACHE_DIR'', path_join package_cache ''pip''), (''npm_config_cache'', path_join package_cache ''npm''),
      (''PNPM_HOME'', path_join package_cache ''pnpm''), (''COREPACK_HOME'', path_join package_cache ''corepack''),
      (''BUN_INSTALL_CACHE_DIR'', path_join package_cache ''bun/install-cache''),
      (''GOMODCACHE'', path_join package_cache ''go/mod''), (''GOCACHE'', path_join package_cache ''go/build'')]"

definition environment_path :: "runtime \<Rightarrow> env_map \<Rightarrow> string \<Rightarrow> unit engine" where
  "environment_path rt environment name =
     (if name = ''CARGO_TARGET_DIR'' \<and> map_of environment name = Some TRUSTED_BUILD_TARGET_PRESENTATION then eret ()
      else case map_of environment name of
        None \<Rightarrow> eret ()
      | Some path \<Rightarrow> create_dir_all rt (''create execution environment path '' @ path) path)"

definition execution_environment :: "runtime \<Rightarrow> WorkspaceRecord \<Rightarrow> ExecutionProfile \<Rightarrow> env_map engine" where
  "execution_environment rt open_record profile =
     (let workspace_cache = workspace_cache_path rt (wk_workspace_id open_record);
          workspace_tmp = workspace_tmp_path rt (wk_workspace_id open_record);
          build_cache = workspace_build_cache_path rt (wk_workspace_id open_record);
          package_cache = (if profile = TrustedLocal then shared_caches_root rt else path_join workspace_cache ''tooling'');
          cargo_target_backing = path_join build_cache ''cargo'';
          contained_home = path_join workspace_cache ''home''
      in
      ebind (emap (\<lambda>path. create_dir_all rt (''create execution cache '' @ path) path)
               [workspace_cache, build_cache, cargo_target_backing, workspace_tmp, package_cache]) (\<lambda>_.
      ebind (if profile = TrustedLocal then eret (rt_execution_home rt)
             else ebind (create_dir_all rt (''create contained execution home '' @ contained_home) contained_home) (\<lambda>_.
               eret (lossy_text contained_home))) (\<lambda>execution_home.
      ebind (if profile = TrustedLocal then ensure_trusted_workspace_tmp_presentation rt (wk_workspace_id open_record)
             else eret workspace_tmp) (\<lambda>tmp_presentation.
      let cargo_target = (if profile = TrustedLocal then TRUSTED_BUILD_TARGET_PRESENTATION else cargo_target_backing);
          environment = fold (\<lambda>(name, val). env_insert name val)
            ([(''PATH'', rt_execution_path rt), (''HOME'', execution_home), (''LANG'', ''C.UTF-8''), (''LC_ALL'', ''C.UTF-8''),
              (''TMPDIR'', lossy_text tmp_presentation), (''XDG_CACHE_HOME'', lossy_text workspace_cache)]
             @ map (\<lambda>(name, path). (name, lossy_text path)) (cache_variables cargo_target package_cache)) []
      in ebind (emap (environment_path rt environment) ENVIRONMENT_DIRECTORIES) (\<lambda>_. eret environment)))))"

end
