(* ===== verification/Engine_Admission.thy ===== *)
theory Engine_Admission
  imports Workspace_Records
begin

text \<open>
  Admission as the engine does it: a proposal is identified before anything else, an identity that is
  already bound is answered with its Job, and a new one is resolved against the Workspace, has its inputs
  or credentials materialised, and is submitted to the registry.  Materialised sets belong to nobody until
  the Job is durable; a set whose submission did not create its Job is discarded.
\<close>

section \<open>Host Dependencies\<close>

definition host_dependency_field :: "nat \<Rightarrow> string \<Rightarrow> string" where
  "host_dependency_field index name = ''execution.hostDependencies['' @ show_nat index @ ''].'' @ name"

fun host_dependencies_loop :: "runtime \<Rightarrow> nat \<Rightarrow> string option \<Rightarrow> HostDependencyBinding list \<Rightarrow> unit engine" where
  "host_dependencies_loop rt index previous [] = eret ()"
| "host_dependencies_loop rt index previous (binding # rest) =
     (let path = hd_path binding in
      if \<not> path_is_absolute path \<or> contains_nul path
      then efail (error_invalid ''Host Dependency path must be absolute and NUL-free'' (host_dependency_field index ''path''))
      else if previous = Some path
      then efail (error_invalid ''Host Dependency paths must be unique'' ''execution.hostDependencies'')
      else case strip_prefix ''sha256:'' (hd_expected_digest binding) of
        None \<Rightarrow> efail (error_invalid ''Host Dependency expectedDigest must use sha256'' (host_dependency_field index ''expectedDigest''))
      | Some expected \<Rightarrow>
         if length expected \<noteq> 64 \<or> \<not> lowercase_hex expected
         then efail (error_invalid ''Host Dependency expectedDigest must contain 64 lowercase hexadecimal characters''
                (host_dependency_field index ''expectedDigest''))
         else ebind (ask_result rt (\<lambda>i t. map_err (\<lambda>error. error_new InvalidRequest
                 (''Host Dependency '' @ path @ '' is unavailable: '' @ if_text error) (Some ''execution.hostDependencies'') False)
                 (io_symlink_metadata i t path))) (\<lambda>metadata.
          if pk_symlink metadata \<or> \<not> pk_file metadata
          then efail (error_invalid ''Host Dependency must be a regular non-symlink file'' (host_dependency_field index ''path''))
          else ebind (engine_sha256_file rt path) (\<lambda>observed.
           if observed \<noteq> hd_expected_digest binding
           then efail (error_invalid (''Host Dependency '' @ path @ '' does not match expected digest: expected ''
                  @ hd_expected_digest binding @ '', observed '' @ observed) ''execution.hostDependencies'')
           else host_dependencies_loop rt (index + 1) (Some path) rest)))"

definition validate_host_dependencies :: "runtime \<Rightarrow> JobRunRequest \<Rightarrow> HostDependencyBinding list engine" where
  "validate_host_dependencies rt request =
     (let x = jr_execution request in
      if u_host_dependencies x = [] then eret []
      else if u_execution_target x \<noteq> LocalLinux \<or> u_execution_profile x \<noteq> TrustedLocal
      then efail (error_invalid ''Host Dependencies require trusted_local local_linux execution'' ''execution.hostDependencies'')
      else let bindings = sort_key hd_path (u_host_dependencies x) in
       ebind (host_dependencies_loop rt 0 None bindings) (\<lambda>_. eret bindings))"

section \<open>Resolving a request\<close>

definition windows_base :: "runtime \<Rightarrow> WindowsAuthority \<Rightarrow> (env_map \<times> WindowsExecutionContext option) engine" where
  "windows_base rt authority =
     ebind (elift (ok_or (rt_windows rt) (error_invalid ''windows_native target is not configured on this Runtime''
              ''execution.executionTarget''))) (\<lambda>windows.
     ebind (ask_result rt (\<lambda>i t. io_windows_snapshot i t authority)) (\<lambda>snapshot.
     ebind (if authority \<noteq> Limited \<and> wcfg_has_privileged_broker windows
            then ebind (ask_result rt io_broker_executable_digest) (\<lambda>digest. eret (Some digest)) else eret None) (\<lambda>digest.
     eret (wsn_environment snapshot,
       Some \<lparr>wc_token_class = expected_token_class authority, wc_token_user_sid = wsn_token_user_sid snapshot,
             wc_session_id = wsn_session_id snapshot,
             wc_environment_source = expected_environment_source authority (digest \<noteq> None),
             wc_privileged_broker_digest = digest\<rparr>))))"

definition merged_environment :: "ExecutionTarget \<Rightarrow> env_map \<Rightarrow> env_map \<Rightarrow> env_map result" where
  "merged_environment target base explicit =
     (case target of LocalLinux \<Rightarrow> Inr (merge_environment base explicit)
      | WindowsNative \<Rightarrow> merge_windows_environment base explicit)"

fun resolve_steps ::
  "runtime \<Rightarrow> WorkspaceRecord \<Rightarrow> ExecutionTarget \<Rightarrow> env_map \<Rightarrow> nat \<Rightarrow> UniversalExecutionStep list
   \<Rightarrow> RuntimeExecutionStep list engine" where
  "resolve_steps rt open_record target base index [] = eret []"
| "resolve_steps rt open_record target base index (step # rest) =
     (let field = (\<lambda>name. ''execution.steps['' @ show_nat index @ ''].'' @ name) in
      ebind (resolve_workspace_cwd rt open_record (us_cwd_relative step) (field ''cwdRelative'')) (\<lambda>cwd.
      ebind (validate_executable rt (us_executable step) (field ''executable'')) (\<lambda>executable.
      ebind (engine_sha256_file rt executable) (\<lambda>digest.
      ebind (elift (merged_environment target base (us_env step))) (\<lambda>env.
      ebind (resolve_steps rt open_record target base (index + 1) rest) (\<lambda>steps.
      eret (\<lparr>st_id = us_id step, st_executable = lossy_text executable, st_executable_digest = digest, st_args = us_args step,
             st_cwd = lossy_text cwd, st_env = env, st_timeout_ms = us_timeout_ms step,
             st_continue_on_error = us_continue_on_error step\<rparr> # steps)))))))"

definition resolve_plan :: "runtime \<Rightarrow> JobRunRequest \<Rightarrow> RuntimeExecutionPlan engine" where
  "resolve_plan rt request =
     (let x = jr_execution request; target = u_execution_target x in
      ebind (load_workspace_record rt (u_workspace_id x)) (\<lambda>open_record.
      ebind (canonical_directory rt (wk_workspace_path open_record) ''workspacePath'') (\<lambda>workspace.
      ebind (resolve_workspace_cwd rt open_record (u_cwd_relative x) ''execution.cwdRelative'') (\<lambda>cwd.
      ebind (validate_executable rt (u_executable x) ''execution.executable'') (\<lambda>executable.
      ebind (case target of
               LocalLinux \<Rightarrow> ebind (execution_environment rt open_record (u_execution_profile x)) (\<lambda>env. eret (env, None))
             | WindowsNative \<Rightarrow> windows_base rt (u_windows_authority x)) (\<lambda>(base, ctx).
      ebind (resolve_steps rt open_record target base 0 (u_steps x)) (\<lambda>steps.
      ebind (ask_result rt (\<lambda>i t. map_err map_universal_error (io_source_state_digest i t (u_workspace_id x)))) (\<lambda>source_digest.
      ebind (workspace_git_common_dir_at rt workspace) (\<lambda>common_dir.
      ebind (engine_sha256_file rt executable) (\<lambda>executable_digest.
      ebind (elift (merged_environment target base (u_env x))) (\<lambda>env.
      eret \<lparr>p_schema_version = RUNTIME_SCHEMA_VERSION, p_workspace_id = u_workspace_id x,
        p_workspace_path = lossy_text workspace, p_source_revision = wk_source_revision open_record,
        p_workspace_source_digest = Some source_digest, p_workspace_git_common_dir = Some (lossy_text common_dir),
        p_executable = lossy_text executable, p_executable_digest = executable_digest, p_args = u_args x,
        p_cwd = lossy_text cwd, p_env = env, p_timeout_ms = u_timeout_ms x,
        p_stdout_limit_bytes = u_stdout_limit_bytes x, p_stderr_limit_bytes = u_stderr_limit_bytes x,
        p_steps = steps, p_budget = u_budget x, p_execution_profile = u_execution_profile x,
        p_execution_target = target, p_windows_authority = u_windows_authority x, p_windows_execution_context = ctx,
        p_foreign_references = u_foreign_references x, p_input_set_id = None, p_effective_inputs = [],
        p_credential_set_id = None, p_principal = jr_principal request\<rparr>)))))))))))"

section \<open>Materialising inputs and credentials\<close>

record PreparedInputSet =
  pis_input_set_id :: string
  pis_prepared_root :: string
  pis_effective_inputs :: "EffectiveInputBinding list"

record PreparedCredentialSet =
  pcs_credential_set_id :: string
  pcs_prepared_root :: string

definition protect_posix_path :: "runtime \<Rightarrow> string \<Rightarrow> nat \<Rightarrow> string \<Rightarrow> unit engine" where
  "protect_posix_path rt path mode operation =
     ask_result rt (\<lambda>i t. map_err (io_error operation) (io_set_permissions i t path mode))"

text \<open>\<open>copy_input_and_digest\<close> on the file opened beneath an authority root.\<close>

definition copy_input_and_digest :: "runtime \<Rightarrow> string \<Rightarrow> string \<Rightarrow> string \<Rightarrow> string engine" where
  "copy_input_and_digest rt root relative target =
     ebind (ask_result rt (\<lambda>i t. map_err (io_error ''create materialized input'') (io_create_new i t target))) (\<lambda>_.
     ebind (ask_result rt (\<lambda>i t. map_err (io_error ''copy input object'') (io_copy i t root relative target))) (\<lambda>_.
     ebind (ask_result rt (\<lambda>i t. map_err (io_error ''sync materialized input'') (io_sync_all i t target))) (\<lambda>_.
     engine_sha256_file rt target)))"

definition open_authority_file :: "runtime \<Rightarrow> string \<Rightarrow> string \<Rightarrow> nat \<Rightarrow> string engine" where
  "open_authority_file rt root relative index =
     (let field = ''inputs['' @ show_nat index @ ''].relativeObject'' in
      ebind (elift (validate_normal_relative_path relative field)) (\<lambda>relative_path.
      ebind (ask_result rt (\<lambda>i t. map_err (\<lambda>error. error_invalid (''cannot resolve input object inside authority: '' @ error) field)
               (io_open_beneath i t root relative_path))) (\<lambda>_. eret relative_path)))"

definition open_credential_file :: "runtime \<Rightarrow> string \<Rightarrow> string \<Rightarrow> nat \<Rightarrow> unit engine" where
  "open_credential_file rt root name index =
     (let field = ''credentials['' @ show_nat index @ ''].credential'' in
      ebind (elift (validate_credential_name name field)) (\<lambda>_.
      ask_result rt (\<lambda>i t. map_err (\<lambda>_. error_invalid ''credential is unavailable from the selected authority'' field)
        (io_open_beneath i t root name))))"

text \<open>
  The frame both kinds of sets share: nothing may exist under the new identity; a locked lease marks the
  work; what a failed \<open>body\<close> left is removed, and the lease in any case.
\<close>

definition staged_materialization ::
  "runtime \<Rightarrow> string \<Rightarrow> string \<Rightarrow> string \<Rightarrow> string \<Rightarrow> string \<Rightarrow> (string \<Rightarrow> string \<Rightarrow> 'a engine) \<Rightarrow> 'a engine" where
  "staged_materialization rt kind identity root owned_root job_id body =
     (let prepared_root = path_join root job_id;
          lease_path = path_join root (''.'' @ job_id @ ''.lease'');
          remove_lease = ask rt (\<lambda>i t. io_remove_file i t lease_path)
      in
      ebind (create_dir_all rt (''create '' @ kind @ '' materialization root'') root) (\<lambda>_.
      ebind (path_exists rt prepared_root) (\<lambda>prepared_there.
      ebind (if prepared_there then eret True else path_exists rt owned_root) (\<lambda>taken.
      if taken
      then efail (registry_corrupt (''preallocated '' @ identity @ '' identity already has physical state'') ''jobId'')
      else ebind (ask_result rt (\<lambda>i t. map_err (io_error (''create '' @ kind @ '' staging lease'')) (io_create_new i t lease_path))) (\<lambda>_.
       ebind (ask rt (\<lambda>i t. io_try_lock i t lease_path)) (\<lambda>locked. case locked of
         Inl error \<Rightarrow> ebind remove_lease (\<lambda>_. efail (io_error (''lock '' @ kind @ '' staging lease'') error))
       | Inr _ \<Rightarrow>
          ebind (ask rt io_uuid) (\<lambda>uuid.
          let staging = path_join root (''.'' @ job_id @ ''.staging-'' @ uuid);
              finish = ebind remove_lease (\<lambda>_. etry (sync_directory rt root))
          in ematch (body staging prepared_root)
               (\<lambda>error. ebind (ask rt (\<lambda>i t. io_remove_dir_all i t staging)) (\<lambda>_.
                  ebind (ask rt (\<lambda>i t. io_remove_dir_all i t prepared_root)) (\<lambda>_.
                  ebind finish (\<lambda>_. efail error))))
               (\<lambda>result. ebind finish (\<lambda>_. eret result)))))))))"

fun copy_inputs :: "runtime \<Rightarrow> string \<Rightarrow> nat \<Rightarrow> InputBindingRequest list \<Rightarrow> unit engine" where
  "copy_inputs rt staging index [] = eret ()"
| "copy_inputs rt staging index (input # rest) =
     (let field = (\<lambda>name. ''inputs['' @ show_nat index @ ''].'' @ name) in
      case map_of (rt_input_authorities rt) (ib_authority input) of
        None \<Rightarrow> efail (error_invalid (''unknown input authority '' @ ib_authority input) (field ''authority''))
      | Some root \<Rightarrow>
          ebind (open_authority_file rt root (ib_relative_object input) index) (\<lambda>source.
          let target = path_join staging (ib_presentation_relative_path input) in
          ebind (case path_parent target of None \<Rightarrow> eret ()
                 | Some parent \<Rightarrow> create_dir_all rt ''create input presentation tree'' parent) (\<lambda>_.
          ebind (copy_input_and_digest rt root source target) (\<lambda>observed_digest.
          if observed_digest \<noteq> ib_expected_digest input
          then efail (error_invalid ''materialized input digest does not match the caller commitment'' (field ''expectedDigest''))
          else ebind (protect_posix_path rt target 292 ''protect materialized input'') (\<lambda>_.
            copy_inputs rt staging (index + 1) rest)))))"

definition input_set_identity :: "host \<Rightarrow> JobRunRequest \<Rightarrow> string \<Rightarrow> string" where
  "input_set_identity h request request_identity_digest =
     (let set_digest = sha256_bytes h (jr_principal request @ [NUL] @ jr_client_request_id request @ [NUL] @ request_identity_digest)
      in option_or (strip_prefix ''sha256:'' set_digest) set_digest)"

definition materialize_input_bindings ::
  "runtime \<Rightarrow> JobRunRequest \<Rightarrow> string \<Rightarrow> string \<Rightarrow> InputBindingRequest list \<Rightarrow> PreparedInputSet engine" where
  "materialize_input_bindings rt request request_identity_digest job_id inputs =
     staged_materialization rt ''input'' ''immutable input'' (input_materializations_root rt) (job_input_path rt job_id) job_id
       (\<lambda>staging prepared_root.
          ebind (ask_result rt (\<lambda>i t. map_err (io_error ''create input staging directory'') (io_create_dir i t staging))) (\<lambda>_.
          ebind (protect_posix_path rt staging 448 ''protect input staging directory'') (\<lambda>_.
          ebind (copy_inputs rt staging 0 inputs) (\<lambda>_.
          ebind (sync_directory rt staging) (\<lambda>_.
          ebind (durable_runtime_rename rt staging prepared_root ''publish prepared immutable input set'') (\<lambda>_.
          ebind (verify_effective_input_set rt prepared_root inputs) (\<lambda>effective_inputs.
          eret \<lparr>pis_input_set_id = input_set_identity (rt_host rt) request request_identity_digest,
            pis_prepared_root = prepared_root, pis_effective_inputs = effective_inputs\<rparr>)))))))"

fun copy_credentials :: "runtime \<Rightarrow> string \<Rightarrow> string \<Rightarrow> nat \<Rightarrow> CredentialBindingRequest list \<Rightarrow> unit engine" where
  "copy_credentials rt owner staging index [] = eret ()"
| "copy_credentials rt owner staging index (credential # rest) =
     (let field = ''credentials['' @ show_nat index @ ''].authority'' in
      case map_of (rt_credential_authorities rt) (cb_authority credential) of
        None \<Rightarrow> efail (error_invalid ''credential authority is unavailable'' field)
      | Some authority \<Rightarrow>
          if owner \<notin> set (cau_allowed_principals authority)
          then efail (error_invalid ''authenticated principal is not authorized for credential authority'' field)
          else ebind (open_credential_file rt (cau_root authority) (cb_credential credential) index) (\<lambda>_.
            let target = path_join staging (cb_credential credential) in
            ebind (copy_input_and_digest rt (cau_root authority) (cb_credential credential) target) (\<lambda>_.
            ebind (protect_posix_path rt target 256 ''protect encrypted credential snapshot'') (\<lambda>_.
            copy_credentials rt owner staging (index + 1) rest))))"

definition materialize_credential_bindings ::
  "runtime \<Rightarrow> JobRunRequest \<Rightarrow> string \<Rightarrow> CredentialBindingRequest list \<Rightarrow> PreparedCredentialSet engine" where
  "materialize_credential_bindings rt request job_id credentials =
     staged_materialization rt ''credential'' ''encrypted credential snapshot'' (credential_materializations_root rt)
       (job_credential_path rt job_id) job_id
       (\<lambda>staging prepared_root.
          ebind (ask_result rt (\<lambda>i t. map_err (io_error ''create credential staging directory'') (io_create_dir i t staging))) (\<lambda>_.
          ebind (protect_posix_path rt staging 448 ''protect credential staging directory'') (\<lambda>_.
          ebind (copy_credentials rt (jr_principal request) staging 0 credentials) (\<lambda>_.
          ebind (sync_directory rt staging) (\<lambda>_.
          ebind (durable_runtime_rename rt staging prepared_root ''publish prepared encrypted credential snapshot set'') (\<lambda>_.
          ebind (inspect_credential_snapshot rt prepared_root) (\<lambda>(credential_set_id, _).
          eret \<lparr>pcs_credential_set_id = credential_set_id, pcs_prepared_root = prepared_root\<rparr>)))))))"

section \<open>Submitting\<close>

definition preallocate_ids_now :: "runtime \<Rightarrow> PreallocatedAdmissionIds engine" where
  "preallocate_ids_now rt =
     ebind (ask rt io_uuid) (\<lambda>a. ebind (ask rt io_uuid) (\<lambda>b. ebind (ask rt io_uuid) (\<lambda>c.
     eret (preallocate_admission_ids (\<lambda>n. if n = 0 then a else if n = 1 then b else c)))))"

definition submit_preallocated_now :: "runtime \<Rightarrow> SubmitRequest \<Rightarrow> PreallocatedAdmissionIds \<Rightarrow> AdmissionOutcome engine" where
  "submit_preallocated_now rt request ids =
     ebind (ask rt io_clock) (\<lambda>clock.
     ebind (ask rt io_fence) (\<lambda>fence.
     registry_op rt (\<lambda>env db. submit_preallocated (rt_host rt) env (rt_registry rt) clock fence db request ids)))"

definition submit_now :: "runtime \<Rightarrow> SubmitRequest \<Rightarrow> AdmissionOutcome engine" where
  "submit_now rt request = ebind (preallocate_ids_now rt) (submit_preallocated_now rt request)"

definition find_idempotent_job_now :: "runtime \<Rightarrow> string \<Rightarrow> string \<Rightarrow> string \<Rightarrow> string option \<Rightarrow> RuntimeJobRecord option engine" where
  "find_idempotent_job_now rt owner client_request_id digest compatible =
     registry_read rt (\<lambda>env db. find_idempotent_job (rt_host rt) env db owner client_request_id digest compatible)"

definition lock_lifecycle :: "runtime \<Rightarrow> unit engine" where
  "lock_lifecycle rt =
     ebind (ask rt io_lifecycle_lock) (\<lambda>locked.
     if locked then eret ()
     else efail (error_new RegistryUnavailable ''Workspace lifecycle lock is poisoned'' None True))"

definition submit_request_for ::
  "JobRunRequest \<Rightarrow> string \<Rightarrow> ExecutionProviderSnapshot \<Rightarrow> RuntimeReleaseEffectBinding option
   \<Rightarrow> HostDependencyBinding list \<Rightarrow> RuntimeExecutionPlan \<Rightarrow> SubmitRequest" where
  "submit_request_for request digest provider effect dependencies plan =
     \<lparr>sr_schema_version = RUNTIME_SCHEMA_VERSION, sr_client_request_id = jr_client_request_id request,
      sr_request_identity_digest = Some digest, sr_execution_provider = Some provider,
      sr_runtime_release_effect = effect, sr_host_dependencies = dependencies, sr_plan = plan,
      sr_global_limit = jr_global_limit request\<rparr>"

fun outcome_job_id :: "AdmissionOutcome \<Rightarrow> string" where
  "outcome_job_id (Created created) = j_job_id (ca_job created)"
| "outcome_job_id (Existing job) = j_job_id job"

definition admit_new_job :: "runtime \<Rightarrow> JobRunRequest \<Rightarrow> string \<Rightarrow> string engine" where
  "admit_new_job rt request request_identity_digest =
     ebind (reconcile_recoverable_orphans rt) (\<lambda>_.
     ebind (reconcile_workspace rt (u_workspace_id (jr_execution request))) (\<lambda>_.
     ebind (validate_host_dependencies rt request) (\<lambda>host_dependencies.
     ebind (resolve_plan rt request) (\<lambda>plan.
     ebind (current_execution_provider_snapshot rt (u_execution_target (jr_execution request))) (\<lambda>provider.
     ebind (submit_now rt (submit_request_for request request_identity_digest provider None host_dependencies plan)) (\<lambda>outcome.
     eret (outcome_job_id outcome)))))))"

text \<open>The submission of a request with a materialised set: adopted when the Job is new, discarded otherwise.\<close>

definition submit_with_set ::
  "runtime \<Rightarrow> SubmitRequest \<Rightarrow> PreallocatedAdmissionIds \<Rightarrow> (string \<Rightarrow> unit engine) \<Rightarrow> unit engine \<Rightarrow> string engine" where
  "submit_with_set rt submission ids adopt discard =
     ematch (submit_preallocated_now rt submission ids)
       (\<lambda>error. ebind discard (\<lambda>_. efail error))
       (\<lambda>outcome. case outcome of
          Created created \<Rightarrow>
            (let job_id = j_job_id (ca_job created) in
             ematch (adopt job_id) (\<lambda>error. efail (with_operation_id error job_id)) (\<lambda>_. eret job_id))
        | Existing job \<Rightarrow> ebind discard (\<lambda>_. eret (j_job_id job)))"

definition windows_input_admission :: "runtime \<Rightarrow> JobRunRequest \<Rightarrow> InputBindingRequest list \<Rightarrow> unit result" where
  "windows_input_admission rt request inputs =
     (let x = jr_execution request in
      if u_execution_target x = LocalLinux then Inr ()
      else if u_execution_profile x \<noteq> TrustedLocal
      then Inl (error_invalid ''windows_native immutable input bindings require trusted_local execution'' ''execution.executionProfile'')
      else if u_windows_authority x \<noteq> Limited
      then Inl (error_invalid ''windows_native immutable input bindings support limited authority only'' ''execution.windowsAuthority'')
      else validate_windows_input_relative_paths (rt_host rt) (map ib_presentation_relative_path inputs))"

definition with_inputs :: "RuntimeExecutionPlan \<Rightarrow> PreparedInputSet \<Rightarrow> RuntimeExecutionPlan result" where
  "with_inputs plan prepared =
     (let plan = plan\<lparr>p_input_set_id := Some (pis_input_set_id prepared), p_effective_inputs := pis_effective_inputs prepared\<rparr> in
      rbind (case p_execution_target plan of
               LocalLinux \<Rightarrow> Inr CONTAINED_INPUT_ROOT
             | WindowsNative \<Rightarrow> windows_input_presentation_root plan (pis_input_set_id prepared)) (\<lambda>input_root.
      let present = (\<lambda>env. set_environment_value_case_insensitive env ''ORDIVON_INPUT_ROOT'' input_root) in
      Inr (plan\<lparr>p_env := present (p_env plan), p_steps := map (\<lambda>step. step\<lparr>st_env := present (st_env step)\<rparr>) (p_steps plan)\<rparr>)))"

definition admit_new_job_with_inputs :: "runtime \<Rightarrow> JobRunRequest \<Rightarrow> string \<Rightarrow> InputBindingRequest list \<Rightarrow> string engine" where
  "admit_new_job_with_inputs rt request request_identity_digest inputs =
     ebind (elift (windows_input_admission rt request inputs)) (\<lambda>_.
     ebind (elift (validate_new_admission_policy request (rt_max_runtime_ms rt) (rt_max_output_bytes rt))) (\<lambda>_.
     ebind (reconcile_recoverable_orphans rt) (\<lambda>_.
     ebind (reconcile_workspace rt (u_workspace_id (jr_execution request))) (\<lambda>_.
     ebind (resolve_plan rt request) (\<lambda>plan.
     ebind (preallocate_ids_now rt) (\<lambda>ids.
     ebind (materialize_input_bindings rt request request_identity_digest (ids_job_id ids) inputs) (\<lambda>prepared.
     ebind (elift (with_inputs plan prepared)) (\<lambda>plan.
     ebind (current_execution_provider_snapshot rt (u_execution_target (jr_execution request))) (\<lambda>provider.
     submit_with_set rt (submit_request_for request request_identity_digest provider None [] plan) ids
       (ensure_job_input_ownership rt) (discard_prepared_input_set rt (pis_prepared_root prepared)))))))))))"

definition admit_new_job_with_credentials ::
  "runtime \<Rightarrow> JobRunRequest \<Rightarrow> string \<Rightarrow> CredentialBindingRequest list \<Rightarrow> string engine" where
  "admit_new_job_with_credentials rt request request_identity_digest credentials =
     (let x = jr_execution request in
      if u_execution_target x \<noteq> LocalLinux \<or> u_execution_profile x \<noteq> TrustedLocal
      then efail (error_invalid ''credential-bound execution requires trusted_local local_linux'' ''execution.executionProfile'')
      else ebind (elift (validate_new_admission_policy request (rt_max_runtime_ms rt) (rt_max_output_bytes rt))) (\<lambda>_.
       ebind (reconcile_recoverable_orphans rt) (\<lambda>_.
       ebind (reconcile_workspace rt (u_workspace_id x)) (\<lambda>_.
       ebind (resolve_plan rt request) (\<lambda>plan.
       ebind (preallocate_ids_now rt) (\<lambda>ids.
       ebind (materialize_credential_bindings rt request (ids_job_id ids) credentials) (\<lambda>prepared.
       ebind (current_execution_provider_snapshot rt (u_execution_target x)) (\<lambda>provider.
       submit_with_set rt
         (submit_request_for request request_identity_digest provider None []
            (plan\<lparr>p_credential_set_id := Some (pcs_credential_set_id prepared)\<rparr>)) ids
         (ensure_job_credential_ownership rt) (discard_prepared_credential_set rt (pcs_prepared_root prepared))))))))))"

section \<open>Proposals\<close>

definition observe_admitted_job :: "runtime \<Rightarrow> string \<Rightarrow> nat \<Rightarrow> nat \<Rightarrow> nat \<Rightarrow> JobObservation engine" where
  "observe_admitted_job rt job_id wait_ms stdout_tail_bytes stderr_tail_bytes =
     ematch (observe_job rt \<lparr>jo_schema_version = RUNTIME_SCHEMA_VERSION, jo_job_id = job_id, jo_wait_ms = wait_ms,
         jo_wait_until = WaitTerminal, jo_stdout_tail_bytes = stdout_tail_bytes, jo_stderr_tail_bytes = stderr_tail_bytes,
         jo_stdout_offset = None, jo_stderr_offset = None\<rparr>)
       (\<lambda>error. efail (with_operation_id error job_id)) eret"

definition resolved_request :: "runtime \<Rightarrow> JobRunProposal \<Rightarrow> JobRunRequest" where
  "resolved_request rt proposal = resolve_proposal (rt_default_runtime_ms rt) (rt_max_output_bytes rt) proposal"

text \<open>Under the lifecycle lock: the Job the identity is bound to, or the one that is admitted now.\<close>

definition admitted_or_existing ::
  "runtime \<Rightarrow> JobRunProposal \<Rightarrow> string \<Rightarrow> string option \<Rightarrow> (JobRunRequest \<Rightarrow> string engine) \<Rightarrow> (string \<times> bool) engine" where
  "admitted_or_existing rt proposal digest compatible admit =
     ebind (lock_lifecycle rt) (\<lambda>_.
     ebind (find_idempotent_job_now rt (jp_principal proposal) (jp_client_request_id proposal) digest compatible) (\<lambda>found.
     case found of
       Some existing \<Rightarrow> eret (j_job_id existing, False)
     | None \<Rightarrow>
         (let request = resolved_request rt proposal in
          ebind (elift (validate_run_request_structure (rt_host rt) request)) (\<lambda>_.
          ebind (admit request) (\<lambda>job_id. eret (job_id, True))))))"

definition run_job_proposal :: "runtime \<Rightarrow> JobRunProposal \<Rightarrow> JobObservation engine" where
  "run_job_proposal rt proposal =
     ebind (elift (validate_run_proposal_structure (rt_host rt) proposal)) (\<lambda>_.
     let digest = proposal_request_identity_digest (rt_host rt) proposal in
     ebind (admitted_or_existing rt proposal digest (legacy_request_identity_digest_from_proposal (rt_host rt) proposal)
              (\<lambda>request. ebind (elift (validate_new_admission_policy request (rt_max_runtime_ms rt) (rt_max_output_bytes rt)))
                 (\<lambda>_. admit_new_job rt request digest))) (\<lambda>(job_id, created).
     ebind (if created then ensure_newly_admitted_job_dispatched rt job_id else eret ()) (\<lambda>_.
     observe_admitted_job rt job_id (jp_wait_ms proposal) (jp_stdout_tail_bytes proposal) (jp_stderr_tail_bytes proposal))))"

definition run_job_proposal_with_inputs :: "runtime \<Rightarrow> JobRunProposal \<Rightarrow> InputBindingRequest list \<Rightarrow> JobObservation engine" where
  "run_job_proposal_with_inputs rt proposal inputs =
     ebind (elift (validate_run_proposal_structure (rt_host rt) proposal)) (\<lambda>_.
     ebind (elift (canonical_input_binding_requests inputs)) (\<lambda>inputs.
     let digest = input_bound_proposal_request_identity_digest (rt_host rt) proposal inputs in
     ebind (admitted_or_existing rt proposal digest None
              (\<lambda>request. admit_new_job_with_inputs rt request digest inputs)) (\<lambda>(job_id, _).
     observe_admitted_job rt job_id (jp_wait_ms proposal) (jp_stdout_tail_bytes proposal) (jp_stderr_tail_bytes proposal))))"

definition run_job_proposal_with_credentials ::
  "runtime \<Rightarrow> JobRunProposal \<Rightarrow> CredentialBindingRequest list \<Rightarrow> JobObservation engine" where
  "run_job_proposal_with_credentials rt proposal credentials =
     ebind (elift (credential_proposal_checks (rt_host rt) proposal credentials)) (\<lambda>credentials.
     let digest = credential_bound_proposal_request_identity_digest (rt_host rt) proposal credentials in
     ebind (admitted_or_existing rt proposal digest None
              (\<lambda>request. admit_new_job_with_credentials rt request digest credentials)) (\<lambda>(job_id, _).
     observe_admitted_job rt job_id (jp_wait_ms proposal) (jp_stdout_tail_bytes proposal) (jp_stderr_tail_bytes proposal)))"

section \<open>Runtime releases\<close>

record RuntimeReleaseGetRequest =
  rgr_schema_version :: nat
  rgr_principal :: string
  rgr_client_request_id :: string

record RuntimeReleaseProjection =
  rpj_contract :: RuntimeReleaseContract
  rpj_effect_id :: string
  rpj_client_request_id :: string
  rpj_job_id :: string
  rpj_workspace_id :: string
  rpj_commit :: string
  rpj_candidate_manifest_digest :: string
  rpj_expected_tool_count :: nat
  rpj_effect_disposition :: RuntimeReleaseDisposition
  rpj_effect_terminal :: bool
  rpj_receipt_available :: bool
  rpj_receipt_digest :: "string option"
  rpj_deployed_tool_count :: "nat option"
  rpj_tool_catalog_digest :: "string option"
  rpj_rollback_status :: "string option"
  rpj_reconciliation_issue :: "string option"
  rpj_attempt_state :: "AttemptState option"
  rpj_execution_terminal :: bool
  rpj_execution_disposition :: "JobResolution option"
  rpj_delivery_disposition :: RuntimeDeliveryDisposition
  rpj_recovery_required :: bool
  rpj_semantic_completion_evaluated :: bool

record RuntimeReleaseAdmission =
  rad_replayed :: bool
  rad_release :: RuntimeReleaseProjection

definition runtime_release_projection :: "runtime \<Rightarrow> string \<Rightarrow> RuntimeReleaseEffectBinding \<Rightarrow> RuntimeReleaseProjection engine" where
  "runtime_release_projection rt job_id binding =
     ebind (job_snapshot_now rt job_id) (\<lambda>snapshot.
     ebind (inspect_runtime_release_receipt rt binding snapshot) (\<lambda>receipt.
     let projection = js_projection snapshot in
     eret \<lparr>rpj_contract = rel_contract binding, rpj_effect_id = rel_effect_id binding,
       rpj_client_request_id = j_client_request_id (js_job snapshot), rpj_job_id = j_job_id (js_job snapshot),
       rpj_workspace_id = rel_workspace_id binding, rpj_commit = rel_commit binding,
       rpj_candidate_manifest_digest = rel_candidate_manifest_digest binding,
       rpj_expected_tool_count = rel_expected_tool_count binding, rpj_effect_disposition = rp_disposition receipt,
       rpj_effect_terminal = rp_terminal receipt, rpj_receipt_available = rp_available receipt,
       rpj_receipt_digest = rp_digest receipt, rpj_deployed_tool_count = rp_deployed_tool_count receipt,
       rpj_tool_catalog_digest = rp_tool_catalog_digest receipt, rpj_rollback_status = rp_rollback_status receipt,
       rpj_reconciliation_issue = rp_issue receipt, rpj_attempt_state = map_option a_state (js_attempt snapshot),
       rpj_execution_terminal = jpr_execution_terminal projection,
       rpj_execution_disposition = jpr_execution_disposition projection,
       rpj_delivery_disposition = jpr_delivery_disposition projection,
       rpj_recovery_required = jpr_recovery_required projection, rpj_semantic_completion_evaluated = False\<rparr>))"

text \<open>The release a request identity is bound to, with the error for a Job that has none.\<close>

definition replayed_release :: "runtime \<Rightarrow> RuntimeReleaseRequest \<Rightarrow> string \<Rightarrow> string \<Rightarrow> RuntimeReleaseAdmission option engine" where
  "replayed_release rt request request_digest missing =
     ebind (find_idempotent_job_now rt (rrq_principal request) (rrq_client_request_id request) request_digest None) (\<lambda>found.
     case found of
       None \<Rightarrow> eret None
     | Some job \<Rightarrow>
         ebind (release_effect_now rt (j_job_id job)) (\<lambda>bound.
         ebind (elift (ok_or bound (registry_corrupt missing ''runtimeReleaseEffect''))) (\<lambda>binding.
         ebind (elift (validate_release_binding_matches_request (rt_host rt) binding request)) (\<lambda>_.
         ebind (runtime_release_projection rt (j_job_id job) binding) (\<lambda>release.
         eret (Some \<lparr>rad_replayed = True, rad_release = release\<rparr>))))))"

definition find_runtime_release_for_apply :: "runtime \<Rightarrow> RuntimeReleaseRequest \<Rightarrow> RuntimeReleaseAdmission option engine" where
  "find_runtime_release_for_apply rt request =
     ebind (elift (validate_runtime_release_request request)) (\<lambda>_.
     replayed_release rt request (runtime_release_request_identity_digest (rt_host rt) request)
       ''Runtime Release request identity is missing its release side truth'')"

definition release_binding_for :: "host \<Rightarrow> RuntimeReleaseRequest \<Rightarrow> string \<Rightarrow> RuntimeReleaseEffectBinding" where
  "release_binding_for h request receipt_path =
     \<lparr>rel_contract = RuntimeReleaseV1, rel_effect_id = runtime_release_effect_id h request,
      rel_request_digest = runtime_release_request_identity_digest h request,
      rel_workspace_id = rrq_workspace_id request, rel_commit = rrq_commit request,
      rel_candidate_manifest_digest = rrq_candidate_manifest_digest request,
      rel_expected_tool_count = rrq_expected_tool_count request, rel_receipt_path = lossy_text receipt_path\<rparr>"

definition admit_new_release ::
  "runtime \<Rightarrow> RuntimeReleaseRequest \<Rightarrow> JobRunProposal \<Rightarrow> RuntimeReleaseEffectBinding \<Rightarrow> RuntimeReleaseAdmission engine" where
  "admit_new_release rt request proposal binding =
     (let resolved = resolved_request rt proposal in
      ebind (elift (validate_run_request_structure (rt_host rt) resolved)) (\<lambda>_.
      ebind (elift (validate_new_admission_policy resolved (rt_max_runtime_ms rt) (rt_max_output_bytes rt))) (\<lambda>_.
      ebind (reconcile_recoverable_orphans rt) (\<lambda>_.
      ebind (reconcile_workspace rt (rrq_workspace_id request)) (\<lambda>_.
      ebind (resolve_plan rt resolved) (\<lambda>plan.
      ebind (current_execution_provider_snapshot rt (u_execution_target (jr_execution resolved))) (\<lambda>provider.
      ebind (submit_now rt ((submit_request_for resolved (rel_request_digest binding) provider (Some binding) [] plan)
               \<lparr>sr_client_request_id := rrq_client_request_id request\<rparr>)) (\<lambda>outcome.
      ebind (runtime_release_projection rt (outcome_job_id outcome) binding) (\<lambda>release.
      eret \<lparr>rad_replayed = False, rad_release = release\<rparr>)))))))))"

definition admit_runtime_release_effect ::
  "runtime \<Rightarrow> RuntimeReleaseRequest \<Rightarrow> JobRunProposal \<Rightarrow> string \<Rightarrow> RuntimeReleaseAdmission engine" where
  "admit_runtime_release_effect rt request proposal receipt_path =
     ebind (elift (validate_runtime_release_request request)) (\<lambda>_.
     ebind (elift (validate_run_proposal_structure (rt_host rt) proposal)) (\<lambda>_.
     if jp_client_request_id proposal \<noteq> rrq_client_request_id request \<or> jp_principal proposal \<noteq> rrq_principal request
        \<or> x_workspace_id (jp_execution proposal) \<noteq> rrq_workspace_id request
     then efail (error_invalid ''Runtime Release proposal identity does not match the structured release request'' ''clientRequestId'')
     else if \<not> path_is_absolute receipt_path
     then efail (error_invalid ''Runtime Release receipt path must be absolute'' ''receiptPath'')
     else let binding = release_binding_for (rt_host rt) request receipt_path in
      ebind (lock_lifecycle rt) (\<lambda>_.
      ebind (replayed_release rt request (rel_request_digest binding) ''Runtime Release replay lost its release side truth'') (\<lambda>replayed.
      case replayed of
        Some admission \<Rightarrow> eret admission
      | None \<Rightarrow> admit_new_release rt request proposal binding))))"

definition get_runtime_release_effect :: "runtime \<Rightarrow> RuntimeReleaseGetRequest \<Rightarrow> RuntimeReleaseProjection engine" where
  "get_runtime_release_effect rt request =
     (if rgr_schema_version request \<noteq> RUNTIME_SCHEMA_VERSION
      then efail (error_invalid ''unsupported runtime schema version'' ''schemaVersion'')
      else ebind (registry_read rt (\<lambda>env db. find_runtime_release_effect (rt_host rt) env db (rgr_principal request)
                    (rgr_client_request_id request))) (\<lambda>found. case found of
        None \<Rightarrow> efail (error_new JobNotFound ''Runtime Release effect not found'' (Some ''clientRequestId'') False)
      | Some (job, binding) \<Rightarrow> runtime_release_projection rt (j_job_id job) binding))"

end
