(* ===== verification/Admission_Logic.thy ===== *)
theory Admission_Logic
  imports Engine_Logic Engine_Admission
begin

text \<open>
  The programs of the admission keep what the programs of the engine keep: reading Workspaces and
  materialising sets only ask the world; the submission is a step of the registry the Runtime was opened
  on, which is the one more assumption of the locale \<open>engine_admission\<close>.
\<close>

context engine_asks
begin

lemma emap_keeps [keeps]: "(\<And>x. keeps R (f x)) \<Longrightarrow> keeps R (emap f xs)"
  by (induction xs) (simp_all, (intro keeps; assumption?)+)

end

context engine_moves
begin

lemma universal_fail_keeps [keeps]: "keeps R (universal_fail code message field)"
  unfolding universal_fail_def by (intro keeps)

lemma etry_keeps [keeps]: "keeps R m \<Longrightarrow> keeps R (etry m)"
  unfolding etry_def by (intro keeps)

lemma read_workspace_record_bytes_keeps [keeps]: "keeps R (read_workspace_record_bytes rt p)"
  unfolding read_workspace_record_bytes_def by (intro keeps)

lemma workspace_record_path_matches_identity_keeps [keeps]: "keeps R (workspace_record_path_matches_identity rt w p)"
  unfolding workspace_record_path_matches_identity_def by (intro keeps)

lemma bind_workspace_record_path_keeps [keeps]: "keeps R (bind_workspace_record_path rt w r)"
  unfolding bind_workspace_record_path_def by (intro keeps)

lemma load_workspace_record_metadata_keeps [keeps]: "keeps R (load_workspace_record_metadata rt w)"
  unfolding load_workspace_record_metadata_def by (intro keeps)

lemma load_workspace_record_keeps [keeps]: "keeps R (load_workspace_record rt w)"
  unfolding load_workspace_record_def by (intro keeps)

lemma resolve_existing_workspace_path_keeps [keeps]: "keeps R (resolve_existing_workspace_path rt r p b)"
  unfolding resolve_existing_workspace_path_def by (intro keeps)

lemma resolve_workspace_cwd_keeps [keeps]: "keeps R (resolve_workspace_cwd rt r p field)"
  unfolding resolve_workspace_cwd_def by (intro keeps)

lemma workspace_git_common_dir_at_keeps [keeps]: "keeps R (workspace_git_common_dir_at rt p)"
  unfolding workspace_git_common_dir_at_def by (intro keeps)

lemma validate_executable_keeps [keeps]: "keeps R (validate_executable rt p field)"
  unfolding validate_executable_def by (intro keeps)

lemma canonical_store_root_keeps [keeps]: "keeps R (canonical_store_root rt)"
  unfolding canonical_store_root_def by (intro keeps)

lemma tmp_root_loop_keeps [keeps]: "keeps R (tmp_root_loop rt parent n)"
proof (induction n)
  case 0
  show ?case by (subst tmp_root_loop.simps, intro keeps) simp_all
next
  case (Suc n)
  then show ?case by - (subst tmp_root_loop.simps, intro keeps, simp_all)
qed

lemma tmp_link_loop_keeps [keeps]: "keeps R (tmp_link_loop rt presentation backing n)"
proof (induction n)
  case 0
  show ?case by (subst tmp_link_loop.simps, intro keeps) simp_all
next
  case (Suc n)
  then show ?case by - (subst tmp_link_loop.simps, intro keeps, simp_all)
qed

lemma workspace_tmp_presentation_path_keeps [keeps]: "keeps R (workspace_tmp_presentation_path rt w)"
  unfolding workspace_tmp_presentation_path_def by (intro keeps)

lemma canonical_workspace_tmp_path_keeps [keeps]: "keeps R (canonical_workspace_tmp_path rt w)"
  unfolding canonical_workspace_tmp_path_def by (intro keeps)

lemma ensure_trusted_workspace_tmp_presentation_keeps [keeps]: "keeps R (ensure_trusted_workspace_tmp_presentation rt w)"
  unfolding ensure_trusted_workspace_tmp_presentation_def by (intro keeps)

lemma environment_path_keeps [keeps]: "keeps R (environment_path rt environment name)"
  unfolding environment_path_def by (intro keeps)

lemma execution_environment_keeps [keeps]: "keeps R (execution_environment rt r profile)"
  unfolding execution_environment_def by (intro keeps)

lemma host_dependencies_loop_keeps [keeps]: "keeps R (host_dependencies_loop rt index previous xs)"
  by (induction xs arbitrary: index previous) (simp_all only: host_dependencies_loop.simps, (intro keeps; assumption?)+)

lemma validate_host_dependencies_keeps [keeps]: "keeps R (validate_host_dependencies rt request)"
  unfolding validate_host_dependencies_def by (intro keeps)

lemma windows_base_keeps [keeps]: "keeps R (windows_base rt authority)"
  unfolding windows_base_def by (intro keeps)

lemma resolve_steps_keeps [keeps]: "keeps R (resolve_steps rt r target base index xs)"
  by (induction xs arbitrary: index) (simp_all only: resolve_steps.simps, (intro keeps; assumption?)+)

lemma resolve_plan_keeps [keeps]: "keeps R (resolve_plan rt request)"
  unfolding resolve_plan_def by (intro keeps)

lemma protect_posix_path_keeps [keeps]: "keeps R (protect_posix_path rt p mode operation)"
  unfolding protect_posix_path_def by (intro keeps)

lemma copy_input_and_digest_keeps [keeps]: "keeps R (copy_input_and_digest rt root relative target)"
  unfolding copy_input_and_digest_def by (intro keeps)

lemma open_authority_file_keeps [keeps]: "keeps R (open_authority_file rt root relative index)"
  unfolding open_authority_file_def by (intro keeps)

lemma open_credential_file_keeps [keeps]: "keeps R (open_credential_file rt root name index)"
  unfolding open_credential_file_def by (intro keeps)

lemma staged_materialization_keeps [keeps]:
  "(\<And>staging prepared. keeps R (body staging prepared)) \<Longrightarrow> keeps R (staged_materialization rt kind identity root owned k body)"
  unfolding staged_materialization_def Let_def by (intro keeps)

lemma copy_inputs_keeps [keeps]: "keeps R (copy_inputs rt staging index xs)"
  by (induction xs arbitrary: index) (simp_all only: copy_inputs.simps, (intro keeps; assumption?)+)

lemma materialize_input_bindings_keeps [keeps]: "keeps R (materialize_input_bindings rt request digest k inputs)"
  unfolding materialize_input_bindings_def by (intro keeps)

lemma copy_credentials_keeps [keeps]: "keeps R (copy_credentials rt owner staging index xs)"
  by (induction xs arbitrary: index) (simp_all only: copy_credentials.simps, (intro keeps; assumption?)+)

lemma materialize_credential_bindings_keeps [keeps]: "keeps R (materialize_credential_bindings rt request k credentials)"
  unfolding materialize_credential_bindings_def by (intro keeps)

lemma preallocate_ids_now_keeps [keeps]: "keeps R (preallocate_ids_now rt)"
  unfolding preallocate_ids_now_def by (intro keeps)

lemma find_idempotent_job_now_keeps [keeps]: "keeps R (find_idempotent_job_now rt owner k digest compatible)"
  unfolding find_idempotent_job_now_def by (intro keeps)

lemma lock_lifecycle_keeps [keeps]: "keeps R (lock_lifecycle rt)"
  unfolding lock_lifecycle_def by (intro keeps)

lemma runtime_release_projection_keeps [keeps]: "keeps R (runtime_release_projection rt k binding)"
  unfolding runtime_release_projection_def by (intro keeps)

lemma replayed_release_keeps [keeps]: "keeps R (replayed_release rt request digest missing)"
  unfolding replayed_release_def by (intro keeps)

lemma find_runtime_release_for_apply_keeps [keeps]: "keeps R (find_runtime_release_for_apply rt request)"
  unfolding find_runtime_release_for_apply_def by (intro keeps)

lemma get_runtime_release_effect_keeps [keeps]: "keeps R (get_runtime_release_effect rt request)"
  unfolding get_runtime_release_effect_def by (intro keeps)

end

section \<open>The submission\<close>

locale engine_admission = engine_dispatch +
  assumes own_registry: "cfg = rt_registry rt"
begin

lemma keeps_outcome [keeps]:
  "(\<And>c. keeps R (f c)) \<Longrightarrow> (\<And>j. keeps R (g j)) \<Longrightarrow> keeps R (case x of Created c \<Rightarrow> f c | Existing j \<Rightarrow> g j)"
  by (cases x) simp_all

lemma submit_preallocated_now_keeps [keeps]: "keeps R (submit_preallocated_now rt request ids)"
  unfolding submit_preallocated_now_def own_registry[symmetric]
  by (intro keeps registry_op_keeps rs_submit)

lemma submit_now_keeps [keeps]: "keeps R (submit_now rt request)"
  unfolding submit_now_def by (intro keeps)

lemma submit_with_set_keeps [keeps]:
  "(\<And>k. keeps R (adopt k)) \<Longrightarrow> keeps R discard \<Longrightarrow> keeps R (submit_with_set rt request ids adopt discard)"
  unfolding submit_with_set_def Let_def by (intro keeps)

lemma admit_new_job_keeps [keeps]: "keeps R (admit_new_job rt request digest)"
  unfolding admit_new_job_def by (intro keeps)

lemma admit_new_job_with_inputs_keeps [keeps]: "keeps R (admit_new_job_with_inputs rt request digest inputs)"
  unfolding admit_new_job_with_inputs_def by (intro keeps)

lemma admit_new_job_with_credentials_keeps [keeps]: "keeps R (admit_new_job_with_credentials rt request digest credentials)"
  unfolding admit_new_job_with_credentials_def by (intro keeps)

lemma observe_admitted_job_keeps [keeps]: "keeps R (observe_admitted_job rt k n stdout stderr)"
  unfolding observe_admitted_job_def by (intro keeps)

lemma admitted_or_existing_keeps [keeps]:
  "(\<And>request. keeps R (admit request)) \<Longrightarrow> keeps R (admitted_or_existing rt proposal digest compatible admit)"
  unfolding admitted_or_existing_def by (intro keeps)

lemma run_job_proposal_keeps [keeps]: "keeps R (run_job_proposal rt proposal)"
  unfolding run_job_proposal_def by (intro keeps)

lemma run_job_proposal_with_inputs_keeps [keeps]: "keeps R (run_job_proposal_with_inputs rt proposal inputs)"
  unfolding run_job_proposal_with_inputs_def by (intro keeps)

lemma run_job_proposal_with_credentials_keeps [keeps]: "keeps R (run_job_proposal_with_credentials rt proposal credentials)"
  unfolding run_job_proposal_with_credentials_def by (intro keeps)

lemma admit_new_release_keeps [keeps]: "keeps R (admit_new_release rt request proposal binding)"
  unfolding admit_new_release_def by (intro keeps)

lemma admit_runtime_release_effect_keeps [keeps]: "keeps R (admit_runtime_release_effect rt request proposal receipt)"
  unfolding admit_runtime_release_effect_def by (intro keeps)

end

end
