(* ===== verification/Registry_Storage.thy ===== *)
theory Registry_Storage
  imports Engine_Ownership
begin

text \<open>
  The storage of the registry: opening it, bringing its schema up to date, and the maintenance of the
  indexes and side tables.  The schema is what these steps look at and change, the rows of
  \<open>schema_migrations\<close> and the tables and indexes by name.  The triggers and columns a migration replaces
  and the rows it rewrites are not tracked, so a failure on one of them is among the faults of its
  statement; the rows of the other tables are the subject of the other theories.
\<close>

section \<open>The schema\<close>

record schema_migration =
  sm_version :: int
  sm_name :: string
  sm_checksum :: string
  sm_applied_at_ms :: nat

record schema =
  sc_migrations :: "schema_migration list option"  \<comment> \<open>\<open>None\<close> while the table does not exist\<close>
  sc_objects :: "(string \<times> string) list"              \<comment> \<open>type and name in \<open>sqlite_master\<close>\<close>

text \<open>
  What the host answers: the failure a statement with a given error context meets, how a commit ends,
  the journal mode, the clock, and the error text of a file operation on a path.
\<close>

record storage_env =
  sg_sql :: sql_env
  sg_fault :: "string \<Rightarrow> sql_error option"
  sg_commit :: "string \<Rightarrow> commit_outcome"
  sg_journal_mode :: string
  sg_clock :: "string + nat"
  sg_file :: "string \<Rightarrow> string \<Rightarrow> string option"

type_synonym 'a storage = "schema \<Rightarrow> 'a result \<times> schema"

definition st_lift :: "'a result \<Rightarrow> 'a storage" where
  "st_lift r s = (r, s)"

definition st_bind :: "'a storage \<Rightarrow> ('a \<Rightarrow> 'b storage) \<Rightarrow> 'b storage" where
  "st_bind m f s = (case m s of (Inl e, t) \<Rightarrow> (Inl e, t) | (Inr x, t) \<Rightarrow> f x t)"

primrec st_each :: "('a \<Rightarrow> unit storage) \<Rightarrow> 'a list \<Rightarrow> unit storage" where
  "st_each f [] = st_lift (Inr ())"
| "st_each f (x # xs) = st_bind (f x) (\<lambda>_. st_each f xs)"

definition sql_statement :: "storage_env \<Rightarrow> string \<Rightarrow> unit result" where
  "sql_statement env context = (case sg_fault env context of None \<Rightarrow> Inr () | Some e \<Rightarrow> Inl (from_sql e context))"

text \<open>An immediate transaction: its body works on its own copy of the schema until it commits.\<close>

definition storage_tx :: "storage_env \<Rightarrow> string \<Rightarrow> (schema \<Rightarrow> schema result) \<Rightarrow> string \<Rightarrow> unit storage" where
  "storage_tx env context body commit_context s =
     (case sg_fault env (''cannot begin '' @ context) of
        Some e \<Rightarrow> (Inl (safe_same_request_sql_error e (''cannot begin '' @ context)), s)
      | None \<Rightarrow> (case body s of
          Inl e \<Rightarrow> (Inl e, s)
        | Inr s' \<Rightarrow> (case sg_commit env commit_context of
            CommitDone \<Rightarrow> (Inr (), s')
          | CommitFailed durable e \<Rightarrow> (Inl (from_sql e commit_context), if durable then s' else s)
          | CommitOpen e \<Rightarrow> (Inl (from_sql e commit_context), s))))"

section \<open>Migrations\<close>

record migration =
  mg_version :: int
  mg_name :: string
  mg_checksum :: string
  mg_label :: string
  mg_creates :: "(string \<times> string) list"
  mg_drops :: "(string \<times> string) list"
  mg_drops_if_exists :: "(string \<times> string) list"

definition MIGRATION_V1 :: migration where
  "MIGRATION_V1 = \<lparr>mg_version = 1, mg_name = ''0001_runtime'',
     mg_checksum = ''sha256:9c5e0ccf94b0c3efa9b671a9300cfe00e4539d0c880e6a8df8982df9fa8826ac'',
     mg_label = ''initial migration'',
     mg_creates = map (Pair ''table'') [''schema_migrations'', ''jobs'', ''attempts'', ''idempotency_keys'',
         ''concurrency_reservations'', ''job_events'', ''artifacts'', ''attempt_conditions'']
       @ map (Pair ''index'') [''idx_jobs_created'', ''idx_attempts_nonterminal'', ''idx_events_job_sequence'',
         ''idx_reservations_active''],
     mg_drops = [], mg_drops_if_exists = []\<rparr>"

definition LATER_MIGRATIONS :: "migration list" where
  "LATER_MIGRATIONS =
     [\<lparr>mg_version = 2, mg_name = ''0002_orphan_recovery'',
       mg_checksum = ''sha256:08361881c9f589254e5e9fad089fcbf756bd8613352e995437fb7a616e9ce500'',
       mg_label = ''orphan-recovery migration'', mg_creates = [], mg_drops = [], mg_drops_if_exists = []\<rparr>,
      \<lparr>mg_version = 3, mg_name = ''0003_terminal_repair'',
       mg_checksum = ''sha256:464c9b769dacd10f7302d7a371f5b36a7553eda0b0b112bae35b901d00a67f0d'',
       mg_label = ''terminal-repair migration'', mg_creates = [], mg_drops = [], mg_drops_if_exists = []\<rparr>,
      \<lparr>mg_version = 4, mg_name = ''0004_orphan_reclaim'',
       mg_checksum = ''sha256:b76afbfaf70645b60456b08ad257e5ac2be1f63499f24a555cbf0157791e19ad'',
       mg_label = ''orphan-reclaim migration'', mg_creates = [], mg_drops = [], mg_drops_if_exists = []\<rparr>,
      \<lparr>mg_version = 5, mg_name = ''0005_condition_retirement'',
       mg_checksum = ''sha256:ae8e45dde797715492d383a01a1802c9a4d5a4c2f77042fe40379052eb06d097'',
       mg_label = ''condition-retirement migration'', mg_creates = [], mg_drops = [(''table'', ''attempt_conditions'')],
       mg_drops_if_exists = []\<rparr>,
      \<lparr>mg_version = 6, mg_name = ''0006_workspace_patch_retirement'',
       mg_checksum = ''sha256:90288d85d61bbd67646fd7c86f17280c0e0145aa8aa4c018025f2259c804b890'',
       mg_label = ''workspace-patch-retirement migration'', mg_creates = [],
       mg_drops = [], mg_drops_if_exists = [(''table'', ''workspace_patch_operations'')]\<rparr>]"

definition CONDITION_RETIREMENT_MIGRATION_VERSION :: int where
  "CONDITION_RETIREMENT_MIGRATION_VERSION = 5"

definition MAX_MIGRATION_VERSION :: int where
  "MAX_MIGRATION_VERSION = 6"

definition show_int :: "int \<Rightarrow> string" where
  "show_int v = (if v < 0 then ''-'' @ show_nat (nat (- v)) else show_nat (nat v))"

text \<open>
  The batch fails on a table or index that exists already, and on a table to drop that does not exist.
  The row follows in \<open>schema_migrations\<close>, whose table exists once the first batch ran.
\<close>

definition migration_conflict :: "migration \<Rightarrow> schema \<Rightarrow> sql_error option" where
  "migration_conflict m s =
     (case find (\<lambda>x. x \<in> set (sc_objects s)) (mg_creates m) of
        Some (kind, name) \<Rightarrow> Some (SqliteFailure OtherSqliteCode (kind @ '' '' @ name @ '' already exists''))
      | None \<Rightarrow> (case find (\<lambda>x. x \<notin> set (sc_objects s)) (mg_drops m) of
          Some (kind, name) \<Rightarrow> Some (SqliteFailure OtherSqliteCode (''no such '' @ kind @ '': '' @ name))
        | None \<Rightarrow> None))"

definition migration_body :: "storage_env \<Rightarrow> migration \<Rightarrow> schema \<Rightarrow> schema result" where
  "migration_body env m s =
     rbind (sql_statement env (''cannot apply '' @ mg_label m)) (\<lambda>_.
     rbind (case migration_conflict m s of None \<Rightarrow> Inr () | Some e \<Rightarrow> Inl (from_sql e (''cannot apply '' @ mg_label m))) (\<lambda>_.
     rbind (now_ms (sg_clock env)) (\<lambda>at.
     rbind (sql_statement env (''cannot record '' @ mg_label m)) (\<lambda>_.
     Inr (s\<lparr>sc_migrations := Some ((case sc_migrations s of None \<Rightarrow> [] | Some rows \<Rightarrow> rows)
              @ [\<lparr>sm_version = mg_version m, sm_name = mg_name m, sm_checksum = mg_checksum m, sm_applied_at_ms = at\<rparr>]),
            sc_objects := filter (\<lambda>x. x \<notin> set (mg_drops m @ mg_drops_if_exists m)) (sc_objects s) @ mg_creates m\<rparr>)))))"

definition run_migration :: "storage_env \<Rightarrow> migration \<Rightarrow> unit storage" where
  "run_migration env m = storage_tx env (mg_label m) (migration_body env m) (''cannot commit '' @ mg_label m)"

definition validate_migration_checksum :: "storage_env \<Rightarrow> migration \<Rightarrow> unit storage" where
  "validate_migration_checksum env m s =
     (rbind (sql_statement env ''cannot read migration checksum'') (\<lambda>_.
      case find (\<lambda>row. sm_version row = mg_version m) (case sc_migrations s of None \<Rightarrow> [] | Some rows \<Rightarrow> rows) of
        None \<Rightarrow> Inl (error_new RegistryCorrupt (''required '' @ mg_label m @ '' is missing'') None False)
      | Some row \<Rightarrow>
          if sm_checksum row \<noteq> mg_checksum m
          then Inl (error_new MigrationChecksumMismatch
                 (mg_label m @ '' checksum does not match the compiled migration'') None False)
          else Inr ()), s)"

definition max_version :: "schema \<Rightarrow> int option" where
  "max_version s =
     (case sc_migrations s of
        None \<Rightarrow> None
      | Some rows \<Rightarrow> if rows = [] then None else Some (fold max (map sm_version rows) (sm_version (hd rows))))"

definition later_migration :: "storage_env \<Rightarrow> int \<Rightarrow> migration \<Rightarrow> unit storage" where
  "later_migration env found m =
     st_bind (if found < mg_version m then run_migration env m else st_lift (Inr ())) (\<lambda>_. validate_migration_checksum env m)"

definition supported_version :: "int option \<Rightarrow> int result" where
  "supported_version found =
     (case found of
        None \<Rightarrow> Inl (error_new RegistryCorrupt ''schema_migrations is empty'' None False)
      | Some v \<Rightarrow>
          if v > MAX_MIGRATION_VERSION
          then Inl (error_new SchemaVersionUnsupported (''registry schema '' @ show_int v @ '' is newer than supported ''
                 @ show_int MAX_MIGRATION_VERSION) None False)
          else Inr v)"

definition apply_migrations :: "storage_env \<Rightarrow> unit storage" where
  "apply_migrations env =
     st_bind (st_lift (sql_statement env ''cannot inspect schema migrations'')) (\<lambda>_.
     st_bind (\<lambda>s. (Inr (sc_migrations s \<noteq> None), s)) (\<lambda>has_table.
     st_bind (if has_table then st_lift (Inr ()) else run_migration env MIGRATION_V1) (\<lambda>_.
     st_bind (st_lift (sql_statement env ''cannot read migration version'')) (\<lambda>_.
     st_bind (\<lambda>s. (supported_version (max_version s), s)) (\<lambda>found.
     st_bind (validate_migration_checksum env MIGRATION_V1) (\<lambda>_.
     st_each (later_migration env found) LATER_MIGRATIONS))))))"

section \<open>Indexes and side tables\<close>

definition REDUNDANT_EVENT_SEQUENCE_INDEX :: string where
  "REDUNDANT_EVENT_SEQUENCE_INDEX = ''idx_events_job_sequence''"

definition create_if_missing :: "string \<times> string \<Rightarrow> schema \<Rightarrow> schema" where
  "create_if_missing x s = (if x \<in> set (sc_objects s) then s else s\<lparr>sc_objects := sc_objects s @ [x]\<rparr>)"

definition drop_if_exists :: "string \<times> string \<Rightarrow> schema \<Rightarrow> schema" where
  "drop_if_exists x s = s\<lparr>sc_objects := filter (\<lambda>y. y \<noteq> x) (sc_objects s)\<rparr>"

definition verify_object :: "storage_env \<Rightarrow> string \<Rightarrow> string \<Rightarrow> string \<times> string \<Rightarrow> bool \<Rightarrow> unit storage" where
  "verify_object env context message x expected s =
     (rbind (sql_statement env context) (\<lambda>_.
      if (x \<in> set (sc_objects s)) \<noteq> expected then Inl (error_new RegistryCorrupt message None False) else Inr ()), s)"

definition QUERY_INDEXES :: "(string \<times> string) list" where
  "QUERY_INDEXES = [(''idx_jobs_client_request_id_created'', ''Job client request lookup index''),
     (''idx_jobs_workspace_created'', ''Job Workspace lookup index''), (''idx_artifacts_job'', ''Artifact Job lookup index'')]"

definition query_indexes_body :: "storage_env \<Rightarrow> schema \<Rightarrow> schema result" where
  "query_indexes_body env s =
     rbind (sql_statement env ''cannot drop redundant Job event lookup index'') (\<lambda>_.
     fold_res (\<lambda>(index, what) s. rbind (sql_statement env (''cannot ensure '' @ what)) (\<lambda>_.
        Inr (create_if_missing (''index'', index) s)))
       QUERY_INDEXES (drop_if_exists (''index'', REDUNDANT_EVENT_SEQUENCE_INDEX) s))"

definition ensure_query_indexes :: "storage_env \<Rightarrow> unit storage" where
  "ensure_query_indexes env =
     st_bind (storage_tx env ''Runtime query index maintenance'' (query_indexes_body env)
                ''cannot commit Runtime query index maintenance'') (\<lambda>_.
     st_bind (verify_object env ''cannot verify redundant Job event lookup index removal''
                ''redundant Job event lookup index remains after maintenance'' (''index'', REDUNDANT_EVENT_SEQUENCE_INDEX) False) (\<lambda>_.
     st_each (\<lambda>(index, what). verify_object env (''cannot verify '' @ what) (what @ '' is missing after maintenance'')
        (''index'', index) True) QUERY_INDEXES))"

text \<open>The four side tables are ensured in the same way; the last one has an index and its own message.\<close>

definition ensure_storage :: "storage_env \<Rightarrow> string \<Rightarrow> (string \<times> string) list \<Rightarrow> (string \<times> string \<Rightarrow> string) \<Rightarrow> unit storage" where
  "ensure_storage env what objects message =
     st_bind (storage_tx env (what @ '' storage maintenance'')
                (\<lambda>s. rbind (sql_statement env (''cannot ensure '' @ what @ '' storage'')) (\<lambda>_.
                   Inr (fold create_if_missing objects s)))
                (''cannot commit '' @ what @ '' storage maintenance'')) (\<lambda>_.
     st_each (\<lambda>x. verify_object env (''cannot verify '' @ what @ '' storage'') (message x) x True) objects)"

definition ensure_execution_provider_storage :: "storage_env \<Rightarrow> unit storage" where
  "ensure_execution_provider_storage env =
     ensure_storage env ''Execution Provider'' [(''table'', ''job_execution_providers'')]
       (\<lambda>_. ''Execution Provider storage is missing after maintenance'')"

definition ensure_attempt_supervisor_owner_storage :: "storage_env \<Rightarrow> unit storage" where
  "ensure_attempt_supervisor_owner_storage env =
     ensure_storage env ''Attempt Supervisor Owner'' [(''table'', ''attempt_supervisor_owners'')]
       (\<lambda>_. ''Attempt Supervisor Owner storage is missing after maintenance'')"

definition ensure_host_dependency_storage :: "storage_env \<Rightarrow> unit storage" where
  "ensure_host_dependency_storage env =
     ensure_storage env ''Host Dependency'' [(''table'', ''job_host_dependencies'')]
       (\<lambda>_. ''Host Dependency storage is missing after maintenance'')"

definition ensure_runtime_release_storage :: "storage_env \<Rightarrow> unit storage" where
  "ensure_runtime_release_storage env =
     ensure_storage env ''Runtime Release''
       [(''table'', ''job_runtime_release_effects''), (''index'', ''idx_runtime_release_effect_request'')]
       (\<lambda>(kind, name). ''Runtime Release '' @ kind @ '' '' @ name @ '' is missing after maintenance'')"

section \<open>Opening the registry\<close>

definition storage_file :: "storage_env \<Rightarrow> string \<Rightarrow> string \<Rightarrow> string \<Rightarrow> unit result" where
  "storage_file env operation path field =
     (case sg_file env operation path of
        None \<Rightarrow> Inr ()
      | Some error \<Rightarrow> Inl (error_new IoError (''cannot '' @ operation @ '' '' @ path @ '': '' @ error) (Some field) False))"

definition create_private_directory :: "storage_env \<Rightarrow> string \<Rightarrow> unit result" where
  "create_private_directory env path =
     rbind (storage_file env ''create'' path ''storeRoot'') (\<lambda>_. storage_file env ''protect'' path ''storeRoot'')"

definition set_private_file :: "storage_env \<Rightarrow> string \<Rightarrow> unit result" where
  "set_private_file env path = storage_file env ''protect'' path ''dbPath''"

definition prepare_store :: "storage_env \<Rightarrow> RegistryConfig \<Rightarrow> unit result" where
  "prepare_store env cfg =
     rbind (registry_config_validate cfg) (\<lambda>_.
     rbind (create_private_directory env (rc_store_root cfg)) (\<lambda>_.
     rbind (create_private_directory env (attempts_root cfg)) (\<lambda>_.
     rbind (case sg_file env ''open'' (admission_fence_path cfg) of
              None \<Rightarrow> Inr ()
            | Some error \<Rightarrow> Inl (error_new RegistryUnavailable (''cannot open admission fence: '' @ error) None False)) (\<lambda>_.
     rbind (set_private_file env (admission_fence_path cfg)) (\<lambda>_.
     case path_parent (rc_db_path cfg) of None \<Rightarrow> Inr () | Some parent \<Rightarrow> create_private_directory env parent)))))"

definition ensure_wal_mode :: "storage_env \<Rightarrow> unit result" where
  "ensure_wal_mode env =
     rbind (sql_statement env ''cannot enable WAL mode'') (\<lambda>_.
     if \<not> eq_ignore_ascii_case (sg_journal_mode env) ''wal''
     then Inl (error_new RegistryUnavailable (''SQLite refused WAL mode and returned '' @ sg_journal_mode env) None False)
     else Inr ())"

definition registry_initialize :: "storage_env \<Rightarrow> RegistryConfig \<Rightarrow> unit storage" where
  "registry_initialize env cfg =
     st_bind (st_lift (prepare_store env cfg)) (\<lambda>_.
     st_bind (st_lift (open_connection (sg_sql env))) (\<lambda>_.
     st_bind (st_lift (ensure_wal_mode env)) (\<lambda>_.
     st_bind (apply_migrations env) (\<lambda>_.
     st_bind (ensure_query_indexes env) (\<lambda>_.
     st_bind (ensure_execution_provider_storage env) (\<lambda>_.
     st_bind (ensure_attempt_supervisor_owner_storage env) (\<lambda>_.
     st_bind (ensure_host_dependency_storage env) (\<lambda>_.
     st_bind (ensure_runtime_release_storage env) (\<lambda>_.
     st_lift (set_private_file env (rc_db_path cfg)))))))))))"

end
