(* ===== verification/Runtime_Doctor.thy ===== *)
theory Runtime_Doctor
  imports Registry_Storage Engine_Admission "HOL-Library.Option_ord"
begin

text \<open>
  The Doctor: a read-only inspection of the registry that lists its invariant violations, proposes a
  repair for each Attempt they name and sums up the store.  It reads one snapshot of the database and
  looks at the result files of the Attempts it reports.
\<close>

section \<open>Reports\<close>

record RuntimeDoctorConfig =
  dc_db_path :: string
  dc_store_root :: string
  dc_busy_timeout_ms :: nat

record RuntimeDoctorCapacityHolder =
  dh_job_id :: string
  dh_workspace_id :: string
  dh_attempt_id :: string
  dh_attempt_state :: AttemptState
  dh_reservation_state :: ReservationState
  dh_recovery_required :: bool

record RuntimeDoctorSummary =
  ds_status :: string
  ds_jobs_total :: nat
  ds_unresolved_jobs :: nat
  ds_attempts_by_state :: "(string \<times> nat) list"
  ds_reservations_by_state :: "(string \<times> nat) list"
  ds_recovery_required_attempts :: nat
  ds_artifacts_total :: nat
  ds_artifact_bytes :: nat
  ds_capacity_holders :: "RuntimeDoctorCapacityHolder list"
  ds_capacity_holders_truncated :: bool

record RuntimeDoctorJobState =
  dj_job_id :: string
  dj_workspace_id :: string
  dj_resolution :: "JobResolution option"
  dj_current_attempt_id :: "string option"
  dj_row_version :: nat

record RuntimeDoctorAttemptState =
  da_attempt_id :: string
  da_state :: AttemptState
  da_termination_intent :: AttemptTerminationIntent
  da_result_digest :: "string option"
  da_exit_code :: "int option"
  da_finished_at_ms :: "nat option"
  da_row_version :: nat

record RuntimeDoctorReservationState =
  dr_reservation_id :: string
  dr_state :: ReservationState
  dr_released_at_ms :: "nat option"
  dr_release_reason :: "string option"

datatype RuntimeDoctorProposal =
    RecoverRunnerResult TerminalCommit
  | ReleaseTerminalReservation
  | NoRepairNeeded
  | ManualReview "string list"

record RuntimeDoctorCase =
  case_job :: RuntimeDoctorJobState
  case_attempt :: RuntimeDoctorAttemptState
  case_reservation :: RuntimeDoctorReservationState
  case_violation_codes :: "string list"
  case_runner_result_present :: bool
  case_control_result_present :: bool
  case_fingerprint_text :: string
  case_proposal :: RuntimeDoctorProposal

record RuntimeDoctorReport =
  rep_schema_version :: nat
  rep_generated_at_ms :: nat
  rep_database_path :: string
  rep_store_root :: string
  rep_migration_version :: int
  rep_integrity_check :: string
  rep_fingerprint :: string
  rep_summary :: RuntimeDoctorSummary
  rep_violation_count :: nat
  rep_violations :: "RuntimeInvariantViolation list"
  rep_cases :: "RuntimeDoctorCase list"

definition RUNTIME_DOCTOR_SCHEMA_VERSION :: nat where
  "RUNTIME_DOCTOR_SCHEMA_VERSION = 2"

definition MAX_DOCTOR_CAPACITY_HOLDERS :: nat where
  "MAX_DOCTOR_CAPACITY_HOLDERS = 50"

section \<open>What the tools ask besides the engine's questions\<close>

text \<open>
  The failure a statement on a read-only connection meets; what the checks of SQLite answer for a
  database file; the schema and the conditions of schemas before the fifth; the registry in a backup
  file; and the JSON the tools print and read (\<open>serde_json\<close>).
\<close>

record RecoveryState =
  rcs_required :: bool
  rcs_reason_code :: "string option"
  rcs_evidence_digest :: "string option"
  rcs_observed_at_ms :: "nat option"

record AdminRepairReceipt =
  rcp_schema_version :: nat
  rcp_report_fingerprint :: string
  rcp_case_fingerprint :: string
  rcp_snapshot_path :: string
  rcp_snapshot_digest :: string
  rcp_principal :: string
  rcp_action :: string
  rcp_job_id :: string
  rcp_attempt_id :: string
  rcp_observed_at_ms :: nat

record BackupFile =
  bf_path :: string
  bf_bytes :: nat
  bf_digest :: string

record attempt_condition =
  acn_attempt_id :: string
  acn_condition_type :: string
  acn_status :: string

record doctor_world =
  dw_fault :: "nat \<Rightarrow> string \<Rightarrow> sql_error option"
  dw_integrity :: "nat \<Rightarrow> string \<Rightarrow> string"
  dw_foreign_key :: "nat \<Rightarrow> string option"
  dw_schema :: "nat \<Rightarrow> schema"
  dw_conditions :: "nat \<Rightarrow> attempt_condition list"
  dw_backup :: "nat \<Rightarrow> string \<Rightarrow> registry"
  dw_storage :: "nat \<Rightarrow> storage_env"
  dw_case_print :: "RuntimeDoctorCase \<Rightarrow> string"
  dw_report_print :: "RuntimeDoctorReport \<Rightarrow> string"
  dw_receipt_print :: "AdminRepairReceipt \<Rightarrow> string"
  dw_stale_cancel_print :: "string \<Rightarrow> string \<Rightarrow> string \<Rightarrow> string \<Rightarrow> AttemptRecord \<Rightarrow> RecoveryState \<Rightarrow> nat \<Rightarrow> string"
  dw_manifest_parse :: "string \<Rightarrow> string + BackupFile list"

definition doctor_statement :: "doctor_world \<Rightarrow> runtime \<Rightarrow> string \<Rightarrow> unit engine" where
  "doctor_statement w rt context =
     ask_result rt (\<lambda>_ t. case dw_fault w t context of None \<Rightarrow> Inr () | Some e \<Rightarrow> Inl (from_sql e context))"

definition doctor_now_ms :: "runtime \<Rightarrow> nat engine" where
  "doctor_now_ms rt =
     ask_result rt (\<lambda>i t. case io_clock i t of
        Inl message \<Rightarrow> Inl (error_new IoError (''system clock precedes Unix epoch: '' @ message) None False)
      | Inr millis \<Rightarrow> if millis < 2 ^ 64 then Inr millis
          else Inl (error_new IoError ''system time exceeds Runtime range'' None False))"

section \<open>The summary\<close>

definition count_query :: "doctor_world \<Rightarrow> runtime \<Rightarrow> string \<Rightarrow> nat \<Rightarrow> nat engine" where
  "count_query w rt context n = ebind (doctor_statement w rt context) (\<lambda>_. eret n)"

definition grouped_counts :: "doctor_world \<Rightarrow> runtime \<Rightarrow> string \<Rightarrow> string list \<Rightarrow> (string \<times> nat) list engine" where
  "grouped_counts w rt context states =
     ebind (doctor_statement w rt context) (\<lambda>_.
     eret (map (\<lambda>state. (state, length (filter (\<lambda>s. s = state) states))) (sort (remdups states))))"

definition recovery_condition :: "attempt_condition \<Rightarrow> bool" where
  "recovery_condition c \<longleftrightarrow> acn_condition_type c = ''recovery_required'' \<and> acn_status c = ''true''"

definition recovery_required_count :: "int \<Rightarrow> attempt_condition list \<Rightarrow> registry \<Rightarrow> nat" where
  "recovery_required_count migration_version conditions db =
     (if migration_version \<ge> CONDITION_RETIREMENT_MIGRATION_VERSION
      then length (filter recovery_active (attempts db))
      else length (filter recovery_condition conditions))"

text \<open>\<open>... ORDER BY r.acquired_at_ms, j.job_id LIMIT ?1\<close>\<close>

definition capacity_holder_rows :: "int \<Rightarrow> attempt_condition list \<Rightarrow> registry \<Rightarrow> RuntimeDoctorCapacityHolder list" where
  "capacity_holder_rows migration_version conditions db =
     map snd (take (MAX_DOCTOR_CAPACITY_HOLDERS + 1) (sort_key fst
       [((r_acquired_at_ms r, j_job_id j),
         \<lparr>dh_job_id = j_job_id j, dh_workspace_id = j_workspace_id j, dh_attempt_id = a_attempt_id a,
          dh_attempt_state = a_state a, dh_reservation_state = r_state r,
          dh_recovery_required =
            (if migration_version \<ge> CONDITION_RETIREMENT_MIGRATION_VERSION then recovery_active a
             else list_ex (\<lambda>c. acn_attempt_id c = a_attempt_id a \<and> recovery_condition c) conditions)\<rparr>).
        r \<leftarrow> reservations db, a \<leftarrow> attempts db, j \<leftarrow> jobs db,
        a_attempt_id a = r_attempt_id r \<and> j_job_id j = a_job_id a \<and> r_state r \<in> {Active, HeldOrphaned}]))"

definition inspect_summary ::
  "doctor_world \<Rightarrow> runtime \<Rightarrow> registry \<Rightarrow> attempt_condition list \<Rightarrow> int \<Rightarrow> RuntimeDoctorSummary engine" where
  "inspect_summary w rt db conditions migration_version =
     ebind (count_query w rt ''count Jobs'' (length (jobs db))) (\<lambda>jobs_total.
     ebind (count_query w rt ''count unresolved Jobs'' (length (filter (\<lambda>j. j_resolution j = None) (jobs db)))) (\<lambda>unresolved_jobs.
     ebind (count_query w rt ''count recovery-required Attempts''
              (recovery_required_count migration_version conditions db)) (\<lambda>recovery_required_attempts.
     ebind (count_query w rt ''count Artifacts'' (length (artifacts db))) (\<lambda>artifacts_total.
     ebind (count_query w rt ''sum Artifact bytes'' (sum_list (map art_byte_length (artifacts db)))) (\<lambda>artifact_bytes.
     ebind (grouped_counts w rt ''count Attempts by state'' (map (\<lambda>a. state_as_db (a_state a)) (attempts db))) (\<lambda>attempts_by_state.
     ebind (grouped_counts w rt ''count reservations by state''
              (map (\<lambda>r. reservation_as_db (r_state r)) (reservations db))) (\<lambda>reservations_by_state.
     ebind (doctor_statement w rt ''prepare capacity-holder summary'') (\<lambda>_.
     ebind (doctor_statement w rt ''query capacity-holder summary'') (\<lambda>_.
     ebind (emap (\<lambda>row. ebind (doctor_statement w rt ''decode capacity-holder summary'') (\<lambda>_. eret row))
              (capacity_holder_rows migration_version conditions db)) (\<lambda>capacity_holders.
     eret \<lparr>ds_status = [], ds_jobs_total = jobs_total, ds_unresolved_jobs = unresolved_jobs,
           ds_attempts_by_state = attempts_by_state, ds_reservations_by_state = reservations_by_state,
           ds_recovery_required_attempts = recovery_required_attempts, ds_artifacts_total = artifacts_total,
           ds_artifact_bytes = artifact_bytes,
           ds_capacity_holders = take MAX_DOCTOR_CAPACITY_HOLDERS capacity_holders,
           ds_capacity_holders_truncated = (length capacity_holders > MAX_DOCTOR_CAPACITY_HOLDERS)\<rparr>))))))))))"

section \<open>Proposals\<close>

fun doctor_resolution_for_state :: "AttemptState \<Rightarrow> JobResolution option" where
  "doctor_resolution_for_state Succeeded = Some ResSucceeded"
| "doctor_resolution_for_state Failed = Some ResFailed"
| "doctor_resolution_for_state TimedOut = Some ResTimedOut"
| "doctor_resolution_for_state Cancelled = Some ResCancelled"
| "doctor_resolution_for_state Lost = Some ResLost"
| "doctor_resolution_for_state Orphaned = Some ResOrphaned"
| "doctor_resolution_for_state _ = None"

definition reservation_target :: "AttemptState \<Rightarrow> ReservationState" where
  "reservation_target state = (if state = Orphaned then HeldOrphaned else Released)"

definition terminal_matches :: "RuntimeJobRecord \<Rightarrow> AttemptRecord \<Rightarrow> TerminalCommit \<Rightarrow> bool" where
  "terminal_matches job attempt terminal \<longleftrightarrow>
     a_state attempt = tc_state terminal \<and> a_result_digest attempt = Some (tc_result_digest terminal)
     \<and> a_finished_at_ms attempt = Some (tc_finished_at_ms terminal) \<and> a_exit_code attempt = tc_exit_code terminal
     \<and> j_resolution job = doctor_resolution_for_state (tc_state terminal) \<and> j_current_attempt_id job = None"

definition evidence_complete :: "RuntimeJobRecord \<Rightarrow> AttemptRecord \<Rightarrow> bool" where
  "evidence_complete job attempt \<longleftrightarrow>
     is_terminal (a_state attempt) \<and> a_result_digest attempt \<noteq> None \<and> a_finished_at_ms attempt \<noteq> None
     \<and> j_resolution job = doctor_resolution_for_state (a_state attempt) \<and> j_current_attempt_id job = None"

definition review_reasons :: "RuntimeJobRecord \<Rightarrow> AttemptRecord \<Rightarrow> string list" where
  "review_reasons job attempt =
     (if \<not> is_terminal (a_state attempt) then [''Attempt is not terminal''] else [])
     @ (if a_result_digest attempt = None then [''terminal result digest is missing''] else [])
     @ (if a_finished_at_ms attempt = None then [''terminal finish time is missing''] else [])
     @ (if j_resolution job \<noteq> doctor_resolution_for_state (a_state attempt)
        then [''Job resolution does not match Attempt state''] else [])
     @ (if j_current_attempt_id job \<noteq> None then [''resolved Job still retains current_attempt_id''] else [])
     @ [''Runner result bundle is absent'']"

definition propose_repair ::
  "runtime \<Rightarrow> RuntimeJobRecord \<Rightarrow> AttemptRecord \<Rightarrow> ReservationRecord \<Rightarrow> bool \<Rightarrow> RuntimeDoctorProposal engine" where
  "propose_repair rt job attempt reservation result_present =
     (if result_present
      then ematch (prepare_runner_terminal_from_bundle rt attempt)
        (\<lambda>error. eret (ManualReview [error_code_as_str (err_code error) @ '': '' @ err_message error]))
        (\<lambda>terminal. eret
           (if terminal_matches job attempt terminal \<and> r_state reservation = reservation_target (tc_state terminal)
            then NoRepairNeeded
            else if terminal_matches job attempt terminal then ReleaseTerminalReservation
            else RecoverRunnerResult terminal))
      else eret
        (if evidence_complete job attempt
         then if r_state reservation = reservation_target (a_state attempt) then NoRepairNeeded else ReleaseTerminalReservation
         else ManualReview (review_reasons job attempt)))"

section \<open>Cases\<close>

text \<open>The seven fields the fingerprint of a case covers; the printer is given the case without it.\<close>

definition case_fingerprint :: "doctor_world \<Rightarrow> runtime \<Rightarrow> RuntimeDoctorCase \<Rightarrow> string" where
  "case_fingerprint w rt c = sha256_bytes (rt_host rt) (dw_case_print w (c\<lparr>case_fingerprint_text := []\<rparr>))"

definition job_state :: "RuntimeJobRecord \<Rightarrow> RuntimeDoctorJobState" where
  "job_state job = \<lparr>dj_job_id = j_job_id job, dj_workspace_id = j_workspace_id job, dj_resolution = j_resolution job,
     dj_current_attempt_id = j_current_attempt_id job, dj_row_version = j_row_version job\<rparr>"

definition attempt_state :: "AttemptRecord \<Rightarrow> RuntimeDoctorAttemptState" where
  "attempt_state attempt = \<lparr>da_attempt_id = a_attempt_id attempt, da_state = a_state attempt,
     da_termination_intent = a_termination_intent attempt, da_result_digest = a_result_digest attempt,
     da_exit_code = a_exit_code attempt, da_finished_at_ms = a_finished_at_ms attempt, da_row_version = a_row_version attempt\<rparr>"

definition reservation_state :: "ReservationRecord \<Rightarrow> RuntimeDoctorReservationState" where
  "reservation_state reservation = \<lparr>dr_reservation_id = r_reservation_id reservation, dr_state = r_state reservation,
     dr_released_at_ms = r_released_at_ms reservation, dr_release_reason = r_release_reason reservation\<rparr>"

definition by_attempt :: "RuntimeInvariantViolation list \<Rightarrow> (string \<times> string list) list" where
  "by_attempt violations =
     map (\<lambda>k. (k, sort (remdups (map v_code (filter (\<lambda>v. v_attempt_id v = Some k) violations)))))
       (sort (remdups (List.map_filter v_attempt_id violations)))"

definition doctor_case ::
  "doctor_world \<Rightarrow> runtime \<Rightarrow> RuntimeDoctorConfig \<Rightarrow> registry \<Rightarrow> string \<times> string list \<Rightarrow> RuntimeDoctorCase engine" where
  "doctor_case w rt cfg db entry =
     (let attempt_id = fst entry in
      ebind (elift (load_attempt db attempt_id)) (\<lambda>attempt.
      ebind (elift (load_job db (a_job_id attempt))) (\<lambda>job.
      ebind (elift (load_reservation db attempt_id)) (\<lambda>reservation.
      let expected_bundle = path_join (path_join (dc_store_root cfg) ''attempts'') (a_attempt_id attempt);
          trusted = same_path (a_bundle_path attempt) expected_bundle in
      ebind (if trusted then path_is_file rt (path_join expected_bundle RESULT_FILE) else eret False) (\<lambda>runner_result_present.
      ebind (if trusted then path_is_file rt (path_join expected_bundle ''control-result.json'') else eret False) (\<lambda>control_result_present.
      ebind (if trusted then propose_repair rt job attempt reservation runner_result_present
             else eret (ManualReview [''Attempt bundle path is outside the canonical Registry store''])) (\<lambda>proposal.
      let found = \<lparr>case_job = job_state job, case_attempt = attempt_state attempt, case_reservation = reservation_state reservation,
            case_violation_codes = snd entry, case_runner_result_present = runner_result_present,
            case_control_result_present = control_result_present, case_fingerprint_text = [], case_proposal = proposal\<rparr> in
      eret (found\<lparr>case_fingerprint_text := case_fingerprint w rt found\<rparr>))))))))"

section \<open>The inspection\<close>

definition doctor_validate_config :: "runtime \<Rightarrow> RuntimeDoctorConfig \<Rightarrow> unit engine" where
  "doctor_validate_config rt cfg =
     ebind (elift (registry_config_validate
       \<lparr>rc_db_path = dc_db_path cfg, rc_store_root = dc_store_root cfg, rc_busy_timeout_ms = dc_busy_timeout_ms cfg\<rparr>)) (\<lambda>_.
     ebind (path_is_file rt (dc_db_path cfg)) (\<lambda>regular.
     if \<not> regular then efail (error_invalid ''database must be an existing regular file'' ''database'') else eret ()))"

definition doctor_migration_version :: "schema \<Rightarrow> int result" where
  "doctor_migration_version s =
     (case max_version s of
        None \<Rightarrow> Inl (from_sql (OtherSqlError ''Invalid column type Null at index: 0, name: MAX(version)'')
                  ''cannot read Registry migration version'')
      | Some v \<Rightarrow>
          if v > MAX_MIGRATION_VERSION
          then Inl (error_new SchemaVersionUnsupported (''Registry schema '' @ show_int v @ '' is newer than supported ''
                 @ show_int MAX_MIGRATION_VERSION) None False)
          else Inr v)"

text \<open>Opening the read-only connection, its settings and checks, up to the supported schema version.\<close>

definition doctor_checks :: "doctor_world \<Rightarrow> runtime \<Rightarrow> RuntimeDoctorConfig \<Rightarrow> (string \<times> int \<times> attempt_condition list) engine" where
  "doctor_checks w rt cfg =
     ebind (eforeach (doctor_statement w rt)
       [''cannot open Runtime Registry read-only'', ''cannot set Doctor busy timeout'', ''cannot enable Doctor query-only mode'',
        ''cannot disable trusted schema'', ''cannot begin Doctor read snapshot'', ''cannot run Registry integrity check'']) (\<lambda>_.
     ebind (ask rt (\<lambda>_ t. dw_integrity w t (dc_db_path cfg))) (\<lambda>integrity_check.
     if integrity_check \<noteq> ''ok''
     then efail (error_new RegistryCorrupt (''Registry integrity check returned '' @ integrity_check) None False)
     else
     ebind (doctor_statement w rt ''cannot run Registry foreign key check'') (\<lambda>_.
     ebind (ask rt (\<lambda>_ t. dw_foreign_key w t)) (\<lambda>foreign_key_problem.
     case foreign_key_problem of
       Some table \<Rightarrow> efail (error_new RegistryCorrupt (''Registry foreign key violation in '' @ table) None False)
     | None \<Rightarrow>
         ebind (doctor_statement w rt ''cannot read Registry migration version'') (\<lambda>_.
         ebind (ask rt (\<lambda>_ t. (dw_schema w t, dw_conditions w t))) (\<lambda>(schema, conditions).
         ebind (elift (doctor_migration_version schema)) (\<lambda>migration_version.
         eret (integrity_check, migration_version, conditions))))))))"

definition doctor_status :: "RuntimeInvariantViolation list \<Rightarrow> RuntimeDoctorSummary \<Rightarrow> string" where
  "doctor_status violations summary =
     (if violations = [] \<and> ds_recovery_required_attempts summary = 0
         \<and> (case map_of (ds_reservations_by_state summary) ''held_orphaned'' of None \<Rightarrow> 0 | Some n \<Rightarrow> n) = 0
      then ''healthy'' else ''attention'')"

text \<open>The printer of the report's fingerprint is given the report without time and fingerprint.\<close>

definition inspect_runtime :: "doctor_world \<Rightarrow> runtime \<Rightarrow> RuntimeDoctorConfig \<Rightarrow> RuntimeDoctorReport engine" where
  "inspect_runtime w rt cfg =
     ebind (doctor_validate_config rt cfg) (\<lambda>_.
     ebind (doctor_checks w rt cfg) (\<lambda>(integrity_check, migration_version, conditions).
     ebind (registry_read rt (\<lambda>_ db. Inr db)) (\<lambda>db.
     let violations = sort_key (\<lambda>v. (v_job_id v, v_attempt_id v, v_code v)) (inspect_runtime_invariants db) in
     ebind (emap (doctor_case w rt cfg db) (by_attempt violations)) (\<lambda>cases.
     ebind (inspect_summary w rt db conditions migration_version) (\<lambda>counted.
     let summary = counted\<lparr>ds_status := doctor_status violations counted\<rparr>;
         report = \<lparr>rep_schema_version = RUNTIME_DOCTOR_SCHEMA_VERSION, rep_generated_at_ms = 0,
           rep_database_path = lossy_text (dc_db_path cfg), rep_store_root = lossy_text (dc_store_root cfg), rep_migration_version = migration_version,
           rep_integrity_check = integrity_check, rep_fingerprint = [], rep_summary = summary,
           rep_violation_count = length violations, rep_violations = violations, rep_cases = cases\<rparr> in
     ebind (doctor_now_ms rt) (\<lambda>now.
     eret (report\<lparr>rep_fingerprint := sha256_bytes (rt_host rt) (dw_report_print w report), rep_generated_at_ms := now\<rparr>)))))))"

end
