(* ===== verification/Runtime_Repair.thy ===== *)
theory Runtime_Repair
  imports Runtime_Doctor
begin

text \<open>
  The administrative tools: the repair of a store from a Doctor report whose fingerprint the operator
  confirms, against a verified backup, and the cancellation of an Attempt whose launch identity does not
  match and whose execution is proved absent.
\<close>

section \<open>Requests and reports\<close>

definition RUNTIME_REPAIR_SCHEMA_VERSION :: nat where
  "RUNTIME_REPAIR_SCHEMA_VERSION = 1"

text \<open>\<open>finalize_lost_attempt_ids\<close> is an ordered set, here the list of its elements.\<close>

record RuntimeRepairRequest =
  rpq_expected_fingerprint :: string
  rpq_snapshot_path :: string
  rpq_principal :: string
  rpq_finalize_lost_attempt_ids :: "string list"

record RuntimeStaleCancelRequest =
  scq_snapshot_path :: string
  scq_principal :: string
  scq_attempt_id :: string

record RuntimeStaleCancelReport =
  scr_schema_version :: nat
  scr_applied_at_ms :: nat
  scr_doctor_fingerprint_before :: string
  scr_snapshot_path :: string
  scr_snapshot_digest :: string
  scr_principal :: string
  scr_job_id :: string
  scr_attempt_id :: string
  scr_previous_state :: AttemptState
  scr_new_state :: AttemptState
  scr_process_tree_absence_proven :: bool
  scr_before :: RuntimeDoctorReport
  scr_after :: RuntimeDoctorReport

datatype RuntimeRepairActionKind = ActRecoverRunnerResult | ActReleaseTerminalReservation | ActFinalizeLost

record RuntimeRepairAction =
  act_job_id :: string
  act_attempt_id :: string
  act_case_fingerprint :: string
  act_kind :: RuntimeRepairActionKind
  act_previous_state :: AttemptState
  act_new_state :: AttemptState

record RuntimeRepairReport =
  rrr_schema_version :: nat
  rrr_applied_at_ms :: nat
  rrr_expected_fingerprint :: string
  rrr_snapshot_path :: string
  rrr_snapshot_digest :: string
  rrr_principal :: string
  rrr_actions :: "RuntimeRepairAction list"
  rrr_before :: RuntimeDoctorReport
  rrr_after :: RuntimeDoctorReport

definition reconciliation_required :: "string \<Rightarrow> string option \<Rightarrow> RuntimeError" where
  "reconciliation_required message field = error_new ReconciliationRequired message field False"

definition remediation_denied :: "string \<Rightarrow> RuntimeError" where
  "remediation_denied message = error_new OrphanRemediationDenied message (Some ''attemptId'') False"

section \<open>Validation\<close>

definition validate_snapshot_principal :: "string \<Rightarrow> string \<Rightarrow> unit result" where
  "validate_snapshot_principal snapshot_path requester =
     (if \<not> path_is_absolute snapshot_path then Inl (error_invalid ''snapshot path must be absolute'' ''snapshotPath'')
      else if trim_scalars (utf8_chars requester) = [] \<or> length requester > 256 \<or> list_ex is_control (utf8_chars requester)
      then Inl (error_invalid ''principal must contain 1..=256 non-control characters'' ''principal'')
      else Inr ())"

definition validate_repair_identity :: "string \<Rightarrow> string \<Rightarrow> string \<Rightarrow> unit result" where
  "validate_repair_identity expected_fingerprint snapshot_path requester =
     (if \<not> is_sha256_digest expected_fingerprint
      then Inl (error_invalid ''expected fingerprint must be a canonical sha256 Digest'' ''expectedFingerprint'')
      else validate_snapshot_principal snapshot_path requester)"

definition validate_request :: "RuntimeRepairRequest \<Rightarrow> unit result" where
  "validate_request request =
     validate_repair_identity (rpq_expected_fingerprint request) (rpq_snapshot_path request) (rpq_principal request)"

definition validate_stale_cancel :: "RuntimeStaleCancelRequest \<Rightarrow> unit result" where
  "validate_stale_cancel request =
     rbind (validate_snapshot_principal (scq_snapshot_path request) (scq_principal request)) (\<lambda>_.
     if trim_scalars (utf8_chars (scq_attempt_id request)) = [] \<or> list_ex is_control (utf8_chars (scq_attempt_id request))
     then Inl (error_invalid ''attempt id must be non-empty and control-free'' ''attemptId'')
     else Inr ())"

definition require_schema :: "string \<Rightarrow> RuntimeDoctorReport \<Rightarrow> unit result" where
  "require_schema what report =
     (if rep_migration_version report \<noteq> MAX_MIGRATION_VERSION
      then Inl (error_new SchemaVersionUnsupported (what @ '' requires schema '' @ show_int MAX_MIGRATION_VERSION
             @ '', observed '' @ show_int (rep_migration_version report)) (Some ''migrationVersion'') False)
      else Inr ())"

definition repair_universal_error :: "UniversalExecError \<Rightarrow> RuntimeError" where
  "repair_universal_error error = error_new IoError (ue_message error) (ue_field error) (ue_retryable error)"

definition repair_sha256_file :: "runtime \<Rightarrow> string \<Rightarrow> string engine" where
  "repair_sha256_file rt path = ask_result rt (\<lambda>i t. map_err repair_universal_error (io_sha256_file i t path))"

definition repair_write_json :: "runtime \<Rightarrow> string \<Rightarrow> string \<Rightarrow> unit engine" where
  "repair_write_json rt path bytes = ask_result rt (\<lambda>i t. map_err repair_universal_error (io_write_atomic i t path bytes))"

section \<open>The backup\<close>

definition snapshot_corrupt :: "string \<Rightarrow> RuntimeError" where
  "snapshot_corrupt message = error_new RegistryCorrupt message (Some ''snapshotPath'') False"

definition backup_database :: "string \<Rightarrow> string" where
  "backup_database snapshot_path = path_join snapshot_path ''registry.sqlite3''"

definition verify_backup_file :: "runtime \<Rightarrow> string \<Rightarrow> BackupFile \<Rightarrow> string engine" where
  "verify_backup_file rt snapshot_path b =
     (if \<not> only_normal_components (bf_path b)
      then efail (snapshot_corrupt (''backup manifest contains unsafe path '' @ bf_path b))
      else
        let path = path_join snapshot_path (bf_path b) in
        ebind (ask_result rt (\<lambda>i t. map_err (\<lambda>e. snapshot_corrupt (''cannot inspect backup file '' @ bf_path b @ '': '' @ if_text e))
                 (io_symlink_metadata i t path))) (\<lambda>metadata.
        if \<not> pk_file metadata \<or> pk_len metadata \<noteq> bf_bytes b
        then efail (snapshot_corrupt (''backup file '' @ bf_path b @ '' is missing, non-regular, or has the wrong size''))
        else ebind (repair_sha256_file rt path) (\<lambda>observed.
          if observed \<noteq> bf_digest b
          then efail (snapshot_corrupt (''backup file '' @ bf_path b @ '' Digest does not match manifest''))
          else eret observed)))"

text \<open>The digest of the last entry for the database, and the database passes its integrity check.\<close>

definition verify_snapshot :: "doctor_world \<Rightarrow> runtime \<Rightarrow> string \<Rightarrow> string engine" where
  "verify_snapshot w rt snapshot_path =
     ebind (read_file rt ''read backup manifest'' (path_join snapshot_path ''manifest.json'')) (\<lambda>bytes.
     ebind (elift (map_err (\<lambda>error. snapshot_corrupt (''invalid backup manifest: '' @ error)) (dw_manifest_parse w bytes))) (\<lambda>entries.
     ebind (emap (verify_backup_file rt snapshot_path) entries) (\<lambda>digests.
     ebind (elift (ok_or (map_of (rev (zip (map bf_path entries) digests)) ''registry.sqlite3'')
              (snapshot_corrupt ''backup manifest does not contain registry.sqlite3''))) (\<lambda>observed.
     ebind (eforeach (doctor_statement w rt)
              [''cannot open backup Registry'', ''cannot set backup busy timeout'', ''cannot verify backup Registry'']) (\<lambda>_.
     ebind (ask rt (\<lambda>_ t. dw_integrity w t (backup_database snapshot_path))) (\<lambda>integrity.
     if integrity \<noteq> ''ok'' then efail (snapshot_corrupt (''backup Registry integrity check returned '' @ integrity))
     else eret observed))))))"

definition backup_case_matches :: "registry \<Rightarrow> RuntimeDoctorCase \<Rightarrow> bool result" where
  "backup_case_matches backup c =
     rbind (load_job backup (dj_job_id (case_job c))) (\<lambda>job.
     rbind (load_attempt backup (da_attempt_id (case_attempt c))) (\<lambda>attempt.
     rbind (load_reservation backup (da_attempt_id (case_attempt c))) (\<lambda>reservation.
     Inr (job_state job = case_job c \<and> attempt_state attempt = case_attempt c \<and> reservation_state reservation = case_reservation c))))"

definition verify_snapshot_cases :: "doctor_world \<Rightarrow> runtime \<Rightarrow> string \<Rightarrow> RuntimeDoctorCase list \<Rightarrow> unit engine" where
  "verify_snapshot_cases w rt snapshot_path cases =
     ebind (eforeach (doctor_statement w rt)
              [''cannot open backup Registry for plan validation'', ''cannot set backup plan busy timeout'']) (\<lambda>_.
     eforeach (\<lambda>c.
       ebind (ask rt (\<lambda>_ t. dw_backup w t (backup_database snapshot_path))) (\<lambda>backup.
       ebind (elift (backup_case_matches backup c)) (\<lambda>same.
       if \<not> same
       then efail (reconciliation_required (''backup does not contain the exact Doctor state for Attempt ''
              @ da_attempt_id (case_attempt c)) (Some ''snapshotPath''))
       else eret ()))) cases)"

section \<open>Planning the repair\<close>

definition action_name :: "RuntimeDoctorCase \<Rightarrow> string list \<Rightarrow> string result" where
  "action_name c finalize_lost =
     (case case_proposal c of
        RecoverRunnerResult _ \<Rightarrow> Inr ''recover_runner_result''
      | ReleaseTerminalReservation \<Rightarrow> Inr ''release_terminal_reservation''
      | ManualReview _ \<Rightarrow>
          if da_attempt_id (case_attempt c) \<in> set finalize_lost then Inr ''finalize_lost''
          else Inl (reconciliation_required ''manual-review Attempt was not explicitly selected'' (Some ''finalizeLostAttemptIds''))
      | NoRepairNeeded \<Rightarrow> Inr ''no_repair'')"

definition is_manual_review :: "RuntimeDoctorProposal \<Rightarrow> bool" where
  "is_manual_review p = (case p of ManualReview _ \<Rightarrow> True | _ \<Rightarrow> False)"

definition manual_attempts :: "RuntimeDoctorCase list \<Rightarrow> string list" where
  "manual_attempts cases =
     sort (remdups (map (\<lambda>c. da_attempt_id (case_attempt c)) (filter (\<lambda>c. is_manual_review (case_proposal c)) cases)))"

text \<open>Every violation belongs to a case, and every violating case has a repair.\<close>

definition check_actionable :: "RuntimeDoctorReport \<Rightarrow> unit result" where
  "check_actionable before =
     (if sum_list (map (\<lambda>c. length (case_violation_codes c)) (rep_cases before)) \<noteq> rep_violation_count before
      then Inl (reconciliation_required
             ''Doctor report contains invariant violations without an actionable Attempt Case'' (Some ''violations''))
      else if list_ex (\<lambda>c. case_violation_codes c \<noteq> [] \<and> case_proposal c = NoRepairNeeded) (rep_cases before)
      then Inl (reconciliation_required ''Doctor report contains a violating Case without a repair proposal'' (Some ''cases''))
      else Inr ())"

definition check_selection :: "RuntimeRepairRequest \<Rightarrow> RuntimeDoctorReport \<Rightarrow> unit result" where
  "check_selection request before =
     rbind (for_each (\<lambda>attempt_id.
        if attempt_id \<notin> set (manual_attempts (rep_cases before))
        then Inl (error_invalid (attempt_id @ '' is not a current manual-review Attempt'') ''finalizeLostAttemptIds'')
        else Inr ()) (rpq_finalize_lost_attempt_ids request)) (\<lambda>_.
     let unselected = filter (\<lambda>k. k \<notin> set (rpq_finalize_lost_attempt_ids request)) (manual_attempts (rep_cases before)) in
     if unselected \<noteq> []
     then Inl (reconciliation_required (''manual-review Attempts require explicit --finalize-lost selection: ''
            @ join_with '','' unselected) (Some ''finalizeLostAttemptIds''))
     else Inr ())"

definition write_admin_receipt ::
  "doctor_world \<Rightarrow> runtime \<Rightarrow> string \<Rightarrow> RuntimeDoctorCase \<Rightarrow> AdminRepairAudit \<Rightarrow> ArtifactRegistration engine" where
  "write_admin_receipt w rt store_root c audit =
     (let attempt_id = da_attempt_id (case_attempt c);
          bundle = path_join (path_join store_root ''attempts'') attempt_id;
          path = path_join bundle ''admin-repair.json'' in
      ebind (create_dir_all rt ''create repair Bundle'' bundle) (\<lambda>_.
      ebind (repair_write_json rt path (dw_receipt_print w
         \<lparr>rcp_schema_version = RUNTIME_REPAIR_SCHEMA_VERSION, rcp_report_fingerprint = au_report_fingerprint audit,
          rcp_case_fingerprint = au_case_fingerprint audit, rcp_snapshot_path = au_snapshot_path audit,
          rcp_snapshot_digest = au_snapshot_digest audit, rcp_principal = au_principal audit, rcp_action = au_action audit,
          rcp_job_id = dj_job_id (case_job c), rcp_attempt_id = attempt_id,
          rcp_observed_at_ms = au_observed_at_ms audit\<rparr>)) (\<lambda>_.
      ebind (file_len rt ''inspect repair receipt'' path) (\<lambda>len.
      ebind (repair_sha256_file rt path) (\<lambda>digest.
      eret \<lparr>ar_artifact_id = attempt_id @ ''.admin-repair'', ar_kind = ''admin_repair'',
            ar_relative_path = ''admin-repair.json'', ar_digest = digest, ar_media_type = ''application/json'',
            ar_byte_length = len, ar_truncated = False\<rparr>)))))"

definition prepare_final_lost_terminal ::
  "doctor_world \<Rightarrow> runtime \<Rightarrow> string \<Rightarrow> RuntimeDoctorCase \<Rightarrow> AdminRepairAudit \<Rightarrow> TerminalCommit engine" where
  "prepare_final_lost_terminal w rt store_root c audit =
     (if da_state (case_attempt c) \<noteq> Lost \<or> case_runner_result_present c \<or> dj_resolution (case_job c) \<noteq> Some ResLost
      then efail (remediation_denied ''finalize-lost requires an existing Lost record without Runner result'')
      else ebind (write_admin_receipt w rt store_root c audit) (\<lambda>receipt.
        eret \<lparr>tc_attempt_id = da_attempt_id (case_attempt c), tc_expected_row_version = da_row_version (case_attempt c),
              tc_state = Lost, tc_result_digest = ar_digest receipt, tc_exit_code = None,
              tc_infrastructure_error_digest = Some (sha256_bytes (rt_host rt) ''admin confirmed lost: Runner result unavailable''),
              tc_finished_at_ms = au_observed_at_ms audit, tc_artifacts = [receipt],
              tc_reason_code = ''ADMIN_CONFIRMED_LOST_NO_RUNNER_RESULT''\<rparr>))"

definition repair_action :: "RuntimeDoctorCase \<Rightarrow> RuntimeRepairActionKind \<Rightarrow> AttemptState \<Rightarrow> RuntimeRepairAction" where
  "repair_action c kind new_state =
     \<lparr>act_job_id = dj_job_id (case_job c), act_attempt_id = da_attempt_id (case_attempt c),
      act_case_fingerprint = case_fingerprint_text c, act_kind = kind, act_previous_state = da_state (case_attempt c),
      act_new_state = new_state\<rparr>"

definition repair_audit ::
  "RuntimeRepairRequest \<Rightarrow> RuntimeDoctorReport \<Rightarrow> string \<Rightarrow> nat \<Rightarrow> string \<Rightarrow> RuntimeDoctorCase \<Rightarrow> AdminRepairAudit" where
  "repair_audit request before snapshot_digest applied_at_ms name c =
     \<lparr>au_report_fingerprint = rep_fingerprint before, au_case_fingerprint = case_fingerprint_text c,
      au_snapshot_path = lossy_text (rpq_snapshot_path request), au_snapshot_digest = snapshot_digest,
      au_principal = rpq_principal request, au_action = name, au_observed_at_ms = applied_at_ms,
      au_expected_job_row_version = dj_row_version (case_job c),
      au_expected_current_attempt_id = dj_current_attempt_id (case_job c),
      au_expected_reservation_state = dr_state (case_reservation c)\<rparr>"

text \<open>One turn of the loop over the cases: an operation and the action it is reported as, or nothing.\<close>

definition repair_case ::
  "doctor_world \<Rightarrow> runtime \<Rightarrow> RuntimeDoctorConfig \<Rightarrow> RuntimeRepairRequest \<Rightarrow> RuntimeDoctorReport \<Rightarrow> string \<Rightarrow> nat
   \<Rightarrow> RuntimeDoctorCase \<Rightarrow> (AdminRepairOperation \<times> RuntimeRepairAction) option engine" where
  "repair_case w rt cfg request before snapshot_digest applied_at_ms c =
     ebind (elift (action_name c (rpq_finalize_lost_attempt_ids request))) (\<lambda>name.
     let audit = repair_audit request before snapshot_digest applied_at_ms name c;
         attempt_id = da_attempt_id (case_attempt c) in
     case case_proposal c of
       RecoverRunnerResult terminal \<Rightarrow>
         ebind (write_admin_receipt w rt (dc_store_root cfg) c audit) (\<lambda>receipt.
         ebind (get_attempt_now rt attempt_id) (\<lambda>attempt.
         ebind (append_terminal_evidence rt attempt (terminal\<lparr>tc_artifacts := tc_artifacts terminal @ [receipt]\<rparr>)) (\<lambda>final.
         eret (Some (RepairTerminal final audit, repair_action c ActRecoverRunnerResult (tc_state final))))))
     | ReleaseTerminalReservation \<Rightarrow>
         eret (Some (RepairReservation attempt_id (da_row_version (case_attempt c)) audit,
                     repair_action c ActReleaseTerminalReservation (da_state (case_attempt c))))
     | ManualReview _ \<Rightarrow>
         ebind (prepare_final_lost_terminal w rt (dc_store_root cfg) c audit) (\<lambda>terminal.
         ebind (get_attempt_now rt attempt_id) (\<lambda>attempt.
         ebind (append_terminal_evidence rt attempt terminal) (\<lambda>final.
         eret (Some (RepairTerminal final audit, repair_action c ActFinalizeLost Lost)))))
     | NoRepairNeeded \<Rightarrow> eret None)"

definition initialize_now :: "doctor_world \<Rightarrow> runtime \<Rightarrow> RuntimeDoctorConfig \<Rightarrow> unit engine" where
  "initialize_now w rt cfg =
     ask_result rt (\<lambda>_ t. fst (registry_initialize (dw_storage w t)
       \<lparr>rc_db_path = dc_db_path cfg, rc_store_root = dc_store_root cfg, rc_busy_timeout_ms = dc_busy_timeout_ms cfg\<rparr> (dw_schema w t)))"

definition repair_admin_batch_now :: "runtime \<Rightarrow> AdminRepairOperation list \<Rightarrow> unit engine" where
  "repair_admin_batch_now rt operations = registry_op rt (\<lambda>env db. repair_admin_batch (rt_host rt) env db operations)"

definition require_clean :: "string \<Rightarrow> RuntimeDoctorReport \<Rightarrow> unit result" where
  "require_clean what after =
     (if rep_violation_count after \<noteq> 0
      then Inl (reconciliation_required (what @ '' committed but '' @ show_nat (rep_violation_count after)
             @ '' invariant violations remain'') None)
      else Inr ())"

definition apply_runtime_repair ::
  "doctor_world \<Rightarrow> runtime \<Rightarrow> RuntimeDoctorConfig \<Rightarrow> RuntimeRepairRequest \<Rightarrow> RuntimeRepairReport engine" where
  "apply_runtime_repair w rt cfg request =
     ebind (elift (validate_request request)) (\<lambda>_.
     ebind (inspect_runtime w rt cfg) (\<lambda>before.
     ebind (elift (require_schema ''Runtime repair'' before)) (\<lambda>_.
     if rep_fingerprint before \<noteq> rpq_expected_fingerprint request
     then efail (reconciliation_required (''Doctor fingerprint changed: expected '' @ rpq_expected_fingerprint request
            @ '', observed '' @ rep_fingerprint before) (Some ''expectedFingerprint''))
     else
     ebind (elift (check_actionable before)) (\<lambda>_.
     ebind (verify_snapshot w rt (rpq_snapshot_path request)) (\<lambda>snapshot_digest.
     ebind (verify_snapshot_cases w rt (rpq_snapshot_path request) (rep_cases before)) (\<lambda>_.
     ebind (elift (check_selection request before)) (\<lambda>_.
     ebind (initialize_now w rt cfg) (\<lambda>_.
     ebind (doctor_now_ms rt) (\<lambda>applied_at_ms.
     ebind (emap (repair_case w rt cfg request before snapshot_digest applied_at_ms) (rep_cases before)) (\<lambda>turns.
     let planned = List.map_filter (\<lambda>x. x) turns in
     ebind (repair_admin_batch_now rt (map fst planned)) (\<lambda>_.
     ebind (inspect_runtime w rt cfg) (\<lambda>after.
     ebind (elift (require_clean ''Runtime repair'' after)) (\<lambda>_.
     eret \<lparr>rrr_schema_version = RUNTIME_REPAIR_SCHEMA_VERSION, rrr_applied_at_ms = applied_at_ms,
           rrr_expected_fingerprint = rpq_expected_fingerprint request, rrr_snapshot_path = lossy_text (rpq_snapshot_path request),
           rrr_snapshot_digest = snapshot_digest, rrr_principal = rpq_principal request, rrr_actions = map snd planned,
           rrr_before = before, rrr_after = after\<rparr>)))))))))))))"

section \<open>Cancelling a stale Attempt\<close>

definition recovery_state :: "attempt_row \<Rightarrow> RecoveryState" where
  "recovery_state a =
     (case a_recovery a of
        None \<Rightarrow> \<lparr>rcs_required = False, rcs_reason_code = None, rcs_evidence_digest = None, rcs_observed_at_ms = None\<rparr>
      | Some rc \<Rightarrow> \<lparr>rcs_required = rc_required rc, rcs_reason_code = Some (rc_reason_code rc),
                    rcs_evidence_digest = Some (rc_evidence_digest rc), rcs_observed_at_ms = Some (rc_observed_at_ms rc)\<rparr>)"

definition recovery_row :: "string \<Rightarrow> registry \<Rightarrow> string \<Rightarrow> RecoveryState result" where
  "recovery_row context db attempt_id =
     ok_or (map_option recovery_state (tbl_lookup a_attempt_id (attempts db) attempt_id))
       (from_sql (OtherSqlError ''Query returned no rows'') context)"

definition read_recovery_state :: "doctor_world \<Rightarrow> runtime \<Rightarrow> string \<Rightarrow> RecoveryState engine" where
  "read_recovery_state w rt attempt_id =
     ebind (eforeach (doctor_statement w rt)
              [''cannot open Registry recovery state read-only'', ''cannot set recovery-state busy timeout'',
               ''cannot read Attempt recovery state'']) (\<lambda>_.
     registry_read rt (\<lambda>_ db. recovery_row ''cannot read Attempt recovery state'' db attempt_id))"

definition stale_target_matches ::
  "registry \<Rightarrow> RuntimeJobRecord \<Rightarrow> AttemptRecord \<Rightarrow> ReservationRecord \<Rightarrow> RecoveryState \<Rightarrow> bool result" where
  "stale_target_matches backup live_job live_attempt live_reservation live_recovery =
     rbind (load_job backup (j_job_id live_job)) (\<lambda>job.
     rbind (load_attempt backup (a_attempt_id live_attempt)) (\<lambda>attempt.
     rbind (load_reservation backup (a_attempt_id live_attempt)) (\<lambda>reservation.
     rbind (recovery_row ''cannot read backup Attempt recovery state'' backup (a_attempt_id live_attempt)) (\<lambda>recovery.
     Inr (job_state job = job_state live_job
        \<and> a_attempt_id attempt = a_attempt_id live_attempt \<and> a_state attempt = a_state live_attempt
        \<and> a_termination_intent attempt = a_termination_intent live_attempt
        \<and> a_result_digest attempt = a_result_digest live_attempt
        \<and> a_finished_at_ms attempt = a_finished_at_ms live_attempt \<and> a_row_version attempt = a_row_version live_attempt
        \<and> reservation_state reservation = reservation_state live_reservation \<and> recovery = live_recovery)))))"

definition verify_snapshot_stale_cancel_target ::
  "doctor_world \<Rightarrow> runtime \<Rightarrow> string \<Rightarrow> RuntimeJobRecord \<Rightarrow> AttemptRecord \<Rightarrow> ReservationRecord \<Rightarrow> RecoveryState \<Rightarrow> unit engine" where
  "verify_snapshot_stale_cancel_target w rt snapshot_path live_job live_attempt live_reservation live_recovery =
     ebind (eforeach (doctor_statement w rt)
              [''cannot open backup Registry for stale cancellation validation'', ''cannot set backup stale-cancel busy timeout'']) (\<lambda>_.
     ebind (ask rt (\<lambda>_ t. dw_backup w t (backup_database snapshot_path))) (\<lambda>backup.
     ebind (elift (stale_target_matches backup live_job live_attempt live_reservation live_recovery)) (\<lambda>same.
     if \<not> same
     then efail (reconciliation_required (''backup does not contain the exact stale-cancellation state for Attempt ''
            @ a_attempt_id live_attempt) (Some ''snapshotPath''))
     else eret ())))"

definition write_stale_cancel_receipt ::
  "doctor_world \<Rightarrow> runtime \<Rightarrow> string \<Rightarrow> AttemptRecord \<Rightarrow> RuntimeStaleCancelRequest \<Rightarrow> string \<Rightarrow> string \<Rightarrow> RecoveryState \<Rightarrow> nat
   \<Rightarrow> ArtifactRegistration engine" where
  "write_stale_cancel_receipt w rt store_root attempt request report_fingerprint snapshot_digest recovery observed_at_ms =
     (let bundle = path_join (path_join store_root ''attempts'') (a_attempt_id attempt);
          path = path_join bundle ''admin-stale-cancel.json'' in
      ebind (create_dir_all rt ''create stale-cancel Bundle'' bundle) (\<lambda>_.
      ebind (repair_write_json rt path (dw_stale_cancel_print w report_fingerprint (scq_snapshot_path request) snapshot_digest
               (scq_principal request) attempt recovery observed_at_ms)) (\<lambda>_.
      ebind (file_len rt ''inspect stale-cancel receipt'' path) (\<lambda>len.
      ebind (repair_sha256_file rt path) (\<lambda>digest.
      eret \<lparr>ar_artifact_id = a_attempt_id attempt @ ''.admin-stale-cancel'', ar_kind = ''admin_repair'',
            ar_relative_path = ''admin-stale-cancel.json'', ar_digest = digest, ar_media_type = ''application/json'',
            ar_byte_length = len, ar_truncated = False\<rparr>)))))"

definition stale_target :: "string \<Rightarrow> RuntimeJobRecord \<Rightarrow> AttemptRecord \<Rightarrow> ReservationRecord \<Rightarrow> RecoveryState \<Rightarrow> bool" where
  "stale_target attempt_id job attempt reservation recovery \<longleftrightarrow>
     \<not> is_terminal (a_state attempt) \<and> j_resolution job = None \<and> j_current_attempt_id job = Some attempt_id
     \<and> r_state reservation = Active \<and> rcs_required recovery \<and> rcs_reason_code recovery = Some ''LAUNCH_IDENTITY_MISMATCH''"

definition get_reservation_now :: "runtime \<Rightarrow> string \<Rightarrow> ReservationRecord engine" where
  "get_reservation_now rt attempt_id = registry_read rt (\<lambda>env db. get_reservation env db attempt_id)"

definition stale_cancel_terminal ::
  "runtime \<Rightarrow> AttemptRecord \<Rightarrow> RecoveryState \<Rightarrow> nat \<Rightarrow> ArtifactRegistration \<Rightarrow> TerminalCommit" where
  "stale_cancel_terminal rt current recovery applied_at_ms receipt =
     \<lparr>tc_attempt_id = a_attempt_id current, tc_expected_row_version = a_row_version current, tc_state = Cancelled,
      tc_result_digest = ar_digest receipt, tc_exit_code = None,
      tc_infrastructure_error_digest = (case rcs_evidence_digest recovery of
         Some digest \<Rightarrow> Some digest
       | None \<Rightarrow> Some (sha256_bytes (rt_host rt) ''recovery-required stale cancellation'')),
      tc_finished_at_ms = applied_at_ms, tc_artifacts = [receipt],
      tc_reason_code = ''ADMIN_CANCELLED_RECOVERY_REQUIRED_PROCESS_TREE_GONE''\<rparr>"

text \<open>The execution is absent and left no result.\<close>

definition require_absent :: "runtime \<Rightarrow> AttemptRecord \<Rightarrow> string \<Rightarrow> RuntimeError \<Rightarrow> unit engine" where
  "require_absent rt attempt result_message alive_error =
     ebind (path_is_file rt (path_join (a_bundle_path attempt) ''result.json'')) (\<lambda>present.
     if present then efail (reconciliation_required result_message (Some ''attemptId''))
     else ebind (launch_identity_mismatch_cancel_target_absent rt attempt) (\<lambda>absent.
       if \<not> absent then efail alive_error else eret ()))"

text \<open>The cancellation, its evidence and the terminal commit, once the target has been established.\<close>

definition cancel_stale_target ::
  "doctor_world \<Rightarrow> runtime \<Rightarrow> RuntimeDoctorConfig \<Rightarrow> RuntimeStaleCancelRequest \<Rightarrow> string \<Rightarrow> string \<Rightarrow> RuntimeJobRecord \<Rightarrow> RecoveryState
   \<Rightarrow> nat engine" where
  "cancel_stale_target w rt cfg request fingerprint snapshot_digest job recovery =
     ebind (doctor_now_ms rt) (\<lambda>applied_at_ms.
     ebind (registry_op rt (\<lambda>env db. request_cancel (rt_host rt) env db (j_job_id job) applied_at_ms)) (\<lambda>_.
     ebind (get_attempt_now rt (scq_attempt_id request)) (\<lambda>current.
     if is_terminal (a_state current)
     then efail (reconciliation_required
            ''Attempt became terminal after cancel intent; inspect current truth instead of overwriting it'' (Some ''attemptId''))
     else
     ebind (require_absent rt current
              ''Runner result appeared after cancel intent; reconcile it instead of administratively cancelling the Attempt''
              (reconciliation_required
                 ''execution ownership changed after cancel intent; retain the cancellation intent and reconcile current evidence''
                 (Some ''attemptId''))) (\<lambda>_.
     ebind (write_stale_cancel_receipt w rt (dc_store_root cfg) current request fingerprint snapshot_digest recovery applied_at_ms) (\<lambda>receipt.
     ebind (append_terminal_evidence rt current (stale_cancel_terminal rt current recovery applied_at_ms receipt)) (\<lambda>terminal.
     ebind (commit_terminal_now rt terminal) (\<lambda>_.
     ebind (registry_op rt (\<lambda>env db. clear_reconciliation_failure (rt_host rt) env db (scq_attempt_id request) applied_at_ms)) (\<lambda>_.
     eret applied_at_ms))))))))"

definition cancel_stale_recovery_required_attempt ::
  "doctor_world \<Rightarrow> runtime \<Rightarrow> RuntimeDoctorConfig \<Rightarrow> RuntimeStaleCancelRequest \<Rightarrow> RuntimeStaleCancelReport engine" where
  "cancel_stale_recovery_required_attempt w rt cfg request =
     ebind (elift (validate_stale_cancel request)) (\<lambda>_.
     ebind (inspect_runtime w rt cfg) (\<lambda>before.
     ebind (elift (require_schema ''Runtime stale cancellation'' before)) (\<lambda>_.
     if rep_violation_count before \<noteq> 0
     then efail (reconciliation_required ''stale cancellation requires a Doctor-clean invariant surface'' (Some ''violations''))
     else
     ebind (verify_snapshot w rt (scq_snapshot_path request)) (\<lambda>snapshot_digest.
     ebind (initialize_now w rt cfg) (\<lambda>_.
     ebind (get_attempt_now rt (scq_attempt_id request)) (\<lambda>attempt.
     ebind (get_job_now rt (a_job_id attempt)) (\<lambda>job.
     ebind (get_reservation_now rt (scq_attempt_id request)) (\<lambda>reservation.
     ebind (read_recovery_state w rt (scq_attempt_id request)) (\<lambda>recovery.
     if \<not> stale_target (scq_attempt_id request) job attempt reservation recovery
     then efail (remediation_denied
            ''stale cancellation requires the current active recovery-required LAUNCH_IDENTITY_MISMATCH Attempt on an unresolved Job'')
     else
     ebind (verify_snapshot_stale_cancel_target w rt (scq_snapshot_path request) job attempt reservation recovery) (\<lambda>_.
     ebind (require_absent rt attempt
              ''Runner result exists; reconcile it instead of administratively cancelling the Attempt''
              (remediation_denied ''stale cancellation denied because the unit, recorded process identity, or cgroup may still own live execution'')) (\<lambda>_.
     ebind (cancel_stale_target w rt cfg request (rep_fingerprint before) snapshot_digest job recovery) (\<lambda>applied_at_ms.
     ebind (inspect_runtime w rt cfg) (\<lambda>after.
     ebind (elift (require_clean ''stale cancellation'' after)) (\<lambda>_.
     eret \<lparr>scr_schema_version = RUNTIME_REPAIR_SCHEMA_VERSION, scr_applied_at_ms = applied_at_ms,
           scr_doctor_fingerprint_before = rep_fingerprint before, scr_snapshot_path = lossy_text (scq_snapshot_path request),
           scr_snapshot_digest = snapshot_digest, scr_principal = scq_principal request, scr_job_id = j_job_id job,
           scr_attempt_id = scq_attempt_id request, scr_previous_state = a_state attempt, scr_new_state = Cancelled,
           scr_process_tree_absence_proven = True, scr_before = before, scr_after = after\<rparr>))))))))))))))"

end
