(* ===== verification/Admin_Logic.thy ===== *)
theory Admin_Logic
  imports Admission_Logic Runtime_Repair
begin

text \<open>
  The administrative tools keep what the programs of the engine keep: the Doctor only asks, the repair is
  one step of the registry, the cancellation of a stale Attempt three.
\<close>

lemma keeps_proposal [keeps]:
  "(\<And>t. x = RecoverRunnerResult t \<Longrightarrow> keeps R (f t)) \<Longrightarrow> (x = ReleaseTerminalReservation \<Longrightarrow> keeps R m) \<Longrightarrow>
   (x = NoRepairNeeded \<Longrightarrow> keeps R n) \<Longrightarrow> (\<And>rs. x = ManualReview rs \<Longrightarrow> keeps R (g rs)) \<Longrightarrow>
   keeps R (case x of RecoverRunnerResult t \<Rightarrow> f t | ReleaseTerminalReservation \<Rightarrow> m | NoRepairNeeded \<Rightarrow> n | ManualReview rs \<Rightarrow> g rs)"
  by (cases x) simp_all

context engine_asks
begin

lemma doctor_statement_keeps [keeps]: "keeps R (doctor_statement w rt context)"
  unfolding doctor_statement_def by (intro keeps)

lemma doctor_now_ms_keeps [keeps]: "keeps R (doctor_now_ms rt)"
  unfolding doctor_now_ms_def by (intro keeps)

lemma count_query_keeps [keeps]: "keeps R (count_query w rt context n)"
  unfolding count_query_def by (intro keeps)

lemma grouped_counts_keeps [keeps]: "keeps R (grouped_counts w rt context states)"
  unfolding grouped_counts_def by (intro keeps)

lemma inspect_summary_keeps [keeps]: "keeps R (inspect_summary w rt db conditions version)"
  unfolding inspect_summary_def by (intro keeps)

lemma propose_repair_keeps [keeps]: "keeps R (propose_repair rt j a r present)"
  unfolding propose_repair_def by (intro keeps)

lemma doctor_case_keeps [keeps]: "keeps R (doctor_case w rt dcfg db entry)"
  unfolding doctor_case_def by (intro keeps)

lemma doctor_validate_config_keeps [keeps]: "keeps R (doctor_validate_config rt dcfg)"
  unfolding doctor_validate_config_def by (intro keeps)

lemma doctor_checks_keeps [keeps]: "keeps R (doctor_checks w rt dcfg)"
  unfolding doctor_checks_def by (intro keeps)

lemma inspect_runtime_keeps [keeps]: "keeps R (inspect_runtime w rt dcfg)"
  unfolding inspect_runtime_def by (intro keeps)

lemma repair_sha256_file_keeps [keeps]: "keeps R (repair_sha256_file rt p)"
  unfolding repair_sha256_file_def by (intro keeps)

lemma repair_write_json_keeps [keeps]: "keeps R (repair_write_json rt p b)"
  unfolding repair_write_json_def by (intro keeps)

lemma verify_backup_file_keeps [keeps]: "keeps R (verify_backup_file rt p b)"
  unfolding verify_backup_file_def by (intro keeps)

lemma verify_snapshot_keeps [keeps]: "keeps R (verify_snapshot w rt p)"
  unfolding verify_snapshot_def by (intro keeps)

lemma verify_snapshot_cases_keeps [keeps]: "keeps R (verify_snapshot_cases w rt p cases)"
  unfolding verify_snapshot_cases_def by (intro keeps)

lemma write_admin_receipt_keeps [keeps]: "keeps R (write_admin_receipt w rt root c audit)"
  unfolding write_admin_receipt_def by (intro keeps)

lemma prepare_final_lost_terminal_keeps [keeps]: "keeps R (prepare_final_lost_terminal w rt root c audit)"
  unfolding prepare_final_lost_terminal_def by (intro keeps)

lemma repair_case_keeps [keeps]: "keeps R (repair_case w rt dcfg request before digest at c)"
  unfolding repair_case_def by (intro keeps)

lemma initialize_now_keeps [keeps]: "keeps R (initialize_now w rt dcfg)"
  unfolding initialize_now_def by (intro keeps)

lemma read_recovery_state_keeps [keeps]: "keeps R (read_recovery_state w rt k)"
  unfolding read_recovery_state_def by (intro keeps)

lemma verify_snapshot_stale_cancel_target_keeps [keeps]: "keeps R (verify_snapshot_stale_cancel_target w rt p j a r rc)"
  unfolding verify_snapshot_stale_cancel_target_def by (intro keeps)

lemma write_stale_cancel_receipt_keeps [keeps]: "keeps R (write_stale_cancel_receipt w rt root a request fp digest rc at)"
  unfolding write_stale_cancel_receipt_def by (intro keeps)

lemma get_reservation_now_keeps [keeps]: "keeps R (get_reservation_now rt k)"
  unfolding get_reservation_now_def by (intro keeps)

lemma require_absent_keeps [keeps]: "keeps R (require_absent rt a message error)"
  unfolding require_absent_def by (intro keeps)

end

context engine_moves
begin

lemma repair_admin_batch_now_keeps [keeps]: "keeps R (repair_admin_batch_now rt operations)"
  unfolding repair_admin_batch_now_def by (rule registry_op_keeps rs_repair)+

lemma apply_runtime_repair_keeps [keeps]: "keeps R (apply_runtime_repair w rt dcfg request)"
  unfolding apply_runtime_repair_def by (intro keeps)

lemma cancel_stale_target_keeps [keeps]: "keeps R (cancel_stale_target w rt dcfg request fp digest j rc)"
  unfolding cancel_stale_target_def by (intro keeps)

lemma cancel_stale_recovery_required_attempt_keeps [keeps]:
  "keeps R (cancel_stale_recovery_required_attempt w rt dcfg request)"
  unfolding cancel_stale_recovery_required_attempt_def by (intro keeps)

end

end
