(* ===== verification/Engine_Effects.thy ===== *)
theory Engine_Effects
  imports Admin_Logic Lifecycle_Guarantees
begin

text \<open>
  What a Runtime does to processes.  The log of an engine state holds every launch, stop and
  termination the engine asked for, with the database at that moment.  The invariant of this theory
  ties the log to the registry: a launch follows the durable dispatch of its Attempt and spends it, a
  stop follows a durable cancellation, a termination a durable termination intent.  The programs that
  emit nothing but unit releases are \<open>quiet\<close>; the three that emit are proved with a small logic of
  pre- and postconditions, and the rest follows from the locales of \<open>Engine_Logic\<close>.
\<close>

section \<open>Facts an acknowledgement leaves in the registry\<close>

lemma dispatch_acknowledged:
  assumes inv: "full_inv db" and ok: "mark_dispatch_issued h env db k ver at = (Inr rec, db')"
  shows "a_attempt_id rec = k" "dispatch_count (job_events db) k = 0" "dispatch_count (job_events db') k = 1"
proof -
  have tx: "mark_dispatch_issued_tx h env k ver at db = Inr (Commit ''cannot commit dispatch intent'' () db')"
    and rec: "reload_attempt env db' k = Inr rec"
    using in_transaction_Inr[OF transact_Inr[OF ok[unfolded mark_dispatch_issued_def]]]
    by (auto simp: commit_map_err_def mark_dispatch_issued_tx_def split: if_splits elim!: rbind_InrE)
  show "a_attempt_id rec = k"
    using rec by (auto simp: reload_attempt_def load_attempt_eq_Inr dest: tbl_lookup_SomeD split: option.splits)
  obtain attempt n db1 where load: "load_attempt db k = Inr attempt" and acc: "a_state attempt = Accepted"
    and up: "update_attempts
            (\<lambda>a. a_attempt_id a = k \<and> (a_state a = Accepted \<and> a_row_version a = ver \<and> a_bundle_digest a \<noteq> None))
            (\<lambda>a. a\<lparr>a_state := Starting, a_row_version := a_row_version a + 1\<rparr>)
            ''cannot persist dispatch intent'' db = Inr (n, db1)"
    and ev: "append_event h env 0 (a_job_id attempt) (Some k) ''DISPATCH_ISSUED''
              ''SYSTEM_DERIVED'' (Some Accepted) (Some Starting) ''AT_MOST_ONCE_BOUNDARY_COMMITTED''
              (JObject [(''bundleDigest'', JString (case a_bundle_digest attempt of None \<Rightarrow> [] | Some d \<Rightarrow> d))])
              at db1 = Inr db'"
    using tx unfolding mark_dispatch_issued_tx_def
    by (elim rbind_InrE) (auto split: if_splits elim!: rbind_InrE)
  obtain a where a: "a \<in> set (attempts db)" "a_attempt_id a = k" "a_state a = Accepted"
    using load acc tbl_lookup_SomeD by (fastforce simp: load_attempt_eq_Inr)
  show zero: "dispatch_count (job_events db) k = 0"
    using full_invD(4)[OF inv] a unfolding dispatch_ok_def by (metis le_zero_eq)
  have "job_events db1 = job_events db" using up by (auto simp: update_attempts_def split: if_splits)
  moreover obtain e where "db' = db1\<lparr>job_events := job_events db1 @ [e]\<rparr>" "ev_type e = ''DISPATCH_ISSUED''"
    "appended (job_events db1) (a_job_id attempt) k [e]" by (rule append_event_Inr[OF ev])
  ultimately show "dispatch_count (job_events db') k = 1"
    using zero dispatch_count_append[of "job_events db1" "a_job_id attempt" k "[e]" k] by simp
qed

text \<open>An Attempt row that is to be terminated, and a Job that is to be cancelled.\<close>

definition termination_intended :: "registry \<Rightarrow> string \<Rightarrow> bool" where
  "termination_intended db k \<longleftrightarrow> (\<exists>a \<in> set (attempts db). a_attempt_id a = k \<and> a_termination_intent a \<noteq> Natural)"

definition cancel_intended :: "registry \<Rightarrow> string \<Rightarrow> bool" where
  "cancel_intended db job_id \<longleftrightarrow> (\<exists>j \<in> set (jobs db). j_job_id j = job_id \<and> j_desired_state j = DesiredCancelled)"

definition owned_by :: "registry \<Rightarrow> string \<Rightarrow> string \<Rightarrow> bool" where
  "owned_by db k job_id \<longleftrightarrow> (\<exists>a \<in> set (attempts db). a_attempt_id a = k \<and> a_job_id a = job_id)"

lemma intended_advances:
  assumes "advances db db'"
  shows "termination_intended db k \<Longrightarrow> termination_intended db' k"
    and "cancel_intended db job_id \<Longrightarrow> cancel_intended db' job_id"
    and "owned_by db k job_id \<Longrightarrow> owned_by db' k job_id"
proof -
  have a: "\<exists>a' \<in> set (attempts db'). attempt_advances a a'" if "a \<in> set (attempts db)" for a
    using assms that unfolding advances_def by blast
  have j: "\<exists>j' \<in> set (jobs db'). job_advances j j'" if "j \<in> set (jobs db)" for j
    using assms that unfolding advances_def by blast
  show "termination_intended db k \<Longrightarrow> termination_intended db' k"
    unfolding termination_intended_def using a identity_keys(2) unfolding attempt_advances_def by metis
  show "owned_by db k job_id \<Longrightarrow> owned_by db' k job_id"
    unfolding owned_by_def using a identity_keys(2,3) unfolding attempt_advances_def by metis
  show "cancel_intended db job_id \<Longrightarrow> cancel_intended db' job_id"
    unfolding cancel_intended_def using j identity_keys(1) unfolding job_advances_def by metis
qed

lemma loaded_termination:
  "load_attempt db k = Inr c \<Longrightarrow> a_termination_intent c \<noteq> Natural \<Longrightarrow> termination_intended db (a_attempt_id c)"
  by (auto simp: load_attempt_eq_Inr termination_intended_def dest: tbl_lookup_SomeD)

lemma deadline_acknowledged:
  assumes "request_deadline_termination h env db k at = (Inr c, db')" and "a_termination_intent c \<noteq> Natural"
  shows "termination_intended db' (a_attempt_id c)"
proof -
  have "reload_attempt env db' k = Inr c"
    using in_transaction_Inr[OF transact_Inr[OF assms(1)[unfolded request_deadline_termination_def]]]
    by (auto simp: commit_map_err_def request_deadline_termination_tx_def split: if_splits elim!: rbind_InrE)
  then show ?thesis using loaded_termination assms(2) by (simp add: reload_attempt_def split: option.splits)
qed

lemma loaded_snapshot:
  assumes "load_job_snapshot env db job_id = Inr s"
  shows "tbl_lookup j_job_id (jobs db) job_id = Some (js_job s)"
    and "jpr_result_available (js_projection s) \<longleftrightarrow> j_resolution (js_job s) \<noteq> None"
  using assms unfolding load_job_snapshot_def load_job_snapshot_in_def
  by (auto simp: load_job_eq_Inr project_job_def Let_def split: option.splits elim!: rbind_InrE)

lemma cancel_acknowledged:
  assumes inv: "reg_inv db" and ok: "request_cancel h env db job_id at = (Inr p, db')"
    and open_job: "\<not> jpr_result_available p"
  shows "cancel_intended db' job_id"
  using in_transaction_Inr[OF transact_Inr[OF ok[unfolded request_cancel_def]]]
proof (elim disjE exE conjE)
  fix ctx y new
  assume tx: "request_cancel_tx h env job_id at db = Inr (Commit ctx y new)" and db': "db' = new"
    and p: "project_snapshot env new job_id = Inr p"
  obtain i where i: "tbl_lookup j_job_id (jobs new) job_id = Some i" "j_resolution i = None"
    using p open_job loaded_snapshot unfolding project_snapshot_def by (auto elim!: rbind_InrE)
  obtain j a r where lk: "linked db j a r" and id: "j_job_id j = job_id" by (rule request_cancel_tx_linked[OF inv tx])
  from inv lk tx[folded id] have "\<exists>j'. tbl_lookup j_job_id (jobs new) job_id = Some j' \<and> j_desired_state j' = DesiredCancelled"
  proof (cases rule: request_cancel_tx_Inr)
    case closed
    then show ?thesis using i linked_lookup(1)[OF inv lk] id by simp
  qed (use id in auto)
  then show ?thesis unfolding cancel_intended_def db' using tbl_lookup_SomeD by metis
next
  fix ctx y new durable e
  assume "(if y then reconcile_cancel_commit_failure env job_id ctx True e db' else Inl (from_sql e ctx)) = Inr p"
  then have "reconcile_cancel_commit_failure env job_id ctx True e db' = Inr p" by (simp split: if_splits)
  then obtain s where s: "load_job_snapshot env db' job_id = Inr s" "j_desired_state (js_job s) = DesiredCancelled"
    using open_job loaded_snapshot(2) unfolding reconcile_cancel_commit_failure_def Let_def
    by (auto split: if_splits sum.splits)
  then show ?thesis unfolding cancel_intended_def using tbl_lookup_SomeD[OF loaded_snapshot(1)[OF s(1)]] by blast
next
  fix ctx y e
  assume "(if y then reconcile_cancel_commit_failure env job_id ctx False e db' else Inl (from_sql e ctx)) = Inr p"
  then show ?thesis unfolding reconcile_cancel_commit_failure_def Let_def by (simp split: if_splits)
qed (simp add: request_cancel_tx_no_return)

lemma latest_by_number_mem: "latest_by_number xs = Some x \<Longrightarrow> x \<in> set xs"
  by (induction xs arbitrary: x rule: latest_by_number.induct) (auto split: if_splits option.splits)

lemma latest_owned:
  assumes inv: "reg_inv db" and ok: "get_latest_attempt env db job_id = Inr (Some a)"
  shows "owned_by db (a_attempt_id a) job_id"
proof -
  obtain x where x: "latest_by_number (filter (\<lambda>a. a_job_id a = job_id) (attempts db)) = Some x"
    and load: "load_attempt db (a_attempt_id x) = Inr a"
    using ok unfolding get_latest_attempt_def latest_attempt_id_def
    by (auto elim!: rbind_InrE transpose_result.elims)
  have mem: "x \<in> set (attempts db)" "a_job_id x = job_id" using latest_by_number_mem[OF x] by auto
  have "a_attempt_id a = a_attempt_id x"
    using load by (auto simp: load_attempt_eq_Inr dest: tbl_lookup_SomeD)
  then show ?thesis using mem unfolding owned_by_def by auto
qed

section \<open>The log and the registry\<close>

text \<open>Other writers of the database act through registry operations, too.\<close>

definition others_run :: "runtime \<Rightarrow> RegistryConfig \<Rightarrow> bool" where
  "others_run rt cfg \<longleftrightarrow> (\<forall>t db. registry_run (rt_host rt) cfg db (io_others (rt_io rt) t db))"

fun justified :: "world_effect \<Rightarrow> registry \<Rightarrow> bool" where
  "justified (LaunchUnit k) db = (dispatch_count (job_events db) k = 1)"
| "justified (SpawnLauncher k) db = (dispatch_count (job_events db) k = 1)"
| "justified (StopUnit k) db = (\<exists>job_id. owned_by db k job_id \<and> cancel_intended db job_id)"
| "justified (TerminateLauncher k) db = termination_intended db k"
| "justified (ReleaseUnit name) db = True"

definition launch_count :: "(world_effect \<times> registry) list \<Rightarrow> string \<Rightarrow> nat" where
  "launch_count log k = length (filter (\<lambda>(e, _). e = LaunchUnit k \<or> e = SpawnLauncher k) log)"

text \<open>The invariant, relative to the database \<open>db0\<close> at the start of the log.\<close>

definition effects_ok :: "runtime \<Rightarrow> RegistryConfig \<Rightarrow> registry \<Rightarrow> engine_state \<Rightarrow> bool" where
  "effects_ok rt cfg db0 s \<longleftrightarrow>
     others_run rt cfg \<and> reachable_registry (rt_host rt) cfg db0 \<and> registry_run (rt_host rt) cfg db0 (es_db s)
     \<and> (\<forall>(e, db) \<in> set (es_log s). justified e db)
     \<and> (\<forall>k. launch_count (es_log s) k + dispatch_count (job_events db0) k \<le> dispatch_count (job_events (es_db s)) k)"

definition preserves :: "runtime \<Rightarrow> RegistryConfig \<Rightarrow> engine_state \<Rightarrow> engine_state \<Rightarrow> bool" where
  "preserves rt cfg s t \<longleftrightarrow> (\<forall>db0. effects_ok rt cfg db0 s \<longrightarrow> effects_ok rt cfg db0 t)"

text \<open>A quiet move of the engine: registry steps, unit releases in the log, and time.\<close>

definition releases :: "(world_effect \<times> registry) list \<Rightarrow> bool" where
  "releases log \<longleftrightarrow> list_all (\<lambda>(e, _). case e of ReleaseUnit _ \<Rightarrow> True | _ \<Rightarrow> False) log"

definition quiet :: "runtime \<Rightarrow> RegistryConfig \<Rightarrow> engine_state \<Rightarrow> engine_state \<Rightarrow> bool" where
  "quiet rt cfg s t \<longleftrightarrow> (others_run rt cfg \<longrightarrow>
     registry_run (rt_host rt) cfg (es_db s) (es_db t) \<and> (\<exists>rest. es_log t = es_log s @ rest \<and> releases rest)
     \<and> es_tick s \<le> es_tick t)"

lemma quiet_trans:
  assumes "quiet rt cfg s t" and "quiet rt cfg t u"
  shows "quiet rt cfg s u"
  unfolding quiet_def
proof
  assume run: "others_run rt cfg"
  from assms(1) run obtain r1 where 1: "registry_run (rt_host rt) cfg (es_db s) (es_db t)"
    "es_log t = es_log s @ r1" "releases r1" "es_tick s \<le> es_tick t" unfolding quiet_def by blast
  from assms(2) run obtain r2 where 2: "registry_run (rt_host rt) cfg (es_db t) (es_db u)"
    "es_log u = es_log t @ r2" "releases r2" "es_tick t \<le> es_tick u" unfolding quiet_def by blast
  have "registry_run (rt_host rt) cfg (es_db s) (es_db u)"
    using 1(1) 2(1) unfolding registry_run_def by (rule rtranclp_trans)
  moreover have "es_log u = es_log s @ r1 @ r2" "releases (r1 @ r2)" using 1(2,3) 2(2,3) by (simp_all add: releases_def)
  moreover have "es_tick s \<le> es_tick u" by (rule order_trans[OF 1(4) 2(4)])
  ultimately show "registry_run (rt_host rt) cfg (es_db s) (es_db u) \<and> (\<exists>rest. es_log u = es_log s @ rest \<and> releases rest)
      \<and> es_tick s \<le> es_tick u" by blast
qed

interpretation quiet: engine_moves rt cfg "quiet rt cfg" for rt cfg
proof unfold_locales
  show "quiet rt cfg s s" for s by (simp add: quiet_def registry_run_def releases_def)
  show "quiet rt cfg s t \<Longrightarrow> quiet rt cfg t u \<Longrightarrow> quiet rt cfg s u" for s t u
    by (rule quiet_trans)
  show "quiet rt cfg s (advance rt s)" for s by (simp add: quiet_def advance_def others_run_def releases_def)
  show "registry_step (rt_host rt) cfg (es_db s) db' \<Longrightarrow> quiet rt cfg s (s\<lparr>es_db := db'\<rparr>)" for s db'
    by (simp add: quiet_def registry_run_def releases_def r_into_rtranclp)
  show "keeps (quiet rt cfg) (emit (ReleaseUnit name))" for name
    by (simp add: keeps_def emit_def quiet_def registry_run_def releases_def)
qed

lemma dispatch_count_mono: "prefix es fs \<Longrightarrow> dispatch_count es k \<le> dispatch_count fs k"
  by (auto simp: prefix_def dispatch_count_def)

lemma effects_okD:
  assumes "effects_ok rt cfg db0 s"
  shows "others_run rt cfg" "reachable_registry (rt_host rt) cfg (es_db s)" "full_inv (es_db s)"
    "dispatch_count (job_events (es_db s)) k \<le> 1"
    "launch_count (es_log s) k + dispatch_count (job_events db0) k \<le> dispatch_count (job_events (es_db s)) k"
proof -
  have 1: "others_run rt cfg" and r0: "reachable_registry (rt_host rt) cfg db0"
    and run: "registry_run (rt_host rt) cfg db0 (es_db s)"
    and 5: "launch_count (es_log s) k + dispatch_count (job_events db0) k \<le> dispatch_count (job_events (es_db s)) k"
    using assms unfolding effects_ok_def by simp_all
  have 2: "reachable_registry (rt_host rt) cfg (es_db s)" by (rule reachable_run[OF r0 run])
  have 3: "full_inv (es_db s)" by (rule reachable_full_inv[OF 2])
  have 4: "dispatch_count (job_events (es_db s)) k \<le> 1" by (rule dispatch_ok_bound[OF full_invD(4)[OF 3]])
  show "others_run rt cfg" "reachable_registry (rt_host rt) cfg (es_db s)" "full_inv (es_db s)"
    "dispatch_count (job_events (es_db s)) k \<le> 1"
    "launch_count (es_log s) k + dispatch_count (job_events db0) k \<le> dispatch_count (job_events (es_db s)) k"
    by (fact 1 2 3 4 5)+
qed

lemma quiet_run:
  assumes "effects_ok rt cfg db0 s" and "quiet rt cfg s t"
  shows "registry_run (rt_host rt) cfg (es_db s) (es_db t)" "advances (es_db s) (es_db t)"
  using assms reachable_advances[OF effects_okD(2)[OF assms(1)]] effects_okD(1)[OF assms(1)] unfolding quiet_def by blast+

lemma release_launch_count:
  "releases rest \<Longrightarrow> launch_count (log @ rest) k = launch_count log k"
  by (induction rest) (auto simp: launch_count_def releases_def)

lemma releases_justified: "releases rest \<Longrightarrow> \<forall>(e, db) \<in> set rest. justified e db"
  by (induction rest) (auto simp: releases_def split: world_effect.splits)

lemma quiet_launch_count:
  "quiet rt cfg s t \<Longrightarrow> others_run rt cfg \<Longrightarrow> launch_count (es_log t) k = launch_count (es_log s) k"
  unfolding quiet_def using release_launch_count by metis

lemma quiet_preserves: "quiet rt cfg s t \<Longrightarrow> preserves rt cfg s t"
  unfolding preserves_def
proof (intro allI impI)
  fix db0
  assume q: "quiet rt cfg s t" and ok: "effects_ok rt cfg db0 s"
  note run = quiet_run[OF ok q]
  have "\<forall>(e, db) \<in> set (es_log t). justified e db"
  proof -
    obtain rest where rest: "es_log t = es_log s @ rest" "releases rest"
      using q effects_okD(1)[OF ok] unfolding quiet_def by blast
    have "\<forall>(e, db) \<in> set (es_log s). justified e db" using ok unfolding effects_ok_def by simp
    then show ?thesis using releases_justified[OF rest(2)] unfolding rest(1) set_append ball_Un ..
  qed
  moreover have "launch_count (es_log t) k + dispatch_count (job_events db0) k \<le> dispatch_count (job_events (es_db t)) k" for k
    using effects_okD(5)[OF ok, of k] quiet_launch_count[OF q effects_okD(1)[OF ok], of k] run(2)
      dispatch_count_mono[of "job_events (es_db s)" "job_events (es_db t)" k] unfolding advances_def by linarith
  moreover have "registry_run (rt_host rt) cfg db0 (es_db t)"
    using ok run(1) unfolding effects_ok_def registry_run_def by (meson rtranclp_trans)
  ultimately show "effects_ok rt cfg db0 t" using ok unfolding effects_ok_def by blast
qed

lemma quiet_keeps_preserves: "keeps (quiet rt cfg) m \<Longrightarrow> keeps (preserves rt cfg) m"
  by (auto simp: keeps_def intro: quiet_preserves)

interpretation safe: engine_moves rt cfg "preserves rt cfg" for rt cfg
proof unfold_locales
  show "preserves rt cfg s t \<Longrightarrow> preserves rt cfg t u \<Longrightarrow> preserves rt cfg s u" for s t u
    by (simp add: preserves_def)
  show "keeps (preserves rt cfg) (emit (ReleaseUnit name))" for name
    by (rule quiet_keeps_preserves[OF quiet.R_release])
qed (auto intro: quiet_preserves quiet.R_refl quiet.R_tick quiet.R_registry)

section \<open>Pre- and postconditions\<close>

text \<open>
  \<open>ensures\<close> is the triple of a program that keeps the invariant when it fails and reaches its
  postcondition when it returns; assertions include the invariant and survive quiet moves.
\<close>

definition ensures ::
  "(engine_state \<Rightarrow> bool) \<Rightarrow> (engine_state \<Rightarrow> bool) \<Rightarrow> 'a engine \<Rightarrow> ('a \<Rightarrow> engine_state \<Rightarrow> bool) \<Rightarrow> bool" where
  "ensures I P m Q \<longleftrightarrow> (\<forall>s. P s \<longrightarrow> (case m s of (Inl _, t) \<Rightarrow> I t | (Inr x, t) \<Rightarrow> Q x t))"

definition assertion :: "runtime \<Rightarrow> RegistryConfig \<Rightarrow> registry \<Rightarrow> (engine_state \<Rightarrow> bool) \<Rightarrow> bool" where
  "assertion rt cfg db0 P \<longleftrightarrow> (\<forall>s. P s \<longrightarrow> effects_ok rt cfg db0 s) \<and> (\<forall>s t. P s \<longrightarrow> quiet rt cfg s t \<longrightarrow> P t)"

lemma ensures_bind:
  assumes "ensures I P m Q" and "\<And>x. ensures I (Q x) (f x) S"
  shows "ensures I P (ebind m f) S"
  unfolding ensures_def
proof (intro allI impI)
  fix s assume P: "P s"
  obtain r t where m: "m s = (r, t)" by fastforce
  have r: "case r of Inl _ \<Rightarrow> I t | Inr x \<Rightarrow> Q x t" using assms(1)[unfolded ensures_def, rule_format, OF P] by (simp add: m)
  show "case ebind m f s of (Inl _, t) \<Rightarrow> I t | (Inr x, t) \<Rightarrow> S x t"
  proof (cases r)
    case (Inl e)
    then show ?thesis using r by (simp add: ebind_def m)
  next
    case (Inr x)
    then have "case f x t of (Inl _, t) \<Rightarrow> I t | (Inr x, t) \<Rightarrow> S x t" using r assms(2)[of x] unfolding ensures_def by simp
    then show ?thesis using Inr by (simp add: ebind_def m)
  qed
qed

lemma ensures_quiet:
  assumes "keeps (quiet rt cfg) m" and "assertion rt cfg db0 P"
  shows "ensures (effects_ok rt cfg db0) P m (\<lambda>_. P)"
  unfolding ensures_def
proof (intro allI impI)
  fix s assume P: "P s"
  obtain r t where m: "m s = (r, t)" by fastforce
  have "P t" using assms(2) P keepsD[OF assms(1) m] unfolding assertion_def by blast
  then show "case m s of (Inl _, t) \<Rightarrow> effects_ok rt cfg db0 t | (Inr _, t) \<Rightarrow> P t"
    using assms(2) unfolding m assertion_def by (simp split: sum.splits)
qed

lemma ensures_kept:
  assumes "keeps (preserves rt cfg) m" and "\<And>s. P s \<Longrightarrow> effects_ok rt cfg db0 s"
  shows "ensures (effects_ok rt cfg db0) P m (\<lambda>_. effects_ok rt cfg db0)"
  unfolding ensures_def
proof (intro allI impI)
  fix s assume "P s"
  then show "case m s of (Inl _, t) \<Rightarrow> effects_ok rt cfg db0 t | (Inr _, t) \<Rightarrow> effects_ok rt cfg db0 t"
    using assms unfolding keeps_def preserves_def by (metis (mono_tags, lifting) case_prod_beta old.sum.simps(5,6) sum.exhaust)
qed

lemma ensures_keeps:
  assumes "\<And>db0. ensures (effects_ok rt cfg db0) (effects_ok rt cfg db0) m (\<lambda>_. effects_ok rt cfg db0)"
  shows "keeps (preserves rt cfg) m"
  using assms unfolding keeps_def preserves_def ensures_def
  by (metis (mono_tags, lifting) case_prod_beta old.sum.simps(5,6) sum.exhaust)

lemma ensures_pre: "ensures I P m Q \<Longrightarrow> (\<And>s. P' s \<Longrightarrow> P s) \<Longrightarrow> ensures I P' m Q"
  unfolding ensures_def by simp

lemma ensures_if:
  "(b \<Longrightarrow> ensures I P m Q) \<Longrightarrow> (\<not> b \<Longrightarrow> ensures I P n Q) \<Longrightarrow> ensures I P (if b then m else n) Q"
  by simp

lemma ensures_emit:
  assumes "\<And>s. P s \<Longrightarrow> effects_ok rt cfg db0 s \<and> justified e (es_db s)"
    and "\<And>s k. P s \<Longrightarrow> e = LaunchUnit k \<or> e = SpawnLauncher k \<Longrightarrow>
       launch_count (es_log s) k + dispatch_count (job_events db0) k < dispatch_count (job_events (es_db s)) k"
  shows "ensures (effects_ok rt cfg db0) P (emit e) (\<lambda>_. effects_ok rt cfg db0)"
  unfolding ensures_def emit_def prod.case sum.case
proof (intro allI impI)
  fix s assume P: "P s"
  have "launch_count (es_log s @ [(e, es_db s)]) k + dispatch_count (job_events db0) k
      \<le> dispatch_count (job_events (es_db s)) k" for k
    using assms(2)[OF P, of k] effects_okD(5)[of rt cfg db0 s k] assms(1)[OF P]
    by (cases "e = LaunchUnit k \<or> e = SpawnLauncher k") (auto simp: launch_count_def)
  then show "effects_ok rt cfg db0 (s\<lparr>es_log := es_log s @ [(e, es_db s)]\<rparr>)"
    using assms(1)[OF P] unfolding effects_ok_def by auto
qed

section \<open>Terminating a launcher at its deadline\<close>

definition to_terminate :: "runtime \<Rightarrow> RegistryConfig \<Rightarrow> registry \<Rightarrow> string \<Rightarrow> engine_state \<Rightarrow> bool" where
  "to_terminate rt cfg db0 k s \<longleftrightarrow> effects_ok rt cfg db0 s \<and> termination_intended (es_db s) k"

lemma assertion_effects_ok: "assertion rt cfg db0 (effects_ok rt cfg db0)"
  unfolding assertion_def using quiet_preserves unfolding preserves_def by blast

lemma assertion_conj:
  assumes "\<And>s t. effects_ok rt cfg db0 s \<Longrightarrow> quiet rt cfg s t \<Longrightarrow> P s \<Longrightarrow> P t"
  shows "assertion rt cfg db0 (\<lambda>s. effects_ok rt cfg db0 s \<and> P s)"
  using assms quiet_preserves unfolding assertion_def preserves_def by blast

lemma assertion_to_terminate: "assertion rt cfg db0 (to_terminate rt cfg db0 k)"
  unfolding to_terminate_def by (rule assertion_conj, rule intended_advances(1)[OF quiet_run(2)])

lemma ensures_registry_read:
  assumes "assertion rt cfg db0 P" and "\<And>env s x. P s \<Longrightarrow> query env (es_db s) = Inr x \<Longrightarrow> Q x s"
  shows "ensures (effects_ok rt cfg db0) P (registry_read rt query) Q"
  unfolding ensures_def
proof (intro allI impI)
  fix s assume "P s"
  then have "P (advance rt s)" using assms(1) quiet.R_tick unfolding assertion_def by blast
  then show "case registry_read rt query s of (Inl _, t) \<Rightarrow> effects_ok rt cfg db0 t | (Inr x, t) \<Rightarrow> Q x t"
    using assms unfolding registry_read_def assertion_def by (simp add: Let_def split: sum.splits)
qed

lemma ensures_registry_op:
  assumes "assertion rt cfg db0 P" and step: "\<And>env db. registry_step (rt_host rt) cfg db (snd (operation env db))"
    and post: "\<And>env s x db'. P s \<Longrightarrow> operation env (es_db s) = (Inr x, db') \<Longrightarrow>
      P (s\<lparr>es_db := db'\<rparr>) \<Longrightarrow> Q x (s\<lparr>es_db := db'\<rparr>)"
  shows "ensures (effects_ok rt cfg db0) P (registry_op rt operation) Q"
  unfolding ensures_def
proof (intro allI impI)
  fix s assume "P s"
  then have P: "P (advance rt s)" using assms(1) quiet.R_tick unfolding assertion_def by blast
  let ?o = "operation (io_sql (rt_io rt) (es_tick s)) (es_db (advance rt s))"
  let ?t = "(advance rt s)\<lparr>es_db := snd ?o\<rparr>"
  have P': "P ?t" using assms(1) P quiet.R_registry[OF step] unfolding assertion_def by blast
  then have I: "effects_ok rt cfg db0 ?t" using assms(1) unfolding assertion_def by blast
  have "Q x ?t" if "fst ?o = Inr x" for x
    using post[OF P _ P', of _ x] that by (metis prod.collapse)
  then show "case registry_op rt operation s of (Inl _, t) \<Rightarrow> effects_ok rt cfg db0 t | (Inr x, t) \<Rightarrow> Q x t"
    using I unfolding registry_op_def Let_def by (simp split: sum.splits)
qed

lemma terminate_for_deadline_ensures:
  "ensures (effects_ok rt cfg db0) (to_terminate rt cfg db0 (a_attempt_id stopped))
     (terminate_for_deadline rt plan pid creation pre stopped) (\<lambda>_. effects_ok rt cfg db0)"
  unfolding terminate_for_deadline_def
proof (intro ensures_bind)
  show "ensures (effects_ok rt cfg db0) (to_terminate rt cfg db0 (a_attempt_id stopped))
     (require_windows rt ''native Windows deadline enforcement has no configured provider'')
     (\<lambda>_. to_terminate rt cfg db0 (a_attempt_id stopped))"
    by (rule ensures_quiet[OF quiet.require_windows_keeps assertion_to_terminate])
  show "ensures (effects_ok rt cfg db0) (to_terminate rt cfg db0 (a_attempt_id stopped))
     (emit (TerminateLauncher (a_attempt_id stopped))) (\<lambda>_. effects_ok rt cfg db0)"
    by (rule ensures_emit) (simp_all add: to_terminate_def)
qed (rule ensures_kept, (intro keeps)[1], simp)+

text \<open>The Attempt the deadline applies to, when it does: its termination is intended.\<close>

definition selected_for_deadline :: "runtime \<Rightarrow> RegistryConfig \<Rightarrow> registry \<Rightarrow> AttemptRecord option \<Rightarrow> engine_state \<Rightarrow> bool" where
  "selected_for_deadline rt cfg db0 selected s \<longleftrightarrow> effects_ok rt cfg db0 s
     \<and> (\<forall>c. selected = Some c \<longrightarrow> a_termination_intent c \<noteq> Natural \<longrightarrow> termination_intended (es_db s) (a_attempt_id c))"

lemma request_deadline_now_ensures:
  "ensures (effects_ok rt cfg db0) (effects_ok rt cfg db0) (request_deadline_now rt k at)
     (\<lambda>c. selected_for_deadline rt cfg db0 (Some c))"
  unfolding request_deadline_now_def
  by (rule ensures_registry_op[OF assertion_effects_ok rs_deadline])
    (simp add: selected_for_deadline_def deadline_acknowledged)

lemma get_attempt_now_ensures:
  "ensures (effects_ok rt cfg db0) (effects_ok rt cfg db0) (get_attempt_now rt k)
     (\<lambda>c. selected_for_deadline rt cfg db0 (Some c))"
  unfolding get_attempt_now_def
  by (rule ensures_registry_read[OF assertion_effects_ok])
    (auto simp: selected_for_deadline_def get_attempt_def intro: loaded_termination elim!: rbind_InrE)

lemma ensures_eret: "(\<And>s. P s \<Longrightarrow> Q x s) \<Longrightarrow> ensures I P (eret x) Q"
  by (simp add: ensures_def eret_def)

lemma select_for_deadline_ensures:
  "ensures (effects_ok rt cfg db0) (effects_ok rt cfg db0)
     (case a_termination_intent attempt of
        Natural \<Rightarrow>
          if due then ebind (request_deadline_now rt (a_attempt_id attempt) at) (\<lambda>c. eret (Some c)) else eret None
      | DeadlineExceeded \<Rightarrow> ebind (get_attempt_now rt (a_attempt_id attempt)) (\<lambda>c. eret (Some c))
      | StopRequested \<Rightarrow> eret None) (selected_for_deadline rt cfg db0)"
proof -
  have none: "ensures (effects_ok rt cfg db0) (effects_ok rt cfg db0) (eret None) (selected_for_deadline rt cfg db0)"
    by (rule ensures_eret) (simp add: selected_for_deadline_def)
  have some: "ensures (effects_ok rt cfg db0) (effects_ok rt cfg db0) (ebind m (\<lambda>c. eret (Some c))) (selected_for_deadline rt cfg db0)"
    if "ensures (effects_ok rt cfg db0) (effects_ok rt cfg db0) m (\<lambda>c. selected_for_deadline rt cfg db0 (Some c))" for m
    by (rule ensures_bind[OF that], rule ensures_eret)
  show ?thesis
    using none some[OF request_deadline_now_ensures] some[OF get_attempt_now_ensures]
    by (cases "a_termination_intent attempt") simp_all
qed

lemma enforce_deadline_ensures:
  "ensures (effects_ok rt cfg db0) (effects_ok rt cfg db0)
     (enforce_native_windows_outer_deadline rt attempt plan started pid creation pre) (\<lambda>_. effects_ok rt cfg db0)"
  unfolding enforce_native_windows_outer_deadline_def
proof (intro ensures_bind)
  show "ensures (effects_ok rt cfg db0) (effects_ok rt cfg db0) (engine_now_ms rt) (\<lambda>_. effects_ok rt cfg db0)"
    by (rule ensures_quiet[OF quiet.engine_now_ms_keeps assertion_effects_ok])
  fix selected
  let ?next = "\<lambda>current. if is_terminal (a_state current) then eret True
         else if a_termination_intent current \<noteq> DeadlineExceeded then eret False
         else ebind (result_is_file rt current) (\<lambda>present.
           if present then ebind (reconcile_runner_result rt current) (\<lambda>_. eret True)
           else terminate_for_deadline rt plan pid creation pre current)"
  have sel: "selected_for_deadline rt cfg db0 selected s \<Longrightarrow> effects_ok rt cfg db0 s" for s
    by (simp add: selected_for_deadline_def)
  have ret: "ensures (effects_ok rt cfg db0) (selected_for_deadline rt cfg db0 selected) (eret b) (\<lambda>_. effects_ok rt cfg db0)"
    for b :: bool by (rule ensures_eret) (rule sel)
  have "ensures (effects_ok rt cfg db0) (selected_for_deadline rt cfg db0 selected) (?next c) (\<lambda>_. effects_ok rt cfg db0)"
    if "selected = Some c" for c
  proof (intro ensures_if ret)
    assume "\<not> a_termination_intent c \<noteq> DeadlineExceeded"
    then have pre: "selected_for_deadline rt cfg db0 selected s \<Longrightarrow> to_terminate rt cfg db0 (a_attempt_id c) s" for s
      by (simp add: selected_for_deadline_def to_terminate_def that)
    have "ensures (effects_ok rt cfg db0) (to_terminate rt cfg db0 (a_attempt_id c))
      (ebind (result_is_file rt c) (\<lambda>present.
           if present then ebind (reconcile_runner_result rt c) (\<lambda>_. eret True)
           else terminate_for_deadline rt plan pid creation pre c)) (\<lambda>_. effects_ok rt cfg db0)"
      by (rule ensures_bind[OF ensures_quiet[OF quiet.result_is_file_keeps assertion_to_terminate]],
          rule ensures_if, rule ensures_kept, (intro keeps)[1], simp add: to_terminate_def,
          rule terminate_for_deadline_ensures)
    then show "ensures (effects_ok rt cfg db0) (selected_for_deadline rt cfg db0 selected)
      (ebind (result_is_file rt c) (\<lambda>present.
           if present then ebind (reconcile_runner_result rt c) (\<lambda>_. eret True)
           else terminate_for_deadline rt plan pid creation pre c)) (\<lambda>_. effects_ok rt cfg db0)"
      by (rule ensures_pre) (rule pre)
  qed
  then show "ensures (effects_ok rt cfg db0) (selected_for_deadline rt cfg db0 selected)
     (case selected of None \<Rightarrow> eret False | Some current \<Rightarrow> ?next current) (\<lambda>_. effects_ok rt cfg db0)"
    using ret by (cases selected) simp_all
qed (rule select_for_deadline_ensures)

interpretation safe_deadline: engine_deadline rt cfg "preserves rt cfg" for rt cfg
  by unfold_locales (rule ensures_keeps[OF enforce_deadline_ensures])

section \<open>Launching a dispatched Attempt\<close>

definition to_launch :: "runtime \<Rightarrow> RegistryConfig \<Rightarrow> registry \<Rightarrow> string \<Rightarrow> engine_state \<Rightarrow> bool" where
  "to_launch rt cfg db0 k s \<longleftrightarrow> effects_ok rt cfg db0 s
     \<and> (dispatch_count (job_events (es_db s)) k = 1 \<and> dispatch_count (job_events db0) k = 0 \<and> launch_count (es_log s) k = 0)"

lemma assertion_to_launch: "assertion rt cfg db0 (to_launch rt cfg db0 k)"
  unfolding to_launch_def
proof (rule assertion_conj, elim conjE)
  fix s t
  assume ok: "effects_ok rt cfg db0 s" and q: "quiet rt cfg s t"
    and 1: "dispatch_count (job_events (es_db s)) k = 1" "dispatch_count (job_events db0) k = 0" "launch_count (es_log s) k = 0"
  have ok': "effects_ok rt cfg db0 t" using ok quiet_preserves[OF q] unfolding preserves_def by blast
  have "dispatch_count (job_events (es_db s)) k \<le> dispatch_count (job_events (es_db t)) k"
    using quiet_run(2)[OF ok q] dispatch_count_mono unfolding advances_def by blast
  then show "dispatch_count (job_events (es_db t)) k = 1 \<and> dispatch_count (job_events db0) k = 0 \<and> launch_count (es_log t) k = 0"
    using 1 effects_okD(4)[OF ok', of k] quiet_launch_count[OF q effects_okD(1)[OF ok]] by simp
qed

lemma to_launch_ok: "to_launch rt cfg db0 k s \<Longrightarrow> effects_ok rt cfg db0 s"
  by (simp add: to_launch_def)

lemma ensures_launch:
  assumes "e = LaunchUnit k \<or> e = SpawnLauncher k"
  shows "ensures (effects_ok rt cfg db0) (to_launch rt cfg db0 k) (emit e) (\<lambda>_. effects_ok rt cfg db0)"
  by (rule ensures_emit) (use assms in \<open>auto simp: to_launch_def\<close>)

lemmas before_launch = ensures_quiet[OF _ assertion_to_launch]
lemmas after_launch = ensures_kept[where P = "effects_ok rt cfg db0" for rt cfg db0]

lemma mark_dispatch_ensures:
  "ensures (effects_ok rt cfg db0) (effects_ok rt cfg db0) (mark_dispatch_issued_now rt attempt at)
     (\<lambda>starting. to_launch rt cfg db0 (a_attempt_id starting))"
  unfolding mark_dispatch_issued_now_def
proof (rule ensures_registry_op[OF assertion_effects_ok rs_dispatch])
  fix env s starting db'
  assume ok: "effects_ok rt cfg db0 s" and ok': "effects_ok rt cfg db0 (s\<lparr>es_db := db'\<rparr>)"
    and mark: "mark_dispatch_issued (rt_host rt) env (es_db s) (a_attempt_id attempt) (a_row_version attempt) at = (Inr starting, db')"
  note ack = dispatch_acknowledged[OF effects_okD(3)[OF ok] mark]
  show "to_launch rt cfg db0 (a_attempt_id starting) (s\<lparr>es_db := db'\<rparr>)"
    using ack ok' effects_okD(5)[OF ok, of "a_attempt_id attempt"] by (simp add: to_launch_def)
qed

lemma systemd_run_ensures:
  "ensures (effects_ok rt cfg db0) (to_launch rt cfg db0 k) (systemd_run rt k spec) (\<lambda>_. effects_ok rt cfg db0)"
  unfolding systemd_run_def
proof (intro ensures_bind)
  show "ensures (effects_ok rt cfg db0) (to_launch rt cfg db0 k) (emit (LaunchUnit k)) (\<lambda>_. effects_ok rt cfg db0)"
    by (rule ensures_launch) simp
qed (rule before_launch after_launch, (intro keeps)[1], assumption?)+

lemma dispatch_local_linux_ensures:
  "ensures (effects_ok rt cfg db0) (to_launch rt cfg db0 (a_attempt_id starting))
     (dispatch_local_linux rt starting plan bundle_path) (\<lambda>_. effects_ok rt cfg db0)"
  unfolding dispatch_local_linux_def
  apply (rule ensures_bind[OF before_launch[OF quiet.configured_runner_keeps]])
  apply (rule ensures_bind[OF before_launch[OF quiet.committed_input_set_keeps]])
  apply (rule ensures_bind[OF before_launch[OF quiet.committed_credentials_keeps]])
  apply (simp only: case_prod_beta)
  apply (rule ensures_bind[OF systemd_run_ensures])
  apply (rule after_launch, (intro keeps)[1], assumption)
  done

lemma dispatch_windows_native_ensures:
  "ensures (effects_ok rt cfg db0) (to_launch rt cfg db0 (a_attempt_id starting))
     (dispatch_windows_native rt starting plan bundle_path) (\<lambda>_. effects_ok rt cfg db0)"
  unfolding dispatch_windows_native_def
  apply (rule ensures_bind[OF before_launch[OF quiet.require_windows_keeps]])
  apply (rule ensures_bind[OF before_launch[OF quiet.committed_input_set_keeps]])
  apply (rule ensures_bind, rule before_launch, (intro keeps)[1])
  apply (rule ensures_bind[OF before_launch[OF quiet.engine_sha256_file_keeps]])
  apply (rule ensures_bind[OF ensures_launch], simp)
  apply (rule after_launch, (intro keeps)[1], assumption)
  done

lemma dispatch_attempt_ensures:
  "ensures (effects_ok rt cfg db0) (effects_ok rt cfg db0) (dispatch_attempt rt attempt) (\<lambda>_. effects_ok rt cfg db0)"
  unfolding dispatch_attempt_def
  apply (rule ensures_bind[OF ensures_quiet[OF quiet.engine_now_ms_keeps assertion_effects_ok]])
  apply (rule ensures_bind[OF mark_dispatch_ensures])
  apply (rule ensures_bind[OF before_launch[OF quiet.execution_plan_now_keeps]])
  apply (rule ensures_bind[OF before_launch[OF quiet.canonical_directory_keeps]])
  subgoal for now starting plan bundle_path
    using dispatch_local_linux_ensures dispatch_windows_native_ensures by (cases "p_execution_target plan") simp_all
  done

interpretation safe_dispatch: engine_dispatch rt cfg "preserves rt cfg" for rt cfg
  by unfold_locales (rule ensures_keeps[OF dispatch_attempt_ensures])

section \<open>Stopping a cancelled Attempt\<close>

definition to_cancel :: "runtime \<Rightarrow> RegistryConfig \<Rightarrow> registry \<Rightarrow> string \<Rightarrow> engine_state \<Rightarrow> bool" where
  "to_cancel rt cfg db0 job_id s \<longleftrightarrow> effects_ok rt cfg db0 s \<and> cancel_intended (es_db s) job_id"

definition to_stop :: "runtime \<Rightarrow> RegistryConfig \<Rightarrow> registry \<Rightarrow> string \<Rightarrow> string \<Rightarrow> engine_state \<Rightarrow> bool" where
  "to_stop rt cfg db0 job_id k s \<longleftrightarrow>
     effects_ok rt cfg db0 s \<and> (cancel_intended (es_db s) job_id \<and> owned_by (es_db s) k job_id)"

lemma assertion_to_cancel: "assertion rt cfg db0 (to_cancel rt cfg db0 job_id)"
  unfolding to_cancel_def by (rule assertion_conj, rule intended_advances(2)[OF quiet_run(2)])

lemma assertion_to_stop: "assertion rt cfg db0 (to_stop rt cfg db0 job_id k)"
  unfolding to_stop_def
proof (rule assertion_conj, elim conjE)
  fix s t
  assume "effects_ok rt cfg db0 s" and "quiet rt cfg s t"
    and "cancel_intended (es_db s) job_id" and "owned_by (es_db s) k job_id"
  then show "cancel_intended (es_db t) job_id \<and> owned_by (es_db t) k job_id"
    using intended_advances(2,3)[OF quiet_run(2)] by blast
qed

lemma request_cancel_ensures:
  "ensures (effects_ok rt cfg db0) (effects_ok rt cfg db0) (request_cancel_now rt job_id)
     (\<lambda>p s. effects_ok rt cfg db0 s \<and> (\<not> jpr_result_available p \<longrightarrow> cancel_intended (es_db s) job_id))"
  unfolding request_cancel_now_def
proof (rule ensures_bind[OF ensures_quiet[OF quiet.engine_now_ms_keeps assertion_effects_ok]],
    rule ensures_registry_op[OF assertion_effects_ok rs_cancel])
  fix now env s p db'
  assume ok: "effects_ok rt cfg db0 s" and ok': "effects_ok rt cfg db0 (s\<lparr>es_db := db'\<rparr>)"
    and req: "request_cancel (rt_host rt) env (es_db s) job_id now = (Inr p, db')"
  show "effects_ok rt cfg db0 (s\<lparr>es_db := db'\<rparr>) \<and>
      (\<not> jpr_result_available p \<longrightarrow> cancel_intended (es_db (s\<lparr>es_db := db'\<rparr>)) job_id)"
    using ok' cancel_acknowledged[OF full_invD(1)[OF effects_okD(3)[OF ok]] req] by simp
qed

lemma latest_attempt_ensures:
  "ensures (effects_ok rt cfg db0) (to_cancel rt cfg db0 job_id) (get_latest_attempt_now rt job_id)
     (\<lambda>latest s. effects_ok rt cfg db0 s \<and> (\<forall>a. latest = Some a \<longrightarrow> to_stop rt cfg db0 job_id (a_attempt_id a) s))"
  unfolding get_latest_attempt_now_def
proof (rule ensures_registry_read[OF assertion_to_cancel])
  fix env s latest
  assume "to_cancel rt cfg db0 job_id s" and q: "get_latest_attempt env (es_db s) job_id = Inr latest"
  then have ok: "effects_ok rt cfg db0 s" "cancel_intended (es_db s) job_id" by (simp_all add: to_cancel_def)
  have "to_stop rt cfg db0 job_id (a_attempt_id a) s" if "latest = Some a" for a
    using latest_owned[OF full_invD(1)[OF effects_okD(3)[OF ok(1)]] q[unfolded that]] ok by (simp add: to_stop_def)
  then show "effects_ok rt cfg db0 s \<and> (\<forall>a. latest = Some a \<longrightarrow> to_stop rt cfg db0 job_id (a_attempt_id a) s)"
    using ok(1) by blast
qed

lemma cancel_linux_attempt_ensures:
  "ensures (effects_ok rt cfg db0) (to_stop rt cfg db0 job_id (a_attempt_id attempt))
     (cancel_linux_attempt rt job_id attempt) (\<lambda>_. effects_ok rt cfg db0)"
  unfolding cancel_linux_attempt_def
  apply (rule ensures_bind, rule ensures_emit)
    apply (auto simp: to_stop_def)[2]
  apply (rule after_launch, (intro keeps)[1], assumption)
  done

lemma ensures_ok_or:
  "ensures I (\<lambda>s. I s \<and> (\<forall>a. latest = Some a \<longrightarrow> P a s)) (elift (ok_or latest e)) P"
  by (cases latest) (simp_all add: ensures_def elift_def)

lemma cancel_latest_ensures:
  "ensures (effects_ok rt cfg db0) (to_cancel rt cfg db0 job_id)
     (ebind (get_latest_attempt_now rt job_id) (\<lambda>latest.
      ebind (elift (ok_or latest e)) (\<lambda>attempt.
      ebind (engine_now_ms rt) (\<lambda>now.
      ebind (write_atomic rt (path attempt) (bytes attempt now)) (\<lambda>_.
      if native then cancel_native_windows_attempt turns rt job_id attempt
      else ebind (cancel_linux_attempt rt job_id attempt) (\<lambda>ob. eret (Some ob)))))))
     (\<lambda>_. effects_ok rt cfg db0)"
  apply (rule ensures_bind[OF latest_attempt_ensures])
  apply (rule ensures_bind[OF ensures_ok_or])
  apply (rule ensures_bind[OF ensures_quiet[OF quiet.engine_now_ms_keeps assertion_to_stop]])
  apply (rule ensures_bind[OF ensures_quiet[OF quiet.write_atomic_keeps assertion_to_stop]])
  apply (rule ensures_if)
   apply (rule ensures_kept[OF safe_deadline.cancel_native_windows_attempt_keeps], simp add: to_stop_def)
  apply (rule ensures_bind[OF cancel_linux_attempt_ensures])
  apply (rule ensures_eret, assumption)
  done

lemma cancel_running_ensures:
  "ensures (effects_ok rt cfg db0) (effects_ok rt cfg db0) (cancel_running turns rt job_id seen) (\<lambda>_. effects_ok rt cfg db0)"
  unfolding cancel_running_def Let_def
  apply (rule ensures_bind[OF ensures_quiet[OF quiet.execution_plan_now_keeps assertion_effects_ok]])
  apply (rule ensures_bind, rule after_launch[OF safe_dispatch.reconcile_before_cancel_keeps], assumption)
  apply (rule ensures_bind[OF request_cancel_ensures])
  apply (rule ensures_if)
   apply (rule ensures_kept, (intro keeps)[1], simp)
  apply (rule ensures_pre[OF cancel_latest_ensures], simp add: to_cancel_def)
  done

interpretation safe_calls: engine_calls rt cfg "preserves rt cfg" for rt cfg
  by unfold_locales (rule ensures_keeps[OF cancel_running_ensures])

interpretation safe_admission: engine_admission rt "rt_registry rt" "preserves rt (rt_registry rt)" for rt
  by unfold_locales simp

section \<open>Sequences of calls\<close>

text \<open>The operations a Runtime is asked for and the administrative tools used on its store, one after the
  other, whether they return or fail.\<close>

datatype engine_call =
    RunJobProposal JobRunProposal
  | RunJobProposalWithInputs JobRunProposal "InputBindingRequest list"
  | RunJobProposalWithCredentials JobRunProposal "CredentialBindingRequest list"
  | AdmitRuntimeRelease RuntimeReleaseRequest JobRunProposal string
  | GetRuntimeRelease RuntimeReleaseGetRequest
  | DispatchNewJob string
  | ReconcileJob string
  | ReconcileWorkspace string
  | ReconcileMaintenance nat
  | RecoverOrphans
  | ObserveJob JobObserveRequest
  | CancelJob nat JobCancelRequest
  | ReadArtifact ArtifactReadRequest
  | InspectRuntime doctor_world RuntimeDoctorConfig
  | ApplyRuntimeRepair doctor_world RuntimeDoctorConfig RuntimeRepairRequest
  | CancelStaleAttempt doctor_world RuntimeDoctorConfig RuntimeStaleCancelRequest

definition after :: "'a engine \<Rightarrow> engine_state \<Rightarrow> engine_state" where
  "after m s = snd (m s)"

fun run_call :: "runtime \<Rightarrow> engine_call \<Rightarrow> engine_state \<Rightarrow> engine_state" where
  "run_call rt (RunJobProposal proposal) = after (run_job_proposal rt proposal)"
| "run_call rt (RunJobProposalWithInputs proposal inputs) = after (run_job_proposal_with_inputs rt proposal inputs)"
| "run_call rt (RunJobProposalWithCredentials proposal credentials) = after (run_job_proposal_with_credentials rt proposal credentials)"
| "run_call rt (AdmitRuntimeRelease request proposal receipt) = after (admit_runtime_release_effect rt request proposal receipt)"
| "run_call rt (GetRuntimeRelease request) = after (get_runtime_release_effect rt request)"
| "run_call rt (DispatchNewJob job_id) = after (ensure_newly_admitted_job_dispatched rt job_id)"
| "run_call rt (ReconcileJob job_id) = after (reconcile_job rt job_id)"
| "run_call rt (ReconcileWorkspace workspace_id) = after (reconcile_workspace rt workspace_id)"
| "run_call rt (ReconcileMaintenance limit) = after (reconcile_maintenance_batch rt limit)"
| "run_call rt RecoverOrphans = after (reconcile_recoverable_orphans rt)"
| "run_call rt (ObserveJob request) = after (observe_job rt request)"
| "run_call rt (CancelJob turns request) = after (cancel_job turns rt request)"
| "run_call rt (ReadArtifact request) = after (read_artifact rt request)"
| "run_call rt (InspectRuntime w cfg) = after (inspect_runtime w rt cfg)"
| "run_call rt (ApplyRuntimeRepair w cfg request) = after (apply_runtime_repair w rt cfg request)"
| "run_call rt (CancelStaleAttempt w cfg request) = after (cancel_stale_recovery_required_attempt w rt cfg request)"

definition run_calls :: "runtime \<Rightarrow> engine_call list \<Rightarrow> engine_state \<Rightarrow> engine_state" where
  "run_calls rt calls s = fold (run_call rt) calls s"

lemma keeps_after: "keeps R m \<Longrightarrow> R s (after m s)"
  by (simp add: keeps_def after_def)

lemma run_call_preserves: "preserves rt (rt_registry rt) s (run_call rt c s)"
  by (cases c) (simp_all only: run_call.simps, (rule keeps_after, intro keeps)+)

lemma run_calls_preserves: "preserves rt (rt_registry rt) s (run_calls rt calls s)"
  unfolding run_calls_def
  by (induction calls arbitrary: s) (auto intro: safe.R_refl safe.R_trans run_call_preserves)

lemma run_calls_effects:
  assumes "others_run rt (rt_registry rt)" and "reachable_registry (rt_host rt) (rt_registry rt) (es_db s)" and "es_log s = []"
  shows "effects_ok rt (rt_registry rt) (es_db s) (run_calls rt calls s)"
proof -
  have "effects_ok rt (rt_registry rt) (es_db s) s" using assms by (simp add: effects_ok_def registry_run_def launch_count_def)
  then show ?thesis using run_calls_preserves[of rt s calls] unfolding preserves_def by blast
qed

text \<open>
  C4. What a Runtime does to the database, it does through the Registry: after any sequence of engine
  calls, each returning or failing at any point, the database is one that registry operations lead to,
  as long as the other writers keep to the registry operations, too.
\<close>

theorem engine_refines_registry:
  assumes "others_run rt (rt_registry rt)" and "reachable_registry (rt_host rt) (rt_registry rt) (es_db s)" and "es_log s = []"
  shows "registry_run (rt_host rt) (rt_registry rt) (es_db s) (es_db (run_calls rt calls s))"
  using run_calls_effects[OF assms] unfolding effects_ok_def by blast

text \<open>
  C3. At most one launch.  In any sequence of engine calls, with other Runtimes at work on the same
  database, an Attempt is launched at most once, as a systemd unit or as a Windows launcher; never when its
  dispatch was already issued before the sequence began; and never before its DISPATCH_ISSUED event is
  durable.
\<close>

theorem launched_at_most_once:
  assumes "others_run rt (rt_registry rt)" and "reachable_registry (rt_host rt) (rt_registry rt) (es_db s)" and "es_log s = []"
  shows "launch_count (es_log (run_calls rt calls s)) k + dispatch_count (job_events (es_db s)) k \<le> 1
    \<and> (\<forall>(e, db) \<in> set (es_log (run_calls rt calls s)). e \<in> {LaunchUnit k, SpawnLauncher k} \<longrightarrow>
         dispatch_count (job_events db) k = 1)"
proof
  note ok = run_calls_effects[OF assms, of calls]
  show "launch_count (es_log (run_calls rt calls s)) k + dispatch_count (job_events (es_db s)) k \<le> 1"
    using effects_okD(4,5)[OF ok, of k] by simp
  have "\<forall>(e, db) \<in> set (es_log (run_calls rt calls s)). justified e db" using ok unfolding effects_ok_def by blast
  then show "\<forall>(e, db) \<in> set (es_log (run_calls rt calls s)). e \<in> {LaunchUnit k, SpawnLauncher k} \<longrightarrow>
         dispatch_count (job_events db) k = 1"
    by fastforce
qed

text \<open>
  C5. No process is stopped without a durable reason.  Whenever the engine asks systemd to stop the unit
  of an Attempt, the database already says that the Attempt's Job is to be cancelled; whenever it terminates
  a Windows launcher, the Attempt's row already carries a termination intent.
\<close>

theorem stops_have_durable_reason:
  assumes "others_run rt (rt_registry rt)" and "reachable_registry (rt_host rt) (rt_registry rt) (es_db s)" and "es_log s = []"
    and "(e, db) \<in> set (es_log (run_calls rt calls s))"
  shows "(e = StopUnit k \<longrightarrow> (\<exists>a \<in> set (attempts db). \<exists>j \<in> set (jobs db).
            a_attempt_id a = k \<and> a_job_id a = j_job_id j \<and> j_desired_state j = DesiredCancelled))
    \<and> (e = TerminateLauncher k \<longrightarrow> (\<exists>a \<in> set (attempts db). a_attempt_id a = k \<and> a_termination_intent a \<noteq> Natural))"
proof -
  have "justified e db" using run_calls_effects[OF assms(1-3), of calls] assms(4) unfolding effects_ok_def by blast
  moreover have "\<exists>a \<in> set (attempts db). \<exists>j \<in> set (jobs db).
      a_attempt_id a = k \<and> a_job_id a = j_job_id j \<and> j_desired_state j = DesiredCancelled"
    if "justified (StopUnit k) db" using that unfolding justified.simps owned_by_def cancel_intended_def by metis
  ultimately show ?thesis using termination_intended_def by auto
qed

end
