(* ===== verification/Engine_Termination.thy ===== *)
theory Engine_Termination
  imports Engine_Effects
begin

text \<open>
  The cancellation of a Windows launcher ends.  Its loop goes round without looking at the clock when
  start evidence appears or was just bound.  When start evidence that was seen stays, that happens at most
  twice: once the evidence is there, the next turn binds it, and an Attempt with a bound owner only polls.
\<close>

section \<open>More rules\<close>

lemma ensures_efail: "(\<And>s. P s \<Longrightarrow> I s) \<Longrightarrow> ensures I P (efail e) Q"
  by (simp add: ensures_def efail_def)

lemma ensures_ask:
  assumes "assertion rt cfg db0 P" and "\<And>s. P s \<Longrightarrow> P (advance rt s) \<Longrightarrow> Q (q (rt_io rt) (es_tick s)) (advance rt s)"
  shows "ensures (effects_ok rt cfg db0) P (ask rt q) Q"
  using assms quiet.R_tick unfolding ensures_def ask_def assertion_def by simp

lemma assertion_both: "assertion rt cfg db0 P \<Longrightarrow> assertion rt cfg db0 P' \<Longrightarrow> assertion rt cfg db0 (\<lambda>s. P s \<and> P' s)"
  unfolding assertion_def by blast

lemma ensures_post: "ensures I P m Q \<Longrightarrow> (\<And>x s. Q x s \<Longrightarrow> Q' x s) \<Longrightarrow> ensures I P m Q'"
  unfolding ensures_def by (fastforce split: prod.splits sum.splits)

lemma assertion_ok: "assertion rt cfg db0 P \<Longrightarrow> P s \<Longrightarrow> effects_ok rt cfg db0 s"
  unfolding assertion_def by blast

section \<open>What is known about an Attempt\<close>

definition known_owner :: "runtime \<Rightarrow> RegistryConfig \<Rightarrow> registry \<Rightarrow> string \<Rightarrow> engine_state \<Rightarrow> bool" where
  "known_owner rt cfg db0 k s \<longleftrightarrow> effects_ok rt cfg db0 s \<and> k \<in> ow_attempt_id ` set (supervisor_owners (es_db s))"

definition known_row :: "runtime \<Rightarrow> RegistryConfig \<Rightarrow> registry \<Rightarrow> string \<Rightarrow> AttemptRecord \<Rightarrow> engine_state \<Rightarrow> bool" where
  "known_row rt cfg db0 k current s \<longleftrightarrow> effects_ok rt cfg db0 s \<and> (a_attempt_id current = k
     \<and> (\<exists>b \<in> set (attempts (es_db s)). a_attempt_id b = k \<and> a_bundle_path b = a_bundle_path current))"

definition start_evidence_stays :: "runtime \<Rightarrow> bool" where
  "start_evidence_stays rt \<longleftrightarrow> (\<forall>t t' bundle. t \<le> t' \<longrightarrow> io_is_file (rt_io rt) t (path_join bundle WINDOWS_START_FILE)
     \<longrightarrow> io_is_file (rt_io rt) t' (path_join bundle WINDOWS_START_FILE))"

definition known_start :: "runtime \<Rightarrow> RegistryConfig \<Rightarrow> registry \<Rightarrow> string \<Rightarrow> engine_state \<Rightarrow> bool" where
  "known_start rt cfg db0 k s \<longleftrightarrow> effects_ok rt cfg db0 s \<and> (\<exists>b \<in> set (attempts (es_db s)). a_attempt_id b = k
     \<and> (\<forall>t \<ge> es_tick s. io_is_file (rt_io rt) t (path_join (a_bundle_path b) WINDOWS_START_FILE)))"

lemma row_advances:
  assumes "advances db db'" and "b \<in> set (attempts db)"
  obtains c where "c \<in> set (attempts db')" and "a_attempt_id c = a_attempt_id b" and "a_bundle_path c = a_bundle_path b"
proof -
  obtain c where "c \<in> set (attempts db')" "attempt_advances b c" using assms unfolding advances_def by blast
  then show ?thesis using that unfolding attempt_advances_def attempt_identity_def by simp
qed

lemma quiet_tick: "effects_ok rt cfg db0 s \<Longrightarrow> quiet rt cfg s t \<Longrightarrow> es_tick s \<le> es_tick t"
  unfolding quiet_def using effects_okD(1) by blast

lemma assertion_known_owner: "assertion rt cfg db0 (known_owner rt cfg db0 k)"
  unfolding known_owner_def
proof (rule assertion_conj)
  fix s t
  assume "effects_ok rt cfg db0 s" "quiet rt cfg s t" and k: "k \<in> ow_attempt_id ` set (supervisor_owners (es_db s))"
  then have "prefix (supervisor_owners (es_db s)) (supervisor_owners (es_db t))"
    using quiet_run(2) unfolding advances_def by blast
  then show "k \<in> ow_attempt_id ` set (supervisor_owners (es_db t))" using k by (auto simp: prefix_def)
qed

lemma assertion_known_row: "assertion rt cfg db0 (known_row rt cfg db0 k current)"
  unfolding known_row_def
proof (rule assertion_conj, elim conjE bexE, intro conjI)
  fix s t b
  assume "effects_ok rt cfg db0 s" "quiet rt cfg s t" and b: "b \<in> set (attempts (es_db s))"
    and "a_attempt_id b = k" and "a_bundle_path b = a_bundle_path current"
  then show "\<exists>b \<in> set (attempts (es_db t)). a_attempt_id b = k \<and> a_bundle_path b = a_bundle_path current"
    using row_advances[OF quiet_run(2) b] by metis
qed

lemma assertion_known_start: "assertion rt cfg db0 (known_start rt cfg db0 k)"
  unfolding known_start_def
proof (rule assertion_conj, elim conjE bexE)
  fix s t b
  assume ok: "effects_ok rt cfg db0 s" and q: "quiet rt cfg s t" and b: "b \<in> set (attempts (es_db s))" "a_attempt_id b = k"
    and there: "\<forall>t \<ge> es_tick s. io_is_file (rt_io rt) t (path_join (a_bundle_path b) WINDOWS_START_FILE)"
  obtain c where "c \<in> set (attempts (es_db t))" "a_attempt_id c = a_attempt_id b" "a_bundle_path c = a_bundle_path b"
    by (rule row_advances[OF quiet_run(2)[OF ok q] b(1)])
  then show "\<exists>b \<in> set (attempts (es_db t)). a_attempt_id b = k
     \<and> (\<forall>n \<ge> es_tick t. io_is_file (rt_io rt) n (path_join (a_bundle_path b) WINDOWS_START_FILE))"
    using b(2) there quiet_tick[OF ok q] by (metis order_trans)
qed

section \<open>Learning\<close>

lemma tbl_lookup_key:
  "tbl_lookup key t k = Some x \<Longrightarrow> k \<in> key ` set t" "tbl_lookup key t k = None \<Longrightarrow> k \<notin> key ` set t"
  using tbl_lookup_SomeD[of key t k x] by (auto simp: tbl_lookup_def find_None_iff)

lemma owners_frame:
  "update_attempts P f c db = Inr (n, db') \<Longrightarrow> supervisor_owners db' = supervisor_owners db"
  "append_event h env i job_id aid ty origin prev new reason detail at db = Inr db' \<Longrightarrow> supervisor_owners db' = supervisor_owners db"
  "insert_supervisor_owner w c db = Inr db' \<Longrightarrow> supervisor_owners db' = supervisor_owners db @ [w]"
  unfolding update_attempts_def append_event_def insert_event_def insert_supervisor_owner_def Let_def
  by (auto split: if_splits)

lemma bind_owner_acknowledged:
  assumes "bind_supervisor_owner h env db k ver owner at = (Inr rec, db')"
  shows "k \<in> ow_attempt_id ` set (supervisor_owners db')"
proof -
  have "transact env ''supervisor-owner bind transaction'' db (bind_supervisor_owner_tx h env k ver owner at)
          (\<lambda>now _. reload_attempt env now k) commit_map_err = (Inr rec, db')"
    using assms unfolding bind_supervisor_owner_def by (simp split: sum.splits)
  from in_transaction_Inr[OF transact_Inr[OF this]] show ?thesis
  proof (elim disjE exE conjE)
    assume "bind_supervisor_owner_tx h env k ver owner at db = Inr (Return rec)" "db' = db"
    then show ?thesis unfolding bind_supervisor_owner_tx_def Let_def
      by (auto simp: existing_owner_def split: option.splits if_splits elim!: rbind_InrE intro: tbl_lookup_key(1))
  next
    fix ctx y new
    assume tx: "bind_supervisor_owner_tx h env k ver owner at db = Inr (Commit ctx y new)" and db': "db' = new"
    then show ?thesis unfolding bind_supervisor_owner_tx_def Let_def
      by (auto simp: existing_owner_def split: option.splits if_splits elim!: rbind_InrE
          dest!: owners_frame)
  qed (simp_all add: commit_map_err_def)
qed

lemma supervisor_owner_ensures:
  assumes "assertion rt cfg db0 P"
  shows "ensures (effects_ok rt cfg db0) P (supervisor_owner_now rt k)
    (\<lambda>owner s. P s \<and> (owner \<noteq> None \<longleftrightarrow> known_owner rt cfg db0 k s))"
  unfolding supervisor_owner_now_def
proof (rule ensures_registry_read[OF assms])
  fix env s owner
  assume P: "P s" and q: "attempt_supervisor_owner (rt_host rt) env (es_db s) k = Inr owner"
  have "owner \<noteq> None \<longleftrightarrow> k \<in> ow_attempt_id ` set (supervisor_owners (es_db s))"
  proof (cases "tbl_lookup ow_attempt_id (supervisor_owners (es_db s)) k")
    case None
    then have "owner = None" using q unfolding attempt_supervisor_owner_def by (auto elim!: rbind_InrE)
    then show ?thesis using tbl_lookup_key(2)[OF None] by simp
  next
    case (Some row)
    then have "owner \<noteq> None" using q unfolding attempt_supervisor_owner_def
      by (auto split: if_splits sum.splits elim!: rbind_InrE)
    then show ?thesis using tbl_lookup_key(1)[OF Some] by simp
  qed
  then show "P s \<and> (owner \<noteq> None \<longleftrightarrow> known_owner rt cfg db0 k s)"
    using P assertion_ok[OF assms] unfolding known_owner_def by blast
qed

lemma get_current_ensures:
  assumes "assertion rt cfg db0 P"
  shows "ensures (effects_ok rt cfg db0) P (get_attempt_now rt k) (\<lambda>current s. P s \<and> known_row rt cfg db0 k current s)"
  unfolding get_attempt_now_def
proof (rule ensures_registry_read[OF assms])
  fix env s current
  assume P: "P s" and q: "get_attempt env (es_db s) k = Inr current"
  obtain row where "tbl_lookup a_attempt_id (attempts (es_db s)) k = Some row" "current = attempt_record row"
    using q unfolding get_attempt_def by (auto simp: load_attempt_eq_Inr elim!: rbind_InrE)
  then show "P s \<and> known_row rt cfg db0 k current s"
    using P assertion_ok[OF assms P] tbl_lookup_SomeD unfolding known_row_def
    by (metis (mono_tags, lifting) AttemptRecord.select_convs AttemptRecord.truncate_def attempt_record_def attempt_record_sel(1))
qed

text \<open>Seeing start evidence.\<close>

lemma saw_start_ensures:
  assumes stays: "start_evidence_stays rt" and P: "assertion rt cfg db0 P"
    and row: "\<And>s. P s \<Longrightarrow> known_row rt cfg db0 k current s"
  shows "ensures (effects_ok rt cfg db0) P (path_is_file rt (bundle_file current WINDOWS_START_FILE))
    (\<lambda>present s. P s \<and> (present \<longrightarrow> known_start rt cfg db0 k s))"
  unfolding path_is_file_def
proof (rule ensures_ask[OF P])
  fix s :: engine_state
  let ?there = "io_is_file (rt_io rt) (es_tick s) (bundle_file current WINDOWS_START_FILE)"
  assume P': "P (advance rt s)"
  obtain b where b: "b \<in> set (attempts (es_db (advance rt s)))" "a_attempt_id b = k" "a_bundle_path b = a_bundle_path current"
    using row[OF P'] unfolding known_row_def by blast
  have "io_is_file (rt_io rt) n (path_join (a_bundle_path b) WINDOWS_START_FILE)" if ?there "es_tick (advance rt s) \<le> n" for n
  proof -
    have "es_tick s \<le> n" using that(2) by (simp add: advance_def)
    then show ?thesis using that(1) stays b(3) unfolding start_evidence_stays_def bundle_file_def by metis
  qed
  then show "P (advance rt s) \<and> (?there \<longrightarrow> known_start rt cfg db0 k (advance rt s))"
    using P' b assertion_ok[OF P P'] unfolding known_start_def by blast
qed

text \<open>Start evidence that is known to be there is seen.\<close>

lemma see_start_ensures:
  assumes P: "assertion rt cfg db0 P" and row: "\<And>s. P s \<Longrightarrow> known_row rt cfg db0 k current s"
    and start: "\<And>s. P s \<Longrightarrow> known_start rt cfg db0 k s"
  shows "ensures (effects_ok rt cfg db0) P (path_is_file rt (bundle_file current WINDOWS_START_FILE)) (\<lambda>present s. present \<and> P s)"
  unfolding path_is_file_def
proof (rule ensures_ask[OF P])
  fix s
  assume s: "P s" and t: "P (advance rt s)"
  obtain b where b: "b \<in> set (attempts (es_db s))" "a_attempt_id b = k"
    "io_is_file (rt_io rt) (es_tick s) (path_join (a_bundle_path b) WINDOWS_START_FILE)"
    using start[OF s] unfolding known_start_def by blast
  obtain c where c: "c \<in> set (attempts (es_db s))" "a_attempt_id c = k" "a_bundle_path c = a_bundle_path current"
    using row[OF s] unfolding known_row_def by blast
  have "full_inv (es_db s)" using assertion_ok[OF P s] effects_okD(3) by blast
  then have "c = b" using b(1,2) c(1,2) reg_inv_keys(2)[OF full_invD(1)] by (metis distinct_map inj_onD)
  then show "io_is_file (rt_io rt) (es_tick s) (bundle_file current WINDOWS_START_FILE) \<and> P (advance rt s)"
    using b(3) c(3) t unfolding bundle_file_def by simp
qed

text \<open>Binding start evidence.\<close>

lemma bind_windows_start_ensures:
  assumes P: "assertion rt cfg db0 P" and id: "a_attempt_id current = k"
  shows "ensures (effects_ok rt cfg db0) P (bind_attempt_start rt current WindowsNative) (\<lambda>_. known_owner rt cfg db0 k)"
  unfolding bind_attempt_start_def bind_windows_start_def ExecutionTarget.case case_prod_beta id
  apply (rule ensures_bind[OF ensures_quiet[OF quiet.validate_windows_start_evidence_keeps P]])
  apply (rule ensures_bind[OF ensures_quiet[OF quiet.elift_keeps P]])
  apply (rule ensures_bind[OF ensures_quiet[OF quiet.elift_keeps P]])
  apply (rule ensures_bind[OF supervisor_owner_ensures[OF P]])
  subgoal for evidence creation img existing
  proof (cases existing)
    case None
    have "ensures (effects_ok rt cfg db0) P (bind_owner rt current w at) (\<lambda>_. known_owner rt cfg db0 k)" for w at
      unfolding bind_owner_def id
      by (rule ensures_registry_op[OF P rs_bind_owner])
        (simp add: known_owner_def bind_owner_acknowledged assertion_ok[OF P])
    then show ?thesis unfolding None option.case by (rule ensures_pre) simp
  next
    case (Some owner)
    have "ensures (effects_ok rt cfg db0) (known_owner rt cfg db0 k) (if b then efail e else get_attempt_now rt k)
        (\<lambda>_. known_owner rt cfg db0 k)" for b e
      by (rule ensures_if, rule ensures_efail, rule assertion_ok[OF assertion_known_owner], assumption,
          rule ensures_quiet[OF quiet.get_attempt_now_keeps assertion_known_owner])
    then show ?thesis unfolding Some option.case by (rule ensures_pre) simp
  qed
  done

section \<open>The loop\<close>

text \<open>
  One turn, from an assertion that may say that the Attempt has an owner or that its start evidence is
  there: it does not run out of turns when the poll does not, and when going round again does not, knowing
  more than before.
\<close>

definition decided :: "JobObservation option option \<Rightarrow> engine_state \<Rightarrow> bool" where
  "decided r s \<longleftrightarrow> r \<noteq> None"

lemma finish_decided:
  assumes "assertion rt cfg db0 P" and "keeps (quiet rt cfg) m"
  shows "ensures (effects_ok rt cfg db0) P (ebind m (\<lambda>ob. eret (Some (Some ob)))) decided"
  by (rule ensures_bind[OF ensures_quiet[OF assms(2,1)]], rule ensures_eret) (simp add: decided_def)

text \<open>The turn of an Attempt with an owner.\<close>

lemma owned_turn:
  assumes P: "assertion rt cfg db0 P" and poll: "ensures (effects_ok rt cfg db0) P poll decided"
  shows "ensures (effects_ok rt cfg db0) P
    (ebind (orphan_process_tree_alive rt current) (\<lambda>alive.
            if alive then poll
            else ebind (result_exists rt current) (\<lambda>late.
              if late then ebind (commit_runner_result rt current) (\<lambda>ob. eret (Some (Some ob)))
              else ebind (cancelled_control_terminal rt current detail) (\<lambda>ob. eret (Some (Some ob)))))) decided"
  apply (rule ensures_bind[OF ensures_quiet[OF quiet.orphan_process_tree_alive_keeps P]])
  apply (rule ensures_if[OF poll])
  apply (rule ensures_bind[OF ensures_quiet[OF quiet.result_exists_keeps P]])
  apply (rule ensures_if[OF finish_decided[OF P quiet.commit_runner_result_keeps] finish_decided[OF P quiet.cancelled_control_terminal_keeps]])
  done

text \<open>The turn of an Attempt whose launcher started without target evidence.\<close>

lemma launched_turn:
  assumes stays: "start_evidence_stays rt" and P: "assertion rt cfg db0 P"
    and row: "\<And>s. P s \<Longrightarrow> known_row rt cfg db0 k current s"
    and poll: "ensures (effects_ok rt cfg db0) P poll decided"
    and again: "ensures (effects_ok rt cfg db0) (known_start rt cfg db0 k) continue decided"
  shows "ensures (effects_ok rt cfg db0) P
    (ebind (path_is_file rt (bundle_file current WINDOWS_LAUNCHER_START_FILE)) (\<lambda>launched.
         if \<not> launched then poll
         else ebind (validate_windows_launcher_start_evidence rt current) (\<lambda>(evidence, _).
          ebind (require_windows rt text) (\<lambda>_.
          ebind (ask_result rt (\<lambda>i t. io_launcher_owner i t (p_windows_authority plan) (broker_digest plan)
                   (wl_launcher_process_id evidence))) (\<lambda>observed.
          ebind (path_is_file rt (bundle_file current WINDOWS_START_FILE)) (\<lambda>now_started.
          if now_started then continue
          else if wo_process_alive observed
               \<and> wo_process_creation_time_file_time observed = Some (wl_launcher_process_creation_time_file_time evidence)
          then poll
          else ebind (path_is_file rt (bundle_file current WINDOWS_START_FILE)) (\<lambda>late_started.
            if late_started then continue else eret (Some None)))))))) decided"
  unfolding case_prod_beta
  apply (rule ensures_bind[OF ensures_quiet[OF quiet.path_is_file_keeps P]])
  apply (rule ensures_if[OF poll])
  apply (rule ensures_bind[OF ensures_quiet[OF quiet.validate_windows_launcher_start_evidence_keeps P]])
  apply (rule ensures_bind[OF ensures_quiet[OF quiet.require_windows_keeps P]])
  apply (rule ensures_bind[OF ensures_quiet[OF quiet.ask_result_keeps P]])
  apply (rule ensures_bind[OF saw_start_ensures[OF stays P row]], assumption)
  apply (rule ensures_if, rule ensures_pre[OF again], simp)
  apply (rule ensures_if, rule ensures_pre[OF poll], simp)
  apply (rule ensures_pre[of _ P])
   apply (rule ensures_bind[OF saw_start_ensures[OF stays P row]], assumption)
   apply (rule ensures_if, rule ensures_pre[OF again], simp)
   apply (rule ensures_eret, simp add: decided_def)
  apply simp
  done

text \<open>The turn of an Attempt without an owner.\<close>

lemma unowned_turn:
  assumes stays: "start_evidence_stays rt" and P: "assertion rt cfg db0 P"
    and row: "\<And>s. P s \<Longrightarrow> known_row rt cfg db0 k current s" and id: "a_attempt_id current = k"
    and seen: "\<And>s. P s \<Longrightarrow> seen \<Longrightarrow> known_start rt cfg db0 k s"
    and bound: "ensures (effects_ok rt cfg db0) (known_owner rt cfg db0 k) continue decided"
    and rest: "\<not> seen \<Longrightarrow> ensures (effects_ok rt cfg db0) P unstarted decided"
  shows "ensures (effects_ok rt cfg db0) P
    (ebind (path_is_file rt (bundle_file current WINDOWS_START_FILE)) (\<lambda>started.
        if started then ebind (bind_attempt_start rt current WindowsNative) (\<lambda>_. continue) else unstarted)) decided"
proof -
  have look: "ensures (effects_ok rt cfg db0) P (path_is_file rt (bundle_file current WINDOWS_START_FILE))
      (\<lambda>started s. (seen \<longrightarrow> started) \<and> P s)"
  proof (cases seen)
    case True
    show ?thesis by (rule ensures_post[OF see_start_ensures[OF P row seen[OF _ True]]]) (use True in simp_all)
  qed (use ensures_quiet[OF quiet.path_is_file_keeps P] in simp)
  have bind: "ensures (effects_ok rt cfg db0) P (ebind (bind_attempt_start rt current WindowsNative) (\<lambda>_. continue)) decided"
    by (rule ensures_bind[OF bind_windows_start_ensures[OF P id] bound])
  show ?thesis
  proof (rule ensures_bind[OF look], rule ensures_if)
    fix started
    show "ensures (effects_ok rt cfg db0) (\<lambda>s. (seen \<longrightarrow> started) \<and> P s)
        (ebind (bind_attempt_start rt current WindowsNative) (\<lambda>_. continue)) decided"
      by (rule ensures_pre[OF bind]) simp
    assume "\<not> started"
    then show "ensures (effects_ok rt cfg db0) (\<lambda>s. (seen \<longrightarrow> started) \<and> P s) unstarted decided"
      using ensures_pre[OF rest] by (cases seen) (simp_all add: ensures_def)
  qed
qed

lemma ensures_pure: "(\<And>s. P s \<Longrightarrow> c) \<Longrightarrow> (c \<Longrightarrow> ensures I P m Q) \<Longrightarrow> ensures I P m Q"
  unfolding ensures_def by simp

lemma native_turn_decided:
  assumes stays: "start_evidence_stays rt" and P: "assertion rt cfg db0 P"
    and owned: "\<And>s. P s \<Longrightarrow> owned \<Longrightarrow> known_owner rt cfg db0 (a_attempt_id attempt) s"
    and seen: "\<And>s. P s \<Longrightarrow> seen \<Longrightarrow> known_start rt cfg db0 (a_attempt_id attempt) s"
    and poll: "ensures (effects_ok rt cfg db0) P poll decided"
    and bound: "\<not> owned \<Longrightarrow> ensures (effects_ok rt cfg db0) (known_owner rt cfg db0 (a_attempt_id attempt)) continue decided"
    and again: "\<not> owned \<Longrightarrow> \<not> seen \<Longrightarrow>
      ensures (effects_ok rt cfg db0) (known_start rt cfg db0 (a_attempt_id attempt)) continue decided"
  shows "ensures (effects_ok rt cfg db0) P (native_turn rt plan attempt continue poll) decided"
  unfolding native_turn_def Let_def
proof (rule ensures_bind[OF get_current_ensures[OF P]])
  fix current
  let ?k = "a_attempt_id attempt"
  let ?P = "\<lambda>s. P s \<and> known_row rt cfg db0 ?k current s"
  have P': "assertion rt cfg db0 ?P" by (rule assertion_both[OF P assertion_known_row])
  have poll': "ensures (effects_ok rt cfg db0) ?P poll decided" by (rule ensures_pre[OF poll]) simp
  have row: "?P s \<Longrightarrow> known_row rt cfg db0 ?k current s" for s by simp
  show "ensures (effects_ok rt cfg db0) ?P (ebind (result_exists rt current) (\<lambda>present.
      if present then ebind (commit_runner_result rt current) (\<lambda>ob. eret (Some (Some ob)))
      else ebind (supervisor_owner_now rt (a_attempt_id current)) (\<lambda>owner.
       if owner \<noteq> None
       then ebind (orphan_process_tree_alive rt current) (\<lambda>alive.
            if alive then poll
            else ebind (result_exists rt current) (\<lambda>late.
              if late then ebind (commit_runner_result rt current) (\<lambda>ob. eret (Some (Some ob)))
              else ebind (cancelled_control_terminal rt current
                (Some ''native Windows launcher owner identity is gone after committed cancel intent; JOB_OBJECT_LIMIT_KILL_ON_JOB_CLOSE makes the Attempt process tree definitively non-running'')) (\<lambda>ob. eret (Some (Some ob)))))
       else ebind (path_is_file rt (bundle_file current WINDOWS_START_FILE)) (\<lambda>started.
        if started then ebind (bind_attempt_start rt current WindowsNative) (\<lambda>_. continue)
        else ebind (path_is_file rt (bundle_file current WINDOWS_LAUNCHER_START_FILE)) (\<lambda>launched.
         if \<not> launched then poll
         else ebind (validate_windows_launcher_start_evidence rt current) (\<lambda>(evidence, _).
          ebind (require_windows rt ''native Windows cancel has no configured provider'') (\<lambda>_.
          ebind (ask_result rt (\<lambda>i t. io_launcher_owner i t (p_windows_authority plan) (broker_digest plan)
                   (wl_launcher_process_id evidence))) (\<lambda>observed.
          ebind (path_is_file rt (bundle_file current WINDOWS_START_FILE)) (\<lambda>now_started.
          if now_started then continue
          else if wo_process_alive observed
               \<and> wo_process_creation_time_file_time observed = Some (wl_launcher_process_creation_time_file_time evidence)
          then poll
          else ebind (path_is_file rt (bundle_file current WINDOWS_START_FILE)) (\<lambda>late_started.
            if late_started then continue else eret (Some None))))))))))) decided"
    (is "ensures ?I _ (ebind _ (\<lambda>present. if present then ?finish else ebind _ (\<lambda>owner. if owner \<noteq> None then ?owned else ?unowned))) _"
     is "ensures _ _ (ebind _ (\<lambda>present. if present then _ else ebind _ (\<lambda>owner. if _ then _ else ebind _ (\<lambda>started. if started then _ else ?unstarted)))) _")
  proof (rule ensures_bind[OF ensures_quiet[OF quiet.result_exists_keeps P']],
      rule ensures_if[OF finish_decided[OF P' quiet.commit_runner_result_keeps]],
      rule ensures_bind[OF supervisor_owner_ensures[OF P']])
    fix owner
    have id: "?P s \<Longrightarrow> a_attempt_id current = ?k" for s by (simp add: known_row_def)
    have own: "ensures ?I ?P ?owned decided" by (rule owned_turn[OF P' poll'])
    have free: "ensures ?I ?P ?unowned decided" if "\<not> owned"
    proof (rule ensures_pure[of ?P, OF id], assumption)
      assume e: "a_attempt_id current = ?k"
      show "ensures ?I ?P ?unowned decided"
      proof (rule unowned_turn[OF stays P' row e, where seen = seen])
        assume "\<not> seen"
        then show "ensures ?I ?P ?unstarted decided" by (intro launched_turn[OF stays P' row poll' again[OF that]])
      qed (use seen bound[OF that] in auto)
    qed
    show "ensures ?I (\<lambda>s. ?P s \<and> (owner \<noteq> None \<longleftrightarrow> known_owner rt cfg db0 (a_attempt_id current) s))
       (if owner \<noteq> None then ?owned else ?unowned) decided"
    proof (rule ensures_if)
      show "ensures ?I (\<lambda>s. ?P s \<and> (owner \<noteq> None \<longleftrightarrow> known_owner rt cfg db0 (a_attempt_id current) s)) ?owned decided"
        by (rule ensures_pre[OF own]) simp
      assume none: "\<not> owner \<noteq> None"
      show "ensures ?I (\<lambda>s. ?P s \<and> (owner \<noteq> None \<longleftrightarrow> known_owner rt cfg db0 (a_attempt_id current) s)) ?unowned decided"
      proof (rule ensures_pure)
        fix s assume s: "?P s \<and> (owner \<noteq> None \<longleftrightarrow> known_owner rt cfg db0 (a_attempt_id current) s)"
        then show "\<not> owned" using none owned[of s] id[of s] by auto
      next
        assume "\<not> owned"
        then show "ensures ?I (\<lambda>s. ?P s \<and> (owner \<noteq> None \<longleftrightarrow> known_owner rt cfg db0 (a_attempt_id current) s)) ?unowned decided"
          by (intro ensures_pre[OF free]) simp_all
      qed
    qed
  qed
qed

lemma poll_decided:
  assumes "\<And>n. polls = Suc n \<Longrightarrow> ensures I P (cancel_native_loop rt plan attempt n turns) decided"
  shows "ensures I P (case polls of 0 \<Rightarrow> eret (Some None) | Suc n \<Rightarrow> cancel_native_loop rt plan attempt n turns) decided"
  using assms by (cases polls) (simp_all add: ensures_def eret_def decided_def)

lemma cancel_native_loop_decided:
  assumes stays: "start_evidence_stays rt"
  shows "polls + 1 \<le> turns \<Longrightarrow> ensures (effects_ok rt cfg db0) (known_owner rt cfg db0 (a_attempt_id attempt))
      (cancel_native_loop rt plan attempt polls turns) decided"
    and "polls + 2 \<le> turns \<Longrightarrow> ensures (effects_ok rt cfg db0) (known_start rt cfg db0 (a_attempt_id attempt))
      (cancel_native_loop rt plan attempt polls turns) decided"
    and "polls + 3 \<le> turns \<Longrightarrow> ensures (effects_ok rt cfg db0) (effects_ok rt cfg db0)
      (cancel_native_loop rt plan attempt polls turns) decided"
proof (induction turns arbitrary: polls)
  case (Suc turns)
  { case 1
    have "ensures (effects_ok rt cfg db0) (known_owner rt cfg db0 (a_attempt_id attempt))
       (case polls of 0 \<Rightarrow> eret (Some None) | Suc n \<Rightarrow> cancel_native_loop rt plan attempt n turns) decided"
      by (rule poll_decided, rule Suc.IH(1)) (use 1 in simp)
    then show ?case unfolding cancel_native_loop.simps
      by (intro native_turn_decided[OF stays assertion_known_owner, where owned = True and seen = False]) simp_all
  next
    case 2
    have "ensures (effects_ok rt cfg db0) (known_start rt cfg db0 (a_attempt_id attempt))
       (case polls of 0 \<Rightarrow> eret (Some None) | Suc n \<Rightarrow> cancel_native_loop rt plan attempt n turns) decided"
      by (rule poll_decided, rule Suc.IH(2)) (use 2 in simp)
    then show ?case unfolding cancel_native_loop.simps
      by (intro native_turn_decided[OF stays assertion_known_start, where owned = False and seen = True])
        (use 2 Suc.IH(1) in simp_all)
  next
    case 3
    have "ensures (effects_ok rt cfg db0) (effects_ok rt cfg db0)
       (case polls of 0 \<Rightarrow> eret (Some None) | Suc n \<Rightarrow> cancel_native_loop rt plan attempt n turns) decided"
      by (rule poll_decided, rule Suc.IH(3)) (use 3 in simp)
    then show ?case unfolding cancel_native_loop.simps
      by (intro native_turn_decided[OF stays assertion_effects_ok, where owned = False and seen = False])
        (use 3 Suc.IH(1,2) in simp_all)
  }
qed simp_all

section \<open>The whole cancellation\<close>

text \<open>For the result alone, errors need not keep anything.\<close>

definition answered :: "'a option \<Rightarrow> engine_state \<Rightarrow> bool" where
  "answered r s \<longleftrightarrow> r \<noteq> None"

lemma ensures_any_error: "ensures I P m Q \<Longrightarrow> ensures (\<lambda>_. True) P m Q"
  unfolding ensures_def by (fastforce split: prod.splits sum.splits)

lemma answered_some: "ensures (\<lambda>_. True) P (ebind m (\<lambda>ob. eret (Some ob))) answered"
  unfolding ensures_def ebind_def eret_def answered_def by (auto split: prod.splits sum.splits)

lemma answered_efail: "ensures (\<lambda>_. True) P (efail e) answered"
  by (simp add: ensures_def efail_def)

lemmas then_kept = ensures_bind[OF ensures_any_error[OF ensures_kept]]

lemma ask_polls_ensures:
  assumes "\<forall>t. io_polls (rt_io rt) t + 3 \<le> turns"
  shows "ensures (effects_ok rt cfg db0) (effects_ok rt cfg db0) (ask rt io_polls)
    (\<lambda>polls s. polls + 3 \<le> turns \<and> effects_ok rt cfg db0 s)"
  by (rule ensures_ask[OF assertion_effects_ok]) (use assms in simp)

lemma cancel_native_answered:
  assumes stays: "start_evidence_stays rt" and turns: "\<forall>t. io_polls (rt_io rt) t + 3 \<le> turns"
  shows "ensures (\<lambda>_. True) (effects_ok rt cfg db0) (cancel_native_windows_attempt turns rt job_id attempt) answered"
  unfolding cancel_native_windows_attempt_def
  apply (rule then_kept[OF safe.execution_plan_now_keeps], assumption)
  apply (rule ensures_bind[OF ensures_any_error[OF ask_polls_ensures[OF turns]]])
  apply (rule ensures_bind[of _ _ _ decided])
   apply (rule ensures_any_error[of "effects_ok rt cfg db0"], rule ensures_pure, erule conjunct1)
   apply (rule ensures_pre[OF cancel_native_loop_decided(3)[OF stays]], assumption, erule conjunct2)
  subgoal for plan polls outcome
  proof (cases outcome)
    case None
    then show ?thesis by (simp add: ensures_def decided_def)
  next
    case (Some ob)
    have "ensures (\<lambda>_. True) P (ebind m (\<lambda>_. ebind m' (\<lambda>ob. eret (Some ob)))) answered" for P and m :: "unit engine" and m' :: "JobObservation engine"
      by (rule ensures_bind[of _ _ _ "\<lambda>_ _. True"], simp add: ensures_def split: prod.splits sum.splits, rule answered_some)
    then show ?thesis unfolding Some by (cases ob) (simp_all add: ensures_def eret_def answered_def)
  qed
  done

lemma cancel_running_answered:
  assumes stays: "start_evidence_stays rt" and turns: "\<forall>t. io_polls (rt_io rt) t + 3 \<le> turns"
  shows "ensures (\<lambda>_. True) (effects_ok rt cfg db0) (cancel_running turns rt job_id seen_attempt) answered"
  unfolding cancel_running_def Let_def
  apply (rule then_kept[OF safe.execution_plan_now_keeps], assumption)
  apply (rule then_kept[OF safe_dispatch.reconcile_before_cancel_keeps], assumption)
  apply (rule then_kept[OF safe.request_cancel_now_keeps], assumption)
  apply (rule ensures_if[OF answered_some])
  apply (rule then_kept[OF safe.get_latest_attempt_now_keeps], assumption)
  apply (rule then_kept[OF safe.elift_keeps], assumption)
  apply (rule then_kept[OF safe.engine_now_ms_keeps], assumption)
  apply (rule then_kept[OF safe.write_atomic_keeps], assumption)
  apply (rule ensures_if[OF cancel_native_answered[OF assms] answered_some])
  done

lemma cancel_job_answered:
  assumes stays: "start_evidence_stays rt" and turns: "\<forall>t. io_polls (rt_io rt) t + 3 \<le> turns"
  shows "ensures (\<lambda>_. True) (effects_ok rt cfg db0) (cancel_job turns rt request) answered"
  unfolding cancel_job_def
  apply (rule ensures_if[OF answered_efail])
  apply (rule then_kept[OF safe.job_snapshot_now_keeps], assumption)
  subgoal for snapshot
    using cancel_running_answered[OF assms] answered_some
    by (auto split: prod.splits option.splits JobResolution.splits)
  done


end
