(* ===== verification/Engine_Guarantees.thy ===== *)
theory Engine_Guarantees
  imports Engine_Termination Recovery_Guarantees
begin

text \<open>
  What the reconciling operations of the engine report and leave behind: the numbers of a reconciliation
  report add up, and a reconciliation that found a Runner result ends with a terminal Attempt.
\<close>

section \<open>Reports\<close>

text \<open>The relation between a program and the values it returns.\<close>

definition returns :: "'a engine \<Rightarrow> ('a \<Rightarrow> bool) \<Rightarrow> bool" where
  "returns m Q \<longleftrightarrow> (\<forall>s x t. m s = (Inr x, t) \<longrightarrow> Q x)"

lemma returns_bind: "(\<And>x. returns (f x) Q) \<Longrightarrow> returns (ebind m f) Q"
  unfolding returns_def ebind_def by (auto split: prod.splits sum.splits)

lemma returns_then: "returns m P \<Longrightarrow> (\<And>x. P x \<Longrightarrow> returns (f x) Q) \<Longrightarrow> returns (ebind m f) Q"
  unfolding returns_def ebind_def by (auto split: prod.splits sum.splits) blast

lemma returns_match: "(\<And>e. returns (handler e) Q) \<Longrightarrow> (\<And>x. returns (f x) Q) \<Longrightarrow> returns (ematch m handler f) Q"
  unfolding returns_def ematch_def by (auto split: prod.splits sum.splits)

lemma returns_eret: "Q x \<Longrightarrow> returns (eret x) Q"
  by (simp add: returns_def eret_def)

lemma returns_efail: "returns (efail e) Q"
  by (simp add: returns_def efail_def)

lemma returns_if: "(b \<Longrightarrow> returns m Q) \<Longrightarrow> (\<not> b \<Longrightarrow> returns n Q) \<Longrightarrow> returns (if b then m else n) Q"
  by simp

definition balanced :: "ReconciliationReport \<Rightarrow> bool" where
  "balanced report \<longleftrightarrow>
     rr_inspected report = rr_reconciled report + rr_recovered_orphans report + rr_quarantined report
       + rr_unchanged report + rr_failed report
     \<and> rr_failed report = length (rr_failures report)"

definition extends_report :: "string list \<Rightarrow> ReconciliationReport \<Rightarrow> ReconciliationReport \<Rightarrow> bool" where
  "extends_report ids old new \<longleftrightarrow> (balanced old \<longrightarrow> balanced new)
     \<and> rr_inspected new = rr_inspected old + length ids
     \<and> (\<exists>fs. rr_failures new = rr_failures old @ fs \<and> subseq (map rf_attempt_id fs) ids)"

lemma reconcile_candidate_returns:
  "returns (reconcile_candidate_into rt attempt report) (extends_report [a_attempt_id attempt] report)"
proof -
  let ?r = "report\<lparr>rr_inspected := rr_inspected report + 1\<rparr>"
  have counted: "extends_report [a_attempt_id attempt] report (count_outcome attempt changed current ?r)" for changed current
    by (simp add: extends_report_def balanced_def count_outcome_def)
  have failed: "returns (record_isolated_reconciliation_failure rt attempt error ?r) (extends_report [a_attempt_id attempt] report)" for error
    unfolding record_isolated_reconciliation_failure_def
    by (intro returns_if returns_bind returns_efail returns_eret) (simp add: extends_report_def balanced_def)
  show ?thesis
    unfolding reconcile_candidate_into_def Let_def
    by (intro returns_match failed returns_bind returns_if returns_eret counted)
qed

lemma extends_report_trans:
  assumes "extends_report xs a b" and "extends_report ys b c"
  shows "extends_report (xs @ ys) a c"
proof -
  obtain f g where "rr_failures b = rr_failures a @ f" "subseq (map rf_attempt_id f) xs"
    "rr_failures c = rr_failures b @ g" "subseq (map rf_attempt_id g) ys"
    using assms unfolding extends_report_def by blast
  then have "rr_failures c = rr_failures a @ (f @ g) \<and> subseq (map rf_attempt_id (f @ g)) (xs @ ys)"
    by (simp add: list_emb_append_mono)
  then show ?thesis using assms unfolding extends_report_def by auto
qed

lemma reconcile_candidates_returns:
  "returns (reconcile_candidates_into rt found report) (extends_report (map a_attempt_id found) report)"
proof (induction found arbitrary: report)
  case Nil
  show ?case by (simp add: returns_eret extends_report_def)
next
  case (Cons attempt rest)
  show ?case
    unfolding reconcile_candidates_into.simps
  proof (rule returns_then[OF reconcile_candidate_returns])
    fix mid assume "extends_report [a_attempt_id attempt] report mid"
    then show "returns (reconcile_candidates_into rt rest mid) (extends_report (map a_attempt_id (attempt # rest)) report)"
      using Cons.IH[of mid] extends_report_trans unfolding returns_def by fastforce
  qed
qed

definition bounded_report :: "nat \<Rightarrow> ReconciliationReport \<Rightarrow> bool" where
  "bounded_report limit report \<longleftrightarrow> balanced report \<and> rr_inspected report \<le> limit"

lemma candidates_from_empty:
  "returns (reconcile_candidates_into rt found empty_report) (\<lambda>report. balanced report \<and> rr_inspected report = length found)"
proof -
  have "balanced empty_report" "rr_inspected empty_report = 0" by (simp_all add: empty_report_def balanced_def)
  then show ?thesis
    using reconcile_candidates_returns[of rt found empty_report] unfolding returns_def extends_report_def by simp
qed

lemma returns_registry_read: "(\<And>env db x. query env db = Inr x \<Longrightarrow> Q x) \<Longrightarrow> returns (registry_read rt query) Q"
  unfolding returns_def registry_read_def by (auto simp: Let_def)

lemma maintenance_scan_bounded: "list_maintenance_attempts_bounded env db limit = Inr found \<Longrightarrow> length found \<le> limit"
  unfolding list_maintenance_attempts_bounded_def by (auto split: if_splits elim!: rbind_InrE)

text \<open>
  C27. Reconciliation reports add up.  When a maintenance batch returns a report, every Attempt it
  inspected is counted exactly once, as reconciled, recovered, quarantined, unchanged or failed; there is one
  failure entry per failed Attempt; and no more than \<open>limit\<close> Attempts were inspected.
\<close>

theorem maintenance_report_adds_up:
  assumes "reconcile_maintenance_batch rt limit s = (Inr report, t)"
  shows "rr_inspected report = rr_reconciled report + rr_recovered_orphans report + rr_quarantined report
       + rr_unchanged report + rr_failed report
    \<and> rr_failed report = length (rr_failures report) \<and> rr_inspected report \<le> limit"
proof -
  have "returns (reconcile_maintenance_batch rt limit) (bounded_report limit)"
    unfolding reconcile_maintenance_batch_def
    apply (rule returns_bind)
    apply (rule returns_then[OF returns_registry_read], erule maintenance_scan_bounded)
    using candidates_from_empty unfolding returns_def bounded_report_def by fastforce
  then show ?thesis using assms unfolding returns_def bounded_report_def balanced_def by blast
qed

section \<open>A Runner result settles its Attempt\<close>

definition settled :: "runtime \<Rightarrow> RegistryConfig \<Rightarrow> registry \<Rightarrow> string \<Rightarrow> engine_state \<Rightarrow> bool" where
  "settled rt cfg db0 k s \<longleftrightarrow> effects_ok rt cfg db0 s \<and> (\<exists>a \<in> set (attempts (es_db s)). \<exists>j \<in> set (jobs (es_db s)).
     a_attempt_id a = k \<and> a_job_id a = j_job_id j \<and> j_resolution j \<noteq> None)"

lemma assertion_settled: "assertion rt cfg db0 (settled rt cfg db0 k)"
  unfolding settled_def
proof (rule assertion_conj, elim bexE conjE)
  fix s t a j
  assume ok: "effects_ok rt cfg db0 s" "quiet rt cfg s t" and a: "a \<in> set (attempts (es_db s))" "a_attempt_id a = k" "a_job_id a = j_job_id j"
    and j: "j \<in> set (jobs (es_db s))" "j_resolution j \<noteq> None"
  note adv = quiet_run(2)[OF ok]
  obtain b where b: "b \<in> set (attempts (es_db t))" "attempt_advances a b" using adv a(1) unfolding advances_def by blast
  obtain i where i: "i \<in> set (jobs (es_db t))" "job_advances j i" using adv j(1) unfolding advances_def by blast
  have "j_resolution i \<noteq> None" using i(2) j(2) unfolding job_advances_def by (cases "j_resolution i") auto
  moreover have "a_attempt_id b = k" "a_job_id b = j_job_id i"
    using b(2) i(2) a(2,3) identity_keys unfolding attempt_advances_def job_advances_def by metis+
  ultimately show "\<exists>a \<in> set (attempts (es_db t)). \<exists>j \<in> set (jobs (es_db t)). a_attempt_id a = k \<and> a_job_id a = j_job_id j \<and> j_resolution j \<noteq> None"
    using b(1) i(1) by blast
qed

lemma terminal_row_settled:
  assumes ok: "effects_ok rt cfg db0 s" and a: "a \<in> set (attempts (es_db s))" "a_attempt_id a = k" "is_terminal (a_state a)"
  shows "settled rt cfg db0 k s"
proof -
  note inv = full_invD(1)[OF effects_okD(3)[OF ok]]
  obtain j r where lk: "linked (es_db s) j a r" by (rule attempt_row_linked[OF inv a(1)])
  have "j_resolution j \<noteq> None" using wf_view_cases(1)[OF linked_wf[OF inv lk]] a(3) by blast
  then show ?thesis using ok a(1,2) lk unfolding settled_def linked_def by blast
qed

lemma commit_terminal_now_settles:
  assumes "tc_attempt_id terminal = k"
  shows "ensures (effects_ok rt cfg db0) (effects_ok rt cfg db0) (commit_terminal_now rt terminal) (\<lambda>_. settled rt cfg db0 k)"
  unfolding commit_terminal_now_def
proof (rule ensures_registry_op[OF assertion_effects_ok rs_terminal])
  fix env s p db'
  assume ok: "effects_ok rt cfg db0 s" and ok': "effects_ok rt cfg db0 (s\<lparr>es_db := db'\<rparr>)"
    and commit: "commit_terminal (rt_host rt) env (es_db s) terminal = (Inr p, db')"
  obtain a where "tbl_lookup a_attempt_id (attempts db') (tc_attempt_id terminal) = Some a" "a_state a = tc_state terminal"
    "is_terminal (tc_state terminal)" by (rule commit_terminal_row[OF full_invD(1)[OF effects_okD(3)[OF ok]] commit])
  then show "settled rt cfg db0 k (s\<lparr>es_db := db'\<rparr>)"
    using terminal_row_settled[OF ok', of a k] assms tbl_lookup_SomeD[of a_attempt_id "attempts db'" "tc_attempt_id terminal" a] by simp
qed

lemma get_terminal_ensures:
  "ensures (effects_ok rt cfg db0) (effects_ok rt cfg db0) (get_attempt_now rt k)
     (\<lambda>current s. a_attempt_id current = k \<and> effects_ok rt cfg db0 s \<and> (is_terminal (a_state current) \<longrightarrow> settled rt cfg db0 k s))"
  unfolding get_attempt_now_def
proof (rule ensures_registry_read[OF assertion_effects_ok])
  fix env s current
  assume ok: "effects_ok rt cfg db0 s" and q: "get_attempt env (es_db s) k = Inr current"
  obtain row where row: "tbl_lookup a_attempt_id (attempts (es_db s)) k = Some row" "current = attempt_record row"
    using q unfolding get_attempt_def by (auto simp: load_attempt_eq_Inr elim!: rbind_InrE)
  then have mem: "row \<in> set (attempts (es_db s))" "a_attempt_id row = k" using tbl_lookup_SomeD by metis+
  then show "a_attempt_id current = k \<and> effects_ok rt cfg db0 s \<and> (is_terminal (a_state current) \<longrightarrow> settled rt cfg db0 k s)"
    using terminal_row_settled[OF ok mem] ok row(2) by simp
qed

lemma ensures_returns:
  assumes "ensures I P m Q" and "returns m R"
  shows "ensures I P m (\<lambda>x s. R x \<and> Q x s)"
  using assms unfolding ensures_def returns_def by (fastforce split: prod.splits sum.splits)

lemma ensures_match:
  assumes "ensures I P m Q" and "\<And>e. ensures I I (handler e) S" and "\<And>x. ensures I (Q x) (f x) S"
  shows "ensures I P (ematch m handler f) S"
  unfolding ensures_def
proof (intro allI impI)
  fix s assume P: "P s"
  obtain r t where m: "m s = (r, t)" by fastforce
  have r: "case r of Inl _ \<Rightarrow> I t | Inr x \<Rightarrow> Q x t" using assms(1)[unfolded ensures_def, rule_format, OF P] by (simp add: m)
  show "case ematch m handler f s of (Inl _, t) \<Rightarrow> I t | (Inr x, t) \<Rightarrow> S x t"
  proof (cases r)
    case (Inl e)
    then show ?thesis using r assms(2)[of e] unfolding ensures_def by (simp add: ematch_def m)
  next
    case (Inr x)
    then show ?thesis using r assms(3)[of x] unfolding ensures_def by (simp add: ematch_def m)
  qed
qed

lemma prepared_names: "returns (prepare_runner_terminal rt current) (\<lambda>c. tc_attempt_id c = a_attempt_id current)"
proof -
  have "returns (prepare_runner_terminal_from_bundle rt current) (\<lambda>c. tc_attempt_id c = a_attempt_id current)"
    unfolding prepare_runner_terminal_from_bundle_def Let_def
    by (intro returns_bind returns_if returns_efail returns_eret) simp
  then show ?thesis
    unfolding prepare_runner_terminal_def case_prod_beta
    by (elim returns_then) (intro returns_bind returns_if returns_eret, simp_all)
qed

lemma appended_names: "returns (append_terminal_evidence_with_observation rt current c ob) (\<lambda>c'. tc_attempt_id c' = tc_attempt_id c)"
  unfolding append_terminal_evidence_with_observation_def Let_def case_prod_beta
  by (intro returns_bind returns_if returns_efail returns_eret) simp_all

lemmas quietly = ensures_quiet[OF _ assertion_effects_ok]
lemmas stays_settled = ensures_quiet[OF _ assertion_settled]

lemma commit_observed_settles:
  "ensures (effects_ok rt cfg db0) (effects_ok rt cfg db0)
     (commit_observed_control_terminal rt attempt state reason detail observed) (\<lambda>_. settled rt cfg db0 (a_attempt_id attempt))"
  unfolding commit_observed_control_terminal_def Let_def
  apply (rule ensures_bind[OF get_terminal_ensures])
  apply (rule ensures_if)
   apply (rule ensures_pre[OF stays_settled[OF quiet.observation_from_registry_keeps]], simp)
  apply (rule ensures_pure, erule conjunct1, rule ensures_pre[of _ "effects_ok rt cfg db0"])
   apply (rule ensures_bind[OF quietly[OF quiet.engine_now_ms_keeps]])
   apply (rule ensures_bind[OF quietly[OF quiet.ask_result_keeps]])
   apply (rule ensures_bind[OF quietly[OF quiet.write_atomic_keeps]])
   apply (rule ensures_bind[OF quietly[OF quiet.engine_sha256_file_keeps]])
   apply (rule ensures_bind[OF quietly[OF quiet.file_len_keeps]])
   apply (rule ensures_bind, rule quietly, (intro keeps)[1])
   apply (rule ensures_bind[OF ensures_returns[OF quietly[OF quiet.append_terminal_evidence_with_observation_keeps] appended_names]])
   apply (rule ensures_bind[of _ _ _ "\<lambda>_. settled rt cfg db0 (a_attempt_id attempt)"])
    apply (rule ensures_pure, erule conjunct1, rule ensures_pre[OF commit_terminal_now_settles], simp, simp)
   apply (rule ensures_bind, rule stays_settled, (intro keeps)[1])
   apply (rule stays_settled[OF quiet.observation_from_registry_keeps])
  apply simp
  done

lemma commit_runner_turn_settles:
  assumes again: "\<And>e. ensures (effects_ok rt cfg db0) (effects_ok rt cfg db0) (again e) (\<lambda>_. settled rt cfg db0 k)"
  shows "ensures (effects_ok rt cfg db0)
     (\<lambda>s. a_attempt_id current = k \<and> effects_ok rt cfg db0 s \<and> (is_terminal (a_state current) \<longrightarrow> settled rt cfg db0 k s))
     (commit_runner_turn rt current again) (\<lambda>_. settled rt cfg db0 k)"
proof (cases "is_terminal (a_state current)")
  case True
  have "ensures (effects_ok rt cfg db0) (settled rt cfg db0 k) (commit_runner_turn rt current again) (\<lambda>_. settled rt cfg db0 k)"
    unfolding commit_runner_turn_def if_P[OF True]
    apply (rule ensures_bind, rule stays_settled, (intro keeps)[1])
    apply (rule ensures_if, rule stays_settled[OF quiet.observation_from_registry_keeps])
    apply (rule ensures_bind, rule stays_settled, (intro keeps)[1])
    apply (rule stays_settled[OF quiet.observation_from_registry_keeps])
    done
  then show ?thesis by (rule ensures_pre) (use True in simp)
next
  case False
  then have no: "a_state current \<noteq> Orphaned" by auto
  have live: "ensures (effects_ok rt cfg db0) (effects_ok rt cfg db0) (commit_runner_turn rt current again) (\<lambda>_. settled rt cfg db0 k)"
    if id: "a_attempt_id current = k"
    unfolding commit_runner_turn_def if_not_P[OF no] if_not_P[OF False]
    apply (rule ensures_bind[of _ _ _ "\<lambda>b s. \<not> b \<and> effects_ok rt cfg db0 s"], rule ensures_eret, simp)
    apply (rule ensures_if, simp add: ensures_def, rule ensures_pre[of _ "effects_ok rt cfg db0"])
     apply (rule ensures_bind[OF ensures_returns[OF quietly[OF quiet.prepare_runner_terminal_keeps] prepared_names]])
     apply (rule ensures_pure, erule conjunct1, rule ensures_pre[of _ "effects_ok rt cfg db0"])
      apply (rule ensures_bind[OF ensures_returns[OF quietly[OF quiet.append_terminal_evidence_keeps]
            appended_names[where ob = None, folded append_terminal_evidence_def]]])
      apply (rule ensures_pure, erule conjunct1, rule ensures_pre[of _ "effects_ok rt cfg db0"])
       apply (rule ensures_match[OF commit_terminal_now_settles again])
        apply (simp add: id)
       apply (rule ensures_bind[OF stays_settled[OF quiet.release_attempt_supervisor_keeps]])
       apply (rule stays_settled[OF quiet.observation_from_registry_keeps])
      apply simp_all
    done
  show ?thesis
  proof (rule ensures_pure, erule conjunct1)
    assume "a_attempt_id current = k"
    from live[OF this] show ?thesis by (rule ensures_pre) simp
  qed
qed

lemma commit_runner_result_settles:
  "ensures (effects_ok rt cfg db0) (effects_ok rt cfg db0) (commit_runner_result rt attempt) (\<lambda>_. settled rt cfg db0 (a_attempt_id attempt))"
proof -
  have fail: "ensures (effects_ok rt cfg db0) (effects_ok rt cfg db0) (efail e) Q" for e and Q :: "JobObservation \<Rightarrow> engine_state \<Rightarrow> bool"
    by (rule ensures_efail)
  show ?thesis
    unfolding commit_runner_result_def
    apply (rule ensures_bind[OF get_terminal_ensures], rule commit_runner_turn_settles)
    apply (rule ensures_if[OF ensures_bind[OF get_terminal_ensures commit_runner_turn_settles[OF fail]] fail])
    done
qed

text \<open>
  C11. A Runner result settles its Attempt.  Whenever the engine reconciles a Runner result and returns,
  after any calls, the Attempt is terminal, its Job is resolved accordingly and its reservation is settled:
  by the Runner's own verdict, by the verdict of another writer who was faster, or, when the result does not
  belong to the Attempt, by quarantine as an orphan that keeps its capacity.
\<close>

theorem runner_result_settles:
  assumes "others_run rt (rt_registry rt)" and "reachable_registry (rt_host rt) (rt_registry rt) (es_db s)" and "es_log s = []"
    and run: "reconcile_runner_result rt attempt (run_calls rt calls s) = (Inr (), t)"
  shows "\<exists>j a r. linked (es_db t) j a r \<and> a_attempt_id a = a_attempt_id attempt \<and> is_terminal (a_state a)
     \<and> map_option resolution_state (j_resolution j) = Some (a_state a)
     \<and> r_state r = (if a_state a = Orphaned then HeldOrphaned else Released)"
proof -
  let ?db0 = "es_db s"
  have "ensures (effects_ok rt (rt_registry rt) ?db0) (effects_ok rt (rt_registry rt) ?db0) (reconcile_runner_result rt attempt)
      (\<lambda>_. settled rt (rt_registry rt) ?db0 (a_attempt_id attempt))"
    unfolding reconcile_runner_result_def commit_control_terminal_def
    apply (rule ensures_match[OF commit_runner_result_settles])
     apply (rule ensures_if[OF ensures_bind[OF commit_observed_settles ensures_eret] ensures_efail], assumption+)
    apply (rule ensures_eret, assumption)
    done
  from this[unfolded ensures_def, rule_format, OF run_calls_effects[OF assms(1-3)], of calls]
  have "settled rt (rt_registry rt) ?db0 (a_attempt_id attempt) t" by (simp add: run)
  then obtain a j where ok: "effects_ok rt (rt_registry rt) ?db0 t" and a: "a \<in> set (attempts (es_db t))" "a_attempt_id a = a_attempt_id attempt"
    and j: "j \<in> set (jobs (es_db t))" "a_job_id a = j_job_id j" "j_resolution j \<noteq> None" unfolding settled_def by blast
  note inv = full_invD(1)[OF effects_okD(3)[OF ok]]
  obtain j' r where lk: "linked (es_db t) j' a r" by (rule attempt_row_linked[OF inv a(1)])
  have "j' = j" using lk j reg_inv_keys(1)[OF inv] by (metis distinct_map inj_onD linked_def)
  then obtain res where res: "j_resolution j' = Some res" using j(3) by blast
  note wf = wf_view_cases[OF linked_wf[OF inv lk]]
  have st: "a_state a = resolution_state res" "is_terminal (a_state a)" using wf(2)[OF res] by simp_all
  have "r_state r = (if a_state a = Orphaned then HeldOrphaned else Released)"
    using wf(3)[OF st(2)] by (simp add: terminal_reservation_def)
  then show ?thesis using lk a(2) st res by (intro exI[of _ j'] exI[of _ a] exI[of _ r]) simp
qed

end
