(* ===== verification/Output_Guarantees.thy ===== *)
theory Output_Guarantees
  imports Engine_Output
begin

text \<open>
  What reading output by ranges promises: following \<open>next_offset\<close> through a UTF-8 file ends and gives
  back the file, and no page cuts a character.  Bytes that are not UTF-8 break this.
\<close>

section \<open>Valid text\<close>

definition utf8_valid :: "nat list \<Rightarrow> bool" where
  "utf8_valid bs \<longleftrightarrow> from_utf8 bs = (length bs, CleanEnd)"

lemma from_utf8_Nil [simp]: "from_utf8 [] = (0, CleanEnd)"
  by (simp add: from_utf8.simps)

lemma utf8_valid_Nil [simp]: "utf8_valid []"
  by (simp add: utf8_valid_def)

lemma from_utf8_whole:
  assumes "bs \<noteq> []" and "utf8_front bs = WholeChar k"
  shows "from_utf8 bs = (k + fst (from_utf8 (drop k bs)), snd (from_utf8 (drop k bs)))"
  using assms by (subst from_utf8.simps) (simp add: case_prod_beta Let_def)

lemma utf8_valid_front:
  assumes "bs \<noteq> []"
  shows "utf8_valid bs \<longleftrightarrow> (\<exists>k. utf8_front bs = WholeChar k \<and> utf8_valid (drop k bs))"
proof (cases "utf8_front bs")
  case (WholeChar k)
  have "k \<le> length bs" using utf8_front_width[OF WholeChar] by simp
  then show ?thesis
    using from_utf8_whole[OF assms WholeChar] WholeChar by (auto simp: utf8_valid_def prod_eq_iff)
next
  case Unfinished
  then show ?thesis using assms by (simp add: utf8_valid_def from_utf8.simps[of bs])
next
  case (Malformed n)
  then show ?thesis using assms by (simp add: utf8_valid_def from_utf8.simps[of bs])
qed

lemma utf8_valid_induct [consumes 1, case_names Nil Char]:
  assumes "utf8_valid bs" and "P []"
    and "\<And>bs k. bs \<noteq> [] \<Longrightarrow> utf8_front bs = WholeChar k \<Longrightarrow> utf8_valid (drop k bs) \<Longrightarrow> P (drop k bs) \<Longrightarrow> P bs"
  shows "P bs"
  using assms(1)
proof (induction bs rule: length_induct)
  case (1 bs)
  show ?case
  proof (cases "bs = []")
    case False
    then obtain k where k: "utf8_front bs = WholeChar k" "utf8_valid (drop k bs)"
      using 1(2) utf8_valid_front by blast
    have "length (drop k bs) < length bs" using utf8_front_width[OF k(1)] False by simp
    then show ?thesis using 1(1) k False assms(3) by blast
  qed (simp add: assms(2))
qed

lemma front_take:
  assumes "utf8_front bs = WholeChar k"
  shows "utf8_front (take n bs) = (if k \<le> n then WholeChar k else Unfinished)"
  using assms by (cases n; cases "n - 1"; cases "n - 2"; cases "n - 3")
    (auto simp: utf8_front_def Let_def take_Cons' split: list.splits if_splits)

lemma front_not_continuation: "utf8_front bs = WholeChar k \<Longrightarrow> \<not> continuation (hd bs)"
  by (auto simp: utf8_front_def char_width_def continuation_def Let_def split: list.splits if_splits)

lemma lossy_valid: "utf8_valid bs \<Longrightarrow> from_utf8_lossy bs = bs"
  by (induction rule: utf8_valid_induct) (simp_all add: from_utf8_lossy.simps)

text \<open>Where the scan of a prefix stops, the rest is valid again; it stops early only inside the last character.\<close>

lemma scan_take:
  assumes "utf8_valid bs"
  shows "\<exists>v stop. from_utf8 (take n bs) = (v, stop) \<and> stop \<noteq> MalformedEnd \<and> v \<le> n \<and> v \<le> length bs
     \<and> (stop = CleanEnd \<longrightarrow> v = min n (length bs)) \<and> utf8_valid (take v bs) \<and> utf8_valid (drop v bs)
     \<and> (bs \<noteq> [] \<and> (4 \<le> n \<or> length bs \<le> n) \<longrightarrow> 0 < v)"
  using assms
proof (induction arbitrary: n rule: utf8_valid_induct)
  case (Char bs k)
  note k = utf8_front_width[OF Char(2)]
  show ?case
  proof (cases "k \<le> n")
    case True
    then have ne: "take n bs \<noteq> []" and front: "utf8_front (take n bs) = WholeChar k"
      using k Char(1) front_take[OF Char(2), of n] by auto
    obtain v stop where v: "from_utf8 (take (n - k) (drop k bs)) = (v, stop)" "stop \<noteq> MalformedEnd"
      "v \<le> n - k" "v \<le> length (drop k bs)" "stop = CleanEnd \<longrightarrow> v = min (n - k) (length (drop k bs))"
      "utf8_valid (take v (drop k bs))" "utf8_valid (drop v (drop k bs))"
      using Char(4)[of "n - k"] by blast
    have scan: "from_utf8 (take n bs) = (k + v, stop)"
      using from_utf8_whole[OF ne front] v(1) by (simp add: drop_take)
    have "utf8_front (take (k + v) bs) = WholeChar k" using front_take[OF Char(2), of "k + v"] by simp
    moreover have "drop k (take (k + v) bs) = take v (drop k bs)" by (simp add: drop_take)
    moreover have "take (k + v) bs \<noteq> []" using k Char(1) by auto
    ultimately have "utf8_valid (take (k + v) bs)" using utf8_valid_front v(6) by metis
    moreover have "utf8_valid (drop (k + v) bs)" using v(7) by (simp add: add.commute)
    ultimately show ?thesis using scan v(2-5) True k by (intro exI[of _ "k + v"] exI[of _ stop]) auto
  next
    case False
    then have front: "utf8_front (take n bs) = Unfinished" using front_take[OF Char(2), of n] by simp
    have "from_utf8 (take n bs) = (0, if n = 0 then CleanEnd else UnfinishedEnd)"
      using front Char(1) by (simp add: from_utf8.simps[of "take n bs"])
    then show ?thesis using False k Char by (auto simp: utf8_valid_front)
  qed
qed simp

section \<open>Following the pages\<close>

definition utf8_text :: "string \<Rightarrow> bool" where
  "utf8_text s \<longleftrightarrow> utf8_valid (bytes_of s)"

lemma bytes_of_simps [simp]:
  "bytes_of [] = []" "length (bytes_of s) = length s" "bytes_of (take n s) = take n (bytes_of s)"
  "bytes_of (drop n s) = drop n (bytes_of s)" "bytes_of s = [] \<longleftrightarrow> s = []"
  by (simp_all add: bytes_of_def take_map drop_map)

lemma lossy_text_valid: "utf8_text s \<Longrightarrow> lossy_text s = s"
  by (simp add: utf8_text_def lossy_text_def lossy_valid) (simp add: bytes_of_def comp_def)

lemma safe_len_valid:
  assumes "utf8_text s" and "s \<noteq> []" and "4 \<le> n \<or> length s \<le> n"
  shows "0 < safe_len (take n s)" "safe_len (take n s) \<le> n" "safe_len (take n s) \<le> length s"
    "utf8_text (take (safe_len (take n s)) s)" "utf8_text (drop (safe_len (take n s)) s)"
proof -
  obtain v stop where v: "from_utf8 (take n (bytes_of s)) = (v, stop)" "stop \<noteq> MalformedEnd" "v \<le> n" "v \<le> length s"
    "stop = CleanEnd \<longrightarrow> v = min n (length s)" "utf8_valid (take v (bytes_of s))" "utf8_valid (drop v (bytes_of s))" "0 < v"
    using scan_take[OF assms(1)[unfolded utf8_text_def], of n] assms(2,3) by auto
  have len: "safe_len (take n s) = v" using v by (cases stop) (auto simp: safe_len_def min_def)
  show "0 < safe_len (take n s)" "safe_len (take n s) \<le> n" "safe_len (take n s) \<le> length s"
    "utf8_text (take (safe_len (take n s)) s)" "utf8_text (drop (safe_len (take n s)) s)"
    using v len by (simp_all add: utf8_text_def)
qed

text \<open>A world that holds a file still: every read returns the bytes that are there, as many as asked for.\<close>

definition holds_file :: "runtime \<Rightarrow> string \<Rightarrow> string \<Rightarrow> bool" where
  "holds_file rt path content \<longleftrightarrow>
     (\<forall>t. io_open (rt_io rt) t path = Inr () \<and> (\<forall>offset. io_seek (rt_io rt) t path offset = Inr ())
        \<and> (\<forall>offset n. io_read_at (rt_io rt) t path offset n = Inr (take n (drop offset content))))"

text \<open>An observer that asks for the next range at the offset the last one ended at.\<close>

fun follow_ranges :: "runtime \<Rightarrow> string \<Rightarrow> nat \<Rightarrow> nat \<Rightarrow> bool \<Rightarrow> nat \<Rightarrow> nat \<Rightarrow> string list option engine" where
  "follow_ranges rt path available max_bytes terminal 0 offset = eret None"
| "follow_ranges rt path available max_bytes terminal (Suc fuel) offset =
     ebind (read_utf8_range rt path offset max_bytes available terminal ''stdoutOffset'' ''stdoutTailBytes'' ''output'') (\<lambda>range.
     if tr_next_offset range \<ge> available then eret (Some [tr_content range])
     else ebind (follow_ranges rt path available max_bytes terminal fuel (tr_next_offset range)) (\<lambda>pages.
       eret (map_option ((#) (tr_content range)) pages)))"

lemma read_held_range:
  assumes held: "holds_file rt path content" and offset: "offset < length content" and size: "4 \<le> max_bytes"
    and valid: "utf8_text (drop offset content)"
  obtains s' v where "read_utf8_range rt path offset max_bytes (length content) terminal offset_field max_field context s
      = (Inr \<lparr>tr_content = take v (drop offset content), tr_next_offset = offset + v\<rparr>, s')"
    and "0 < v" "v \<le> max_bytes" "offset + v \<le> length content" "utf8_text (take v (drop offset content))"
      "utf8_text (drop (offset + v) content)"
proof -
  let ?n = "min max_bytes (length content - offset)" and ?rest = "drop offset content"
  let ?v = "safe_len (take ?n ?rest)"
  have rest: "?rest \<noteq> []" and enough: "4 \<le> ?n \<or> length ?rest \<le> ?n" using offset size by auto
  note v = safe_len_valid[OF valid rest enough]
  have "\<not> continuation (hd (bytes_of ?rest))"
    using valid utf8_valid_front[of "bytes_of ?rest"] rest front_not_continuation by (auto simp: utf8_text_def)
  moreover have "hd (bytes_of ?rest) = of_char (hd (take ?n ?rest))"
    using rest offset size by (simp add: bytes_of_def hd_map hd_take)
  ultimately have boundary: "\<not> continuation (of_char (hd (take ?n ?rest)))" by simp
  have chunk: "take ?v (take ?n ?rest) = take ?v ?rest" using v(2) by simp
  have "range_of_chunk offset (length content) terminal offset_field max_field (take ?n ?rest)
      = Inr \<lparr>tr_content = take ?v ?rest, tr_next_offset = offset + ?v\<rparr>"
    using v(1) boundary lossy_text_valid[OF v(4)] unfolding range_of_chunk_def chunk by simp
  then have read: "\<exists>s'. read_utf8_range rt path offset max_bytes (length content) terminal offset_field max_field context s
      = (Inr \<lparr>tr_content = take ?v ?rest, tr_next_offset = offset + ?v\<rparr>, s')"
    using held offset size
    by (simp add: read_utf8_range_def Let_def ebind_def ask_result_def elift_def holds_file_def)
  show ?thesis using read v offset by (auto intro!: that simp: add.commute)
qed

lemma follow_from:
  assumes "holds_file rt path content" and "4 \<le> max_bytes"
  shows "offset < length content \<Longrightarrow> utf8_text (drop offset content) \<Longrightarrow> length content - offset \<le> fuel
    \<Longrightarrow> \<exists>pages. fst (follow_ranges rt path (length content) max_bytes terminal fuel offset s) = Inr (Some pages)
         \<and> concat pages = drop offset content \<and> (\<forall>p \<in> set pages. p \<noteq> [] \<and> length p \<le> max_bytes \<and> utf8_text p)"
proof (induction fuel arbitrary: offset s)
  case (Suc fuel)
  obtain s' v where read: "read_utf8_range rt path offset max_bytes (length content) terminal ''stdoutOffset'' ''stdoutTailBytes'' ''output'' s
      = (Inr \<lparr>tr_content = take v (drop offset content), tr_next_offset = offset + v\<rparr>, s')"
    and v: "0 < v" "v \<le> max_bytes" "offset + v \<le> length content" "utf8_text (take v (drop offset content))"
      "utf8_text (drop (offset + v) content)"
    by (rule read_held_range[OF assms(1) Suc.prems(1) assms(2) Suc.prems(2)])
  let ?page = "take v (drop offset content)"
  have page: "?page \<noteq> []" "length ?page \<le> max_bytes" using v Suc.prems(1) by auto
  have split: "drop offset content = ?page @ drop (offset + v) content"
    by (metis add.commute append_take_drop_id drop_drop)
  show ?case
  proof (cases "offset + v = length content")
    case True
    then show ?thesis using read page split v(4) by (intro exI[of _ "[?page]"]) (simp add: ebind_def eret_def)
  next
    case False
    then have more: "offset + v < length content" "length content - (offset + v) \<le> fuel"
      using v(1,3) Suc.prems(3) by simp_all
    obtain pages where pages: "fst (follow_ranges rt path (length content) max_bytes terminal fuel (offset + v) s') = Inr (Some pages)"
      "concat pages = drop (offset + v) content" "\<forall>p \<in> set pages. p \<noteq> [] \<and> length p \<le> max_bytes \<and> utf8_text p"
      using Suc.IH[OF more(1) v(5) more(2)] by blast
    then obtain s'' where "follow_ranges rt path (length content) max_bytes terminal fuel (offset + v) s' = (Inr (Some pages), s'')"
      by (metis prod.collapse)
    then show ?thesis using read page split v(4) pages(2,3) more(1)
      by (intro exI[of _ "?page # pages"]) (simp add: ebind_def eret_def)
  qed
qed simp

text \<open>
  C28. Reading output page by page loses nothing.  When the file holds still and is UTF-8 text, and a
  page may have four bytes or more, following the returned offsets from the start ends after at most
  as many pages as the file has bytes, and the pages put together are the file; every page is
  non-empty UTF-8 text within the size asked for, so no character is cut.
\<close>

theorem output_pages_roundtrip:
  assumes held: "holds_file rt path content" and valid: "utf8_text content" and size: "4 \<le> max_bytes"
    and some: "content \<noteq> []"
  shows "\<exists>pages. fst (follow_ranges rt path (length content) max_bytes terminal (length content) 0 s) = Inr (Some pages)
     \<and> concat pages = content \<and> (\<forall>p \<in> set pages. p \<noteq> [] \<and> length p \<le> max_bytes \<and> utf8_text p)"
  using follow_from[OF held size, of 0 "length content" terminal s] valid some by simp


end
