(* ===== verification/Confinement_Guarantees.thy ===== *)
theory Confinement_Guarantees
  imports Engine_Guarantees Output_Guarantees
begin

text \<open>
  Where a resolved execution runs: its working directories are below its Workspace and its executables
  below the roots the operator allows, after the links of the file system have been followed.
\<close>

lemma returns_ask_result: "(\<And>t x. q (rt_io rt) t = Inr x \<Longrightarrow> Q x) \<Longrightarrow> returns (ask_result rt q) Q"
  by (auto simp: returns_def ask_result_def)

lemma returns_lifted: "(\<And>x. r = Inr x \<Longrightarrow> Q x) \<Longrightarrow> returns (elift r) Q"
  by (auto simp: returns_def elift_def)

lemma returns_handled:
  "returns m P \<Longrightarrow> (\<And>e. returns (handler e) Q) \<Longrightarrow> (\<And>x. P x \<Longrightarrow> returns (f x) Q) \<Longrightarrow> returns (ematch m handler f) Q"
  unfolding returns_def ematch_def by (auto split: prod.splits sum.splits) blast

section \<open>A file system that stands still\<close>

text \<open>While a request is resolved, \<open>canonicalize\<close> answers the same path in the same way, with a text.\<close>

definition links_stand_still :: "runtime \<Rightarrow> (string \<Rightarrow> string + string) \<Rightarrow> bool" where
  "links_stand_still rt canon \<longleftrightarrow>
     (\<forall>t p. io_canonicalize (rt_io rt) t p = canon p) \<and> (\<forall>p q. canon p = Inr q \<longrightarrow> utf8_text q)"

definition executable_allowed :: "runtime \<Rightarrow> (string \<Rightarrow> string + string) \<Rightarrow> string \<Rightarrow> bool" where
  "executable_allowed rt canon executable \<longleftrightarrow>
     (\<exists>target root base. canon executable = Inr target \<and> root \<in> set (rt_allowed_executable_roots rt)
        \<and> canon root = Inr base \<and> path_starts_with target base)"

definition inside :: "(string \<Rightarrow> string + string) \<Rightarrow> WorkspaceRecord \<Rightarrow> string \<Rightarrow> bool" where
  "inside canon open_record cwd \<longleftrightarrow>
     (\<exists>root. canon (wk_workspace_path open_record) = Inr root \<and> path_starts_with cwd root \<and> utf8_text cwd)"

lemma canonicalized_returns:
  assumes "links_stand_still rt canon"
  shows "returns (ask_result rt (\<lambda>i t. map_err f (io_canonicalize i t p))) (\<lambda>q. canon p = Inr q \<and> utf8_text q)"
  using assms by (intro returns_ask_result) (auto simp: links_stand_still_def map_err_eq_Inr)

lemma canonical_directory_returns:
  assumes "links_stand_still rt canon"
  shows "returns (canonical_directory rt p field) (\<lambda>q. canon p = Inr q \<and> utf8_text q)"
  unfolding canonical_directory_def
  by (rule returns_then[OF canonicalized_returns[OF assms]]) (intro returns_bind returns_if returns_lifted returns_eret; simp)

lemma existing_path_returns:
  assumes "links_stand_still rt canon"
  shows "returns (resolve_existing_workspace_path rt open_record relative allow) (inside canon open_record)"
  unfolding resolve_existing_workspace_path_def Let_def universal_fail_def
  apply (rule returns_bind)
  apply (rule returns_then[OF canonical_directory_returns[OF assms]])
  apply (rule returns_bind)
  apply (rule returns_if, rule returns_efail)
  apply (rule returns_then[OF canonicalized_returns[OF assms]])
  apply (rule returns_bind)
  apply (rule returns_if, rule returns_efail)
  apply (rule returns_eret)
  apply (auto simp: inside_def)
  done

lemma cwd_returns:
  assumes "links_stand_still rt canon"
  shows "returns (resolve_workspace_cwd rt open_record relative field) (inside canon open_record)"
  unfolding resolve_workspace_cwd_def
  apply (rule returns_then)
   apply (rule returns_handled[OF existing_path_returns[OF assms]], rule returns_efail, erule returns_eret)
  apply (intro returns_bind returns_if returns_lifted returns_eret; simp)
  done

lemma emap_returns:
  assumes "\<And>x. returns (f x) (P x)"
  shows "returns (emap f xs) (\<lambda>ys. list_all2 P xs ys)"
proof (induction xs)
  case (Cons x xs)
  show ?case unfolding emap.simps
    by (rule returns_then[OF assms], rule returns_then[OF Cons.IH], rule returns_eret) simp
qed (simp add: returns_eret)

lemma executable_returns:
  assumes "links_stand_still rt canon"
  shows "returns (validate_executable rt p field) (\<lambda>q. q = p \<and> executable_allowed rt canon p)"
  unfolding validate_executable_def Let_def
  apply (rule returns_if, rule returns_efail)
  apply (rule returns_then[OF canonicalized_returns[OF assms]])
  apply (rule returns_bind)
  apply (rule returns_if, rule returns_efail)
  apply (rule returns_then[OF emap_returns[OF canonicalized_returns[OF assms]]])
  apply (rule returns_bind)
  apply (rule returns_bind)
  apply (rule returns_if, rule returns_efail)
  apply (rule returns_eret)
  apply (auto simp: executable_allowed_def list_ex_iff list_all2_conv_all_nth in_set_conv_nth)
  apply (metis nth_mem)
  done

section \<open>Resolved plans\<close>

definition step_confined :: "runtime \<Rightarrow> (string \<Rightarrow> string + string) \<Rightarrow> string \<Rightarrow> RuntimeExecutionStep \<Rightarrow> UniversalExecutionStep \<Rightarrow> bool" where
  "step_confined rt canon root resolved step \<longleftrightarrow>
     path_starts_with (st_cwd resolved) root \<and> executable_allowed rt canon (us_executable step)
     \<and> st_executable resolved = lossy_text (us_executable step)"

lemma steps_returns:
  assumes "links_stand_still rt canon" and "canon (wk_workspace_path open_record) = Inr root"
  shows "returns (resolve_steps rt open_record target base index xs) (\<lambda>steps. list_all2 (step_confined rt canon root) steps xs)"
proof (induction xs arbitrary: index)
  case (Cons step xs)
  show ?case unfolding resolve_steps.simps Let_def
    apply (rule returns_then[OF cwd_returns[OF assms(1)]])
    apply (rule returns_then[OF executable_returns[OF assms(1)]])
    apply (rule returns_bind)
    apply (rule returns_bind)
    apply (rule returns_then[OF Cons.IH])
    apply (rule returns_eret)
    using assms(2) by (auto simp: step_confined_def inside_def lossy_text_valid)
qed (simp add: returns_eret)

text \<open>
  C25. A resolved plan is confined.  As long as the links of the file system stand still while a request
  is resolved, the plan it is resolved to runs below the Workspace: its working directory and those of
  its steps are, with every link followed, below the Workspace directory, and every executable it names
  resolves to a file below a root the operator allows.
\<close>

theorem resolved_plan_confined:
  assumes still: "links_stand_still rt canon" and run: "resolve_plan rt request s = (Inr plan, t)"
  shows "path_starts_with (p_cwd plan) (p_workspace_path plan)
    \<and> executable_allowed rt canon (u_executable (jr_execution request))
    \<and> p_executable plan = lossy_text (u_executable (jr_execution request))
    \<and> list_all2 (step_confined rt canon (p_workspace_path plan)) (p_steps plan) (u_steps (jr_execution request))"
    (is "?confined plan")
proof -
  have "returns (resolve_plan rt request) ?confined"
    unfolding resolve_plan_def Let_def case_prod_beta
    apply (rule returns_bind)
    apply (rule returns_then[OF canonical_directory_returns[OF still]])
    apply (rule returns_then[OF cwd_returns[OF still]])
    apply (rule returns_then[OF executable_returns[OF still]])
    apply (rule returns_bind)
    apply (rule returns_then[OF steps_returns[OF still]], erule conjunct1)
    apply (intro returns_bind returns_eret)
    apply (auto simp: inside_def lossy_text_valid)
    done
  then show ?thesis using run unfolding returns_def by blast
qed

end
