(* ===== verification/Proposal_Guarantees.thy ===== *)
theory Proposal_Guarantees
  imports Confinement_Guarantees Admission_Guarantees
begin

text \<open>
  What admission through the engine promises: a client request names at most one Job, whatever is
  proposed under it and however often.
\<close>

section \<open>The Job a client request is bound to\<close>

definition bound_to :: "registry \<Rightarrow> string \<Rightarrow> string \<Rightarrow> string \<Rightarrow> bool" where
  "bound_to db owner client_request_id job_id \<longleftrightarrow>
     (\<exists>key. find_key db owner client_request_id = Some key \<and> ik_job_id key = job_id)"

lemma bound_to_unique: "bound_to db owner c k \<Longrightarrow> bound_to db owner c k' \<Longrightarrow> k = k'"
  by (auto simp: bound_to_def)

lemma find_key_SomeD:
  assumes "find_key db owner c = Some key"
  shows "key \<in> set (idempotency_keys db)" "ik_principal key = owner" "ik_client_request_id key = c"
  using assms find_Some_iff[of _ "idempotency_keys db" key] unfolding find_key_def by (auto simp: in_set_conv_nth)

lemma bound_to_run:
  assumes "reachable_registry h cfg db" and run: "registry_run h cfg db db'" and "bound_to db owner c k"
  shows "bound_to db' owner c k"
proof -
  obtain key where key: "find_key db owner c = Some key" "ik_job_id key = k" using assms(3) unfolding bound_to_def by blast
  have "key \<in> set (idempotency_keys db')"
    using reachable_advances[OF assms(1) run] find_key_SomeD(1)[OF key(1)] unfolding advances_def by (auto dest: set_mono_prefix)
  then have "find_key db' (ik_principal key) (ik_client_request_id key) = Some key"
    by (rule find_key_bound[OF full_invD(6)[OF reachable_full_inv[OF reachable_run[OF assms(1) run]]]])
  then show ?thesis using key find_key_SomeD(2,3)[OF key(1)] by (simp add: bound_to_def)
qed

lemma reconciled_admission_bound:
  assumes "reconcile_admission_commit_failure env request op ctx ac e now = Inr outcome"
  shows "bound_to now (p_principal (sr_plan request)) (sr_client_request_id request) (outcome_job_id outcome)"
  using assms unfolding reconcile_admission_commit_failure_def Let_def bound_to_def
  by (auto split: if_splits option.splits sum.splits simp: load_job_eq_Inr dest: tbl_lookup_SomeD)

lemma submit_bound:
  assumes reach: "reachable_registry h cfg db"
    and ok: "submit_preallocated h env cfg clock fence db request ids = (Inr outcome, db')"
  shows "bound_to db' (p_principal (sr_plan request)) (sr_client_request_id request) (outcome_job_id outcome)"
proof (cases outcome)
  case (Created c)
  obtain pa at evs where prep: "prepare_admission h cfg request ids at = Inr pa"
    and c: "c = \<lparr>ca_job = pa_job pa, ca_attempt = pa_attempt pa, ca_reservation = pa_reservation pa,
           ca_launch_token = pa_launch_token pa\<rparr>"
    and adm: "admission db pa evs db'" by (rule submit_created[OF ok[unfolded Created]])
  have reach': "reachable_registry h cfg db'"
    using reach_step[OF reach[unfolded reachable_registry_def] rs_submit[of h cfg db env clock fence request ids]] ok
    unfolding reachable_registry_def by simp
  have "idempotency_row (pa_job pa) \<in> set (idempotency_keys db')" using adm unfolding admission_def by simp
  from find_key_bound[OF full_invD(6)[OF reachable_full_inv[OF reach']] this]
  show ?thesis using prepared_view(5,6)[OF prep] unfolding bound_to_def Created c by (simp add: idempotency_row_def)
next
  case (Existing job)
  obtain pa where ready: "admission_ready h env cfg clock request ids = Inr pa" by (rule submit_not_ready[OF ok])
  note tx = in_transaction_Inr[OF ok[unfolded submit_ready[OF ready]]]
  have replay: "bound_to db (p_principal (sr_plan request)) (sr_client_request_id request) (j_job_id job)"
    if "submit_tx h env cfg fence request pa db = Inr (Commit ctx (Existing job, b) new)" for ctx b new
    using that unfolding submit_tx_def replay_admission_def bound_to_def
    by (auto split: option.splits if_splits elim!: rbind_InrE simp: load_job_eq_Inr dest!: tbl_lookup_SomeD)
  have same: "new = db" if "submit_tx h env cfg fence request pa db = Inr (Commit ctx (Existing job, b) new)" for ctx b new
    using that unfolding submit_tx_def by (auto split: option.splits elim!: rbind_InrE)
  have "bound_to db' (p_principal (sr_plan request)) (sr_client_request_id request) (j_job_id job)"
    using tx submit_tx_no_return replay same reconciled_admission_bound Existing
    by (auto split: if_splits simp: Existing) (metis outcome_job_id.simps(2) prod.collapse)+
  then show ?thesis by (simp add: Existing)
qed

section \<open>Programs change the database by registry operations only\<close>

definition runs :: "runtime \<Rightarrow> RegistryConfig \<Rightarrow> engine_state \<Rightarrow> engine_state \<Rightarrow> bool" where
  "runs rt cfg s t \<longleftrightarrow> (others_run rt cfg \<longrightarrow> registry_run (rt_host rt) cfg (es_db s) (es_db t))"

interpretation runs: engine_moves rt cfg "runs rt cfg" for rt cfg
proof unfold_locales
  show "runs rt cfg s t \<Longrightarrow> runs rt cfg t u \<Longrightarrow> runs rt cfg s u" for s t u
    unfolding runs_def registry_run_def by (blast intro: rtranclp_trans)
  show "runs rt cfg s (advance rt s)" for s by (simp add: runs_def advance_def others_run_def)
  show "registry_step (rt_host rt) cfg (es_db s) db' \<Longrightarrow> runs rt cfg s (s\<lparr>es_db := db'\<rparr>)" for s db'
    by (simp add: runs_def registry_run_def r_into_rtranclp)
qed (simp_all add: keeps_def emit_def runs_def registry_run_def)

lemma emit_runs [keeps]: "keeps (runs rt cfg) (emit e)"
  by (simp add: keeps_def emit_def runs_def registry_run_def)

interpretation runs_deadline: engine_deadline rt cfg "runs rt cfg" for rt cfg
  by unfold_locales (unfold enforce_native_windows_outer_deadline_def terminate_for_deadline_def, intro keeps)

interpretation runs_admission: engine_admission rt "rt_registry rt" "runs rt (rt_registry rt)" for rt
proof unfold_locales
  fix a
  show "keeps (runs rt (rt_registry rt)) (dispatch_attempt rt a)"
    unfolding dispatch_attempt_def dispatch_local_linux_def dispatch_windows_native_def systemd_run_def by (intro keeps)
qed simp

section \<open>Programs that bind a client request\<close>

definition sound :: "runtime \<Rightarrow> engine_state \<Rightarrow> bool" where
  "sound rt s \<longleftrightarrow> others_run rt (rt_registry rt) \<and> reachable_registry (rt_host rt) (rt_registry rt) (es_db s)"

abbreviation kept :: "runtime \<Rightarrow> 'a engine \<Rightarrow> bool" where
  "kept rt m \<equiv> keeps (runs rt (rt_registry rt)) m"

lemma kept_sound:
  assumes "kept rt m" and "sound rt s" and "m s = (r, t)"
  shows "sound rt t" "bound_to (es_db s) owner c k \<Longrightarrow> bound_to (es_db t) owner c k"
proof -
  have run: "registry_run (rt_host rt) (rt_registry rt) (es_db s) (es_db t)"
    using keepsD[OF assms(1,3)] assms(2) unfolding runs_def sound_def by blast
  then show "sound rt t" using assms(2) reachable_run unfolding sound_def by blast
  show "bound_to (es_db s) owner c k \<Longrightarrow> bound_to (es_db t) owner c k"
    using bound_to_run[OF _ run] assms(2) unfolding sound_def by blast
qed

text \<open>Whenever the program returns, the client request is bound to the Job of its answer.\<close>

definition binds :: "runtime \<Rightarrow> string \<Rightarrow> string \<Rightarrow> ('a \<Rightarrow> string) \<Rightarrow> 'a engine \<Rightarrow> bool" where
  "binds rt owner c job m \<longleftrightarrow> (\<forall>s x t. sound rt s \<longrightarrow> m s = (Inr x, t) \<longrightarrow> bound_to (es_db t) owner c (job x))"

lemma binds_efail: "binds rt owner c job (efail e)"
  by (simp add: binds_def efail_def)

lemma binds_if: "(b \<Longrightarrow> binds rt owner c job m) \<Longrightarrow> (\<not> b \<Longrightarrow> binds rt owner c job n) \<Longrightarrow> binds rt owner c job (if b then m else n)"
  by simp

lemma binds_after:
  assumes "kept rt m" and "returns m P" and "\<And>x. P x \<Longrightarrow> binds rt owner c job (f x)"
  shows "binds rt owner c job (ebind m f)"
  unfolding binds_def
proof (intro allI impI)
  fix s y t assume s: "sound rt s" and run: "ebind m f s = (Inr y, t)"
  obtain x u where m: "m s = (Inr x, u)" and f: "f x u = (Inr y, t)"
    using run unfolding ebind_def by (auto split: prod.splits sum.splits)
  have "P x" using assms(2) m unfolding returns_def by blast
  from assms(3)[OF this] show "bound_to (es_db t) owner c (job y)"
    using kept_sound(1)[OF assms(1) s m] f unfolding binds_def by blast
qed

lemma returns_any: "returns m (\<lambda>_. True)"
  by (simp add: returns_def)

lemmas binds_then = binds_after[OF _ returns_any]

lemma binds_before:
  assumes "binds rt owner c job m" and "kept rt m" and "\<And>x. kept rt (f x)"
    and "\<And>x. returns (f x) (\<lambda>y. job' y = job x)"
  shows "binds rt owner c job' (ebind m f)"
  unfolding binds_def
proof (intro allI impI)
  fix s y t assume s: "sound rt s" and run: "ebind m f s = (Inr y, t)"
  obtain x u where m: "m s = (Inr x, u)" and f: "f x u = (Inr y, t)"
    using run unfolding ebind_def by (auto split: prod.splits sum.splits)
  have "bound_to (es_db u) owner c (job x)" using assms(1) s m unfolding binds_def by blast
  moreover have "job' y = job x" using assms(4) f unfolding returns_def by blast
  ultimately show "bound_to (es_db t) owner c (job' y)"
    using kept_sound(2)[OF assms(3) kept_sound(1)[OF assms(2) s m] f] by simp
qed

lemma submit_now_binds:
  "binds rt (p_principal (sr_plan request)) (sr_client_request_id request) outcome_job_id (submit_preallocated_now rt request ids)"
  unfolding submit_preallocated_now_def
proof (intro binds_then)
  fix clock fence
  show "binds rt (p_principal (sr_plan request)) (sr_client_request_id request) outcome_job_id
     (registry_op rt (\<lambda>env db. submit_preallocated (rt_host rt) env (rt_registry rt) clock fence db request ids))"
    unfolding binds_def
  proof (intro allI impI)
    fix s x t
    assume s: "sound rt s"
      and run: "registry_op rt (\<lambda>env db. submit_preallocated (rt_host rt) env (rt_registry rt) clock fence db request ids) s = (Inr x, t)"
    have "kept rt (ask rt io_polls)" by (intro keeps)
    from kept_sound(1)[OF this s] have "sound rt (advance rt s)" by (simp add: ask_def)
    then show "bound_to (es_db t) (p_principal (sr_plan request)) (sr_client_request_id request) (outcome_job_id x)"
      using run submit_bound unfolding registry_op_def Let_def sound_def by (auto intro!: submit_bound simp: prod_eq_iff)
  qed
qed (intro keeps)+

lemma submit_with_set_binds:
  assumes "\<And>k. kept rt (adopt k)" and "kept rt discard"
  shows "binds rt (p_principal (sr_plan request)) (sr_client_request_id request) (\<lambda>k. k) (submit_with_set rt request ids adopt discard)"
proof -
  let ?m = "submit_preallocated_now rt request ids"
  let ?f = "\<lambda>outcome. case outcome of
          Created created \<Rightarrow>
            (let job_id = j_job_id (ca_job created) in
             ematch (adopt job_id) (\<lambda>error. efail (with_operation_id error job_id)) (\<lambda>_. eret job_id))
        | Existing job \<Rightarrow> ebind discard (\<lambda>_. eret (j_job_id job))"
  have kept: "kept rt (?f outcome)" for outcome
    using assms by (cases outcome) (simp_all only: AdmissionOutcome.case Let_def, (intro keeps; assumption?)+)
  have "returns (?f outcome) (\<lambda>k. k = outcome_job_id outcome)" for outcome
    by (cases outcome) (simp_all add: Let_def, (intro returns_match returns_bind returns_efail returns_eret refl)+)
  from binds_before[OF submit_now_binds _ kept this] have "binds rt (p_principal (sr_plan request)) (sr_client_request_id request) (\<lambda>k. k) (ebind ?m ?f)"
    by (simp add: runs_admission.submit_preallocated_now_keeps)
  moreover have "submit_with_set rt request ids adopt discard s = (Inr x, t) \<Longrightarrow> ebind ?m ?f s = (Inr x, t)" for s x t
  proof -
    assume run: "submit_with_set rt request ids adopt discard s = (Inr x, t)"
    obtain r u where m: "?m s = (r, u)" by fastforce
    show ?thesis
    proof (cases r)
      case (Inl e)
      then show ?thesis using run m by (auto simp: submit_with_set_def ematch_def ebind_def efail_def split: prod.splits sum.splits)
    next
      case (Inr o')
      then show ?thesis using run m by (simp add: submit_with_set_def ematch_def ebind_def)
    qed
  qed
  ultimately show ?thesis unfolding binds_def by blast
qed

section \<open>What the programs of an admission return\<close>

lemma resolved_plan_principal: "returns (resolve_plan rt request) (\<lambda>plan. p_principal plan = jr_principal request)"
  unfolding resolve_plan_def Let_def case_prod_beta by (intro returns_bind returns_eret) simp

lemma with_inputs_principal: "with_inputs plan prepared = Inr plan' \<Longrightarrow> p_principal plan' = p_principal plan"
  unfolding with_inputs_def Let_def by (auto elim!: rbind_InrE)

lemma snapshot_job_id:
  "returns (job_snapshot_now rt k) (\<lambda>snapshot. jpr_job_id (js_projection snapshot) = k)"
  unfolding job_snapshot_now_def
  by (rule returns_registry_read)
     (auto simp: job_snapshot_def load_job_snapshot_def load_job_snapshot_in_def project_job_def Let_def load_job_eq_Inr
       elim!: rbind_InrE split: option.splits dest!: tbl_lookup_SomeD)

lemma observation_job_id:
  "jpr_job_id (js_projection snapshot) = k \<Longrightarrow>
   returns (observation_from_snapshot rt snapshot q) (\<lambda>ob. jpr_job_id (ob_projection ob) = k)"
  unfolding observation_from_snapshot_def observation_from_parts_def Let_def case_prod_beta
  by (intro returns_bind returns_if returns_efail returns_eret) simp_all

lemma observe_loop_job_id:
  "returns (observe_loop rt q first n) (\<lambda>ob. jpr_job_id (ob_projection ob) = jo_job_id q)"
proof (induction n arbitrary: first)
  case 0
  show ?case
    by (subst observe_loop.simps, rule returns_bind, rule returns_then[OF snapshot_job_id], rule returns_bind)
       (use observation_job_id in \<open>simp add: Let_def\<close>)
next
  case (Suc n)
  show ?case
    by (subst observe_loop.simps, rule returns_bind, rule returns_then[OF snapshot_job_id], rule returns_bind)
       (use observation_job_id Suc.IH in \<open>simp add: Let_def\<close>)
qed

lemma observe_admitted_job_id:
  "returns (observe_admitted_job rt k n stdout stderr) (\<lambda>ob. jpr_job_id (ob_projection ob) = k)"
proof -
  have "returns (observe_job rt q) (\<lambda>ob. jpr_job_id (ob_projection ob) = jo_job_id q)" for q
    unfolding observe_job_def by (intro returns_bind observe_loop_job_id)
  from this[of "\<lparr>jo_schema_version = RUNTIME_SCHEMA_VERSION, jo_job_id = k, jo_wait_ms = n,
         jo_wait_until = WaitTerminal, jo_stdout_tail_bytes = stdout, jo_stderr_tail_bytes = stderr,
         jo_stdout_offset = None, jo_stderr_offset = None\<rparr>"]
  show ?thesis unfolding observe_admitted_job_def returns_def ematch_def efail_def eret_def
    by (auto split: prod.splits sum.splits)
qed

section \<open>Admissions bind their client request\<close>

lemma admit_new_job_binds:
  "binds rt (jr_principal request) (jr_client_request_id request) (\<lambda>k. k) (admit_new_job rt request digest)"
  unfolding admit_new_job_def
  apply (rule binds_then, intro keeps)
  apply (rule binds_then, intro keeps)
  apply (rule binds_then, intro keeps)
  apply (rule binds_after[OF _ resolved_plan_principal], intro keeps)
  apply (rule binds_then, intro keeps)
  subgoal for _ _ dependencies plan provider
    unfolding submit_now_def
    using submit_now_binds[of rt "submit_request_for request digest provider None dependencies plan"]
    by (intro binds_before[of _ _ _ outcome_job_id] binds_then[of _ "preallocate_ids_now rt"] returns_eret)
       (simp_all add: submit_request_for_def, (intro keeps)+)
  done

lemma admit_new_job_with_inputs_binds:
  "binds rt (jr_principal request) (jr_client_request_id request) (\<lambda>k. k) (admit_new_job_with_inputs rt request digest inputs)"
  unfolding admit_new_job_with_inputs_def
  apply (rule binds_then, intro keeps)
  apply (rule binds_then, intro keeps)
  apply (rule binds_then, intro keeps)
  apply (rule binds_then, intro keeps)
  apply (rule binds_after[OF _ resolved_plan_principal], intro keeps)
  apply (rule binds_then, intro keeps)
  apply (rule binds_then, intro keeps)
  apply (rule binds_after[OF _ returns_lifted], intro keeps, erule with_inputs_principal)
  apply (rule binds_then, intro keeps)
  subgoal for _ _ _ _ plan ids prepared plan' provider
    using submit_with_set_binds[of rt "ensure_job_input_ownership rt" "discard_prepared_input_set rt (pis_prepared_root prepared)"
        "submit_request_for request digest provider None [] plan'" ids]
    by (simp add: submit_request_for_def runs.ensure_job_input_ownership_keeps runs.discard_prepared_input_set_keeps)
  done

lemma admit_new_job_with_credentials_binds:
  "binds rt (jr_principal request) (jr_client_request_id request) (\<lambda>k. k) (admit_new_job_with_credentials rt request digest credentials)"
  unfolding admit_new_job_with_credentials_def Let_def
  apply (rule binds_if, rule binds_efail)
  apply (rule binds_then, intro keeps)
  apply (rule binds_then, intro keeps)
  apply (rule binds_then, intro keeps)
  apply (rule binds_after[OF _ resolved_plan_principal], intro keeps)
  apply (rule binds_then, intro keeps)
  apply (rule binds_then, intro keeps)
  apply (rule binds_then, intro keeps)
  subgoal for _ _ _ plan ids prepared provider
    using submit_with_set_binds[of rt "ensure_job_credential_ownership rt"
        "discard_prepared_credential_set rt (pcs_prepared_root prepared)"
        "submit_request_for request digest provider None [] (plan\<lparr>p_credential_set_id := Some (pcs_credential_set_id prepared)\<rparr>)" ids]
    by (simp add: submit_request_for_def runs.ensure_job_credential_ownership_keeps runs.discard_prepared_credential_set_keeps)
  done

lemma found_bound:
  assumes "find_idempotent_job_now rt owner c digest compatible s = (Inr (Some job), t)"
  shows "bound_to (es_db t) owner c (j_job_id job)"
  using assms unfolding find_idempotent_job_now_def registry_read_def find_idempotent_job_def bound_to_def Let_def
  by (auto elim!: rbind_InrE split: option.splits if_splits simp: load_job_eq_Inr dest!: tbl_lookup_SomeD)

lemma admitted_or_existing_binds:
  assumes "\<And>request. jr_principal request = jp_principal proposal \<Longrightarrow> jr_client_request_id request = jp_client_request_id proposal
     \<Longrightarrow> binds rt (jp_principal proposal) (jp_client_request_id proposal) (\<lambda>k. k) (admit request)"
    and kept: "\<And>request. kept rt (admit request)"
  shows "binds rt (jp_principal proposal) (jp_client_request_id proposal) fst (admitted_or_existing rt proposal digest compatible admit)"
  unfolding admitted_or_existing_def
proof (rule binds_then, intro keeps)
  let ?rest = "\<lambda>found. case found of Some existing \<Rightarrow> eret (j_job_id existing, False)
     | None \<Rightarrow> (let request = resolved_request rt proposal in
          ebind (elift (validate_run_request_structure (rt_host rt) request)) (\<lambda>_.
          ebind (admit request) (\<lambda>job_id. eret (job_id, True))))"
  have fresh: "binds rt (jp_principal proposal) (jp_client_request_id proposal) fst (?rest None)"
    apply (simp add: Let_def)
    apply (rule binds_then, intro keeps)
    apply (rule binds_before[OF assms(1) kept])
       apply (simp_all add: resolved_request_def resolve_proposal_def concrete_request_def Let_def returns_eret)
    apply (intro keeps)
    done
  show "binds rt (jp_principal proposal) (jp_client_request_id proposal) fst
     (ebind (find_idempotent_job_now rt (jp_principal proposal) (jp_client_request_id proposal) digest compatible) ?rest)"
    unfolding binds_def
  proof (intro allI impI)
    fix s y t
    assume s: "sound rt s" and run: "ebind (find_idempotent_job_now rt (jp_principal proposal) (jp_client_request_id proposal) digest compatible) ?rest s = (Inr y, t)"
    obtain x u where m: "find_idempotent_job_now rt (jp_principal proposal) (jp_client_request_id proposal) digest compatible s = (Inr x, u)"
      and f: "?rest x u = (Inr y, t)"
      using run unfolding ebind_def by (auto split: prod.splits sum.splits)
    have "kept rt (find_idempotent_job_now rt (jp_principal proposal) (jp_client_request_id proposal) digest compatible)" by (intro keeps)
    from kept_sound(1)[OF this s m] have u: "sound rt u" .
    show "bound_to (es_db t) (jp_principal proposal) (jp_client_request_id proposal) (fst y)"
    proof (cases x)
      case None
      then show ?thesis using fresh u f unfolding binds_def by blast
    next
      case (Some job)
      then show ?thesis using found_bound m f by (auto simp: eret_def)
    qed
  qed
qed

section \<open>Proposals\<close>

text \<open>What a client proposes a Job with.\<close>

datatype job_bindings =
    NoBindings
  | InputBindings "InputBindingRequest list"
  | CredentialBindings "CredentialBindingRequest list"

fun propose :: "runtime \<Rightarrow> job_bindings \<Rightarrow> JobRunProposal \<Rightarrow> JobObservation engine" where
  "propose rt NoBindings proposal = run_job_proposal rt proposal"
| "propose rt (InputBindings inputs) proposal = run_job_proposal_with_inputs rt proposal inputs"
| "propose rt (CredentialBindings credentials) proposal = run_job_proposal_with_credentials rt proposal credentials"

lemma propose_keeps: "kept rt (propose rt bindings proposal)"
  by (cases bindings) (simp_all only: propose.simps, (intro keeps)+)

text \<open>An admission followed by an observation of its Job answers with the Job of the admission.\<close>

lemma observed_admission_binds:
  assumes "\<And>request. jr_principal request = jp_principal proposal \<Longrightarrow> jr_client_request_id request = jp_client_request_id proposal
     \<Longrightarrow> binds rt (jp_principal proposal) (jp_client_request_id proposal) (\<lambda>k. k) (admit request)"
    and "\<And>request. kept rt (admit request)" and "\<And>x. kept rt (dispatch x)"
  shows "binds rt (jp_principal proposal) (jp_client_request_id proposal) (\<lambda>ob. jpr_job_id (ob_projection ob))
     (ebind (admitted_or_existing rt proposal digest compatible admit) (\<lambda>x. ebind (dispatch x) (\<lambda>_.
        observe_admitted_job rt (fst x) n stdout stderr)))"
  using assms
  by (intro binds_before[OF admitted_or_existing_binds] returns_bind observe_admitted_job_id keeps) assumption+

lemma ebind_skip: "ebind (eret ()) (\<lambda>_. m) = m"
  by (simp add: ebind_def eret_def fun_eq_iff)

lemma propose_binds:
  "binds rt (jp_principal proposal) (jp_client_request_id proposal) (\<lambda>ob. jpr_job_id (ob_projection ob)) (propose rt bindings proposal)"
proof (cases bindings)
  case NoBindings
  have "binds rt (jp_principal proposal) (jp_client_request_id proposal) (\<lambda>ob. jpr_job_id (ob_projection ob)) (run_job_proposal rt proposal)"
    unfolding run_job_proposal_def Let_def case_prod_beta
    apply (rule binds_then, intro keeps)
    apply (rule observed_admission_binds)
      apply (rule binds_then, intro keeps)
    subgoal for x request
      using admit_new_job_binds[of rt request] by simp
     apply (intro keeps)+
    done
  then show ?thesis by (simp add: NoBindings)
next
  case (InputBindings inputs)
  have "binds rt (jp_principal proposal) (jp_client_request_id proposal) (\<lambda>ob. jpr_job_id (ob_projection ob))
     (run_job_proposal_with_inputs rt proposal inputs)"
    unfolding run_job_proposal_with_inputs_def Let_def case_prod_beta
    apply (rule binds_then, intro keeps)
    apply (rule binds_then, intro keeps)
    subgoal for x inputs'
      using observed_admission_binds[of proposal rt "\<lambda>request. admit_new_job_with_inputs rt request
          (input_bound_proposal_request_identity_digest (rt_host rt) proposal inputs') inputs'" "\<lambda>_. eret ()"]
        admit_new_job_with_inputs_binds
      unfolding ebind_skip by (metis runs_admission.admit_new_job_with_inputs_keeps runs.eret_keeps)
    done
  then show ?thesis by (simp add: InputBindings)
next
  case (CredentialBindings credentials)
  have "binds rt (jp_principal proposal) (jp_client_request_id proposal) (\<lambda>ob. jpr_job_id (ob_projection ob))
     (run_job_proposal_with_credentials rt proposal credentials)"
    unfolding run_job_proposal_with_credentials_def Let_def case_prod_beta
    apply (rule binds_then, intro keeps)
    subgoal for credentials'
      using observed_admission_binds[of proposal rt "\<lambda>request. admit_new_job_with_credentials rt request
          (credential_bound_proposal_request_identity_digest (rt_host rt) proposal credentials') credentials'" "\<lambda>_. eret ()"]
        admit_new_job_with_credentials_binds
      unfolding ebind_skip by (metis runs_admission.admit_new_job_with_credentials_keeps runs.eret_keeps)
    done
  then show ?thesis by (simp add: CredentialBindings)
qed

text \<open>
  C6. A client request names one Job.  Two proposals of one principal under one client request id are
  answered with the same Job whenever both are answered: whatever they propose and with whichever
  bindings, whatever happens to the registry in between, and also when the Runtime was restarted with
  the same registry in between.
\<close>

theorem client_request_names_one_job:
  assumes "others_run rt (rt_registry rt)" and "reachable_registry (rt_host rt) (rt_registry rt) (es_db s)"
    and first: "propose rt bindings proposal s = (Inr ob, t)"
    and between: "registry_run (rt_host rt) (rt_registry rt) (es_db t) (es_db u)"
    and again: "rt_host rt' = rt_host rt" "rt_registry rt' = rt_registry rt" "others_run rt' (rt_registry rt)"
    and second: "propose rt' bindings' proposal' u = (Inr ob', v)"
    and same: "jp_principal proposal' = jp_principal proposal" "jp_client_request_id proposal' = jp_client_request_id proposal"
  shows "jpr_job_id (ob_projection ob') = jpr_job_id (ob_projection ob)"
proof -
  let ?owner = "jp_principal proposal" and ?c = "jp_client_request_id proposal" and ?k = "jpr_job_id (ob_projection ob)"
  have s: "sound rt s" using assms by (simp add: sound_def)
  have t: "sound rt t" by (rule kept_sound(1)[OF propose_keeps s first])
  have bound: "bound_to (es_db t) ?owner ?c ?k" using propose_binds s first unfolding binds_def by blast
  have u: "sound rt' u" using reachable_run[OF _ between] t again by (simp add: sound_def)
  have "bound_to (es_db u) ?owner ?c ?k" using bound_to_run[OF _ between bound] t by (simp add: sound_def)
  from kept_sound(2)[OF propose_keeps u second this] have "bound_to (es_db v) ?owner ?c ?k" .
  moreover have "bound_to (es_db v) ?owner ?c (jpr_job_id (ob_projection ob'))"
    using propose_binds[of rt' proposal' bindings'] u second same unfolding binds_def by auto
  ultimately show ?thesis by (metis bound_to_unique)
qed

end
