(* ===== verification/Progress_Guarantees.thy ===== *)
theory Progress_Guarantees
  imports Lifecycle_Guarantees
begin

text \<open>
  Progress of the registry: on a healthy connection with fresh event identifiers, a terminal verdict that
  the state machine allows is accepted, so no Job of a reachable database is stuck.
\<close>

section \<open>Statements that cannot fail\<close>

lemma sequence_below: "e \<in> set log \<Longrightarrow> ev_job_id e = k \<Longrightarrow> ev_sequence e < foldr max (map ev_sequence (filter (\<lambda>e. ev_job_id e = k) log)) 0 + 1"
  by (induction log) (auto simp: less_Suc_eq_le max_def split: if_splits)

lemma append_event_succeeds:
  assumes "''event-'' @ te_uuid env k \<notin> ev_event_id ` set (job_events db)"
    and "job_id \<in> j_job_id ` set (jobs db)" and "aid \<in> a_attempt_id ` set (attempts db)"
  obtains e where "append_event h env k job_id (Some aid) ty origin prev new reason detail at db
      = Inr (db\<lparr>job_events := job_events db @ [e]\<rparr>)"
    and "ev_event_id e = ''event-'' @ te_uuid env k"
proof -
  let ?e = "\<lparr>ev_event_id = ''event-'' @ te_uuid env k, ev_job_id = job_id, ev_attempt_id = Some aid,
         ev_sequence = next_event_sequence db job_id, ev_type = ty, ev_origin = origin,
         ev_previous_state = prev, ev_new_state = new, ev_reason_code = reason,
         ev_detail_json = h_json_print h detail, ev_detail_digest = sha256_bytes h (h_json_print h detail),
         ev_observed_at_ms = at\<rparr>"
  have "\<not> list_ex (\<lambda>f. ev_event_id f = ev_event_id ?e \<or> (ev_job_id f = ev_job_id ?e \<and> ev_sequence f = ev_sequence ?e)) (job_events db)"
  proof
    assume "list_ex (\<lambda>f. ev_event_id f = ev_event_id ?e \<or> (ev_job_id f = ev_job_id ?e \<and> ev_sequence f = ev_sequence ?e)) (job_events db)"
    then obtain f where f: "f \<in> set (job_events db)"
      "ev_event_id f = ev_event_id ?e \<or> (ev_job_id f = job_id \<and> ev_sequence f = next_event_sequence db job_id)"
      unfolding list_ex_iff by auto
    have "ev_event_id f \<noteq> ev_event_id ?e" using assms(1) imageI[OF f(1), of ev_event_id] by (metis job_event.select_convs(1))
    then show False using f(2) sequence_below[OF f(1), of job_id] unfolding next_event_sequence_def by fastforce
  qed
  moreover have "list_ex (\<lambda>j. j_job_id j = ev_job_id ?e) (jobs db)" "list_ex (\<lambda>a. a_attempt_id a = aid) (attempts db)"
    using assms(2,3) by (auto simp: list_ex_iff)
  ultimately have "append_event h env k job_id (Some aid) ty origin prev new reason detail at db
      = Inr (db\<lparr>job_events := job_events db @ [?e]\<rparr>)"
    unfolding append_event_def insert_event_def Let_def by simp
  then show ?thesis using that[of ?e] by simp
qed

text \<open>Artifacts that can be registered for an Attempt: new identifiers, and new files of the Attempt.\<close>

definition artifact_keys :: "RuntimeArtifactRecord \<Rightarrow> string \<times> string \<times> string" where
  "artifact_keys a = (art_attempt_id a, art_kind a, art_relative_path a)"

definition registrable :: "registry \<Rightarrow> string \<Rightarrow> ArtifactRegistration list \<Rightarrow> bool" where
  "registrable db aid arts \<longleftrightarrow>
     distinct (map ar_artifact_id arts) \<and> distinct (map (\<lambda>x. (ar_kind x, ar_relative_path x)) arts)
     \<and> (\<forall>x \<in> set arts. \<forall>b \<in> set (artifacts db). art_artifact_id b \<noteq> ar_artifact_id x
          \<and> artifact_keys b \<noteq> (aid, ar_kind x, ar_relative_path x))"

lemma register_artifacts_succeed:
  assumes "registrable db (a_attempt_id attempt) arts"
    and "a_job_id attempt \<in> j_job_id ` set (jobs db)" and "a_attempt_id attempt \<in> a_attempt_id ` set (attempts db)"
  shows "\<exists>db'. fold_res (register_artifact label attempt at) arts db = Inr db'"
  using assms
proof (induction arts arbitrary: db)
  case (Cons x arts)
  let ?r = "artifact_record attempt at x"
  have ins: "insert_artifact ?r db = Inr (db\<lparr>artifacts := artifacts db @ [?r]\<rparr>)"
    using Cons.prems unfolding insert_artifact_def registrable_def artifact_keys_def artifact_record_def
    by (auto simp: list_ex_iff)
  have "registrable (db\<lparr>artifacts := artifacts db @ [?r]\<rparr>) (a_attempt_id attempt) arts"
    using Cons.prems(1) unfolding registrable_def artifact_keys_def artifact_record_def by auto
  then show ?case using Cons.IH[of "db\<lparr>artifacts := artifacts db @ [?r]\<rparr>"] Cons.prems(2,3) ins
    by (simp add: register_artifact_def)
qed simp

lemma put_keys: "key x = k \<Longrightarrow> key ` set (tbl_put key k x t) = key ` set t"
  by (metis list.set_map tbl_put_same_keys)

text \<open>Updates of one row by its key: they succeed when the row's constraints allow the new contents.\<close>

lemma keyed_row:
  assumes "distinct (map key t)" and "tbl_lookup key t k = Some a" and "x \<in> set t" and "key x = k"
  shows "x = a"
  using assms tbl_lookup_SomeD[OF assms(2)] by (metis distinct_map inj_onD)

lemma update_attempts_succeeds:
  assumes "distinct (map a_attempt_id (attempts db))" and "tbl_lookup a_attempt_id (attempts db) k = Some a"
    and "Q a" and "\<not> attempt_reopen_denied (a_state a) (a_state (f a))" and "a_main_pid (f a) \<noteq> Some 0"
  shows "update_attempts (\<lambda>x. a_attempt_id x = k \<and> Q x) f ctx db
    = Inr (1, db\<lparr>attempts := tbl_put a_attempt_id k (f a) (attempts db)\<rparr>)"
proof -
  have only: "x = a" if "x \<in> set (attempts db)" "a_attempt_id x = k" for x
    using keyed_row[OF assms(1,2)] that by blast
  have "\<not> list_ex (\<lambda>x. (a_attempt_id x = k \<and> Q x) \<and> attempt_reopen_denied (a_state x) (a_state (f x))) (attempts db)"
    "\<not> list_ex (\<lambda>x. (a_attempt_id x = k \<and> Q x) \<and> a_main_pid (f x) = Some 0) (attempts db)"
    using only assms(4,5) unfolding list_ex_iff by blast+
  then obtain n db' where up: "update_attempts (\<lambda>x. a_attempt_id x = k \<and> Q x) f ctx db = Inr (n, db')"
    unfolding update_attempts_def by simp
  then show ?thesis using update_attempts_key[OF up assms(1,2)] assms(3) by simp
qed

lemma update_jobs_succeeds:
  assumes "distinct (map j_job_id (jobs db))" and "tbl_lookup j_job_id (jobs db) k = Some j"
    and "Q j" and "\<not> resolution_change_denied (j_resolution j) (j_resolution (f j))"
  shows "update_jobs (\<lambda>x. j_job_id x = k \<and> Q x) f ctx db = Inr (1, db\<lparr>jobs := tbl_put j_job_id k (f j) (jobs db)\<rparr>)"
proof -
  have only: "x = j" if "x \<in> set (jobs db)" "j_job_id x = k" for x
    using keyed_row[OF assms(1,2)] that by blast
  have "\<not> list_ex (\<lambda>x. (j_job_id x = k \<and> Q x) \<and> resolution_change_denied (j_resolution x) (j_resolution (f x))) (jobs db)"
    using only assms(4) unfolding list_ex_iff by blast
  then obtain n db' where up: "update_jobs (\<lambda>x. j_job_id x = k \<and> Q x) f ctx db = Inr (n, db')"
    unfolding update_jobs_def by simp
  then show ?thesis using update_jobs_key[OF up assms(1,2)] assms(3) by simp
qed

lemma update_reservations_succeeds:
  assumes "distinct (map r_attempt_id (reservations db))" and "tbl_lookup r_attempt_id (reservations db) k = Some r"
    and "Q r" and "(r_state (f r) = Released) = (r_released_at_ms (f r) \<noteq> None)"
  shows "update_reservations (\<lambda>x. r_attempt_id x = k \<and> Q x) f ctx db
    = Inr (1, db\<lparr>reservations := tbl_put r_attempt_id k (f r) (reservations db)\<rparr>)"
proof -
  have only: "x = r" if "x \<in> set (reservations db)" "r_attempt_id x = k" for x
    using keyed_row[OF assms(1,2)] that by blast
  have "\<not> list_ex (\<lambda>x. (r_attempt_id x = k \<and> Q x) \<and> (r_state (f x) = Released) \<noteq> (r_released_at_ms (f x) \<noteq> None)) (reservations db)"
    using only assms(4) unfolding list_ex_iff by blast
  then obtain n db' where up: "update_reservations (\<lambda>x. r_attempt_id x = k \<and> Q x) f ctx db = Inr (n, db')"
    unfolding update_reservations_def by simp
  then show ?thesis using update_reservations_key[OF up assms(1,2)] assms(3) by simp
qed

section \<open>Terminal commits\<close>

definition fresh_events :: "sql_env \<Rightarrow> registry \<Rightarrow> bool" where
  "fresh_events env db \<longleftrightarrow> te_uuid env 0 \<noteq> te_uuid env 1
     \<and> (\<forall>e \<in> set (job_events db). ev_event_id e \<notin> {''event-'' @ te_uuid env 0, ''event-'' @ te_uuid env 1})"

lemma settle_reservation_succeeds:
  assumes "distinct (map r_attempt_id (reservations db))" and "tbl_lookup r_attempt_id (reservations db) k = Some r"
    and "holds_capacity (r_state r)"
  obtains r' where "(if orphaned then hold_orphaned_reservation k at reason db else release_reservation k at reason db)
     = Inr (db\<lparr>reservations := tbl_put r_attempt_id k r' (reservations db)\<rparr>)"
proof -
  let ?hold = "r\<lparr>r_state := HeldOrphaned, r_released_at_ms := None, r_release_reason := Some reason, r_state_observed_at_ms := at\<rparr>"
  let ?free = "r\<lparr>r_state := Released, r_released_at_ms := Some at, r_release_reason := Some reason, r_state_observed_at_ms := at\<rparr>"
  have "hold_orphaned_reservation k at reason db = Inr (db\<lparr>reservations := tbl_put r_attempt_id k ?hold (reservations db)\<rparr>)"
    "release_reservation k at reason db = Inr (db\<lparr>reservations := tbl_put r_attempt_id k ?free (reservations db)\<rparr>)"
    unfolding hold_orphaned_reservation_def release_reservation_def
    using update_reservations_succeeds[OF assms(1,2), where Q = "\<lambda>r. holds_capacity (r_state r)"] assms(3) by simp_all
  then show ?thesis using that[of ?hold] that[of ?free] by (cases orphaned) simp_all
qed

lemma resolution_for_terminal: "is_terminal s \<Longrightarrow> \<exists>res. resolution_for_state s = Inr res"
  by (cases s) auto

lemma write_terminal_succeeds:
  assumes inv: "reg_inv db" and lk: "linked db j a r" and live: "j_resolution j = None"
    and request: "tc_attempt_id request = a_attempt_id a" "tc_expected_row_version request = a_row_version a"
      "is_terminal (tc_state request)"
    and pid: "a_main_pid a \<noteq> Some 0" and fresh: "fresh_events env db"
    and arts: "registrable db (a_attempt_id a) (tc_artifacts request)"
  shows "\<exists>db'. write_terminal h env request (attempt_record a) db = Inr db'"
proof -
  note l = linked_lookup[OF inv lk] and k = reg_inv_keys[OF inv] and wf = linked_wf[OF inv lk]
  have nt: "\<not> is_terminal (a_state a)" using wf_view_cases(1)[OF wf live] by blast
  have cap: "holds_capacity (r_state r)" using wf live by (simp add: wf_view_def resolution_agrees_def view_of_def holds_capacity_def)
  have aj: "a_job_id a = j_job_id j" using lk by (simp add: linked_def)
  let ?db1 = "db\<lparr>attempts := tbl_put a_attempt_id (a_attempt_id a) (terminal_row request a) (attempts db)\<rparr>"
  have up: "update_attempts (\<lambda>x. a_attempt_id x = a_attempt_id a
        \<and> (a_row_version x = a_row_version a \<and> \<not> is_terminal (a_state x))) (terminal_row request)
       ''cannot commit terminal Attempt'' db = Inr (1, ?db1)"
    using update_attempts_succeeds[OF k(2) l(2), where f = "terminal_row request"
        and Q = "\<lambda>x. a_row_version x = a_row_version a \<and> \<not> is_terminal (a_state x)"] nt pid
    by (simp add: attempt_reopen_denied_def terminal_row_def)
  have ids: "a_attempt_id ` set (attempts ?db1) = a_attempt_id ` set (attempts db)"
    using put_keys[of a_attempt_id "terminal_row request a" "a_attempt_id a" "attempts db"] by (simp add: terminal_row_def)
  have here: "j_job_id j \<in> j_job_id ` set (jobs db)" "a_attempt_id a \<in> a_attempt_id ` set (attempts db)"
    using lk by (auto simp: linked_def)
  obtain db2 where a2: "fold_res (register_artifact ''cannot register Artifact '' (attempt_record a) (tc_finished_at_ms request))
      (tc_artifacts request) ?db1 = Inr db2"
  proof -
    have "registrable ?db1 (a_attempt_id (attempt_record a)) (tc_artifacts request)" using arts by (simp add: registrable_def)
    moreover have "a_job_id (attempt_record a) \<in> j_job_id ` set (jobs ?db1)"
      "a_attempt_id (attempt_record a) \<in> a_attempt_id ` set (attempts ?db1)"
      unfolding attempt_record_sel ids aj using here by simp_all
    ultimately show ?thesis using register_artifacts_succeed that by blast
  qed
  note db2 = register_artifacts_Inr[OF a2]
  obtain r' where r3: "(if tc_state request = Orphaned
      then hold_orphaned_reservation (a_attempt_id a) (tc_finished_at_ms request) (tc_reason_code request) db2
      else release_reservation (a_attempt_id a) (tc_finished_at_ms request) (tc_reason_code request) db2)
      = Inr (db2\<lparr>reservations := tbl_put r_attempt_id (a_attempt_id a) r' (reservations db2)\<rparr>)"
    by (rule settle_reservation_succeeds[of db2 "a_attempt_id a" r]) (use k(3) l(3) cap db2 in simp_all)
  let ?db3 = "db2\<lparr>reservations := tbl_put r_attempt_id (a_attempt_id a) r' (reservations db2)\<rparr>"
  obtain res where res: "resolution_for_state (tc_state request) = Inr res"
    using resolution_for_terminal[OF request(3)] by blast
  let ?f = "\<lambda>j. j\<lparr>j_resolution := Some res, j_current_attempt_id := None, j_row_version := j_row_version j + 1\<rparr>"
  let ?db4 = "?db3\<lparr>jobs := tbl_put j_job_id (j_job_id j) (?f j) (jobs ?db3)\<rparr>"
  have j4: "update_jobs (\<lambda>x. j_job_id x = j_job_id j \<and> j_resolution x = None) ?f ''cannot resolve Job'' ?db3 = Inr (1, ?db4)"
    by (rule update_jobs_succeeds) (use k(1) l(1) db2 live in \<open>simp_all add: resolution_change_denied_def\<close>)
  have jids: "j_job_id ` set (jobs ?db4) = j_job_id ` set (jobs db)" 
    using db2 put_keys[of j_job_id "?f j" "j_job_id j" "jobs db"] by simp
  have h4: "j_job_id j \<in> j_job_id ` set (jobs ?db4)" "a_attempt_id a \<in> a_attempt_id ` set (attempts ?db4)"
    "job_events ?db4 = job_events db" using here jids ids db2 by simp_all
  have n4: "''event-'' @ te_uuid env 0 \<notin> ev_event_id ` set (job_events ?db4)"
    using fresh h4(3) unfolding fresh_events_def by auto
  obtain e5 where e5: "append_event h env 0 (j_job_id j) (Some (a_attempt_id a)) ''PROCESS_EXITED''
              ''SYSTEM_OBSERVED'' (Some (a_state a)) (Some (tc_state request)) (tc_reason_code request)
              (JObject [(''resultDigest'', JString (tc_result_digest request)), (''exitCode'', json_exit_code (tc_exit_code request))])
              (tc_finished_at_ms request) ?db4 = Inr (?db4\<lparr>job_events := job_events ?db4 @ [e5]\<rparr>)"
    and id5: "ev_event_id e5 = ''event-'' @ te_uuid env 0"
    by (rule append_event_succeeds[OF n4 h4(1,2)])
  let ?db5 = "?db4\<lparr>job_events := job_events ?db4 @ [e5]\<rparr>"
  have n5: "''event-'' @ te_uuid env 1 \<notin> ev_event_id ` set (job_events ?db5)"
    using fresh h4(3) id5 unfolding fresh_events_def by auto
  obtain e6 where e6: "append_event h env 1 (j_job_id j) (Some (a_attempt_id a)) ''JOB_TERMINAL'' ''SYSTEM_DERIVED''
      (Some (a_state a)) (Some (tc_state request)) (tc_reason_code request)
       (JObject [(''resolution'', JString (resolution_as_db res))]) (tc_finished_at_ms request) ?db5
       = Inr (?db5\<lparr>job_events := job_events ?db5 @ [e6]\<rparr>)"
    by (rule append_event_succeeds[OF n5]) (use h4 in simp_all)
  show ?thesis
    unfolding write_terminal_def request attempt_record_sel up
    using j4 e5 e6 aj a2 r3 res by simp
qed

text \<open>
  C9. No Job is stuck.  In every reachable database, an unresolved Job can be finished: every terminal state
  that its Attempt may enter (\<open>Failed\<close> always is one) is accepted by a terminal commit that names the Attempt's current
  version, over a healthy connection with fresh event identifiers and registrable Artifacts; the Job is
  then resolved and its capacity is free again, unless the verdict is \<open>Orphaned\<close>, which keeps it held.
\<close>

theorem terminal_verdict_accepted:
  assumes reach: "reachable_registry h cfg db" and lk: "linked db j a r" and live: "j_resolution j = None"
    and env: "healthy env" "fresh_events env db" and request: "terminal_request_ok request"
    and names: "tc_attempt_id request = a_attempt_id a" "tc_expected_row_version request = a_row_version a"
    and allowed: "can_transition_to (a_state a) (tc_state request)"
    and arts: "registrable db (a_attempt_id a) (tc_artifacts request)" and pid: "a_main_pid a \<noteq> Some 0"
  shows "can_transition_to (a_state a) Failed \<and> (\<exists>p db' j' a' r'. commit_terminal h env db request = (Inr p, db')
     \<and> linked db' j' a' r' \<and> j_job_id j' = j_job_id j \<and> a_attempt_id a' = a_attempt_id a
     \<and> map_option resolution_state (j_resolution j') = Some (tc_state request)
     \<and> r_state r' = (if tc_state request = Orphaned then HeldOrphaned else Released))"
proof
  note inv = full_invD(1)[OF reachable_full_inv[OF reach]]
  have t: "is_terminal (tc_state request)"
    and checks: "rbind (validate_digest (tc_result_digest request) ''resultDigest'')
         (\<lambda>_. for_each validate_artifact_registration (tc_artifacts request)) = Inr ()"
    using request by (simp_all add: terminal_request_ok_def)
  note l = linked_lookup[OF inv lk]
  have nt: "\<not> is_terminal (a_state a)" using wf_view_cases(1)[OF linked_wf[OF inv lk] live] by blast
  then show "can_transition_to (a_state a) Failed" by (cases "a_state a") simp_all
  have aj: "a_job_id a = j_job_id j" using lk by (simp add: linked_def)
  obtain new where new: "write_terminal h env request (attempt_record a) db = Inr new"
    using write_terminal_succeeds[OF inv lk live names t pid env(2) arts] by blast
  have tx: "commit_terminal_tx h env request db = Inr (Commit ''cannot commit terminal transaction'' (j_job_id j, True) new)"
    using l(1,2) nt names allowed live new aj unfolding commit_terminal_tx_def
    by (simp add: load_attempt_def load_job_def)
  have step: "registry_step h cfg db (snd (commit_terminal h env db request))" by (rule rs_terminal)
  have run: "commit_terminal h env db request
      = (case project_snapshot env new (j_job_id j) of Inl e \<Rightarrow> (Inl e, new) | Inr p \<Rightarrow> (Inr p, new))"
    using t checks tx env(1) unfolding commit_terminal_def healthy_transact[OF env(1)] in_transaction_def healthy_def
    by (simp split: sum.splits)
  then have "registry_step h cfg db new" using step by (simp split: sum.splits)
  then have inv': "reg_inv new" using registry_runs.inv_step[OF reachable_full_inv[OF reach]] full_invD(1) by blast
  have row: "tbl_lookup a_attempt_id (attempts new) (a_attempt_id a) = Some (terminal_row request a)"
    by (rule write_terminal_attempt[OF inv lk names(1)[symmetric] new])
  obtain j' r' where lk': "linked new j' (terminal_row request a) r'" by (rule attempt_linked[OF inv' row])
  have ids: "j_job_id j' = j_job_id j" using lk' aj by (simp add: linked_def terminal_row_def)
  obtain p where "project_snapshot env new (j_job_id j) = Inr p"
    using healthy_project[OF inv' lk'] env(1) ids unfolding healthy_def by metis
  then have fin: "commit_terminal h env db request = (Inr p, new)" using run by simp
  note wf = wf_view_cases[OF linked_wf[OF inv' lk']]
  have "map_option resolution_state (j_resolution j') = Some (tc_state request)"
    using wf(1,2) t by (cases "j_resolution j'") (auto simp: terminal_row_def)
  moreover have "r_state r' = (if tc_state request = Orphaned then HeldOrphaned else Released)"
    using wf(3) t by (simp add: terminal_row_def terminal_reservation_def)
  moreover have "a_attempt_id (terminal_row request a) = a_attempt_id a" by (simp add: terminal_row_def)
  ultimately show "\<exists>p db' j' a' r'. commit_terminal h env db request = (Inr p, db')
     \<and> linked db' j' a' r' \<and> j_job_id j' = j_job_id j \<and> a_attempt_id a' = a_attempt_id a
     \<and> map_option resolution_state (j_resolution j') = Some (tc_state request)
     \<and> r_state r' = (if tc_state request = Orphaned then HeldOrphaned else Released)"
    using fin lk' ids by blast
qed

end
