(* ===== verification/Launch_Guarantees.thy ===== *)
theory Launch_Guarantees
  imports Launch_Command
begin

text \<open>What the \<open>systemd-run\<close> command of a contained Attempt always says.\<close>

section \<open>Options\<close>

definition is_option :: "string \<Rightarrow> bool" where
  "is_option x \<longleftrightarrow> take 2 x = ''--''"

definition grants_write :: "string \<Rightarrow> bool" where
  "grants_write x \<longleftrightarrow> take 21 x = ''--property=BindPaths=''"

definition loads_credential :: "string \<Rightarrow> bool" where
  "loads_credential x \<longleftrightarrow> take 25 x = ''--property=LoadCredential''"

text \<open>An option that is neither of the two.\<close>

definition harmless :: "string \<Rightarrow> bool" where
  "harmless x \<longleftrightarrow> is_option x \<and> \<not> grants_write x \<and> \<not> loads_credential x"

lemma confinement_harmless: "list_all harmless CONFINEMENT"
  by code_simp

lemma setenv_harmless: "harmless (''--setenv='' @ x)"
  by (simp add: harmless_def is_option_def grants_write_def loads_credential_def)

lemma read_only_harmless: "harmless (bind_read_only x y)"
  by (simp add: harmless_def is_option_def grants_write_def loads_credential_def bind_read_only_def)

lemma unit_args_harmless: "list_all harmless (unit_args spec)"
  by (simp add: harmless_def is_option_def grants_write_def loads_credential_def unit_args_def split: option.splits)

lemma option_args_harmless:
  assumes "option_args x f = Inr args" and "\<And>y arg. f y = Inr arg \<Longrightarrow> harmless arg"
  shows "list_all harmless args"
  using assms by (cases x) (auto simp: option_args_def rmap_def elim!: rbind_InrE)

lemma each_arg_Inr: "each_arg f xs = Inr args \<Longrightarrow> arg \<in> set args \<Longrightarrow> \<exists>x \<in> set xs. f x = Inr arg"
  by (induction xs arbitrary: args) (auto elim!: rbind_InrE)

text \<open>The directories an Attempt may write to: its Workspace, its bundle, and what the plan's environment names.\<close>

definition may_write :: "SystemdRunSpec \<Rightarrow> string \<Rightarrow> bool" where
  "may_write spec p \<longleftrightarrow> path_is_absolute p
     \<and> (p = sd_workspace_path spec \<or> p = sd_bundle_path spec
        \<or> (\<exists>name \<in> set CONTAINED_WRITABLE. map_of (sd_environment spec) name = Some p))"

lemma writable_path:
  assumes "path \<in> set (writable_paths spec)" and "rmap bind_writable (systemd_path_value path) = Inr arg"
  shows "is_option arg \<and> \<not> loads_credential arg \<and> (\<exists>p. may_write spec p \<and> arg = bind_writable (lossy_text p))"
proof -
  have "path_is_absolute path" "arg = bind_writable (lossy_text path)"
    using assms(2) by (auto simp: rmap_def systemd_path_value_def Let_def split: if_splits elim!: rbind_InrE)
  moreover have "path \<in> set (sd_workspace_path spec # sd_bundle_path spec
       # List.map_filter (map_of (sd_environment spec)) CONTAINED_WRITABLE)"
    using assms(1) set_path_set unfolding writable_paths_def by blast
  then have "path = sd_workspace_path spec \<or> path = sd_bundle_path spec
        \<or> (\<exists>name \<in> set CONTAINED_WRITABLE. map_of (sd_environment spec) name = Some path)"
    by (auto simp: List.map_filter_def)
  ultimately show ?thesis
    unfolding may_write_def by (auto simp: is_option_def loads_credential_def bind_writable_def)
qed


end
