(* ===== verification/Request_Guarantees.thy ===== *)
theory Request_Guarantees
  imports Engine_Inputs Registry_Examples
begin

text \<open>
  What the engine's request checks promise: judging a proposal with its omitted limits filled in or
  left open comes to the same, an accepted working directory cannot leave the Workspace, and the
  canonical form of inputs and credentials is a normal form.
\<close>

section \<open>Proposals and concrete requests\<close>

lemma option_or_pos: "0 < d \<Longrightarrow> 0 < e \<Longrightarrow> option_or x d = 0 \<longleftrightarrow> option_or x e = (0::nat)"
  by (simp add: option_or_def split: option.splits)

lemma concrete_step_fields [simp]:
  "us_id (concrete_step t s) = sp_id s" "us_executable (concrete_step t s) = sp_executable s"
  "us_args (concrete_step t s) = sp_args s" "us_cwd_relative (concrete_step t s) = sp_cwd_relative s"
  "us_env (concrete_step t s) = sp_env s" "us_timeout_ms (concrete_step t s) = option_or (sp_timeout_ms s) t"
  by (simp_all add: concrete_step_def)

lemma steps_loop_concrete:
  assumes "0 < d" and "0 < e"
  shows "request_steps_loop h target profile index seen (map (concrete_step d) steps)
       = request_steps_loop h target profile index seen (map (concrete_step e) steps)"
proof (induction steps arbitrary: index seen)
  case (Cons step steps)
  then show ?case using option_or_pos[OF assms] by (simp only: list.map request_steps_loop.simps concrete_step_fields)
qed simp

lemma header_concrete: "request_header_checks (concrete_request p a b c deps) = request_header_checks (concrete_request p a' b' c' deps')"
  unfolding request_header_checks_def concrete_request_def Let_def by simp

lemma concrete_execution [simp]:
  "u_execution_profile (jr_execution (concrete_request p a b c deps)) = x_execution_profile (jp_execution p)"
  "u_execution_target (jr_execution (concrete_request p a b c deps)) = x_execution_target (jp_execution p)"
  "u_env (jr_execution (concrete_request p a b c deps)) = x_env (jp_execution p)"
  "u_steps (jr_execution (concrete_request p a b c deps)) = map (concrete_step c) (x_steps (jp_execution p))"
  "u_foreign_references (jr_execution (concrete_request p a b c deps)) = x_foreign_references (jp_execution p)"
  "u_timeout_ms (jr_execution (concrete_request p a b c deps)) = option_or (x_timeout_ms (jp_execution p)) a"
  by (simp_all add: concrete_request_def Let_def)

lemma command_concrete:
  assumes "0 < a" "0 < a'" "0 < b" "0 < b'"
  shows "request_command_checks h (jr_execution (concrete_request p a b c deps))
       = request_command_checks h (jr_execution (concrete_request p a' b' c' deps'))"
  using option_or_pos[OF assms(1,2)] option_or_pos[OF assms(3,4)]
  unfolding request_command_checks_def concrete_request_def Let_def
  by (simp only: JobRunRequest.simps UniversalExecutionRequest.simps list.map_disc_iff)

lemma command_checks_timeout: "u_timeout_ms x = 0 \<Longrightarrow> request_command_checks h x \<noteq> Inr u"
  by (simp add: request_command_checks_def)

text \<open>
  C36. A proposal is judged once.  For an operator whose default runtime and output bound are positive,
  checking a proposal before its omitted limits are known and checking the concrete request it
  resolves to give the same verdict, the same error included: the check at admission of a new Job
  never refuses what the check at the door accepted, and never accepts more.
\<close>

theorem proposal_judged_once:
  assumes d: "0 < default_runtime_ms" and m: "0 < max_output_bytes"
  shows "validate_run_request_structure h (resolve_proposal default_runtime_ms max_output_bytes proposal)
       = validate_run_proposal_structure h proposal"
proof -
  let ?t = "option_or (x_timeout_ms (jp_execution proposal)) default_runtime_ms"
  let ?deps = "x_host_dependencies (jp_execution proposal)"
  let ?r = "concrete_request proposal default_runtime_ms max_output_bytes ?t ?deps"
  have r: "resolve_proposal default_runtime_ms max_output_bytes proposal = ?r"
    by (simp add: resolve_proposal_def Let_def)
  have header: "request_header_checks ?r = request_header_checks (concrete_request proposal 1 1 1 [])"
    by (rule header_concrete)
  have command: "request_command_checks h (jr_execution ?r) = request_command_checks h (jr_execution (concrete_request proposal 1 1 1 []))"
    using d m by (intro command_concrete) simp_all
  show ?thesis
  proof (cases "?t = 0")
    case True
    then have "request_command_checks h (jr_execution ?r) \<noteq> Inr ()" by (intro command_checks_timeout) simp
    then obtain e where "request_command_checks h (jr_execution ?r) = Inl e" by (cases "request_command_checks h (jr_execution ?r)") auto
    with command have fails: "request_command_checks h (jr_execution ?r) = Inl e"
      "request_command_checks h (jr_execution (concrete_request proposal 1 1 1 [])) = Inl e" by simp_all
    show ?thesis
      unfolding r validate_run_proposal_structure_def validate_run_request_structure_def Let_def header fails
      by (simp only: rbind_simps)
  next
    case False
    then have steps: "request_steps_loop h target profile 0 [] (map (concrete_step ?t) steps)
        = request_steps_loop h target profile 0 [] (map (concrete_step 1) steps)" for target profile steps
      by (intro steps_loop_concrete) simp_all
    show ?thesis
      unfolding r validate_run_proposal_structure_def validate_run_request_structure_def Let_def header command
        concrete_execution steps ..
  qed
qed

section \<open>Accepted working directories\<close>

abbreviation path_pieces :: "string \<Rightarrow> path_component list" where
  "path_pieces s \<equiv> List.map_filter piece_component (split_on SLASH s)"

lemma split_on_append_sep: "split_on d (s @ d # t) = split_on d s @ split_on d t"
proof (induction s)
  case (Cons c s)
  obtain p ps where "split_on d s = p # ps" by (cases "split_on d s") auto
  with Cons show ?case by simp
qed simp

lemma path_pieces_sep: "path_pieces (s @ SLASH # t) = path_pieces s @ path_pieces t"
  by (simp add: split_on_append_sep map_filter_def)

lemma path_pieces_join:
  assumes "\<not> path_is_absolute p"
  shows "path_pieces (path_join base p) = path_pieces base @ path_pieces p"
proof (cases "ends_with base ''/''")
  case True
  then obtain b where b: "base = b @ [SLASH]" by (auto simp: ends_with_def suffix_def)
  have "path_pieces (b @ SLASH # p) = path_pieces base @ path_pieces p"
    unfolding b by (simp add: path_pieces_sep map_filter_simps)
  then show ?thesis using assms b True by (simp add: path_join_def)
next
  case False
  then show ?thesis using assms by (auto simp: path_join_def path_pieces_sep map_filter_simps)
qed

lemma no_parent_pieces:
  assumes "\<not> has_parent_part path"
  obtains ns where "path_pieces path = map Normal ns"
proof -
  have "\<exists>n. c = Normal n" if member: "c \<in> set (path_pieces path)" for c
  proof -
    obtain q where q: "q \<in> set (split_on SLASH path)" "piece_component q = Some c"
      using member by (auto simp: map_filter_def simp del: piece_component.simps)
    have "q \<noteq> ''..''" using q(1) assms by (auto simp: has_parent_part_def list_ex_iff)
    then show ?thesis using q(2) by (auto split: if_splits)
  qed
  then have "\<exists>ns. path_pieces path = map Normal ns" unfolding ex_map_conv by blast
  then show ?thesis using that by blast
qed

lemma normalize_join_prefix:
  assumes root: "path_is_absolute root" and rel: "\<not> path_is_absolute cwd" and up: "\<not> has_parent_part cwd"
  shows "path_starts_with (normalize_path_text (path_join root cwd)) (normalize_path_text root)"
proof -
  obtain ns where ns: "path_pieces cwd = map Normal ns" using up by (rule no_parent_pieces)
  have abs: "path_is_absolute (path_join root cwd)"
    using root rel by (auto simp: path_join_def path_is_absolute_def starts_with_def prefix_def)
  have "path_components (path_join root cwd) = path_components root @ map Normal ns"
    using path_pieces_join[OF rel, of root] abs root unfolding path_components_def Let_def ns by simp
  then have "normalize_components True (path_components (path_join root cwd))
      = normalize_components True (path_components root) @ map Normal ns"
    by (simp add: normalize_components_def fold_push_Normal rev_map)
  then show ?thesis using abs root by (simp add: path_starts_with_def path_components_normalize)
qed

lemma steps_loop_cwd:
  assumes "request_steps_loop h target profile index seen steps = Inr ()" and "step \<in> set steps"
  shows "\<not> path_is_absolute (us_cwd_relative step) \<and> \<not> has_parent_part (us_cwd_relative step)"
  using assms
proof (induction steps arbitrary: index seen)
  case (Cons s steps)
  from Cons.prems(1) obtain seen' where head: "\<not> path_is_absolute (us_cwd_relative s)" "\<not> has_parent_part (us_cwd_relative s)"
    and rest: "request_steps_loop h target profile (index + 1) seen' steps = Inr ()"
    unfolding request_steps_loop.simps Let_def by (auto split: if_splits)
  show ?case using Cons.IH[OF rest] head Cons.prems(2) by auto
qed simp

text \<open>
  A request that passes the engine's check cannot leave the Workspace lexically: joined to any
  absolute root and normalised, its working directory and that of each of its steps keep the
  normalised root as a prefix.
\<close>

theorem accepted_cwd_inside_root:
  assumes ok: "validate_run_request_structure h request = Inr ()" and root: "path_is_absolute root"
  shows "\<forall>cwd \<in> insert (u_cwd_relative (jr_execution request)) (us_cwd_relative ` set (u_steps (jr_execution request))).
     path_starts_with (normalize_path_text (path_join root cwd)) (normalize_path_text root)"
proof -
  let ?x = "jr_execution request"
  from ok have command: "request_command_checks h ?x = Inr ()"
    and steps: "request_steps_loop h (u_execution_target ?x) (u_execution_profile ?x) 0 [] (u_steps ?x) = Inr ()"
    unfolding validate_run_request_structure_def Let_def by (auto elim!: rbind_InrE)
  have "\<not> path_is_absolute (u_cwd_relative ?x)" "\<not> has_parent_part (u_cwd_relative ?x)"
    using command unfolding request_command_checks_def by (auto split: if_splits)
  then show ?thesis using normalize_join_prefix[OF root] steps_loop_cwd[OF steps] by auto
qed

section \<open>Canonical inputs\<close>

lemma push_normal_components_eq:
  "push_normal_components field acc cs = Inr out \<longleftrightarrow> set cs \<subseteq> range Normal \<and> out = acc @ cs"
  by (induction field acc cs rule: push_normal_components.induct) auto

lemma normal_relative_eq:
  "validate_normal_relative_path val field = Inr text \<longleftrightarrow>
     \<not> contains_nul val \<and> \<not> path_is_absolute val \<and> path_components val \<noteq> [] \<and> set (path_components val) \<subseteq> range Normal
     \<and> text = path_text False (path_components val)"
proof -
  have wf: "list_all wf_component cs" if "set cs \<subseteq> range Normal" "cs = path_components val" for cs
    using that path_components_wf[of _ val] by (auto simp: list_all_iff)
  have none: "path_components [] = []" by (simp add: path_components_def path_is_absolute_def starts_with_def map_filter_simps)
  have empty: "path_text False (path_components val) = [] \<longleftrightarrow> path_components val = []"
    if "set (path_components val) \<subseteq> range Normal"
    using path_components_relative_text[OF wf[OF that refl]] none by (auto simp: path_text_def)
  show ?thesis
    using empty none unfolding validate_normal_relative_path_def
    by (auto simp: push_normal_components_eq rbind_eq_Inr)
qed

lemma set_split_on: "p \<in> set (split_on d s) \<Longrightarrow> set p \<subseteq> set s"
proof (induction s arbitrary: p)
  case (Cons c s)
  obtain q qs where "split_on d s = q # qs" by (cases "split_on d s") auto
  with Cons.IH[of q] Cons.IH[of p] Cons.prems show ?case by (auto split: if_splits)
qed simp

lemma set_join_with: "set (join_with d ss) \<subseteq> set d \<union> \<Union> (set ` set ss)"
  by (induction d ss rule: join_with.induct) auto

lemma component_text_chars:
  assumes "c \<in> set (path_components s)" and "c \<in> range Normal"
  shows "set (component_text c) \<subseteq> set s"
proof -
  have "c \<in> set (path_pieces s)" using assms by (auto simp: path_components_def Let_def split: if_splits)
  then obtain q where "q \<in> set (split_on SLASH s)" "piece_component q = Some c"
    by (auto simp: map_filter_def simp del: piece_component.simps)
  then show ?thesis using set_split_on[of q SLASH s] assms(2) by (auto split: if_splits)
qed

lemma normal_relative_idem:
  assumes "validate_normal_relative_path val field = Inr text"
  shows "validate_normal_relative_path text field' = Inr text"
proof -
  note v = assms[unfolded normal_relative_eq]
  let ?cs = "path_components val"
  have wf: "list_all wf_component ?cs" using v path_components_wf[of _ val] by (auto simp: list_all_iff)
  have cs: "path_components text = ?cs" using v path_components_relative_text[OF wf] by simp
  have abs: "\<not> path_is_absolute text" using v wf by (simp add: path_is_absolute_text)
  have nul: "NUL \<notin> set (component_text c)" if "c \<in> set ?cs" for c
    using component_text_chars[OF that] that v by (auto simp: contains_nul_def)
  have "NUL \<notin> set text"
  proof
    assume "NUL \<in> set text"
    then have "NUL \<in> set ''/'' \<union> \<Union> (set ` set (map component_text ?cs))"
      using v set_join_with[of "''/''" "map component_text ?cs"] by (auto simp: path_text_def)
    then show False using nul by (auto simp: NUL_def)
  qed
  then have "\<not> contains_nul text" by (simp add: contains_nul_def)
  then show ?thesis unfolding normal_relative_eq cs using v abs by simp
qed

definition canon_of :: "InputBindingRequest \<Rightarrow> InputBindingRequest" where
  "canon_of i = \<lparr>ib_authority = ib_authority i,
     ib_relative_object = path_text False (path_components (ib_relative_object i)),
     ib_expected_digest = to_ascii_lowercase (ib_expected_digest i),
     ib_presentation_relative_path = path_text False (path_components (ib_presentation_relative_path i))\<rparr>"

abbreviation input_ok :: "InputBindingRequest \<Rightarrow> bool" where
  "input_ok i \<equiv> is_ok (canonical_input 0 i)"

text \<open>Whether a check passes does not depend on the field name it reports.\<close>

lemma field_irrelevant:
  "validate_input_authority_name val field = Inr () \<longleftrightarrow> validate_input_authority_name val field' = Inr ()"
  "validate_credential_name val field = Inr () \<longleftrightarrow> validate_credential_name val field' = Inr ()"
  "validate_normal_relative_path val field = Inr text \<longleftrightarrow> validate_normal_relative_path val field' = Inr text"
  "validate_sha256_digest val field = Inr () \<longleftrightarrow> validate_sha256_digest val field' = Inr ()"
  by (simp_all add: validate_input_authority_name_def validate_credential_name_def normal_relative_eq
      validate_sha256_digest_def split: option.splits)

lemma rbind_unit: "rbind (m :: 'e + unit) f = Inr y \<longleftrightarrow> m = Inr () \<and> f () = Inr y"
  by (cases m) auto

lemma canonical_input_Inr:
  "canonical_input index i = Inr c \<longleftrightarrow>
     validate_input_authority_name (ib_authority i) [] = Inr ()
     \<and> validate_normal_relative_path (ib_relative_object i) [] = Inr (ib_relative_object c)
     \<and> validate_normal_relative_path (ib_presentation_relative_path i) [] = Inr (ib_presentation_relative_path c)
     \<and> validate_sha256_digest (ib_expected_digest i) [] = Inr ()
     \<and> c = canon_of i"
proof -
  let ?f = "input_field ''inputs'' index"
  have "canonical_input index i = Inr c \<longleftrightarrow>
     validate_input_authority_name (ib_authority i) (?f ''.authority'') = Inr ()
     \<and> (\<exists>object. validate_normal_relative_path (ib_relative_object i) (?f ''.relativeObject'') = Inr object
     \<and> (\<exists>presentation. validate_normal_relative_path (ib_presentation_relative_path i) (?f ''.presentationRelativePath'') = Inr presentation
     \<and> validate_sha256_digest (ib_expected_digest i) (?f ''.expectedDigest'') = Inr ()
     \<and> c = \<lparr>ib_authority = ib_authority i, ib_relative_object = object,
           ib_expected_digest = to_ascii_lowercase (ib_expected_digest i), ib_presentation_relative_path = presentation\<rparr>))"
    unfolding canonical_input_def Let_def rbind_unit rbind_eq_Inr sum.inject by (simp only: eq_commute[of c])
  then show ?thesis
    unfolding field_irrelevant(1)[of _ "?f ''.authority''" "[]"] field_irrelevant(3)[of _ "?f ''.relativeObject''" _ "[]"]
      field_irrelevant(3)[of _ "?f ''.presentationRelativePath''" _ "[]"] field_irrelevant(4)[of _ "?f ''.expectedDigest''" "[]"]
    by (auto simp: canon_of_def normal_relative_eq)
qed

lemma canonical_input_index: "canonical_input index i = Inr c \<longleftrightarrow> canonical_input 0 i = Inr c"
  unfolding canonical_input_Inr ..

lemma canonical_input_ok: "canonical_input index i = Inr c \<longleftrightarrow> input_ok i \<and> c = canon_of i"
proof -
  have "c = canon_of i" if "canonical_input 0 i = Inr c" for c using that unfolding canonical_input_Inr by blast
  then show ?thesis unfolding canonical_input_index[of index] by (cases "canonical_input 0 i") auto
qed

lemma lowercase_hexdigit:
  "is_ascii_hexdigit c \<Longrightarrow> is_ascii_hexdigit (if is_ascii_uppercase c then char_of (byte c + 32) else c)"
  by (auto simp: is_ascii_hexdigit_def is_ascii_uppercase_def is_ascii_digit_def less_eq_char_def of_char_of)

lemma lowercase_digest:
  assumes "validate_sha256_digest d field = Inr ()"
  shows "validate_sha256_digest (to_ascii_lowercase d) field' = Inr ()"
proof -
  obtain hex where d: "d = ''sha256:'' @ hex" and hex: "length hex = 64" "list_all is_ascii_hexdigit hex"
    using assms by (auto simp: validate_sha256_digest_def strip_prefix_def prefix_def split: if_splits option.splits)
  have "to_ascii_lowercase d = ''sha256:'' @ to_ascii_lowercase hex"
    unfolding d to_ascii_lowercase_def map_append by (simp add: is_ascii_uppercase_def less_eq_char_def)
  moreover have "length (to_ascii_lowercase hex) = 64" using hex(1) by (simp add: to_ascii_lowercase_def)
  moreover have "list_all is_ascii_hexdigit (to_ascii_lowercase hex)"
    using hex(2) unfolding list_all_iff to_ascii_lowercase_def set_map by (blast intro: lowercase_hexdigit)
  ultimately show ?thesis by (simp add: validate_sha256_digest_def strip_prefix_def)
qed

lemma canon_of_ok:
  assumes "input_ok i"
  shows "input_ok (canon_of i)" and "canon_of (canon_of i) = canon_of i"
proof -
  have ok: "canonical_input 0 i = Inr (canon_of i)" using assms by (simp only: canonical_input_ok)
  note v = ok[unfolded canonical_input_Inr]
  let ?c = "canon_of i"
  have parts: "ib_authority ?c = ib_authority i" "ib_expected_digest ?c = to_ascii_lowercase (ib_expected_digest i)"
    by (simp_all add: canon_of_def)
  have digest: "validate_sha256_digest (ib_expected_digest ?c) [] = Inr ()"
    using v unfolding parts by (blast intro: lowercase_digest)
  have object: "validate_normal_relative_path (ib_relative_object ?c) [] = Inr (ib_relative_object ?c)"
    using v by (blast intro: normal_relative_idem)
  have shown: "validate_normal_relative_path (ib_presentation_relative_path ?c) [] = Inr (ib_presentation_relative_path ?c)"
    using v by (blast intro: normal_relative_idem)
  have again: "canon_of ?c = ?c"
    using object[unfolded normal_relative_eq] shown[unfolded normal_relative_eq]
    unfolding canon_of_def[of ?c] parts to_ascii_lowercase_idem
    by (intro InputBindingRequest.equality; (simp only: InputBindingRequest.simps parts)?) simp
  have "canonical_input 0 ?c = Inr ?c" unfolding canonical_input_Inr
    using v digest object shown parts(1) again by simp
  then show "input_ok (canon_of i)" "canon_of (canon_of i) = canon_of i"
    by (metis canonical_input_ok)+
qed

lemma overlap_refl: "paths_overlap p p"
  by (simp add: paths_overlap_def)

lemma overlap_sym: "paths_overlap p q \<longleftrightarrow> paths_overlap q p"
  by (auto simp: paths_overlap_def)

abbreviation disjoint_inputs :: "InputBindingRequest list \<Rightarrow> bool" where
  "disjoint_inputs cs \<equiv> sorted_wrt (\<lambda>i j. \<not> paths_overlap (ib_presentation_relative_path i) (ib_presentation_relative_path j)) cs"

lemma sorted_wrt_symmetric:
  assumes "\<And>x y. R x y \<Longrightarrow> R y x" and "\<And>x. \<not> R x x"
  shows "sorted_wrt R xs \<longleftrightarrow> distinct xs \<and> (\<forall>x \<in> set xs. \<forall>y \<in> set xs. x \<noteq> y \<longrightarrow> R x y)"
proof (induction xs)
  case (Cons a xs)
  have "(\<forall>y \<in> set xs. R a y) \<longleftrightarrow> a \<notin> set xs \<and> (\<forall>y \<in> set xs. a \<noteq> y \<longrightarrow> R a y \<and> R y a)"
    using assms by metis
  then show ?case using Cons by auto
qed simp

lemma disjoint_inputs_set:
  "disjoint_inputs cs \<longleftrightarrow> distinct cs
     \<and> (\<forall>i \<in> set cs. \<forall>j \<in> set cs. i \<noteq> j \<longrightarrow> \<not> paths_overlap (ib_presentation_relative_path i) (ib_presentation_relative_path j))"
  by (rule sorted_wrt_symmetric) (use overlap_refl overlap_sym in blast)+

lemma disjoint_inputs_mset: "mset cs = mset cs' \<Longrightarrow> disjoint_inputs cs = disjoint_inputs cs'"
  unfolding disjoint_inputs_set using mset_eq_setD mset_eq_imp_distinct_iff by metis

lemma inputs_loop_eq:
  "canonical_inputs_loop index seen acc inputs = Inr cs \<longleftrightarrow>
     list_all input_ok inputs \<and> cs = acc @ map canon_of inputs \<and> disjoint_inputs (map canon_of inputs)
     \<and> (\<forall>i \<in> set inputs. \<forall>p \<in> set seen. \<not> paths_overlap (ib_presentation_relative_path (canon_of i)) p)"
proof (induction inputs arbitrary: index seen acc)
  case (Cons i inputs)
  let ?p = "\<lambda>i. ib_presentation_relative_path (canon_of i)"
  have step: "canonical_inputs_loop index seen acc (i # inputs) = Inr cs \<longleftrightarrow> input_ok i
     \<and> (\<forall>p \<in> set seen. \<not> paths_overlap (?p i) p)
     \<and> canonical_inputs_loop (index + 1) (seen @ [?p i]) (acc @ [canon_of i]) inputs = Inr cs"
    unfolding canonical_inputs_loop.simps rbind_eq_Inr canonical_input_ok Let_def
    by (simp add: list_ex_iff)
  have sym: "(\<forall>j \<in> set inputs. \<not> paths_overlap (?p j) (?p i)) \<longleftrightarrow> (\<forall>j \<in> set inputs. \<not> paths_overlap (?p i) (?p j))"
    using overlap_sym by metis
  show ?case unfolding step Cons.IH by (simp add: ball_Un) (use sym in blast)
qed auto

lemma canonical_inputs_eq:
  "canonical_input_binding_requests inputs = Inr cs \<longleftrightarrow>
     inputs \<noteq> [] \<and> list_all input_ok inputs \<and> disjoint_inputs (map canon_of inputs)
     \<and> cs = sort_key input_sort_key (map canon_of inputs)"
  by (auto simp: canonical_input_binding_requests_def rbind_eq_Inr inputs_loop_eq)

lemma inj_input_sort_key: "inj input_sort_key"
  by (auto intro!: injI simp: input_sort_key_def)

text \<open>
  C37. The canonical list of immutable inputs is a normal form: it does not depend on the order in which
  the inputs are listed, making it canonical again changes nothing, its presentation paths are sorted
  and pairwise neither equal nor nested, and a plan that records canonical inputs gives them back.
\<close>

theorem canonical_inputs_normal_form:
  assumes ok: "canonical_input_binding_requests inputs = Inr cs"
  shows "canonical_input_binding_requests cs = Inr cs
    \<and> (mset inputs' = mset inputs \<longrightarrow> canonical_input_binding_requests inputs' = Inr cs)
    \<and> sorted_wrt (\<lambda>i j. ib_presentation_relative_path i < ib_presentation_relative_path j
           \<and> \<not> paths_overlap (ib_presentation_relative_path i) (ib_presentation_relative_path j)) cs
    \<and> (map (\<lambda>e. (ei_authority e, ei_relative_object e, ei_digest e, ei_presentation_relative_path e)) (p_effective_inputs plan)
           = map (\<lambda>c. (ib_authority c, ib_relative_object c, ib_expected_digest c, ib_presentation_relative_path c)) cs
         \<longrightarrow> effective_input_requests_from_plan plan = Inr cs)"
proof -
  let ?key = "ib_presentation_relative_path"
  have inputs: "inputs \<noteq> []" "list_all input_ok inputs" and apart: "disjoint_inputs (map canon_of inputs)"
    and cs: "cs = sort_key input_sort_key (map canon_of inputs)"
    using ok unfolding canonical_inputs_eq by blast+
  have members: "set cs = canon_of ` set inputs" unfolding cs by simp
  have same: "map canon_of cs = cs" using members inputs(2) by (auto simp: list_all_iff canon_of_ok intro!: map_idI)
  have apart_cs: "disjoint_inputs cs" using apart disjoint_inputs_mset[of cs "map canon_of inputs"] unfolding cs by simp
  have sorted: "sort_key input_sort_key cs = cs"
    unfolding cs by (rule sort_key_mset_cong[OF _ inj_input_sort_key]) simp
  have again: "canonical_input_binding_requests cs = Inr cs"
    unfolding canonical_inputs_eq same sorted
    using apart_cs inputs members by (auto simp: list_all_iff canon_of_ok)
  have order_free: "canonical_input_binding_requests inputs' = Inr cs" if "mset inputs' = mset inputs"
  proof -
    have m: "mset (map canon_of inputs') = mset (map canon_of inputs)" using that by simp
    show ?thesis
      unfolding canonical_inputs_eq disjoint_inputs_mset[OF m] cs sort_key_mset_cong[OF m inj_input_sort_key]
      using inputs apart mset_eq_setD[OF that] by (auto simp: list_all_iff)
  qed
  have "sorted_wrt (\<lambda>i j. input_sort_key i \<le> input_sort_key j) cs" unfolding cs
    by (metis sorted_map sorted_sort_key)
  then have "sorted_wrt (\<lambda>i j. input_sort_key i \<le> input_sort_key j \<and> \<not> paths_overlap (?key i) (?key j)) cs"
    using apart_cs by (simp add: sorted_wrt_iff_nth_less)
  then have "sorted_wrt (\<lambda>i j. ?key i < ?key j \<and> \<not> paths_overlap (?key i) (?key j)) cs"
    by (rule sorted_wrt_mono_rel[rotated]) (use overlap_refl in \<open>auto simp: input_sort_key_def order_le_less\<close>)
  moreover have "effective_input_requests_from_plan plan = Inr cs"
    if m: "map (\<lambda>e. (ei_authority e, ei_relative_object e, ei_digest e, ei_presentation_relative_path e)) (p_effective_inputs plan)
         = map (\<lambda>c. (ib_authority c, ib_relative_object c, ib_expected_digest c, ?key c)) cs"
  proof -
    let ?mk = "\<lambda>(a, r, d, p). \<lparr>ib_authority = a, ib_relative_object = r, ib_expected_digest = d, ib_presentation_relative_path = p\<rparr>"
    have "map ?mk (map (\<lambda>c. (ib_authority c, ib_relative_object c, ib_expected_digest c, ?key c)) cs) = cs"
      by (auto intro!: map_idI)
    with arg_cong[OF m, of "map ?mk"] show ?thesis
      using again by (simp add: effective_input_requests_from_plan_def comp_def)
  qed
  ultimately show ?thesis using again order_free by blast
qed

section \<open>Credentials\<close>

lemma credentials_loop_eq:
  "canonical_credentials_loop index seen acc credentials = Inr cs \<longleftrightarrow>
     (\<forall>c \<in> set credentials. validate_input_authority_name (cb_authority c) [] = Inr () \<and> validate_credential_name (cb_credential c) [] = Inr ())
     \<and> distinct (map cb_credential credentials) \<and> cb_credential ` set credentials \<inter> set seen = {} \<and> cs = acc @ credentials"
proof (induction credentials arbitrary: index seen acc)
  case (Cons c credentials)
  let ?f = "input_field ''credentials'' index"
  have "canonical_credentials_loop index seen acc (c # credentials) = Inr cs \<longleftrightarrow>
     validate_input_authority_name (cb_authority c) (?f ''.authority'') = Inr ()
     \<and> validate_credential_name (cb_credential c) (?f ''.credential'') = Inr () \<and> cb_credential c \<notin> set seen
     \<and> canonical_credentials_loop (index + 1) (seen @ [cb_credential c]) (acc @ [c]) credentials = Inr cs"
    unfolding canonical_credentials_loop.simps Let_def rbind_unit by simp
  then show ?case
    unfolding Cons.IH field_irrelevant(1)[of _ "?f ''.authority''" "[]"] field_irrelevant(2)[of _ "?f ''.credential''" "[]"]
    by auto
qed auto

lemma inj_credential_sort_key: "inj credential_sort_key"
  by (auto intro!: injI simp: credential_sort_key_def)

lemma canonical_credentials_eq:
  "canonical_credential_binding_requests credentials = Inr cs \<longleftrightarrow> credentials \<noteq> []
     \<and> (\<forall>c \<in> set credentials. validate_input_authority_name (cb_authority c) [] = Inr () \<and> validate_credential_name (cb_credential c) [] = Inr ())
     \<and> distinct (map cb_credential credentials) \<and> cs = sort_key credential_sort_key credentials"
  by (auto simp: canonical_credential_binding_requests_def rbind_eq_Inr credentials_loop_eq)

lemma credential_name_component:
  assumes "validate_credential_name name field = Inr ()"
  shows "path_components name = [Normal name]"
proof -
  have name: "name \<noteq> []" "list_all is_name_byte name" "name \<noteq> ''.''" "name \<noteq> ''..''"
    using assms by (auto simp: validate_credential_name_def split: if_splits)
  have "SLASH \<notin> set name"
  proof
    assume "SLASH \<in> set name"
    then have "is_name_byte SLASH" using name(2) by (auto simp: list_all_iff)
    then show False by (simp add: is_name_byte_def is_ascii_alphanumeric_def is_ascii_alphabetic_def is_ascii_digit_def
        is_ascii_uppercase_def is_ascii_lowercase_def less_eq_char_def)
  qed
  moreover have "\<not> path_is_absolute name" using \<open>SLASH \<notin> set name\<close> by (auto simp: path_is_absolute_def starts_with_def prefix_def)
  ultimately show ?thesis using name by (simp add: path_components_def split_on_no_sep map_filter_simps)
qed

text \<open>
  Credential names are file names.  An accepted credential list is sorted, does not depend on the
  order of the request, and every name in it is a single normal path component, distinct from the
  others: a credential is written to its own file directly beneath the delivery directory.
\<close>

theorem canonical_credentials_are_files:
  assumes ok: "canonical_credential_binding_requests credentials = Inr cs"
  shows "mset cs = mset credentials \<and> canonical_credential_binding_requests cs = Inr cs
    \<and> (\<forall>credentials'. mset credentials' = mset credentials \<longrightarrow> canonical_credential_binding_requests credentials' = Inr cs)
    \<and> distinct (map cb_credential cs) \<and> (\<forall>c \<in> set cs. path_components (cb_credential c) = [Normal (cb_credential c)])"
proof -
  have c: "credentials \<noteq> []" "\<And>c. c \<in> set credentials \<Longrightarrow> validate_input_authority_name (cb_authority c) [] = Inr () \<and> validate_credential_name (cb_credential c) [] = Inr ()"
    "distinct (map cb_credential credentials)" and cs: "cs = sort_key credential_sort_key credentials"
    using ok unfolding canonical_credentials_eq by blast+
  have m: "mset cs = mset credentials" unfolding cs by simp
  have free: "canonical_credential_binding_requests credentials' = Inr cs" if "mset credentials' = mset credentials" for credentials'
  proof -
    have "mset (map cb_credential credentials') = mset (map cb_credential credentials)" using that by simp
    then have "distinct (map cb_credential credentials')" using c(3) mset_eq_imp_distinct_iff by blast
    then show ?thesis
      unfolding canonical_credentials_eq cs sort_key_mset_cong[OF that inj_credential_sort_key]
      using c mset_eq_setD[OF that] by auto
  qed
  have "distinct (map cb_credential cs)" using free[OF m] unfolding canonical_credentials_eq by blast
  moreover have "path_components (cb_credential x) = [Normal (cb_credential x)]" if "x \<in> set cs" for x
    using that c(2)[of x] mset_eq_setD[OF m] by (blast intro: credential_name_component)
  ultimately show ?thesis using m free[OF m] free by blast
qed

end
