(* ===== verification/Engine_Examples.thy ===== *)
theory Engine_Examples
  imports Engine_Operations Registry_Examples "HOL-Library.Code_Target_Numeral"
begin

text \<open>
  A concrete Runtime for the scenario of \<open>Registry_Examples\<close>: a Linux host with a Runner, on which every
  file operation succeeds, \<open>systemd-run\<close> starts the unit, no evidence file ever appears, and no other
  writer is at work.
\<close>

definition engine_host :: host where
  "engine_host = example_host\<lparr>h_plan_parse := (\<lambda>_. Inr ex_plan),
     h_json_parse := (\<lambda>_. Inr (workspace_snapshot ex_plan None None None))\<rparr>"

definition ex_executable :: path_kind where
  "ex_executable = \<lparr>pk_symlink = False, pk_file = True, pk_dir = False, pk_executable = True, pk_len = 1,
     pk_uid = 0, pk_mode = 493\<rparr>"

definition ex_out :: command_output where
  "ex_out = \<lparr>out_success = True, out_stdout = [], out_stderr = []\<rparr>"

definition ex_refusal :: RuntimeError where
  "ex_refusal = error_new ToolUnavailable [] None False"

definition ex_io :: io where
  "ex_io = \<lparr>io_sql = (\<lambda>t. ex_env (''t'' @ replicate t (CHR ''x''))), io_others = (\<lambda>_ db. db), io_clock = (\<lambda>_. Inr 9),
     io_polls = (\<lambda>_. 0), io_exists = (\<lambda>_ _. False), io_is_file = (\<lambda>_ _. False), io_read = (\<lambda>_ _. Inl []),
     io_read_to_string = (\<lambda>_ _. Inl (False, [])), io_len = (\<lambda>_ _. Inr 0), io_metadata_len = (\<lambda>_ _. Inr 0),
     io_modified_ms = (\<lambda>_ _. Inr 0), io_open = (\<lambda>_ _. Inr ()), io_seek = (\<lambda>_ _ _. Inr ()),
     io_read_at = (\<lambda>_ _ _ _. Inr []), io_read_to_end_at = (\<lambda>_ _ _ _. Inr []),
     io_symlink_metadata = (\<lambda>_ _. Inr ex_executable), io_sha256_file = (\<lambda>_ _. Inr ex_digest),
     io_write_atomic = (\<lambda>_ _ _. Inr ()), io_create_new = (\<lambda>_ _. Inr ()), io_write_all = (\<lambda>_ _ _. Inr ()),
     io_sync_all = (\<lambda>_ _. Inr ()), io_sync_directory = (\<lambda>_ _. Inr ()), io_create_dir = (\<lambda>_ _. Inr ()),
     io_create_dir_all = (\<lambda>_ _. Inr ()), io_set_permissions = (\<lambda>_ _ _. Inr ()), io_rename = (\<lambda>_ _ _ _. Inr ()),
     io_remove_dir_all = (\<lambda>_ _. Inr ()), io_read_dir = (\<lambda>_ _. Inr []), io_remove_file = (\<lambda>_ _. Inr ()),
     io_age_ms = (\<lambda>_ _. None), io_lock_lease = (\<lambda>_ _. True), io_is_dir = (\<lambda>_ _. True), io_canonicalize = (\<lambda>_ p. Inr p),
     io_uuid = (\<lambda>_. ''u''), io_environment = (\<lambda>_. []), io_deadline_in_range = (\<lambda>_ _. True),
     io_validate_windows = (\<lambda>_. Inr ()), io_systemctl_show = (\<lambda>_ _. Inr ex_out), io_systemd_run = (\<lambda>_ _. Inr ex_out),
     io_stop_unit = (\<lambda>_ _. Inr ex_out), io_process_identity = (\<lambda>_ _. None), io_boot_id = (\<lambda>_. Inr ''boot''),
     io_launcher_owner = (\<lambda>_ _ _ _. Inl ex_refusal), io_terminate_launcher = (\<lambda>_ _ _ _ _. Inl ex_refusal),
     io_spawn_windows = (\<lambda>_ _. Inl ex_refusal), io_verify_broker = (\<lambda>_ _. Inr ()), io_visible_path = (\<lambda>_ _ p. Inr p),
     io_open_receipt = (\<lambda>_ _. False), io_read_receipt = (\<lambda>_ _. None),
     io_lifecycle_lock = (\<lambda>_. True), io_fence = (\<lambda>_. FenceShared), io_metadata = (\<lambda>_ _. Inr ex_executable),
     io_git_output = (\<lambda>_ _ _. Inr ''/w/.git''), io_source_state_digest = (\<lambda>_ _. Inr ex_digest),
     io_windows_snapshot = (\<lambda>_ _. Inl ex_refusal), io_broker_executable_digest = (\<lambda>_. Inl ex_refusal),
     io_open_beneath = (\<lambda>_ _ _. Inr ()), io_copy = (\<lambda>_ _ _ _. Inr ()), io_try_lock = (\<lambda>_ _. Inr ()),
     io_read_link = (\<lambda>_ _. Inl []), io_symlink = (\<lambda>_ _ _. Inr ()), io_create_private_dir = (\<lambda>_ _. Inr ())\<rparr>"

definition ex_codec :: evidence_codec where
  "ex_codec = \<lparr>ec_result_parse = (\<lambda>_. Inl []), ec_progress_parse = (\<lambda>_. Inl []), ec_control_parse = (\<lambda>_. Inl []),
     ec_runner_start_parse = (\<lambda>_. Inl []), ec_windows_start_parse = (\<lambda>_. Inl []), ec_launcher_start_parse = (\<lambda>_. Inl []),
     ec_launcher_start_print = (\<lambda>_. []), ec_control_print = (\<lambda>_. []), ec_terminal_print = (\<lambda>_. []),
     ec_request_print = (\<lambda>_. []), ec_manifest_print = (\<lambda>_. []), ec_credential_entries_print = (\<lambda>_. []),
     ec_cancel_print = (\<lambda>_ _ _ _. []), ec_debug_text = (\<lambda>_. []),
     ec_workspace_record_parse = (\<lambda>_. Inl []), ec_closed_record_parse = (\<lambda>_. Inl []), ec_debug_provider = (\<lambda>_. [])\<rparr>"

definition ex_rt :: runtime where
  "ex_rt = \<lparr>rt_host = engine_host, rt_io = ex_io, rt_codec = ex_codec, rt_on_linux = True, rt_startup_grace_ms = 10,
     rt_windows = None, rt_store_root = ''/s'', rt_runner_path = Some ''/bin/runner'',
     rt_registry = ex_cfg, rt_workspace_root = None, rt_allowed_executable_roots = [''/bin''], rt_default_runtime_ms = 1000,
     rt_max_runtime_ms = 1000, rt_max_output_bytes = 4096, rt_execution_path = ''/bin'', rt_execution_home = ''/home'',
     rt_effective_uid = 0, rt_input_authorities = [], rt_credential_authorities = []\<rparr>"

section \<open>The databases of this Runtime\<close>

definition en_submit :: "AdmissionOutcome result \<times> registry" where
  "en_submit = submit_preallocated engine_host (ex_env ''a'') ex_cfg (Inr 5) FenceShared empty_registry
     ex_request ex_ids"

definition en_admitted :: registry where
  "en_admitted = snd en_submit"

definition en_ready :: registry where
  "en_ready = snd (mark_bundle_ready engine_host (ex_env ''b'') en_admitted ''attempt-1'' 0 ex_digest 6)"

lemma engine_host_limits: "h_page_size engine_host = 4096" "h_arg_max engine_host = 2097152"
  by (simp_all add: engine_host_def example_host_def)

lemma en_request_valid: "validate_submit engine_host ex_request = Inr ()"
proof -
  have "submit_inputs_check engine_host ex_plan = Inr ()" by code_simp
  then show ?thesis
    unfolding validate_submit_def using ex_identity_checks ex_limit_checks[OF engine_host_limits] ex_other_checks(1-4)
    by (simp add: ex_request_def)
qed

lemma en_submit_code [code]:
  "en_submit = (case prepare_admission engine_host ex_cfg ex_request ex_ids 5 of
     Inl e \<Rightarrow> (Inl e, empty_registry)
   | Inr pa \<Rightarrow> in_transaction (ex_env ''a'') empty_registry
       (submit_tx engine_host (ex_env ''a'') ex_cfg FenceShared ex_request pa) (\<lambda>now y. Inr (fst y))
       (\<lambda>context y autocommit error now.
          if snd y then reconcile_admission_commit_failure (ex_env ''a'') ex_request
                 (j_operation_digest (pa_job pa)) context autocommit error now
          else Inl (from_sql error context)))"
  unfolding en_submit_def submit_preallocated_def en_request_valid
  by (simp add: now_ms_def begin_admission_def ex_env_def[of "''a''", THEN arg_cong, of te_begin]
      split: sum.split)

lemma en_admitted_code [code]: "en_admitted = ex_start"
  by code_simp

lemma en_ready_code [code]:
  "en_ready = ex_start\<lparr>
     attempts := [ex_attempt\<lparr>a_bundle_digest := Some ex_digest, a_row_version := 1\<rparr>],
     job_events := job_events ex_start @
       [ex_event ''b'' 4 ''BUNDLE_READY'' ''SYSTEM_OBSERVED'' (Some Accepted) (Some Accepted) ''BUNDLE_COMMITTED'' 6]\<rparr>"
  by code_simp

definition en_failed :: registry where
  "en_failed = snd (commit_terminal engine_host (ex_env ''c'') en_ready (ex_terminal Failed 1))"

lemma en_failed_code [code]:
  "en_failed = en_ready\<lparr>jobs := [ex_job\<lparr>j_resolution := Some ResFailed, j_current_attempt_id := None, j_row_version := 1\<rparr>],
     attempts := map (\<lambda>a. a\<lparr>a_state := Failed, a_result_digest := Some ex_digest, a_exit_code := Some 1,
       a_finished_at_ms := Some 8, a_row_version := 2\<rparr>) (attempts en_ready),
     reservations := map (\<lambda>r. r\<lparr>r_state := Released, r_released_at_ms := Some 8, r_release_reason := Some ''EXIT'',
       r_state_observed_at_ms := 8\<rparr>) (reservations en_ready),
     job_events := job_events en_ready @
       [ex_event ''c'' 5 ''PROCESS_EXITED'' ''SYSTEM_OBSERVED'' (Some Accepted) (Some Failed) ''EXIT'' 8,
        ex_event ''ci'' 6 ''JOB_TERMINAL'' ''SYSTEM_DERIVED'' (Some Accepted) (Some Failed) ''EXIT'' 8]\<rparr>"
  by code_simp

text \<open>The Runtime before its first call; with another writer's verdict in the database; without a Runner.\<close>

definition en_start :: engine_state where
  "en_start = \<lparr>es_tick = 0, es_db = en_ready, es_log = []\<rparr>"

definition en_late :: engine_state where
  "en_late = \<lparr>es_tick = 0, es_db = en_failed, es_log = []\<rparr>"

text \<open>A Runtime that cannot reach systemd any more.\<close>

definition ex_stalled :: runtime where
  "ex_stalled = ex_rt\<lparr>rt_io := ex_io\<lparr>io_systemd_run := (\<lambda>_ _. Inl ''unavailable''),
     io_stop_unit := (\<lambda>_ _. Inl ''unavailable'')\<rparr>\<rparr>"

definition ex_no_runner :: runtime where
  "ex_no_runner = ex_rt\<lparr>rt_runner_path := None\<rparr>"

end
