(* ===== verification/Engine_Witnesses.thy ===== *)
theory Engine_Witnesses
  imports Engine_Guarantees Progress_Guarantees Launch_Guarantees Request_Guarantees Output_Guarantees
    Engine_Examples Registry_Witnesses
begin

text \<open>
  The properties of the engine applied to concrete Runtimes, requests, files and command lines.
\<close>

section \<open>Calls of the engine\<close>

lemma en_start_sel: "es_log en_start = []" "es_db en_start = en_ready"
  by (simp_all add: en_start_def)

lemma ex_rt_sel: "rt_host ex_rt = engine_host" "rt_io ex_rt = ex_io" "rt_registry ex_rt = ex_cfg"
  by (simp_all add: ex_rt_def)

lemma ex_rt_alone: "others_run ex_rt (rt_registry ex_rt)"
  by (simp add: others_run_def ex_rt_def ex_io_def registry_run_def)

lemma ex_rt_stays: "start_evidence_stays ex_rt"
  by (simp add: start_evidence_stays_def ex_rt_def ex_io_def)

lemma en_reach:
  "reachable_registry (rt_host ex_rt) (rt_registry ex_rt) (es_db en_start)" "reachable_registry (rt_host ex_rt) (rt_registry ex_rt) (es_db en_late)"
proof -
  have "reachable_registry engine_host ex_cfg empty_registry" unfolding reachable_registry_def by (rule reach_init) simp
  then have "reachable_registry engine_host ex_cfg en_admitted"
    unfolding reachable_registry_def en_admitted_def en_submit_def by (rule reach_step) (rule rs_submit)
  then have ready: "reachable_registry engine_host ex_cfg en_ready"
    unfolding reachable_registry_def en_ready_def by (rule reach_step) (rule rs_bundle_ready)
  then have "reachable_registry engine_host ex_cfg en_failed"
    unfolding reachable_registry_def en_failed_def by (rule reach_step) (rule rs_terminal)
  with ready show "reachable_registry (rt_host ex_rt) (rt_registry ex_rt) (es_db en_start)" "reachable_registry (rt_host ex_rt) (rt_registry ex_rt) (es_db en_late)"
    by (simp_all add: ex_rt_sel en_start_sel en_late_def)
qed

definition ex_calls :: "engine_call list" where
  "ex_calls = [DispatchNewJob ''job-1'', ReconcileJob ''job-1'',
     CancelJob 3 \<lparr>cr_schema_version = RUNTIME_SCHEMA_VERSION, cr_job_id = ''job-1''\<rparr>, ReconcileMaintenance 8]"

theorem engine_refines_registry_witness:
  "registry_run engine_host ex_cfg en_ready (es_db (run_calls ex_rt ex_calls en_start))"
  using engine_refines_registry[OF ex_rt_alone en_reach(1) en_start_sel(1), of ex_calls] unfolding ex_rt_sel en_start_sel .

text \<open>The launch and the stop fail, and the dispatch is asked for twice.\<close>

definition ex_stalled_calls :: "engine_call list" where
  "ex_stalled_calls = [DispatchNewJob ''job-1'', DispatchNewJob ''job-1'',
     CancelJob 3 \<lparr>cr_schema_version = RUNTIME_SCHEMA_VERSION, cr_job_id = ''job-1''\<rparr>]"

lemma ex_stalled_log:
  "map fst (es_log (run_calls ex_stalled ex_stalled_calls en_start)) = [LaunchUnit ''attempt-1'', StopUnit ''attempt-1'']"
  by code_simp

lemma ex_stalled_alone: "others_run ex_stalled (rt_registry ex_stalled)"
  by (simp add: others_run_def ex_stalled_def ex_rt_def ex_io_def registry_run_def)

lemma ex_stalled_reach: "reachable_registry (rt_host ex_stalled) (rt_registry ex_stalled) (es_db en_start)"
  using en_reach(1) by (simp add: ex_stalled_def)

theorem launched_at_most_once_witness:
  "LaunchUnit ''attempt-1'' \<in> fst ` set (es_log (run_calls ex_stalled ex_stalled_calls en_start))
   \<and> launch_count (es_log (run_calls ex_stalled ex_stalled_calls en_start)) ''attempt-1'' \<le> 1"
proof -
  have "LaunchUnit ''attempt-1'' \<in> set (map fst (es_log (run_calls ex_stalled ex_stalled_calls en_start)))"
    unfolding ex_stalled_log by simp
  then show ?thesis
    using launched_at_most_once[OF ex_stalled_alone ex_stalled_reach en_start_sel(1), of ex_stalled_calls "''attempt-1''"]
    by simp
qed

theorem stops_have_durable_reason_witness:
  "\<exists>db a j. (StopUnit ''attempt-1'', db) \<in> set (es_log (run_calls ex_stalled ex_stalled_calls en_start))
     \<and> a \<in> set (attempts db) \<and> j \<in> set (jobs db) \<and> a_attempt_id a = ''attempt-1'' \<and> a_job_id a = j_job_id j
     \<and> j_desired_state j = DesiredCancelled"
proof -
  have "StopUnit ''attempt-1'' \<in> set (map fst (es_log (run_calls ex_stalled ex_stalled_calls en_start)))"
    unfolding ex_stalled_log by simp
  then obtain db where db: "(StopUnit ''attempt-1'', db) \<in> set (es_log (run_calls ex_stalled ex_stalled_calls en_start))" by force
  from stops_have_durable_reason[OF ex_stalled_alone ex_stalled_reach en_start_sel(1) db, of "''attempt-1''"] db
  show ?thesis by blast
qed


theorem maintenance_report_adds_up_witness:
  "\<exists>report t. reconcile_maintenance_batch ex_no_runner 8 en_start = (Inr report, t) \<and> rr_failed report = 1
     \<and> length (rr_failures report) = 1 \<and> rr_inspected report \<le> 8"
proof -
  have "case fst (reconcile_maintenance_batch ex_no_runner 8 en_start) of Inl _ \<Rightarrow> False | Inr r \<Rightarrow> rr_failed r = 1" by code_simp
  then obtain report t where run: "reconcile_maintenance_batch ex_no_runner 8 en_start = (Inr report, t)" "rr_failed report = 1"
    by (cases "reconcile_maintenance_batch ex_no_runner 8 en_start") (simp split: sum.splits)
  with maintenance_report_adds_up[OF run(1)] show ?thesis by (intro exI[of _ report] exI[of _ t]) simp
qed

theorem runner_result_settles_witness:
  "\<exists>t j a r. reconcile_runner_result ex_rt (AttemptRecord.truncate ex_attempt) en_late = (Inr (), t)
     \<and> linked (es_db t) j a r \<and> is_terminal (a_state a)"
proof -
  have "fst (reconcile_runner_result ex_rt (AttemptRecord.truncate ex_attempt) en_late) = Inr ()" by code_simp
  then obtain t where run: "reconcile_runner_result ex_rt (AttemptRecord.truncate ex_attempt) en_late = (Inr (), t)"
    by (metis prod.collapse)
  have log: "es_log en_late = []" by (simp add: en_late_def)
  have calls: "reconcile_runner_result ex_rt (AttemptRecord.truncate ex_attempt) (run_calls ex_rt [] en_late) = (Inr (), t)"
    using run by (simp add: run_calls_def)
  from runner_result_settles[OF ex_rt_alone en_reach(2) log calls] run show ?thesis by blast
qed

section \<open>Progress\<close>

theorem terminal_verdict_accepted_witness:
  "\<exists>p db'. commit_terminal example_host (ex_env ''d'') ex_db3 (ex_terminal Failed 2) = (Inr p, db')"
proof -
  have c: "j_resolution (hd (jobs ex_db3)) = None" "fresh_events (ex_env ''d'') ex_db3"
    "terminal_request_ok (ex_terminal Failed 2)" "can_transition_to (a_state (hd (attempts ex_db3))) Failed"
    "tc_attempt_id (ex_terminal Failed 2) = a_attempt_id (hd (attempts ex_db3))"
    "tc_expected_row_version (ex_terminal Failed 2) = a_row_version (hd (attempts ex_db3))"
    "a_main_pid (hd (attempts ex_db3)) \<noteq> Some 0" "tc_state (ex_terminal Failed 2) = Failed"
    "registrable ex_db3 (a_attempt_id (hd (attempts ex_db3))) (tc_artifacts (ex_terminal Failed 2))"
    by code_simp+
  show ?thesis
    using terminal_verdict_accepted[OF ex_reach(2) ex_linked(1) c(1) ex_env_healthy c(2,3,5,6) _ c(9,7)] c(4,8) by auto
qed

section \<open>Command lines\<close>

lemma ascii_text:
  assumes "list_all (\<lambda>c. of_char c < (128 :: nat)) s"
  shows "utf8_text s"
  using assms
proof (induction s)
  case (Cons c s)
  have "utf8_front (bytes_of (c # s)) = WholeChar 1"
    using Cons.prems by (simp add: bytes_of_def utf8_front_def char_width_def)
  then show ?case
    using Cons utf8_valid_front[of "bytes_of (c # s)"] by (simp add: utf8_text_def) (simp add: bytes_of_def)
qed (simp add: utf8_text_def)

lemma each_arg_succeeds: "\<forall>x \<in> set xs. \<exists>arg. f x = Inr arg \<Longrightarrow> \<exists>args. each_arg f xs = Inr args"
  by (induction xs) fastforce+

definition ex_spec :: SystemdRunSpec where
  "ex_spec = \<lparr>sd_unit_name = ''u.service'', sd_runner = ''/r'', sd_bundle_path = ''/b'',
     sd_workspace_path = ''/w'', sd_workspace_git_common_dir = None, sd_input_set_path = Some ''/i'',
     sd_credential_source_root = None, sd_credential_names = [], sd_runtime_ceiling_ms = 5,
     sd_budget = \<lparr>b_memory_max_bytes = None, b_tasks_max = Some 7, b_cpu_quota_percent = None\<rparr>,
     sd_execution_profile = ContainedLocal, sd_environment = [(''PATH'', ''/bin'')]\<rparr>"

lemma ex_spec_paths:
  assumes "p \<in> {''/r'', ''/b'', ''/w'', ''/i''}"
  shows "systemd_path_value p = Inr p"
proof -
  have "utf8_text p" using assms by (intro ascii_text) auto
  then show ?thesis
    using assms unfolding systemd_path_value_def lossy_text_valid[OF \<open>utf8_text p\<close>]
    by (auto simp: path_is_absolute_def starts_with_def is_whitespace_def)
qed

lemma ex_spec_sel:
  "sd_runner ex_spec = ''/r''" "sd_execution_profile ex_spec = ContainedLocal" "sd_credential_names ex_spec = []"
  "sd_credential_source_root ex_spec = None" "sd_workspace_git_common_dir ex_spec = None"
  "sd_input_set_path ex_spec = Some ''/i''"
  by (simp_all add: ex_spec_def)

lemma ex_spec_writable: "set (writable_paths ex_spec) \<subseteq> {''/w'', ''/b''}"
proof -
  have "writable_paths ex_spec = path_set [''/w'', ''/b'']" unfolding writable_paths_def
    by (simp add: ex_spec_def CONTAINED_WRITABLE_def List.map_filter_def)
  then show ?thesis using set_path_set[of "[''/w'', ''/b'']"] by simp
qed

lemma ex_spec_builds: "\<exists>command. build_systemd_run_command ex_spec process_environment = Inr command"
proof -
  have path: "systemd_path_value p = Inr p" if "p = ''/r'' \<or> p = ''/b'' \<or> p = ''/w'' \<or> p = ''/i''" for p
    by (rule ex_spec_paths) (use that in \<open>simp only: insert_iff empty_iff simp_thms\<close>)
  have "\<exists>arg. rmap bind_writable (systemd_path_value x) = Inr arg" if "x \<in> set (writable_paths ex_spec)" for x
  proof -
    have "x = ''/w'' \<or> x = ''/b''" using subsetD[OF ex_spec_writable that] by (simp only: insert_iff empty_iff simp_thms)
    then have "systemd_path_value x = Inr x" using path[of x] by argo
    then show ?thesis by (simp only: rmap_def rbind_simps) (rule exI, rule refl)
  qed
  then have "\<forall>x \<in> set (writable_paths ex_spec). \<exists>arg. rmap bind_writable (systemd_path_value x) = Inr arg" by (intro ballI)
  from each_arg_succeeds[OF this]
  obtain writable where w: "each_arg (\<lambda>path. rmap bind_writable (systemd_path_value path)) (writable_paths ex_spec) = Inr writable" ..
  have "input_set_args ex_spec = Inr [bind_read_only ''/i'' CONTAINED_INPUT_ROOT]"
    using path[of "''/i''"] by (simp add: input_set_args_def ex_spec_sel option_args_def rmap_def)
  moreover have "systemd_path_value ''/r'' = Inr ''/r''" using path by simp
  ultimately have "\<exists>args. append_contained_properties ex_spec = Inr args"
    unfolding append_contained_properties_def ex_spec_sel option_args_def using w by simp
  then show ?thesis unfolding build_systemd_run_command_def profile_args_def by (auto simp: ex_spec_sel)
qed


section \<open>Output\<close>

definition ex_file_rt :: runtime where
  "ex_file_rt = ex_rt\<lparr>rt_io := ex_io\<lparr>io_read_at := (\<lambda>_ _ offset n. Inr (take n (drop offset ''hello world'')))\<rparr>\<rparr>"

theorem output_pages_roundtrip_witness:
  "\<exists>pages. fst (follow_ranges ex_file_rt ''/out'' 11 4 True 11 0 en_start) = Inr (Some pages) \<and> concat pages = ''hello world''"
proof -
  have held: "holds_file ex_file_rt ''/out'' ''hello world''" by (simp add: holds_file_def ex_file_rt_def ex_rt_def ex_io_def)
  have utf: "utf8_text ''hello world''" by (rule ascii_text) simp
  have len: "length ''hello world'' = 11" by simp
  from output_pages_roundtrip[OF held utf, of 4 True en_start] show ?thesis unfolding len by auto
qed

section \<open>Requests\<close>

theorem proposal_judged_once_witness:
  "\<forall>proposal. validate_run_request_structure example_host (resolve_proposal 1000 4096 proposal)
     = validate_run_proposal_structure example_host proposal"
  using proposal_judged_once[of 1000 4096 example_host] by simp

definition ex_binding :: "string \<Rightarrow> InputBindingRequest" where
  "ex_binding path = \<lparr>ib_authority = ''store'', ib_relative_object = ''o'', ib_expected_digest = ex_digest,
     ib_presentation_relative_path = path\<rparr>"

theorem canonical_inputs_normal_form_witness:
  "canonical_input_binding_requests [ex_binding ''b'', ex_binding ''a''] = Inr [ex_binding ''a'', ex_binding ''b'']
   \<and> canonical_input_binding_requests [ex_binding ''a'', ex_binding ''b''] = Inr [ex_binding ''a'', ex_binding ''b'']"
proof -
  have c: "canonical_input_binding_requests [ex_binding ''b'', ex_binding ''a''] = Inr [ex_binding ''a'', ex_binding ''b'']"
    by code_simp
  then show ?thesis using canonical_inputs_normal_form[OF c] by blast
qed

definition ex_credential :: "string \<Rightarrow> CredentialBindingRequest" where
  "ex_credential name = \<lparr>cb_authority = ''store'', cb_credential = name\<rparr>"

theorem canonical_credentials_are_files_witness:
  "canonical_credential_binding_requests [ex_credential ''b'', ex_credential ''a''] = Inr [ex_credential ''a'', ex_credential ''b'']
   \<and> path_components (cb_credential (ex_credential ''a'')) = [Normal (cb_credential (ex_credential ''a''))]"
proof -
  have c: "canonical_credential_binding_requests [ex_credential ''b'', ex_credential ''a''] = Inr [ex_credential ''a'', ex_credential ''b'']"
    by code_simp
  then show ?thesis using canonical_credentials_are_files[OF c] by simp
qed

end
