(* ===== verification/Engine_Replies.thy ===== *)
theory Engine_Replies
  imports Workspace_Records
begin

text \<open>
  Programs that return: from every state in which an assertion holds the program returns a value and the
  assertion still holds.  The questions a Runtime asks keep what the passing of time keeps, which is
  the assumption of the locale.
\<close>

definition replies :: "(engine_state \<Rightarrow> bool) \<Rightarrow> 'a engine \<Rightarrow> ('a \<Rightarrow> bool) \<Rightarrow> bool" where
  "replies I m P \<longleftrightarrow> (\<forall>s. I s \<longrightarrow> (\<exists>x t. m s = (Inr x, t) \<and> I t \<and> P x))"

lemma repliesE:
  assumes "replies I m P" and "I s"
  obtains x t where "m s = (Inr x, t)" "I t" "P x"
  using assms unfolding replies_def by blast

lemma replies_eret: "P x \<Longrightarrow> replies I (eret x) P"
  by (simp add: replies_def eret_def)

lemma replies_elift: "r = Inr x \<Longrightarrow> P x \<Longrightarrow> replies I (elift r) P"
  by (simp add: replies_def elift_def)

lemma replies_match:
  assumes "replies I m P" and "\<And>x. P x \<Longrightarrow> replies I (f x) Q"
  shows "replies I (ematch m handler f) Q"
  unfolding replies_def
proof (intro allI impI)
  fix s assume "I s"
  with assms(1) obtain x t where m: "m s = (Inr x, t)" "I t" "P x" by (rule repliesE)
  from assms(2)[OF m(3)] m(2) obtain y u where "f x t = (Inr y, u)" "I u" "Q y" by (rule repliesE)
  then show "\<exists>y u. ematch m handler f s = (Inr y, u) \<and> I u \<and> Q y" by (simp add: ematch_def m(1))
qed

lemma replies_bind: "replies I m P \<Longrightarrow> (\<And>x. P x \<Longrightarrow> replies I (f x) Q) \<Longrightarrow> replies I (ebind m f) Q"
  using replies_match[of I m P f Q "\<lambda>e s. (Inl e, s)"] unfolding ematch_def ebind_def .

lemma replies_weaken: "replies I m P \<Longrightarrow> (\<And>x. P x \<Longrightarrow> Q x) \<Longrightarrow> replies I m Q"
  unfolding replies_def by blast

lemma replies_emap: "(\<And>x. replies I (f x) P) \<Longrightarrow> replies I (emap f xs) (\<lambda>_. True)"
  by (induction xs) (auto intro!: replies_eret intro: replies_bind)

locale answering =
  fixes rt :: runtime and I :: "engine_state \<Rightarrow> bool"
  assumes waits: "I s \<Longrightarrow> I (advance rt s)"
begin

lemma ask_result: "(\<And>t. \<exists>x. q (rt_io rt) t = Inr x \<and> P x) \<Longrightarrow> replies I (ask_result rt q) P"
  using waits by (simp add: replies_def ask_result_def)

lemma ask: "(\<And>t. P (q (rt_io rt) t)) \<Longrightarrow> replies I (Engine_World.ask rt q) P"
  using waits by (simp add: replies_def Engine_World.ask_def)

lemma read:
  "(\<And>t s. I s \<Longrightarrow> \<exists>x. query (io_sql (rt_io rt) t) (es_db s) = Inr x \<and> P x) \<Longrightarrow> replies I (registry_read rt query) P"
  using waits by (simp add: replies_def registry_read_def Let_def)

end

end
