(* ===== verification/Proposal_Witnesses.thy ===== *)
theory Proposal_Witnesses
  imports Proposal_Guarantees Engine_Witnesses Engine_Replies
begin

text \<open>
  The properties of proposals applied to a proposal that is answered with the Job its client request is
  bound to, on a database where that Job has failed, and to a contained request that is resolved.
\<close>

section \<open>A proposal, answered\<close>

definition ex_proposal :: JobRunProposal where
  "ex_proposal = \<lparr>jp_schema_version = RUNTIME_SCHEMA_VERSION, jp_client_request_id = ''c1'', jp_principal = ''me'',
     jp_global_limit = 1, jp_execution = \<lparr>x_workspace_id = ''ws'', x_executable = ''/bin/a'', x_args = [],
       x_cwd_relative = ''a'', x_env = [], x_timeout_ms = Some 1, x_stdout_limit_bytes = Some 1, x_stderr_limit_bytes = Some 1,
       x_steps = [], x_budget = \<lparr>b_memory_max_bytes = None, b_tasks_max = None, b_cpu_quota_percent = None\<rparr>,
       x_execution_profile = TrustedLocal, x_execution_target = LocalLinux, x_windows_authority = Limited,
       x_foreign_references = [], x_host_dependencies = []\<rparr>,
     jp_wait_ms = 0, jp_stdout_tail_bytes = 0, jp_stderr_tail_bytes = 0\<rparr>"

lemma ex_proposal_known:
  "validate_run_proposal_structure engine_host ex_proposal = Inr ()"
  "case find_idempotent_job engine_host (ex_env ''tx'') en_failed ''me'' ''c1''
      (proposal_request_identity_digest engine_host ex_proposal) (legacy_request_identity_digest_from_proposal engine_host ex_proposal) of
     Inl _ \<Rightarrow> False | Inr None \<Rightarrow> False | Inr (Some job) \<Rightarrow> j_job_id job = ''job-1''"
  by code_simp+

lemma ex_settled:
  "\<exists>snapshot. load_job_snapshot_in en_failed ''job-1'' = Inr snapshot \<and> j_resolution (js_job snapshot) = Some ResFailed
     \<and> jpr_job_id (js_projection snapshot) = ''job-1'' \<and> jpr_result_available (js_projection snapshot)"
proof -
  have "case load_job_snapshot_in en_failed ''job-1'' of Inl _ \<Rightarrow> False | Inr snapshot \<Rightarrow> j_resolution (js_job snapshot) = Some ResFailed
     \<and> jpr_job_id (js_projection snapshot) = ''job-1'' \<and> jpr_result_available (js_projection snapshot)"
    by code_simp
  then show ?thesis by (simp split: sum.splits)
qed

abbreviation en_settled :: "engine_state \<Rightarrow> bool" where
  "en_settled \<equiv> \<lambda>s. es_db s = en_failed"

interpretation settled: answering ex_rt en_settled
  by unfold_locales (simp add: advance_def ex_rt_def ex_io_def)

lemma ex_rt_sql: "io_sql (rt_io ex_rt) t = ex_env (''t'' @ replicate t (CHR ''x''))"
  by (simp add: ex_rt_def ex_io_def)

lemma path_missing: "replies en_settled (path_exists ex_rt p) (\<lambda>b. \<not> b)"
  unfolding path_exists_def by (rule settled.ask) (simp add: ex_rt_def ex_io_def)

lemma nothing_present:
  "replies en_settled (load_runner_progress_if_present ex_rt a) (\<lambda>x. x = None)"
  "replies en_settled (load_runner_result_if_present ex_rt a) (\<lambda>x. x = None)"
  "replies en_settled (load_control_error_summary_if_present ex_rt a) (\<lambda>x. x = None)"
  "replies en_settled (file_length_if_present ex_rt p) (\<lambda>n. n = 0)"
  unfolding load_runner_progress_if_present_def load_runner_result_if_present_def load_control_error_summary_if_present_def
    file_length_if_present_def Let_def
  by (rule replies_bind[OF path_missing], simp add: replies_eret)+ (rule settled.ask_result, simp add: ex_rt_def ex_io_def)

lemma snapshot_replies:
  "replies en_settled (job_snapshot_now ex_rt ''job-1'') (\<lambda>snapshot. j_resolution (js_job snapshot) = Some ResFailed
     \<and> jpr_job_id (js_projection snapshot) = ''job-1'' \<and> jpr_result_available (js_projection snapshot))"
  unfolding job_snapshot_now_def
proof (rule settled.read)
  fix t s
  assume "es_db s = en_failed"
  obtain snapshot where s: "load_job_snapshot_in en_failed ''job-1'' = Inr snapshot \<and> j_resolution (js_job snapshot) = Some ResFailed
    \<and> jpr_job_id (js_projection snapshot) = ''job-1'' \<and> jpr_result_available (js_projection snapshot)"
    using ex_settled ..
  with \<open>es_db s = en_failed\<close> show "\<exists>snapshot. job_snapshot (io_sql (rt_io ex_rt) t) (es_db s) ''job-1'' = Inr snapshot \<and> j_resolution (js_job snapshot) = Some ResFailed
     \<and> jpr_job_id (js_projection snapshot) = ''job-1'' \<and> jpr_result_available (js_projection snapshot)"
    unfolding job_snapshot_def load_job_snapshot_def ex_rt_sql by simp
qed

lemma read_nothing: "replies en_settled (read_output_text ex_rt p None 0 terminal f g) (\<lambda>_. True)"
  unfolding read_output_text_def read_tail_text_def by (simp add: replies_bind[OF replies_eret] replies_eret)

lemma unmodified: "replies en_settled (latest_output_modified_ms ex_rt a) (\<lambda>_. True)"
  unfolding latest_output_modified_ms_def modified_if_written_def
  by (intro replies_bind[where P = "\<lambda>_. True"] replies_bind[OF nothing_present(4)] replies_eret) (simp_all add: replies_eret)

lemma opt_replies: "(\<And>a. replies en_settled (f a) P) \<Longrightarrow> P None \<Longrightarrow> replies en_settled (opt_engine f x) P"
  by (cases x) (simp_all add: opt_engine_def replies_eret)

lemma output_replies: "replies en_settled (observed_output ex_rt k x terminal result control
    \<lparr>oo_stdout_tail_bytes = 0, oo_stderr_tail_bytes = 0, oo_stdout_offset = None, oo_stderr_offset = None\<rparr>) (\<lambda>_. True)"
proof (cases x)
  case None
  then show ?thesis by (simp add: observed_output_def replies_eret)
next
  case (Some a)
  have "replies en_settled (registry_read ex_rt (\<lambda>env db. list_artifacts env db k)) (\<lambda>_. True)"
    by (rule settled.read) (simp add: list_artifacts_def ex_rt_sql)
  then show ?thesis
    unfolding observed_output_def Some
    by (simp, intro replies_bind[OF read_nothing] replies_bind[OF unmodified] replies_eret replies_bind[where P = "\<lambda>_. True"]) simp_all
qed

lemma observation_replies:
  "replies en_settled (observation_from_snapshot ex_rt snapshot
     \<lparr>oo_stdout_tail_bytes = 0, oo_stderr_tail_bytes = 0, oo_stdout_offset = None, oo_stderr_offset = None\<rparr>) (\<lambda>_. True)"
proof -
  have "\<exists>limits. effective_limits_from_plan_json (rt_host ex_rt) json = Inr limits" for json
    by (simp add: effective_limits_from_plan_json_def ex_rt_def engine_host_def)
  then obtain limits where l: "effective_limits_from_plan_json (rt_host ex_rt) (j_execution_plan_json (js_job snapshot)) = Inr limits" by blast
  have clock: "replies en_settled (engine_now_ms ex_rt) (\<lambda>_. True)"
    unfolding engine_now_ms_def by (rule settled.ask_result) (simp add: ex_rt_def ex_io_def now_ms_def)
  have result: "replies en_settled (if b then eret None else opt_engine (load_runner_result_if_present ex_rt) x) (\<lambda>y. y = None)" for b x
    by (cases b) (simp_all add: replies_eret opt_replies nothing_present(2))
  show ?thesis
    unfolding observation_from_snapshot_def observation_from_parts_def
    apply (rule replies_bind[OF replies_elift[OF l, of "\<lambda>_. True"]], simp)
    apply (rule replies_bind[OF clock])
    apply (rule replies_bind[OF opt_replies[OF nothing_present(1)]], simp)
    apply (rule replies_bind[OF result], simp)
    apply (rule replies_bind[OF opt_replies[OF nothing_present(3)]], simp)
    apply (rule replies_bind[OF output_replies])
    apply (simp add: replies_eret)
    done
qed

lemma signature_replies: "replies en_settled (job_activity_signature ex_rt x projection) (\<lambda>_. True)"
  unfolding job_activity_signature_def
  by (cases x) (auto intro!: replies_eret replies_bind[OF nothing_present(4)] replies_bind[OF nothing_present(1)])

lemma reconcile_replies: "replies en_settled (reconcile_job ex_rt ''job-1'') (\<lambda>_. True)"
  unfolding reconcile_job_def by (rule replies_bind[OF snapshot_replies]) (simp add: replies_eret)

lemma observe_replies: "replies en_settled (observe_admitted_job ex_rt ''job-1'' 0 0 0) (\<lambda>_. True)"
proof -
  have loop: "replies en_settled (observe_loop ex_rt q first n) (\<lambda>_. True)"
    if "jo_job_id q = ''job-1''" "observe_output_request q
      = \<lparr>oo_stdout_tail_bytes = 0, oo_stderr_tail_bytes = 0, oo_stdout_offset = None, oo_stderr_offset = None\<rparr>" for q first n
    unfolding observe_loop.simps[of ex_rt q first n] that Let_def
    apply (rule replies_bind[OF reconcile_replies])
    apply (rule replies_bind[OF snapshot_replies])
    apply (rule replies_bind[OF signature_replies])
    apply (simp add: observation_replies)
    done
  show ?thesis unfolding observe_admitted_job_def observe_job_def
    by (intro replies_match[where P = "\<lambda>_. True"] replies_eret replies_bind[OF replies_elift[where P = "\<lambda>_. True"]]
        replies_bind[OF settled.ask[where P = "\<lambda>_. True"]] loop)
       (simp_all add: validate_observe_request_def observe_output_request_def)
qed

lemma case_found:
  "(case r of Inl _ \<Rightarrow> False | Inr None \<Rightarrow> False | Inr (Some x) \<Rightarrow> P x) \<Longrightarrow> \<exists>x. r = Inr (Some x) \<and> P x"
  by (simp split: sum.splits option.splits)

lemma proposal_replies: "replies en_settled (run_job_proposal ex_rt ex_proposal) (\<lambda>_. True)"
proof -
  let ?digest = "proposal_request_identity_digest engine_host ex_proposal"
    and ?compatible = "legacy_request_identity_digest_from_proposal engine_host ex_proposal"
  have any: "find_idempotent_job h (ex_env tag) db owner c digest compatible = find_idempotent_job h (ex_env ''tx'') db owner c digest compatible"
    for h tag db owner c digest compatible by (simp add: find_idempotent_job_def)
  obtain job where known: "find_idempotent_job engine_host (ex_env ''tx'') en_failed ''me'' ''c1'' ?digest ?compatible = Inr (Some job)
    \<and> j_job_id job = ''job-1''"
    using case_found[where P = "\<lambda>job. j_job_id job = ''job-1''", OF ex_proposal_known(2)] ..
  note job = conjunct1[OF known] conjunct2[OF known]
  have found: "replies en_settled (find_idempotent_job_now ex_rt ''me'' ''c1'' ?digest ?compatible) (\<lambda>x. x = Some job)"
    unfolding find_idempotent_job_now_def ex_rt_sel(1)
    by (rule settled.read) (simp only: ex_rt_sql, intro exI conjI, rule trans[OF any job(1)], rule refl)
  have lock: "replies en_settled (lock_lifecycle ex_rt) (\<lambda>_. True)"
    unfolding lock_lifecycle_def
    by (rule replies_bind[OF settled.ask[where P = "\<lambda>b. b"]]) (simp_all add: ex_rt_def ex_io_def replies_eret)
  have sel: "jp_principal ex_proposal = ''me''" "jp_client_request_id ex_proposal = ''c1''" "jp_wait_ms ex_proposal = 0"
    "jp_stdout_tail_bytes ex_proposal = 0" "jp_stderr_tail_bytes ex_proposal = 0" by (simp_all add: ex_proposal_def)
  have existing: "replies en_settled (admitted_or_existing ex_rt ex_proposal ?digest ?compatible admit) (\<lambda>x. x = (''job-1'', False))" for admit
    unfolding admitted_or_existing_def sel
    apply (rule replies_bind[OF lock])
    apply (rule replies_bind[OF found])
    apply (simp only: option.case job(2))
    apply (rule replies_eret, rule refl)
    done
  show ?thesis
    unfolding run_job_proposal_def ex_rt_sel Let_def sel
    apply (rule replies_bind[OF replies_elift[OF ex_proposal_known(1), of "\<lambda>_. True"]], simp)
    apply (rule replies_bind[OF existing])
    apply (simp only: prod.case if_False)
    apply (rule replies_bind[OF replies_eret, of "\<lambda>_. True"], simp)
    apply (rule observe_replies)
    done
qed

theorem client_request_names_one_job_witness:
  "\<exists>ob t ob' v. propose ex_rt NoBindings ex_proposal en_late = (Inr ob, t) \<and> propose ex_rt NoBindings ex_proposal t = (Inr ob', v)
     \<and> jpr_job_id (ob_projection ob') = jpr_job_id (ob_projection ob)"
proof -
  have "es_db en_late = en_failed" by (simp add: en_late_def)
  then obtain ob t where first: "propose ex_rt NoBindings ex_proposal en_late = (Inr ob, t)" "es_db t = en_failed"
    using repliesE[OF proposal_replies] unfolding propose.simps by metis
  then obtain ob' v where second: "propose ex_rt NoBindings ex_proposal t = (Inr ob', v)"
    using repliesE[OF proposal_replies] unfolding propose.simps by metis
  have "registry_run (rt_host ex_rt) (rt_registry ex_rt) (es_db t) (es_db t)" by (simp add: registry_run_def)
  from client_request_names_one_job[OF ex_rt_alone en_reach(2) first(1) this refl refl ex_rt_alone second refl refl]
  show ?thesis using first(1) second by blast
qed

section \<open>A contained request, resolved\<close>

definition ex_workspace :: WorkspaceRecord where
  "ex_workspace = \<lparr>wk_schema_version = UNIVERSAL_EXEC_SCHEMA_VERSION, wk_workspace_id = [], wk_source_repo = ''/repo'',
     wk_source_revision = ''r1'', wk_workspace_path = [], wk_created_unix_ms = 0\<rparr>"

definition ex_links :: "string \<Rightarrow> string + string" where
  "ex_links p = (if utf8_text p then Inr p else Inl ''not a text'')"

definition ex_resolver :: runtime where
  "ex_resolver = ex_rt\<lparr>rt_io := ex_io\<lparr>io_read := (\<lambda>_ _. Inr []), io_canonicalize := (\<lambda>_. ex_links)\<rparr>,
     rt_host := example_host\<lparr>h_json_parse := (\<lambda>_. Inr JNull)\<rparr>,
     rt_codec := ex_codec\<lparr>ec_workspace_record_parse := (\<lambda>_. Inr ex_workspace)\<rparr>\<rparr>"

definition ex_contained :: JobRunRequest where
  "ex_contained = \<lparr>jr_schema_version = RUNTIME_SCHEMA_VERSION, jr_client_request_id = ''c1'', jr_principal = ''me'',
     jr_global_limit = 1, jr_execution = \<lparr>u_workspace_id = ''ws-1'', u_executable = ''/bin/a'', u_args = [],
       u_cwd_relative = ''a'', u_env = [], u_timeout_ms = 1, u_stdout_limit_bytes = 1, u_stderr_limit_bytes = 1,
       u_steps = [\<lparr>us_id = ''s'', us_executable = ''/bin/b'', us_args = [], us_cwd_relative = ''b/c'', us_env = [],
         us_timeout_ms = 1, us_continue_on_error = False\<rparr>],
       u_budget = \<lparr>b_memory_max_bytes = None, b_tasks_max = None, b_cpu_quota_percent = None\<rparr>,
       u_execution_profile = ContainedLocal, u_execution_target = LocalLinux, u_windows_authority = Limited,
       u_foreign_references = [], u_host_dependencies = []\<rparr>,
     jr_wait_ms = 0, jr_stdout_tail_bytes = 0, jr_stderr_tail_bytes = 0\<rparr>"


abbreviation anywhere :: "engine_state \<Rightarrow> bool" where
  "anywhere \<equiv> \<lambda>_. True"

interpretation anywhere: answering ex_resolver anywhere
  by unfold_locales simp

abbreviation ex_root :: string where
  "ex_root \<equiv> ''/s/workspaces/ws-1''"

lemma ex_resolver_io:
  "io_canonicalize (rt_io ex_resolver) t = ex_links" "io_read (rt_io ex_resolver) t p = Inr []"
  "io_exists (rt_io ex_resolver) t p = False" "io_is_dir (rt_io ex_resolver) t p = True"
  "io_symlink_metadata (rt_io ex_resolver) t p = Inr ex_executable" "io_metadata (rt_io ex_resolver) t p = Inr ex_executable"
  "io_create_dir_all (rt_io ex_resolver) t p = Inr ()" "io_sha256_file (rt_io ex_resolver) t p = Inr ex_digest"
  "io_source_state_digest (rt_io ex_resolver) t p = Inr ex_digest" "io_git_output (rt_io ex_resolver) t p as = Inr ''/w/.git''"
  by (simp_all add: ex_resolver_def ex_rt_def ex_io_def)

lemma ex_links_text: "list_all (\<lambda>c. of_char c < (128 :: nat)) p \<Longrightarrow> ex_links p = Inr p" "list_all (\<lambda>c. of_char c < (128 :: nat)) p \<Longrightarrow> lossy_text p = p"
  by (simp_all add: ex_links_def ascii_text lossy_text_valid)

lemma ex_paths:
  "workspace_path ex_resolver ''ws-1'' = ex_root" "path_join ex_root ''a'' = ex_root @ ''/a''" "path_join ex_root ''b/c'' = ex_root @ ''/b/c''"
  "validate_relative_path ''a'' ''relativePath'' = Inr ''a''" "validate_relative_path ''b/c'' ''relativePath'' = Inr ''b/c''"
  "validate_id ''ws-1'' ''workspaceId'' = Inr ()"
  "path_starts_with (ex_root @ ''/a'') ex_root" "path_starts_with (ex_root @ ''/b/c'') ex_root"
  "path_is_absolute ''/bin/a''" "path_is_absolute ''/bin/b''" "path_parent ''/bin/a'' = Some ''/bin''" "path_parent ''/bin/b'' = Some ''/bin''"
  "path_starts_with ''/bin/a'' ''/bin''" "path_starts_with ''/bin/b'' ''/bin''"
  "trim_text ''/w/.git'' = ''/w/.git''"
  by code_simp+

lemma directory_answers:
  assumes "list_all (\<lambda>c. of_char c < (128 :: nat)) p"
  shows "replies anywhere (canonical_directory ex_resolver p field) (\<lambda>q. q = p)"
  unfolding canonical_directory_def
  apply (rule replies_bind[where P = "\<lambda>q. q = p"])
   apply (rule anywhere.ask_result, simp add: ex_resolver_io ex_links_text assms)
  apply (rule replies_bind[where P = "\<lambda>b. b"])
   apply (rule anywhere.ask, simp add: ex_resolver_io)
  apply (simp add: replies_eret)
  done

lemma root_text: "list_all (\<lambda>c. of_char c < (128 :: nat)) ex_root" "list_all (\<lambda>c. of_char c < (128 :: nat)) (ex_root @ ''/a'')"
  "list_all (\<lambda>c. of_char c < (128 :: nat)) (ex_root @ ''/b/c'')" "list_all (\<lambda>c. of_char c < (128 :: nat)) ''/w/.git''"
  "list_all (\<lambda>c. of_char c < (128 :: nat)) ''/bin/a''" "list_all (\<lambda>c. of_char c < (128 :: nat)) ''/bin/b''" "list_all (\<lambda>c. of_char c < (128 :: nat)) ''/bin''"
  by simp_all

lemma record_answers:
  "replies anywhere (load_workspace_record ex_resolver ''ws-1'') (\<lambda>r. wk_workspace_path r = ex_root)"
proof -
  have closed: "decode_closed_workspace_record ex_resolver [] = Inr None"
    by (simp add: decode_closed_workspace_record_def ex_resolver_def json_str_def)
  have opened: "decode_open_workspace_record ex_resolver [] ''ws-1'' = Inr (ex_workspace\<lparr>wk_workspace_id := ''ws-1''\<rparr>)"
    by (simp add: decode_open_workspace_record_def ex_resolver_def validate_open_identity_def ex_workspace_def)
  have bind: "replies anywhere (bind_workspace_record_path ex_resolver ''ws-1'' (ex_workspace\<lparr>wk_workspace_id := ''ws-1''\<rparr>)) (\<lambda>_. True)"
    unfolding bind_workspace_record_path_def Let_def
    apply (rule replies_bind[where P = "\<lambda>b. b"])
     apply (simp add: ex_workspace_def replies_eret)
    apply (simp, rule replies_bind[where P = "\<lambda>b. \<not> b"])
     apply (simp add: path_exists_def, rule anywhere.ask, simp add: ex_resolver_io)
    apply (rule replies_bind[where P = "\<lambda>_. True"])
     apply (simp_all add: replies_eret)
    done
  have "replies anywhere (load_workspace_record_metadata ex_resolver ''ws-1'') (\<lambda>_. True)"
    unfolding load_workspace_record_metadata_def
    apply (rule replies_bind[where P = "\<lambda>_. True"])
     apply (rule replies_elift, simp add: ex_paths(6), simp)
    apply (rule replies_bind[where P = "\<lambda>bytes. bytes = []"])
     apply (simp add: read_workspace_record_bytes_def, rule anywhere.ask_result, simp add: ex_resolver_io)
    apply (simp, rule replies_bind[OF replies_elift[OF closed], of "\<lambda>c. c = None"], rule refl)
    apply (simp, rule replies_bind[OF replies_elift[OF opened, of "\<lambda>r. r = ex_workspace\<lparr>wk_workspace_id := ''ws-1''\<rparr>"]], rule refl)
    apply (simp add: bind)
    done
  then show ?thesis
    unfolding load_workspace_record_def ex_paths(1)
    apply (elim replies_bind)
    apply (rule replies_bind[OF directory_answers[OF root_text(1)]])
    apply (simp add: replies_eret ex_links_text root_text(1))
    done
qed

lemma cwd_answers:
  assumes "wk_workspace_path r = ex_root" and "(rel = ''a'' \<or> rel = ''b/c'')"
  shows "replies anywhere (resolve_workspace_cwd ex_resolver r rel field) (\<lambda>_. True)"
proof -
  have rel: "validate_relative_path rel ''relativePath'' = Inr rel" "list_all (\<lambda>c. of_char c < (128 :: nat)) (path_join ex_root rel)"
    "path_starts_with (path_join ex_root rel) ex_root"
    using assms(2) ex_paths root_text by auto
  have "replies anywhere (resolve_existing_workspace_path ex_resolver r rel True) (\<lambda>_. True)"
    unfolding resolve_existing_workspace_path_def assms(1)
    apply (rule replies_bind[where P = "\<lambda>q. q = rel"])
     apply (rule replies_elift, simp add: rel(1), simp)
    apply (rule replies_bind[OF directory_answers[OF root_text(1)]])
    apply (simp only: Let_def)
    apply (rule replies_bind[where P = "\<lambda>m. m = ex_executable"])
     apply (rule anywhere.ask_result, simp add: ex_resolver_io)
    apply (simp add: ex_executable_def)
    apply (rule replies_bind[where P = "\<lambda>q. q = path_join ex_root rel"])
     apply (rule anywhere.ask_result, simp add: ex_resolver_io ex_links_text rel(2))
    apply (rule replies_bind[where P = "\<lambda>b. \<not> b"])
     apply (simp_all add: replies_eret rel(3))
    done
  from replies_match[OF this] have found: "replies anywhere (ematch (resolve_existing_workspace_path ex_resolver r rel True) handler eret) (\<lambda>_. True)"
    for handler by this (rule replies_eret, simp)
  show ?thesis
    unfolding resolve_workspace_cwd_def
    apply (rule replies_bind[OF found])
    apply (rule replies_bind[where P = "\<lambda>b. b"])
     apply (rule anywhere.ask, simp add: ex_resolver_io)
    apply (simp add: replies_eret)
    done
qed

lemma executable_answers:
  assumes "p = ''/bin/a'' \<or> p = ''/bin/b''"
  shows "replies anywhere (validate_executable ex_resolver p field) (\<lambda>_. True)"
proof -
  have p: "path_is_absolute p" "ex_links p = Inr p" "ex_links ''/bin'' = Inr ''/bin''" "path_parent p = Some ''/bin''" "path_starts_with p ''/bin''"
    using assms ex_paths ex_links_text root_text by auto
  have roots: "replies anywhere (emap (\<lambda>root. ask_result ex_resolver (\<lambda>i t. map_err f (io_canonicalize i t root))) (rt_allowed_executable_roots ex_resolver))
     (\<lambda>rs. rs = [''/bin''])" for f
  proof -
    have "rt_allowed_executable_roots ex_resolver = [''/bin'']" by (simp add: ex_resolver_def ex_rt_def)
    moreover have "replies anywhere (ask_result ex_resolver (\<lambda>i t. map_err f (io_canonicalize i t ''/bin''))) (\<lambda>r. r = ''/bin'')"
      by (rule anywhere.ask_result) (simp add: ex_resolver_io p)
    ultimately show ?thesis
      by (simp only: emap.simps) (erule replies_bind, rule replies_bind[OF replies_eret, of "\<lambda>x. x = []"], simp_all add: replies_eret)
  qed
  show ?thesis
    unfolding validate_executable_def Let_def
    apply (simp only: p(1) not_True_eq_False if_False)
    apply (rule replies_bind[where P = "\<lambda>q. q = p"])
     apply (rule anywhere.ask_result, simp add: ex_resolver_io p(2))
    apply (rule replies_bind[where P = "\<lambda>m. m = ex_executable"])
     apply (rule anywhere.ask_result, simp add: ex_resolver_io)
    apply (simp add: is_executable_file_def ex_executable_def)
    apply (rule replies_bind[OF roots])
    apply (rule replies_bind[where P = "\<lambda>q. q = ''/bin''"])
     apply (rule replies_elift, simp add: p(4), simp)
    apply (rule replies_bind[where P = "\<lambda>q. q = ''/bin''"])
     apply (rule anywhere.ask_result, simp add: ex_resolver_io p(3))
    apply (simp add: p(5) replies_eret)
    done
qed

lemma directories_answer: "replies anywhere (create_dir_all ex_resolver context p) (\<lambda>_. True)"
  unfolding create_dir_all_def by (rule anywhere.ask_result) (simp add: ex_resolver_io)

lemma environment_answers: "replies anywhere (execution_environment ex_resolver r ContainedLocal) (\<lambda>_. True)"
proof -
  have path: "replies anywhere (environment_path ex_resolver environment name) (\<lambda>_. True)" for environment name
    by (auto simp: environment_path_def intro!: replies_eret directories_answer split: option.splits)
  show ?thesis
    unfolding execution_environment_def Let_def
    apply (rule replies_bind[OF replies_emap[OF directories_answer]])
    apply (rule replies_bind[where P = "\<lambda>_. True"])
     apply (simp, rule replies_bind[OF directories_answer], simp add: replies_eret)
    apply (rule replies_bind[where P = "\<lambda>_. True"])
     apply (simp add: replies_eret)
    apply (rule replies_bind[OF replies_emap[OF path]])
    apply (simp add: replies_eret)
    done
qed

lemma digest_answers: "replies anywhere (engine_sha256_file ex_resolver p) (\<lambda>_. True)"
  unfolding engine_sha256_file_def by (rule anywhere.ask_result) (simp add: ex_resolver_io)

lemma plan_answers: "replies anywhere (resolve_plan ex_resolver ex_contained) (\<lambda>_. True)"
proof -
  have sel: "u_workspace_id (jr_execution ex_contained) = ''ws-1''" "u_cwd_relative (jr_execution ex_contained) = ''a''"
    "u_executable (jr_execution ex_contained) = ''/bin/a''" "u_execution_target (jr_execution ex_contained) = LocalLinux"
    "u_execution_profile (jr_execution ex_contained) = ContainedLocal"
    "u_steps (jr_execution ex_contained) = [\<lparr>us_id = ''s'', us_executable = ''/bin/b'', us_args = [], us_cwd_relative = ''b/c'', us_env = [],
         us_timeout_ms = 1, us_continue_on_error = False\<rparr>]"
    by (simp_all add: ex_contained_def)
  have steps: "replies anywhere (resolve_steps ex_resolver r LocalLinux base 0 (u_steps (jr_execution ex_contained))) (\<lambda>_. True)"
    if "wk_workspace_path r = ex_root" for r base
    unfolding sel resolve_steps.simps Let_def
    apply (rule replies_bind[OF cwd_answers[OF that]], simp)
    apply (rule replies_bind[OF executable_answers], simp)
    apply (rule replies_bind[OF digest_answers])
    apply (rule replies_bind[where P = "\<lambda>_. True"])
     apply (rule replies_elift, simp add: merged_environment_def, simp)
    apply (rule replies_bind[OF replies_eret, of "\<lambda>_. True"], simp)
    apply (simp add: replies_eret)
    done
  have common: "replies anywhere (workspace_git_common_dir_at ex_resolver ex_root) (\<lambda>_. True)"
    unfolding workspace_git_common_dir_at_def
    apply (rule replies_bind[OF directory_answers[OF root_text(1)]])
    apply (rule replies_bind[where P = "\<lambda>d. d = ''/w/.git''"])
     apply (rule anywhere.ask_result, simp add: ex_resolver_io)
    apply (simp add: ex_paths(15), rule replies_weaken[OF directory_answers[OF root_text(4)]], simp)
    done
  show ?thesis
    unfolding resolve_plan_def Let_def sel(1-5)
    apply (rule replies_bind[OF record_answers])
    apply (rule replies_bind[where P = "\<lambda>w. w = ex_root"], simp add: directory_answers root_text(1))
    apply (rule replies_bind[OF cwd_answers], assumption, simp)
    apply (rule replies_bind[OF executable_answers], simp)
    apply (rule replies_bind[where P = "\<lambda>_. True"])
     apply (simp, rule replies_bind[OF environment_answers], simp add: replies_eret)
    apply (simp only: case_prod_beta)
    apply (rule replies_bind[OF steps], assumption)
    apply (rule replies_bind[where P = "\<lambda>_. True"])
     apply (rule anywhere.ask_result, simp add: ex_resolver_io)
    apply (simp, rule replies_bind[OF common])
    apply (rule replies_bind[OF digest_answers])
    apply (rule replies_bind[where P = "\<lambda>_. True"])
     apply (rule replies_elift, simp add: merged_environment_def, simp)
    apply (simp add: replies_eret)
    done
qed

theorem resolved_plan_confined_witness:
  "\<exists>plan t. resolve_plan ex_resolver ex_contained en_start = (Inr plan, t) \<and> path_starts_with (p_cwd plan) (p_workspace_path plan)
     \<and> length (p_steps plan) = 1 \<and> p_executable plan = ''/bin/a''"
proof -
  have still: "links_stand_still ex_resolver ex_links"
    by (simp add: links_stand_still_def ex_resolver_io) (simp add: ex_links_def)
  obtain plan t where run: "resolve_plan ex_resolver ex_contained en_start = (Inr plan, t)"
    by (rule repliesE[OF plan_answers TrueI])
  have request: "u_executable (jr_execution ex_contained) = ''/bin/a''" "length (u_steps (jr_execution ex_contained)) = 1"
    by (simp_all add: ex_contained_def)
  note confined = resolved_plan_confined[OF still run, unfolded request(1) ex_links_text(2)[OF root_text(5)]]
  from confined have "length (p_steps plan) = 1" using request(2) by (auto dest: list_all2_lengthD)
  with confined run show ?thesis by blast
qed

end
