(* ===== verification/Storage_Guarantees.thy ===== *)
theory Storage_Guarantees
  imports Registry_Storage
begin

text \<open>
  What opening the registry promises: an initialisation that was interrupted anywhere leaves a schema
  from which the next one goes on.
\<close>

section \<open>Schemas on the way\<close>

definition MIGRATIONS :: "migration list" where
  "MIGRATIONS = MIGRATION_V1 # LATER_MIGRATIONS"

definition recorded :: "schema \<Rightarrow> (int \<times> string) list" where
  "recorded s = map (\<lambda>r. (sm_version r, sm_checksum r)) (case sc_migrations s of None \<Rightarrow> [] | Some rows \<Rightarrow> rows)"

text \<open>The first \<open>k\<close> migrations have been applied.\<close>

definition migrated :: "nat \<Rightarrow> schema \<Rightarrow> bool" where
  "migrated k s \<longleftrightarrow> k \<le> 6 \<and> recorded s = map (\<lambda>m. (mg_version m, mg_checksum m)) (take k MIGRATIONS)
     \<and> (sc_migrations s = None \<longleftrightarrow> k = 0)
     \<and> (k = 0 \<longrightarrow> set (mg_creates MIGRATION_V1) \<inter> set (sc_objects s) = {})
     \<and> (0 < k \<and> k < 5 \<longrightarrow> (''table'', ''attempt_conditions'') \<in> set (sc_objects s))"

definition SIDE_OBJECTS :: "(string \<times> string) list" where
  "SIDE_OBJECTS = map (\<lambda>(index, what). (''index'', index)) QUERY_INDEXES
     @ [(''table'', ''job_execution_providers''), (''table'', ''attempt_supervisor_owners''), (''table'', ''job_host_dependencies''),
        (''table'', ''job_runtime_release_effects''), (''index'', ''idx_runtime_release_effect_request'')]"

definition storage_healthy :: "storage_env \<Rightarrow> RegistryConfig \<Rightarrow> bool" where
  "storage_healthy env cfg \<longleftrightarrow>
     (\<forall>c. sg_fault env c = None) \<and> (\<forall>c. sg_commit env c = CommitDone) \<and> eq_ignore_ascii_case (sg_journal_mode env) ''wal''
     \<and> (\<exists>n. now_ms (sg_clock env) = Inr n) \<and> (\<forall>operation path. sg_file env operation path = None)
     \<and> open_connection (sg_sql env) = Inr () \<and> registry_config_validate cfg = Inr ()"

lemma MIGRATIONS_versions: "map mg_version MIGRATIONS = [1, 2, 3, 4, 5, 6]"
  by (simp add: MIGRATIONS_def MIGRATION_V1_def LATER_MIGRATIONS_def)

lemma length_MIGRATIONS: "length MIGRATIONS = 6"
  by (simp add: MIGRATIONS_def LATER_MIGRATIONS_def)

lemma version_nth: "k < 6 \<Longrightarrow> mg_version (MIGRATIONS ! k) = int k + 1"
  using arg_cong[OF MIGRATIONS_versions, of "\<lambda>l. l ! k"]
  by (auto simp: length_MIGRATIONS nth_Cons numeral_eq_Suc less_Suc_eq split: nat.splits)

lemma migrated_versions:
  assumes "migrated k s" "0 < k"
  shows "\<exists>rows. sc_migrations s = Some rows \<and> rows \<noteq> [] \<and> map sm_version rows = map (\<lambda>i. int i + 1) [0..<k]"
proof -
  obtain rows where rows: "sc_migrations s = Some rows" using assms unfolding migrated_def by (cases "sc_migrations s") auto
  have k: "k \<le> 6" using assms(1) by (simp add: migrated_def)
  have "map (\<lambda>r. (sm_version r, sm_checksum r)) rows = map (\<lambda>m. (mg_version m, mg_checksum m)) (take k MIGRATIONS)"
    using assms(1) by (simp add: migrated_def recorded_def rows)
  from arg_cong[OF this, of "map fst"] have "map sm_version rows = map mg_version (take k MIGRATIONS)"
    by (simp add: comp_def)
  also have "\<dots> = map (\<lambda>i. int i + 1) [0..<k]"
    using k by (intro nth_equalityI) (simp_all add: length_MIGRATIONS version_nth)
  finally have "map sm_version rows = map (\<lambda>i. int i + 1) [0..<k]" .
  moreover from this have "rows \<noteq> []" using assms(2) by auto
  ultimately show ?thesis using rows by blast
qed

lemma fold_max_upto: "fold max (map (\<lambda>i. int i + 1) [0..<k]) (1 :: int) = max 1 (int k)"
  by (induction k) (simp_all add: max_def)

lemma migrated_max:
  assumes "migrated k s" "0 < k"
  shows "max_version s = Some (int k)"
proof -
  obtain rows where rows: "sc_migrations s = Some rows" "rows \<noteq> []" "map sm_version rows = map (\<lambda>i. int i + 1) [0..<k]"
    using migrated_versions[OF assms] by blast
  have "sm_version (hd rows) = 1"
    using arg_cong[OF rows(3), of hd] rows(2) assms(2) by (simp add: hd_map)
  then show ?thesis using rows fold_max_upto[of k] assms(2) by (simp add: max_version_def)
qed

lemma find_recorded:
  assumes "distinct (map (\<lambda>r. fst (f r)) rows)" and "(v, c) \<in> f ` set rows"
  shows "\<exists>r. find (\<lambda>r. fst (f r) = v) rows = Some r \<and> snd (f r) = c"
  using assms
proof (induction rows)
  case (Cons r rows)
  show ?case
  proof (cases "fst (f r) = v")
    case True
    have "v \<noteq> fst (f x)" if "x \<in> set rows" for x using Cons.prems(1) True that by auto
    then have "f r = (v, c)" using Cons.prems(2) by (metis fst_conv image_iff set_ConsD)
    then show ?thesis by simp
  next
    case False
    obtain x where x: "x \<in> set (r # rows)" "f x = (v, c)" using Cons.prems(2) by (metis imageE)
    then have "x \<in> set rows" using False by auto
    then have "(v, c) \<in> f ` set rows" using x(2) by (metis imageI)
    then show ?thesis using Cons False by simp
  qed
qed simp

lemma migrated_checksum:
  assumes "migrated k s" and "i < k"
  shows "\<exists>r. find (\<lambda>r. sm_version r = mg_version (MIGRATIONS ! i)) (case sc_migrations s of None \<Rightarrow> [] | Some rows \<Rightarrow> rows) = Some r
     \<and> sm_checksum r = mg_checksum (MIGRATIONS ! i)"
proof -
  let ?rows = "case sc_migrations s of None \<Rightarrow> [] | Some rows \<Rightarrow> rows" and ?f = "\<lambda>r. (sm_version r, sm_checksum r)"
  have k: "k \<le> 6" and rec: "map ?f ?rows = map (\<lambda>m. (mg_version m, mg_checksum m)) (take k MIGRATIONS)"
    using assms(1) by (simp_all add: migrated_def recorded_def)
  have "map (\<lambda>r. fst (?f r)) ?rows = take k [1, 2, 3, 4, 5, 6]"
    using arg_cong[OF rec, of "map fst"] arg_cong[OF MIGRATIONS_versions, of "take k"] by (simp add: comp_def take_map)
  then have "distinct (map (\<lambda>r. fst (?f r)) ?rows)" by (simp only: distinct_take) (simp add: distinct_take)
  moreover have "MIGRATIONS ! i \<in> set (take k MIGRATIONS)" using assms(2) k by (simp add: in_set_conv_nth length_MIGRATIONS) (metis nth_take)
  then have "(mg_version (MIGRATIONS ! i), mg_checksum (MIGRATIONS ! i)) \<in> ?f ` set ?rows"
    using arg_cong[OF rec, of set] by auto
  ultimately show ?thesis using find_recorded[of ?f ?rows] by simp
qed

section \<open>One migration\<close>

lemma sql_statement_healthy: "storage_healthy env cfg \<Longrightarrow> sql_statement env c = Inr ()"
  by (simp add: sql_statement_def storage_healthy_def)

lemma storage_tx_cases:
  assumes "storage_tx env context body commit s = (r, t)"
  shows "t = s \<and> r \<noteq> Inr () \<or> body s = Inr t"
    and "storage_healthy env cfg \<Longrightarrow> body s = Inr s' \<Longrightarrow> r = Inr () \<and> t = s'"
  using assms by (auto simp: storage_tx_def storage_healthy_def split: option.splits sum.splits commit_outcome.splits if_splits)

text \<open>The next migration can run, and running it leaves the schema before it or after it.\<close>

lemma next_migration_objects:
  assumes "migrated k s" and "k < 6"
  shows "migration_conflict (MIGRATIONS ! k) s = None"
    and "k < 4 \<Longrightarrow> (''table'', ''attempt_conditions'') \<in> set (filter (\<lambda>x. x \<notin> set (mg_drops (MIGRATIONS ! k) @ mg_drops_if_exists (MIGRATIONS ! k)))
           (sc_objects s) @ mg_creates (MIGRATIONS ! k))"
proof -
  consider "k = 0" | "k = 1" | "k = 2" | "k = 3" | "k = 4" | "k = 5" using assms(2) by linarith
  note cases = this
  show "migration_conflict (MIGRATIONS ! k) s = None"
  proof (cases rule: cases)
    case 1
    have "find (\<lambda>x. x \<in> set (sc_objects s)) (mg_creates MIGRATION_V1) = None"
      using assms(1) 1 unfolding find_None_iff migrated_def by blast
    then show ?thesis by (simp add: 1 MIGRATIONS_def migration_conflict_def) (simp add: MIGRATION_V1_def)
  qed (use assms(1) in \<open>simp_all add: MIGRATIONS_def LATER_MIGRATIONS_def migration_conflict_def migrated_def\<close>)
  show "(''table'', ''attempt_conditions'') \<in> set (filter (\<lambda>x. x \<notin> set (mg_drops (MIGRATIONS ! k) @ mg_drops_if_exists (MIGRATIONS ! k)))
           (sc_objects s) @ mg_creates (MIGRATIONS ! k))" if "k < 4"
    using that assms(1)
    by (cases rule: cases) (simp_all add: MIGRATIONS_def LATER_MIGRATIONS_def MIGRATION_V1_def migrated_def)
qed

lemma migration_body_migrated:
  assumes "migrated k s" and "k < 6" and "migration_body env (MIGRATIONS ! k) s = Inr t"
  shows "migrated (Suc k) t"
proof -
  obtain at where t: "t = s\<lparr>sc_migrations := Some ((case sc_migrations s of None \<Rightarrow> [] | Some rows \<Rightarrow> rows)
      @ [\<lparr>sm_version = mg_version (MIGRATIONS ! k), sm_name = mg_name (MIGRATIONS ! k), sm_checksum = mg_checksum (MIGRATIONS ! k), sm_applied_at_ms = at\<rparr>]),
     sc_objects := filter (\<lambda>x. x \<notin> set (mg_drops (MIGRATIONS ! k) @ mg_drops_if_exists (MIGRATIONS ! k))) (sc_objects s) @ mg_creates (MIGRATIONS ! k)\<rparr>"
    using assms(3) unfolding migration_body_def by (auto elim!: rbind_InrE)
  have "recorded t = recorded s @ [(mg_version (MIGRATIONS ! k), mg_checksum (MIGRATIONS ! k))]"
    by (simp add: t recorded_def)
  moreover have "take (Suc k) MIGRATIONS = take k MIGRATIONS @ [MIGRATIONS ! k]"
    using assms(2) by (simp add: take_Suc_conv_app_nth length_MIGRATIONS)
  moreover have "(''table'', ''attempt_conditions'') \<in> set (sc_objects t)" if "Suc k < 5"
    using next_migration_objects(2)[OF assms(1,2)] that unfolding t by simp
  ultimately show ?thesis using assms(1,2) by (simp add: migrated_def t)
qed

lemma run_migration_migrated:
  assumes "migrated k s" and "k < 6" and "run_migration env (MIGRATIONS ! k) s = (r, t)"
  shows "t = s \<and> r \<noteq> Inr () \<or> migrated (Suc k) t" and "storage_healthy env cfg \<Longrightarrow> r = Inr ()"
proof -
  note tx = storage_tx_cases[OF assms(3)[unfolded run_migration_def]]
  show "t = s \<and> r \<noteq> Inr () \<or> migrated (Suc k) t"
    using tx(1) migration_body_migrated[OF assms(1,2)] by blast
  show "r = Inr ()" if "storage_healthy env cfg"
  proof -
    obtain n where "now_ms (sg_clock env) = Inr n" using \<open>storage_healthy env cfg\<close> by (auto simp: storage_healthy_def)
    then have "\<exists>s'. migration_body env (MIGRATIONS ! k) s = Inr s'"
      unfolding migration_body_def by (simp add: sql_statement_healthy[OF that] next_migration_objects(1)[OF assms(1,2)])
    then show ?thesis using tx(2)[OF that] by blast
  qed
qed

lemma checksum_valid:
  assumes "migrated k s" and "i < k" and "validate_migration_checksum env (MIGRATIONS ! i) s = (r, t)"
  shows "t = s" and "storage_healthy env cfg \<Longrightarrow> r = Inr ()"
  using assms(3) migrated_checksum[OF assms(1,2)]
  by (auto simp: validate_migration_checksum_def sql_statement_healthy)

section \<open>All migrations\<close>

text \<open>A step that only moves on: never back, to the end when it succeeds, and it succeeds on a healthy host.\<close>

definition moves_on :: "storage_env \<Rightarrow> RegistryConfig \<Rightarrow> nat \<Rightarrow> nat \<Rightarrow> unit storage \<Rightarrow> schema \<Rightarrow> bool" where
  "moves_on env cfg k goal m s \<longleftrightarrow>
     (\<exists>j \<ge> k. migrated j (snd (m s)) \<and> (fst (m s) = Inr () \<longrightarrow> j = goal)) \<and> (storage_healthy env cfg \<longrightarrow> fst (m s) = Inr ())"

lemma moves_on_lift: "migrated k s \<Longrightarrow> (storage_healthy env cfg \<Longrightarrow> r = Inr ()) \<Longrightarrow> moves_on env cfg k k (st_lift r) s"
  by (auto simp: moves_on_def st_lift_def)

lemma moves_on_bind:
  assumes "moves_on env cfg k j m s" and "\<And>t. migrated j t \<Longrightarrow> m s = (Inr (), t) \<Longrightarrow> moves_on env cfg j i (f ()) t"
  shows "moves_on env cfg k i (st_bind m f) s"
proof (cases "m s")
  case (Pair r t)
  show ?thesis
  proof (cases r)
    case (Inl e)
    then show ?thesis using assms(1) Pair by (auto simp: moves_on_def st_bind_def)
  next
    case (Inr x)
    then have m: "m s = (Inr (), t)" using Pair by simp
    then have j: "migrated j t" "k \<le> j" using assms(1) by (auto simp: moves_on_def)
    from assms(2)[OF j(1) m] obtain l where "j \<le> l" "migrated l (snd (f () t))" "fst (f () t) = Inr () \<longrightarrow> l = i"
      "storage_healthy env cfg \<longrightarrow> fst (f () t) = Inr ()" unfolding moves_on_def by blast
    then show ?thesis using m j(2) unfolding moves_on_def st_bind_def by (auto intro!: exI[of _ l])
  qed
qed

lemma checksum_moves:
  assumes "migrated k s" and "i < k"
  shows "moves_on env cfg k k (validate_migration_checksum env (MIGRATIONS ! i)) s"
proof -
  obtain r t where v: "validate_migration_checksum env (MIGRATIONS ! i) s = (r, t)" by fastforce
  show ?thesis using checksum_valid[OF assms v] assms(1) unfolding moves_on_def v by auto
qed

lemma later_migration_moves:
  assumes "migrated k s" and "0 < i" and "i < 6" and "k = max found i"
  shows "moves_on env cfg k (max found (Suc i)) (later_migration env (int found) (MIGRATIONS ! i)) s"
  unfolding later_migration_def
proof (rule moves_on_bind)
  show "moves_on env cfg k (max found (Suc i))
     (if int found < mg_version (MIGRATIONS ! i) then run_migration env (MIGRATIONS ! i) else st_lift (Inr ())) s"
  proof (cases "found < Suc i")
    case True
    then have k: "k = i" "max found (Suc i) = Suc k" using assms(4) by auto
    obtain r t where run: "run_migration env (MIGRATIONS ! k) s = (r, t)" by fastforce
    have "moves_on env cfg k (Suc k) (run_migration env (MIGRATIONS ! k)) s"
      using run_migration_migrated[OF assms(1) _ run] assms(1,3) k unfolding moves_on_def run by (auto intro: le_SucI)
    then show ?thesis using True version_nth[OF assms(3)] k by simp
  next
    case False
    then have "max found (Suc i) = k" using assms(4) by auto
    moreover have "moves_on env cfg k k (st_lift (Inr ())) s" using moves_on_lift[OF assms(1)] by simp
    ultimately show ?thesis using False version_nth[OF assms(3)] by simp
  qed
  fix t
  assume t: "migrated (max found (Suc i)) t"
  then show "moves_on env cfg (max found (Suc i)) (max found (Suc i)) (validate_migration_checksum env (MIGRATIONS ! i)) t"
    by (rule checksum_moves) simp
qed

lemma later_migrations_move:
  assumes "migrated (max found i) s" and "0 < i" and "i \<le> 6"
  shows "moves_on env cfg (max found i) (max found 6) (st_each (later_migration env (int found)) (drop i MIGRATIONS)) s"
  using assms
proof (induction "6 - i" arbitrary: i s)
  case 0
  then have "i = 6" by simp
  then show ?case using 0 moves_on_lift[of "max found 6" s env cfg "Inr ()"] by (simp add: length_MIGRATIONS)
next
  case (Suc n)
  then have i: "i < 6" by simp
  have "drop i MIGRATIONS = MIGRATIONS ! i # drop (Suc i) MIGRATIONS" using i by (simp add: Cons_nth_drop_Suc length_MIGRATIONS)
  moreover have "moves_on env cfg (max found i) (max found 6)
      (st_bind (later_migration env (int found) (MIGRATIONS ! i)) (\<lambda>_. st_each (later_migration env (int found)) (drop (Suc i) MIGRATIONS))) s"
    by (rule moves_on_bind[OF later_migration_moves[OF Suc.prems(1,2) i refl]]) (rule Suc.hyps(1), use Suc i in auto)
  ultimately show ?case by simp
qed

lemma apply_migrations_move:
  assumes "migrated k s"
  shows "moves_on env cfg k 6 (apply_migrations env) s"
proof -
  have stmt: "moves_on env cfg j j (st_lift (sql_statement env c)) t" if "migrated j t" for j t c
    using moves_on_lift[OF that sql_statement_healthy] .
  have table: "moves_on env cfg k (max 1 k) (st_bind (\<lambda>s. (Inr (sc_migrations s \<noteq> None), s))
     (\<lambda>has_table. if has_table then st_lift (Inr ()) else run_migration env MIGRATION_V1)) t" if t: "migrated k t" for t
  proof (cases k)
    case 0
    obtain r u where run: "run_migration env (MIGRATIONS ! 0) t = (r, u)" by fastforce
    have "sc_migrations t = None" "MIGRATIONS ! 0 = MIGRATION_V1" using t 0 by (simp_all add: migrated_def MIGRATIONS_def)
    then show ?thesis
      using run_migration_migrated[OF t[unfolded 0] _ run] run t 0 by (auto simp: moves_on_def st_bind_def)
  next
    case (Suc n)
    then have "sc_migrations t \<noteq> None" using t by (simp add: migrated_def)
    then show ?thesis using Suc t by (auto simp: moves_on_def st_bind_def st_lift_def max_def)
  qed
  have rest: "moves_on env cfg (max 1 k) 6 (st_bind (\<lambda>s. (supported_version (max_version s), s)) (\<lambda>found.
     st_bind (validate_migration_checksum env MIGRATION_V1) (\<lambda>_. st_each (later_migration env found) LATER_MIGRATIONS))) t"
    if t: "migrated (max 1 k) t" for t
  proof -
    have le: "max 1 k \<le> 6" using t by (simp add: migrated_def)
    have "supported_version (max_version t) = Inr (int (max 1 k))"
      using migrated_max[OF t] le by (simp add: supported_version_def MAX_MIGRATION_VERSION_def)
    moreover have "moves_on env cfg (max 1 k) (max (max 1 k) 6) (st_bind (validate_migration_checksum env MIGRATION_V1)
        (\<lambda>_. st_each (later_migration env (int (max 1 k))) LATER_MIGRATIONS)) t"
    proof (rule moves_on_bind)
      show "moves_on env cfg (max 1 k) (max 1 k) (validate_migration_checksum env MIGRATION_V1) t"
        using checksum_moves[OF t, of 0] by (simp add: MIGRATIONS_def)
      fix u assume "migrated (max 1 k) u"
      then show "moves_on env cfg (max 1 k) (max (max 1 k) 6) (st_each (later_migration env (int (max 1 k))) LATER_MIGRATIONS) u"
        using later_migrations_move[of "max 1 k" 1 u env cfg] by (simp add: MIGRATIONS_def)
    qed
    ultimately show ?thesis using le by (simp add: st_bind_def moves_on_def max_absorb2)
  qed
  have assoc: "st_bind m (\<lambda>x. st_bind (f x) g) = st_bind (st_bind m f) g" for m :: "bool storage" and f :: "bool \<Rightarrow> unit storage" and g :: "unit \<Rightarrow> unit storage"
    by (auto simp: st_bind_def fun_eq_iff split: prod.splits sum.splits)
  show ?thesis
    unfolding apply_migrations_def assoc
    apply (rule moves_on_bind[OF stmt[OF assms]])
    apply (rule moves_on_bind[OF table], assumption)
    apply (rule moves_on_bind[OF stmt], assumption)
    apply (rule rest, assumption)
    done
qed

section \<open>Indexes, side tables and the whole initialisation\<close>

definition tidied :: "(string \<times> string) list \<Rightarrow> schema \<Rightarrow> schema \<Rightarrow> bool" where
  "tidied objects s t \<longleftrightarrow> sc_migrations t = sc_migrations s \<and> set objects \<subseteq> set (sc_objects t)
     \<and> set (sc_objects s) - {(''index'', REDUNDANT_EVENT_SEQUENCE_INDEX)} \<subseteq> set (sc_objects t)
     \<and> set (sc_objects t) \<subseteq> set (sc_objects s) \<union> set objects"

lemma tidied_migrated: "migrated 6 s \<Longrightarrow> tidied objects s t \<Longrightarrow> migrated 6 t"
  by (simp add: migrated_def recorded_def tidied_def)

lemma create_if_missing_frame:
  "sc_migrations (create_if_missing x s) = sc_migrations s" "set (sc_objects (create_if_missing x s)) = insert x (set (sc_objects s))"
  by (auto simp: create_if_missing_def)

lemma fold_create_frame:
  "sc_migrations (fold create_if_missing xs s) = sc_migrations s" "set (sc_objects (fold create_if_missing xs s)) = set xs \<union> set (sc_objects s)"
  by (induction xs arbitrary: s) (auto simp: create_if_missing_frame)

text \<open>A maintenance step on a migrated schema: it keeps it, creates its objects when it succeeds, and loses none.\<close>

definition maintains :: "storage_env \<Rightarrow> RegistryConfig \<Rightarrow> (string \<times> string) list \<Rightarrow> unit storage \<Rightarrow> bool" where
  "maintains env cfg objects m \<longleftrightarrow> (\<forall>s r t. m s = (r, t) \<longrightarrow>
     (t = s \<and> r \<noteq> Inr () \<or> tidied objects s t) \<and> (storage_healthy env cfg \<longrightarrow> r = Inr ()))"

lemma verify_object_same: "verify_object env c message x expected s = (r, t) \<Longrightarrow> t = s"
  by (simp add: verify_object_def)

lemma verify_each_same:
  "st_each (\<lambda>x. verify_object env (c x) (message x) (ob x) True) xs s = (r, t) \<Longrightarrow> t = s"
proof (induction xs arbitrary: r)
  case (Cons x xs)
  obtain r1 where v: "verify_object env (c x) (message x) (ob x) True s = (r1, s)" by (simp add: verify_object_def)
  show ?case using Cons v by (cases r1) (auto simp: st_bind_def)
qed (simp add: st_lift_def)

lemma verify_each_holds:
  assumes "storage_healthy env cfg" and "ob ` set xs \<subseteq> set (sc_objects s)"
  shows "fst (st_each (\<lambda>x. verify_object env (c x) (message x) (ob x) True) xs s) = Inr ()"
  using assms(2)
  by (induction xs) (auto simp: st_bind_def st_lift_def verify_object_def sql_statement_healthy[OF assms(1)])

lemma ensure_storage_maintains: "maintains env cfg objects (ensure_storage env what objects message)"
  unfolding maintains_def
proof (intro allI impI)
  fix s r t
  assume run: "ensure_storage env what objects message s = (r, t)"
  let ?body = "\<lambda>s. rbind (sql_statement env (''cannot ensure '' @ what @ '' storage'')) (\<lambda>_. Inr (fold create_if_missing objects s))"
    and ?tx = "storage_tx env (what @ '' storage maintenance'')" and ?c = "''cannot commit '' @ what @ '' storage maintenance''"
    and ?each = "st_each (\<lambda>x. verify_object env (''cannot verify '' @ what @ '' storage'') (message x) x True) objects"
  obtain r1 s1 where tx: "?tx ?body ?c s = (r1, s1)" by fastforce
  have made: "tidied objects s u" if "?body s = Inr u" for u
    using that by (auto simp: tidied_def fold_create_frame elim!: rbind_InrE)
  have outcome: "t = s1" using run tx verify_each_same unfolding ensure_storage_def st_bind_def
    by (auto split: sum.splits)
  have r: "r1 \<noteq> Inr () \<Longrightarrow> r = r1" "r1 = Inr () \<Longrightarrow> r = fst (?each s1)"
    using run tx unfolding ensure_storage_def st_bind_def by (auto split: sum.splits)
  note cases = storage_tx_cases[OF tx]
  have "t = s \<and> r \<noteq> Inr () \<or> tidied objects s t" using cases(1) made outcome r(1) by auto
  moreover have "r = Inr ()" if h: "storage_healthy env cfg"
  proof -
    have b: "?body s = Inr (fold create_if_missing objects s)" by (simp add: sql_statement_healthy[OF h])
    from cases(2)[OF h b] have "r1 = Inr ()" "s1 = fold create_if_missing objects s" by simp_all
    then show ?thesis using r(2) verify_each_holds[OF h, of "\<lambda>x. x" objects s1] by (simp add: fold_create_frame)
  qed
  ultimately show "(t = s \<and> r \<noteq> Inr () \<or> tidied objects s t) \<and> (storage_healthy env cfg \<longrightarrow> r = Inr ())" by blast
qed

lemma query_indexes_maintain:
  "maintains env cfg (map (\<lambda>(index, what). (''index'', index)) QUERY_INDEXES) (ensure_query_indexes env)"
  unfolding maintains_def
proof (intro allI impI)
  fix s r t
  assume run: "ensure_query_indexes env s = (r, t)"
  let ?objects = "map (\<lambda>(index, what). (''index'', index)) QUERY_INDEXES" and ?redundant = "(''index'', REDUNDANT_EVENT_SEQUENCE_INDEX)"
    and ?tx = "storage_tx env ''Runtime query index maintenance'' (query_indexes_body env) ''cannot commit Runtime query index maintenance''"
    and ?gone = "verify_object env ''cannot verify redundant Job event lookup index removal''
                ''redundant Job event lookup index remains after maintenance'' (''index'', REDUNDANT_EVENT_SEQUENCE_INDEX) False"
    and ?each = "st_each (\<lambda>x. verify_object env (''cannot verify '' @ snd x) (snd x @ '' is missing after maintenance'') (''index'', fst x) True) QUERY_INDEXES"
  have indexes: "fold_res (\<lambda>(index, what) s. rbind (sql_statement env (''cannot ensure '' @ what)) (\<lambda>_. Inr (create_if_missing (''index'', index) s))) xs u = Inr v
      \<Longrightarrow> v = fold create_if_missing (map (\<lambda>(index, what). (''index'', index)) xs) u" for xs u v
    by (induction xs arbitrary: u) (auto elim!: rbind_InrE)
  have made: "tidied ?objects s u \<and> ?redundant \<notin> set (sc_objects u)" if "query_indexes_body env s = Inr u" for u
  proof -
    have "u = fold create_if_missing ?objects (drop_if_exists ?redundant s)"
      using that unfolding query_indexes_body_def by (elim rbind_InrE) (rule indexes)
    moreover have "?redundant \<notin> set ?objects" by (simp add: QUERY_INDEXES_def REDUNDANT_EVENT_SEQUENCE_INDEX_def)
    ultimately show ?thesis by (auto simp: tidied_def fold_create_frame drop_if_exists_def)
  qed
  obtain r1 s1 where tx: "?tx s = (r1, s1)" by fastforce
  obtain r2 where gone: "?gone s1 = (r2, s1)" by (simp add: verify_object_def)
  have each: "(\<lambda>(index, what). verify_object env (''cannot verify '' @ what) (what @ '' is missing after maintenance'') (''index'', index) True)
    = (\<lambda>x. verify_object env (''cannot verify '' @ snd x) (snd x @ '' is missing after maintenance'') (''index'', fst x) True)"
    by (simp add: fun_eq_iff split_beta)
  have outcome: "t = s1" "r1 \<noteq> Inr () \<Longrightarrow> r = r1" "r1 = Inr () \<Longrightarrow> r2 = Inr () \<Longrightarrow> r = fst (?each s1)"
    using run tx gone verify_each_same unfolding ensure_query_indexes_def st_bind_def each by (auto split: sum.splits)
  note cases = storage_tx_cases[OF tx]
  have "t = s \<and> r \<noteq> Inr () \<or> tidied ?objects s t" using cases(1) made outcome by auto
  moreover have "r = Inr ()" if h: "storage_healthy env cfg"
  proof -
    have "fold_res (\<lambda>(index, what) s. rbind (sql_statement env (''cannot ensure '' @ what)) (\<lambda>_. Inr (create_if_missing (''index'', index) s))) xs u
        = Inr (fold create_if_missing (map (\<lambda>(index, what). (''index'', index)) xs) u)" for xs u
      by (induction xs arbitrary: u) (auto simp: sql_statement_healthy[OF h])
    then obtain u where b: "query_indexes_body env s = Inr u" unfolding query_indexes_body_def by (simp add: sql_statement_healthy[OF h])
    from cases(2)[OF h b] have ok: "r1 = Inr ()" "s1 = u" by simp_all
    have "r2 = Inr ()" using gone made[OF b] ok by (auto simp: verify_object_def sql_statement_healthy[OF h])
    moreover have "fst (?each s1) = Inr ()"
      using made[OF b] ok by (intro verify_each_holds[OF h]) (auto simp: tidied_def)
    ultimately show ?thesis using outcome(3) ok by simp
  qed
  ultimately show "(t = s \<and> r \<noteq> Inr () \<or> tidied ?objects s t) \<and> (storage_healthy env cfg \<longrightarrow> r = Inr ())" by blast
qed

lemma maintainsD: "maintains env cfg objects m \<Longrightarrow> m s = (Inr (), t) \<Longrightarrow> tidied objects s t"
  unfolding maintains_def by blast

lemma moves_on_maintains:
  assumes "migrated 6 s" and "maintains env cfg objects m"
  shows "moves_on env cfg 6 6 m s"
  using assms tidied_migrated unfolding maintains_def moves_on_def by (cases "m s") fastforce

lemma side_tables_maintain:
  "maintains env cfg [(''table'', ''job_execution_providers'')] (ensure_execution_provider_storage env)"
  "maintains env cfg [(''table'', ''attempt_supervisor_owners'')] (ensure_attempt_supervisor_owner_storage env)"
  "maintains env cfg [(''table'', ''job_host_dependencies'')] (ensure_host_dependency_storage env)"
  "maintains env cfg [(''table'', ''job_runtime_release_effects''), (''index'', ''idx_runtime_release_effect_request'')]
     (ensure_runtime_release_storage env)"
  unfolding ensure_execution_provider_storage_def ensure_attempt_supervisor_owner_storage_def ensure_host_dependency_storage_def
    ensure_runtime_release_storage_def by (rule ensure_storage_maintains)+

lemma prepare_store_healthy: "storage_healthy env cfg \<Longrightarrow> prepare_store env cfg = Inr ()"
  by (auto simp: prepare_store_def storage_healthy_def create_private_directory_def set_private_file_def storage_file_def split: option.splits)

lemma initialize_moves:
  assumes "migrated k s"
  shows "moves_on env cfg k 6 (registry_initialize env cfg) s"
proof -
  have lift: "moves_on env cfg j j (st_lift r) t" if "migrated j t" "storage_healthy env cfg \<Longrightarrow> r = Inr ()" for j t r
    using moves_on_lift[OF that] .
  show ?thesis
    unfolding registry_initialize_def
    apply (rule moves_on_bind[OF lift[OF assms prepare_store_healthy]], assumption)
    apply (rule moves_on_bind[OF lift], assumption, simp add: storage_healthy_def)
    apply (rule moves_on_bind[OF lift], assumption, simp add: ensure_wal_mode_def sql_statement_def storage_healthy_def)
    apply (rule moves_on_bind[OF apply_migrations_move], assumption)
    apply (rule moves_on_bind[OF moves_on_maintains[OF _ query_indexes_maintain]], assumption)
    apply (rule moves_on_bind[OF moves_on_maintains[OF _ side_tables_maintain(1)]], assumption)
    apply (rule moves_on_bind[OF moves_on_maintains[OF _ side_tables_maintain(2)]], assumption)
    apply (rule moves_on_bind[OF moves_on_maintains[OF _ side_tables_maintain(3)]], assumption)
    apply (rule moves_on_bind[OF moves_on_maintains[OF _ side_tables_maintain(4)]], assumption)
    apply (rule lift, assumption, simp add: set_private_file_def storage_file_def storage_healthy_def)
    done
qed

lemma st_bindE:
  assumes "st_bind m f s = (Inr y, t)"
  obtains x u where "m s = (Inr x, u)" "f x u = (Inr y, t)"
  using assms by (auto simp: st_bind_def split: prod.splits sum.splits)

lemma query_indexes_gone:
  assumes "ensure_query_indexes env s = (Inr (), t)"
  shows "(''index'', REDUNDANT_EVENT_SEQUENCE_INDEX) \<notin> set (sc_objects t)"
proof -
  have each: "(\<lambda>(index, what). verify_object env (''cannot verify '' @ what) (what @ '' is missing after maintenance'') (''index'', index) True)
    = (\<lambda>x. verify_object env (''cannot verify '' @ snd x) (snd x @ '' is missing after maintenance'') (''index'', fst x) True)"
    by (simp add: fun_eq_iff split_beta)
  from assms show ?thesis
    unfolding ensure_query_indexes_def each
  proof (elim st_bindE)
    fix u v x y
    assume gone: "verify_object env ''cannot verify redundant Job event lookup index removal''
        ''redundant Job event lookup index remains after maintenance'' (''index'', REDUNDANT_EVENT_SEQUENCE_INDEX) False u = (Inr y, v)"
      and each: "st_each (\<lambda>x. verify_object env (''cannot verify '' @ snd x) (snd x @ '' is missing after maintenance'') (''index'', fst x) True)
        QUERY_INDEXES v = (Inr (), t)"
    have "(''index'', REDUNDANT_EVENT_SEQUENCE_INDEX) \<notin> set (sc_objects v)"
      using gone unfolding verify_object_def by (auto elim!: rbind_InrE split: if_splits)
    then show ?thesis using verify_each_same[OF each] by simp
  qed
qed

lemma tidied_steps:
  assumes "tidied objects s t" and "(''index'', REDUNDANT_EVENT_SEQUENCE_INDEX) \<notin> set objects"
    and "have \<subseteq> set (sc_objects s)" and "(''index'', REDUNDANT_EVENT_SEQUENCE_INDEX) \<notin> set (sc_objects s)"
  shows "have \<union> set objects \<subseteq> set (sc_objects t)" and "(''index'', REDUNDANT_EVENT_SEQUENCE_INDEX) \<notin> set (sc_objects t)"
proof -
  have t: "set objects \<subseteq> set (sc_objects t)" "set (sc_objects s) - {(''index'', REDUNDANT_EVENT_SEQUENCE_INDEX)} \<subseteq> set (sc_objects t)"
    "set (sc_objects t) \<subseteq> set (sc_objects s) \<union> set objects"
    using assms(1) unfolding tidied_def by simp_all
  have "set (sc_objects s) - {(''index'', REDUNDANT_EVENT_SEQUENCE_INDEX)} = set (sc_objects s)"
    by (rule Diff_insert0[OF assms(4), of "{}", unfolded Diff_empty])
  then have "have \<subseteq> set (sc_objects t)" using t(2) assms(3) by simp
  then show "have \<union> set objects \<subseteq> set (sc_objects t)" using t(1) by (rule Un_least)
  show "(''index'', REDUNDANT_EVENT_SEQUENCE_INDEX) \<notin> set (sc_objects t)"
  proof
    assume "(''index'', REDUNDANT_EVENT_SEQUENCE_INDEX) \<in> set (sc_objects t)"
    from subsetD[OF t(3) this] assms(2,4) show False by (simp only: Un_iff simp_thms)
  qed
qed

lemma initialize_complete:
  assumes "registry_initialize env cfg s = (Inr (), t)"
  shows "set SIDE_OBJECTS \<subseteq> set (sc_objects t)" "(''index'', REDUNDANT_EVENT_SEQUENCE_INDEX) \<notin> set (sc_objects t)"
proof -
  obtain s0 s1 s2 s3 s4 where i: "ensure_query_indexes env s0 = (Inr (), s1)" "ensure_execution_provider_storage env s1 = (Inr (), s2)"
      "ensure_attempt_supervisor_owner_storage env s2 = (Inr (), s3)" "ensure_host_dependency_storage env s3 = (Inr (), s4)"
      "ensure_runtime_release_storage env s4 = (Inr (), t)"
    using assms unfolding registry_initialize_def by (elim st_bindE) (auto simp: st_lift_def)
  note m = maintainsD[OF side_tables_maintain(1) i(2)] maintainsD[OF side_tables_maintain(2) i(3)]
    maintainsD[OF side_tables_maintain(3) i(4)] maintainsD[OF side_tables_maintain(4) i(5)]
  have names: "(''index'', REDUNDANT_EVENT_SEQUENCE_INDEX) \<notin> set [(''table'', ''job_execution_providers'')]"
      "(''index'', REDUNDANT_EVENT_SEQUENCE_INDEX) \<notin> set [(''table'', ''attempt_supervisor_owners'')]"
      "(''index'', REDUNDANT_EVENT_SEQUENCE_INDEX) \<notin> set [(''table'', ''job_host_dependencies'')]"
      "(''index'', REDUNDANT_EVENT_SEQUENCE_INDEX) \<notin> set [(''table'', ''job_runtime_release_effects''), (''index'', ''idx_runtime_release_effect_request'')]"
    by (simp_all add: REDUNDANT_EVENT_SEQUENCE_INDEX_def)
  have first: "set (map (\<lambda>(index, what). (''index'', index)) QUERY_INDEXES) \<subseteq> set (sc_objects s1)"
    using maintainsD[OF query_indexes_maintain i(1)] unfolding tidied_def by blast
  note p1 = tidied_steps[OF m(1) names(1) first query_indexes_gone[OF i(1)]]
  note p2 = tidied_steps[OF m(2) names(2) p1]
  note p3 = tidied_steps[OF m(3) names(3) p2]
  note p4 = tidied_steps[OF m(4) names(4) p3]
  show "set SIDE_OBJECTS \<subseteq> set (sc_objects t)"
    using p4(1) unfolding SIDE_OBJECTS_def set_append list.set Un_insert_right Un_empty_right by (simp only: insert_subset simp_thms)
  show "(''index'', REDUNDANT_EVENT_SEQUENCE_INDEX) \<notin> set (sc_objects t)" by (rule p4(2))
qed

text \<open>
  C30. An interrupted initialisation resumes.  From an empty database, or from one with the first \<open>k\<close>
  migrations, opening the registry leaves a database with at least those migrations in their order and
  with the compiled checksums, wherever it failed: at a statement, at a commit that was or was not
  durable, or at a file.  When it succeeds, all six migrations are recorded, the side tables and lookup
  indexes exist and the redundant one is gone; and opening what any failure left behind succeeds once
  the host is healthy.
\<close>

theorem interrupted_initialize_resumes:
  assumes "migrated k s" and "registry_initialize env cfg s = (answer, s')"
  shows "(\<exists>j \<ge> k. migrated j s' \<and> (answer = Inr () \<longrightarrow> j = 6))
    \<and> (answer = Inr () \<longrightarrow> set SIDE_OBJECTS \<subseteq> set (sc_objects s') \<and> (''index'', REDUNDANT_EVENT_SEQUENCE_INDEX) \<notin> set (sc_objects s'))
    \<and> (storage_healthy env' cfg' \<longrightarrow> fst (registry_initialize env' cfg' s') = Inr ())"
proof (intro conjI impI)
  show now: "\<exists>j \<ge> k. migrated j s' \<and> (answer = Inr () \<longrightarrow> j = 6)"
    using initialize_moves[OF assms(1), of env cfg] assms(2) unfolding moves_on_def by simp
  show "set SIDE_OBJECTS \<subseteq> set (sc_objects s')" "(''index'', REDUNDANT_EVENT_SEQUENCE_INDEX) \<notin> set (sc_objects s')" if "answer = Inr ()"
    using initialize_complete[of env cfg s s'] assms(2) that by simp_all
  from now obtain j where "migrated j s'" by blast
  from initialize_moves[OF this, of env' cfg'] show "fst (registry_initialize env' cfg' s') = Inr ()" if "storage_healthy env' cfg'"
    using that unfolding moves_on_def by (cases "registry_initialize env' cfg' s'") simp
qed

definition storage_example :: storage_env where
  "storage_example = \<lparr>sg_sql = \<lparr>te_open = (\<lambda>_. None), te_begin = None, te_commit = CommitDone, te_reload = None, te_uuid = (\<lambda>_. [])\<rparr>,
     sg_fault = (\<lambda>_. None), sg_commit = (\<lambda>_. CommitDone), sg_journal_mode = ''wal'', sg_clock = Inr 1000, sg_file = (\<lambda>_ _. None)\<rparr>"

definition storage_example_crash :: storage_env where
  "storage_example_crash = storage_example\<lparr>sg_commit := (\<lambda>context. if context = ''cannot commit initial migration''
     then CommitFailed True (SqliteFailure OtherSqliteCode ''disk I/O error'') else CommitDone)\<rparr>"

definition storage_example_config :: RegistryConfig where
  "storage_example_config = \<lparr>rc_db_path = ''/var/registry.db'', rc_store_root = ''/var/store'', rc_busy_timeout_ms = 5000\<rparr>"

definition empty_schema :: schema where
  "empty_schema = \<lparr>sc_migrations = None, sc_objects = []\<rparr>"

definition registry_failed :: "unit result \<times> schema \<Rightarrow> bool" where
  "registry_failed x = (case fst x of Inl e \<Rightarrow> True | Inr _ \<Rightarrow> False)"

theorem interrupted_initialize_resumes_witness:
  "registry_failed (registry_initialize storage_example_crash storage_example_config empty_schema)
   \<and> (\<exists>j. migrated j (snd (registry_initialize storage_example_crash storage_example_config empty_schema)))
   \<and> fst (registry_initialize storage_example storage_example_config
       (snd (registry_initialize storage_example_crash storage_example_config empty_schema))) = Inr ()"
proof -
  have "storage_healthy storage_example storage_example_config"
    by (simp add: storage_healthy_def storage_example_def storage_example_config_def now_ms_def open_connection_def registry_config_validate_def
      path_is_absolute_def starts_with_def eq_ignore_ascii_case_def)
  moreover have "registry_failed (registry_initialize storage_example_crash storage_example_config empty_schema)"
    by (simp add: registry_failed_def registry_initialize_def st_bind_def st_lift_def prepare_store_def registry_config_validate_def
      storage_example_crash_def storage_example_def storage_example_config_def path_is_absolute_def starts_with_def create_private_directory_def
      set_private_file_def storage_file_def open_connection_def ensure_wal_mode_def eq_ignore_ascii_case_def sql_statement_def
      apply_migrations_def empty_schema_def run_migration_def storage_tx_def migration_body_def migration_conflict_def now_ms_def
      MIGRATION_V1_def split: option.splits)
  moreover have "migrated 0 empty_schema" by (simp add: migrated_def recorded_def empty_schema_def)
  ultimately show ?thesis
    using interrupted_initialize_resumes[of 0 empty_schema storage_example_crash storage_example_config, OF _ prod.collapse[symmetric]]
    by blast
qed

end
