(* ===== verification/Doctor_Guarantees.thy ===== *)
theory Doctor_Guarantees
  imports Proposal_Guarantees Confinement_Guarantees Recovery_Guarantees Query_Guarantees
begin

text \<open>
  What the Doctor's report says of the database, and what the repair built on it leaves behind.
\<close>

lemma ebind_InrE:
  assumes "ebind m f s = (Inr y, t)"
  obtains x u where "m s = (Inr x, u)" "f x u = (Inr y, t)"
  using assms by (auto simp: ebind_def split: prod.splits sum.splits)

section \<open>What a report describes\<close>

definition state_counts :: "string list \<Rightarrow> (string \<times> nat) list" where
  "state_counts states = map (\<lambda>state. (state, length (filter (\<lambda>s. s = state) states))) (sort (remdups states))"

definition case_key :: "RuntimeDoctorCase \<Rightarrow> string \<times> string list" where
  "case_key c = (da_attempt_id (case_attempt c), case_violation_codes c)"

definition describes :: "registry \<Rightarrow> RuntimeDoctorReport \<Rightarrow> bool" where
  "describes db report \<longleftrightarrow>
     rep_violations report = sort_key (\<lambda>v. (v_job_id v, v_attempt_id v, v_code v)) (inspect_runtime_invariants db)
     \<and> rep_violation_count report = length (inspect_runtime_invariants db)
     \<and> map case_key (rep_cases report) = by_attempt (rep_violations report)
     \<and> ds_jobs_total (rep_summary report) = length (jobs db)
     \<and> ds_unresolved_jobs (rep_summary report) = length (filter (\<lambda>j. j_resolution j = None) (jobs db))
     \<and> ds_reservations_by_state (rep_summary report) = state_counts (map (\<lambda>r. reservation_as_db (r_state r)) (reservations db))
     \<and> (\<exists>conditions. ds_recovery_required_attempts (rep_summary report)
            = recovery_required_count (rep_migration_version report) conditions db
          \<and> ds_capacity_holders (rep_summary report)
            = take MAX_DOCTOR_CAPACITY_HOLDERS (capacity_holder_rows (rep_migration_version report) conditions db)
          \<and> ds_capacity_holders_truncated (rep_summary report)
            = (length (capacity_holder_rows (rep_migration_version report) conditions db) > MAX_DOCTOR_CAPACITY_HOLDERS))
     \<and> ds_status (rep_summary report) = doctor_status (rep_violations report) (rep_summary report)"

lemma returns_mono: "returns m P \<Longrightarrow> (\<And>x. P x \<Longrightarrow> Q x) \<Longrightarrow> returns m Q"
  unfolding returns_def by blast

lemma returns_count: "returns (count_query w rt context n) (\<lambda>x. x = n)"
  unfolding count_query_def by (intro returns_bind returns_eret) simp

lemma returns_grouped: "returns (grouped_counts w rt context states) (\<lambda>x. x = state_counts states)"
  unfolding grouped_counts_def state_counts_def by (intro returns_bind returns_eret) simp

lemma returns_same_rows: "returns (emap (\<lambda>row. ebind (m row) (\<lambda>_. eret row)) rows) (\<lambda>x. x = rows)"
proof -
  have "returns (emap (\<lambda>row. ebind (m row) (\<lambda>_. eret row)) rows) (\<lambda>ys. list_all2 (\<lambda>row y. y = row) rows ys)"
    by (rule emap_returns) (intro returns_bind returns_eret, simp)
  moreover have "list_all2 (\<lambda>row y. y = row) rows ys \<longleftrightarrow> ys = rows" for ys
    by (auto simp: list_all2_conv_all_nth intro: nth_equalityI)
  ultimately show ?thesis by simp
qed

lemma returns_summary:
  "returns (inspect_summary w rt db conditions version) (\<lambda>x.
     ds_jobs_total x = length (jobs db)
     \<and> ds_unresolved_jobs x = length (filter (\<lambda>j. j_resolution j = None) (jobs db))
     \<and> ds_reservations_by_state x = state_counts (map (\<lambda>r. reservation_as_db (r_state r)) (reservations db))
     \<and> ds_recovery_required_attempts x = recovery_required_count version conditions db
     \<and> ds_capacity_holders x = take MAX_DOCTOR_CAPACITY_HOLDERS (capacity_holder_rows version conditions db)
     \<and> ds_capacity_holders_truncated x = (length (capacity_holder_rows version conditions db) > MAX_DOCTOR_CAPACITY_HOLDERS))"
  unfolding inspect_summary_def
  apply (rule returns_then[OF returns_count])
  apply (rule returns_then[OF returns_count])
  apply (rule returns_then[OF returns_count])
  apply (rule returns_then[OF returns_count])
  apply (rule returns_then[OF returns_count])
  apply (rule returns_then[OF returns_grouped])
  apply (rule returns_then[OF returns_grouped])
  apply (rule returns_bind)
  apply (rule returns_bind)
  apply (rule returns_then[OF returns_same_rows])
  apply (rule returns_eret)
  apply simp
  done

lemma returns_case: "returns (doctor_case w rt cfg db entry) (\<lambda>c. case_key c = entry)"
  unfolding doctor_case_def Let_def
proof (rule returns_then)
  show "returns (elift (load_attempt db (fst entry))) (\<lambda>a. a_attempt_id a = fst entry)"
    by (rule returns_lifted) (auto simp: load_attempt_eq_Inr dest: tbl_lookup_SomeD)
next
  fix attempt :: AttemptRecord
  assume id: "a_attempt_id attempt = fst entry"
  show "returns (ebind (elift (load_job db (a_job_id attempt))) (\<lambda>job.
      ebind (elift (load_reservation db (fst entry))) (\<lambda>reservation.
      ebind (if same_path (a_bundle_path attempt) (path_join (path_join (dc_store_root cfg) ''attempts'') (a_attempt_id attempt))
             then path_is_file rt (path_join (path_join (path_join (dc_store_root cfg) ''attempts'') (a_attempt_id attempt)) RESULT_FILE)
             else eret False) (\<lambda>runner_result_present.
      ebind (if same_path (a_bundle_path attempt) (path_join (path_join (dc_store_root cfg) ''attempts'') (a_attempt_id attempt))
             then path_is_file rt (path_join (path_join (path_join (dc_store_root cfg) ''attempts'') (a_attempt_id attempt)) ''control-result.json'')
             else eret False) (\<lambda>control_result_present.
      ebind (if same_path (a_bundle_path attempt) (path_join (path_join (dc_store_root cfg) ''attempts'') (a_attempt_id attempt))
             then propose_repair rt job attempt reservation runner_result_present
             else eret (ManualReview [''Attempt bundle path is outside the canonical Registry store''])) (\<lambda>proposal.
      eret (\<lparr>case_job = job_state job, case_attempt = attempt_state attempt, case_reservation = reservation_state reservation,
            case_violation_codes = snd entry, case_runner_result_present = runner_result_present,
            case_control_result_present = control_result_present, case_fingerprint_text = [], case_proposal = proposal\<rparr>
          \<lparr>case_fingerprint_text := case_fingerprint w rt
            \<lparr>case_job = job_state job, case_attempt = attempt_state attempt, case_reservation = reservation_state reservation,
            case_violation_codes = snd entry, case_runner_result_present = runner_result_present,
            case_control_result_present = control_result_present, case_fingerprint_text = [], case_proposal = proposal\<rparr>\<rparr>)))))))
     (\<lambda>c. case_key c = entry)"
    by (intro returns_bind returns_eret) (simp add: case_key_def attempt_state_def id)
qed

lemma returns_cases: "returns (emap (doctor_case w rt cfg db) entries) (\<lambda>cs. map case_key cs = entries)"
proof -
  have "returns (emap (doctor_case w rt cfg db) entries) (\<lambda>cs. list_all2 (\<lambda>e c. case_key c = e) entries cs)"
    by (rule emap_returns) (rule returns_case)
  moreover have "list_all2 (\<lambda>e c. case_key c = e) entries cs \<Longrightarrow> map case_key cs = entries" for cs
    by (auto simp: list_all2_conv_all_nth intro: nth_equalityI)
  ultimately show ?thesis unfolding returns_def by blast
qed

lemma doctor_status_update [simp]: "doctor_status vs (x\<lparr>ds_status := status\<rparr>) = doctor_status vs x"
  by (simp add: doctor_status_def)

text \<open>The report describes one state of the database on the way.\<close>

context engine_asks
begin

lemma inspect_runtime_snapshot:
  assumes "inspect_runtime w rt dcfg s = (Inr report, t)"
  obtains u where "R s u" "R u t" "describes (es_db u) report"
proof -
  obtain x1 s1 checked s2 db s3 cases s4 counted s5 now s6 where
    run: "doctor_validate_config rt dcfg s = (Inr x1, s1)" "doctor_checks w rt dcfg s1 = (Inr checked, s2)"
      "registry_read rt (\<lambda>_ db. Inr db) s2 = (Inr db, s3)"
      "emap (doctor_case w rt dcfg db) (by_attempt (sort_key (\<lambda>v. (v_job_id v, v_attempt_id v, v_code v)) (inspect_runtime_invariants db))) s3
         = (Inr cases, s4)"
      "inspect_summary w rt db (snd (snd checked)) (fst (snd checked)) s4 = (Inr counted, s5)"
      "doctor_now_ms rt s5 = (Inr now, t)"
    and report: "rep_violations report = sort_key (\<lambda>v. (v_job_id v, v_attempt_id v, v_code v)) (inspect_runtime_invariants db)"
      "rep_violation_count report = length (inspect_runtime_invariants db)" "rep_cases report = cases"
      "rep_summary report = counted\<lparr>ds_status := doctor_status (rep_violations report) counted\<rparr>"
      "rep_migration_version report = fst (snd checked)"
    using assms unfolding inspect_runtime_def Let_def case_prod_beta
    by (elim ebind_InrE, elim that) (auto simp: eret_def)
  have db: "db = es_db s3" using run(3) by (auto simp: registry_read_def Let_def)
  have "R s s3" by (rule R_trans[OF keepsD[OF doctor_validate_config_keeps run(1)]
        R_trans[OF keepsD[OF doctor_checks_keeps run(2)] keepsD[OF registry_read_keeps run(3)]]])
  moreover have "R s3 t"
    by (rule R_trans[OF keepsD[OF emap_keeps[OF doctor_case_keeps] run(4)]
        R_trans[OF keepsD[OF inspect_summary_keeps run(5)] keepsD[OF doctor_now_ms_keeps run(6)]]])
  moreover have "describes (es_db s3) report"
    using report returns_cases[unfolded returns_def, rule_format, OF run(4)]
      returns_summary[unfolded returns_def, rule_format, OF run(5)]
    unfolding describes_def db[symmetric] by auto
  ultimately show ?thesis by (rule that)
qed

end

section \<open>The Doctor on a reachable database\<close>

lemma state_counts_lookup:
  "map_of (state_counts xs) k = (if k \<in> set xs then Some (length (filter (\<lambda>s. s = k) xs)) else None)"
proof -
  have "map_of (map (\<lambda>k. (k, f k)) ks) k = (if k \<in> set ks then Some (f k) else None)" for f :: "string \<Rightarrow> nat" and ks
    by (induction ks) auto
  then show ?thesis by (simp add: state_counts_def)
qed

lemma state_counts_zero:
  "(case map_of (state_counts xs) k of None \<Rightarrow> 0 | Some n \<Rightarrow> n) = 0 \<longleftrightarrow> k \<notin> set xs"
  by (auto simp: state_counts_lookup filter_empty_conv)

lemma linked_held:
  assumes "reg_inv db" and "linked db j a r"
  shows "r_state r = HeldOrphaned \<longleftrightarrow> a_state a = Orphaned"
  using linked_wf[OF assms]
  by (cases "j_resolution j") (auto simp: wf_view_def resolution_agrees_def view_of_def terminal_reservation_def)

lemma held_iff_orphaned:
  assumes inv: "reg_inv db"
  shows "''held_orphaned'' \<in> set (map (\<lambda>r. reservation_as_db (r_state r)) (reservations db))
    \<longleftrightarrow> (\<exists>a \<in> set (attempts db). a_state a = Orphaned)"
proof -
  have name: "''held_orphaned'' = reservation_as_db st \<longleftrightarrow> st = HeldOrphaned" for st by (cases st) simp_all
  have "(\<exists>r \<in> set (reservations db). r_state r = HeldOrphaned) \<longleftrightarrow> (\<exists>a \<in> set (attempts db). a_state a = Orphaned)"
  proof
    assume "\<exists>r \<in> set (reservations db). r_state r = HeldOrphaned"
    then obtain r where r: "r \<in> set (reservations db)" "r_state r = HeldOrphaned" by blast
    from reservation_linked[OF inv r(1)] obtain j a where "linked db j a r" .
    then show "\<exists>a \<in> set (attempts db). a_state a = Orphaned"
      using linked_held[OF inv] r(2) unfolding linked_def by blast
  next
    assume "\<exists>a \<in> set (attempts db). a_state a = Orphaned"
    then obtain a where a: "a \<in> set (attempts db)" "a_state a = Orphaned" by blast
    from attempt_row_linked[OF inv a(1)] obtain j r where "linked db j a r" .
    then show "\<exists>r \<in> set (reservations db). r_state r = HeldOrphaned"
      using linked_held[OF inv] a(2) unfolding linked_def by blast
  qed
  then show ?thesis by (simp add: image_iff name)
qed

lemma capacity_holders_exact:
  assumes inv: "reg_inv db" and "length (capacity_holder_rows version conditions db) \<le> MAX_DOCTOR_CAPACITY_HOLDERS"
  shows "dh_attempt_id ` set (capacity_holder_rows version conditions db)
    = {a_attempt_id a | a. a \<in> set (attempts db) \<and> (\<not> is_terminal (a_state a) \<or> a_state a = Orphaned)}"
proof -
  let ?rows = "concat (map (\<lambda>r. concat (map (\<lambda>a. concat (map (\<lambda>j.
       if a_attempt_id a = r_attempt_id r \<and> j_job_id j = a_job_id a \<and> r_state r \<in> {Active, HeldOrphaned}
       then [((r_acquired_at_ms r, j_job_id j),
         \<lparr>dh_job_id = j_job_id j, dh_workspace_id = j_workspace_id j, dh_attempt_id = a_attempt_id a,
          dh_attempt_state = a_state a, dh_reservation_state = r_state r,
          dh_recovery_required =
            (if version \<ge> CONDITION_RETIREMENT_MIGRATION_VERSION then recovery_active a
             else list_ex (\<lambda>c. acn_attempt_id c = a_attempt_id a \<and> recovery_condition c) conditions)\<rparr>)] else [])
       (jobs db))) (attempts db))) (reservations db))"
  have rows: "capacity_holder_rows version conditions db = map snd (take (MAX_DOCTOR_CAPACITY_HOLDERS + 1) (sort_key fst ?rows))"
    by (simp only: capacity_holder_rows_def)
  then have "length (sort_key fst ?rows) \<le> MAX_DOCTOR_CAPACITY_HOLDERS" using assms(2) by simp
  then have "set (capacity_holder_rows version conditions db) = snd ` set ?rows" using rows by simp
  moreover have "dh_attempt_id ` snd ` set ?rows = {a_attempt_id a | j a r. linked db j a r \<and> r_state r \<in> {Active, HeldOrphaned}}"
    by (auto simp: linked_def image_iff split: if_splits) metis+
  moreover have "\<dots> = {a_attempt_id a | a. a \<in> set (attempts db) \<and> (\<not> is_terminal (a_state a) \<or> a_state a = Orphaned)}"
  proof -
    have "(\<exists>j r. linked db j a r \<and> r_state r \<in> {Active, HeldOrphaned})
        \<longleftrightarrow> a \<in> set (attempts db) \<and> (\<not> is_terminal (a_state a) \<or> a_state a = Orphaned)" for a
      using linked_holds(3)[OF inv] attempt_row_linked[OF inv] unfolding holds_capacity_def
      by (metis linked_def)
    then show ?thesis by blast
  qed
  ultimately show ?thesis by simp
qed


section \<open>Repairs on a store at rest\<close>

text \<open>Nobody else writes: asking leaves the database and the effects where they are.\<close>

definition others_idle :: "runtime \<Rightarrow> bool" where
  "others_idle rt \<longleftrightarrow> (\<forall>n db. io_others (rt_io rt) n db = db)"

definition still :: "runtime \<Rightarrow> engine_state \<Rightarrow> engine_state \<Rightarrow> bool" where
  "still rt s t \<longleftrightarrow> (others_idle rt \<longrightarrow> es_db t = es_db s \<and> es_log t = es_log s)"

interpretation still: engine_asks rt "still rt" for rt
  by unfold_locales (auto simp: still_def others_idle_def advance_def)

definition at_rest :: "registry \<Rightarrow> (world_effect \<times> registry) list \<Rightarrow> engine_state \<Rightarrow> bool" where
  "at_rest db log s \<longleftrightarrow> es_db s = db \<and> es_log s = log"

definition repaired :: "registry \<Rightarrow> (world_effect \<times> registry) list \<Rightarrow> engine_state \<Rightarrow> bool" where
  "repaired db log s \<longleftrightarrow> es_log s = log \<and> (es_db s = db \<or> inspect_runtime_invariants (es_db s) = [])"

lemma ensures_with: "(R \<Longrightarrow> ensures I P m Q) \<Longrightarrow> ensures I (\<lambda>s. R \<and> P s) m Q"
  by (cases R) (simp_all add: ensures_def)

lemma ensures_asked:
  assumes "others_idle rt" and "keeps (still rt) m" and "returns m P"
    and "\<And>s. at_rest db log s \<Longrightarrow> I s" and "\<And>x. P x \<Longrightarrow> ensures I (at_rest db log) (f x) Q"
  shows "ensures I (at_rest db log) (ebind m f) Q"
proof (rule ensures_bind)
  show "ensures I (at_rest db log) m (\<lambda>x s. P x \<and> at_rest db log s)"
    unfolding ensures_def
  proof (intro allI impI)
    fix s assume s: "at_rest db log s"
    obtain r t where m: "m s = (r, t)" by fastforce
    have "at_rest db log t" using keepsD[OF assms(2) m] assms(1) s by (simp add: still_def at_rest_def)
    then show "case m s of (Inl _, t) \<Rightarrow> I t | (Inr x, t) \<Rightarrow> P x \<and> at_rest db log t"
      using assms(3,4) m unfolding returns_def by (auto split: sum.splits)
  qed
  show "ensures I (\<lambda>s. P x \<and> at_rest db log s) (f x) Q" for x
    by (rule ensures_with) (rule assms(5))
qed

lemma ensures_lifted:
  assumes "\<And>s. P s \<Longrightarrow> I s" and "\<And>x. r = Inr x \<Longrightarrow> ensures I P (f x) Q"
  shows "ensures I P (ebind (elift r) f) Q"
proof (cases r)
  case (Inr x)
  then show ?thesis using assms(2)[of x] unfolding ensures_def ebind_def elift_def by simp
qed (use assms(1) in \<open>simp add: ensures_def ebind_def elift_def\<close>)

lemma ensures_inspected:
  assumes idle: "others_idle rt" and "\<And>s. at_rest db log s \<Longrightarrow> I s"
    and "\<And>report. describes db report \<Longrightarrow> ensures I (at_rest db log) (f report) Q"
  shows "ensures I (at_rest db log) (ebind (inspect_runtime w rt dcfg) f) Q"
proof (rule ensures_bind)
  show "ensures I (at_rest db log) (inspect_runtime w rt dcfg) (\<lambda>x s. describes db x \<and> at_rest db log s)"
    unfolding ensures_def
  proof (intro allI impI)
    fix s assume s: "at_rest db log s"
    obtain r t where m: "inspect_runtime w rt dcfg s = (r, t)" by fastforce
    have t: "at_rest db log t" using keepsD[OF still.inspect_runtime_keeps m] idle s by (simp add: still_def at_rest_def)
    show "case inspect_runtime w rt dcfg s of (Inl _, t) \<Rightarrow> I t | (Inr x, t) \<Rightarrow> describes db x \<and> at_rest db log t"
    proof (cases r)
      case (Inr report)
      from still.inspect_runtime_snapshot[OF m[unfolded Inr]] obtain u where "still rt s u" "describes (es_db u) report" by blast
      then have "describes db report" using idle s by (simp add: still_def at_rest_def)
      then show ?thesis using m Inr t by simp
    qed (use m t assms(2) in simp)
  qed
  show "ensures I (\<lambda>s. describes db x \<and> at_rest db log s) (f x) Q" for x
    by (rule ensures_with) (rule assms(3))
qed

lemma ensures_repair_batch:
  assumes idle: "others_idle rt"
    and "\<And>db'. inspect_runtime_invariants db' = [] \<Longrightarrow> ensures (repaired db log) (at_rest db' log) (f ()) Q"
  shows "ensures (repaired db log) (at_rest db log) (ebind (repair_admin_batch_now rt operations) f) Q"
  unfolding ensures_def
proof (intro allI impI)
  fix s assume s: "at_rest db log s"
  let ?out = "repair_admin_batch (rt_host rt) (io_sql (rt_io rt) (es_tick s)) db operations"
  obtain answer db' where out: "?out = (answer, db')" by fastforce
  obtain t where run: "repair_admin_batch_now rt operations s = (answer, t)" "es_db t = db'" "es_log t = log"
    using s idle out unfolding repair_admin_batch_now_def registry_op_def Let_def
    by (simp add: at_rest_def advance_def others_idle_def)
  note batch = repair_batch_all_or_nothing[OF out]
  show "case ebind (repair_admin_batch_now rt operations) f s of (Inl _, t) \<Rightarrow> repaired db log t | (Inr x, t) \<Rightarrow> Q x t"
  proof (cases answer)
    case (Inl e)
    then show ?thesis using run batch by (auto simp: ebind_def repaired_def)
  next
    case (Inr x)
    then have "inspect_runtime_invariants db' = []" using batch by simp
    from assms(2)[OF this] show ?thesis using run Inr unfolding ensures_def by (simp add: ebind_def at_rest_def)
  qed
qed

text \<open>The cases of a report belong to the Attempts its violations name.\<close>

lemma by_attempt_entries:
  "fst ` set (by_attempt vs) = {k. \<exists>v \<in> set vs. v_attempt_id v = Some k}"
  "entry \<in> set (by_attempt vs) \<Longrightarrow> snd entry \<noteq> []"
proof -
  have keys: "set (sort (remdups (List.map_filter v_attempt_id vs))) = {k. \<exists>v \<in> set vs. v_attempt_id v = Some k}"
    by (auto simp: List.map_filter_def image_iff) (metis option.sel)
  show "fst ` set (by_attempt vs) = {k. \<exists>v \<in> set vs. v_attempt_id v = Some k}"
    unfolding by_attempt_def using keys by (simp add: image_image)
  show "snd entry \<noteq> []" if "entry \<in> set (by_attempt vs)"
  proof -
    from that keys obtain k v where k: "entry = (k, sort (remdups (map v_code (filter (\<lambda>v. v_attempt_id v = Some k) vs))))"
      and v: "v \<in> set vs" "v_attempt_id v = Some k"
      unfolding by_attempt_def by auto
    have "v_code v \<in> set (snd entry)" using v unfolding k by auto
    then show ?thesis by auto
  qed
qed

lemma length_filter_mono: "(\<And>x. P x \<Longrightarrow> Q x) \<Longrightarrow> length (filter P xs) \<le> length (filter Q xs)"
  by (induction xs) auto

lemma named_violations_sum:
  assumes "finite K"
  shows "(\<Sum>k \<in> K. length (filter (\<lambda>v. v_attempt_id v = Some k) vs)) = length (filter (\<lambda>v. v_attempt_id v \<in> Some ` K) vs)"
proof (induction vs)
  case (Cons v vs)
  have "(\<Sum>k \<in> K. if v_attempt_id v = Some k then 1 else 0 :: nat) = (if v_attempt_id v \<in> Some ` K then 1 else 0)"
  proof (cases "v_attempt_id v")
    case (Some k)
    then show ?thesis using assms by (simp add: sum.delta' image_iff) 
  qed auto
  moreover have "length (filter (\<lambda>v. v_attempt_id v = Some k) (v # vs))
      = (if v_attempt_id v = Some k then 1 else 0) + length (filter (\<lambda>v. v_attempt_id v = Some k) vs)" for k by simp
  ultimately show ?case using Cons.IH by (simp add: sum.distrib)
qed simp

lemma by_attempt_length:
  "sum_list (map (\<lambda>entry. length (snd entry)) (by_attempt vs)) \<le> length (filter (\<lambda>v. v_attempt_id v \<noteq> None) vs)"
proof -
  let ?keys = "sort (remdups (List.map_filter v_attempt_id vs))"
  have "sum_list (map (\<lambda>entry. length (snd entry)) (by_attempt vs))
      \<le> sum_list (map (\<lambda>k. length (filter (\<lambda>v. v_attempt_id v = Some k) vs)) ?keys)"
    unfolding by_attempt_def map_map comp_def
    by (rule sum_list_mono) (metis length_map length_remdups_leq length_sort snd_conv)
  also have "\<dots> = (\<Sum>k \<in> set ?keys. length (filter (\<lambda>v. v_attempt_id v = Some k) vs))"
    by (rule sum_list_distinct_conv_sum_set) simp
  also have "\<dots> = length (filter (\<lambda>v. v_attempt_id v \<in> Some ` set ?keys) vs)" by (rule named_violations_sum) simp
  also have "\<dots> \<le> length (filter (\<lambda>v. v_attempt_id v \<noteq> None) vs)"
    by (rule length_filter_mono) auto
  finally show ?thesis .
qed

lemma actionable_report:
  assumes d: "describes db before" and ok: "check_actionable before = Inr ()"
  shows "v \<in> set (inspect_runtime_invariants db) \<Longrightarrow> v_attempt_id v \<noteq> None"
    and "c \<in> set (rep_cases before) \<Longrightarrow> case_proposal c \<noteq> NoRepairNeeded"
    and "(\<lambda>c. da_attempt_id (case_attempt c)) ` set (rep_cases before) = {k. \<exists>v \<in> set (inspect_runtime_invariants db). v_attempt_id v = Some k}"
proof -
  let ?vs = "rep_violations before"
  have vs: "set ?vs = set (inspect_runtime_invariants db)" "length ?vs = length (inspect_runtime_invariants db)"
    and cases: "map case_key (rep_cases before) = by_attempt ?vs" and count: "rep_violation_count before = length ?vs"
    using d by (simp_all add: describes_def)
  have "sum_list (map (\<lambda>c. length (case_violation_codes c)) (rep_cases before)) = sum_list (map (\<lambda>entry. length (snd entry)) (by_attempt ?vs))"
    unfolding cases[symmetric] map_map by (simp add: comp_def case_key_def)
  then have "length ?vs \<le> length (filter (\<lambda>v. v_attempt_id v \<noteq> None) ?vs)"
    using ok count by_attempt_length[of ?vs] by (simp add: check_actionable_def split: if_splits)
  then show "v_attempt_id v \<noteq> None" if "v \<in> set (inspect_runtime_invariants db)"
    using length_filter_less[of v ?vs "\<lambda>v. v_attempt_id v \<noteq> None"] that vs(1) by fastforce
  have keys: "case_key ` set (rep_cases before) = set (by_attempt ?vs)" using cases by (metis set_map)
  show "case_proposal c \<noteq> NoRepairNeeded" if c: "c \<in> set (rep_cases before)"
  proof -
    have "case_key c \<in> set (by_attempt ?vs)" using c keys by blast
    then have "case_violation_codes c \<noteq> []" using by_attempt_entries(2) by (simp add: case_key_def) (metis snd_conv)
    then show ?thesis using ok c by (auto simp: check_actionable_def list_ex_iff split: if_splits)
  qed
  have "(\<lambda>c. da_attempt_id (case_attempt c)) ` set (rep_cases before) = fst ` case_key ` set (rep_cases before)"
    by (simp add: image_image case_key_def)
  then show "(\<lambda>c. da_attempt_id (case_attempt c)) ` set (rep_cases before) = {k. \<exists>v \<in> set (inspect_runtime_invariants db). v_attempt_id v = Some k}"
    unfolding keys by_attempt_entries(1) vs(1) .
qed

lemma returns_repair_case:
  "returns (repair_case w rt dcfg request before digest at c) (\<lambda>x. case_proposal c \<noteq> NoRepairNeeded \<longrightarrow>
     (\<exists>op action. x = Some (op, action) \<and> act_attempt_id action = da_attempt_id (case_attempt c)))"
  unfolding repair_case_def Let_def
  by (cases "case_proposal c"; simp; intro returns_bind returns_eret; simp add: repair_action_def)

lemma returns_planned:
  assumes "\<And>c. c \<in> set cases \<Longrightarrow> case_proposal c \<noteq> NoRepairNeeded"
  shows "returns (emap (repair_case w rt dcfg request before digest at) cases) (\<lambda>turns.
    act_attempt_id ` snd ` set (List.map_filter (\<lambda>x. x) turns) = (\<lambda>c. da_attempt_id (case_attempt c)) ` set cases)"
proof -
  have "returns (emap (repair_case w rt dcfg request before digest at) cases) (\<lambda>turns. list_all2 (\<lambda>c x. case_proposal c \<noteq> NoRepairNeeded \<longrightarrow>
     (\<exists>op action. x = Some (op, action) \<and> act_attempt_id action = da_attempt_id (case_attempt c))) cases turns)"
    by (rule emap_returns) (rule returns_repair_case)
  moreover have "act_attempt_id ` snd ` set (List.map_filter (\<lambda>x. x) turns) = (\<lambda>c. da_attempt_id (case_attempt c)) ` set cases"
    if "list_all2 (\<lambda>c x. case_proposal c \<noteq> NoRepairNeeded \<longrightarrow>
     (\<exists>op action. x = Some (op, action) \<and> act_attempt_id action = da_attempt_id (case_attempt c))) cases turns" for turns
    using that assms
  proof (induction rule: list_all2_induct)
    case (Cons c cs x xs)
    then obtain op action where x: "x = Some (op, action)" "act_attempt_id action = da_attempt_id (case_attempt c)" by auto
    have "act_attempt_id ` snd ` set (List.map_filter (\<lambda>x. x) xs) = (\<lambda>c. da_attempt_id (case_attempt c)) ` set cs"
      using Cons by simp
    then show ?case by (simp add: map_filter_simps x)
  qed simp
  ultimately show ?thesis by (rule returns_mono)
qed

lemma repair_ensures:
  assumes idle: "others_idle rt"
  shows "ensures (repaired db log) (at_rest db log) (apply_runtime_repair w rt dcfg request) (\<lambda>report t.
    es_log t = log \<and> inspect_runtime_invariants (es_db t) = []
    \<and> rep_fingerprint (rrr_before report) = rpq_expected_fingerprint request
    \<and> (\<forall>v \<in> set (inspect_runtime_invariants db). v_attempt_id v \<noteq> None)
    \<and> act_attempt_id ` set (rrr_actions report) = {k. \<exists>v \<in> set (inspect_runtime_invariants db). v_attempt_id v = Some k})"
proof -
  have rest: "at_rest db log s \<Longrightarrow> repaired db log s" for s by (simp add: at_rest_def repaired_def)
  have clean: "at_rest db' log s \<Longrightarrow> repaired db log s" if "inspect_runtime_invariants db' = []" for db' s
    using that by (simp add: at_rest_def repaired_def)
  note asked = ensures_asked[OF idle _ returns_any rest]
  show ?thesis
    unfolding apply_runtime_repair_def Let_def
    apply (rule ensures_lifted[OF rest], assumption)
    apply (rule ensures_inspected[OF idle rest], assumption)
    apply (rule ensures_lifted[OF rest], assumption)
    apply (rule ensures_if)
     apply (rule ensures_efail, erule rest)
    apply (rule ensures_lifted[OF rest], assumption)
    apply (rule asked[OF still.verify_snapshot_keeps], assumption)
    apply (rule asked[OF still.verify_snapshot_cases_keeps], assumption)
    apply (rule ensures_lifted[OF rest], assumption)
    apply (rule asked[OF still.initialize_now_keeps], assumption)
    apply (rule asked[OF still.doctor_now_ms_keeps], assumption)
    subgoal premises p for x1 before x2 x3 digest x4 x5 x6 at
    proof -
      have actionable: "check_actionable before = Inr ()" using p(5) by (cases x3) simp
      note named = actionable_report[OF p(2) actionable]
      have fingerprint: "rep_fingerprint before = rpq_expected_fingerprint request" using p(4) by simp
      show ?thesis
        apply (rule ensures_asked[OF idle still.emap_keeps[OF still.repair_case_keeps] returns_planned[OF named(2)] rest], assumption, assumption)
        apply (rule ensures_repair_batch[OF idle])
        apply (rule ensures_inspected[OF idle clean], assumption, assumption)
        apply (rule ensures_lifted[OF clean], assumption, assumption)
        apply (rule ensures_eret)
        using named(1,3) fingerprint by (simp add: at_rest_def image_image)
    qed
    done
qed

text \<open>
  C31. Repairing a store is all or nothing.  When nobody else writes, the repair of a database in whatever
  state stops and launches nothing and either leaves the database as it was or leaves one that passes the
  inspection.  If it returns a report, the database passes the inspection, the repair was planned from
  the Doctor report the operator confirmed by its fingerprint, and it acted on exactly the Attempts that
  the violations name; a violation that names none is never passed over.
\<close>

theorem runtime_repair_all_or_nothing:
  assumes "others_idle rt" and run: "apply_runtime_repair w rt dcfg request s = (answer, t)"
  shows "es_log t = es_log s \<and> (es_db t = es_db s \<or> inspect_runtime_invariants (es_db t) = [])
    \<and> (\<forall>report. answer = Inr report \<longrightarrow>
         inspect_runtime_invariants (es_db t) = [] \<and> rep_fingerprint (rrr_before report) = rpq_expected_fingerprint request
         \<and> (\<forall>v \<in> set (inspect_runtime_invariants (es_db s)). v_attempt_id v \<noteq> None)
         \<and> act_attempt_id ` set (rrr_actions report)
           = {k. \<exists>v \<in> set (inspect_runtime_invariants (es_db s)). v_attempt_id v = Some k})"
proof -
  have s: "at_rest (es_db s) (es_log s) s" by (simp add: at_rest_def)
  note outcome = repair_ensures[OF assms(1), where w = w and dcfg = dcfg and request = request, unfolded ensures_def, rule_format, OF s]
  show ?thesis
  proof (cases answer)
    case (Inl e)
    then show ?thesis using outcome run by (simp add: repaired_def)
  next
    case (Inr report)
    then show ?thesis using outcome run by simp
  qed
qed

end
