(* ===== verification/Doctor_Witnesses.thy ===== *)
theory Doctor_Witnesses
  imports Doctor_Guarantees Storage_Guarantees Engine_Witnesses Engine_Replies
begin

text \<open>
  The administrative tools on the store of \<open>Engine_Examples\<close>: the Doctor reads the database of one accepted
  Job, and the repair confirms its report.
\<close>

definition doc_rt :: runtime where
  "doc_rt = ex_rt\<lparr>rt_io := ex_io\<lparr>io_is_file := (\<lambda>_ _. True), io_read := (\<lambda>_ _. Inr [])\<rparr>\<rparr>"

definition doc_config :: RuntimeDoctorConfig where
  "doc_config = \<lparr>dc_db_path = ''/s/db'', dc_store_root = ''/s'', dc_busy_timeout_ms = 1\<rparr>"

definition doc_schema :: schema where
  "doc_schema = \<lparr>sc_migrations = Some (map (\<lambda>m. \<lparr>sm_version = mg_version m, sm_name = mg_name m, sm_checksum = mg_checksum m,
     sm_applied_at_ms = 1\<rparr>) MIGRATIONS), sc_objects = []\<rparr>"

definition doc_world :: doctor_world where
  "doc_world = \<lparr>dw_fault = (\<lambda>_ _. None), dw_integrity = (\<lambda>_ _. ''ok''), dw_foreign_key = (\<lambda>_. None),
     dw_schema = (\<lambda>_. doc_schema), dw_conditions = (\<lambda>_. []), dw_backup = (\<lambda>_ _. en_ready), dw_storage = (\<lambda>_. storage_example),
     dw_case_print = (\<lambda>_. []), dw_report_print = (\<lambda>_. []), dw_receipt_print = (\<lambda>_. []),
     dw_stale_cancel_print = (\<lambda>_ _ _ _ _ _ _. []),
     dw_manifest_parse = (\<lambda>_. Inr [\<lparr>bf_path = ''registry.sqlite3'', bf_bytes = 1, bf_digest = ex_digest\<rparr>])\<rparr>"

definition doc_request :: RuntimeRepairRequest where
  "doc_request = \<lparr>rpq_expected_fingerprint = ex_digest, rpq_snapshot_path = ''/backup'', rpq_principal = ''operator'',
     rpq_finalize_lost_attempt_ids = []\<rparr>"

abbreviation doc_settled :: "engine_state \<Rightarrow> bool" where
  "doc_settled s \<equiv> es_db s = en_ready"

interpretation doc: answering doc_rt doc_settled
  by unfold_locales (simp add: advance_def doc_rt_def ex_rt_def ex_io_def)

lemma doc_alone: "others_idle doc_rt" "others_run doc_rt ex_cfg"
  by (simp_all add: others_idle_def others_run_def doc_rt_def ex_rt_def ex_io_def registry_run_def)

lemma doc_reach: "reachable_registry (rt_host doc_rt) ex_cfg (es_db en_start)"
  using en_reach(1) by (simp add: doc_rt_def ex_rt_sel)

lemma doc_inspection: "inspect_runtime_invariants en_ready = []"
  using doc_reach inspection_queries_empty[OF full_invD(1)[OF reachable_full_inv[OF doc_reach]]]
  by (simp add: inspect_runtime_invariants_def en_start_sel)

lemma doc_digest: "sha256_bytes (rt_host doc_rt) bytes = ex_digest"
  by (simp add: sha256_bytes_def doc_rt_def ex_rt_def engine_host_def example_host_def ex_digest_def)

lemma replies_lifted: "is_ok r \<Longrightarrow> replies I (elift r) (\<lambda>_. True)"
  by (cases r) (simp_all add: is_ok_def replies_def elift_def)

lemma doc_statement: "replies doc_settled (doctor_statement doc_world doc_rt context) (\<lambda>_. True)"
  unfolding doctor_statement_def by (rule doc.ask_result) (simp add: doc_world_def)

lemma doc_statements: "replies doc_settled (eforeach (doctor_statement doc_world doc_rt) contexts) (\<lambda>_. True)"
  by (induction contexts) (auto intro: replies_eret replies_bind[OF doc_statement])

lemma doc_now: "replies doc_settled (doctor_now_ms doc_rt) (\<lambda>_. True)"
  unfolding doctor_now_ms_def by (rule doc.ask_result) (simp add: doc_rt_def ex_io_def)

lemma doc_version: "doctor_migration_version doc_schema = Inr 6"
  by (simp add: doctor_migration_version_def max_version_def doc_schema_def MIGRATIONS_def MIGRATION_V1_def LATER_MIGRATIONS_def
      MAX_MIGRATION_VERSION_def)

lemma doc_checks: "replies doc_settled (doctor_checks doc_world doc_rt doc_config) (\<lambda>x. fst (snd x) = 6)"
  unfolding doctor_checks_def
  apply (rule replies_bind[OF doc_statements])
  apply (rule replies_bind[OF doc.ask[where P = "\<lambda>x. x = ''ok''"]])
   apply (simp add: doc_world_def)
  apply simp
  apply (rule replies_bind[OF doc_statement])
  apply (rule replies_bind[OF doc.ask[where P = "\<lambda>x. x = None"]])
   apply (simp add: doc_world_def)
  apply simp
  apply (rule replies_bind[OF doc_statement])
  apply (rule replies_bind[OF doc.ask[where P = "\<lambda>x. fst x = doc_schema"]])
   apply (simp add: doc_world_def)
  apply (simp add: case_prod_beta)
  apply (rule replies_bind[OF replies_elift[OF doc_version, where P = "\<lambda>x. x = 6"]])
   apply simp
  apply (rule replies_eret, simp)
  done

lemma doc_summary: "replies doc_settled (inspect_summary doc_world doc_rt db conditions version) (\<lambda>_. True)"
proof -
  have count: "replies doc_settled (count_query doc_world doc_rt what n) (\<lambda>_. True)" for n and what
    unfolding count_query_def by (rule replies_bind[OF doc_statement replies_eret]) simp
  have grouped: "replies doc_settled (grouped_counts doc_world doc_rt what xs) (\<lambda>_. True)" for xs and what
    unfolding grouped_counts_def by (rule replies_bind[OF doc_statement replies_eret]) simp
  have row: "replies doc_settled (ebind (doctor_statement doc_world doc_rt what) (\<lambda>_. eret x)) (\<lambda>_. True)" for what
      and x :: RuntimeDoctorCapacityHolder
    by (rule replies_bind[OF doc_statement replies_eret]) simp
  show ?thesis
    unfolding inspect_summary_def
    by (rule replies_bind[OF count] replies_bind[OF grouped] replies_bind[OF doc_statement] replies_bind[OF replies_emap[OF row]]
        replies_eret TrueI)+
qed

lemma doc_validate: "replies doc_settled (doctor_validate_config doc_rt doc_config) (\<lambda>_. True)"
  unfolding doctor_validate_config_def path_is_file_def
  apply (rule replies_bind[OF replies_elift[where P = "\<lambda>_. True"]])
    apply (simp add: registry_config_validate_def doc_config_def path_is_absolute_def starts_with_def)
   apply simp
  apply (rule replies_bind[OF doc.ask[where P = "\<lambda>x. x"]])
   apply (simp add: doc_rt_def)
  apply (simp add: replies_eret)
  done

lemma doc_inspect:
  "replies doc_settled (inspect_runtime doc_world doc_rt doc_config) (\<lambda>report. rep_migration_version report = MAX_MIGRATION_VERSION
     \<and> rep_fingerprint report = ex_digest \<and> rep_cases report = [] \<and> rep_violation_count report = 0)"
  unfolding inspect_runtime_def Let_def
  apply (rule replies_bind[OF doc_validate])
  apply (rule replies_bind[OF doc_checks])
  apply (simp only: case_prod_beta)
  apply (rule replies_bind[OF doc.read[where P = "\<lambda>db. db = en_ready"]])
   apply simp
  apply (simp add: doc_inspection by_attempt_def map_filter_simps)
  apply (rule replies_bind[OF replies_eret[where P = "\<lambda>x. x = []"]])
   apply simp
  apply (rule replies_bind[OF doc_summary])
  apply (rule replies_bind[OF doc_now])
  apply (rule replies_eret)
  apply (simp add: doc_digest MAX_MIGRATION_VERSION_def)
  done


text \<open>The repair of the clean store: the backup is verified, nothing is planned, the report is returned.\<close>

lemma doc_snapshot: "replies doc_settled (verify_snapshot doc_world doc_rt path) (\<lambda>_. True)"
proof -
  let ?b = "\<lparr>bf_path = ''registry.sqlite3'', bf_bytes = 1, bf_digest = ex_digest\<rparr>"
  have safe: "only_normal_components ''registry.sqlite3''" by code_simp
  have "replies doc_settled (verify_backup_file doc_rt path ?b) (\<lambda>x. True)"
    unfolding verify_backup_file_def Let_def repair_sha256_file_def using safe
    apply simp
    apply (rule replies_bind[OF doc.ask_result[where P = "\<lambda>x. x = ex_executable"]])
     apply (simp add: doc_rt_def ex_io_def map_err_def)
    apply (simp add: ex_executable_def)
    apply (rule replies_bind[OF doc.ask_result[where P = "\<lambda>x. x = ex_digest"]])
     apply (simp add: doc_rt_def ex_io_def map_err_def)
    apply (simp add: replies_eret)
    done
  then have entry: "replies doc_settled (emap (verify_backup_file doc_rt path) [?b]) (\<lambda>x. length x = 1)"
    unfolding emap.simps by (elim replies_bind) (rule replies_bind[OF replies_eret[where P = "\<lambda>x. x = []"]], simp, simp add: replies_eret)
  show ?thesis
    unfolding verify_snapshot_def read_file_def
    apply (rule replies_bind[OF doc.ask_result[where P = "\<lambda>_. True"]])
     apply (simp add: doc_rt_def map_err_def)
    apply (rule replies_bind[OF replies_elift[where P = "\<lambda>x. x = [?b]"]])
      apply (simp add: doc_world_def map_err_def)
     apply simp
    apply (simp only:)
    apply (rule replies_bind[OF entry])
    apply (rule replies_bind[OF replies_lifted])
     apply (auto simp: ok_or_def length_Suc_conv is_ok_def)[1]
    apply (rule replies_bind[OF doc_statements])
    apply (rule replies_bind[OF doc.ask[where P = "\<lambda>x. x = ''ok''"]])
     apply (simp add: doc_world_def)
    apply (simp add: replies_eret)
    done
qed

lemma doc_initialize: "replies doc_settled (initialize_now doc_world doc_rt doc_config) (\<lambda>_. True)"
proof -
  let ?cfg = "\<lparr>rc_db_path = dc_db_path doc_config, rc_store_root = dc_store_root doc_config, rc_busy_timeout_ms = dc_busy_timeout_ms doc_config\<rparr>"
  have "migrated 6 doc_schema" by (simp add: migrated_def recorded_def doc_schema_def comp_def MIGRATIONS_def LATER_MIGRATIONS_def)
  moreover have "storage_healthy storage_example ?cfg"
    by (simp add: storage_healthy_def storage_example_def doc_config_def now_ms_def open_connection_def registry_config_validate_def
      path_is_absolute_def starts_with_def eq_ignore_ascii_case_def)
  ultimately have "fst (registry_initialize storage_example ?cfg doc_schema) = Inr ()"
    using initialize_moves[of 6 doc_schema storage_example ?cfg] unfolding moves_on_def
    by (cases "registry_initialize storage_example ?cfg doc_schema") simp
  then show ?thesis unfolding initialize_now_def by (intro doc.ask_result) (simp add: doc_world_def)
qed

lemma doc_batch: "replies doc_settled (repair_admin_batch_now doc_rt []) (\<lambda>_. True)"
proof -
  have "repair_admin_batch h (ex_env tag) en_ready [] = (Inr (), en_ready)" for h tag
    by (simp add: repair_admin_batch_def transact_def in_transaction_def repair_admin_batch_tx_def doc_inspection immediate_def open_connection_def ex_env_def)
  then show ?thesis
    by (simp add: replies_def repair_admin_batch_now_def registry_op_def Let_def advance_def doc_rt_def ex_rt_def ex_io_def)
qed

lemma doc_cases: "replies doc_settled (verify_snapshot_cases doc_world doc_rt path []) (\<lambda>_. True)"
  unfolding verify_snapshot_cases_def by (rule replies_bind[OF doc_statements]) (simp add: replies_eret)

lemma doc_repair:
  "replies doc_settled (apply_runtime_repair doc_world doc_rt doc_config doc_request) (\<lambda>_. True)"
proof -
  have valid: "validate_request doc_request = Inr ()" by code_simp
  show ?thesis
    unfolding apply_runtime_repair_def Let_def
    apply (rule replies_bind[OF replies_lifted])
     apply (simp add: valid is_ok_def)
    apply (rule replies_bind[OF doc_inspect])
    subgoal premises p for x before
    proof -
      have checks: "require_schema ''Runtime repair'' before = Inr ()" "check_actionable before = Inr ()" "check_selection doc_request before = Inr ()"
        "rep_fingerprint before = rpq_expected_fingerprint doc_request" "rep_cases before = []"
        using p by (simp_all add: require_schema_def check_actionable_def check_selection_def manual_attempts_def doc_request_def)
      show ?thesis
        unfolding checks emap.simps
        apply (rule replies_bind[OF replies_lifted])
         apply (simp add: is_ok_def)
        apply simp
        apply (rule replies_bind[OF replies_lifted])
         apply (simp add: is_ok_def)
        apply (rule replies_bind[OF doc_snapshot])
        apply (rule replies_bind[OF doc_cases])
        apply (rule replies_bind[OF replies_lifted])
         apply (simp add: is_ok_def)
        apply (rule replies_bind[OF doc_initialize])
        apply (rule replies_bind[OF doc_now])
        apply (rule replies_bind[OF replies_eret[where P = "\<lambda>x. x = []"]], simp)
        apply (simp add: map_filter_simps)
        apply (rule replies_bind[OF doc_batch])
        apply (rule replies_bind[OF doc_inspect])
        apply (rule replies_bind[OF replies_lifted])
         apply (simp add: require_clean_def is_ok_def)
        apply (rule replies_eret, simp)
        done
    qed
    done
qed

theorem runtime_repair_all_or_nothing_witness:
  "\<exists>report t. apply_runtime_repair doc_world doc_rt doc_config doc_request en_start = (Inr report, t)
     \<and> inspect_runtime_invariants (es_db t) = [] \<and> rep_fingerprint (rrr_before report) = rpq_expected_fingerprint doc_request
     \<and> es_log t = es_log en_start"
proof -
  from doc_repair obtain report t where run: "apply_runtime_repair doc_world doc_rt doc_config doc_request en_start = (Inr report, t)"
    by (rule repliesE[where s = en_start]) (simp_all add: en_start_sel)
  from runtime_repair_all_or_nothing[OF doc_alone(1) run] run show ?thesis by blast
qed

end
