(* ===== verification/Spec2Isabelle.thy ===== *)
theory Spec2Isabelle
  imports Registry_Witnesses Proposal_Witnesses Storage_Guarantees Doctor_Witnesses
begin

text \<open>
  A verification of the Ordivon Runtime, the Rust crate \<open>crates/ordivon-runtime-core\<close> of this repository.
  Paths such as \<open>runtime/registry.rs\<close> are below \<open>src/crates/ordivon-runtime-core/src/\<close>.

  \<^bold>\<open>The program.\<close>  A client proposes an execution in a Workspace.  The \<^emph>\<open>engine\<close> (\<open>runtime/engine.rs\<close>,
  \<open>runtime/engine/*.rs\<close>) identifies and validates the proposal, resolves it against the Workspace and submits
  it to the \<^emph>\<open>registry\<close> (\<open>runtime/registry.rs\<close>, \<open>runtime/registry/*.rs\<close>), a SQLite database that holds Jobs,
  their Attempts, capacity reservations, idempotency keys, artifacts and an event log.  Once a Job is
  durable the engine publishes the bundle of its Attempt, records the dispatch, starts a systemd unit or a
  Windows launcher, binds the evidence of the start, and later reconciles what the registry says with what
  the host shows, until the Attempt is terminal.  Commits can fail or be lost, processes can disappear,
  several Runtimes can work on one database; the registry is what they all agree on.  The \<^emph>\<open>Doctor\<close>
  (\<open>runtime/doctor.rs\<close>) inspects a store without writing, and the \<^emph>\<open>administrative repair\<close>
  (\<open>runtime/repair.rs\<close>) acts on what it found.

  \<^bold>\<open>Conventions.\<close>  A \<open>Result\<close> is a sum with the \<open>RuntimeError\<close> on the left, so every early return is a branch;
  structs are records and enums datatypes under the source's names.  A table is a list of rows and a SQL
  statement a function on it.  A registry operation maps the database to its answer and the next database;
  what SQLite does (a statement that fails, a commit that fails before or after it became durable, a reload
  that fails) is its argument \<open>sql_env\<close>.  An engine program is a function on \<open>engine_state\<close>: the moment, the
  database, and a log of every launch, stop and termination together with the database at that moment.
  Whenever a program asks the world the moment advances and other writers may have moved the database.
  Numbers are \<open>nat\<close> or \<open>int\<close>; where the code checks a width the bound is written out.

  \<^bold>\<open>Theories of the model\<close>, in the order they build on each other:
  \<^item> \<open>Prelude\<close>: results, tables, the locales \<open>keyed_rows\<close> (a table with a key) and \<open>invariant_system\<close>
    (reachable states), shared lemmas.  \<open>Unix_Path\<close>: \<open>std::path\<close> on Unix.  \<open>Runtime_Error\<close>: \<open>runtime/error.rs\<close>.
  \<^item> \<open>Runtime_Types\<close>, \<open>Request_Identity\<close>: \<open>runtime/types.rs\<close>, with the locale \<open>db_codec\<close> interpreted for each stored
    enumeration, and the digests that identify a request.  \<open>Supervisor\<close>: \<open>runtime/supervisor.rs\<close>.
    \<open>Host\<close>: the parameters described below.  \<open>Exec_Payload\<close>: \<open>universal/fsutil.rs\<close> and the command-line
    checks of \<open>runtime/windows.rs\<close>.
  \<^item> \<open>Registry_Validation\<close>, \<open>Registry_State\<close>: \<open>runtime/registry.rs\<close> and the tables and triggers of
    \<open>migrations/runtime/*.sql\<close>; \<open>inspect_runtime_invariants\<close>.  \<open>Registry_Admission\<close>, \<open>Registry_Lifecycle\<close>,
    \<open>Registry_Recovery\<close>, \<open>Registry_Query\<close>, \<open>Registry_Storage\<close>: \<open>admission.rs\<close>, \<open>lifecycle.rs\<close>, \<open>recovery.rs\<close> with
    \<open>reconciliation.rs\<close>, \<open>query.rs\<close> and \<open>storage.rs\<close> of \<open>runtime/registry/\<close>, one definition per function.
  \<^item> \<open>Engine_Requests\<close>, \<open>Engine_Inputs\<close>: request checks and canonical bindings of
    \<open>runtime/engine/control_query.rs\<close>.  \<open>Engine_World\<close>: evidence records, the world and engine programs.
    \<open>Engine_Evidence\<close>, \<open>Engine_Output\<close>, \<open>Engine_Observe\<close>: \<open>runtime/evidence.rs\<close>, the readers of
    \<open>runtime/platform/linux.rs\<close>, the output ranges of \<open>runtime/engine.rs\<close>, what an observer is shown.
    \<open>Launch_Command\<close>: the \<open>systemd-run\<close> command line of \<open>runtime/platform/linux.rs\<close>.
  \<^item> \<open>Engine_Start\<close>, \<open>Engine_Ownership\<close>, \<open>Engine_Dispatch\<close>: \<open>runtime/engine/execution.rs\<close>, from the bundle to
    the bound start.  \<open>Engine_Reconcile\<close>, \<open>Engine_Operations\<close>: \<open>runtime/engine/reconciliation.rs\<close>, cancellation,
    maintenance and artifacts.  \<open>Workspace_Records\<close>, \<open>Engine_Admission\<close>: \<open>universal/workspace/records.rs\<close> and
    \<open>paths_git.rs\<close> as far as the engine reads Workspaces, \<open>runtime/engine/admission.rs\<close> and \<open>release.rs\<close>.
  \<^item> \<open>Runtime_Doctor\<close>, \<open>Runtime_Repair\<close>: \<open>runtime/doctor.rs\<close> and \<open>runtime/repair.rs\<close>.

  \<^bold>\<open>The specification.\<close>  \<open>Job_Machine\<close> is the abstract machine one Job follows, an inductive step relation on
  \<open>job_view\<close> whose steps carry the event types they log.  \<open>Registry_Statements\<close> and \<open>Registry_Refinement\<close> show
  that every transaction is a step of it or changes nothing; \<open>Registry_Invariant\<close> defines
  \<open>registry_step\<close>, one clause per operation with arbitrary arguments and faults, and \<open>Registry_Safety\<close> proves its
  invariants through the interpretation \<open>registry_runs\<close>.  \<open>reachable_registry\<close> means reachable by these
  steps from the empty database.

  \<^bold>\<open>What is proved.\<close>
  \<^item> Registry: what the tables and the log hold about a Job is a run of the Job machine (\<open>Job_Traces\<close>); an
    Attempt is dispatched at most once, a Workspace never has two executions, the log only grows,
    resolutions only sharpen, the inspection of a reachable database is clean (\<open>Registry_Guarantees\<close>);
    admission is idempotent, respects the capacity limits and reports a failed commit exactly
    (\<open>Admission_Guarantees\<close>); terminal commits are durable and final, cancellations take effect, projections are
    truthful (\<open>Lifecycle_Guarantees\<close>); an unresolved Job can always be finished (\<open>Progress_Guarantees\<close>); recovery and
    the maintenance scan (\<open>Recovery_Guarantees\<close>); admitted requests read back and listing by pages is
    complete (\<open>Query_Guarantees\<close>); an interrupted initialisation resumes (\<open>Storage_Guarantees\<close>); accepted requests are
    well formed (\<open>Validation_Guarantees\<close>).
  \<^item> Engine: \<open>Engine_Logic\<close>, \<open>Admission_Logic\<close> and \<open>Admin_Logic\<close> are a program logic.  \<open>keeps R m\<close> says that
    \<open>m\<close> relates its first and last state by \<open>R\<close> whether it returns or fails; the locales \<open>engine_asks\<close>,
    \<open>engine_moves\<close>, \<open>engine_deadline\<close>, \<open>engine_dispatch\<close>, \<open>engine_calls\<close> and \<open>engine_admission\<close> say what \<open>R\<close> must
    contain for the programs of each layer.  \<open>Engine_Effects\<close> interprets them for the invariant that ties the
    log of effects to the registry: for any sequence of calls the database changes only by registry steps,
    an Attempt is launched at most once and after its durable dispatch, and every stop has a durable
    reason.  \<open>Engine_Termination\<close>: cancelling a Job ends.  \<open>Engine_Guarantees\<close>: a Runner result settles its Job,
    maintenance reports add up.  \<open>Proposal_Guarantees\<close>: a client request names one Job.
    \<open>Confinement_Guarantees\<close>, \<open>Launch_Guarantees\<close>: executions stay in their Workspace and are confined.
    \<open>Output_Guarantees\<close>: reading output by pages gives back the file.  \<open>Request_Guarantees\<close>: requests are judged
    once, canonical inputs are normal forms.
  \<^item> Administrative tools: \<open>Doctor_Guarantees\<close>, the truth of a Doctor report and the repair that is all or
    nothing.
  \<^item> \<open>Registry_Examples\<close>, \<open>Engine_Examples\<close>, \<open>Engine_Replies\<close> and the \<open>_Witnesses\<close> theories apply the properties to
    concrete databases, hosts and requests, evaluated in the kernel.
  \<^item> Two theorems record behaviour the code hardly intends: a cancellation of an orphaned Job whose commit was
    lost is acknowledged (\<open>Lifecycle_Guarantees\<close>), and after a malformed byte an offset returned by one read of an
    output is refused by the next (\<open>Output_Guarantees\<close>).

  \<^bold>\<open>Parameters.\<close>  Code outside the repository and the machine below it are arguments.  \<open>host\<close>: SHA-256, the JSON
  printers and parsers, Unicode lower case, page size and \<open>ARG_MAX\<close>.  \<open>io\<close>: files, directories, systemd,
  processes, launchers, clocks, identifiers and the other writers, each an arbitrary function of the moment.
  \<open>evidence_codec\<close>: the JSON of evidence files.  \<open>storage_env\<close> and \<open>doctor_world\<close>: faults, pragmas, backups and
  report printers.  What a property needs of them is a named hypothesis, such as \<open>sha256_hex_shape\<close> (digests
  are 64 hexadecimal digits), \<open>json_reads_back\<close> (what serde prints it reads), \<open>others_run\<close> (other writers use the
  registry's operations), \<open>start_evidence_stays\<close> and \<open>links_stand_still\<close> (files do not vanish or move meanwhile).
  Injectivity of SHA-256 is never assumed.

  \<^bold>\<open>Loops and bounds.\<close>  Loops over data are structural recursion.  A loop that polls until a deadline takes the
  number of polls the clock grants (\<open>io_polls\<close>), an arbitrary number.  The loop of a Windows cancellation
  may go round without looking at the clock; it has a bound \<open>turns\<close> and the value \<open>None\<close> for going on, and three
  turns more than the polls are shown to be enough.  Descending into a directory stops at \<open>PATH_MAX\<close> levels,
  which no path exceeds.  The two loops that prepare the temporary presentation make the two rounds the code
  makes.  Following pages of Jobs or of output has fuel, and the theorems show how much is enough: one
  more page than matching Jobs, one page per byte.

  \<^bold>\<open>Not modelled.\<close>  The inspection reports (\<open>runtime/inspection/\<close>), which only format rows; the Windows
  broker and access control (named pipes, tokens); the Runner itself (\<open>universal/runner.rs\<close>: child
  processes, pipes, signals), known only by the evidence it leaves; creation, mutation, diffs and closing of
  Workspaces (Git and file contents); loading the configuration; the background threads, whose interleaving
  is the other writers of \<open>io\<close>; the MCP server and the command-line tools, which only call the crate.  Of a
  migration the model keeps the tables and indexes it makes or drops, not the SQL text.
\<close>

end
